(* ===== verification/Prelude.thy ===== *)
theory Prelude
  imports Main "HOL-Library.Word" "HOL-Library.Monad_Syntax"
begin

unbundle bit_operations_syntax

text \<open>
  Shared vocabulary of the development.

  \<^item> Rust's fixed-width integers are words of \<^verbatim>\<open>HOL-Library.Word\<close>.
  \<^item> \<^verbatim>\<open>Result<T, E>\<close> is the sum \<open>'e + 'a\<close> with the error on the left; \<open>bindE\<close>
    is the \<open>?\<close> operator on it, \<open>ok_or\<close> and \<open>ok_opt\<close> are \<^verbatim>\<open>Option::ok_or\<close> and
    \<^verbatim>\<open>Result::ok\<close>, and \<open>mapE\<close> is \<^verbatim>\<open>iter().map(f).collect::<Result<Vec<_>, _>>()\<close>.
  \<^item> The \<open>?\<close> operator on \<^verbatim>\<open>Option\<close> is the \<^verbatim>\<open>do\<close> notation on \<open>option\<close>.
  \<^item> Decimal printing (\<^verbatim>\<open>to_string\<close>) and \<^verbatim>\<open>u8::from_str\<close> are \<open>dec\<close> and \<open>parse_uint\<close>.
\<close>

type_synonym u8 = "8 word"
type_synonym u16 = "16 word"
type_synonym u32 = "32 word"
type_synonym u64 = "64 word"
type_synonym bytes = "8 word list"

named_theorems result_simps \<open>inversion of the result combinators\<close>

subsection \<open>Results\<close>

definition bindE :: "'e + 'a \<Rightarrow> ('a \<Rightarrow> 'e + 'b) \<Rightarrow> 'e + 'b" where
  "bindE m f = (case m of Inl e \<Rightarrow> Inl e | Inr x \<Rightarrow> f x)"

lemma bindE_Inl [simp]: "bindE (Inl e) f = Inl e"
  by (simp add: bindE_def)

lemma bindE_Inr [simp]: "bindE (Inr x) f = f x"
  by (simp add: bindE_def)

lemma bindE_eq_Inr [result_simps]: "(bindE m f = Inr y) = (\<exists>x. m = Inr x \<and> f x = Inr y)"
  by (cases m) simp_all

lemma bindE_eq_Inl [result_simps]:
  "(bindE m f = Inl e) = (m = Inl e \<or> (\<exists>x. m = Inr x \<and> f x = Inl e))"
  by (cases m) simp_all

lemma bindE_assoc: "bindE (bindE m f) g = bindE m (\<lambda>x. bindE (f x) g)"
  by (cases m) simp_all

lemma bindE_cong [fundef_cong]:
  "m = m' \<Longrightarrow> (\<And>x. m' = Inr x \<Longrightarrow> f x = f' x) \<Longrightarrow> bindE m f = bindE m' f'"
  by (cases m') simp_all

definition ok_or :: "'e \<Rightarrow> 'a option \<Rightarrow> 'e + 'a" where
  "ok_or e x = (case x of None \<Rightarrow> Inl e | Some y \<Rightarrow> Inr y)"

lemma ok_or_simps [simp]: "ok_or e None = Inl e" "ok_or e (Some y) = Inr y"
  by (simp_all add: ok_or_def)

lemma ok_or_eq [result_simps]:
  "(ok_or e x = Inr y) = (x = Some y)" "(ok_or e x = Inl e') = (x = None \<and> e = e')"
  by (auto simp: ok_or_def split: option.splits)

definition ok_opt :: "'e + 'a \<Rightarrow> 'a option" where
  "ok_opt r = (case r of Inl _ \<Rightarrow> None | Inr x \<Rightarrow> Some x)"

lemma ok_opt_simps [simp]: "ok_opt (Inl e) = None" "ok_opt (Inr x) = Some x"
  by (simp_all add: ok_opt_def)

lemma ok_opt_eq [result_simps]:
  "(ok_opt r = Some x) = (r = Inr x)" "(ok_opt r = None) = (\<exists>e. r = Inl e)"
  by (cases r; simp)+

definition map_err :: "('e \<Rightarrow> 'f) \<Rightarrow> 'e + 'a \<Rightarrow> 'f + 'a" where
  "map_err g r = (case r of Inl e \<Rightarrow> Inl (g e) | Inr x \<Rightarrow> Inr x)"

lemma map_err_simps [simp]: "map_err g (Inl e) = Inl (g e)" "map_err g (Inr x) = Inr x"
  by (simp_all add: map_err_def)

lemma map_err_eq [result_simps]:
  "(map_err g r = Inr x) = (r = Inr x)"
  "(map_err g r = Inl f) = (\<exists>e. r = Inl e \<and> f = g e)"
  by (cases r; auto)+

fun mapE :: "('a \<Rightarrow> 'e + 'b) \<Rightarrow> 'a list \<Rightarrow> 'e + 'b list" where
  "mapE f [] = Inr []"
| "mapE f (x # xs) = bindE (f x) (\<lambda>y. bindE (mapE f xs) (\<lambda>ys. Inr (y # ys)))"

lemma mapE_Inr: "(mapE f xs = Inr ys) = list_all2 (\<lambda>x y. f x = Inr y) xs ys"
  by (induction xs arbitrary: ys) (auto simp: result_simps list_all2_Cons1)

definition guardE :: "bool \<Rightarrow> 'e \<Rightarrow> 'e + unit" where
  "guardE b e = (if b then Inr () else Inl e)"

lemma guardE_simps [simp]: "guardE True e = Inr ()" "guardE False e = Inl e"
  by (simp_all add: guardE_def)

lemma guardE_eq [result_simps]:
  "(guardE b e = Inr u) = b" "(guardE b e = Inl e') = (\<not> b \<and> e = e')"
  by (auto simp: guardE_def)

subsection \<open>Checked arithmetic\<close>

definition checked_add :: "'a::len word \<Rightarrow> 'a word \<Rightarrow> 'a word option" where
  "checked_add a b = (if unat a + unat b < 2 ^ LENGTH('a) then Some (a + b) else None)"

lemma checked_add_Some:
  "(checked_add (a :: 'a::len word) b = Some c) =
     (unat a + unat b < 2 ^ LENGTH('a) \<and> c = a + b)"
  by (auto simp: checked_add_def)

lemma unat_checked_add: "checked_add a b = Some c \<Longrightarrow> unat c = unat a + unat b"
  by (auto simp: checked_add_Some unat_word_ariths)

subsection \<open>Widening and truncation\<close>

lemma u32_bound: "unat (x :: u32) < 4294967296"
proof -
  have "unat x < 2 ^ LENGTH(32)" by (rule unsigned_less)
  then show ?thesis by simp
qed

lemma unat_ucast_u32_u64 [simp]: "unat (ucast (x :: u32) :: u64) = unat x"
  using u32_bound [of x] by (simp add: unsigned_ucast_eq take_bit_nat_eq_self)

lemma unat_ucast_u64_u32: "unat (y :: u64) < 4294967296 \<Longrightarrow> unat (ucast y :: u32) = unat y"
  by (simp add: unsigned_ucast_eq take_bit_nat_eq_self)

subsection \<open>Decimal numbers\<close>

definition digit_char :: "nat \<Rightarrow> char" where
  "digit_char d = char_of (48 + d)"

definition digit_val :: "char \<Rightarrow> nat option" where
  "digit_val c = (let n = of_char c :: nat in if 48 \<le> n \<and> n \<le> 57 then Some (n - 48) else None)"

fun dec :: "nat \<Rightarrow> string" where
  "dec n = (if n < 10 then [digit_char n] else dec (n div 10) @ [digit_char (n mod 10)])"

declare dec.simps [simp del]

fun parse_digits :: "nat \<Rightarrow> nat \<Rightarrow> string \<Rightarrow> nat option" where
  "parse_digits m a [] = Some a"
| "parse_digits m a (c # cs) =
     (case digit_val c of
        None \<Rightarrow> None
      | Some d \<Rightarrow> if a * 10 + d > m then None else parse_digits m (a * 10 + d) cs)"

definition parse_uint :: "nat \<Rightarrow> string \<Rightarrow> nat option" where
  "parse_uint m s =
     (case s of
        [] \<Rightarrow> None
      | c # cs \<Rightarrow>
          if c = CHR ''+'' then (if cs = [] then None else parse_digits m 0 cs)
          else parse_digits m 0 s)"

lemma digit_val_char [simp]: "d < 10 \<Longrightarrow> digit_val (digit_char d) = Some d"
  by (simp add: digit_val_def digit_char_def Let_def)

lemma digit_char_not_plus: "d < 10 \<Longrightarrow> digit_char d \<noteq> CHR ''+''"
proof
  assume "d < 10" and "digit_char d = CHR ''+''"
  then have "of_char (digit_char d) = (43 :: nat)" by simp
  with \<open>d < 10\<close> show False by (simp add: digit_char_def)
qed

lemma parse_digits_append:
  "parse_digits m a (xs @ ys) =
     (case parse_digits m a xs of None \<Rightarrow> None | Some b \<Rightarrow> parse_digits m b ys)"
  by (induction xs arbitrary: a) (auto split: option.splits)

lemma parse_digits_bound: "parse_digits m a s = Some n \<Longrightarrow> a \<le> m \<Longrightarrow> n \<le> m"
  by (induction s arbitrary: a) (auto split: option.splits if_splits)

lemma parse_uint_bound: "parse_uint m s = Some n \<Longrightarrow> n \<le> m"
  by (auto simp: parse_uint_def simp del: parse_digits.simps
      split: list.splits if_splits dest: parse_digits_bound)

lemma parse_digits_dec: "n \<le> m \<Longrightarrow> parse_digits m 0 (dec n) = Some n"
proof (induction n rule: dec.induct)
  case (1 n)
  show ?case
  proof (cases "n < 10")
    case True
    with "1.prems" show ?thesis by (subst dec.simps) simp
  next
    case False
    with "1" have "parse_digits m 0 (dec (n div 10)) = Some (n div 10)" by simp
    with False "1.prems" show ?thesis by (subst dec.simps) (simp add: parse_digits_append)
  qed
qed

lemma dec_head: "\<exists>c cs. dec n = c # cs \<and> c \<noteq> CHR ''+''"
proof (induction n rule: dec.induct)
  case (1 n)
  show ?case
  proof (cases "n < 10")
    case True
    then show ?thesis by (subst dec.simps) (simp add: digit_char_not_plus)
  next
    case False
    with "1" show ?thesis by (subst dec.simps) auto
  qed
qed

lemma parse_uint_dec: "n \<le> m \<Longrightarrow> parse_uint m (dec n) = Some n"
  using dec_head [of n] parse_digits_dec [of n m] by (auto simp: parse_uint_def)

subsection \<open>First index\<close>

fun first_index :: "('a \<Rightarrow> bool) \<Rightarrow> nat \<Rightarrow> 'a list \<Rightarrow> nat option" where
  "first_index P i [] = None"
| "first_index P i (x # xs) = (if P x then Some i else first_index P (Suc i) xs)"

lemma first_index_Some:
  "first_index P i xs = Some m \<Longrightarrow>
     i \<le> m \<and> m - i < length xs \<and> P (xs ! (m - i)) \<and> (\<forall>j < m - i. \<not> P (xs ! j))"
proof (induction xs arbitrary: i)
  case Nil
  then show ?case by simp
next
  case (Cons x xs)
  show ?case
  proof (cases "P x")
    case True
    with Cons.prems show ?thesis by simp
  next
    case False
    with Cons.prems have "first_index P (Suc i) xs = Some m" by simp
    then have ih: "Suc i \<le> m \<and> m - Suc i < length xs \<and> P (xs ! (m - Suc i)) \<and>
        (\<forall>j < m - Suc i. \<not> P (xs ! j))"
      by (rule Cons.IH)
    then have "Suc i \<le> m" by blast
    then have "m - i = Suc (m - Suc i)" by arith
    with ih False show ?thesis by (auto simp: less_Suc_eq_0_disj)
  qed
qed

lemma first_index_None: "first_index P i xs = None \<longleftrightarrow> (\<forall>x \<in> set xs. \<not> P x)"
  by (induction xs arbitrary: i) auto

definition or_else :: "'a option \<Rightarrow> 'a option \<Rightarrow> 'a option" where
  "or_else a b = (case a of None \<Rightarrow> b | Some x \<Rightarrow> Some x)"

lemma or_else_simps [simp]: "or_else None b = b" "or_else (Some x) b = Some x"
  by (simp_all add: or_else_def)

subsection \<open>Loops over a list\<close>

text \<open>\<open>eachE f xs\<close> is \<^verbatim>\<open>for x in xs { f(x)?; }\<close>, \<open>update_first\<close> an assignment through
  \<^verbatim>\<open>iter_mut().find(..)\<close>.\<close>

fun eachE :: "('a \<Rightarrow> 'e + unit) \<Rightarrow> 'a list \<Rightarrow> 'e + unit" where
  "eachE f [] = Inr ()"
| "eachE f (x # xs) = bindE (f x) (\<lambda>_. eachE f xs)"

lemma eachE_Inr: "eachE f xs = Inr u \<longleftrightarrow> (\<forall>x \<in> set xs. f x = Inr ())"
  by (induction xs) (auto simp: result_simps)

lemma eachE_Inl: "eachE f xs = Inl e \<Longrightarrow> \<exists>x \<in> set xs. f x = Inl e"
  by (induction xs) (auto simp: result_simps)

fun update_first :: "('a \<Rightarrow> bool) \<Rightarrow> ('a \<Rightarrow> 'a) \<Rightarrow> 'a list \<Rightarrow> 'a list" where
  "update_first P f [] = []"
| "update_first P f (x # xs) = (if P x then f x # xs else x # update_first P f xs)"

lemma map_update_first: "(\<And>x. g (f x) = g x) \<Longrightarrow> map g (update_first P f xs) = map g xs"
  by (induction xs) simp_all

lemma find_update_first_same:
  "(\<And>x. P (f x) = P x) \<Longrightarrow> find P (update_first P f xs) = map_option f (find P xs)"
  by (induction xs) simp_all

lemma find_update_first_other:
  "(\<And>x. Q (f x) = Q x) \<Longrightarrow> (\<And>x. P x \<Longrightarrow> \<not> Q x) \<Longrightarrow> find Q (update_first P f xs) = find Q xs"
  by (induction xs) simp_all

lemma find_append: "find P (xs @ ys) = (case find P xs of None \<Rightarrow> find P ys | Some x \<Rightarrow> Some x)"
  by (induction xs) simp_all

lemma find_SomeD: "find P xs = Some x \<Longrightarrow> P x \<and> x \<in> set xs"
  by (induction xs) (auto split: if_splits)

lemma find_distinct_key:
  "distinct (map key cs) \<Longrightarrow> c \<in> set cs \<Longrightarrow> find (\<lambda>x. key x = key c) cs = Some c"
  by (induction cs) (auto simp: image_iff)

end
