(* ===== verification/Sdp.thy ===== *)
theory Sdp
  imports Prelude
begin

text \<open>
  The parts of the \<^verbatim>\<open>shiguredo_webrtc\<close> crate that the codec components pass around, and
  the codec direction of \<^verbatim>\<open>src/codec_direction.rs\<close>.

  An \<open>sdp_format\<close> is what the code reads and writes of an \<^verbatim>\<open>SdpVideoFormat\<close>: its name
  (\<open>None\<close> where \<^verbatim>\<open>name()\<close> returns an error), its parameter map and its scalability modes. The functions of the
  crate the code calls (codec names, fuzzy matching, format equality) are fields of the
  record \<open>webrtc\<close>, which the definitions that call them take as an argument.
\<close>

datatype video_codec_type = Generic | Vp8 | Vp9 | Av1 | H264 | H265 | Unknown "32 word"

record sdp_format =
  sdp_name :: "string option"
  sdp_params :: "string \<rightharpoonup> string"
  sdp_scalability_modes :: "string list"

definition sdp_new :: "string \<Rightarrow> sdp_format" where
  "sdp_new n = \<lparr>sdp_name = Some n, sdp_params = Map.empty, sdp_scalability_modes = []\<rparr>"

definition sdp_set :: "string \<Rightarrow> string \<Rightarrow> sdp_format \<Rightarrow> sdp_format" where
  "sdp_set k v f = f\<lparr>sdp_params := (sdp_params f)(k \<mapsto> v)\<rparr>"

lemma sdp_new_simps [simp]: "sdp_name (sdp_new n) = Some n" "sdp_params (sdp_new n) = Map.empty"
  by (simp_all add: sdp_new_def)

lemma sdp_set_simps [simp]:
  "sdp_name (sdp_set k v f) = sdp_name f"
  "sdp_scalability_modes (sdp_set k v f) = sdp_scalability_modes f"
  "sdp_params (sdp_set k v f) = (sdp_params f)(k \<mapsto> v)"
  by (simp_all add: sdp_set_def)

record webrtc =
  codec_try_from :: "string \<Rightarrow> video_codec_type option"
  codec_as_str :: "video_codec_type \<Rightarrow> string option"
  fuzzy_match :: "sdp_format list \<Rightarrow> sdp_format \<Rightarrow> sdp_format option"
  sdp_is_equal :: "sdp_format \<Rightarrow> sdp_format \<Rightarrow> bool"

text \<open>\<^verbatim>\<open>codec_type_from_format\<close> of \<^verbatim>\<open>src/video_codec.rs\<close>.\<close>

definition codec_type_from_format :: "webrtc \<Rightarrow> sdp_format \<Rightarrow> video_codec_type option" where
  "codec_type_from_format w f =
     do { format_name \<leftarrow> sdp_name f; codec_try_from w format_name }"

datatype codec_direction = Encoder | Decoder

fun direction_as_str :: "codec_direction \<Rightarrow> string" where
  "direction_as_str Encoder = ''Encoder''"
| "direction_as_str Decoder = ''Decoder''"

fun direction_as_label :: "codec_direction \<Rightarrow> string" where
  "direction_as_label Encoder = ''encoder''"
| "direction_as_label Decoder = ''decoder''"

text \<open>The string match of \<^verbatim>\<open>TryFrom<RawJsonValue> for CodecDirection\<close>.\<close>

definition direction_of_text :: "string \<Rightarrow> codec_direction option" where
  "direction_of_text s =
     (if s = ''Encoder'' then Some Encoder
      else if s = ''Decoder'' then Some Decoder
      else None)"

lemma direction_of_text_as_str: "direction_of_text (direction_as_str d) = Some d"
  by (cases d) (simp_all add: direction_of_text_def)

text \<open>
  A concrete instance of the crate's functions, used by the witnesses only: the codec names
  are the ones of the SDP payload names, and a format matches when the names are equal.
\<close>

fun example_codec_name :: "video_codec_type \<Rightarrow> string option" where
  "example_codec_name Vp8 = Some ''VP8''"
| "example_codec_name Vp9 = Some ''VP9''"
| "example_codec_name Av1 = Some ''AV1''"
| "example_codec_name H264 = Some ''H264''"
| "example_codec_name H265 = Some ''H265''"
| "example_codec_name _ = None"

definition example_codec_of_name :: "string \<Rightarrow> video_codec_type option" where
  "example_codec_of_name s =
     find (\<lambda>t. example_codec_name t = Some s) [Vp8, Vp9, Av1, H264, H265]"

definition example_webrtc :: webrtc where
  "example_webrtc =
     \<lparr>codec_try_from = example_codec_of_name,
      codec_as_str = example_codec_name,
      fuzzy_match = (\<lambda>fs f. find (\<lambda>g. sdp_name g = sdp_name f) fs),
      sdp_is_equal = (\<lambda>f g. sdp_name f = sdp_name g)\<rparr>"

lemma example_webrtc_simps [simp]:
  "codec_try_from example_webrtc = example_codec_of_name"
  "codec_as_str example_webrtc = example_codec_name"
  by (simp_all add: example_webrtc_def)

lemma example_codec_of_name_simps [simp]:
  "example_codec_of_name ''VP8'' = Some Vp8"
  "example_codec_of_name ''VP9'' = Some Vp9"
  "example_codec_of_name ''AV1'' = Some Av1"
  "example_codec_of_name ''H264'' = Some H264"
  "example_codec_of_name ''H265'' = Some H265"
  by (simp_all add: example_codec_of_name_def)

end
