(* ===== verification/H264.thy ===== *)
theory H264
  imports Sdp
begin

text \<open>
  H.264 profile-level-id policy: \<^verbatim>\<open>src/video_codecs/h264.rs\<close>.

  The sub-profile table and the level table of the pinned libwebrtc are translated entry by
  entry; \<^verbatim>\<open>H264ProfileLevelId::from_hex\<close> and \<^verbatim>\<open>to_hex\<close> belong to the
  \<^verbatim>\<open>shiguredo_mp4\<close> crate and are the parameters \<open>from_hex\<close> and \<open>to_hex\<close>. The three
  \<^verbatim>\<open>expect\<close> calls of \<^verbatim>\<open>resolve_h264_incoming\<close> are the left (panic) side of its result.
\<close>

unbundle bit_operations_syntax

subsection \<open>Data\<close>

record profile_level_id =
  profile_idc :: u8
  profile_iop :: u8
  level_idc :: u8

record h264_track_config =
  profile_level_id :: profile_level_id
  avcc_box :: "bytes option"

datatype h264_sub_profile =
    ConstrainedBaseline | Baseline | MainProfile | High | ConstrainedHigh | PredictiveHigh444

datatype h264_level =
    Level1b | Level1 | Level1_1 | Level1_2 | Level1_3 | Level2 | Level2_1 | Level2_2
  | Level3 | Level3_1 | Level3_2 | Level4 | Level4_1 | Level4_2 | Level5 | Level5_1 | Level5_2

fun capability_order :: "h264_level \<Rightarrow> u8" where
  "capability_order Level1 = 1"
| "capability_order Level1b = 2"
| "capability_order Level1_1 = 3"
| "capability_order Level1_2 = 4"
| "capability_order Level1_3 = 5"
| "capability_order Level2 = 6"
| "capability_order Level2_1 = 7"
| "capability_order Level2_2 = 8"
| "capability_order Level3 = 9"
| "capability_order Level3_1 = 10"
| "capability_order Level3_2 = 11"
| "capability_order Level4 = 12"
| "capability_order Level4_1 = 13"
| "capability_order Level4_2 = 14"
| "capability_order Level5 = 15"
| "capability_order Level5_1 = 16"
| "capability_order Level5_2 = 17"

record h264_profile_level =
  plv_profile :: h264_sub_profile
  plv_level :: h264_level

record h264_profile_pattern =
  pat_profile :: h264_sub_profile
  pat_profile_idc :: u8
  pat_mask :: u8
  pat_value :: u8

definition H264_PROFILE_PATTERNS :: "h264_profile_pattern list" where
  "H264_PROFILE_PATTERNS =
    [\<lparr>pat_profile = ConstrainedBaseline, pat_profile_idc = 0x42,
      pat_mask = 0x4F, pat_value = 0x40\<rparr>,
     \<lparr>pat_profile = ConstrainedBaseline, pat_profile_idc = 0x4D,
      pat_mask = 0x8F, pat_value = 0x80\<rparr>,
     \<lparr>pat_profile = ConstrainedBaseline, pat_profile_idc = 0x58,
      pat_mask = 0xCF, pat_value = 0xC0\<rparr>,
     \<lparr>pat_profile = Baseline, pat_profile_idc = 0x42, pat_mask = 0x4F, pat_value = 0\<rparr>,
     \<lparr>pat_profile = Baseline, pat_profile_idc = 0x58, pat_mask = 0xCF, pat_value = 0x80\<rparr>,
     \<lparr>pat_profile = MainProfile, pat_profile_idc = 0x4D, pat_mask = 0xAF, pat_value = 0\<rparr>,
     \<lparr>pat_profile = High, pat_profile_idc = 0x64, pat_mask = 0xFF, pat_value = 0\<rparr>,
     \<lparr>pat_profile = ConstrainedHigh, pat_profile_idc = 0x64,
      pat_mask = 0xFF, pat_value = 0x0C\<rparr>,
     \<lparr>pat_profile = PredictiveHigh444, pat_profile_idc = 0xF4,
      pat_mask = 0xFF, pat_value = 0\<rparr>]"

definition pattern_matches :: "profile_level_id \<Rightarrow> h264_profile_pattern \<Rightarrow> bool" where
  "pattern_matches plid p \<longleftrightarrow>
     pat_profile_idc p = profile_idc plid \<and> (profile_iop plid AND pat_mask p) = pat_value p"

definition parse_level :: "profile_level_id \<Rightarrow> h264_level option" where
  "parse_level plid =
     (let l = level_idc plid in
      if l = 10 then Some Level1
      else if l = 11 then
        (if profile_iop plid AND 0x10 \<noteq> 0 then Some Level1b else Some Level1_1)
      else if l = 12 then Some Level1_2
      else if l = 13 then Some Level1_3
      else if l = 20 then Some Level2
      else if l = 21 then Some Level2_1
      else if l = 22 then Some Level2_2
      else if l = 30 then Some Level3
      else if l = 31 then Some Level3_1
      else if l = 32 then Some Level3_2
      else if l = 40 then Some Level4
      else if l = 41 then Some Level4_1
      else if l = 42 then Some Level4_2
      else if l = 50 then Some Level5
      else if l = 51 then Some Level5_1
      else if l = 52 then Some Level5_2
      else None)"

definition parse_profile_level_id :: "profile_level_id \<Rightarrow> h264_profile_level option" where
  "parse_profile_level_id plid =
     do { level \<leftarrow> parse_level plid;
          profile \<leftarrow> map_option pat_profile (find (pattern_matches plid) H264_PROFILE_PATTERNS);
          Some \<lparr>plv_profile = profile, plv_level = level\<rparr> }"

subsection \<open>Resolution of an incoming format\<close>

datatype h264_panic = RequiredPlidMissing | RequiredPlidNotHex | RequiredPlidNotRecognized

definition resolve_h264_incoming ::
    "webrtc \<Rightarrow> (string \<Rightarrow> profile_level_id option) \<Rightarrow> sdp_format \<Rightarrow> sdp_format \<Rightarrow>
     h264_panic + sdp_format option" where
  "resolve_h264_incoming w from_hex required incoming =
     (case do { name \<leftarrow> sdp_name incoming; codec_try_from w name } of
        None \<Rightarrow> Inr None
      | Some t \<Rightarrow>
        if t \<noteq> H264 then Inr None
        else if sdp_params incoming ''packetization-mode'' \<noteq> Some ''1'' then Inr None
        else
          (case do { hex \<leftarrow> sdp_params incoming ''profile-level-id'';
                     plid \<leftarrow> from_hex hex;
                     parse_profile_level_id plid } of
             None \<Rightarrow> Inr None
           | Some incoming_parsed \<Rightarrow>
               bindE (ok_or RequiredPlidMissing (sdp_params required ''profile-level-id''))
                 (\<lambda>required_hex.
               bindE (ok_or RequiredPlidNotHex (from_hex required_hex)) (\<lambda>required_plid.
               bindE (ok_or RequiredPlidNotRecognized (parse_profile_level_id required_plid))
                 (\<lambda>required_parsed.
                 if plv_profile incoming_parsed \<noteq> plv_profile required_parsed then Inr None
                 else if capability_order (plv_level incoming_parsed)
                       < capability_order (plv_level required_parsed) then Inr None
                 else Inr (Some incoming))))))"

definition h264_required_sdp_format ::
    "(profile_level_id \<Rightarrow> string) \<Rightarrow> h264_track_config \<Rightarrow> sdp_format" where
  "h264_required_sdp_format to_hex config =
     sdp_set ''profile-level-id'' (to_hex (profile_level_id config))
       (sdp_set ''packetization-mode'' ''1'' (sdp_new ''H264''))"

subsection \<open>Levels are ordered by capability\<close>

lemma capability_order_inj: "capability_order a = capability_order b \<longleftrightarrow> a = b"
  by (cases a; cases b) simp_all

instantiation h264_level :: linorder
begin

definition less_eq_h264_level :: "h264_level \<Rightarrow> h264_level \<Rightarrow> bool" where
  "less_eq_h264_level a b \<longleftrightarrow> capability_order a \<le> capability_order b"

definition less_h264_level :: "h264_level \<Rightarrow> h264_level \<Rightarrow> bool" where
  "less_h264_level a b \<longleftrightarrow> capability_order a < capability_order b"

instance
  by standard (auto simp: less_eq_h264_level_def less_h264_level_def less_le capability_order_inj)

end

lemmas h264_level_order = less_eq_h264_level_def less_h264_level_def

subsection \<open>The pattern table\<close>

lemma pattern_matches_reserved:
  assumes "p \<in> set H264_PROFILE_PATTERNS" and "pattern_matches plid p"
  shows "profile_iop plid AND 3 = 0"
proof -
  from assms(1) have "pat_mask p AND 3 = 3" and "pat_value p AND 3 = 0"
    by (auto simp: H264_PROFILE_PATTERNS_def)
  moreover from assms(2) have "profile_iop plid AND (pat_mask p AND 3) = pat_value p AND 3"
    by (simp add: pattern_matches_def and.assoc [symmetric])
  ultimately show ?thesis by simp
qed

lemma and_masks_disjoint:
  fixes x :: "'a::len word"
  assumes "x AND m = v" and "x AND m' = v'"
  shows "v AND m' = v' AND m"
  using assms by (metis and.assoc and.commute)

lemma pattern_matches_same_profile:
  assumes "p \<in> set H264_PROFILE_PATTERNS" and "q \<in> set H264_PROFILE_PATTERNS"
    and "pattern_matches plid p" and "pattern_matches plid q"
  shows "pat_profile p = pat_profile q"
proof -
  have "pat_profile_idc p = pat_profile_idc q"
    using assms(3,4) by (simp add: pattern_matches_def)
  moreover have "pat_value p AND pat_mask q = pat_value q AND pat_mask p"
    using assms(3,4) by (auto simp: pattern_matches_def intro: and_masks_disjoint)
  ultimately show ?thesis
    using assms(1,2) by (auto simp: H264_PROFILE_PATTERNS_def)
qed

lemma find_pattern_iff:
  "(map_option pat_profile (find (pattern_matches plid) H264_PROFILE_PATTERNS) = Some c) =
     (\<exists>p \<in> set H264_PROFILE_PATTERNS. pattern_matches plid p \<and> pat_profile p = c)"
proof
  assume "map_option pat_profile (find (pattern_matches plid) H264_PROFILE_PATTERNS) = Some c"
  then show "\<exists>p \<in> set H264_PROFILE_PATTERNS. pattern_matches plid p \<and> pat_profile p = c"
    by (auto simp: find_Some_iff)
next
  assume "\<exists>p \<in> set H264_PROFILE_PATTERNS. pattern_matches plid p \<and> pat_profile p = c"
  then obtain p where p: "p \<in> set H264_PROFILE_PATTERNS" "pattern_matches plid p"
    and c: "pat_profile p = c" by blast
  then obtain q where q: "find (pattern_matches plid) H264_PROFILE_PATTERNS = Some q"
    by (cases "find (pattern_matches plid) H264_PROFILE_PATTERNS") (auto simp: find_None_iff)
  then have "q \<in> set H264_PROFILE_PATTERNS" "pattern_matches plid q"
    by (auto simp: find_Some_iff)
  with p c q show "map_option pat_profile
      (find (pattern_matches plid) H264_PROFILE_PATTERNS) = Some c"
    by (auto dest: pattern_matches_same_profile)
qed

lemma parse_profile_level_id_Some:
  "parse_profile_level_id plid = Some v \<longleftrightarrow>
     parse_level plid = Some (plv_level v) \<and>
     map_option pat_profile (find (pattern_matches plid) H264_PROFILE_PATTERNS)
       = Some (plv_profile v)"
  by (cases v) (auto simp: parse_profile_level_id_def bind_eq_Some_conv)

lemma parse_profile_level_id_iff:
  "parse_profile_level_id plid = Some v \<longleftrightarrow>
     parse_level plid = Some (plv_level v) \<and>
     (\<exists>p \<in> set H264_PROFILE_PATTERNS. pattern_matches plid p \<and> pat_profile p = plv_profile v)"
  by (simp only: parse_profile_level_id_Some find_pattern_iff)

subsection \<open>Properties\<close>

text \<open>
  Fact. The order of the pattern table does not matter: whichever pattern of the table a
  profile-level-id matches, \<open>parse_profile_level_id\<close> returns that pattern's sub-profile
  together with the level of the level table, and the two reserved bits of profile-iop are
  then zero.
\<close>

theorem h264_profile_unambiguous:
  assumes "p \<in> set H264_PROFILE_PATTERNS" and "pattern_matches plid p"
    and "parse_level plid = Some l"
  shows "parse_profile_level_id plid = Some \<lparr>plv_profile = pat_profile p, plv_level = l\<rparr> \<and>
    profile_iop plid AND 3 = 0"
  using assms pattern_matches_reserved by (auto simp: parse_profile_level_id_iff)

theorem h264_profile_unambiguous_witness:
  "parse_profile_level_id \<lparr>profile_idc = 0x42, profile_iop = 0xE0, level_idc = 31\<rparr>
     = Some \<lparr>plv_profile = ConstrainedBaseline, plv_level = Level3_1\<rparr> \<and>
   (0xE0 :: u8) AND 3 = 0"
  using h264_profile_unambiguous
    [of "H264_PROFILE_PATTERNS ! 0"
      "\<lparr>profile_idc = 0x42, profile_iop = 0xE0, level_idc = 31\<rparr>" Level3_1]
  by (simp add: H264_PROFILE_PATTERNS_def pattern_matches_def parse_level_def)

text \<open>
  Property C31. Resolution of an incoming H.264 format against a required format whose
  profile-level-id is recognised: the incoming format itself is returned, unchanged, exactly
  when its codec is H264, its packetization mode is 1, its profile-level-id is present, hex
  and recognised, its sub-profile is the required one and its level is at least the required
  level; in every other case the format is refused, and the code never panics.
\<close>

theorem resolve_h264_incoming_spec:
  assumes "sdp_params required ''profile-level-id'' = Some rh"
    and "from_hex rh = Some rp" and "parse_profile_level_id rp = Some rv"
  shows "resolve_h264_incoming w from_hex required incoming =
    Inr (if codec_type_from_format w incoming = Some H264 \<and>
            sdp_params incoming ''packetization-mode'' = Some ''1'' \<and>
            (\<exists>hex plid v. sdp_params incoming ''profile-level-id'' = Some hex \<and>
               from_hex hex = Some plid \<and> parse_profile_level_id plid = Some v \<and>
               plv_profile v = plv_profile rv \<and> plv_level rv \<le> plv_level v)
         then Some incoming else None)"
  using assms
  by (auto simp: resolve_h264_incoming_def codec_type_from_format_def h264_level_order not_less
      bind_eq_None_conv bind_eq_Some_conv split: option.splits)

definition example_hex :: "string \<Rightarrow> profile_level_id option" where
  "example_hex s =
     (if s = ''42e01f'' then Some \<lparr>profile_idc = 0x42, profile_iop = 0xE0, level_idc = 31\<rparr>
      else if s = ''42e00b'' then Some \<lparr>profile_idc = 0x42, profile_iop = 0xE0, level_idc = 11\<rparr>
      else None)"

definition example_h264_format :: "string \<Rightarrow> sdp_format" where
  "example_h264_format hex =
     sdp_set ''profile-level-id'' hex (sdp_set ''packetization-mode'' ''1'' (sdp_new ''H264''))"

lemma example_parse_42e01f:
  "parse_profile_level_id \<lparr>profile_idc = 0x42, profile_iop = 0xE0, level_idc = 31\<rparr>
     = Some \<lparr>plv_profile = ConstrainedBaseline, plv_level = Level3_1\<rparr>"
  by (simp add: parse_profile_level_id_def parse_level_def H264_PROFILE_PATTERNS_def
      pattern_matches_def)

lemma example_parse_42e00b:
  "parse_profile_level_id \<lparr>profile_idc = 0x42, profile_iop = 0xE0, level_idc = 11\<rparr>
     = Some \<lparr>plv_profile = ConstrainedBaseline, plv_level = Level1_1\<rparr>"
  by (simp add: parse_profile_level_id_def parse_level_def H264_PROFILE_PATTERNS_def
      pattern_matches_def)

theorem resolve_h264_incoming_spec_witness:
  "resolve_h264_incoming example_webrtc example_hex (example_h264_format ''42e00b'')
     (example_h264_format ''42e01f'') = Inr (Some (example_h264_format ''42e01f'')) \<and>
   resolve_h264_incoming example_webrtc example_hex (example_h264_format ''42e01f'')
     (example_h264_format ''42e00b'') = Inr None"
  using
    resolve_h264_incoming_spec
      [of "example_h264_format ''42e00b''" "''42e00b''" example_hex _ _ example_webrtc
        "example_h264_format ''42e01f''", OF _ _ example_parse_42e00b]
    resolve_h264_incoming_spec
      [of "example_h264_format ''42e01f''" "''42e01f''" example_hex _ _ example_webrtc
        "example_h264_format ''42e00b''", OF _ _ example_parse_42e01f]
  by (simp add: example_h264_format_def example_hex_def codec_type_from_format_def
      example_parse_42e01f example_parse_42e00b h264_level_order)

text \<open>
  Fact. The required format the SDK itself advertises for a track whose profile-level-id
  was recognised when the reader was built makes none of the three \<^verbatim>\<open>expect\<close> calls fail,
  whatever the incoming format is, and an answer that echoes it is accepted as it is. The
  hypotheses on the crates are that the name H264 is known and that \<^verbatim>\<open>from_hex\<close> inverts
  \<^verbatim>\<open>to_hex\<close>.
\<close>

theorem h264_required_format_resolves:
  assumes "codec_try_from w ''H264'' = Some H264"
    and "from_hex (to_hex (profile_level_id c)) = Some (profile_level_id c)"
    and "parse_profile_level_id (profile_level_id c) \<noteq> None"
  shows "(\<exists>r. resolve_h264_incoming w from_hex (h264_required_sdp_format to_hex c) incoming
           = Inr r) \<and>
    resolve_h264_incoming w from_hex (h264_required_sdp_format to_hex c)
      (h264_required_sdp_format to_hex c) = Inr (Some (h264_required_sdp_format to_hex c))"
  using assms
  by (auto simp: resolve_h264_incoming_def h264_required_sdp_format_def
      split: option.splits)

theorem h264_required_format_resolves_witness:
  "resolve_h264_incoming example_webrtc example_hex (example_h264_format ''42e01f'')
     (example_h264_format ''42e01f'') = Inr (Some (example_h264_format ''42e01f''))"
  using h264_required_format_resolves
    [of example_webrtc example_hex "\<lambda>_. ''42e01f''"
      "\<lparr>profile_level_id = \<lparr>profile_idc = 0x42, profile_iop = 0xE0, level_idc = 31\<rparr>,
        avcc_box = None\<rparr>"]
  by (simp add: h264_required_sdp_format_def example_h264_format_def example_hex_def
      example_parse_42e01f)

end
