(* ===== verification/Mp4_Types.thy ===== *)
theory Mp4_Types
  imports H264
begin

text \<open>
  Data shared by the MP4 pass-through components: the track configurations of
  \<^verbatim>\<open>src/video_codecs/av1.rs\<close>, the error type \<^verbatim>\<open>Mp4Error\<close> of
  \<^verbatim>\<open>src/video_codecs/mp4.rs\<close> and the OBU types the \<^verbatim>\<open>shiguredo_mp4\<close> crate hands to
  the AV1 checks.

  Error values made by the crates or the operating system are of the type parameter \<open>'x\<close>. The
  reason \<^verbatim>\<open>String\<close> of \<^verbatim>\<open>InvalidAv1Track\<close> and \<^verbatim>\<open>InvalidH264Track\<close> is the
  constructor of the message, with the values the message interpolates. \<^verbatim>\<open>usize\<close> is 64 bits
  wide. A field of the sequence header that only the frame header parser of the crate reads is
  part of \<open>sh_rest\<close>.
\<close>

datatype av1_obu_type =
    Reserved u8 | SequenceHeader | TemporalDelimiter | FrameHeader | TileGroup | Metadata
  | Frame | RedundantFrameHeader | TileList | Padding

datatype av1_frame_type = KeyFrame | InterFrame | IntraOnly | SwitchFrame

datatype av1_frame_header_prefix =
    ShowExistingFrame
  | NewFrame (new_frame_type: av1_frame_type) (new_show_frame: bool)

record av1_obu =
  obu_type :: av1_obu_type
  obu_payload :: bytes

record 'h av1_sequence_header =
  sh_seq_profile :: u8
  sh_seq_level_idx_0 :: u8
  sh_seq_tier_0 :: u8
  sh_high_bitdepth :: bool
  sh_twelve_bit :: bool
  sh_monochrome :: bool
  sh_chroma_subsampling_x :: u8
  sh_chroma_subsampling_y :: u8
  sh_chroma_sample_position :: u8
  sh_operating_points_cnt_minus_1 :: u8
  sh_operating_point_idc_0 :: u16
  sh_rest :: 'h

record av1_track_config =
  seq_profile :: u8
  seq_level_idx_0 :: u8
  seq_tier_0 :: u8
  high_bitdepth :: bool
  twelve_bit :: bool
  monochrome :: bool
  chroma_subsampling_x :: u8
  chroma_subsampling_y :: u8
  chroma_sample_position :: u8
  initial_presentation_delay_minus_one :: "u8 option"
  config_obus :: bytes

datatype 'x av1_reject =
    ConfigObusUnparsable 'x
  | ConfigShNotFirst nat
  | ConfigShMultiple
  | ConfigShUnparsable 'x
  | ConfigShOperatingPoints u8 u16
  | ConfigShMismatch
  | NoSyncSample
  | FirstSampleNotSync
  | SampleObusUnparsable nat 'x
  | SampleShUnparsable nat 'x
  | SampleShOperatingPoints nat u8 u16
  | SampleShMismatch nat
  | SampleShPayloadMismatch nat
  | FrameHeaderUnparsable nat 'x
  | SyncShowsExistingFrame nat
  | SyncNotKeyFrame nat string
  | SyncNotShown nat
  | SyncWithoutSequenceHeader nat
  | SyncWithoutFrame nat
  | ShAfterFrame nat
  | RtpFirstNotSequenceHeader nat string

datatype 'x h264_reject =
    SpsListEmpty
  | PpsListEmpty
  | SpsUnparsable nat 'x
  | SpsPlidMismatch nat profile_level_id profile_level_id
  | SpsDimensionMismatch nat u16 u16 u16 u16
  | PpsEmpty nat
  | PpsForbiddenBit nat
  | PpsNalType nat
  | ProfileNotRecognized profile_level_id
  | AvccNotEncodable 'x

datatype 'x mp4_error =
    Io 'x
  | Demux 'x
  | NoVideoTrack
  | NoVideoSamples
  | UnsupportedVideoCodec
  | InvalidNalLengthSize u8
  | InputPositionOutOfRange u64 u64
  | InconsistentSampleTable nat u64 u64 u64
  | UnsupportedCompositionTimeOffset nat video_codec_type
  | InconsistentSampleDescription nat
  | InvalidAv1Track "'x av1_reject"
  | InvalidH264Track "'x h264_reject"

text \<open>\<^verbatim>\<open>Error::source\<close>: only the errors of the operating system and of the demuxer have one.\<close>

fun mp4_error_source :: "'x mp4_error \<Rightarrow> 'x option" where
  "mp4_error_source (Io err) = Some err"
| "mp4_error_source (Demux err) = Some err"
| "mp4_error_source _ = None"

end
