(* ===== verification/Av1.thy ===== *)
theory Av1
  imports Mp4_Types
begin

text \<open>
  AV1 track policy: \<^verbatim>\<open>src/video_codecs/av1.rs\<close>.

  The three bitstream parsers of the \<^verbatim>\<open>shiguredo_mp4\<close> crate are the fields of the record
  \<open>av1_parsers\<close>. \<open>validate_av1_track\<close> is the nested loop of the source: \<open>scan_obu\<close> is the
  body of the inner \<^verbatim>\<open>for\<close>, \<open>scan_obus\<close> the inner loop, \<open>check_sync_sample\<close> the checks after
  it, \<open>validate_sample\<close> the body of the outer \<^verbatim>\<open>for\<close> and \<open>validate_samples\<close> the outer loop.
\<close>

datatype obu_parse_context = ConfigObus | SampleObus

record ('x, 'h) av1_parsers =
  parse_obus :: "obu_parse_context \<Rightarrow> bytes \<Rightarrow> 'x + av1_obu list"
  parse_sequence_header :: "bytes \<Rightarrow> 'x + 'h av1_sequence_header"
  parse_frame_header_prefix ::
    "bytes \<Rightarrow> 'h av1_sequence_header \<Rightarrow> 'x + av1_frame_header_prefix"

fun av1_frame_type_name :: "av1_frame_type \<Rightarrow> string" where
  "av1_frame_type_name KeyFrame = ''key_frame''"
| "av1_frame_type_name InterFrame = ''inter_frame''"
| "av1_frame_type_name IntraOnly = ''intra_only_frame''"
| "av1_frame_type_name SwitchFrame = ''switch_frame''"

fun av1_obu_type_name :: "av1_obu_type \<Rightarrow> string" where
  "av1_obu_type_name (Reserved _) = ''reserved''"
| "av1_obu_type_name SequenceHeader = ''sequence_header''"
| "av1_obu_type_name TemporalDelimiter = ''temporal_delimiter''"
| "av1_obu_type_name FrameHeader = ''frame_header''"
| "av1_obu_type_name TileGroup = ''tile_group''"
| "av1_obu_type_name Metadata = ''metadata''"
| "av1_obu_type_name Frame = ''frame''"
| "av1_obu_type_name RedundantFrameHeader = ''redundant_frame_header''"
| "av1_obu_type_name TileList = ''tile_list''"
| "av1_obu_type_name Padding = ''padding''"

definition sequence_header_matches_av1c ::
    "'h av1_sequence_header \<Rightarrow> av1_track_config \<Rightarrow> bool" where
  "sequence_header_matches_av1c sh av1c \<longleftrightarrow>
     sh_seq_profile sh = seq_profile av1c \<and>
     sh_seq_level_idx_0 sh = seq_level_idx_0 av1c \<and>
     sh_seq_tier_0 sh = seq_tier_0 av1c \<and>
     sh_high_bitdepth sh = high_bitdepth av1c \<and>
     sh_twelve_bit sh = twelve_bit av1c \<and>
     sh_monochrome sh = monochrome av1c \<and>
     sh_chroma_subsampling_x sh = chroma_subsampling_x av1c \<and>
     sh_chroma_subsampling_y sh = chroma_subsampling_y av1c \<and>
     sh_chroma_sample_position sh = chroma_sample_position av1c"

definition has_supported_operating_points :: "'h av1_sequence_header \<Rightarrow> bool" where
  "has_supported_operating_points seq \<longleftrightarrow>
     sh_operating_points_cnt_minus_1 seq = 0 \<and> sh_operating_point_idc_0 seq = 0"

subsection \<open>The configuration OBUs\<close>

definition config_sh_indices :: "av1_obu list \<Rightarrow> nat list" where
  "config_sh_indices obus =
     filter (\<lambda>i. obu_type (obus ! i) = SequenceHeader) [0..<length obus]"

definition check_config_sh_position :: "av1_obu list \<Rightarrow> 'x av1_reject + unit" where
  "check_config_sh_position obus =
     (case config_sh_indices obus of
        [] \<Rightarrow> Inr ()
      | [first] \<Rightarrow> if first \<noteq> 0 then Inl (ConfigShNotFirst first) else Inr ()
      | first # _ # _ \<Rightarrow>
          if first \<noteq> 0 then Inl (ConfigShNotFirst first) else Inl ConfigShMultiple)"

definition config_sequence_header ::
    "('x, 'h) av1_parsers \<Rightarrow> av1_track_config \<Rightarrow> av1_obu list \<Rightarrow>
     'x av1_reject + (bytes \<times> 'h av1_sequence_header) option" where
  "config_sequence_header P av1_config obus =
     (case obus of
        [] \<Rightarrow> Inr None
      | obu # _ \<Rightarrow>
          if obu_type obu \<noteq> SequenceHeader then Inr None
          else bindE (map_err ConfigShUnparsable (parse_sequence_header P (obu_payload obu)))
            (\<lambda>fields.
              if \<not> has_supported_operating_points fields then
                Inl (ConfigShOperatingPoints (sh_operating_points_cnt_minus_1 fields)
                       (sh_operating_point_idc_0 fields))
              else if \<not> sequence_header_matches_av1c fields av1_config then
                Inl ConfigShMismatch
              else Inr (Some (obu_payload obu, fields))))"

subsection \<open>One sample\<close>

record 'h obu_scan =
  first_sh_index :: "nat option"
  first_frame_index :: "nat option"
  cvs_sh_payload :: "bytes option"
  current_sh_context :: "'h av1_sequence_header option"

definition check_sync_frame ::
    "('x, 'h) av1_parsers \<Rightarrow> nat \<Rightarrow> bytes \<Rightarrow> 'h av1_sequence_header \<Rightarrow> 'x av1_reject + unit" where
  "check_sync_frame P sample_index payload sh =
     bindE (map_err (FrameHeaderUnparsable sample_index) (parse_frame_header_prefix P payload sh))
       (\<lambda>prefix.
         case prefix of
           ShowExistingFrame \<Rightarrow> Inl (SyncShowsExistingFrame sample_index)
         | NewFrame frame_type show_frame \<Rightarrow>
             if frame_type \<noteq> KeyFrame then
               Inl (SyncNotKeyFrame sample_index (av1_frame_type_name frame_type))
             else if \<not> show_frame then Inl (SyncNotShown sample_index)
             else Inr ())"

definition scan_sequence_header ::
    "('x, 'h) av1_parsers \<Rightarrow> av1_track_config \<Rightarrow> bytes option \<Rightarrow> nat \<Rightarrow> nat \<Rightarrow> bytes \<Rightarrow>
     'h obu_scan \<Rightarrow> 'x av1_reject + 'h obu_scan" where
  "scan_sequence_header P av1_config permanent_sh sample_index obu_index payload st =
     bindE (map_err (SampleShUnparsable sample_index) (parse_sequence_header P payload)) (\<lambda>fields.
       if \<not> has_supported_operating_points fields then
         Inl (SampleShOperatingPoints sample_index (sh_operating_points_cnt_minus_1 fields)
                (sh_operating_point_idc_0 fields))
       else if \<not> sequence_header_matches_av1c fields av1_config then
         Inl (SampleShMismatch sample_index)
       else
         (let st1 = st\<lparr>first_sh_index :=
                (case first_sh_index st of None \<Rightarrow> Some obu_index | Some i \<Rightarrow> Some i)\<rparr>;
              baseline = (if permanent_sh \<noteq> None then permanent_sh else cvs_sh_payload st)
          in case baseline of
               Some b \<Rightarrow>
                 if payload \<noteq> b then Inl (SampleShPayloadMismatch sample_index)
                 else Inr (st1\<lparr>current_sh_context := Some fields\<rparr>)
             | None \<Rightarrow>
                 Inr (st1\<lparr>cvs_sh_payload := Some payload, current_sh_context := Some fields\<rparr>)))"

definition scan_obu ::
    "('x, 'h) av1_parsers \<Rightarrow> av1_track_config \<Rightarrow> bytes option \<Rightarrow> bool \<Rightarrow> nat \<Rightarrow> nat \<Rightarrow> av1_obu \<Rightarrow>
     'h obu_scan \<Rightarrow> 'x av1_reject + 'h obu_scan" where
  "scan_obu P av1_config permanent_sh is_keyframe sample_index obu_index obu st =
     (if obu_type obu = SequenceHeader then
        scan_sequence_header P av1_config permanent_sh sample_index obu_index (obu_payload obu) st
      else if (obu_type obu = FrameHeader \<or> obu_type obu = Frame) \<and> first_frame_index st = None then
        (let st1 = st\<lparr>first_frame_index := Some obu_index\<rparr> in
         case current_sh_context st of
           Some sh \<Rightarrow>
             if is_keyframe then
               bindE (check_sync_frame P sample_index (obu_payload obu) sh) (\<lambda>_. Inr st1)
             else Inr st1
         | None \<Rightarrow> Inr st1)
      else Inr st)"

fun scan_obus ::
    "('x, 'h) av1_parsers \<Rightarrow> av1_track_config \<Rightarrow> bytes option \<Rightarrow> bool \<Rightarrow> nat \<Rightarrow> nat \<Rightarrow> av1_obu list \<Rightarrow>
     'h obu_scan \<Rightarrow> 'x av1_reject + 'h obu_scan" where
  "scan_obus P av1_config permanent_sh is_keyframe sample_index i [] st = Inr st"
| "scan_obus P av1_config permanent_sh is_keyframe sample_index i (obu # obus) st =
     bindE (scan_obu P av1_config permanent_sh is_keyframe sample_index i obu st)
       (scan_obus P av1_config permanent_sh is_keyframe sample_index (Suc i) obus)"

definition rtp_skipped :: "av1_obu_type \<Rightarrow> bool" where
  "rtp_skipped t \<longleftrightarrow> t = TemporalDelimiter \<or> t = Padding"

definition check_sync_sample ::
    "nat \<Rightarrow> av1_obu list \<Rightarrow> av1_obu list \<Rightarrow> 'h obu_scan \<Rightarrow> 'x av1_reject + unit" where
  "check_sync_sample sample_index config_obu_list sample_obus st =
     bindE (ok_or (SyncWithoutSequenceHeader sample_index) (first_sh_index st)) (\<lambda>sh_index.
     bindE (ok_or (SyncWithoutFrame sample_index) (first_frame_index st)) (\<lambda>fr_index.
       if sh_index > fr_index then Inl (ShAfterFrame sample_index)
       else case find (\<lambda>t. \<not> rtp_skipped t)
                   (map obu_type config_obu_list @ map obu_type sample_obus) of
              Some t \<Rightarrow>
                if t = SequenceHeader then Inr ()
                else Inl (RtpFirstNotSequenceHeader sample_index (av1_obu_type_name t))
            | None \<Rightarrow> Inl (SyncWithoutSequenceHeader sample_index)))"

subsection \<open>The track\<close>

type_synonym 'h cvs_state = "bytes option \<times> 'h av1_sequence_header option"

definition validate_sample ::
    "('x, 'h) av1_parsers \<Rightarrow> av1_track_config \<Rightarrow> av1_obu list \<Rightarrow> bytes option \<Rightarrow>
     (nat \<Rightarrow> 'x mp4_error + bytes) \<Rightarrow> nat \<Rightarrow> bool \<Rightarrow> 'h cvs_state \<Rightarrow>
     'x mp4_error + 'h cvs_state" where
  "validate_sample P av1_config config_obu_list permanent_sh read_sample sample_index
     is_keyframe cvs =
     bindE (read_sample sample_index) (\<lambda>data.
     map_err InvalidAv1Track
       (bindE (map_err (SampleObusUnparsable sample_index) (parse_obus P SampleObus data))
         (\<lambda>sample_obus.
        let baseline = (if is_keyframe \<and> permanent_sh = None then None else fst cvs);
            st0 = \<lparr>first_sh_index = None, first_frame_index = None,
                   cvs_sh_payload = baseline, current_sh_context = snd cvs\<rparr>
        in bindE (scan_obus P av1_config permanent_sh is_keyframe sample_index 0 sample_obus st0)
             (\<lambda>st.
              bindE (if is_keyframe
                     then check_sync_sample sample_index config_obu_list sample_obus st
                     else Inr ())
                (\<lambda>_. Inr (cvs_sh_payload st, current_sh_context st))))))"

fun validate_samples ::
    "('x, 'h) av1_parsers \<Rightarrow> av1_track_config \<Rightarrow> av1_obu list \<Rightarrow> bytes option \<Rightarrow>
     (nat \<Rightarrow> 'x mp4_error + bytes) \<Rightarrow> nat \<Rightarrow> bool list \<Rightarrow> 'h cvs_state \<Rightarrow>
     'x mp4_error + unit" where
  "validate_samples P av1_config config_obu_list permanent_sh read_sample i [] cvs = Inr ()"
| "validate_samples P av1_config config_obu_list permanent_sh read_sample i (k # ks) cvs =
     bindE (validate_sample P av1_config config_obu_list permanent_sh read_sample i k cvs)
       (validate_samples P av1_config config_obu_list permanent_sh read_sample (Suc i) ks)"

definition validate_av1_track ::
    "('x, 'h) av1_parsers \<Rightarrow> bool list \<Rightarrow> av1_track_config \<Rightarrow> (nat \<Rightarrow> 'x mp4_error + bytes) \<Rightarrow>
     'x mp4_error + unit" where
  "validate_av1_track P is_keyframes av1_config read_sample =
     bindE (map_err InvalidAv1Track
       (bindE (map_err ConfigObusUnparsable (parse_obus P ConfigObus (config_obus av1_config)))
         (\<lambda>obus.
        bindE (check_config_sh_position obus) (\<lambda>_.
        bindE (config_sequence_header P av1_config obus) (\<lambda>config_sh.
        if \<not> list_ex id is_keyframes then Inl NoSyncSample
        else if \<not> is_keyframes ! 0 then Inl FirstSampleNotSync
        else Inr (obus, config_sh))))))
     (\<lambda>(obus, config_sh).
        validate_samples P av1_config obus (map_option fst config_sh) read_sample 0 is_keyframes
          (None, map_option snd config_sh))"

subsection \<open>Payload, SDP fields and SDP format\<close>

definition assemble_av1_encoded_sample_data ::
    "bytes \<Rightarrow> bool \<Rightarrow> av1_track_config option \<Rightarrow> bytes" where
  "assemble_av1_encoded_sample_data raw_sample is_keyframe av1_config =
     (case av1_config of
        Some config \<Rightarrow>
          if is_keyframe \<and> config_obus config \<noteq> [] then config_obus config @ raw_sample
          else raw_sample
      | None \<Rightarrow> raw_sample)"

definition parse_av1_sdp_field ::
    "(string \<rightharpoonup> string) \<Rightarrow> string \<Rightarrow> u8 \<Rightarrow> u8 \<Rightarrow> u8 option" where
  "parse_av1_sdp_field params key default_value max_value =
     (case params key of
        None \<Rightarrow> Some default_value
      | Some raw \<Rightarrow>
          do { n \<leftarrow> parse_uint 255 raw;
               let parsed = (of_nat n :: u8);
               if parsed > max_value then None else Some parsed })"

definition resolve_av1_incoming ::
    "webrtc \<Rightarrow> sdp_format \<Rightarrow> sdp_format \<Rightarrow> sdp_format option" where
  "resolve_av1_incoming w required incoming =
     do { name \<leftarrow> sdp_name incoming;
          t \<leftarrow> codec_try_from w name;
          if t \<noteq> Av1 then None
          else do {
            incoming_profile \<leftarrow> parse_av1_sdp_field (sdp_params incoming) ''profile'' 0 2;
            incoming_level \<leftarrow> parse_av1_sdp_field (sdp_params incoming) ''level-idx'' 5 31;
            incoming_tier \<leftarrow> parse_av1_sdp_field (sdp_params incoming) ''tier'' 0 1;
            required_profile \<leftarrow> parse_av1_sdp_field (sdp_params required) ''profile'' 0 2;
            required_level \<leftarrow> parse_av1_sdp_field (sdp_params required) ''level-idx'' 5 31;
            required_tier \<leftarrow> parse_av1_sdp_field (sdp_params required) ''tier'' 0 1;
            if required_profile \<noteq> incoming_profile then None
            else if required_level > incoming_level then None
            else if required_tier > incoming_tier then None
            else Some required } }"

definition av1_required_sdp_format :: "av1_track_config option \<Rightarrow> sdp_format" where
  "av1_required_sdp_format av1_config =
     (case av1_config of
        None \<Rightarrow> sdp_new ''AV1''
      | Some config \<Rightarrow>
          sdp_set ''tier'' (dec (unat (seq_tier_0 config)))
            (sdp_set ''level-idx'' (dec (unat (seq_level_idx_0 config)))
              (sdp_set ''profile'' (dec (unat (seq_profile config))) (sdp_new ''AV1''))))"

subsection \<open>What an accepted scan says\<close>

definition is_sh_obu :: "av1_obu \<Rightarrow> bool" where
  "is_sh_obu obu \<longleftrightarrow> obu_type obu = SequenceHeader"

definition is_frame_obu :: "av1_obu \<Rightarrow> bool" where
  "is_frame_obu obu \<longleftrightarrow> obu_type obu = FrameHeader \<or> obu_type obu = Frame"

definition sh_agrees :: "av1_track_config \<Rightarrow> 'h av1_sequence_header \<Rightarrow> bool" where
  "sh_agrees cfg h \<longleftrightarrow> has_supported_operating_points h \<and> sequence_header_matches_av1c h cfg"

definition sh_acceptable :: "('x, 'h) av1_parsers \<Rightarrow> av1_track_config \<Rightarrow> bytes \<Rightarrow> bool" where
  "sh_acceptable P cfg payload \<longleftrightarrow>
     (\<exists>h. parse_sequence_header P payload = Inr h \<and> sh_agrees cfg h)"

definition shown_key_frame ::
    "('x, 'h) av1_parsers \<Rightarrow> av1_track_config \<Rightarrow> bytes \<Rightarrow> bool" where
  "shown_key_frame P cfg payload \<longleftrightarrow>
     (\<exists>h. sh_agrees cfg h \<and> parse_frame_header_prefix P payload h = Inr (NewFrame KeyFrame True))"

definition context_agrees :: "av1_track_config \<Rightarrow> 'h av1_sequence_header option \<Rightarrow> bool" where
  "context_agrees cfg c \<longleftrightarrow> (\<forall>h. c = Some h \<longrightarrow> sh_agrees cfg h)"

lemma obu_kinds_disjoint: "is_sh_obu obu \<Longrightarrow> \<not> is_frame_obu obu"
  by (simp add: is_sh_obu_def is_frame_obu_def)

lemma check_sync_frame_Inr:
  "check_sync_frame P s payload h = Inr u \<longleftrightarrow>
     parse_frame_header_prefix P payload h = Inr (NewFrame KeyFrame True)"
  by (cases "parse_frame_header_prefix P payload h"; cases "projr (parse_frame_header_prefix P payload h)")
    (auto simp: check_sync_frame_def)

lemma scan_sequence_header_Inr:
  assumes "scan_sequence_header P cfg perm s i payload st = Inr st'"
  shows "sh_acceptable P cfg payload"
    and "first_sh_index st' = or_else (first_sh_index st) (Some i)"
    and "first_frame_index st' = first_frame_index st"
    and "current_sh_context st' \<noteq> None"
    and "context_agrees cfg (current_sh_context st')"
    and "perm = Some p \<Longrightarrow> payload = p \<and> cvs_sh_payload st' = cvs_sh_payload st"
    and "perm = None \<Longrightarrow> cvs_sh_payload st' = Some payload"
    and "perm = None \<Longrightarrow> cvs_sh_payload st = Some b \<Longrightarrow> cvs_sh_payload st' = Some b"
  using assms
  by (auto simp: scan_sequence_header_def result_simps sh_acceptable_def sh_agrees_def or_else_def
      context_agrees_def Let_def split: if_splits option.splits)

lemma scan_obu_Inr_sh:
  "is_sh_obu obu \<Longrightarrow> scan_obu P cfg perm kf s i obu st
     = scan_sequence_header P cfg perm s i (obu_payload obu) st"
  by (simp add: scan_obu_def is_sh_obu_def)

lemma scan_obu_Inr_frame:
  assumes "is_frame_obu obu" and "scan_obu P cfg perm kf s i obu st = Inr st'"
  shows "first_sh_index st' = first_sh_index st"
    and "first_frame_index st' = or_else (first_frame_index st) (Some i)"
    and "current_sh_context st' = current_sh_context st"
    and "cvs_sh_payload st' = cvs_sh_payload st"
    and "kf \<Longrightarrow> first_frame_index st = None \<Longrightarrow> current_sh_context st = Some h \<Longrightarrow>
      parse_frame_header_prefix P (obu_payload obu) h = Inr (NewFrame KeyFrame True)"
  using assms
  by (auto simp: scan_obu_def is_frame_obu_def result_simps check_sync_frame_Inr Let_def
      split: if_splits option.splits)

lemma scan_obu_Inr_other:
  "\<not> is_sh_obu obu \<Longrightarrow> \<not> is_frame_obu obu \<Longrightarrow> scan_obu P cfg perm kf s i obu st = Inr st"
  by (simp add: scan_obu_def is_sh_obu_def is_frame_obu_def)

lemma scan_obu_context:
  assumes "scan_obu P cfg perm kf s i obu st = Inr st'"
  shows "context_agrees cfg (current_sh_context st) \<Longrightarrow>
      context_agrees cfg (current_sh_context st')"
    and "current_sh_context st \<noteq> None \<Longrightarrow> current_sh_context st' \<noteq> None"
  using assms
  by (cases "is_sh_obu obu"; cases "is_frame_obu obu";
      auto simp: scan_obu_Inr_sh scan_obu_Inr_other
        dest: scan_sequence_header_Inr(4,5) scan_obu_Inr_frame(3))+

lemma scan_obus_sh_acceptable:
  "scan_obus P cfg perm kf s i obus st = Inr st' \<Longrightarrow> obu \<in> set obus \<Longrightarrow> is_sh_obu obu \<Longrightarrow>
     sh_acceptable P cfg (obu_payload obu)"
  by (induction obus arbitrary: i st)
    (auto simp: result_simps scan_obu_Inr_sh dest: scan_sequence_header_Inr(1))

lemma scan_obus_first_sh:
  "scan_obus P cfg perm kf s i obus st = Inr st' \<Longrightarrow>
     first_sh_index st' = or_else (first_sh_index st) (first_index is_sh_obu i obus)"
proof (induction obus arbitrary: i st)
  case Nil
  then show ?case by (simp add: or_else_def split: option.splits)
next
  case (Cons obu obus)
  from Cons.prems obtain st1 where 1: "scan_obu P cfg perm kf s i obu st = Inr st1"
    and 2: "scan_obus P cfg perm kf s (Suc i) obus st1 = Inr st'"
    by (auto simp: result_simps)
  have "first_sh_index st1 = (if is_sh_obu obu then or_else (first_sh_index st) (Some i)
      else first_sh_index st)"
    using 1 by (cases "is_frame_obu obu")
      (auto simp: scan_obu_Inr_sh scan_obu_Inr_other dest: obu_kinds_disjoint
        scan_sequence_header_Inr(2) scan_obu_Inr_frame(1))
  with Cons.IH [OF 2] show ?case by (auto simp: or_else_def split: option.splits)
qed

lemma scan_obus_first_frame:
  "scan_obus P cfg perm kf s i obus st = Inr st' \<Longrightarrow>
     first_frame_index st' = or_else (first_frame_index st) (first_index is_frame_obu i obus)"
proof (induction obus arbitrary: i st)
  case Nil
  then show ?case by (simp add: or_else_def split: option.splits)
next
  case (Cons obu obus)
  from Cons.prems obtain st1 where 1: "scan_obu P cfg perm kf s i obu st = Inr st1"
    and 2: "scan_obus P cfg perm kf s (Suc i) obus st1 = Inr st'"
    by (auto simp: result_simps)
  have "first_frame_index st1 = (if is_frame_obu obu then or_else (first_frame_index st) (Some i)
      else first_frame_index st)"
    using 1 by (cases "is_sh_obu obu")
      (auto simp: scan_obu_Inr_sh scan_obu_Inr_other dest: obu_kinds_disjoint
        scan_sequence_header_Inr(3) scan_obu_Inr_frame(2))
  with Cons.IH [OF 2] show ?case by (auto simp: or_else_def split: option.splits)
qed

lemma scan_obus_context:
  "scan_obus P cfg perm kf s i obus st = Inr st' \<Longrightarrow>
     context_agrees cfg (current_sh_context st) \<Longrightarrow> context_agrees cfg (current_sh_context st')"
  by (induction obus arbitrary: i st) (auto simp: result_simps dest: scan_obu_context(1))

lemma scan_obus_key_frame:
  assumes "scan_obus P cfg perm True s i obus st = Inr st'"
    and "first_frame_index st = None"
    and "first_index is_frame_obu i obus = Some m"
    and "context_agrees cfg (current_sh_context st)"
    and "current_sh_context st \<noteq> None \<or> (\<exists>n < m. first_index is_sh_obu i obus = Some n)"
  shows "shown_key_frame P cfg (obu_payload (obus ! (m - i)))"
  using assms
proof (induction obus arbitrary: i st)
  case Nil
  then show ?case by simp
next
  case (Cons obu obus)
  from Cons.prems(1) obtain st1 where 1: "scan_obu P cfg perm True s i obu st = Inr st1"
    and 2: "scan_obus P cfg perm True s (Suc i) obus st1 = Inr st'"
    by (auto simp: result_simps)
  have ctx1: "context_agrees cfg (current_sh_context st1)"
    using scan_obu_context(1) [OF 1 Cons.prems(4)] .
  show ?case
  proof (cases "is_frame_obu obu")
    case True
    then have m: "m = i" and "\<not> is_sh_obu obu"
      using Cons.prems(3) obu_kinds_disjoint by auto
    then have "current_sh_context st \<noteq> None"
      using Cons.prems(5) first_index_Some [of is_sh_obu "Suc i" obus] by fastforce
    then obtain h where h: "current_sh_context st = Some h" by blast
    have "parse_frame_header_prefix P (obu_payload obu) h = Inr (NewFrame KeyFrame True)"
      using scan_obu_Inr_frame(5) [OF True 1 _ Cons.prems(2) h] by simp
    with h Cons.prems(4) m show ?thesis
      by (auto simp: shown_key_frame_def context_agrees_def)
  next
    case False
    then have m: "first_index is_frame_obu (Suc i) obus = Some m" using Cons.prems(3) by simp
    then have idx: "m - i = Suc (m - Suc i)" using first_index_Some by fastforce
    have ff: "first_frame_index st1 = None"
      using 1 Cons.prems(2) False
      by (cases "is_sh_obu obu")
        (auto simp: scan_obu_Inr_sh scan_obu_Inr_other dest: scan_sequence_header_Inr(3))
    have "current_sh_context st1 \<noteq> None \<or> (\<exists>n < m. first_index is_sh_obu (Suc i) obus = Some n)"
      using 1 Cons.prems(5) False
      by (cases "is_sh_obu obu")
        (auto simp: scan_obu_Inr_sh scan_obu_Inr_other dest: scan_sequence_header_Inr(4))
    from Cons.IH [OF 2 ff m ctx1 this] idx show ?thesis by simp
  qed
qed

lemma scan_obus_payload_permanent:
  "scan_obus P cfg (Some p) kf s i obus st = Inr st' \<Longrightarrow> obu \<in> set obus \<Longrightarrow> is_sh_obu obu \<Longrightarrow>
     obu_payload obu = p"
  by (induction obus arbitrary: i st)
    (auto simp: result_simps scan_obu_Inr_sh dest: scan_sequence_header_Inr(6))

lemma scan_obus_payload_cvs:
  "scan_obus P cfg None kf s i obus st = Inr st' \<Longrightarrow>
     (\<forall>b. cvs_sh_payload st = Some b \<longrightarrow> cvs_sh_payload st' = Some b) \<and>
     (\<forall>obu \<in> set obus. is_sh_obu obu \<longrightarrow> cvs_sh_payload st' = Some (obu_payload obu))"
proof (induction obus arbitrary: i st)
  case Nil
  then show ?case by simp
next
  case (Cons obu obus)
  from Cons.prems obtain st1 where 1: "scan_obu P cfg None kf s i obu st = Inr st1"
    and 2: "scan_obus P cfg None kf s (Suc i) obus st1 = Inr st'"
    by (auto simp: result_simps)
  have "cvs_sh_payload st = Some b \<Longrightarrow> cvs_sh_payload st1 = Some b" for b
    using 1 by (cases "is_sh_obu obu"; cases "is_frame_obu obu")
      (auto simp: scan_obu_Inr_sh scan_obu_Inr_other
        dest: scan_sequence_header_Inr(8) scan_obu_Inr_frame(4))
  moreover have "is_sh_obu obu \<Longrightarrow> cvs_sh_payload st1 = Some (obu_payload obu)"
    using 1 by (auto simp: scan_obu_Inr_sh dest: scan_sequence_header_Inr(7))
  ultimately show ?case using Cons.IH [OF 2] by auto
qed

subsection \<open>What an accepted sample says\<close>

definition sync_sample_ok ::
    "('x, 'h) av1_parsers \<Rightarrow> av1_track_config \<Rightarrow> av1_obu list \<Rightarrow> av1_obu list \<Rightarrow> bool" where
  "sync_sample_ok P cfg config_obu_list obus \<longleftrightarrow>
     (\<exists>s f. s < f \<and> f < length obus \<and> is_sh_obu (obus ! s) \<and> is_frame_obu (obus ! f) \<and>
        (\<forall>j < f. \<not> is_frame_obu (obus ! j)) \<and> shown_key_frame P cfg (obu_payload (obus ! f))) \<and>
     find (\<lambda>t. \<not> rtp_skipped t) (map obu_type config_obu_list @ map obu_type obus)
       = Some SequenceHeader"

definition sample_ok ::
    "('x, 'h) av1_parsers \<Rightarrow> av1_track_config \<Rightarrow> av1_obu list \<Rightarrow> (nat \<Rightarrow> 'x mp4_error + bytes) \<Rightarrow>
     nat \<Rightarrow> bool \<Rightarrow> bool" where
  "sample_ok P cfg config_obu_list read_sample i is_keyframe \<longleftrightarrow>
     (\<exists>data obus. read_sample i = Inr data \<and> parse_obus P SampleObus data = Inr obus \<and>
        (\<forall>obu \<in> set obus. is_sh_obu obu \<longrightarrow> sh_acceptable P cfg (obu_payload obu)) \<and>
        (is_keyframe \<longrightarrow> sync_sample_ok P cfg config_obu_list obus))"

definition sample_sh_payloads ::
    "('x, 'h) av1_parsers \<Rightarrow> (nat \<Rightarrow> 'x mp4_error + bytes) \<Rightarrow> nat \<Rightarrow> bytes set" where
  "sample_sh_payloads P read_sample i =
     (case read_sample i of
        Inl _ \<Rightarrow> {}
      | Inr data \<Rightarrow>
          (case parse_obus P SampleObus data of
             Inl _ \<Rightarrow> {}
           | Inr obus \<Rightarrow> set (map obu_payload (filter is_sh_obu obus))))"

lemma check_sync_sample_Inr:
  "check_sync_sample s cobus obus st = Inr u \<Longrightarrow>
     (\<exists>m n. first_sh_index st = Some m \<and> first_frame_index st = Some n \<and> m \<le> n) \<and>
     find (\<lambda>t. \<not> rtp_skipped t) (map obu_type cobus @ map obu_type obus) = Some SequenceHeader"
  by (auto simp: check_sync_sample_def result_simps split: if_splits option.splits)

lemma validate_sample_Inr:
  fixes P :: "('x, 'h) av1_parsers"
  assumes "validate_sample P cfg cobus perm read_sample i kf cvs = Inr cvs'"
  obtains data obus st where "read_sample i = Inr data" "parse_obus P SampleObus data = Inr obus"
    "scan_obus P cfg perm kf i 0 obus
       \<lparr>first_sh_index = None, first_frame_index = None,
        cvs_sh_payload = (if kf \<and> perm = None then None else fst cvs),
        current_sh_context = snd cvs\<rparr> = Inr st"
    "kf \<longrightarrow> check_sync_sample i cobus obus st = (Inr () :: 'x av1_reject + unit)"
    "cvs' = (cvs_sh_payload st, current_sh_context st)"
proof -
  from assms obtain data obus st u where d: "read_sample i = Inr data"
    and o: "parse_obus P SampleObus data = Inr obus"
    and st: "scan_obus P cfg perm kf i 0 obus
       \<lparr>first_sh_index = None, first_frame_index = None,
        cvs_sh_payload = (if kf \<and> perm = None then None else fst cvs),
        current_sh_context = snd cvs\<rparr> = Inr st"
    and ck: "(if kf then check_sync_sample i cobus obus st else Inr ())
        = (Inr u :: 'x av1_reject + unit)"
    and cvs': "cvs' = (cvs_sh_payload st, current_sh_context st)"
    unfolding validate_sample_def Let_def by (auto simp only: result_simps sum.inject)
  from ck have "kf \<longrightarrow> check_sync_sample i cobus obus st = (Inr () :: 'x av1_reject + unit)"
    by (cases kf) simp_all
  from that [OF d o st this cvs'] show ?thesis .
qed

lemma validate_sample_ok:
  fixes P :: "('x, 'h) av1_parsers"
  assumes "validate_sample P cfg cobus perm read_sample i kf cvs = Inr cvs'"
    and "context_agrees cfg (snd cvs)"
  shows "sample_ok P cfg cobus read_sample i kf \<and> context_agrees cfg (snd cvs')"
proof -
  from assms(1) obtain data obus st where d: "read_sample i = Inr data"
    and o: "parse_obus P SampleObus data = Inr obus"
    and sc: "scan_obus P cfg perm kf i 0 obus
       \<lparr>first_sh_index = None, first_frame_index = None,
        cvs_sh_payload = (if kf \<and> perm = None then None else fst cvs),
        current_sh_context = snd cvs\<rparr> = Inr st"
    and ck: "kf \<longrightarrow> check_sync_sample i cobus obus st = (Inr () :: 'x av1_reject + unit)"
    and cvs': "cvs' = (cvs_sh_payload st, current_sh_context st)"
    by (rule validate_sample_Inr)
  have "sync_sample_ok P cfg cobus obus" if kf
  proof -
    from check_sync_sample_Inr [OF ck [THEN mp, OF that]] obtain m n
      where "first_sh_index st = Some m" "first_frame_index st = Some n" "m \<le> n"
        and rtp: "find (\<lambda>t. \<not> rtp_skipped t) (map obu_type cobus @ map obu_type obus)
          = Some SequenceHeader" by blast
    then have m: "first_index is_sh_obu 0 obus = Some m"
      and n: "first_index is_frame_obu 0 obus = Some n"
      using scan_obus_first_sh [OF sc] scan_obus_first_frame [OF sc] by simp_all
    have "m \<noteq> n"
      using first_index_Some [OF m] first_index_Some [OF n] obu_kinds_disjoint by auto
    with \<open>m \<le> n\<close> have mn: "m < n" by simp
    have "shown_key_frame P cfg (obu_payload (obus ! (n - 0)))"
      using scan_obus_key_frame [OF sc [unfolded eqTrueI [OF that]], of n] n m mn assms(2) that
      by simp
    with mn first_index_Some [OF m] first_index_Some [OF n] rtp show ?thesis
      by (auto simp: sync_sample_ok_def)
  qed
  with d o scan_obus_sh_acceptable [OF sc] scan_obus_context [OF sc] assms(2) cvs'
  show ?thesis by (auto simp: sample_ok_def)
qed

lemma validate_samples_ok:
  "validate_samples P cfg cobus perm read_sample i ks cvs = Inr u \<Longrightarrow>
     context_agrees cfg (snd cvs) \<Longrightarrow> j < length ks \<Longrightarrow>
     sample_ok P cfg cobus read_sample (i + j) (ks ! j)"
proof (induction ks arbitrary: i j cvs)
  case Nil
  then show ?case by simp
next
  case (Cons k ks)
  from Cons.prems(1) obtain cvs1
    where 1: "validate_sample P cfg cobus perm read_sample i k cvs = Inr cvs1"
      and 2: "validate_samples P cfg cobus perm read_sample (Suc i) ks cvs1 = Inr u"
    by (auto simp: result_simps)
  from validate_sample_ok [OF 1 Cons.prems(2)]
  have ok: "sample_ok P cfg cobus read_sample i k" and ctx: "context_agrees cfg (snd cvs1)"
    by simp_all
  show ?case
  proof (cases j)
    case 0
    with ok show ?thesis by simp
  next
    case (Suc j')
    with Cons.IH [OF 2 ctx, of j'] Cons.prems(3) show ?thesis by simp
  qed
qed

lemma sample_sh_payloads_eq:
  "read_sample i = Inr data \<Longrightarrow> parse_obus P SampleObus data = Inr obus \<Longrightarrow>
     sample_sh_payloads P read_sample i = obu_payload ` {obu \<in> set obus. is_sh_obu obu}"
  by (simp add: sample_sh_payloads_def)

lemma validate_sample_permanent:
  assumes "validate_sample P cfg cobus (Some p) read_sample i kf cvs = Inr cvs'"
  shows "sample_sh_payloads P read_sample i \<subseteq> {p}"
  using assms by (rule validate_sample_Inr)
    (auto simp: sample_sh_payloads_eq dest: scan_obus_payload_permanent)

lemma validate_sample_cvs:
  assumes "validate_sample P cfg cobus None read_sample i kf cvs = Inr cvs'"
  shows "p \<in> sample_sh_payloads P read_sample i \<Longrightarrow> fst cvs' = Some p"
    and "\<not> kf \<Longrightarrow> fst cvs = Some b \<Longrightarrow> fst cvs' = Some b"
  using assms by (rule validate_sample_Inr,
      auto simp: sample_sh_payloads_eq dest: scan_obus_payload_cvs)+

lemma sync_sample_has_sh:
  "sample_ok P cfg cobus read_sample i True \<Longrightarrow> sample_sh_payloads P read_sample i \<noteq> {}"
  by (force simp: sample_ok_def sync_sample_ok_def sample_sh_payloads_eq)

lemma validate_samples_permanent:
  "validate_samples P cfg cobus (Some p) read_sample i ks cvs = Inr u \<Longrightarrow> j < length ks \<Longrightarrow>
     sample_sh_payloads P read_sample (i + j) \<subseteq> {p}"
proof (induction ks arbitrary: i j cvs)
  case (Cons k ks)
  then show ?case
    by (cases j) (fastforce simp: result_simps dest: validate_sample_permanent)+
qed simp

lemma validate_samples_keep:
  "validate_samples P cfg cobus None read_sample i ks cvs = Inr u \<Longrightarrow> fst cvs = Some b \<Longrightarrow>
     j < length ks \<Longrightarrow> \<forall>l \<le> j. \<not> ks ! l \<Longrightarrow> sample_sh_payloads P read_sample (i + j) \<subseteq> {b}"
proof (induction ks arbitrary: i j cvs)
  case (Cons k ks)
  from Cons.prems(1) obtain cvs1
    where 1: "validate_sample P cfg cobus None read_sample i k cvs = Inr cvs1"
      and 2: "validate_samples P cfg cobus None read_sample (Suc i) ks cvs1 = Inr u"
    by (auto simp: result_simps)
  have "\<not> k" using Cons.prems(4) by (metis le0 nth_Cons_0)
  then have b: "fst cvs1 = Some b" using validate_sample_cvs(2) [OF 1 _ Cons.prems(2)] by simp
  show ?case
  proof (cases j)
    case 0
    with validate_sample_cvs(1) [OF 1] b show ?thesis by auto
  next
    case (Suc j')
    then have "\<forall>l \<le> j'. \<not> ks ! l" using Cons.prems(4) by (metis Suc_le_mono nth_Cons_Suc)
    with Cons.IH [OF 2 b, of j'] Suc Cons.prems(3) show ?thesis by simp
  qed
qed simp

lemma validate_samples_drop:
  "validate_samples P cfg cobus perm read_sample i ks cvs = Inr u \<Longrightarrow> k < length ks \<Longrightarrow>
     \<exists>cvs1 cvs2. validate_sample P cfg cobus perm read_sample (i + k) (ks ! k) cvs1 = Inr cvs2 \<and>
       validate_samples P cfg cobus perm read_sample (Suc (i + k)) (drop (Suc k) ks) cvs2 = Inr u"
proof (induction ks arbitrary: i k cvs)
  case (Cons x ks)
  show ?case
  proof (cases k)
    case 0
    with Cons.prems show ?thesis by (fastforce simp: result_simps)
  next
    case (Suc k')
    from Cons.prems(1) obtain cvs1
      where "validate_samples P cfg cobus perm read_sample (Suc i) ks cvs1 = Inr u"
      by (auto simp: result_simps)
    from Cons.IH [OF this, of k'] Cons.prems(2) Suc show ?thesis by simp
  qed
qed simp

lemma validate_samples_cvs:
  assumes v: "validate_samples P cfg cobus None read_sample 0 ks cvs = Inr u"
    and ctx: "context_agrees cfg (snd cvs)"
    and k: "k < length ks" "ks ! k" and j: "k \<le> j" "j < length ks"
    and nosync: "\<forall>l. k < l \<and> l \<le> j \<longrightarrow> \<not> ks ! l"
  shows "\<exists>b. sample_sh_payloads P read_sample k = {b} \<and> sample_sh_payloads P read_sample j \<subseteq> {b}"
proof -
  from validate_samples_drop [OF v k(1)] obtain cvs1 cvs2
    where 1: "validate_sample P cfg cobus None read_sample k (ks ! k) cvs1 = Inr cvs2"
      and 2: "validate_samples P cfg cobus None read_sample (Suc k) (drop (Suc k) ks) cvs2 = Inr u"
    by auto
  from validate_samples_ok [OF v ctx k(1)] k(2)
  have "sample_sh_payloads P read_sample k \<noteq> {}" by (simp add: sync_sample_has_sh)
  then obtain b where b: "b \<in> sample_sh_payloads P read_sample k" by blast
  then have c: "fst cvs2 = Some b" by (rule validate_sample_cvs(1) [OF 1])
  have "p = b" if "p \<in> sample_sh_payloads P read_sample k" for p
    using validate_sample_cvs(1) [OF 1 that] c by simp
  with b have kb: "sample_sh_payloads P read_sample k = {b}" by blast
  show ?thesis
  proof (cases "j = k")
    case True
    with kb show ?thesis by simp
  next
    case False
    with j have jd: "j - Suc k < length (drop (Suc k) ks)" and jk: "Suc k + (j - Suc k) = j" by auto
    have "\<forall>l \<le> j - Suc k. \<not> drop (Suc k) ks ! l" using nosync j False by auto
    from validate_samples_keep [OF 2 c jd this] kb jk show ?thesis by auto
  qed
qed

subsection \<open>Properties of the track check\<close>

lemma validate_av1_track_Inr:
  fixes P :: "('x, 'h) av1_parsers"
  assumes "validate_av1_track P ks cfg read_sample = Inr u"
  obtains cobus config_sh where "parse_obus P ConfigObus (config_obus cfg) = Inr cobus"
    and "check_config_sh_position cobus = (Inr () :: 'x av1_reject + unit)"
    and "config_sequence_header P cfg cobus = Inr config_sh"
    and "ks \<noteq> []" and "ks ! 0"
    and "validate_samples P cfg cobus (map_option fst config_sh) read_sample 0 ks
           (None, map_option snd config_sh) = Inr ()"
proof -
  from assms obtain cobus config_sh where c: "parse_obus P ConfigObus (config_obus cfg) = Inr cobus"
    "check_config_sh_position cobus = (Inr () :: 'x av1_reject + unit)"
    "config_sequence_header P cfg cobus = Inr config_sh"
    and ks: "list_ex id ks" "ks ! 0"
    and v: "validate_samples P cfg cobus (map_option fst config_sh) read_sample 0 ks
           (None, map_option snd config_sh) = Inr ()"
    by (auto simp: validate_av1_track_def result_simps split: if_splits)
  from ks(1) have "ks \<noteq> []" by auto
  from that [OF c this ks(2) v] show ?thesis .
qed

lemma config_sh_indices_mem:
  "i \<in> set (config_sh_indices obus) \<longleftrightarrow> i < length obus \<and> is_sh_obu (obus ! i)"
  by (auto simp: config_sh_indices_def is_sh_obu_def)

lemma check_config_sh_position_Inr:
  assumes "check_config_sh_position cobus = Inr ()" and "i < length cobus" "is_sh_obu (cobus ! i)"
  shows "i = 0"
proof -
  from assms(1) have "config_sh_indices cobus = [] \<or> config_sh_indices cobus = [0]"
    by (auto simp: check_config_sh_position_def split: list.splits if_splits)
  moreover from assms(2,3) have "i \<in> set (config_sh_indices cobus)"
    by (simp add: config_sh_indices_mem)
  ultimately show ?thesis by auto
qed

lemma config_sequence_header_agrees:
  "config_sequence_header P cfg cobus = Inr (Some (payload, h)) \<Longrightarrow>
     sh_agrees cfg h \<and> (\<exists>obu rest. cobus = obu # rest \<and> is_sh_obu obu \<and> obu_payload obu = payload)"
  by (auto simp: config_sequence_header_def result_simps sh_agrees_def is_sh_obu_def
      split: list.splits if_splits)

lemma config_context_agrees:
  "config_sequence_header P cfg cobus = Inr config_sh \<Longrightarrow>
     context_agrees cfg (map_option snd config_sh)"
  by (cases config_sh) (auto simp: context_agrees_def dest: config_sequence_header_agrees)

lemma validate_av1_track_facts:
  assumes "validate_av1_track P ks cfg read_sample = Inr ()"
  shows "ks \<noteq> [] \<and> ks ! 0 \<and>
    (\<exists>cobus. parse_obus P ConfigObus (config_obus cfg) = Inr cobus \<and>
       (\<forall>i < length cobus. is_sh_obu (cobus ! i) \<longrightarrow> i = 0) \<and>
       (\<forall>i < length ks. sample_ok P cfg cobus read_sample i (ks ! i)))"
  using assms
proof (rule validate_av1_track_Inr)
  fix cobus config_sh
  assume "parse_obus P ConfigObus (config_obus cfg) = Inr cobus"
    and "check_config_sh_position cobus = (Inr () :: 'a av1_reject + unit)"
    and c: "config_sequence_header P cfg cobus = Inr config_sh" and "ks \<noteq> []" "ks ! 0"
    and v: "validate_samples P cfg cobus (map_option fst config_sh) read_sample 0 ks
          (None, map_option snd config_sh) = Inr ()"
  then show ?thesis
    using check_config_sh_position_Inr validate_samples_ok [OF v] config_context_agrees [OF c]
    by fastforce
qed

text \<open>
  Property C28. An accepted AV1 track: its first sample is a sync sample; a sequence header of
  the configuration OBUs stands first there; every sample is readable and parses, and every
  sequence header in it parses, has a single operating point and agrees with \<^verbatim>\<open>av1C\<close>; and
  in every sync sample a sequence header precedes the first frame OBU, that frame is a shown
  key frame, and the first OBU the packetizer sends (configuration OBUs and sample, less
  temporal delimiters and padding) is a sequence header.
\<close>

theorem validate_av1_track_sound:
  assumes "validate_av1_track P ks cfg read_sample = Inr ()"
  shows "ks \<noteq> [] \<and> ks ! 0 \<and>
    (\<exists>cobus. parse_obus P ConfigObus (config_obus cfg) = Inr cobus \<and>
       (\<forall>i < length cobus. is_sh_obu (cobus ! i) \<longrightarrow> i = 0) \<and>
       (\<forall>i < length ks. sample_ok P cfg cobus read_sample i (ks ! i)))"
  using assms by (rule validate_av1_track_facts)

text \<open>
  Property C29. Sequence header payloads of an accepted track: from a sync sample up to the next
  one every sequence header carries byte for byte the payload of that sync sample, and where
  the configuration OBUs begin with a sequence header its payload is the one of every
  sequence header in the whole track.
\<close>

theorem validate_av1_track_payloads:
  assumes "validate_av1_track P ks cfg read_sample = Inr ()"
    and "k < length ks" and "ks ! k" and "k \<le> j" and "j < length ks"
    and "\<forall>l. k < l \<and> l \<le> j \<longrightarrow> \<not> ks ! l"
  shows "(\<exists>b. sample_sh_payloads P read_sample k = {b} \<and>
            sample_sh_payloads P read_sample j \<subseteq> {b}) \<and>
    (\<forall>obu rest. parse_obus P ConfigObus (config_obus cfg) = Inr (obu # rest) \<and> is_sh_obu obu
       \<longrightarrow> sample_sh_payloads P read_sample j \<subseteq> {obu_payload obu})"
  using assms(1)
proof (rule validate_av1_track_Inr)
  fix cobus config_sh
  assume p: "parse_obus P ConfigObus (config_obus cfg) = Inr cobus"
    and c: "config_sequence_header P cfg cobus = Inr config_sh"
    and v: "validate_samples P cfg cobus (map_option fst config_sh) read_sample 0 ks
          (None, map_option snd config_sh) = Inr ()"
  have ctx: "context_agrees cfg (snd (None, map_option snd config_sh))"
    using config_context_agrees [OF c] by simp
  show ?thesis
  proof (cases config_sh)
    case None
    then have "\<forall>obu rest. cobus = obu # rest \<longrightarrow> \<not> is_sh_obu obu"
      using c by (auto simp: config_sequence_header_def result_simps is_sh_obu_def split: if_splits)
    moreover have "validate_samples P cfg cobus None read_sample 0 ks (None, None) = Inr ()"
      using v None by simp
    from validate_samples_cvs [OF this _ assms(2-6)] ctx None
    have "\<exists>b. sample_sh_payloads P read_sample k = {b} \<and> sample_sh_payloads P read_sample j \<subseteq> {b}"
      by simp
    ultimately show ?thesis using p by auto
  next
    case (Some c0)
    then obtain b h where ch: "config_sh = Some (b, h)" by (cases c0) auto
    from config_sequence_header_agrees c ch obtain obu rest
      where cobus: "cobus = obu # rest" "obu_payload obu = b" by blast
    have v': "validate_samples P cfg cobus (Some b) read_sample 0 ks (None, Some h) = Inr ()"
      using v ch by simp
    have sub: "sample_sh_payloads P read_sample i \<subseteq> {b}" if "i < length ks" for i
      using validate_samples_permanent [OF v' that] by simp
    have "sample_sh_payloads P read_sample k \<noteq> {}"
      using validate_samples_ok [OF v ctx assms(2)] assms(3) by (simp add: sync_sample_has_sh)
    with sub [OF assms(2)] sub [OF assms(5)] cobus p show ?thesis by auto
  qed
qed

subsection \<open>A concrete track for the witnesses\<close>

definition example_sh :: "unit av1_sequence_header" where
  "example_sh = \<lparr>sh_seq_profile = 0, sh_seq_level_idx_0 = 5, sh_seq_tier_0 = 0,
     sh_high_bitdepth = False, sh_twelve_bit = False, sh_monochrome = False,
     sh_chroma_subsampling_x = 1, sh_chroma_subsampling_y = 1, sh_chroma_sample_position = 0,
     sh_operating_points_cnt_minus_1 = 0, sh_operating_point_idc_0 = 0, sh_rest = ()\<rparr>"

definition example_av1_config :: "bytes \<Rightarrow> av1_track_config" where
  "example_av1_config obus = \<lparr>seq_profile = 0, seq_level_idx_0 = 5, seq_tier_0 = 0,
     high_bitdepth = False, twelve_bit = False, monochrome = False, chroma_subsampling_x = 1,
     chroma_subsampling_y = 1, chroma_sample_position = 0,
     initial_presentation_delay_minus_one = None, config_obus = obus\<rparr>"

definition example_obu :: "u8 \<Rightarrow> av1_obu" where
  "example_obu b = \<lparr>obu_type = (if b = 1 then SequenceHeader
     else if b = 2 then TemporalDelimiter else Frame), obu_payload = [b]\<rparr>"

definition example_av1_parsers :: "(unit, unit) av1_parsers" where
  "example_av1_parsers = \<lparr>parse_obus = (\<lambda>_ data. Inr (map example_obu data)),
     parse_sequence_header = (\<lambda>_. Inr example_sh),
     parse_frame_header_prefix = (\<lambda>_ _. Inr (NewFrame KeyFrame True))\<rparr>"

definition example_read_sample :: "nat \<Rightarrow> unit mp4_error + bytes" where
  "example_read_sample i = Inr (if i = 0 then [2, 1, 3] else [3])"

lemmas example_av1_defs = example_sh_def example_av1_config_def example_obu_def
  example_av1_parsers_def example_read_sample_def

lemma example_sh_agrees:
  "has_supported_operating_points example_sh \<and>
   sequence_header_matches_av1c example_sh (example_av1_config obus)"
  by (simp add: has_supported_operating_points_def sequence_header_matches_av1c_def
      example_sh_def example_av1_config_def)

lemma example_track_valid:
  "validate_av1_track example_av1_parsers [True, False] (example_av1_config [1])
     example_read_sample = Inr ()"
  by (simp add: validate_av1_track_def check_config_sh_position_def config_sh_indices_def
      config_sequence_header_def validate_sample_def scan_obu_def scan_sequence_header_def
      check_sync_frame_def check_sync_sample_def rtp_skipped_def example_sh_agrees
      example_av1_parsers_def example_obu_def example_read_sample_def Let_def upt_conv_Cons
      example_av1_config_def [of "[1]", THEN arg_cong [where f = config_obus]])

theorem validate_av1_track_sound_witness:
  "sample_ok example_av1_parsers (example_av1_config [1]) [example_obu 1] example_read_sample
     0 True"
  using validate_av1_track_sound [OF example_track_valid]
  by (force simp: example_av1_parsers_def example_av1_config_def)

theorem validate_av1_track_payloads_witness:
  "sample_sh_payloads example_av1_parsers example_read_sample 1 \<subseteq> {[1]}"
  using validate_av1_track_payloads [OF example_track_valid, of 0 1]
  by (simp add: example_av1_parsers_def example_av1_config_def example_obu_def is_sh_obu_def
      less_Suc_eq)

subsection \<open>Properties of the SDP negotiation and of the payload\<close>

lemma parse_av1_sdp_field_dec:
  "params key = Some (dec (unat v)) \<Longrightarrow>
     parse_av1_sdp_field params key d m = (if v > m then None else Some v)"
proof -
  assume p: "params key = Some (dec (unat v))"
  have "unat v < 2 ^ LENGTH(8)" by (rule unsigned_less)
  then have "unat v \<le> 255" by simp
  then have "parse_uint 255 (dec (unat v)) = Some (unat v)" by (rule parse_uint_dec)
  with p show ?thesis by (simp add: parse_av1_sdp_field_def Let_def)
qed

lemma parse_av1_sdp_field_omitted:
  "params key = None \<Longrightarrow> parse_av1_sdp_field params key d m = Some d"
  by (simp add: parse_av1_sdp_field_def)

lemma parse_av1_sdp_field_bound:
  "parse_av1_sdp_field params key d m = Some v \<Longrightarrow> d \<le> m \<Longrightarrow> v \<le> m"
  by (auto simp: parse_av1_sdp_field_def Let_def not_less bind_eq_Some_conv
      split: option.splits if_splits)

lemma resolve_av1_incoming_alt:
  "resolve_av1_incoming w required incoming =
     do { t \<leftarrow> codec_type_from_format w incoming;
          if t \<noteq> Av1 then None
          else do {
            incoming_profile \<leftarrow> parse_av1_sdp_field (sdp_params incoming) ''profile'' 0 2;
            incoming_level \<leftarrow> parse_av1_sdp_field (sdp_params incoming) ''level-idx'' 5 31;
            incoming_tier \<leftarrow> parse_av1_sdp_field (sdp_params incoming) ''tier'' 0 1;
            required_profile \<leftarrow> parse_av1_sdp_field (sdp_params required) ''profile'' 0 2;
            required_level \<leftarrow> parse_av1_sdp_field (sdp_params required) ''level-idx'' 5 31;
            required_tier \<leftarrow> parse_av1_sdp_field (sdp_params required) ''tier'' 0 1;
            if required_profile \<noteq> incoming_profile then None
            else if required_level > incoming_level then None
            else if required_tier > incoming_tier then None
            else Some required } }"
  unfolding resolve_av1_incoming_def codec_type_from_format_def Option.bind_assoc ..

text \<open>
  Property C30. AV1 negotiation against the format the SDK advertises for a track: the printed
  profile, level and tier parse back to the values of \<^verbatim>\<open>av1C\<close>, and an incoming format is
  accepted, with the required format as the answer, exactly when its codec is AV1, its three
  fields parse in their ranges, the profiles are equal and the level and the tier of the track
  do not exceed the incoming ones.
\<close>

theorem resolve_av1_required:
  assumes "seq_profile c \<le> 2" and "seq_level_idx_0 c \<le> 31" and "seq_tier_0 c \<le> 1"
  shows "resolve_av1_incoming w (av1_required_sdp_format (Some c)) incoming =
    (if codec_type_from_format w incoming = Some Av1 \<and>
        parse_av1_sdp_field (sdp_params incoming) ''profile'' 0 2 = Some (seq_profile c) \<and>
        (\<exists>l. parse_av1_sdp_field (sdp_params incoming) ''level-idx'' 5 31 = Some l \<and>
           seq_level_idx_0 c \<le> l) \<and>
        (\<exists>t. parse_av1_sdp_field (sdp_params incoming) ''tier'' 0 1 = Some t \<and>
           seq_tier_0 c \<le> t)
     then Some (av1_required_sdp_format (Some c)) else None)"
proof -
  let ?r = "av1_required_sdp_format (Some c)"
  have "parse_av1_sdp_field (sdp_params ?r) ''profile'' 0 2 = Some (seq_profile c)"
    and "parse_av1_sdp_field (sdp_params ?r) ''level-idx'' 5 31 = Some (seq_level_idx_0 c)"
    and "parse_av1_sdp_field (sdp_params ?r) ''tier'' 0 1 = Some (seq_tier_0 c)"
    using assms
    by (subst parse_av1_sdp_field_dec, auto simp: av1_required_sdp_format_def not_less)+
  note req = this
  show ?thesis
  proof (cases "codec_type_from_format w incoming = Some Av1")
    case False
    then show ?thesis
      by (cases "codec_type_from_format w incoming") (simp_all add: resolve_av1_incoming_alt)
  next
    case True
    then show ?thesis
      by (cases "parse_av1_sdp_field (sdp_params incoming) ''profile'' 0 2";
          cases "parse_av1_sdp_field (sdp_params incoming) ''level-idx'' 5 31";
          cases "parse_av1_sdp_field (sdp_params incoming) ''tier'' 0 1")
        (auto simp: resolve_av1_incoming_alt req)
  qed
qed

theorem resolve_av1_required_witness:
  "resolve_av1_incoming example_webrtc (av1_required_sdp_format (Some (example_av1_config [])))
     (sdp_new ''AV1'') = Some (av1_required_sdp_format (Some (example_av1_config [])))"
  using resolve_av1_required [of "example_av1_config []" example_webrtc "sdp_new ''AV1''"]
  by (simp add: example_av1_config_def codec_type_from_format_def parse_av1_sdp_field_omitted)

text \<open>
  Fact. The payload given to the encoder callback always ends with the sample as it is
  in the file, and what stands before it is the whole of \<^verbatim>\<open>configOBUs\<close> for a sync sample of
  a track that has a configuration, and nothing otherwise.
\<close>

theorem assemble_av1_prefix:
  "\<exists>prefix. assemble_av1_encoded_sample_data raw kf cfg = prefix @ raw \<and>
     prefix = (if kf then (case cfg of None \<Rightarrow> [] | Some c \<Rightarrow> config_obus c) else [])"
  by (auto simp: assemble_av1_encoded_sample_data_def split: option.splits)

end
