(* ===== verification/Mp4_Sample.thy ===== *)
theory Mp4_Sample
  imports Av1
begin

text \<open>
  Samples of an MP4 video track: \<^verbatim>\<open>src/video_codecs/mp4.rs\<close>, from the track information
  to the payload of one sample (\<^verbatim>\<open>Mp4Timestamp\<close>, \<^verbatim>\<open>validated_nal_length_size\<close>,
  \<^verbatim>\<open>length_prefixed_nalu_to_annex_b\<close>, \<^verbatim>\<open>read_bytes_at\<close>, \<^verbatim>\<open>read_sample\<close>).

  Seeking and \<^verbatim>\<open>read_exact\<close> on the file are the parameter \<open>rd\<close>, from a position and a
  size to the bytes or an I/O error.
\<close>

unbundle bit_operations_syntax

record mp4_video_track_info =
  ti_codec_type :: video_codec_type
  ti_width :: u16
  ti_height :: u16
  ti_timescale :: u32
  ti_parameter_sets :: "bytes option"
  ti_nal_length_size :: u8
  ti_av1_config :: "av1_track_config option"
  ti_h264_config :: "h264_track_config option"

record mp4_sample_meta =
  data_offset :: u64
  data_size :: u64
  is_keyframe :: bool
  duration :: u32

record mp4_encoded_sample =
  es_data :: bytes
  es_is_keyframe :: bool
  es_width :: u32
  es_height :: u32
  es_codec_type :: video_codec_type
  es_playback_serial :: u64

subsection \<open>Time\<close>

record mp4_timestamp =
  ticks :: u64
  timescale :: u32

record std_duration =
  secs :: u64
  nanos :: u32

text \<open>
  Division by a zero timescale panics in the code; \<^verbatim>\<open>timescale\<close> comes from a
  \<^verbatim>\<open>NonZeroU32\<close>, so the case is a hypothesis of the lemmas.
\<close>

definition to_duration :: "mp4_timestamp \<Rightarrow> std_duration" where
  "to_duration t =
     (let ts = (ucast (timescale t) :: u64);
          s = ticks t div ts;
          n = (ticks t mod ts) * 1000000000 div ts
      in \<lparr>secs = s, nanos = (ucast n :: u32)\<rparr>)"

fun cumulative_from :: "u32 \<Rightarrow> u64 \<Rightarrow> mp4_sample_meta list \<Rightarrow> mp4_timestamp list" where
  "cumulative_from ts acc [] = []"
| "cumulative_from ts acc (s # ss) =
     (let acc' = acc + ucast (duration s)
      in \<lparr>ticks = acc', timescale = ts\<rparr> # cumulative_from ts acc' ss)"

definition cumulative_table :: "u32 \<Rightarrow> mp4_sample_meta list \<Rightarrow> mp4_timestamp list" where
  "cumulative_table ts samples = \<lparr>ticks = 0, timescale = ts\<rparr> # cumulative_from ts 0 samples"

subsection \<open>NAL units\<close>

definition start_code :: bytes where
  "start_code = [0x00, 0x00, 0x00, 0x01]"

definition saturating_add_u8 :: "u8 \<Rightarrow> u8 \<Rightarrow> u8" where
  "saturating_add_u8 a b = (case checked_add a b of None \<Rightarrow> 255 | Some c \<Rightarrow> c)"

definition validated_nal_length_size :: "u8 \<Rightarrow> 'x mp4_error + u8" where
  "validated_nal_length_size length_size_minus_one =
     (if length_size_minus_one = 0 then Inr 1
      else if length_size_minus_one = 1 then Inr 2
      else if length_size_minus_one = 3 then Inr 4
      else Inl (InvalidNalLengthSize (saturating_add_u8 length_size_minus_one 1)))"

definition be_value :: "bytes \<Rightarrow> nat" where
  "be_value bs = fold (\<lambda>b acc. acc * 256 + unat b) bs 0"

text \<open>The inner \<^verbatim>\<open>match\<close>; \<open>None\<close> is its \<^verbatim>\<open>unreachable!()\<close> arm.\<close>

definition nal_size_at :: "bytes \<Rightarrow> nat \<Rightarrow> nat \<Rightarrow> nat option" where
  "nal_size_at data n offset =
     (if n = 1 then Some (be_value [data ! offset])
      else if n = 2 then Some (be_value [data ! offset, data ! (offset + 1)])
      else if n = 4 then
        Some (be_value [data ! offset, data ! (offset + 1), data ! (offset + 2), data ! (offset + 3)])
      else None)"

function annex_b_loop :: "bytes \<Rightarrow> nat \<Rightarrow> nat \<Rightarrow> bytes \<Rightarrow> bytes option" where
  "annex_b_loop data n offset result =
     (if offset + n \<le> length data then
        (case nal_size_at data n offset of
           None \<Rightarrow> None
         | Some nal_size \<Rightarrow>
             if offset + n + nal_size > length data then Some result
             else annex_b_loop data n (offset + n + nal_size)
                    (result @ start_code @ take nal_size (drop (offset + n) data)))
      else Some result)"
  by pat_completeness auto
termination
  by (relation "measure (\<lambda>(data, n, offset, result). length data - offset)")
    (auto simp: nal_size_at_def split: if_splits)

declare annex_b_loop.simps [simp del]

definition length_prefixed_nalu_to_annex_b :: "bytes \<Rightarrow> u8 \<Rightarrow> bytes option" where
  "length_prefixed_nalu_to_annex_b data nal_length_size =
     annex_b_loop data (unat nal_length_size) 0 []"

subsection \<open>Reading one sample\<close>

definition read_bytes_at :: "(u64 \<Rightarrow> u64 \<Rightarrow> 'x + bytes) \<Rightarrow> u64 \<Rightarrow> u64 \<Rightarrow> 'x mp4_error + bytes" where
  "read_bytes_at rd position sz = map_err Io (rd position sz)"

datatype read_panic = SampleIndexOutOfRange nat nat | NalLengthUnreachable

definition read_sample ::
    "(u64 \<Rightarrow> u64 \<Rightarrow> 'x + bytes) \<Rightarrow> mp4_video_track_info \<Rightarrow> mp4_sample_meta list \<Rightarrow> nat \<Rightarrow>
     read_panic + ('x mp4_error + mp4_encoded_sample)" where
  "read_sample rd track_info samples index =
     (if index \<ge> length samples then Inl (SampleIndexOutOfRange index (length samples))
      else
        (let sample = samples ! index in
         case read_bytes_at rd (data_offset sample) (data_size sample) of
           Inl e \<Rightarrow> Inr (Inl e)
         | Inr raw_data \<Rightarrow>
             bindE
               (if ti_codec_type track_info = H264 \<or> ti_codec_type track_info = H265 then
                  ok_or NalLengthUnreachable
                    (map_option
                      (\<lambda>annex_b. (case ti_parameter_sets track_info of
                          Some ps \<Rightarrow> if is_keyframe sample then ps else []
                        | None \<Rightarrow> []) @ annex_b)
                      (length_prefixed_nalu_to_annex_b raw_data (ti_nal_length_size track_info)))
                else if ti_codec_type track_info = Av1 then
                  Inr (assemble_av1_encoded_sample_data raw_data (is_keyframe sample)
                         (ti_av1_config track_info))
                else Inr raw_data)
               (\<lambda>data. Inr (Inr
                 \<lparr>es_data = data, es_is_keyframe = is_keyframe sample,
                  es_width = ucast (ti_width track_info), es_height = ucast (ti_height track_info),
                  es_codec_type = ti_codec_type track_info, es_playback_serial = 0\<rparr>))))"

subsection \<open>Lemmas on time\<close>

lemma u32_zero_iff: "unat (x :: u32) = 0 \<longleftrightarrow> x = 0"
  by (simp add: unat_eq_0)

lemma mod_scaled_bound:
  assumes "0 < (ts::nat)" shows "(x mod ts) * 1000000000 div ts < 1000000000"
proof -
  have "x mod ts < ts" using assms by simp
  then have "(x mod ts) * 1000000000 < 1000000000 * ts" by simp
  then show ?thesis by (rule less_mult_imp_div_less)
qed

lemma split_scaled_div:
  assumes "0 < (ts::nat)"
  shows "(x div ts) * 1000000000 + (x mod ts) * 1000000000 div ts = x * 1000000000 div ts"
proof -
  have "x = (x div ts) * ts + x mod ts" by simp
  then have "x * 1000000000 = ((x div ts) * ts + x mod ts) * 1000000000" by (rule arg_cong)
  also have "\<dots> = ((x div ts) * 1000000000) * ts + (x mod ts) * 1000000000"
    by (simp only: distrib_right mult.assoc mult.commute [of ts])
  finally have "x * 1000000000 div ts
     = (((x div ts) * 1000000000) * ts + (x mod ts) * 1000000000) div ts" by (rule arg_cong)
  also have "\<dots> = (x div ts) * 1000000000 + (x mod ts) * 1000000000 div ts"
    using assms by (intro div_mult_self3) simp
  finally show ?thesis ..
qed

lemma to_duration_fields:
  assumes "timescale t \<noteq> 0"
  shows "unat (secs (to_duration t)) = unat (ticks t) div unat (timescale t)"
    and "unat (nanos (to_duration t))
      = (unat (ticks t) mod unat (timescale t)) * 1000000000 div unat (timescale t)"
proof -
  have pos: "0 < unat (timescale t)" using assms by (simp add: unat_gt_0)
  show "unat (secs (to_duration t)) = unat (ticks t) div unat (timescale t)"
    by (simp add: to_duration_def Let_def unat_div_distrib)
  have "unat (ticks t) mod unat (timescale t) < 4294967296"
    using pos u32_bound [of "timescale t"] by (metis less_trans mod_less_divisor)
  then have m: "unat ((ticks t mod ucast (timescale t)) * 1000000000)
      = (unat (ticks t) mod unat (timescale t)) * 1000000000"
    by (simp add: unat_word_ariths unat_mod_distrib)
  then show "unat (nanos (to_duration t))
      = (unat (ticks t) mod unat (timescale t)) * 1000000000 div unat (timescale t)"
    using mod_scaled_bound [OF pos, of "unat (ticks t)"]
    by (simp add: to_duration_def Let_def unat_div_distrib unat_ucast_u64_u32)
qed

lemma length_cumulative_from [simp]: "length (cumulative_from ts acc ss) = length ss"
  by (induction ss arbitrary: acc) (simp_all add: Let_def)

lemma cumulative_from_nth:
  "unat acc + (\<Sum>s \<leftarrow> ss. unat (duration s)) < 2 ^ 64 \<Longrightarrow> i < length ss \<Longrightarrow>
     unat (ticks (cumulative_from ts acc ss ! i))
       = unat acc + (\<Sum>s \<leftarrow> take (Suc i) ss. unat (duration s)) \<and>
     timescale (cumulative_from ts acc ss ! i) = ts"
proof (induction ss arbitrary: acc i)
  case Nil
  then show ?case by simp
next
  case (Cons s ss)
  have acc: "unat (acc + ucast (duration s) :: u64) = unat acc + unat (duration s)"
    using Cons.prems(1) by (simp add: unat_word_ariths)
  show ?case
  proof (cases i)
    case 0
    with acc show ?thesis by (simp add: Let_def)
  next
    case (Suc j)
    with Cons.IH [of "acc + ucast (duration s)" j] Cons.prems acc show ?thesis
      by (simp add: Let_def)
  qed
qed

subsection \<open>Properties of time\<close>

text \<open>
  Fact. Conversion of a timestamp: for a non-zero timescale the split into quotient and
  remainder never overflows, the nanoseconds stay below one second, and seconds and nanoseconds
  together are exactly the tick count scaled to nanoseconds, rounded down.
\<close>

theorem to_duration_exact:
  assumes "timescale t \<noteq> 0"
  shows "unat (nanos (to_duration t)) < 1000000000 \<and>
    unat (secs (to_duration t)) * 1000000000 + unat (nanos (to_duration t))
      = unat (ticks t) * 1000000000 div unat (timescale t)"
proof -
  have pos: "0 < unat (timescale t)" using assms by (simp add: unat_gt_0)
  show ?thesis
    by (simp add: to_duration_fields [OF assms] mod_scaled_bound [OF pos] split_scaled_div [OF pos])
qed

theorem to_duration_exact_witness:
  "unat (nanos (to_duration \<lparr>ticks = 0xFFFFFFFFFFFFFFFF, timescale = 90000\<rparr>)) < 1000000000 \<and>
   unat (secs (to_duration \<lparr>ticks = 0xFFFFFFFFFFFFFFFF, timescale = 90000\<rparr>)) * 1000000000
     + unat (nanos (to_duration \<lparr>ticks = 0xFFFFFFFFFFFFFFFF, timescale = 90000\<rparr>))
     = 18446744073709551615 * 1000000000 div 90000"
  using to_duration_exact [of "\<lparr>ticks = 0xFFFFFFFFFFFFFFFF, timescale = 90000\<rparr>"] by simp

text \<open>
  Fact. The table of playback times: one entry more than there are samples, starting at
  zero, entry \<open>i\<close> being the sum of the first \<open>i\<close> durations, as long as the total fits in 64
  bits.
\<close>

theorem cumulative_table_sums:
  assumes "(\<Sum>s \<leftarrow> samples. unat (duration s)) < 2 ^ 64"
  shows "length (cumulative_table ts samples) = length samples + 1 \<and>
    (\<forall>i \<le> length samples.
       unat (ticks (cumulative_table ts samples ! i))
         = (\<Sum>s \<leftarrow> take i samples. unat (duration s)) \<and>
       timescale (cumulative_table ts samples ! i) = ts)"
proof -
  have "unat (ticks (cumulative_table ts samples ! i)) = (\<Sum>s \<leftarrow> take i samples. unat (duration s)) \<and>
      timescale (cumulative_table ts samples ! i) = ts" if "i \<le> length samples" for i
    using that assms cumulative_from_nth [of 0 samples "i - 1" ts]
    by (cases i) (auto simp: cumulative_table_def)
  then show ?thesis by (simp add: cumulative_table_def)
qed

theorem cumulative_table_sums_witness:
  "unat (ticks (cumulative_table 30
     [\<lparr>data_offset = 0, data_size = 1, is_keyframe = True, duration = 3\<rparr>,
      \<lparr>data_offset = 1, data_size = 1, is_keyframe = False, duration = 4\<rparr>] ! 2)) = 7"
  using cumulative_table_sums
    [of "[\<lparr>data_offset = 0, data_size = 1, is_keyframe = True, duration = 3\<rparr>,
      \<lparr>data_offset = 1, data_size = 1, is_keyframe = False, duration = 4\<rparr>]" 30]
  by simp

subsection \<open>Conversion to Annex B\<close>

text \<open>The two framings, as the specification of the conversion.\<close>

definition be_bytes :: "nat \<Rightarrow> nat \<Rightarrow> bytes" where
  "be_bytes n k = rev (map (\<lambda>i. word_of_nat (k div 256 ^ i)) [0..<n])"

definition length_prefixed :: "nat \<Rightarrow> bytes list \<Rightarrow> bytes" where
  "length_prefixed n nals = concat (map (\<lambda>x. be_bytes n (length x) @ x) nals)"

definition annex_b :: "bytes list \<Rightarrow> bytes" where
  "annex_b nals = concat (map (\<lambda>x. start_code @ x) nals)"

definition nal_length_sizes :: "nat set" where
  "nal_length_sizes = {1, 2, 4}"

lemma length_be_bytes [simp]: "length (be_bytes n k) = n"
  by (simp add: be_bytes_def)

lemma unat_word_of_nat_u8: "unat (word_of_nat k :: u8) = k mod 256"
  by (simp add: unsigned_of_nat take_bit_eq_mod)

lemma be_bytes_1: "be_bytes 1 k = [word_of_nat k]"
  by (simp add: be_bytes_def)

lemma be_bytes_2: "be_bytes 2 k = [word_of_nat (k div 256), word_of_nat k]"
proof -
  have "[0..<2] = [0, 1::nat]" by (simp add: upt_rec)
  then show ?thesis by (simp add: be_bytes_def)
qed

lemma be_bytes_4:
  "be_bytes 4 k = [word_of_nat (k div 16777216), word_of_nat (k div 65536),
     word_of_nat (k div 256), word_of_nat k]"
proof -
  have "[0..<4] = [0, 1, 2, 3::nat]" by (simp add: upt_rec)
  then show ?thesis by (simp add: be_bytes_def)
qed

lemmas be_bytes_simps = be_bytes_1 be_bytes_2 be_bytes_4

lemma base256_step: "k div (m * 256) * 256 + k div m mod 256 = k div (m::nat)"
  by (simp add: div_mult2_eq)

lemma nal_size_at_prefix:
  assumes "n \<in> nal_length_sizes" and "k < 256 ^ n"
  shows "nal_size_at (pre @ be_bytes n k @ rest) n (length pre) = Some k"
proof -
  have "n = 1 \<or> n = 2 \<or> n = 4" using assms(1) by (simp add: nal_length_sizes_def)
  then show ?thesis
  proof (elim disjE)
    assume "n = 1"
    with assms(2) show ?thesis
      by (simp add: nal_size_at_def be_value_def be_bytes_1 [simplified] unat_word_of_nat_u8)
  next
    assume "n = 2"
    then have "k div 256 < 256" using assms(2) by simp
    with \<open>n = 2\<close> show ?thesis
      by (simp add: nal_size_at_def be_value_def be_bytes_2 unat_word_of_nat_u8 nth_append)
  next
    assume "n = 4"
    then have "k div 16777216 < 256" using assms(2) by simp
    then have top: "k div 16777216 mod 256 = k div 16777216" by simp
    have "((k div 16777216 * 256 + k div 65536 mod 256) * 256 + k div 256 mod 256) * 256
        + k mod 256 = k"
      using base256_step [of k 65536] base256_step [of k 256] base256_step [of k 1] by simp
    with \<open>n = 4\<close> show ?thesis
      by (simp add: top nal_size_at_def be_value_def be_bytes_4 unat_word_of_nat_u8 nth_append)
  qed
qed

lemma nal_size_at_total: "n \<in> nal_length_sizes \<Longrightarrow> \<exists>k. nal_size_at data n offset = Some k"
  by (auto simp: nal_length_sizes_def nal_size_at_def)

lemma annex_b_loop_total:
  "n \<in> nal_length_sizes \<Longrightarrow> \<exists>r. annex_b_loop data n offset result = Some r"
proof (induction data n offset result rule: annex_b_loop.induct)
  case (1 data n offset result)
  then obtain k where "nal_size_at data n offset = Some k"
    using nal_size_at_total by blast
  with 1 show ?case by (subst annex_b_loop.simps) auto
qed

definition incomplete_unit :: "nat \<Rightarrow> bytes \<Rightarrow> bool" where
  "incomplete_unit n tail \<longleftrightarrow>
     length tail < n \<or> (\<exists>k xs. tail = be_bytes n k @ xs \<and> k < 256 ^ n \<and> length xs < k)"

lemma annex_b_loop_tail:
  assumes "n \<in> nal_length_sizes" and "incomplete_unit n tail"
  shows "annex_b_loop (pre @ tail) n (length pre) result = Some result"
proof (cases "length tail < n")
  case True
  then show ?thesis by (subst annex_b_loop.simps) simp
next
  case False
  with assms(2) obtain k xs where t: "tail = be_bytes n k @ xs" "k < 256 ^ n" "length xs < k"
    by (auto simp: incomplete_unit_def)
  have "nal_size_at (pre @ be_bytes n k @ xs) n (length pre) = Some k"
    by (rule nal_size_at_prefix [OF assms(1) t(2)])
  with t show ?thesis by (subst annex_b_loop.simps) simp
qed

lemma annex_b_loop_units:
  assumes "n \<in> nal_length_sizes" and "\<forall>x \<in> set nals. length x < 256 ^ n"
    and "incomplete_unit n tail"
  shows "annex_b_loop (pre @ length_prefixed n nals @ tail) n (length pre) result
    = Some (result @ annex_b nals)"
  using assms(2)
proof (induction nals arbitrary: pre result)
  case Nil
  show ?case
    using annex_b_loop_tail [OF assms(1,3)] by (simp add: length_prefixed_def annex_b_def)
next
  case (Cons x nals)
  let ?rest = "length_prefixed n nals @ tail"
  let ?data = "pre @ be_bytes n (length x) @ x @ ?rest"
  have size: "nal_size_at ?data n (length pre) = Some (length x)"
    using Cons.prems nal_size_at_prefix [OF assms(1), of "length x" pre "x @ ?rest"] by simp
  have ih: "annex_b_loop ((pre @ be_bytes n (length x) @ x) @ ?rest) n
      (length (pre @ be_bytes n (length x) @ x)) (result @ start_code @ x)
      = Some ((result @ start_code @ x) @ annex_b nals)"
    using Cons.prems by (intro Cons.IH) simp
  have "annex_b_loop ?data n (length pre) result
      = annex_b_loop ?data n (length pre + n + length x) (result @ start_code @ x)"
    by (subst annex_b_loop.simps) (simp add: size)
  with ih show ?case by (simp add: length_prefixed_def annex_b_def add.assoc)
qed

text \<open>
  Property C27. Annex B conversion: for a valid length size the loop ends without reaching
  \<^verbatim>\<open>unreachable!()\<close> on every input; on a sequence of length-prefixed NAL units it yields
  the same units behind start codes, and an incomplete unit at the end (too short for its
  length field or for its length) is dropped.
\<close>

theorem annex_b_conversion:
  assumes "unat n \<in> nal_length_sizes"
  shows "(\<exists>r. length_prefixed_nalu_to_annex_b data n = Some r) \<and>
    ((\<forall>x \<in> set nals. length x < 256 ^ unat n) \<and> (tail = [] \<or> incomplete_unit (unat n) tail) \<longrightarrow>
       length_prefixed_nalu_to_annex_b (length_prefixed (unat n) nals @ tail) n
         = Some (annex_b nals))"
proof -
  have "incomplete_unit (unat n) []"
    using assms by (auto simp: incomplete_unit_def nal_length_sizes_def)
  then show ?thesis
    using annex_b_loop_total [OF assms] annex_b_loop_units [OF assms, of nals tail "[]" "[]"]
      annex_b_loop_units [OF assms, of nals "[]" "[]" "[]"]
    by (auto simp: length_prefixed_nalu_to_annex_b_def)
qed

theorem annex_b_conversion_witness:
  "length_prefixed_nalu_to_annex_b (length_prefixed 2 [[0x65, 7], [0x41]] @ [0]) 2
     = Some [0, 0, 0, 1, 0x65, 7, 0, 0, 0, 1, 0x41]"
  using annex_b_conversion [of 2 "[]" "[[0x65, 7], [0x41]]" "[0]"]
  by (simp add: nal_length_sizes_def incomplete_unit_def annex_b_def start_code_def)

subsection \<open>NAL length sizes and reading\<close>

lemma validated_nal_length_size_Inr:
  "validated_nal_length_size m = Inr n \<Longrightarrow> unat n \<in> nal_length_sizes \<and> unat n = unat m + 1"
  by (auto simp: validated_nal_length_size_def nal_length_sizes_def split: if_splits)

definition needs_annex_b :: "mp4_video_track_info \<Rightarrow> bool" where
  "needs_annex_b ti \<longleftrightarrow> ti_codec_type ti = H264 \<or> ti_codec_type ti = H265"

text \<open>
  Fact. Reading a sample: for a track whose length size was validated, an index in range
  never panics; a failing read is reported as that I/O error, and a successful one yields the
  meta data of the sample and of the track, with the payload of the track's codec: parameter
  sets (on a key frame) and Annex B units for H.264 and H.265, the configuration OBUs (on a
  sync sample) and the raw data for AV1, the raw data otherwise.
\<close>

theorem read_sample_spec:
  assumes "i < length samples" and "needs_annex_b ti \<longrightarrow> unat (ti_nal_length_size ti) \<in> nal_length_sizes"
  shows "\<exists>r. read_sample rd ti samples i = Inr r \<and>
    (\<forall>e. rd (data_offset (samples ! i)) (data_size (samples ! i)) = Inl e \<longrightarrow> r = Inl (Io e)) \<and>
    (\<forall>raw. rd (data_offset (samples ! i)) (data_size (samples ! i)) = Inr raw \<longrightarrow>
       (\<exists>es. r = Inr es \<and> es_is_keyframe es = is_keyframe (samples ! i) \<and>
          es_codec_type es = ti_codec_type ti \<and>
          unat (es_width es) = unat (ti_width ti) \<and> unat (es_height es) = unat (ti_height ti) \<and>
          es_data es =
            (if needs_annex_b ti then
               (if is_keyframe (samples ! i) then (case ti_parameter_sets ti of None \<Rightarrow> [] | Some ps \<Rightarrow> ps)
                else []) @ the (length_prefixed_nalu_to_annex_b raw (ti_nal_length_size ti))
             else if ti_codec_type ti = Av1 then
               (if is_keyframe (samples ! i)
                then (case ti_av1_config ti of None \<Rightarrow> [] | Some c \<Rightarrow> config_obus c) else []) @ raw
             else raw)))"
proof (cases "rd (data_offset (samples ! i)) (data_size (samples ! i))")
  case (Inl e)
  with assms show ?thesis by (simp add: read_sample_def read_bytes_at_def)
next
  case (Inr raw)
  have u16: "unat (ucast (x :: u16) :: u32) = unat x" for x
  proof -
    have "unat x < 2 ^ LENGTH(16)" by (rule unsigned_less)
    then show ?thesis by (simp add: unsigned_ucast_eq take_bit_nat_eq_self)
  qed
  show ?thesis
  proof (cases "needs_annex_b ti")
    case True
    then obtain r where "length_prefixed_nalu_to_annex_b raw (ti_nal_length_size ti) = Some r"
      using assms(2) annex_b_loop_total unfolding length_prefixed_nalu_to_annex_b_def by blast
    with True Inr assms(1) show ?thesis
      by (auto simp: read_sample_def read_bytes_at_def needs_annex_b_def u16 split: option.splits)
  next
    case False
    with Inr assms(1) show ?thesis
      by (auto simp: read_sample_def read_bytes_at_def needs_annex_b_def u16
          assemble_av1_encoded_sample_data_def split: option.splits)
  qed
qed

definition example_track_info :: mp4_video_track_info where
  "example_track_info =
     \<lparr>ti_codec_type = H264, ti_width = 2, ti_height = 2, ti_timescale = 30,
      ti_parameter_sets = Some [9], ti_nal_length_size = 1, ti_av1_config = None,
      ti_h264_config = None\<rparr>"

theorem read_sample_spec_witness:
  "\<exists>es. read_sample (\<lambda>_ _. Inr [1, 7] :: unit + bytes) example_track_info
     [\<lparr>data_offset = 0, data_size = 2, is_keyframe = True, duration = 1\<rparr>] 0 = Inr (Inr es) \<and>
   es_data es = [9] @ the (length_prefixed_nalu_to_annex_b [1, 7] 1)"
  using read_sample_spec
    [of 0 "[\<lparr>data_offset = 0, data_size = 2, is_keyframe = True, duration = 1\<rparr>]"
      example_track_info "\<lambda>_ _. Inr [1, 7] :: unit + bytes"]
  by (auto simp: example_track_info_def needs_annex_b_def nal_length_sizes_def)

end
