(* ===== verification/Mp4_Reader.thy ===== *)
theory Mp4_Reader
  imports Mp4_Sample
begin

text \<open>
  The MP4 reader of \<^verbatim>\<open>src/video_codecs/mp4.rs\<close>: \<^verbatim>\<open>extract_track_info\<close>,
  \<^verbatim>\<open>new_inner\<close>, \<^verbatim>\<open>required_sdp_format\<close> and \<^verbatim>\<open>get_sample\<close>.

  The boxes are records with the fields the code reads (what only the re-encoder of the crate
  reads is \<open>avcc_rest\<close>). The crate's SPS parser and box encoder are the fields of \<open>avc_api\<close>;
  its demuxer is an abstract state with the operations of the record \<open>demuxer\<close>. The two loops
  that drive the demuxer stop when the demuxer does, so they are
  \<^theory_text>\<open>partial_function (option)\<close>s, with \<open>None\<close> for a demuxer that never stops.
\<close>

unbundle bit_operations_syntax

subsection \<open>Boxes\<close>

record avcc_box_t =
  avc_profile_indication :: u8
  profile_compatibility :: u8
  avc_level_indication :: u8
  avcc_length_size_minus_one :: u8
  sps_list :: "bytes list"
  pps_list :: "bytes list"
  chroma_format :: "u8 option"
  avcc_rest :: bytes

record hvcc_box_t =
  hvcc_length_size_minus_one :: u8
  nalu_arrays :: "bytes list list"

record av1c_box_t =
  c_seq_profile :: u8
  c_seq_level_idx_0 :: u8
  c_seq_tier_0 :: u8
  c_high_bitdepth :: u8
  c_twelve_bit :: u8
  c_monochrome :: u8
  c_chroma_subsampling_x :: u8
  c_chroma_subsampling_y :: u8
  c_chroma_sample_position :: u8
  c_initial_presentation_delay_minus_one :: "u8 option"
  c_config_obus :: bytes

datatype sample_entry =
    Avc1 u16 u16 avcc_box_t
  | Hev1 u16 u16 hvcc_box_t
  | Hvc1 u16 u16 hvcc_box_t
  | Vp08 u16 u16
  | Vp09 u16 u16
  | Av01 u16 u16 av1c_box_t
  | OtherEntry

record sps_info =
  sps_profile_level_id :: profile_level_id
  sps_width :: u16
  sps_height :: u16

record 'x avc_api =
  parse_sps :: "bytes \<Rightarrow> 'x + sps_info"
  encode_avcc :: "avcc_box_t \<Rightarrow> 'x + bytes"

subsection \<open>Track information\<close>

fun check_sps_list ::
    "'x avc_api \<Rightarrow> profile_level_id \<Rightarrow> u16 \<Rightarrow> u16 \<Rightarrow> nat \<Rightarrow> bytes list \<Rightarrow> 'x h264_reject + unit" where
  "check_sps_list A avc_plid width height i [] = Inr ()"
| "check_sps_list A avc_plid width height i (sps # rest) =
     bindE (map_err (SpsUnparsable i) (parse_sps A sps)) (\<lambda>info.
       if sps_profile_level_id info \<noteq> avc_plid then
         Inl (SpsPlidMismatch i (sps_profile_level_id info) avc_plid)
       else if sps_width info \<noteq> width \<or> sps_height info \<noteq> height then
         Inl (SpsDimensionMismatch i (sps_width info) (sps_height info) width height)
       else check_sps_list A avc_plid width height (Suc i) rest)"

fun check_pps_list :: "nat \<Rightarrow> bytes list \<Rightarrow> 'x h264_reject + unit" where
  "check_pps_list i [] = Inr ()"
| "check_pps_list i (pps # rest) =
     (case pps of
        [] \<Rightarrow> Inl (PpsEmpty i)
      | header # _ \<Rightarrow>
          if header AND 0x80 \<noteq> 0 then Inl (PpsForbiddenBit i)
          else if header AND 0x1F \<noteq> 8 then Inl (PpsNalType i)
          else check_pps_list (Suc i) rest)"

definition avc_plid_of :: "avcc_box_t \<Rightarrow> profile_level_id" where
  "avc_plid_of b =
     \<lparr>profile_idc = avc_profile_indication b, profile_iop = profile_compatibility b,
      level_idc = avc_level_indication b\<rparr>"

definition avcc_encodable :: "avcc_box_t \<Rightarrow> bool" where
  "avcc_encodable b \<longleftrightarrow> chroma_format b \<noteq> None \<or>
     avc_profile_indication b = 66 \<or> avc_profile_indication b = 77 \<or> avc_profile_indication b = 88"

definition extract_avc1 ::
    "'x avc_api \<Rightarrow> u32 \<Rightarrow> u16 \<Rightarrow> u16 \<Rightarrow> avcc_box_t \<Rightarrow> 'x mp4_error + mp4_video_track_info" where
  "extract_avc1 A ts width height b =
     bindE (guardE (sps_list b \<noteq> []) (InvalidH264Track SpsListEmpty)) (\<lambda>_.
     bindE (guardE (pps_list b \<noteq> []) (InvalidH264Track PpsListEmpty)) (\<lambda>_.
     bindE (validated_nal_length_size (avcc_length_size_minus_one b)) (\<lambda>nal_length_size.
     bindE (map_err InvalidH264Track
             (check_sps_list A (avc_plid_of b) width height 0 (sps_list b))) (\<lambda>_.
     bindE (map_err InvalidH264Track (check_pps_list 0 (pps_list b))) (\<lambda>_.
     bindE (guardE (parse_profile_level_id (avc_plid_of b) \<noteq> None)
             (InvalidH264Track (ProfileNotRecognized (avc_plid_of b)))) (\<lambda>_.
     bindE (if avcc_encodable b
            then map_err (\<lambda>e. InvalidH264Track (AvccNotEncodable e))
                   (map_sum id Some (encode_avcc A b))
            else Inr None) (\<lambda>encoded.
     Inr \<lparr>ti_codec_type = H264, ti_width = width, ti_height = height, ti_timescale = ts,
          ti_parameter_sets = Some (annex_b (sps_list b) @ annex_b (pps_list b)),
          ti_nal_length_size = nal_length_size, ti_av1_config = None,
          ti_h264_config =
            Some \<lparr>profile_level_id = avc_plid_of b, avcc_box = encoded\<rparr>\<rparr>)))))))"

definition extract_hevc_parameter_sets :: "hvcc_box_t \<Rightarrow> bytes" where
  "extract_hevc_parameter_sets b = concat (map annex_b (nalu_arrays b))"

definition extract_hevc ::
    "u32 \<Rightarrow> u16 \<Rightarrow> u16 \<Rightarrow> hvcc_box_t \<Rightarrow> 'x mp4_error + mp4_video_track_info" where
  "extract_hevc ts width height b =
     bindE (validated_nal_length_size (hvcc_length_size_minus_one b)) (\<lambda>nal_length_size.
     Inr \<lparr>ti_codec_type = H265, ti_width = width, ti_height = height, ti_timescale = ts,
          ti_parameter_sets = Some (extract_hevc_parameter_sets b),
          ti_nal_length_size = nal_length_size, ti_av1_config = None, ti_h264_config = None\<rparr>)"

definition plain_track_info ::
    "video_codec_type \<Rightarrow> u32 \<Rightarrow> u16 \<Rightarrow> u16 \<Rightarrow> av1_track_config option \<Rightarrow> mp4_video_track_info" where
  "plain_track_info t ts width height av1 =
     \<lparr>ti_codec_type = t, ti_width = width, ti_height = height, ti_timescale = ts,
      ti_parameter_sets = None, ti_nal_length_size = 4, ti_av1_config = av1,
      ti_h264_config = None\<rparr>"

definition av1_config_of :: "av1c_box_t \<Rightarrow> av1_track_config" where
  "av1_config_of b =
     \<lparr>seq_profile = c_seq_profile b, seq_level_idx_0 = c_seq_level_idx_0 b,
      seq_tier_0 = c_seq_tier_0 b, high_bitdepth = (c_high_bitdepth b \<noteq> 0),
      twelve_bit = (c_twelve_bit b \<noteq> 0), monochrome = (c_monochrome b \<noteq> 0),
      chroma_subsampling_x = c_chroma_subsampling_x b,
      chroma_subsampling_y = c_chroma_subsampling_y b,
      chroma_sample_position = c_chroma_sample_position b,
      initial_presentation_delay_minus_one = c_initial_presentation_delay_minus_one b,
      config_obus = c_config_obus b\<rparr>"

fun extract_track_info ::
    "'x avc_api \<Rightarrow> sample_entry \<Rightarrow> u32 \<Rightarrow> 'x mp4_error + mp4_video_track_info" where
  "extract_track_info A (Avc1 width height b) ts = extract_avc1 A ts width height b"
| "extract_track_info A (Hev1 width height b) ts = extract_hevc ts width height b"
| "extract_track_info A (Hvc1 width height b) ts = extract_hevc ts width height b"
| "extract_track_info A (Vp08 width height) ts = Inr (plain_track_info Vp8 ts width height None)"
| "extract_track_info A (Vp09 width height) ts = Inr (plain_track_info Vp9 ts width height None)"
| "extract_track_info A (Av01 width height b) ts =
     Inr (plain_track_info Av1 ts width height (Some (av1_config_of b)))"
| "extract_track_info A OtherEntry ts = Inl UnsupportedVideoCodec"

subsection \<open>The demuxer loops\<close>

datatype track_kind = VideoTrack | AudioTrack

record demux_track =
  track_kind :: track_kind
  track_id :: u32
  track_timescale :: u32

record demux_sample =
  ds_track_id :: u32
  ds_sample_entry :: "sample_entry option"
  ds_composition_time_offset :: "int option"
  ds_data_offset :: u64
  ds_data_size :: u64
  ds_keyframe :: bool
  ds_duration :: u32

record ('d, 'x) demuxer =
  required_input :: "'d \<Rightarrow> (u64 \<times> u64 option) option"
  handle_input :: "u64 \<Rightarrow> bytes \<Rightarrow> 'd \<Rightarrow> 'd"
  demux_tracks :: "'d \<Rightarrow> 'x + demux_track list"
  next_sample :: "'d \<Rightarrow> 'x + (demux_sample option \<times> 'd)"

partial_function (option) feed_demuxer ::
    "('d, 'x) demuxer \<Rightarrow> (u64 \<Rightarrow> u64 \<Rightarrow> 'x + bytes) \<Rightarrow> u64 \<Rightarrow> 'd \<Rightarrow> ('x mp4_error + 'd) option" where
  "feed_demuxer D rd file_size d =
     (case required_input D d of
        None \<Rightarrow> Some (Inr d)
      | Some (position, sz) \<Rightarrow>
          if position > file_size then Some (Inl (InputPositionOutOfRange position file_size))
          else
            (let remaining = file_size - position;
                 want = (case sz of None \<Rightarrow> remaining | Some s \<Rightarrow> min s remaining)
             in case read_bytes_at rd position want of
                  Inl e \<Rightarrow> Some (Inl e)
                | Inr data \<Rightarrow> feed_demuxer D rd file_size (handle_input D position data d)))"

type_synonym collected = "mp4_video_track_info option \<times> mp4_sample_meta list"

text \<open>The body of the sample loop.\<close>

definition collect_one ::
    "'x avc_api \<Rightarrow> u32 \<Rightarrow> u32 \<Rightarrow> demux_sample \<Rightarrow> collected \<Rightarrow> 'x mp4_error + collected" where
  "collect_one A video_track_id ts sample = (\<lambda>(track_info, samples).
     if ds_track_id sample \<noteq> video_track_id then Inr (track_info, samples)
     else
       bindE
         (case ds_sample_entry sample of
            None \<Rightarrow> Inr track_info
          | Some entry \<Rightarrow>
              bindE (extract_track_info A entry ts) (\<lambda>info.
                case track_info of
                  Some first \<Rightarrow>
                    if first \<noteq> info then Inl (InconsistentSampleDescription (length samples))
                    else Inr track_info
                | None \<Rightarrow> Inr (Some info)))
         (\<lambda>track_info'.
            if (case ds_composition_time_offset sample of None \<Rightarrow> 0 | Some c \<Rightarrow> c) \<noteq> 0 then
              Inl (UnsupportedCompositionTimeOffset (length samples)
                     (case track_info' of None \<Rightarrow> Generic | Some info \<Rightarrow> ti_codec_type info))
            else Inr (track_info', samples @
              [\<lparr>data_offset = ds_data_offset sample, data_size = ds_data_size sample,
                is_keyframe = ds_keyframe sample, duration = ds_duration sample\<rparr>])))"

partial_function (option) collect_samples ::
    "('d, 'x) demuxer \<Rightarrow> 'x avc_api \<Rightarrow> u32 \<Rightarrow> u32 \<Rightarrow> 'd \<Rightarrow> collected \<Rightarrow>
     ('x mp4_error + collected) option" where
  "collect_samples D A video_track_id ts d acc =
     (case next_sample D d of
        Inl e \<Rightarrow> Some (Inl (Demux e))
      | Inr (None, _) \<Rightarrow> Some (Inr acc)
      | Inr (Some sample, d') \<Rightarrow>
          (case collect_one A video_track_id ts sample acc of
             Inl e \<Rightarrow> Some (Inl e)
           | Inr acc' \<Rightarrow> collect_samples D A video_track_id ts d' acc'))"

subsection \<open>Opening a file\<close>

fun check_sample_table :: "u64 \<Rightarrow> nat \<Rightarrow> mp4_sample_meta list \<Rightarrow> 'x mp4_error + unit" where
  "check_sample_table file_size i [] = Inr ()"
| "check_sample_table file_size i (s # ss) =
     (if (case checked_add (data_offset s) (data_size s) of
            None \<Rightarrow> True | Some end_pos \<Rightarrow> end_pos > file_size)
      then Inl (InconsistentSampleTable i (data_offset s) (data_size s) file_size)
      else check_sample_table file_size (Suc i) ss)"

record mp4_sample_reader =
  r_track_info :: mp4_video_track_info
  r_sample_count :: nat
  r_cumulative :: "mp4_timestamp list"
  r_samples :: "mp4_sample_meta list"

definition finish_reader ::
    "('x, 'h) av1_parsers \<Rightarrow> (u64 \<Rightarrow> u64 \<Rightarrow> 'x + bytes) \<Rightarrow> u64 \<Rightarrow> collected \<Rightarrow>
     'x mp4_error + mp4_sample_reader" where
  "finish_reader P rd file_size = (\<lambda>(track_info_opt, samples).
     bindE (ok_or NoVideoSamples track_info_opt) (\<lambda>track_info.
     bindE (guardE (samples \<noteq> []) NoVideoSamples) (\<lambda>_.
     bindE (check_sample_table file_size 0 samples) (\<lambda>_.
     bindE
       (case ti_av1_config track_info of
          Some av1_config \<Rightarrow>
            if ti_codec_type track_info = Av1 then
              validate_av1_track P (map is_keyframe samples) av1_config
                (\<lambda>index. read_bytes_at rd (data_offset (samples ! index))
                           (data_size (samples ! index)))
            else Inr ()
        | None \<Rightarrow> Inr ())
       (\<lambda>_. Inr
          \<lparr>r_track_info = track_info, r_sample_count = length samples,
           r_cumulative = cumulative_table (ti_timescale track_info) samples,
           r_samples = samples\<rparr>)))))"

definition new_inner ::
    "('d, 'x) demuxer \<Rightarrow> 'x avc_api \<Rightarrow> ('x, 'h) av1_parsers \<Rightarrow>
     'x + (u64 \<times> (u64 \<Rightarrow> u64 \<Rightarrow> 'x + bytes)) \<Rightarrow> 'd \<Rightarrow> ('x mp4_error + mp4_sample_reader) option" where
  "new_inner D A P opened d0 =
     (case opened of
        Inl e \<Rightarrow> Some (Inl (Io e))
      | Inr (file_size, rd) \<Rightarrow>
          do { fed \<leftarrow> feed_demuxer D rd file_size d0;
               case fed of
                 Inl e \<Rightarrow> Some (Inl e)
               | Inr d \<Rightarrow>
                   (case bindE (map_err Demux (demux_tracks D d)) (\<lambda>tracks.
                           ok_or NoVideoTrack (find (\<lambda>t. track_kind t = VideoTrack) tracks)) of
                      Inl e \<Rightarrow> Some (Inl e)
                    | Inr video_track \<Rightarrow>
                        map_option (\<lambda>collected. bindE collected (finish_reader P rd file_size))
                          (collect_samples D A (track_id video_track)
                             (track_timescale video_track) d (None, []))) })"

subsection \<open>Using a reader\<close>

datatype sdp_panic = H264ConfigMissing | UnsupportedCodecReached

definition required_sdp_format ::
    "(profile_level_id \<Rightarrow> string) \<Rightarrow> mp4_sample_reader \<Rightarrow> sdp_panic + sdp_format" where
  "required_sdp_format to_hex r =
     (case ti_codec_type (r_track_info r) of
        H264 \<Rightarrow> bindE (ok_or H264ConfigMissing (ti_h264_config (r_track_info r)))
                  (\<lambda>config. Inr (h264_required_sdp_format to_hex config))
      | H265 \<Rightarrow> Inr (sdp_new ''H265'')
      | Vp8 \<Rightarrow> Inr (sdp_new ''VP8'')
      | Vp9 \<Rightarrow> Inr (sdp_new ''VP9'')
      | Av1 \<Rightarrow> Inr (av1_required_sdp_format (ti_av1_config (r_track_info r)))
      | Generic \<Rightarrow> Inl UnsupportedCodecReached
      | Unknown _ \<Rightarrow> Inl UnsupportedCodecReached)"

text \<open>
  \<^verbatim>\<open>get_sample\<close>: the assertion on the index, then the reply of the I/O thread, unless the
  stop flag is seen first (\<open>stop_seen\<close>).
\<close>

definition get_sample ::
    "(u64 \<Rightarrow> u64 \<Rightarrow> 'x + bytes) \<Rightarrow> mp4_sample_reader \<Rightarrow> nat \<Rightarrow> bool \<Rightarrow>
     read_panic + ('x mp4_error + mp4_encoded_sample option)" where
  "get_sample rd r index stop_seen =
     (if \<not> index < r_sample_count r then Inl (SampleIndexOutOfRange index (r_sample_count r))
      else if stop_seen then Inr (Inr None)
      else bindE (read_sample rd (r_track_info r) (r_samples r) index)
             (\<lambda>res. Inr (bindE res (\<lambda>es. Inr (Some es)))))"

definition cumulative_duration :: "mp4_sample_reader \<Rightarrow> nat \<Rightarrow> std_duration option" where
  "cumulative_duration r index =
     (if index < length (r_cumulative r) then Some (to_duration (r_cumulative r ! index)) else None)"

subsection \<open>Lemmas on track information and on the loops\<close>

definition track_info_wf :: "mp4_video_track_info \<Rightarrow> bool" where
  "track_info_wf ti \<longleftrightarrow>
     ti_codec_type ti \<in> {H264, H265, Vp8, Vp9, Av1} \<and>
     (needs_annex_b ti \<longrightarrow>
        unat (ti_nal_length_size ti) \<in> nal_length_sizes \<and> ti_parameter_sets ti \<noteq> None) \<and>
     (ti_codec_type ti = H264 \<longrightarrow>
        (\<exists>c. ti_h264_config ti = Some c \<and> parse_profile_level_id (profile_level_id c) \<noteq> None)) \<and>
     (ti_codec_type ti = Av1 \<longrightarrow> ti_av1_config ti \<noteq> None)"

lemma check_sps_list_Inr:
  "check_sps_list A plid width height i spss = Inr u \<Longrightarrow> sps \<in> set spss \<Longrightarrow>
     \<exists>info. parse_sps A sps = Inr info \<and> sps_profile_level_id info = plid \<and>
       sps_width info = width \<and> sps_height info = height"
  by (induction spss arbitrary: i) (auto simp: result_simps split: if_splits)

lemma check_pps_list_Inr:
  "check_pps_list i ppss = Inr u \<Longrightarrow> pps \<in> set ppss \<Longrightarrow>
     \<exists>header rest. pps = header # rest \<and> header AND 0x80 = 0 \<and> header AND 0x1F = 8"
  by (induction ppss arbitrary: i) (auto split: list.splits if_splits)

lemma extract_avc1_Inr:
  fixes A :: "'x avc_api"
  assumes "extract_avc1 A ts width height b = Inr ti"
  obtains encoded nal where "sps_list b \<noteq> []" "pps_list b \<noteq> []"
    "validated_nal_length_size (avcc_length_size_minus_one b) = (Inr nal :: 'x mp4_error + u8)"
    "check_sps_list A (avc_plid_of b) width height 0 (sps_list b) = Inr ()"
    "check_pps_list 0 (pps_list b) = (Inr () :: 'x h264_reject + unit)"
    "parse_profile_level_id (avc_plid_of b) \<noteq> None"
    "ti = \<lparr>ti_codec_type = H264, ti_width = width, ti_height = height, ti_timescale = ts,
          ti_parameter_sets = Some (annex_b (sps_list b) @ annex_b (pps_list b)),
          ti_nal_length_size = nal, ti_av1_config = None,
          ti_h264_config = Some \<lparr>profile_level_id = avc_plid_of b, avcc_box = encoded\<rparr>\<rparr>"
proof -
  have u: "\<And>v. (v :: unit) = ()" by simp
  show thesis
    using assms that unfolding extract_avc1_def result_simps u
    by (elim exE conjE) (simp only: result_simps u sum.inject, blast)
qed


lemma extract_avc1_wf:
  assumes "extract_avc1 A ts width height b = Inr ti" shows "track_info_wf ti"
  using assms by (rule extract_avc1_Inr)
    (auto simp: track_info_wf_def dest: validated_nal_length_size_Inr)

lemma extract_hevc_wf: "extract_hevc ts width height b = Inr ti \<Longrightarrow> track_info_wf ti"
  by (auto simp: extract_hevc_def track_info_wf_def result_simps dest: validated_nal_length_size_Inr)

lemma extract_track_info_wf:
  assumes "extract_track_info A entry ts = Inr ti" shows "track_info_wf ti"
proof (cases entry)
  case (Avc1 w h b)
  with assms show ?thesis by (simp add: extract_avc1_wf)
next
  case (Hev1 w h b)
  with assms show ?thesis by (auto dest: extract_hevc_wf)
next
  case (Hvc1 w h b)
  with assms show ?thesis by (auto dest: extract_hevc_wf)
qed (use assms in \<open>auto simp: plain_track_info_def track_info_wf_def needs_annex_b_def\<close>)

lemma collect_one_skip:
  "ds_track_id s \<noteq> vid \<Longrightarrow> collect_one A vid ts s acc = Inr acc"
  by (cases acc) (simp add: collect_one_def)

definition meta_of :: "demux_sample \<Rightarrow> mp4_sample_meta" where
  "meta_of s = \<lparr>data_offset = ds_data_offset s, data_size = ds_data_size s,
     is_keyframe = ds_keyframe s, duration = ds_duration s\<rparr>"

definition no_offset :: "demux_sample \<Rightarrow> bool" where
  "no_offset s \<longleftrightarrow> ds_composition_time_offset s = None \<or> ds_composition_time_offset s = Some 0"

lemma collect_one_Inr:
  assumes "collect_one A vid ts s (ti, ms) = Inr (ti', ms')" and vid: "ds_track_id s = vid"
  shows "ms' = ms @ [meta_of s]" and "no_offset s"
    and "ds_sample_entry s = None \<Longrightarrow> ti' = ti"
    and "ds_sample_entry s = Some entry \<Longrightarrow>
      extract_track_info A entry ts = Inr (the ti') \<and> ti' \<noteq> None \<and> (ti = None \<or> ti = ti')"
proof -
  obtain e where e: "(case ds_sample_entry s of
            None \<Rightarrow> Inr ti
          | Some entry \<Rightarrow>
              bindE (extract_track_info A entry ts) (\<lambda>info.
                case ti of
                  Some first \<Rightarrow>
                    if first \<noteq> info then Inl (InconsistentSampleDescription (length ms))
                    else Inr ti
                | None \<Rightarrow> Inr (Some info))) = Inr ti'"
    and n: "no_offset s" and m: "ms' = ms @ [meta_of s]"
    using assms unfolding collect_one_def no_offset_def meta_of_def
    by (cases "ds_composition_time_offset s") (auto simp: result_simps split: if_splits)
  show "ms' = ms @ [meta_of s]" "no_offset s" by (fact m n)+
  show "ds_sample_entry s = None \<Longrightarrow> ti' = ti" using e by simp
  show "ds_sample_entry s = Some entry \<Longrightarrow>
      extract_track_info A entry ts = Inr (the ti') \<and> ti' \<noteq> None \<and> (ti = None \<or> ti = ti')"
    using e by (cases ti) (auto simp: result_simps split: if_splits)
qed

text \<open>The samples a demuxer yields from a state on.\<close>

inductive yields :: "('d, 'x) demuxer \<Rightarrow> 'd \<Rightarrow> demux_sample list \<Rightarrow> bool" for D where
  yields_end: "next_sample D d = Inr (None, d') \<Longrightarrow> yields D d []"
| yields_next: "next_sample D d = Inr (Some s, d') \<Longrightarrow> yields D d' ss \<Longrightarrow> yields D d (s # ss)"

inductive_cases yields_nilE: "yields D d []"
inductive_cases yields_consE: "yields D d (s # ss)"

fun collect_list ::
    "'x avc_api \<Rightarrow> u32 \<Rightarrow> u32 \<Rightarrow> demux_sample list \<Rightarrow> collected \<Rightarrow> 'x mp4_error + collected" where
  "collect_list A vid ts [] acc = Inr acc"
| "collect_list A vid ts (s # ss) acc = bindE (collect_one A vid ts s acc) (collect_list A vid ts ss)"

lemma collect_samples_yields:
  "yields D d ss \<Longrightarrow> collect_samples D A vid ts d acc = Some (collect_list A vid ts ss acc)"
proof (induction arbitrary: acc rule: yields.induct)
  case (yields_end d d')
  then show ?case by (subst collect_samples.simps) simp
next
  case (yields_next d s d' ss)
  then show ?case
    by (subst collect_samples.simps) (simp add: bindE_def split: sum.splits)
qed


lemma collect_samples_list:
  assumes "collect_samples D A vid ts d acc = Some (Inr acc')"
  shows "\<exists>ss. yields D d ss \<and> collect_list A vid ts ss acc = Inr acc'"
proof -
  have "res = Inr acc' \<longrightarrow> (\<exists>ss. yields D d ss \<and> collect_list A vid ts ss acc = Inr acc')"
    if "collect_samples D A vid ts d acc = Some res" for res
    using that
  proof (induction D A vid ts d acc res
      rule: collect_samples.raw_induct [rotated, consumes 1, case_names step])
    case (step loop D A vid ts d acc res)
    show ?case
    proof
      assume r: "res = Inr acc'"
      with step.hyps obtain os d' where n: "next_sample D d = Inr (os, d')"
        by (auto split: sum.splits prod.splits)
      show "\<exists>ss. yields D d ss \<and> collect_list A vid ts ss acc = Inr acc'"
      proof (cases os)
        case None
        with n r step.hyps show ?thesis
          by (auto intro!: exI [of _ "[]"] yields_end)
      next
        case (Some s)
        with n r step.hyps obtain acc1 where a: "collect_one A vid ts s acc = Inr acc1"
          and c: "loop D A vid ts d' acc1 = Some res"
          by (auto split: sum.splits)
        from step.IH [OF c] r obtain ss where
          "yields D d' ss" "collect_list A vid ts ss acc1 = Inr acc'" by blast
        with n Some a show ?thesis
          by (intro exI [of _ "s # ss"]) (simp add: yields_next)
      qed
    qed
  qed
  with assms show ?thesis by blast
qed

definition video_samples :: "u32 \<Rightarrow> demux_sample list \<Rightarrow> demux_sample list" where
  "video_samples vid ss = filter (\<lambda>s. ds_track_id s = vid) ss"

definition described :: "'x avc_api \<Rightarrow> u32 \<Rightarrow> demux_sample \<Rightarrow> mp4_video_track_info option \<Rightarrow> bool" where
  "described A ts s ti \<longleftrightarrow> no_offset s \<and>
     (\<forall>entry. ds_sample_entry s = Some entry \<longrightarrow>
        (\<exists>info. ti = Some info \<and> extract_track_info A entry ts = Inr info))"

lemma collect_list_Inr:
  "collect_list A vid ts ss (ti, ms) = Inr (ti', ms') \<Longrightarrow>
     ms' = ms @ map meta_of (video_samples vid ss) \<and>
     (ti \<noteq> None \<longrightarrow> ti' = ti) \<and>
     (ti' \<noteq> ti \<longrightarrow> (\<exists>s \<in> set (video_samples vid ss). ds_sample_entry s \<noteq> None)) \<and>
     (\<forall>s \<in> set (video_samples vid ss). described A ts s ti')"
proof (induction ss arbitrary: ti ms)
  case Nil
  then show ?case by (simp add: video_samples_def)
next
  case (Cons s ss)
  from Cons.prems obtain ti1 ms1 where 1: "collect_one A vid ts s (ti, ms) = Inr (ti1, ms1)"
    and 2: "collect_list A vid ts ss (ti1, ms1) = Inr (ti', ms')"
    by (auto simp: result_simps)
  note IH = Cons.IH [OF 2]
  show ?case
  proof (cases "ds_track_id s = vid")
    case False
    with 1 have "ti1 = ti" "ms1 = ms" by (simp_all add: collect_one_skip)
    with False IH show ?thesis by (simp add: video_samples_def)
  next
    case True
    note one = collect_one_Inr [OF 1 True]
    have d: "described A ts s ti'"
      using one(2-4) IH by (cases "ds_sample_entry s") (auto simp: described_def)
    have k: "ti \<noteq> None \<longrightarrow> ti' = ti"
      using one(3-4) IH by (cases "ds_sample_entry s") auto
    have n: "ti' \<noteq> ti \<longrightarrow> (\<exists>s' \<in> set (video_samples vid (s # ss)). ds_sample_entry s' \<noteq> None)"
      using one(3) IH True by (cases "ds_sample_entry s") (auto simp: video_samples_def)
    show ?thesis using d k n one(1) IH True by (simp add: video_samples_def)
  qed
qed

lemma collect_list_wf:
  assumes "collect_list A vid ts ss (None, ms) = Inr (Some ti, ms')"
  shows "track_info_wf ti"
proof -
  from collect_list_Inr [OF assms] obtain s entry where
    "s \<in> set (video_samples vid ss)" "ds_sample_entry s = Some entry" by auto
  with collect_list_Inr [OF assms] have "extract_track_info A entry ts = Inr ti"
    by (auto simp: described_def)
  then show ?thesis by (rule extract_track_info_wf)
qed

lemma check_sample_table_Inr:
  "check_sample_table fs i ss = Inr u \<Longrightarrow> s \<in> set ss \<Longrightarrow>
     unat (data_offset s) + unat (data_size s) \<le> unat fs"
  by (induction ss arbitrary: i)
    (auto simp: word_le_nat_alt unat_checked_add not_less split: if_splits option.splits)


subsection \<open>The invariant of a reader\<close>

definition reader_inv ::
    "('x, 'h) av1_parsers \<Rightarrow> (u64 \<Rightarrow> u64 \<Rightarrow> 'x + bytes) \<Rightarrow> u64 \<Rightarrow> mp4_sample_reader \<Rightarrow> bool" where
  "reader_inv P rd file_size r \<longleftrightarrow>
     track_info_wf (r_track_info r) \<and>
     r_samples r \<noteq> [] \<and> r_sample_count r = length (r_samples r) \<and>
     r_cumulative r = cumulative_table (ti_timescale (r_track_info r)) (r_samples r) \<and>
     (\<forall>s \<in> set (r_samples r). unat (data_offset s) + unat (data_size s) \<le> unat file_size) \<and>
     (\<forall>cfg. ti_codec_type (r_track_info r) = Av1 \<and> ti_av1_config (r_track_info r) = Some cfg \<longrightarrow>
        validate_av1_track P (map is_keyframe (r_samples r)) cfg
          (\<lambda>i. read_bytes_at rd (data_offset (r_samples r ! i)) (data_size (r_samples r ! i)))
          = Inr ())"

lemma finish_reader_Inr:
  fixes P :: "('x, 'h) av1_parsers"
  assumes "finish_reader P rd fs (ti_opt, ms) = Inr r"
  obtains ti where "ti_opt = Some ti" "ms \<noteq> []"
    "check_sample_table fs 0 ms = (Inr () :: 'x mp4_error + unit)"
    "r = \<lparr>r_track_info = ti, r_sample_count = length ms,
          r_cumulative = cumulative_table (ti_timescale ti) ms, r_samples = ms\<rparr>"
    "\<And>cfg. ti_av1_config ti = Some cfg \<Longrightarrow> ti_codec_type ti = Av1 \<Longrightarrow>
       validate_av1_track P (map is_keyframe ms) cfg
         (\<lambda>i. read_bytes_at rd (data_offset (ms ! i)) (data_size (ms ! i))) = Inr ()"
proof -
  from assms obtain ti u1 u2 where 1: "ti_opt = Some ti" "ms \<noteq> []"
    "check_sample_table fs 0 ms = (Inr u1 :: 'x mp4_error + unit)"
    and 2: "(case ti_av1_config ti of
          Some av1_config \<Rightarrow>
            if ti_codec_type ti = Av1 then
              validate_av1_track P (map is_keyframe ms) av1_config
                (\<lambda>index. read_bytes_at rd (data_offset (ms ! index))
                           (data_size (ms ! index)))
            else Inr ()
        | None \<Rightarrow> Inr ()) = Inr u2"
    and 3: "r = \<lparr>r_track_info = ti, r_sample_count = length ms,
          r_cumulative = cumulative_table (ti_timescale ti) ms, r_samples = ms\<rparr>"
    unfolding finish_reader_def by (auto simp only: result_simps prod.case sum.inject)
  show thesis by (rule that [OF 1(1,2) _ 3]) (use 1 2 in simp_all)
qed

lemma new_inner_Inr:
  assumes "new_inner D A P (Inr (fs, rd)) d0 = Some (Inr r)"
  obtains d tracks t ss ti ms where
    "feed_demuxer D rd fs d0 = Some (Inr d)" "demux_tracks D d = Inr tracks"
    "find (\<lambda>t. track_kind t = VideoTrack) tracks = Some t"
    "yields D d ss"
    "collect_list A (track_id t) (track_timescale t) ss (None, []) = Inr (ti, ms)"
    "finish_reader P rd fs (ti, ms) = Inr r"
proof -
  from assms obtain fed where f: "feed_demuxer D rd fs d0 = Some fed"
    by (auto simp: new_inner_def split: bind_splits)
  from f assms obtain d where d: "fed = Inr d" by (cases fed) (auto simp: new_inner_def)
  define v where "v = bindE (map_err Demux (demux_tracks D d)) (\<lambda>tracks.
                           ok_or NoVideoTrack (find (\<lambda>t. track_kind t = VideoTrack) tracks))"
  from f d assms have "(case v of Inl e \<Rightarrow> Some (Inl e) | Inr t \<Rightarrow>
      map_option (\<lambda>collected. bindE collected (finish_reader P rd fs))
           (collect_samples D A (track_id t) (track_timescale t) d (None, []))) = Some (Inr r)"
    by (simp add: new_inner_def v_def)
  then obtain t where t: "v = Inr t"
    and c: "map_option (\<lambda>collected. bindE collected (finish_reader P rd fs))
           (collect_samples D A (track_id t) (track_timescale t) d (None, [])) = Some (Inr r)"
    by (cases v) auto
  from t obtain tracks where tr: "demux_tracks D d = Inr tracks"
    "find (\<lambda>t. track_kind t = VideoTrack) tracks = Some t"
    by (auto simp: v_def result_simps)
  from c obtain ti ms where
    cs: "collect_samples D A (track_id t) (track_timescale t) d (None, []) = Some (Inr (ti, ms))"
    and fin: "finish_reader P rd fs (ti, ms) = Inr r"
    by (auto simp: result_simps)
  from collect_samples_list [OF cs] obtain ss where "yields D d ss"
    "collect_list A (track_id t) (track_timescale t) ss (None, []) = Inr (ti, ms)" by blast
  with f d tr fin show thesis by (intro that) auto
qed

lemma new_inner_inv_lemma:
  fixes D :: "('d, 'x) demuxer"
  assumes "new_inner D A P (Inr (file_size, rd)) d0 = Some (Inr r)"
  shows "reader_inv P rd file_size r"
  using assms
proof (rule new_inner_Inr)
  fix d tracks t ss ti ms
  assume c: "collect_list A (track_id t) (track_timescale t) ss (None, []) = Inr (ti, ms)"
    and "finish_reader P rd file_size (ti, ms) = Inr r"
  from this(2) show ?thesis
  proof (rule finish_reader_Inr)
    fix ti'
    assume ti: "ti = Some ti'" and "ms \<noteq> []"
      and "check_sample_table file_size 0 ms = (Inr () :: 'x mp4_error + unit)"
      and r: "r = \<lparr>r_track_info = ti', r_sample_count = length ms,
          r_cumulative = cumulative_table (ti_timescale ti') ms, r_samples = ms\<rparr>"
      and "\<And>cfg. ti_av1_config ti' = Some cfg \<Longrightarrow> ti_codec_type ti' = Av1 \<Longrightarrow>
        validate_av1_track P (map is_keyframe ms) cfg
          (\<lambda>i. read_bytes_at rd (data_offset (ms ! i)) (data_size (ms ! i))) = Inr ()"
    then show ?thesis
      using collect_list_wf [OF c [unfolded ti]]
      by (auto simp: reader_inv_def dest: check_sample_table_Inr)
  qed
qed

text \<open>
  Property C23. Invariant of an opened file: whatever the demuxer yields, a reader that
  \<^verbatim>\<open>new_inner\<close> returns has a usable track description (known codec, validated NAL length
  size with parameter sets, recognised H.264 profile, AV1 configuration), at least one sample,
  every sample's byte range inside the file without overflow, the table of playback times of
  exactly these samples, and an AV1 track that passed the validation.
\<close>

theorem new_inner_inv:
  assumes "new_inner D A P (Inr (file_size, rd)) d0 = Some (Inr r)"
  shows "reader_inv P rd file_size r"
  using assms by (rule new_inner_inv_lemma)

text \<open>
  Property C24. The sample table of an opened file: the samples of the reader are exactly those
  the demuxer yields for the first video track, in order, with their offset, size, sync flag and
  duration unchanged; none has a composition time offset, and every sample description met on
  the way extracts to the one track description the reader has.
\<close>

theorem new_inner_samples:
  assumes "new_inner D A P (Inr (file_size, rd)) d0 = Some (Inr r)"
  shows "\<exists>d tracks t ss. feed_demuxer D rd file_size d0 = Some (Inr d) \<and>
    demux_tracks D d = Inr tracks \<and> find (\<lambda>t. track_kind t = VideoTrack) tracks = Some t \<and>
    yields D d ss \<and> r_samples r = map meta_of (video_samples (track_id t) ss) \<and>
    (\<forall>s \<in> set (video_samples (track_id t) ss).
       described A (track_timescale t) s (Some (r_track_info r)))"
  using assms
proof (rule new_inner_Inr)
  fix d tracks t ss ti ms
  assume a: "feed_demuxer D rd file_size d0 = Some (Inr d)" "demux_tracks D d = Inr tracks"
    "find (\<lambda>t. track_kind t = VideoTrack) tracks = Some t" "yields D d ss"
    and c: "collect_list A (track_id t) (track_timescale t) ss (None, []) = Inr (ti, ms)"
    and "finish_reader P rd file_size (ti, ms) = Inr r"
  from this(6) have "ti = Some (r_track_info r) \<and> r_samples r = ms"
    by (rule finish_reader_Inr) simp
  with collect_list_Inr [OF c] a show ?thesis by auto
qed


subsection \<open>Termination\<close>

lemma feed_demuxer_returns:
  assumes "\<And>d r pos data. required_input D d = Some r \<Longrightarrow> (m (handle_input D pos data d) :: nat) < m d"
  shows "\<exists>res. feed_demuxer D rd fs d = Some res"
proof (induction "m d" arbitrary: d rule: less_induct)
  case less
  show ?case
  proof (cases "required_input D d")
    case None
    then show ?thesis by (subst feed_demuxer.simps) simp
  next
    case (Some r)
    with less assms have "\<exists>res. feed_demuxer D rd fs (handle_input D pos data d) = Some res"
      for pos data by blast
    with Some show ?thesis
      by (subst feed_demuxer.simps) (auto simp: Let_def split: prod.split sum.split)
  qed
qed

lemma collect_samples_returns:
  assumes "\<And>d s d'. next_sample D d = Inr (Some s, d') \<Longrightarrow> (m d' :: nat) < m d"
  shows "\<exists>res. collect_samples D A vid ts d acc = Some res"
proof (induction "m d" arbitrary: d acc rule: less_induct)
  case less
  show ?case
  proof (cases "\<exists>s d'. next_sample D d = Inr (Some s, d')")
    case False
    then show ?thesis
      by (subst collect_samples.simps) (auto split: sum.split prod.split option.split)
  next
    case True
    then obtain s d' where n: "next_sample D d = Inr (Some s, d')" by blast
    with less assms have "\<exists>res. collect_samples D A vid ts d' acc' = Some res" for acc' by blast
    with n show ?thesis by (subst collect_samples.simps) (auto split: sum.split)
  qed
qed

text \<open>
  Fact. Opening terminates: when every input the demuxer asks for brings it closer to
  asking for none, and every sample it yields brings it closer to its end, \<^verbatim>\<open>new_inner\<close>
  returns, with a reader or an error, for every file and every read failure.
\<close>

theorem new_inner_returns:
  assumes "\<And>d r pos data. required_input D d = Some r \<Longrightarrow> (m (handle_input D pos data d) :: nat) < m d"
    and "\<And>d s d'. next_sample D d = Inr (Some s, d') \<Longrightarrow> (k d' :: nat) < k d"
  shows "\<exists>res. new_inner D A P opened d0 = Some res"
proof (cases opened)
  case (Inl e)
  then show ?thesis by (simp add: new_inner_def)
next
  case (Inr o1)
  obtain fs rd where o: "o1 = (fs, rd)" by (cases o1)
  obtain fed where "feed_demuxer D rd fs d0 = Some fed"
    using feed_demuxer_returns [of D m rd fs d0] assms(1) by blast
  moreover have "\<exists>res. map_option g (collect_samples D A vid ts d acc) = Some res"
    for g :: "_ \<Rightarrow> 'c mp4_error + mp4_sample_reader" and vid ts d acc
    using collect_samples_returns [of D k A vid ts d acc] assms(2) by auto
  ultimately show ?thesis
    using Inr o by (auto simp: new_inner_def split: sum.split)
qed

subsection \<open>Using an opened file\<close>

lemma read_sample_total:
  assumes "i < length samples" and "needs_annex_b ti \<longrightarrow> unat (ti_nal_length_size ti) \<in> nal_length_sizes"
  shows "\<exists>res. read_sample rd ti samples i = Inr res"
proof (cases "rd (data_offset (samples ! i)) (data_size (samples ! i))")
  case (Inl e)
  with assms(1) show ?thesis by (simp add: read_sample_def read_bytes_at_def)
next
  case (Inr raw)
  show ?thesis
  proof (cases "needs_annex_b ti")
    case True
    with assms(2) obtain x where
      "length_prefixed_nalu_to_annex_b raw (ti_nal_length_size ti) = Some x"
      using annex_b_loop_total by (fastforce simp: length_prefixed_nalu_to_annex_b_def)
    with True assms(1) Inr show ?thesis
      by (auto simp: read_sample_def read_bytes_at_def needs_annex_b_def Let_def)
  next
    case False
    with assms(1) Inr show ?thesis
      by (simp add: read_sample_def read_bytes_at_def needs_annex_b_def Let_def)
  qed
qed

text \<open>
  Property C25. The panics of the reader are unreachable: on a reader that \<^verbatim>\<open>new_inner\<close>
  returned, \<^verbatim>\<open>required_sdp_format\<close> finds its configuration, \<^verbatim>\<open>get_sample\<close> never panics
  for an index below the sample count, whatever the file yields by then, and
  \<^verbatim>\<open>cumulative_duration\<close> is defined exactly up to the sample count.
\<close>

theorem reader_never_panics:
  assumes "new_inner D A P (Inr (file_size, rd)) d0 = Some (Inr r)"
  shows "(\<exists>f. required_sdp_format to_hex r = Inr f) \<and>
    (\<forall>i stop_seen. i < r_sample_count r \<longrightarrow> (\<exists>res. get_sample rd' r i stop_seen = Inr res)) \<and>
    (\<forall>i. (cumulative_duration r i = None) = (r_sample_count r < i))"
proof (intro conjI allI impI)
  from assms have inv: "reader_inv P rd file_size r" by (rule new_inner_inv_lemma)
  then show "\<exists>f. required_sdp_format to_hex r = Inr f"
    by (auto simp: reader_inv_def track_info_wf_def required_sdp_format_def)
  show "\<exists>res. get_sample rd' r i stop_seen = Inr res" if "i < r_sample_count r" for i stop_seen
  proof -
    from inv that obtain res where "read_sample rd' (r_track_info r) (r_samples r) i = Inr res"
      using read_sample_total [of i "r_samples r" "r_track_info r" rd']
      by (auto simp: reader_inv_def track_info_wf_def)
    with that show ?thesis by (simp add: get_sample_def)
  qed
  show "(cumulative_duration r i = None) = (r_sample_count r < i)" for i
    using inv by (auto simp: reader_inv_def cumulative_duration_def cumulative_table_def)
qed

text \<open>
  Property C26. H.264 tracks: an accepted \<^verbatim>\<open>avc1\<close> entry has parameter sets of both kinds, every
  SPS parses to the profile of the \<^verbatim>\<open>avcC\<close> box and to the dimensions of the entry, every PPS
  starts with a valid NAL header of type 8, the profile is one the negotiation knows, and the
  bytes kept for key frames are the parameter sets in Annex B form, SPS first.
\<close>

theorem extract_avc1_sound:
  assumes "extract_avc1 A ts width height b = Inr ti"
  shows "sps_list b \<noteq> [] \<and> pps_list b \<noteq> [] \<and>
    (\<forall>sps \<in> set (sps_list b). \<exists>info. parse_sps A sps = Inr info \<and>
       sps_profile_level_id info = avc_plid_of b \<and> sps_width info = width \<and>
       sps_height info = height) \<and>
    (\<forall>pps \<in> set (pps_list b). \<exists>header rest. pps = header # rest \<and>
       header AND 0x80 = 0 \<and> header AND 0x1F = 8) \<and>
    parse_profile_level_id (avc_plid_of b) \<noteq> None \<and>
    ti_parameter_sets ti = Some (annex_b (sps_list b @ pps_list b)) \<and>
    unat (ti_nal_length_size ti) = unat (avcc_length_size_minus_one b) + 1"
  using assms
proof (rule extract_avc1_Inr)
  fix encoded nal
  assume n: "sps_list b \<noteq> []" "pps_list b \<noteq> []" "parse_profile_level_id (avc_plid_of b) \<noteq> None"
    and v: "validated_nal_length_size (avcc_length_size_minus_one b) = (Inr nal :: 'a mp4_error + u8)"
    and s: "check_sps_list A (avc_plid_of b) width height 0 (sps_list b) = Inr ()"
    and p: "check_pps_list 0 (pps_list b) = (Inr () :: 'a h264_reject + unit)"
    and ti: "ti = \<lparr>ti_codec_type = H264, ti_width = width, ti_height = height, ti_timescale = ts,
          ti_parameter_sets = Some (annex_b (sps_list b) @ annex_b (pps_list b)),
          ti_nal_length_size = nal, ti_av1_config = None,
          ti_h264_config = Some \<lparr>profile_level_id = avc_plid_of b, avcc_box = encoded\<rparr>\<rparr>"
  have "unat nal = unat (avcc_length_size_minus_one b) + 1"
    using v by (auto simp: validated_nal_length_size_def split: if_splits)
  with n ti check_sps_list_Inr [OF s] check_pps_list_Inr [OF p] show ?thesis
    by (simp add: annex_b_def)
qed


subsection \<open>Witnesses\<close>

definition example_demux_sample :: "u32 \<Rightarrow> bool \<Rightarrow> demux_sample" where
  "example_demux_sample offset keyframe =
     \<lparr>ds_track_id = 2, ds_sample_entry = (if keyframe then Some (Vp08 640 480) else None),
      ds_composition_time_offset = None, ds_data_offset = ucast offset, ds_data_size = 2,
      ds_keyframe = keyframe, ds_duration = 3000\<rparr>"

definition example_demuxer :: "(bool \<times> demux_sample list, unit) demuxer" where
  "example_demuxer =
     \<lparr>required_input = (\<lambda>d. if fst d then None else Some (0, Some 4)),
      handle_input = (\<lambda>position data d. (True, snd d)),
      demux_tracks = (\<lambda>d. Inr [\<lparr>track_kind = AudioTrack, track_id = 1, track_timescale = 48000\<rparr>,
        \<lparr>track_kind = VideoTrack, track_id = 2, track_timescale = 90000\<rparr>]),
      next_sample = (\<lambda>d. case snd d of [] \<Rightarrow> Inr (None, d)
        | s # ss \<Rightarrow> Inr (Some s, (fst d, ss)))\<rparr>"

definition example_avc_api :: "unit avc_api" where
  "example_avc_api =
     \<lparr>parse_sps = (\<lambda>sps. Inr \<lparr>sps_profile_level_id =
        \<lparr>profile_idc = 66, profile_iop = 0xe0, level_idc = 31\<rparr>, sps_width = 640, sps_height = 480\<rparr>),
      encode_avcc = (\<lambda>b. Inr [1])\<rparr>"

definition example_av1_api :: "(unit, unit) av1_parsers" where
  "example_av1_api =
     \<lparr>parse_obus = (\<lambda>_ _. Inl ()), parse_sequence_header = (\<lambda>_. Inl ()),
      parse_frame_header_prefix = (\<lambda>_ _. Inl ())\<rparr>"

definition example_file :: "unit + (u64 \<times> (u64 \<Rightarrow> u64 \<Rightarrow> unit + bytes))" where
  "example_file = Inr (4, \<lambda>position n. Inr (replicate (unat n) 0))"

definition example_reader :: mp4_sample_reader where
  "example_reader =
     \<lparr>r_track_info = plain_track_info Vp8 90000 640 480 None, r_sample_count = 2,
      r_cumulative = cumulative_table 90000
        [meta_of (example_demux_sample 0 True), meta_of (example_demux_sample 2 False)],
      r_samples = [meta_of (example_demux_sample 0 True), meta_of (example_demux_sample 2 False)]\<rparr>"

definition example_start :: "bool \<times> demux_sample list" where
  "example_start = (False, [example_demux_sample 0 True, example_demux_sample 2 False])"

lemma example_feed:
  "feed_demuxer example_demuxer (\<lambda>position n. Inr (replicate (unat n) 0)) 4 example_start =
     Some (Inr (True, snd example_start))"
  by (subst feed_demuxer.simps, subst feed_demuxer.simps)
    (simp add: example_demuxer_def example_start_def read_bytes_at_def)

lemma example_collect:
  "collect_samples example_demuxer example_avc_api 2 90000 (True, snd example_start) (None, []) =
     Some (Inr (Some (plain_track_info Vp8 90000 640 480 None),
       [meta_of (example_demux_sample 0 True), meta_of (example_demux_sample 2 False)]))"
proof -
  have "yields example_demuxer (True, snd example_start) (snd example_start)"
    by (auto simp: example_start_def example_demuxer_def intro!: yields.intros)
  from collect_samples_yields [OF this] show ?thesis
    by (simp add: example_start_def collect_one_def example_demux_sample_def meta_of_def)
qed

lemma example_new:
  "new_inner example_demuxer example_avc_api example_av1_api
     (Inr (4, \<lambda>position n. Inr (replicate (unat n) 0))) example_start = Some (Inr example_reader)"
  using example_feed example_collect
  by (simp add: new_inner_def example_demuxer_def [THEN arg_cong [where f = demux_tracks]]
      finish_reader_def plain_track_info_def example_reader_def meta_of_def
      example_demux_sample_def checked_add_def)

theorem new_inner_inv_witness:
  "reader_inv example_av1_api (\<lambda>position n. Inr (replicate (unat n) 0)) 4 example_reader"
  by (rule new_inner_inv [OF example_new])

theorem new_inner_samples_witness:
  "\<exists>ss. r_samples example_reader = map meta_of (video_samples 2 ss)"
  using new_inner_samples [OF example_new] by (auto simp: example_demuxer_def)

theorem reader_never_panics_witness:
  "\<exists>res. get_sample (\<lambda>position n. Inr [] :: unit + bytes) example_reader 1 False = Inr res"
proof -
  have "1 < r_sample_count example_reader" by (simp add: example_reader_def)
  with reader_never_panics [OF example_new] show ?thesis by blast
qed

theorem new_inner_returns_witness:
  "\<exists>res. new_inner example_demuxer example_avc_api example_av1_api example_file example_start = Some res"
proof (rule new_inner_returns [where m = "\<lambda>d. if fst d then 0 else 1" and k = "\<lambda>d. length (snd d)"])
  fix d :: "bool \<times> demux_sample list" and r pos data
  assume "required_input example_demuxer d = Some r"
  then show "(if fst (handle_input example_demuxer pos data d) then 0 else 1::nat) <
      (if fst d then 0 else 1)"
    by (cases "fst d") (simp_all add: example_demuxer_def)
next
  fix d s d'
  assume "next_sample example_demuxer d = Inr (Some s, d')"
  then show "length (snd d') < length (snd d)"
    by (auto simp: example_demuxer_def split: list.splits)
qed

definition example_avcc :: avcc_box_t where
  "example_avcc =
     \<lparr>avc_profile_indication = 66, profile_compatibility = 0xe0, avc_level_indication = 31,
      avcc_length_size_minus_one = 3, sps_list = [[0x67]], pps_list = [[0x68]],
      chroma_format = None, avcc_rest = []\<rparr>"

theorem extract_avc1_sound_witness:
  "\<exists>ti. extract_avc1 example_avc_api 90000 640 480 example_avcc = Inr ti \<and>
     ti_parameter_sets ti = Some [0, 0, 0, 1, 0x67, 0, 0, 0, 1, 0x68]"
proof -
  have "\<not> Option.is_none (parse_profile_level_id \<lparr>profile_idc = 66, profile_iop = 0xe0, level_idc = 31\<rparr>)"
    by code_simp
  then have "parse_profile_level_id \<lparr>profile_idc = 66, profile_iop = 0xe0, level_idc = 31\<rparr> \<noteq> None"
    by (simp add: Option.is_none_def)
  then have "\<exists>ti. extract_avc1 example_avc_api 90000 640 480 example_avcc = Inr ti"
    by (simp add: extract_avc1_def example_avcc_def example_avc_api_def avc_plid_of_def
        validated_nal_length_size_def avcc_encodable_def)
  then obtain ti where "extract_avc1 example_avc_api 90000 640 480 example_avcc = Inr ti" ..
  with extract_avc1_sound [OF this] show ?thesis
    by (simp add: example_avcc_def annex_b_def start_code_def)
qed

end
