(* ===== verification/Json.thy ===== *)
theory Json
  imports Sdp
begin

text \<open>
  The JSON interface of the development. Reading and printing JSON is the crate
  \<^verbatim>\<open>nojson\<close>: a raw value is of the type parameter \<open>'v\<close>, a \<^verbatim>\<open>JsonParseError\<close> of \<open>'x\<close>,
  and the operations the code calls are the fields of the record \<open>nojson\<close>. What the code
  builds with \<^verbatim>\<open>nojson::object\<close> or a \<^verbatim>\<open>DisplayJson\<close> implementation is the tree of the
  formatter calls, a \<open>json\<close>; \<open>json_print\<close> is the crate's printing of it. \<open>json_faithful\<close>
  states what the crate documents of the value \<open>rep j\<close> a text of the tree \<open>j\<close> parses to: its members, elements and
  scalars are those of the tree. A \<^verbatim>\<open>f64\<close> is its bit pattern.
\<close>

type_synonym f64 = "64 word"
type_synonym i32 = "32 word"

datatype json =
    JNull
  | JBool bool
  | JInt int
  | JF64 f64
  | JStr string
  | JRaw string
  | JArr "json list"
  | JObj "(string \<times> json) list"

datatype json_value_kind =
  KindNull | KindBoolean | KindInteger | KindFloat | KindString | KindArray | KindObject

record ('v, 'x) nojson =
  json_parse :: "string \<Rightarrow> 'x + 'v"
  json_kind :: "'v \<Rightarrow> json_value_kind"
  json_object :: "'v \<Rightarrow> 'x + ('v \<times> 'v) list"
  json_member :: "'v \<Rightarrow> string \<Rightarrow> 'x + 'v option"
  json_missing :: "'v \<Rightarrow> string \<Rightarrow> 'x"
  json_array :: "'v \<Rightarrow> 'x + 'v list"
  json_string :: "'v \<Rightarrow> 'x + string"
  json_unquoted :: "'v \<Rightarrow> 'x + string"
  json_bool :: "'v \<Rightarrow> 'x + bool"
  json_u64 :: "'v \<Rightarrow> 'x + u64"
  json_u16 :: "'v \<Rightarrow> 'x + u16"
  json_i32 :: "'v \<Rightarrow> 'x + i32"
  json_f64 :: "'v \<Rightarrow> 'x + f64"
  json_invalid :: "'v \<Rightarrow> string \<Rightarrow> 'x"
  json_text :: "'v \<Rightarrow> string"
  json_print :: "json \<Rightarrow> string"

text \<open>\<^verbatim>\<open>to_member(name)?.required()?\<close> and \<^verbatim>\<open>to_member(name)?.optional().map(conv).transpose()?\<close>.\<close>

definition json_required :: "('v, 'x) nojson \<Rightarrow> 'v \<Rightarrow> string \<Rightarrow> 'x + 'v" where
  "json_required J v name = bindE (json_member J v name) (ok_or (json_missing J v name))"

definition json_optional ::
    "('v, 'x) nojson \<Rightarrow> 'v \<Rightarrow> string \<Rightarrow> ('v \<Rightarrow> 'x + 'a) \<Rightarrow> 'x + 'a option" where
  "json_optional J v name conv =
     bindE (json_member J v name) (\<lambda>m.
       case m of None \<Rightarrow> Inr None | Some x \<Rightarrow> bindE (conv x) (\<lambda>y. Inr (Some y)))"

definition json_parse_array :: "('v, 'x) nojson \<Rightarrow> ('v \<Rightarrow> 'x + 'a) \<Rightarrow> 'v \<Rightarrow> 'x + 'a list" where
  "json_parse_array J conv v = bindE (json_array J v) (mapE conv)"

text \<open>Printing a list stops at the first element that does not print.\<close>

fun all_json :: "('a \<Rightarrow> json option) \<Rightarrow> 'a list \<Rightarrow> json list option" where
  "all_json f [] = Some []"
| "all_json f (x # xs) = do { j \<leftarrow> f x; js \<leftarrow> all_json f xs; Some (j # js) }"

lemma all_json_map:
  "all_json f xs = Some js \<Longrightarrow> js = map (the \<circ> f) xs \<and> (\<forall>x \<in> set xs. f x \<noteq> None)"
  by (induction xs arbitrary: js) (auto simp: bind_eq_Some_conv)

subsection \<open>What the crate documents\<close>

fun tree_kind :: "json \<Rightarrow> json_value_kind" where
  "tree_kind JNull = KindNull"
| "tree_kind (JBool _) = KindBoolean"
| "tree_kind (JInt _) = KindInteger"
| "tree_kind (JF64 _) = KindFloat"
| "tree_kind (JStr _) = KindString"
| "tree_kind (JRaw _) = KindNull"
| "tree_kind (JArr _) = KindArray"
| "tree_kind (JObj _) = KindObject"

fun tree_is_raw :: "json \<Rightarrow> bool" where
  "tree_is_raw (JRaw _) = True"
| "tree_is_raw _ = False"

definition json_faithful :: "('v, 'x) nojson \<Rightarrow> (json \<Rightarrow> 'v) \<Rightarrow> bool" where
  "json_faithful J rep \<longleftrightarrow>
     (\<forall>j. \<not> tree_is_raw j \<longrightarrow> json_kind J (rep j) = tree_kind j) \<and>
     (\<forall>s. json_string J (rep (JStr s)) = Inr s \<and> json_unquoted J (rep (JStr s)) = Inr s) \<and>
     (\<forall>b. json_bool J (rep (JBool b)) = Inr b) \<and>
     (\<forall>i. 0 \<le> i \<and> i < 2 ^ 64 \<longrightarrow> json_u64 J (rep (JInt i)) = Inr (word_of_int i)) \<and>
     (\<forall>i. 0 \<le> i \<and> i < 2 ^ 16 \<longrightarrow> json_u16 J (rep (JInt i)) = Inr (word_of_int i)) \<and>
     (\<forall>i. - (2 ^ 31) \<le> i \<and> i < 2 ^ 31 \<longrightarrow> json_i32 J (rep (JInt i)) = Inr (word_of_int i)) \<and>
     (\<forall>x. json_f64 J (rep (JF64 x)) = Inr x) \<and>
     (\<forall>js. json_array J (rep (JArr js)) = Inr (map rep js)) \<and>
     (\<forall>ms. json_object J (rep (JObj ms)) = Inr (map (\<lambda>(k, j). (rep (JStr k), rep j)) ms)) \<and>
     (\<forall>ms k. k \<notin> fst ` set ms \<longrightarrow> json_member J (rep (JObj ms)) k = Inr None) \<and>
     (\<forall>ms k j. (k, j) \<in> set ms \<longrightarrow>
        (\<exists>i. (k, i) \<in> set ms \<and> json_member J (rep (JObj ms)) k = Inr (Some (rep i))))"

text \<open>
  A parsed text has no raw part. The conversions accept only the scalar they are named for: no
  number with a fraction or an exponent is an integer, and no integer out of range is accepted.
\<close>

fun json_plain :: "json \<Rightarrow> bool" where
  "json_plain (JRaw _) \<longleftrightarrow> False"
| "json_plain (JArr js) \<longleftrightarrow> (\<forall>j \<in> set js. json_plain j)"
| "json_plain (JObj ms) \<longleftrightarrow> (\<forall>m \<in> set ms. json_plain (snd m))"
| "json_plain _ \<longleftrightarrow> True"

definition json_strict :: "('v, 'x) nojson \<Rightarrow> (json \<Rightarrow> 'v) \<Rightarrow> bool" where
  "json_strict J rep \<longleftrightarrow>
     (\<forall>j s. json_plain j \<longrightarrow> json_string J (rep j) = Inr s \<longrightarrow> j = JStr s) \<and>
     (\<forall>j s. json_plain j \<longrightarrow> json_unquoted J (rep j) = Inr s \<longrightarrow> j = JStr s) \<and>
     (\<forall>j n. json_plain j \<longrightarrow> json_u64 J (rep j) = Inr n \<longrightarrow> j = JInt (uint n)) \<and>
     (\<forall>j n. json_plain j \<longrightarrow> json_i32 J (rep j) = Inr n \<longrightarrow> j = JInt (sint n))"

lemma json_faithful_simps:
  assumes "json_faithful J rep"
  shows "json_string J (rep (JStr s)) = Inr s"
    and "json_unquoted J (rep (JStr s)) = Inr s"
    and "json_bool J (rep (JBool b)) = Inr b"
    and "0 \<le> i \<Longrightarrow> i < 2 ^ 64 \<Longrightarrow> json_u64 J (rep (JInt i)) = Inr (word_of_int i)"
    and "0 \<le> i \<Longrightarrow> i < 2 ^ 16 \<Longrightarrow> json_u16 J (rep (JInt i)) = Inr (word_of_int i)"
    and "- (2 ^ 31) \<le> i \<Longrightarrow> i < 2 ^ 31 \<Longrightarrow> json_i32 J (rep (JInt i)) = Inr (word_of_int i)"
    and "json_f64 J (rep (JF64 x)) = Inr x"
    and "json_array J (rep (JArr js)) = Inr (map rep js)"
    and "json_kind J (rep (JObj ms)) = KindObject"
    and "json_object J (rep (JObj ms)) = Inr (map (\<lambda>(k, j). (rep (JStr k), rep j)) ms)"
proof -
  show "json_kind J (rep (JObj ms)) = KindObject"
    using assms unfolding json_faithful_def by (metis tree_is_raw.simps(8) tree_kind.simps(8))
qed (use assms in \<open>simp_all add: json_faithful_def\<close>)

lemma json_member_absent:
  "json_faithful J rep \<Longrightarrow> k \<notin> fst ` set ms \<Longrightarrow> json_member J (rep (JObj ms)) k = Inr None"
  by (simp add: json_faithful_def)

lemma json_member_some:
  assumes "json_faithful J rep" and "k \<in> fst ` set ms"
  obtains i where "(k, i) \<in> set ms" "json_member J (rep (JObj ms)) k = Inr (Some (rep i))"
proof -
  from assms(1) have "\<forall>ms k j. (k, j) \<in> set ms \<longrightarrow>
      (\<exists>i. (k, i) \<in> set ms \<and> json_member J (rep (JObj ms)) k = Inr (Some (rep i)))"
    by (simp add: json_faithful_def)
  moreover from assms(2) obtain j where "(k, j) \<in> set ms" by auto
  ultimately show thesis using that by blast
qed

lemma json_member_unique:
  assumes "json_faithful J rep" and "distinct (map fst ms)" and "map_of ms k = Some j"
  shows "json_member J (rep (JObj ms)) k = Inr (Some (rep j))"
proof -
  from assms(3) have "k \<in> fst ` set ms" by (metis domI dom_map_of_conv_image_fst)
  with assms(1) obtain i where "(k, i) \<in> set ms"
    "json_member J (rep (JObj ms)) k = Inr (Some (rep i))" by (rule json_member_some)
  with assms(2,3) show ?thesis by simp
qed

lemma json_required_member:
  "json_faithful J rep \<Longrightarrow> distinct (map fst ms) \<Longrightarrow> map_of ms k = Some j \<Longrightarrow>
     json_required J (rep (JObj ms)) k = Inr (rep j)"
  by (simp add: json_required_def json_member_unique)

lemma json_optional_member:
  "json_faithful J rep \<Longrightarrow> distinct (map fst ms) \<Longrightarrow>
     json_optional J (rep (JObj ms)) k conv =
       (case map_of ms k of
          None \<Rightarrow> Inr None
        | Some j \<Rightarrow> bindE (conv (rep j)) (\<lambda>y. Inr (Some y)))"
  using json_member_absent [of J rep k ms]
  by (cases "map_of ms k")
    (simp_all add: json_optional_def json_member_unique map_of_eq_None_iff [symmetric])

lemma json_parse_array_rep:
  assumes "json_faithful J rep" and "\<And>x. x \<in> set xs \<Longrightarrow> conv (rep (enc x)) = Inr x"
  shows "json_parse_array J conv (rep (JArr (map enc xs))) = Inr xs"
proof -
  have "mapE conv (map (rep \<circ> enc) xs) = Inr xs"
    using assms(2) by (induction xs) simp_all
  with assms(1) show ?thesis by (simp add: json_parse_array_def json_faithful_simps)
qed

subsection \<open>A concrete reader\<close>

text \<open>An instance on the trees themselves, used by the witnesses only.\<close>

fun tree_string :: "json \<Rightarrow> unit + string" where
  "tree_string (JStr s) = Inr s"
| "tree_string _ = Inl ()"

fun tree_bool :: "json \<Rightarrow> unit + bool" where
  "tree_bool (JBool b) = Inr b"
| "tree_bool _ = Inl ()"

fun tree_int :: "int \<Rightarrow> int \<Rightarrow> json \<Rightarrow> unit + 'a::len word" where
  "tree_int a b (JInt i) = (if a \<le> i \<and> i < b then Inr (word_of_int i) else Inl ())"
| "tree_int a b _ = Inl ()"

fun tree_f64 :: "json \<Rightarrow> unit + f64" where
  "tree_f64 (JF64 x) = Inr x"
| "tree_f64 _ = Inl ()"

fun tree_array :: "json \<Rightarrow> unit + json list" where
  "tree_array (JArr js) = Inr js"
| "tree_array _ = Inl ()"

fun tree_object :: "json \<Rightarrow> unit + (json \<times> json) list" where
  "tree_object (JObj ms) = Inr (map (\<lambda>(k, j). (JStr k, j)) ms)"
| "tree_object _ = Inl ()"

fun tree_member :: "json \<Rightarrow> string \<Rightarrow> unit + json option" where
  "tree_member (JObj ms) k = Inr (map_of ms k)"
| "tree_member _ k = Inl ()"

definition tree_nojson :: "json \<Rightarrow> (json, unit) nojson" where
  "tree_nojson parsed =
     \<lparr>json_parse = (\<lambda>_. Inr parsed), json_kind = tree_kind, json_object = tree_object,
      json_member = tree_member, json_missing = (\<lambda>_ _. ()), json_array = tree_array,
      json_string = tree_string, json_unquoted = tree_string, json_bool = tree_bool,
      json_u64 = tree_int 0 (2 ^ 64), json_u16 = tree_int 0 (2 ^ 16),
      json_i32 = tree_int (- (2 ^ 31)) (2 ^ 31), json_f64 = tree_f64,
      json_invalid = (\<lambda>_ _. ()), json_text = (\<lambda>_. []), json_print = (\<lambda>_. [])\<rparr>"

lemma tree_nojson_faithful: "json_faithful (tree_nojson parsed) id"
  by (auto simp: json_faithful_def tree_nojson_def map_of_eq_None_iff dest: weak_map_of_SomeI
      intro: map_of_SomeD)

lemma tree_nojson_strict: "json_strict (tree_nojson parsed) id"
proof -
  have "tree_string j = Inr s \<Longrightarrow> j = JStr s" for j s by (cases j) simp_all
  moreover have "tree_int 0 (2 ^ 64) j = Inr (n :: u64) \<Longrightarrow> j = JInt (uint n)" for j n
    by (cases j) (auto simp: uint_word_of_int split: if_splits)
  moreover have "tree_int (- (2 ^ 31)) (2 ^ 31) j = Inr (n :: i32) \<Longrightarrow> j = JInt (sint n)" for j n
    by (cases j)
      (auto simp: sint_sbintrunc' signed_take_bit_int_eq_self split: if_splits)
  ultimately show ?thesis by (simp add: json_strict_def tree_nojson_def)
qed

lemma tree_nojson_parse [simp]: "json_parse (tree_nojson parsed) text = Inr parsed"
  by (simp add: tree_nojson_def)

end
