(* ===== verification/Video_Capability.thy ===== *)
theory Video_Capability
  imports Json
begin

text \<open>
  \<^verbatim>\<open>src/video_codec_capability.rs\<close> and \<^verbatim>\<open>src/codec_direction.rs\<close>: the description of an
  implementation, the trait \<^verbatim>\<open>VideoCodecCapability\<close> and the lookup by implementation name.

  A value of the trait is a record of its methods; the default methods of the trait are the
  definitions \<open>default_is_supported\<close> and \<open>default_resolve_sdp_format\<close>. The encoder and decoder
  types are the parameters \<open>'e\<close> and \<open>'d\<close>.
\<close>

record video_codec_implementation =
  vi_name :: string
  vi_description :: string

definition video_implementation_eq ::
    "video_codec_implementation \<Rightarrow> video_codec_implementation \<Rightarrow> bool" where
  "video_implementation_eq a b \<longleftrightarrow> vi_name a = vi_name b"

record ('e, 'd) video_capability =
  get_implementation :: video_codec_implementation
  get_supported_formats :: "codec_direction \<Rightarrow> sdp_format list"
  is_supported :: "codec_direction \<Rightarrow> video_codec_type \<Rightarrow> bool"
  resolve_sdp_format :: "codec_direction \<Rightarrow> sdp_format \<Rightarrow> sdp_format option"
  create_video_encoder :: "sdp_format \<Rightarrow> 'e option"
  create_video_decoder :: "sdp_format \<Rightarrow> 'd option"

definition default_resolve_sdp_format ::
    "webrtc \<Rightarrow> (codec_direction \<Rightarrow> sdp_format list) \<Rightarrow> codec_direction \<Rightarrow> sdp_format \<Rightarrow>
     sdp_format option" where
  "default_resolve_sdp_format w formats direction format = fuzzy_match w (formats direction) format"

definition default_is_supported ::
    "webrtc \<Rightarrow> (codec_direction \<Rightarrow> sdp_format \<Rightarrow> sdp_format option) \<Rightarrow> codec_direction \<Rightarrow>
     video_codec_type \<Rightarrow> bool" where
  "default_is_supported w resolve direction codec_type =
     (case codec_as_str w codec_type of
        None \<Rightarrow> False
      | Some codec_name \<Rightarrow> resolve direction (sdp_new codec_name) \<noteq> None)"

text \<open>
  The capability of \<^verbatim>\<open>src/video_codecs/internal.rs\<close>: the factories built into WebRTC, as the
  arguments of the model, with the default methods of the trait.
\<close>

record 'a video_factory =
  vf_get_supported_formats :: "sdp_format list"
  vf_create :: "sdp_format \<Rightarrow> 'a option"

definition internal_formats ::
    "'e video_factory \<Rightarrow> 'd video_factory \<Rightarrow> codec_direction \<Rightarrow> sdp_format list" where
  "internal_formats encoder_factory decoder_factory direction =
     (case direction of
        Encoder \<Rightarrow> vf_get_supported_formats encoder_factory
      | Decoder \<Rightarrow> vf_get_supported_formats decoder_factory)"

definition internal_video_capability ::
    "webrtc \<Rightarrow> 'e video_factory \<Rightarrow> 'd video_factory \<Rightarrow> ('e, 'd) video_capability" where
  "internal_video_capability w encoder_factory decoder_factory =
     (let formats = internal_formats encoder_factory decoder_factory;
          resolve = default_resolve_sdp_format w formats
      in \<lparr>get_implementation =
            \<lparr>vi_name = ''internal'', vi_description = ''WebRTC built-in VideoCodecFactory''\<rparr>,
          get_supported_formats = formats,
          is_supported = default_is_supported w resolve,
          resolve_sdp_format = resolve,
          create_video_encoder = vf_create encoder_factory,
          create_video_decoder = vf_create decoder_factory\<rparr>)"

definition find_capability ::
    "('e, 'd) video_capability list \<Rightarrow> video_codec_implementation \<Rightarrow>
     ('e, 'd) video_capability option" where
  "find_capability capabilities implementation =
     find (\<lambda>c. vi_name (get_implementation c) = vi_name implementation) capabilities"

subsection \<open>JSON\<close>

definition implementation_to_json :: "video_codec_implementation \<Rightarrow> json" where
  "implementation_to_json i =
     JObj [(''name'', JStr (vi_name i)), (''description'', JStr (vi_description i))]"

definition implementation_of_json :: "('v, 'x) nojson \<Rightarrow> 'v \<Rightarrow> 'x + video_codec_implementation" where
  "implementation_of_json J v =
     bindE (bindE (json_required J v ''name'') (json_string J)) (\<lambda>name.
     bindE (bindE (json_required J v ''description'') (json_string J)) (\<lambda>description.
     Inr \<lparr>vi_name = name, vi_description = description\<rparr>))"

definition direction_of_json :: "('v, 'x) nojson \<Rightarrow> 'v \<Rightarrow> 'x + codec_direction" where
  "direction_of_json J v =
     bindE (json_string J v) (\<lambda>direction_text.
       ok_or (json_invalid J v (''unsupported codec direction: '' @ direction_text))
         (direction_of_text direction_text))"

lemma implementation_roundtrip:
  "json_faithful J rep \<Longrightarrow> implementation_of_json J (rep (implementation_to_json i)) = Inr i"
  by (simp add: implementation_of_json_def implementation_to_json_def json_required_member
      json_faithful_simps)

lemma direction_roundtrip:
  "json_faithful J rep \<Longrightarrow> direction_of_json J (rep (JStr (direction_as_str d))) = Inr d"
  by (simp add: direction_of_json_def json_faithful_simps direction_of_text_as_str)

subsection \<open>Lookup\<close>

lemma find_capability_Some:
  "find_capability cs i = Some c \<Longrightarrow> c \<in> set cs \<and> vi_name (get_implementation c) = vi_name i"
  unfolding find_capability_def by (auto simp: find_Some_iff)

lemma find_capability_distinct:
  "distinct (map (vi_name \<circ> get_implementation) cs) \<Longrightarrow> c \<in> set cs \<Longrightarrow>
     vi_name (get_implementation c) = vi_name i \<Longrightarrow> find_capability cs i = Some c"
  using find_distinct_key [of "vi_name \<circ> get_implementation" cs c]
  by (simp add: find_capability_def)

end
