(* ===== verification/Codec_Preference.thy ===== *)
theory Codec_Preference
  imports Prelude
begin

text \<open>
  The contract of a preference list: entries with a key (direction and codec type) and an
  implementation, searched by key, into which one entry is merged with \<open>put\<close>. The video and the
  audio preference (\<^verbatim>\<open>src/video_codec_preference.rs\<close>, \<^verbatim>\<open>src/audio_codec_preference.rs\<close>)
  both provide it; what follows from it for \<^verbatim>\<open>merge\<close> is proved once.
\<close>

locale codec_preference =
  fixes key :: "'c \<Rightarrow> 'k"
    and impl :: "'c \<Rightarrow> 'i"
    and find_entry :: "'c list \<Rightarrow> 'k \<Rightarrow> 'c option"
    and put :: "'c list \<Rightarrow> 'c \<Rightarrow> 'c list"
  assumes find_entry_eq: "find_entry cs k = find (\<lambda>c. key c = k) cs"
    and find_put_other: "k \<noteq> key d \<Longrightarrow> find_entry (put cs d) k = find_entry cs k"
    and find_put_same: "\<exists>e. find_entry (put cs d) (key d) = Some e \<and> impl e = impl d"
    and keys_put: "map key (put cs d) =
      (if key d \<in> key ` set cs then map key cs else map key cs @ [key d])"
begin

definition merge_all :: "'c list \<Rightarrow> 'c list \<Rightarrow> 'c list" where
  "merge_all cs ds = foldl put cs ds"

lemma distinct_put: "distinct (map key cs) \<Longrightarrow> distinct (map key (put cs d))"
  by (auto simp: keys_put)

lemma distinct_merge: "distinct (map key cs) \<Longrightarrow> distinct (map key (merge_all cs ds))"
  unfolding merge_all_def by (induction ds arbitrary: cs) (simp_all add: distinct_put)

lemma merge_keeps_order: "\<exists>added. map key (merge_all cs ds) = map key cs @ added"
  unfolding merge_all_def
proof (induction ds arbitrary: cs)
  case Nil
  then show ?case by simp
next
  case (Cons d ds)
  then obtain added where "map key (foldl put (put cs d) ds) = map key (put cs d) @ added"
    by blast
  then show ?case by (simp add: keys_put)
qed

lemma keys_merge: "key ` set (merge_all cs ds) = key ` set cs \<union> key ` set ds"
  unfolding merge_all_def
proof (induction ds arbitrary: cs)
  case Nil
  then show ?case by simp
next
  case (Cons d ds)
  have "key ` set (put cs d) = insert (key d) (key ` set cs)"
    using arg_cong [OF keys_put, of set cs d] by auto
  with Cons show ?case by auto
qed

lemma find_merge:
  "map_option impl (find_entry (merge_all cs ds) k) =
     (case find (\<lambda>d. key d = k) (rev ds) of
        Some d \<Rightarrow> Some (impl d)
      | None \<Rightarrow> map_option impl (find_entry cs k))"
  unfolding merge_all_def
proof (induction ds rule: rev_induct)
  case Nil
  then show ?case by simp
next
  case (snoc d ds)
  show ?case
  proof (cases "key d = k")
    case True
    then show ?thesis using find_put_same [of "foldl put cs ds" d] by auto
  next
    case False
    with snoc show ?thesis using find_put_other [of k d "foldl put cs ds"] by simp
  qed
qed

lemma find_in_distinct: "distinct (map key cs) \<Longrightarrow> c \<in> set cs \<Longrightarrow> find_entry cs (key c) = Some c"
  by (simp add: find_entry_eq find_distinct_key)

end

subsection \<open>Counting entries\<close>

lemma count_entries_distinct:
  "(\<forall>k. length (filter (\<lambda>c. key c = k) cs) < 2) \<longleftrightarrow> distinct (map key cs)"
proof (induction cs)
  case Nil
  then show ?case by simp
next
  case (Cons c cs)
  have zero: "length (filter (\<lambda>x. key x = key c) cs) = 0 \<longleftrightarrow>
      key c \<notin> key ` set cs"
    by (auto simp: filter_empty_conv) (metis image_eqI)
  have "(\<forall>k. length (filter (\<lambda>x. key x = k) (c # cs)) < 2) \<longleftrightarrow>
      length (filter (\<lambda>x. key x = key c) cs) = 0 \<and>
      (\<forall>k. length (filter (\<lambda>x. key x = k) cs) < 2)" (is "?l \<longleftrightarrow> ?z \<and> ?r")
  proof (intro iffI conjI allI)
    assume l: ?l
    then have "length (filter (\<lambda>x. key x = key c) (c # cs)) < 2" by blast
    then show ?z by simp
    fix k
    from l have "length (filter (\<lambda>x. key x = k) (c # cs)) < 2" by blast
    then show "length (filter (\<lambda>x. key x = k) cs) < 2" by (simp split: if_splits)
  next
    fix k
    assume zr: "?z \<and> ?r"
    then have "length (filter (\<lambda>x. key x = k) cs) < 2" by blast
    with zr show "length (filter (\<lambda>x. key x = k) (c # cs)) < 2"
      by (cases "key c = k") simp_all
  qed
  with zero Cons.IH show ?case by simp
qed

lemma counts_distinct:
  fixes key :: "'c \<Rightarrow> 'd \<times> 't"
  assumes "snd ` key ` set cs \<subseteq> set types"
  shows "(\<forall>t d. t \<in> set types \<longrightarrow> length (filter (\<lambda>c. key c = (d, t)) cs) < 2) \<longleftrightarrow>
    distinct (map key cs)"
proof -
  have "(\<forall>t d. t \<in> set types \<longrightarrow> length (filter (\<lambda>c. key c = (d, t)) cs) < 2) \<longleftrightarrow>
      (\<forall>k. length (filter (\<lambda>c. key c = k) cs) < 2)"
  proof (intro iffI allI impI)
    fix k :: "'d \<times> 't"
    assume a: "\<forall>t d. t \<in> set types \<longrightarrow> length (filter (\<lambda>c. key c = (d, t)) cs) < 2"
    obtain d t where k: "k = (d, t)" by (cases k)
    show "length (filter (\<lambda>c. key c = k) cs) < 2"
    proof (cases "t \<in> set types")
      case True
      with a k show ?thesis by simp
    next
      case False
      with assms have "filter (\<lambda>c. key c = (d, t)) cs = []" by (force simp: filter_empty_conv)
      with k show ?thesis by simp
    qed
  qed simp
  then show ?thesis by (simp only: count_entries_distinct)
qed

lemma concat_guarded_map:
  "concat (map (\<lambda>d. if P d then [f d] else []) ds) = map f (filter P ds)"
  by (induction ds) simp_all

lemma concat_guarded_product:
  "concat (map (\<lambda>t. concat (map (\<lambda>d. if P d t then [f d t] else []) ds)) ts) =
     map (\<lambda>(t, d). f d t) (filter (\<lambda>(t, d). P d t) (List.product ts ds))"
proof (induction ts)
  case Nil
  show ?case by simp
next
  case (Cons t ts)
  have "map (\<lambda>(t, d). f d t) (filter (\<lambda>(t, d). P d t) (map (Pair t) ds)) = map (\<lambda>d. f d t) (filter (\<lambda>d. P d t) ds)"
    by (induction ds) simp_all
  with Cons.IH show ?case by (simp add: concat_guarded_map)
qed

end
