(* ===== verification/Video_Preference.thy ===== *)
theory Video_Preference
  imports Video_Capability Codec_Preference
begin

text \<open>
  \<^verbatim>\<open>src/video_codec_preference.rs\<close>: the preference list, its operations, its JSON form and
  its validation. The \<^verbatim>\<open>reason\<close> of an error is the constructor of its message with the values
  the message interpolates.
\<close>

record preference_codec =
  pc_direction :: codec_direction
  pc_codec_type :: video_codec_type
  pc_implementation :: video_codec_implementation

definition VIDEO_CODEC_TYPES :: "video_codec_type list" where
  "VIDEO_CODEC_TYPES = [Vp8, Vp9, H264, H265, Av1]"

definition set_implementation ::
    "video_codec_implementation \<Rightarrow> preference_codec \<Rightarrow> preference_codec" where
  "set_implementation i c = c\<lparr>pc_implementation := i\<rparr>"

definition entry_is :: "codec_direction \<Rightarrow> video_codec_type \<Rightarrow> preference_codec \<Rightarrow> bool" where
  "entry_is direction codec_type codec \<longleftrightarrow>
     pc_direction codec = direction \<and> pc_codec_type codec = codec_type"

definition new_from_capability :: "('e, 'd) video_capability \<Rightarrow> preference_codec list" where
  "new_from_capability capability =
     concat (map (\<lambda>codec_type.
       concat (map (\<lambda>direction.
         if is_supported capability direction codec_type
         then [\<lparr>pc_direction = direction, pc_codec_type = codec_type,
                pc_implementation = get_implementation capability\<rparr>]
         else []) [Encoder, Decoder])) VIDEO_CODEC_TYPES)"

definition find_codec ::
    "preference_codec list \<Rightarrow> codec_direction \<Rightarrow> video_codec_type \<Rightarrow> preference_codec option" where
  "find_codec codecs direction codec_type = find (entry_is direction codec_type) codecs"

text \<open>
  \<^verbatim>\<open>get_or_add\<close>: the list afterwards and the position of the entry the returned reference
  points to.
\<close>

definition get_or_add ::
    "preference_codec list \<Rightarrow> codec_direction \<Rightarrow> video_codec_type \<Rightarrow> video_codec_implementation \<Rightarrow>
     preference_codec list \<times> nat" where
  "get_or_add codecs direction codec_type implementation =
     (case first_index (entry_is direction codec_type) 0 codecs of
        Some index \<Rightarrow> (codecs, index)
      | None \<Rightarrow>
          (codecs @ [\<lparr>pc_direction = direction, pc_codec_type = codec_type,
                      pc_implementation = implementation\<rparr>], length codecs))"

definition has_implementation :: "preference_codec list \<Rightarrow> video_codec_implementation \<Rightarrow> bool" where
  "has_implementation codecs implementation \<longleftrightarrow>
     list_ex (\<lambda>codec. video_implementation_eq (pc_implementation codec) implementation) codecs"

definition merge_codec :: "preference_codec list \<Rightarrow> preference_codec \<Rightarrow> preference_codec list" where
  "merge_codec codecs codec =
     (case find_codec codecs (pc_direction codec) (pc_codec_type codec) of
        Some existing \<Rightarrow>
          update_first (entry_is (pc_direction codec) (pc_codec_type codec))
            (set_implementation (pc_implementation codec)) codecs
      | None \<Rightarrow> codecs @ [codec])"

definition merge_preference ::
    "preference_codec list \<Rightarrow> preference_codec list \<Rightarrow> preference_codec list" where
  "merge_preference codecs preference = foldl merge_codec codecs preference"

subsection \<open>JSON\<close>

text \<open>Printing fails, as \<^verbatim>\<open>std::fmt::Error\<close>, for a codec type without a name.\<close>

definition preference_codec_to_json :: "webrtc \<Rightarrow> preference_codec \<Rightarrow> json option" where
  "preference_codec_to_json w codec =
     do { codec_type \<leftarrow> codec_as_str w (pc_codec_type codec);
          Some (JObj
            [(''direction'', JStr (direction_as_str (pc_direction codec))),
             (''codec_type'', JStr codec_type),
             (''implementation'', implementation_to_json (pc_implementation codec))]) }"

definition parse_video_codec_type ::
    "('v, 'x) nojson \<Rightarrow> webrtc \<Rightarrow> 'v \<Rightarrow> 'x + video_codec_type" where
  "parse_video_codec_type J w v =
     bindE (json_string J v) (\<lambda>text.
       ok_or (json_invalid J v (''unsupported video codec type: '' @ text)) (codec_try_from w text))"

definition preference_codec_of_json ::
    "('v, 'x) nojson \<Rightarrow> webrtc \<Rightarrow> 'v \<Rightarrow> 'x + preference_codec" where
  "preference_codec_of_json J w v =
     bindE (bindE (json_required J v ''direction'') (direction_of_json J)) (\<lambda>direction.
     bindE (bindE (json_required J v ''codec_type'') (parse_video_codec_type J w)) (\<lambda>codec_type.
     bindE (bindE (json_required J v ''implementation'') (implementation_of_json J))
       (\<lambda>implementation.
     Inr \<lparr>pc_direction = direction, pc_codec_type = codec_type,
          pc_implementation = implementation\<rparr>)))"

definition preference_to_json :: "webrtc \<Rightarrow> preference_codec list \<Rightarrow> json option" where
  "preference_to_json w codecs =
     do { js \<leftarrow> all_json (preference_codec_to_json w) codecs; Some (JObj [(''codecs'', JArr js)]) }"

definition preference_of_json ::
    "('v, 'x) nojson \<Rightarrow> webrtc \<Rightarrow> 'v \<Rightarrow> 'x + preference_codec list" where
  "preference_of_json J w v =
     bindE (json_required J v ''codecs'') (json_parse_array J (preference_codec_of_json J w))"

subsection \<open>Validation\<close>

datatype video_preference_error =
    DuplicateImplementation video_codec_implementation
  | UnsupportedCodecType codec_direction string
  | DuplicateEntry string codec_direction
  | KnownCodecTypeExpected video_codec_type
  | ImplementationNotFound codec_direction preference_codec
  | CodecTypeNotFound preference_codec
  | DirectionNotSupported codec_direction preference_codec
      video_codec_implementation string bool bool

fun validate_capabilities_from ::
    "string set \<Rightarrow> ('e, 'd) video_capability list \<Rightarrow> video_preference_error + unit" where
  "validate_capabilities_from implementation_names [] = Inr ()"
| "validate_capabilities_from implementation_names (capability # rest) =
     (if vi_name (get_implementation capability) \<in> implementation_names
      then Inl (DuplicateImplementation (get_implementation capability))
      else validate_capabilities_from
             (insert (vi_name (get_implementation capability)) implementation_names) rest)"

definition validate_capabilities :: "('e, 'd) video_capability list \<Rightarrow> video_preference_error + unit" where
  "validate_capabilities capabilities = validate_capabilities_from {} capabilities"

definition codec_name_or_unknown :: "webrtc \<Rightarrow> video_codec_type \<Rightarrow> string" where
  "codec_name_or_unknown w t = (case codec_as_str w t of None \<Rightarrow> ''Unknown'' | Some s \<Rightarrow> s)"

definition check_known_type :: "webrtc \<Rightarrow> preference_codec \<Rightarrow> video_preference_error + unit" where
  "check_known_type w codec =
     (if List.member VIDEO_CODEC_TYPES (pc_codec_type codec) then Inr ()
      else Inl (UnsupportedCodecType (pc_direction codec)
             (codec_name_or_unknown w (pc_codec_type codec))))"

definition check_duplicate ::
    "webrtc \<Rightarrow> preference_codec list \<Rightarrow> video_codec_type \<times> codec_direction \<Rightarrow>
     video_preference_error + unit" where
  "check_duplicate w codecs = (\<lambda>(codec_type, direction).
     if length (filter (entry_is direction codec_type) codecs) \<ge> 2 then
       (case codec_as_str w codec_type of
          None \<Rightarrow> Inl (KnownCodecTypeExpected codec_type)
        | Some codec_type_name \<Rightarrow> Inl (DuplicateEntry codec_type_name direction))
     else Inr ())"

definition validate_codec ::
    "webrtc \<Rightarrow> ('e, 'd) video_capability list \<Rightarrow> preference_codec \<Rightarrow> video_preference_error + unit" where
  "validate_codec w capabilities codec =
     (case find_capability capabilities (pc_implementation codec) of
        None \<Rightarrow> Inl (ImplementationNotFound (pc_direction codec) codec)
      | Some capability \<Rightarrow>
          (let encoder_supported = is_supported capability Encoder (pc_codec_type codec);
               decoder_supported = is_supported capability Decoder (pc_codec_type codec);
               (direction_supported, opposite_supported) =
                 (case pc_direction codec of
                    Encoder \<Rightarrow> (encoder_supported, decoder_supported)
                  | Decoder \<Rightarrow> (decoder_supported, encoder_supported))
           in if \<not> direction_supported \<and> \<not> opposite_supported then
                Inl (CodecTypeNotFound codec)
              else if \<not> direction_supported then
                Inl (DirectionNotSupported (pc_direction codec) codec
                  (get_implementation capability) (codec_name_or_unknown w (pc_codec_type codec))
                  (is_supported capability Encoder (pc_codec_type codec))
                  (is_supported capability Decoder (pc_codec_type codec)))
              else Inr ()))"

definition validate_video_codec_preference ::
    "webrtc \<Rightarrow> preference_codec list \<Rightarrow> ('e, 'd) video_capability list \<Rightarrow>
     video_preference_error + unit" where
  "validate_video_codec_preference w codecs capabilities =
     bindE (validate_capabilities capabilities) (\<lambda>_.
     bindE (eachE (check_known_type w) codecs) (\<lambda>_.
     bindE (eachE (check_duplicate w codecs)
             (List.product VIDEO_CODEC_TYPES [Encoder, Decoder])) (\<lambda>_.
     eachE (validate_codec w capabilities) codecs)))"

subsection \<open>The contract\<close>

definition codec_key :: "preference_codec \<Rightarrow> codec_direction \<times> video_codec_type" where
  "codec_key c = (pc_direction c, pc_codec_type c)"

lemma entry_is_key: "entry_is d t = (\<lambda>c. codec_key c = (d, t))"
  by (auto simp: entry_is_def codec_key_def fun_eq_iff)

lemma codec_key_set_implementation [simp]:
  "codec_key (set_implementation i c) = codec_key c"
  "pc_implementation (set_implementation i c) = i"
  by (simp_all add: codec_key_def set_implementation_def)

lemma merge_codec_eq:
  "merge_codec cs d =
     (case find (\<lambda>c. codec_key c = codec_key d) cs of
        Some _ \<Rightarrow> update_first (\<lambda>c. codec_key c = codec_key d)
          (set_implementation (pc_implementation d)) cs
      | None \<Rightarrow> cs @ [d])"
proof -
  have "entry_is (pc_direction d) (pc_codec_type d) = (\<lambda>c. codec_key c = codec_key d)"
    by (simp add: entry_is_key codec_key_def [of d])
  then show ?thesis by (simp only: merge_codec_def find_codec_def)
qed

interpretation video_pref:
  codec_preference codec_key pc_implementation "\<lambda>cs k. find_codec cs (fst k) (snd k)" merge_codec
proof
  show "find_codec cs (fst k) (snd k) = find (\<lambda>c. codec_key c = k) cs" for cs k
    by (simp add: find_codec_def entry_is_key)
  show "find_codec (merge_codec cs d) (fst k) (snd k) = find_codec cs (fst k) (snd k)"
    if "k \<noteq> codec_key d" for k d cs
  proof -
    have "find (\<lambda>c. codec_key c = k) (update_first (\<lambda>c. codec_key c = codec_key d)
        (set_implementation i) cs) = find (\<lambda>c. codec_key c = k) cs" for i
      by (rule find_update_first_other) (use that in auto)
    with that show ?thesis
      by (auto simp: find_codec_def entry_is_key merge_codec_eq find_append split: option.splits)
  qed
  show "\<exists>e. find_codec (merge_codec cs d) (fst (codec_key d)) (snd (codec_key d)) = Some e \<and>
      pc_implementation e = pc_implementation d" for cs d
    by (auto simp: find_codec_def entry_is_key merge_codec_eq find_append find_update_first_same
        split: option.splits)
  show "map codec_key (merge_codec cs d) =
      (if codec_key d \<in> codec_key ` set cs then map codec_key cs
       else map codec_key cs @ [codec_key d])" for cs d
  proof (cases "find (\<lambda>c. codec_key c = codec_key d) cs")
    case None
    then have "codec_key d \<notin> codec_key ` set cs" by (auto simp: find_None_iff image_iff)
    with None show ?thesis by (simp add: merge_codec_eq)
  next
    case (Some c)
    then have "codec_key c = codec_key d" "c \<in> set cs" using find_SomeD [OF Some] by simp_all
    then have "codec_key d \<in> codec_key ` set cs" by (metis image_eqI)
    with Some show ?thesis by (simp add: merge_codec_eq map_update_first)
  qed
qed

lemma merge_preference_eq: "merge_preference = video_pref.merge_all"
  by (intro ext) (simp add: merge_preference_def video_pref.merge_all_def)

text \<open>
  Fact. Merging video preferences: afterwards the implementation found for a direction
  and a codec type is the one of the last entry of the merged list for them, or the old one when
  it has none; the old entries keep their places and the new ones follow; and a list without
  two entries for the same direction and type stays one.
\<close>

theorem merge_preference_spec:
  "map_option pc_implementation (find_codec (merge_preference cs ds) d t) =
     (case find (entry_is d t) (rev ds) of
        Some e \<Rightarrow> Some (pc_implementation e)
      | None \<Rightarrow> map_option pc_implementation (find_codec cs d t)) \<and>
   (\<exists>added. map codec_key (merge_preference cs ds) = map codec_key cs @ added) \<and>
   codec_key ` set (merge_preference cs ds) = codec_key ` set cs \<union> codec_key ` set ds \<and>
   (distinct (map codec_key cs) \<longrightarrow> distinct (map codec_key (merge_preference cs ds)))"
  using video_pref.find_merge [of cs ds "(d, t)"] video_pref.merge_keeps_order [of cs ds]
    video_pref.keys_merge [of cs ds] video_pref.distinct_merge [of cs ds]
  unfolding merge_preference_eq entry_is_key fst_conv snd_conv by blast

subsection \<open>Validation\<close>

lemma validate_capabilities_from_Inr:
  "validate_capabilities_from names cs = Inr u \<longleftrightarrow>
     distinct (map (vi_name \<circ> get_implementation) cs) \<and>
     names \<inter> (vi_name \<circ> get_implementation) ` set cs = {}"
  by (induction cs arbitrary: names) auto

lemma check_duplicate_Inr:
  "check_duplicate w cs (t, d) = Inr u \<longleftrightarrow> length (filter (\<lambda>c. codec_key c = (d, t)) cs) < 2"
  by (auto simp: check_duplicate_def entry_is_key not_le split: option.splits)

lemma mem_types_directions:
  "(t, d) \<in> set (List.product VIDEO_CODEC_TYPES [Encoder, Decoder]) \<longleftrightarrow> t \<in> set VIDEO_CODEC_TYPES"
  by (cases d) simp_all

lemma check_duplicates_Inr:
  assumes "pc_codec_type ` set cs \<subseteq> set VIDEO_CODEC_TYPES"
  shows "eachE (check_duplicate w cs) (List.product VIDEO_CODEC_TYPES [Encoder, Decoder]) = Inr u
    \<longleftrightarrow> distinct (map codec_key cs)"
proof -
  have "snd ` codec_key ` set cs \<subseteq> set VIDEO_CODEC_TYPES"
    using assms by (auto simp: codec_key_def)
  then show ?thesis
    by (simp only: eachE_Inr Ball_def split_paired_All check_duplicate_Inr mem_types_directions
        counts_distinct)
qed

lemma known_type_Inr:
  "check_known_type w c = Inr u \<longleftrightarrow> pc_codec_type c \<in> set VIDEO_CODEC_TYPES"
  by (simp add: check_known_type_def)

lemma validate_codec_Inr:
  "validate_codec w caps c = Inr u \<longleftrightarrow>
     (\<exists>cap. find_capability caps (pc_implementation c) = Some cap \<and>
        is_supported cap (pc_direction c) (pc_codec_type c))"
  by (auto simp: validate_codec_def Let_def split: option.splits codec_direction.splits)

lemma validate_preference_Inr:
  "validate_video_codec_preference w cs caps = Inr () \<longleftrightarrow>
     distinct (map (vi_name \<circ> get_implementation) caps) \<and>
     pc_codec_type ` set cs \<subseteq> set VIDEO_CODEC_TYPES \<and> distinct (map codec_key cs) \<and>
     (\<forall>c \<in> set cs. \<exists>cap. find_capability caps (pc_implementation c) = Some cap \<and>
        is_supported cap (pc_direction c) (pc_codec_type c))"
proof (cases "pc_codec_type ` set cs \<subseteq> set VIDEO_CODEC_TYPES")
  case True
  then have known: "eachE (check_known_type w) cs = Inr ()"
    by (auto simp: eachE_Inr known_type_Inr)
  show ?thesis
    unfolding validate_video_codec_preference_def known bindE_Inr bindE_eq_Inr
      validate_capabilities_def validate_capabilities_from_Inr check_duplicates_Inr [OF True]
    by (simp add: eachE_Inr validate_codec_Inr True)
next
  case False
  then have "eachE (check_known_type w) cs \<noteq> Inr u" for u
    by (auto simp: eachE_Inr known_type_Inr)
  with False show ?thesis
    by (simp add: validate_video_codec_preference_def bindE_eq_Inr)
qed

text \<open>
  Property C33. Validation of a video preference: it succeeds exactly when no two capabilities
  share an implementation name, every codec type is one of the five known ones, no direction and
  type has two entries, and every entry's implementation is there and supports the type in the
  entry's direction.
\<close>

theorem validate_video_codec_preference_spec:
  "validate_video_codec_preference w cs caps = Inr () \<longleftrightarrow>
     distinct (map (vi_name \<circ> get_implementation) caps) \<and>
     pc_codec_type ` set cs \<subseteq> set VIDEO_CODEC_TYPES \<and> distinct (map codec_key cs) \<and>
     list_all (\<lambda>c. list_ex (\<lambda>cap. vi_name (get_implementation cap) = vi_name (pc_implementation c) \<and>
       is_supported cap (pc_direction c) (pc_codec_type c)) caps) cs"
proof (cases "distinct (map (vi_name \<circ> get_implementation) caps)")
  case True
  have "(\<exists>cap. find_capability caps i = Some cap \<and> is_supported cap d t) \<longleftrightarrow>
      list_ex (\<lambda>cap. vi_name (get_implementation cap) = vi_name i \<and> is_supported cap d t) caps"
    for i d t
  proof
    assume "\<exists>cap. find_capability caps i = Some cap \<and> is_supported cap d t"
    then obtain cap where "find_capability caps i = Some cap" "is_supported cap d t" by blast
    with find_capability_Some [of caps i cap] show "list_ex (\<lambda>cap.
        vi_name (get_implementation cap) = vi_name i \<and> is_supported cap d t) caps"
      unfolding list_ex_iff by blast
  next
    assume "list_ex (\<lambda>cap. vi_name (get_implementation cap) = vi_name i \<and> is_supported cap d t) caps"
    then obtain cap where cap: "cap \<in> set caps" "vi_name (get_implementation cap) = vi_name i"
      "is_supported cap d t" unfolding list_ex_iff by blast
    with find_capability_distinct [OF True cap(1,2)]
    show "\<exists>cap. find_capability caps i = Some cap \<and> is_supported cap d t" by blast
  qed
  then show ?thesis by (simp add: validate_preference_Inr list_all_iff)
qed (simp add: validate_preference_Inr)

subsection \<open>A preference made from a capability\<close>

definition capability_entry ::
    "('e, 'd) video_capability \<Rightarrow> video_codec_type \<times> codec_direction \<Rightarrow> preference_codec" where
  "capability_entry cap = (\<lambda>(t, d).
     \<lparr>pc_direction = d, pc_codec_type = t, pc_implementation = get_implementation cap\<rparr>)"

lemma new_from_capability_eq:
  "new_from_capability cap =
     map (capability_entry cap)
       (filter (\<lambda>(t, d). is_supported cap d t) (List.product VIDEO_CODEC_TYPES [Encoder, Decoder]))"
  unfolding new_from_capability_def concat_guarded_product capability_entry_def ..

lemma set_new_from_capability:
  "set (new_from_capability cap) =
     capability_entry cap ` {(t, d). t \<in> set VIDEO_CODEC_TYPES \<and> is_supported cap d t}"
proof -
  have "{x \<in> set (List.product VIDEO_CODEC_TYPES [Encoder, Decoder]). case x of (t, d) \<Rightarrow> is_supported cap d t}
      = {(t, d). t \<in> set VIDEO_CODEC_TYPES \<and> is_supported cap d t}"
    using mem_types_directions by (auto simp del: set_product)
  then show ?thesis by (simp add: new_from_capability_eq del: set_product)
qed

lemma distinct_new_from_capability: "distinct (map codec_key (new_from_capability cap))"
proof -
  have "codec_key \<circ> capability_entry cap = prod.swap"
    by (auto simp: codec_key_def capability_entry_def)
  moreover have "distinct (List.product VIDEO_CODEC_TYPES [Encoder, Decoder])"
    by (simp add: distinct_product VIDEO_CODEC_TYPES_def)
  ultimately show ?thesis
    unfolding new_from_capability_eq map_map by (simp add: distinct_map distinct_filter inj_on_def)
qed

text \<open>
  Fact. A preference made from a capability lists exactly the known types the capability
  supports, per direction, and it passes the validation against every list of capabilities with
  distinct names that contains the capability.
\<close>

theorem new_from_capability_valid:
  assumes "distinct (map (vi_name \<circ> get_implementation) caps)" and "cap \<in> set caps"
  shows "validate_video_codec_preference w (new_from_capability cap) caps = Inr () \<and>
    (\<forall>d t. (find_codec (new_from_capability cap) d t \<noteq> None) =
       (t \<in> set VIDEO_CODEC_TYPES \<and> is_supported cap d t))"
proof
  have "\<exists>cap'. find_capability caps (pc_implementation c) = Some cap' \<and>
      is_supported cap' (pc_direction c) (pc_codec_type c)"
    if "c \<in> set (new_from_capability cap)" for c
    using that find_capability_distinct [OF assms]
    by (auto simp: set_new_from_capability capability_entry_def)
  moreover have "pc_codec_type ` set (new_from_capability cap) \<subseteq> set VIDEO_CODEC_TYPES"
    by (auto simp: set_new_from_capability capability_entry_def)
  ultimately show "validate_video_codec_preference w (new_from_capability cap) caps = Inr ()"
    using assms(1) distinct_new_from_capability by (simp add: validate_preference_Inr)
  show "\<forall>d t. (find_codec (new_from_capability cap) d t \<noteq> None) =
      (t \<in> set VIDEO_CODEC_TYPES \<and> is_supported cap d t)"
  proof (intro allI)
    fix d t
    have "(find_codec (new_from_capability cap) d t = None) =
        (\<forall>c \<in> set (new_from_capability cap). \<not> entry_is d t c)"
      by (auto simp: find_codec_def find_None_iff)
    also have "\<dots> = (\<not> (t \<in> set VIDEO_CODEC_TYPES \<and> is_supported cap d t))"
      by (auto simp: set_new_from_capability capability_entry_def entry_is_def)
    finally show "(find_codec (new_from_capability cap) d t \<noteq> None) =
        (t \<in> set VIDEO_CODEC_TYPES \<and> is_supported cap d t)" by simp
  qed
qed

subsection \<open>Round trip\<close>

lemma preference_codec_roundtrip:
  assumes "json_faithful J rep" and "preference_codec_to_json w c = Some j"
    and "\<And>name. codec_as_str w (pc_codec_type c) = Some name \<Longrightarrow>
      codec_try_from w name = Some (pc_codec_type c)"
  shows "preference_codec_of_json J w (rep j) = Inr c"
  using assms
  by (auto simp: preference_codec_to_json_def preference_codec_of_json_def bind_eq_Some_conv
      json_required_member direction_roundtrip implementation_roundtrip parse_video_codec_type_def
      json_faithful_simps)

text \<open>
  Property C35. Round trip of a preference: what \<^verbatim>\<open>DisplayJson\<close> prints, when it prints, is read
  back by \<^verbatim>\<open>TryFrom\<close> as the same list, provided codec names are read back as their types.
\<close>

theorem preference_roundtrip:
  assumes "json_faithful J rep"
    and "\<And>t name. codec_as_str w t = Some name \<Longrightarrow> codec_try_from w name = Some t"
    and "preference_to_json w cs = Some j"
  shows "preference_of_json J w (rep j) = Inr cs"
proof -
  from assms(3) obtain js where js: "all_json (preference_codec_to_json w) cs = Some js"
    and j: "j = JObj [(''codecs'', JArr js)]"
    by (auto simp: preference_to_json_def bind_eq_Some_conv)
  have map: "js = map (the \<circ> preference_codec_to_json w) cs"
    and some: "\<forall>c \<in> set cs. preference_codec_to_json w c \<noteq> None"
    using all_json_map [OF js] by auto
  have "json_parse_array J (preference_codec_of_json J w)
      (rep (JArr (map (the \<circ> preference_codec_to_json w) cs))) = Inr cs"
  proof (rule json_parse_array_rep [OF assms(1)])
    fix c assume "c \<in> set cs"
    with some obtain i where "preference_codec_to_json w c = Some i" by blast
    with assms(1,2) show "preference_codec_of_json J w
        (rep ((the \<circ> preference_codec_to_json w) c)) = Inr c"
      by (simp add: preference_codec_roundtrip)
  qed
  with assms(1) j map show ?thesis
    by (simp add: preference_of_json_def json_required_member)
qed

subsection \<open>Witnesses\<close>

definition example_implementation :: video_codec_implementation where
  "example_implementation = \<lparr>vi_name = ''impl'', vi_description = ''Example''\<rparr>"

definition example_capability :: "(unit, unit) video_capability" where
  "example_capability =
     \<lparr>get_implementation = example_implementation, get_supported_formats = (\<lambda>_. [sdp_new ''VP8'']),
      is_supported = (\<lambda>d t. d = Encoder \<and> t = Vp8), resolve_sdp_format = (\<lambda>_ f. Some f),
      create_video_encoder = (\<lambda>_. Some ()), create_video_decoder = (\<lambda>_. None)\<rparr>"

definition example_preference_codec :: preference_codec where
  "example_preference_codec =
     \<lparr>pc_direction = Encoder, pc_codec_type = Vp8, pc_implementation = example_implementation\<rparr>"

lemma example_codec_names: "example_codec_name t = Some name \<Longrightarrow> example_codec_of_name name = Some t"
  by (cases t) auto

theorem merge_preference_spec_witness:
  "distinct (map codec_key (merge_preference [example_preference_codec] [example_preference_codec]))"
  using merge_preference_spec [of "[example_preference_codec]" "[example_preference_codec]" Encoder Vp8]
  by simp

theorem new_from_capability_valid_witness:
  "validate_video_codec_preference example_webrtc (new_from_capability example_capability)
     [example_capability] = Inr ()"
  using new_from_capability_valid [of "[example_capability]" example_capability example_webrtc]
  by simp

theorem preference_roundtrip_witness:
  "preference_of_json (tree_nojson JNull) example_webrtc
     (id (the (preference_to_json example_webrtc [example_preference_codec])))
     = Inr [example_preference_codec]"
proof (rule preference_roundtrip [OF tree_nojson_faithful])
  show "codec_as_str example_webrtc t = Some name \<Longrightarrow> codec_try_from example_webrtc name = Some t"
    for t name by (simp add: example_codec_names)
  show "preference_to_json example_webrtc [example_preference_codec]
      = Some (the (preference_to_json example_webrtc [example_preference_codec]))"
    by (simp add: preference_to_json_def preference_codec_to_json_def example_preference_codec_def)
qed

end
