(* ===== verification/Video_Codec.thy ===== *)
theory Video_Codec
  imports Video_Preference
begin

text \<open>
  \<^verbatim>\<open>src/video_codec.rs\<close> and the shared helpers of \<^verbatim>\<open>src/video_codecs/helpers.rs\<close>: the
  encoder and decoder factories over a preference and its capabilities, and the adapter that
  crops frames to an alignment.

  \<^verbatim>\<open>i32\<close> sizes are integers: the code only subtracts, halves and takes remainders of
  non-negative ones, so none of its operations can overflow. The downstream encoder and the
  frame buffer are the parameters \<open>'e\<close> and \<open>'b\<close>, with the operations of \<open>video_encoder\<close> and
  \<open>buffer_ops\<close>.
\<close>

unbundle bit_operations_syntax

subsection \<open>Factories\<close>

definition encoder_factory_create ::
    "webrtc \<Rightarrow> preference_codec list \<Rightarrow> ('e, 'd) video_capability list \<Rightarrow> sdp_format \<Rightarrow>
     'e option" where
  "encoder_factory_create w preference capabilities format =
     do { format_name \<leftarrow> sdp_name format;
          codec_type \<leftarrow> codec_try_from w format_name;
          codec \<leftarrow> find_codec preference Encoder codec_type;
          capability \<leftarrow> find_capability capabilities (pc_implementation codec);
          resolved \<leftarrow> resolve_sdp_format capability Encoder format;
          create_video_encoder capability resolved }"

definition decoder_factory_create ::
    "webrtc \<Rightarrow> preference_codec list \<Rightarrow> ('e, 'd) video_capability list \<Rightarrow> sdp_format \<Rightarrow>
     'd option" where
  "decoder_factory_create w preference capabilities format =
     do { format_name \<leftarrow> sdp_name format;
          codec_type \<leftarrow> codec_try_from w format_name;
          codec \<leftarrow> find_codec preference Decoder codec_type;
          capability \<leftarrow> find_capability capabilities (pc_implementation codec);
          resolved \<leftarrow> resolve_sdp_format capability Decoder format;
          create_video_decoder capability resolved }"

definition push_format :: "webrtc \<Rightarrow> video_codec_type \<Rightarrow> sdp_format list \<Rightarrow> sdp_format \<Rightarrow> sdp_format list" where
  "push_format w codec_type formats format =
     (if do { name \<leftarrow> sdp_name format; codec_try_from w name } \<noteq> Some codec_type then formats
      else if list_ex (\<lambda>existing. sdp_is_equal w existing format) formats then formats
      else formats @ [format])"

definition push_codec_formats ::
    "webrtc \<Rightarrow> ('e, 'd) video_capability list \<Rightarrow> codec_direction \<Rightarrow> sdp_format list \<Rightarrow>
     preference_codec \<Rightarrow> sdp_format list" where
  "push_codec_formats w capabilities direction formats codec =
     (if pc_direction codec \<noteq> direction then formats
      else case find_capability capabilities (pc_implementation codec) of
        None \<Rightarrow> formats
      | Some capability \<Rightarrow>
          foldl (push_format w (pc_codec_type codec)) formats
            (get_supported_formats capability (pc_direction codec)))"

definition collect_supported_formats ::
    "webrtc \<Rightarrow> preference_codec list \<Rightarrow> ('e, 'd) video_capability list \<Rightarrow> codec_direction \<Rightarrow>
     sdp_format list" where
  "collect_supported_formats w preference capabilities direction =
     foldl (push_codec_formats w capabilities direction) [] preference"

subsection \<open>Alignment\<close>

definition align_down :: "int \<Rightarrow> int \<Rightarrow> int option" where
  "align_down value alignment =
     (if alignment \<le> 0 then None
      else if value \<le> 0 then None
      else if alignment = 1 then Some value
      else (let aligned = value - value mod alignment
            in if aligned > 0 then Some aligned else None))"

record video_codec =
  vc_codec_type :: video_codec_type
  vc_width :: int
  vc_height :: int
  vc_number_of_simulcast_streams :: nat
  vc_simulcast_streams :: "(int \<times> int) list"

definition simulcast_stream :: "video_codec \<Rightarrow> nat \<Rightarrow> (int \<times> int) option" where
  "simulcast_stream codec index =
     (if index < length (vc_simulcast_streams codec)
      then Some (vc_simulcast_streams codec ! index) else None)"

text \<open>The loop over the streams: \<open>None\<close> is the early return of the function.\<close>

fun align_streams :: "video_codec \<Rightarrow> int \<Rightarrow> int \<Rightarrow> nat list \<Rightarrow> (nat \<times> int \<times> int) list option" where
  "align_streams codec ha va [] = Some []"
| "align_streams codec ha va (index # rest) =
     (case simulcast_stream codec index of
        None \<Rightarrow> align_streams codec ha va rest
      | Some (width, height) \<Rightarrow>
          do { aligned_width \<leftarrow> align_down width ha;
               aligned_height \<leftarrow> align_down height va;
               alignments \<leftarrow> align_streams codec ha va rest;
               Some ((index, aligned_width, aligned_height) # alignments) })"

definition set_stream :: "nat \<times> int \<times> int \<Rightarrow> (int \<times> int) list \<Rightarrow> (int \<times> int) list" where
  "set_stream = (\<lambda>(index, width, height) streams.
     if index < length streams then streams[index := (width, height)] else streams)"

definition set_streams :: "(nat \<times> int \<times> int) list \<Rightarrow> (int \<times> int) list \<Rightarrow> (int \<times> int) list" where
  "set_streams alignments streams = fold set_stream alignments streams"

definition apply_alignment_to_codec ::
    "video_codec \<Rightarrow> video_codec_type \<Rightarrow> int \<Rightarrow> int \<Rightarrow> video_codec \<times> (int \<times> int) option" where
  "apply_alignment_to_codec codec codec_type horizontal_alignment vertical_alignment =
     (if vc_codec_type codec \<noteq> codec_type then (codec, None)
      else case do {
          width \<leftarrow> align_down (vc_width codec) horizontal_alignment;
          height \<leftarrow> align_down (vc_height codec) vertical_alignment;
          alignments \<leftarrow> align_streams codec horizontal_alignment vertical_alignment
            [0..<vc_number_of_simulcast_streams codec];
          Some (width, height, alignments) } of
        None \<Rightarrow> (codec, None)
      | Some (width, height, alignments) \<Rightarrow>
          (codec\<lparr>vc_width := width, vc_height := height,
                 vc_simulcast_streams := set_streams alignments (vc_simulcast_streams codec)\<rparr>,
           Some (width, height)))"

subsection \<open>The adapter\<close>

datatype video_codec_status =
    StatusOk | StatusUninitialized | StatusError | StatusErrParameter | StatusNoOutput | StatusOther nat

record 'b video_frame =
  vf_buffer :: 'b
  vf_rtp_timestamp :: u32

record 'b buffer_ops =
  buffer_width :: "'b \<Rightarrow> int"
  buffer_height :: "'b \<Rightarrow> int"
  crop_and_scale :: "'b \<Rightarrow> int \<Rightarrow> int \<Rightarrow> int \<Rightarrow> int \<Rightarrow> int \<Rightarrow> int \<Rightarrow> 'b option"

record ('e, 'b, 's, 'f, 'c, 'r) video_encoder =
  enc_init_encode :: "video_codec \<Rightarrow> 's \<Rightarrow> 'e \<Rightarrow> video_codec_status \<times> 'e"
  enc_encode :: "'b video_frame \<Rightarrow> 'f \<Rightarrow> 'e \<Rightarrow> video_codec_status \<times> 'e"
  enc_register_callback :: "'c option \<Rightarrow> 'e \<Rightarrow> video_codec_status \<times> 'e"
  enc_release :: "'e \<Rightarrow> video_codec_status \<times> 'e"
  enc_set_rates :: "'r \<Rightarrow> 'e \<Rightarrow> 'e"
  enc_implementation_name :: "'e \<Rightarrow> string option"

record 'e alignment_adapter =
  ad_encoder :: 'e
  ad_codec_type :: video_codec_type
  ad_horizontal_alignment :: int
  ad_vertical_alignment :: int
  ad_target_size :: "(int \<times> int) option"

definition adapter_new :: "'e \<Rightarrow> video_codec_type \<Rightarrow> int \<Rightarrow> int \<Rightarrow> 'e alignment_adapter" where
  "adapter_new encoder codec_type ha va =
     \<lparr>ad_encoder = encoder, ad_codec_type = codec_type, ad_horizontal_alignment = ha,
      ad_vertical_alignment = va, ad_target_size = None\<rparr>"

definition build_aligned_frame ::
    "'b buffer_ops \<Rightarrow> 'b video_frame \<Rightarrow> int \<Rightarrow> int \<Rightarrow> 'b video_frame option" where
  "build_aligned_frame B frame target_width target_height =
     (let frame_width = buffer_width B (vf_buffer frame);
          frame_height = buffer_height B (vf_buffer frame)
      in if frame_width \<le> 0 \<or> frame_height \<le> 0 then None
         else if frame_width = target_width \<and> frame_height = target_height then Some frame
         else if frame_width < target_width \<or> frame_height < target_height then None
         else (let offset_x = ((frame_width - target_width) div 2) AND NOT 1;
                   offset_y = ((frame_height - target_height) div 2) AND NOT 1
               in map_option (\<lambda>aligned_buffer. frame\<lparr>vf_buffer := aligned_buffer\<rparr>)
                    (crop_and_scale B (vf_buffer frame) offset_x offset_y
                       target_width target_height target_width target_height)))"

definition adapter_init_encode ::
    "('e, 'b, 's, 'f, 'c, 'r) video_encoder \<Rightarrow> video_codec \<Rightarrow> 's \<Rightarrow> 'e alignment_adapter \<Rightarrow>
     video_codec_status \<times> 'e alignment_adapter" where
  "adapter_init_encode E codec settings a =
     (let (codec_settings, target) =
            apply_alignment_to_codec codec (ad_codec_type a)
              (ad_horizontal_alignment a) (ad_vertical_alignment a);
          a' = a\<lparr>ad_target_size := target\<rparr>
      in if target = None then (StatusError, a')
         else (let (status, encoder') = enc_init_encode E codec_settings settings (ad_encoder a')
               in (status, a'\<lparr>ad_encoder := encoder'\<rparr>)))"

definition adapter_encode ::
    "('e, 'b, 's, 'f, 'c, 'r) video_encoder \<Rightarrow> 'b buffer_ops \<Rightarrow> 'b video_frame \<Rightarrow> 'f \<Rightarrow>
     'e alignment_adapter \<Rightarrow> video_codec_status \<times> 'e alignment_adapter" where
  "adapter_encode E B frame frame_types a =
     (case ad_target_size a of
        None \<Rightarrow> (StatusError, a)
      | Some (target_width, target_height) \<Rightarrow>
          (case build_aligned_frame B frame target_width target_height of
             None \<Rightarrow> (StatusError, a)
           | Some aligned_frame \<Rightarrow>
               (let (status, encoder') = enc_encode E aligned_frame frame_types (ad_encoder a)
                in (status, a\<lparr>ad_encoder := encoder'\<rparr>))))"

definition adapter_register_callback ::
    "('e, 'b, 's, 'f, 'c, 'r) video_encoder \<Rightarrow> 'c option \<Rightarrow> 'e alignment_adapter \<Rightarrow>
     video_codec_status \<times> 'e alignment_adapter" where
  "adapter_register_callback E callback a =
     (let (status, encoder') = enc_register_callback E callback (ad_encoder a)
      in (status, a\<lparr>ad_encoder := encoder'\<rparr>))"

definition adapter_release ::
    "('e, 'b, 's, 'f, 'c, 'r) video_encoder \<Rightarrow> 'e alignment_adapter \<Rightarrow>
     video_codec_status \<times> 'e alignment_adapter" where
  "adapter_release E a =
     (let (status, encoder') = enc_release E (ad_encoder a)
      in (status, a\<lparr>ad_encoder := encoder'\<rparr>))"

definition adapter_set_rates ::
    "('e, 'b, 's, 'f, 'c, 'r) video_encoder \<Rightarrow> 'r \<Rightarrow> 'e alignment_adapter \<Rightarrow> 'e alignment_adapter" where
  "adapter_set_rates E parameters a = a\<lparr>ad_encoder := enc_set_rates E parameters (ad_encoder a)\<rparr>"

fun contains_text :: "string \<Rightarrow> string \<Rightarrow> bool" where
  "contains_text [] pattern = (pattern = [])"
| "contains_text (c # cs) pattern =
     (take (length pattern) (c # cs) = pattern \<or> contains_text cs pattern)"

definition adapter_implementation_name ::
    "('e, 'b, 's, 'f, 'c, 'r) video_encoder \<Rightarrow> 'e alignment_adapter \<Rightarrow> string option" where
  "adapter_implementation_name E a =
     (let info = enc_implementation_name E (ad_encoder a);
          implementation_name = (case info of None \<Rightarrow> [] | Some name \<Rightarrow> name)
      in if contains_text implementation_name ''AlignmentEncoderAdapter'' then info
         else if implementation_name = [] then Some ''AlignmentEncoderAdapter''
         else Some (implementation_name @ '' AlignmentEncoderAdapter''))"

subsection \<open>Helpers of the codec backends\<close>

definition requested_frame_type :: "'f list option \<Rightarrow> 'f option" where
  "requested_frame_type frame_types =
     do { types \<leftarrow> frame_types; case types of [] \<Rightarrow> None | t # _ \<Rightarrow> Some t }"

definition supported_formats_for_codec :: "video_codec_type \<Rightarrow> sdp_format list" where
  "supported_formats_for_codec codec_type =
     (case codec_type of
        H264 \<Rightarrow> [sdp_set ''packetization-mode'' ''1''
          (sdp_set ''level-asymmetry-allowed'' ''1''
            ((sdp_new ''H264'')\<lparr>sdp_scalability_modes := [''L1T1'']\<rparr>))]
      | H265 \<Rightarrow> [sdp_new ''H265'']
      | Vp9 \<Rightarrow> [sdp_set ''profile-id'' ''0'' (sdp_new ''VP9'')]
      | Av1 \<Rightarrow> [sdp_new ''AV1'']
      | Vp8 \<Rightarrow> [sdp_new ''VP8'']
      | _ \<Rightarrow> [])"

definition target_kbps_from_bps :: "u32 \<Rightarrow> u32" where
  "target_kbps_from_bps target_bitrate_bps =
     (let bps = (ucast (max target_bitrate_bps 1) :: u64);
          quotient = bps div 1000
      in ucast (if bps mod 1000 > 0 then quotient + 1 else quotient))"

unbundle bit_operations_syntax

subsection \<open>Properties of the factories\<close>

lemma find_codec_validated:
  assumes "validate_video_codec_preference w prefs caps = Inr ()" and "c \<in> set prefs"
  obtains cap where "find_codec prefs (pc_direction c) (pc_codec_type c) = Some c"
    "find_capability caps (pc_implementation c) = Some cap"
    "is_supported cap (pc_direction c) (pc_codec_type c)"
proof -
  from assms(1) have d: "distinct (map codec_key prefs)"
    and e: "\<forall>c \<in> set prefs. \<exists>cap. find_capability caps (pc_implementation c) = Some cap \<and>
        is_supported cap (pc_direction c) (pc_codec_type c)"
    by (simp_all add: validate_preference_Inr)
  from video_pref.find_in_distinct [OF d assms(2)]
  have "find_codec prefs (pc_direction c) (pc_codec_type c) = Some c" by (simp add: codec_key_def)
  with e assms(2) that show thesis by blast
qed

text \<open>
  Property C34. Creating an encoder under a validated preference: for a format of a codec type
  that an encoder entry of the preference names, the factory asks exactly the capability the
  entry names, which supports the type, and hands its constructor the format this capability
  resolved; for a type without an encoder entry, or a format without a known type, it creates
  nothing.
\<close>

theorem encoder_factory_create_spec:
  assumes "validate_video_codec_preference w prefs caps = Inr ()"
  shows "(\<forall>c \<in> set prefs. pc_direction c = Encoder \<and>
       codec_type_from_format w f = Some (pc_codec_type c) \<longrightarrow>
       (\<exists>cap \<in> set caps. vi_name (get_implementation cap) = vi_name (pc_implementation c) \<and>
          is_supported cap Encoder (pc_codec_type c) \<and>
          encoder_factory_create w prefs caps f =
            Option.bind (resolve_sdp_format cap Encoder f) (create_video_encoder cap))) \<and>
    ((\<forall>c \<in> set prefs. pc_direction c = Encoder \<longrightarrow>
       codec_type_from_format w f \<noteq> Some (pc_codec_type c)) \<longrightarrow>
     encoder_factory_create w prefs caps f = None)"
proof (intro conjI ballI impI)
  fix c
  assume c: "c \<in> set prefs" "pc_direction c = Encoder \<and>
    codec_type_from_format w f = Some (pc_codec_type c)"
  from find_codec_validated [OF assms c(1)] obtain cap where cap:
    "find_codec prefs Encoder (pc_codec_type c) = Some c"
    "find_capability caps (pc_implementation c) = Some cap"
    "is_supported cap Encoder (pc_codec_type c)" using c(2) by metis
  from c(2) obtain n where n: "sdp_name f = Some n" "codec_try_from w n = Some (pc_codec_type c)"
    by (auto simp: codec_type_from_format_def bind_eq_Some_conv)
  have "encoder_factory_create w prefs caps f =
      Option.bind (resolve_sdp_format cap Encoder f) (create_video_encoder cap)"
    by (simp add: encoder_factory_create_def n cap)
  with cap find_capability_Some [OF cap(2)] show "\<exists>cap \<in> set caps.
      vi_name (get_implementation cap) = vi_name (pc_implementation c) \<and>
      is_supported cap Encoder (pc_codec_type c) \<and>
      encoder_factory_create w prefs caps f =
        Option.bind (resolve_sdp_format cap Encoder f) (create_video_encoder cap)" by blast
next
  assume none: "\<forall>c \<in> set prefs. pc_direction c = Encoder \<longrightarrow>
    codec_type_from_format w f \<noteq> Some (pc_codec_type c)"
  show "encoder_factory_create w prefs caps f = None"
  proof (cases "codec_type_from_format w f")
    case None
    then show ?thesis
      by (auto simp: encoder_factory_create_def codec_type_from_format_def bind_eq_None_conv)
  next
    case (Some t)
    then obtain n where n: "sdp_name f = Some n" "codec_try_from w n = Some t"
      by (auto simp: codec_type_from_format_def bind_eq_Some_conv)
    have "find_codec prefs Encoder t = None"
      using none Some by (auto simp: find_codec_def find_None_iff entry_is_def)
    with n show ?thesis by (simp add: encoder_factory_create_def)
  qed
qed

subsection \<open>The advertised formats\<close>

definition pairwise_different :: "webrtc \<Rightarrow> sdp_format list \<Rightarrow> bool" where
  "pairwise_different w fs \<longleftrightarrow> sorted_wrt (\<lambda>f g. \<not> sdp_is_equal w f g) fs"

definition covers :: "webrtc \<Rightarrow> sdp_format list \<Rightarrow> sdp_format \<Rightarrow> bool" where
  "covers w fs f \<longleftrightarrow> f \<in> set fs \<or> list_ex (\<lambda>g. sdp_is_equal w g f) fs"

lemma push_format_cases:
  "push_format w t fs f = fs \<or>
   push_format w t fs f = fs @ [f] \<and> codec_type_from_format w f = Some t \<and>
     \<not> list_ex (\<lambda>g. sdp_is_equal w g f) fs"
  by (simp add: push_format_def codec_type_from_format_def)

lemma push_format_different: "pairwise_different w fs \<Longrightarrow> pairwise_different w (push_format w t fs f)"
  using push_format_cases [of w t fs f]
  by (auto simp: pairwise_different_def sorted_wrt_append list_ex_iff)

lemma push_format_mono: "set fs \<subseteq> set (push_format w t fs f)"
  using push_format_cases [of w t fs f] by auto

lemma push_format_set:
  "g \<in> set (push_format w t fs f) \<Longrightarrow> g \<in> set fs \<or> g = f \<and> codec_type_from_format w f = Some t"
  using push_format_cases [of w t fs f] by auto

lemma push_format_covers:
  "codec_type_from_format w f = Some t \<Longrightarrow> covers w (push_format w t fs f) f"
  by (auto simp: push_format_def codec_type_from_format_def covers_def)

lemma covers_mono: "covers w fs f \<Longrightarrow> set fs \<subseteq> set gs \<Longrightarrow> covers w gs f"
  by (auto simp: covers_def list_ex_iff)

lemma push_formats_different:
  "pairwise_different w fs \<Longrightarrow> pairwise_different w (foldl (push_format w t) fs gs)"
  by (induction gs arbitrary: fs) (simp_all add: push_format_different)

lemma push_formats_mono: "set fs \<subseteq> set (foldl (push_format w t) fs gs)"
proof (induction gs arbitrary: fs)
  case (Cons g gs)
  show ?case unfolding foldl_Cons by (rule subset_trans [OF push_format_mono Cons.IH])
qed simp

lemma push_formats_set:
  "h \<in> set (foldl (push_format w t) fs gs) \<Longrightarrow>
     h \<in> set fs \<or> h \<in> set gs \<and> codec_type_from_format w h = Some t"
proof (induction gs arbitrary: fs)
  case (Cons g gs)
  then show ?case using push_format_set [of h w t fs g] by auto
qed simp

lemma push_formats_covers:
  "g \<in> set gs \<Longrightarrow> codec_type_from_format w g = Some t \<Longrightarrow> covers w (foldl (push_format w t) fs gs) g"
proof (induction gs arbitrary: fs)
  case (Cons h gs)
  show ?case
  proof (cases "h = g")
    case True
    with Cons.prems show ?thesis
      using push_format_covers push_formats_mono covers_mono by (metis foldl_Cons)
  next
    case False
    with Cons show ?thesis by simp
  qed
qed simp

definition offered :: "webrtc \<Rightarrow> ('e, 'd) video_capability list \<Rightarrow> codec_direction \<Rightarrow>
    preference_codec \<Rightarrow> sdp_format \<Rightarrow> bool" where
  "offered w caps direction c f \<longleftrightarrow> pc_direction c = direction \<and>
     codec_type_from_format w f = Some (pc_codec_type c) \<and>
     (\<exists>cap. find_capability caps (pc_implementation c) = Some cap \<and>
        f \<in> set (get_supported_formats cap direction))"

lemma push_codec_formats_props:
  "pairwise_different w fs \<Longrightarrow> pairwise_different w (push_codec_formats w caps d fs c)"
  "set fs \<subseteq> set (push_codec_formats w caps d fs c)"
  "f \<in> set (push_codec_formats w caps d fs c) \<Longrightarrow> f \<in> set fs \<or> offered w caps d c f"
  "offered w caps d c f \<Longrightarrow> covers w (push_codec_formats w caps d fs c) f"
  unfolding push_codec_formats_def offered_def
  using push_formats_different push_formats_mono push_formats_set push_formats_covers
  by (auto split: option.splits if_splits) metis+

text \<open>
  Fact. The advertised formats of a direction: each comes from the capability of an entry
  of that direction and has the entry's codec type; no format equals an earlier one; and every
  such format of every such entry is in the list itself or equal to one that is.
\<close>

theorem collect_supported_formats_spec:
  "pairwise_different w (collect_supported_formats w prefs caps d) \<and>
   set (collect_supported_formats w prefs caps d) \<subseteq> {f. \<exists>c \<in> set prefs. offered w caps d c f} \<and>
   {f. \<exists>c \<in> set prefs. offered w caps d c f} \<subseteq> {f. covers w (collect_supported_formats w prefs caps d) f}"
proof -
  define P where "P fs cs \<longleftrightarrow> pairwise_different w fs \<and>
      set fs \<subseteq> {f. \<exists>c \<in> set cs. offered w caps d c f} \<and>
      {f. \<exists>c \<in> set cs. offered w caps d c f} \<subseteq> {f. covers w fs f}" for fs cs
  have "P (foldl (push_codec_formats w caps d) [] prefs) prefs"
  proof (induction prefs rule: rev_induct)
    case Nil
    show ?case by (simp add: P_def pairwise_different_def)
  next
    case (snoc c cs)
    let ?fs = "foldl (push_codec_formats w caps d) [] cs"
    have "pairwise_different w (push_codec_formats w caps d ?fs c)"
      using snoc by (simp add: P_def push_codec_formats_props(1))
    moreover have "set (push_codec_formats w caps d ?fs c) \<subseteq> {f. \<exists>c \<in> set (cs @ [c]). offered w caps d c f}"
      using snoc push_codec_formats_props(3) [of _ w caps d ?fs c] by (fastforce simp: P_def)
    moreover have "covers w (push_codec_formats w caps d ?fs c) f"
      if "c' \<in> set (cs @ [c])" "offered w caps d c' f" for c' f
    proof (cases "c' = c")
      case True
      with that show ?thesis by (simp add: push_codec_formats_props(4))
    next
      case False
      with that snoc have "covers w ?fs f" by (auto simp: P_def)
      then show ?thesis by (rule covers_mono) (rule push_codec_formats_props(2))
    qed
    ultimately show ?case by (auto simp: P_def)
  qed
  then show ?thesis by (simp add: P_def collect_supported_formats_def)
qed


subsection \<open>Properties of the alignment\<close>

lemma align_down_Some:
  "align_down v a = Some r \<Longrightarrow> 0 < a \<and> 0 < r \<and> r \<le> v \<and> v < r + a \<and> r mod a = 0"
proof -
  assume r: "align_down v a = Some r"
  then have pos: "0 < a" "0 < v" by (auto simp: align_down_def split: if_splits)
  show ?thesis
  proof (cases "a = 1")
    case True
    with r pos show ?thesis by (simp add: align_down_def)
  next
    case False
    with r pos have "r = v - v mod a" "0 < r" by (auto simp: align_down_def Let_def split: if_splits)
    moreover have "(v - v mod a) mod a = 0" by (simp add: minus_mod_eq_mult_div)
    ultimately show ?thesis using pos pos_mod_bound [of a v] pos_mod_sign [of a v] by simp
  qed
qed

text \<open>
  Fact. \<^verbatim>\<open>align_down\<close> returns the greatest positive multiple of the alignment that does
  not exceed the value, and returns nothing exactly when there is none.
\<close>

theorem align_down_spec:
  "(align_down v a = Some r) = (0 < a \<and> 0 < r \<and> r \<le> v \<and> v < r + a \<and> r mod a = 0)"
proof
  assume r: "0 < a \<and> 0 < r \<and> r \<le> v \<and> v < r + a \<and> r mod a = 0"
  then obtain k where "r = a * k" by (auto elim: dvdE simp: mod_eq_0_iff_dvd)
  then have "v mod a = (v - r) mod a" using mod_mult_self2 [of "v - r" a k] by simp
  with r have "v mod a = v - r" by (simp add: mod_pos_pos_trivial)
  with r show "align_down v a = Some r" by (auto simp: align_down_def Let_def)
qed (rule align_down_Some)

definition aligned_size :: "int \<Rightarrow> int \<Rightarrow> int \<times> int \<Rightarrow> bool" where
  "aligned_size ha va = (\<lambda>(width, height). 0 < width \<and> width mod ha = 0 \<and> 0 < height \<and> height mod va = 0)"

lemma align_streams_aligned:
  "align_streams codec ha va is = Some als \<Longrightarrow>
     list_all (\<lambda>(i, size). aligned_size ha va size) als \<and>
     (\<forall>i \<in> set is. simulcast_stream codec i \<noteq> None \<longrightarrow> i \<in> fst ` set als)"
proof (induction "is" arbitrary: als)
  case (Cons i "is")
  show ?case
  proof (cases "simulcast_stream codec i")
    case None
    with Cons show ?thesis by auto
  next
    case (Some s)
    obtain sw sh where s: "s = (sw, sh)" by (cases s)
    from Cons.prems Some s obtain aw ah rest where a: "align_down sw ha = Some aw"
      "align_down sh va = Some ah" "align_streams codec ha va is = Some rest"
      "als = (i, aw, ah) # rest" by (auto simp: bind_eq_Some_conv)
    with Cons.IH [OF a(3)] align_down_Some [OF a(1)] align_down_Some [OF a(2)] show ?thesis
      by (auto simp: aligned_size_def)
  qed
qed simp

lemma set_streams_nth:
  "list_all (\<lambda>(i, size). Q size) als \<Longrightarrow> i < length streams \<Longrightarrow>
     i \<in> fst ` set als \<or> Q (streams ! i) \<Longrightarrow> Q (set_streams als streams ! i)"
  unfolding set_streams_def
proof (induction als arbitrary: streams)
  case (Cons al als)
  obtain j width height where al: "al = (j, width, height)" by (cases al)
  have "Q (fold set_stream als (set_stream al streams) ! i)"
  proof (rule Cons.IH)
    show "i \<in> fst ` set als \<or> Q (set_stream al streams ! i)"
      using Cons.prems al by (auto simp: set_stream_def nth_list_update)
  qed (use Cons.prems al in \<open>auto simp: set_stream_def\<close>)
  then show ?case by simp
qed simp

lemma apply_alignment_Some:
  assumes "apply_alignment_to_codec codec t ha va = (codec', Some (w, h))"
  shows "vc_codec_type codec = t \<and> vc_width codec' = w \<and> vc_height codec' = h \<and>
    align_down (vc_width codec) ha = Some w \<and> align_down (vc_height codec) va = Some h \<and>
    (\<forall>i < length (vc_simulcast_streams codec'). i < vc_number_of_simulcast_streams codec \<longrightarrow>
       aligned_size ha va (vc_simulcast_streams codec' ! i))"
proof -
  from assms obtain als where a: "vc_codec_type codec = t"
    "align_down (vc_width codec) ha = Some w" "align_down (vc_height codec) va = Some h"
    "align_streams codec ha va [0..<vc_number_of_simulcast_streams codec] = Some als"
    "codec' = codec\<lparr>vc_width := w, vc_height := h,
       vc_simulcast_streams := set_streams als (vc_simulcast_streams codec)\<rparr>"
    by (auto simp: apply_alignment_to_codec_def bind_eq_Some_conv split: if_splits option.splits)
  have len: "length (set_streams als ss) = length ss" for ss :: "(int \<times> int) list"
    unfolding set_streams_def by (induction als arbitrary: ss) (auto simp: set_stream_def)
  have "aligned_size ha va (vc_simulcast_streams codec' ! i)"
    if "i < length (vc_simulcast_streams codec')" "i < vc_number_of_simulcast_streams codec" for i
  proof -
    from that a(5) len have i: "i < length (vc_simulcast_streams codec)" by simp
    with that align_streams_aligned [OF a(4)] have "i \<in> fst ` set als"
      by (auto simp: simulcast_stream_def)
    with align_streams_aligned [OF a(4)] i
    have "aligned_size ha va (set_streams als (vc_simulcast_streams codec) ! i)"
      by (intro set_streams_nth [where Q = "aligned_size ha va"]) auto
    with a(5) show ?thesis by simp
  qed
  with a show ?thesis by auto
qed

subsection \<open>The adapter only passes aligned sizes on\<close>

definition adapter_inv :: "'e alignment_adapter \<Rightarrow> bool" where
  "adapter_inv a \<longleftrightarrow> (\<forall>size. ad_target_size a = Some size \<longrightarrow>
     aligned_size (ad_horizontal_alignment a) (ad_vertical_alignment a) size)"

text \<open>The calls WebRTC makes, in any order.\<close>

inductive adapter_step ::
    "('e, 'b, 's, 'f, 'c, 'r) video_encoder \<Rightarrow> 'b buffer_ops \<Rightarrow> 'e alignment_adapter \<Rightarrow>
     'e alignment_adapter \<Rightarrow> bool" for E B where
  "adapter_step E B a (snd (adapter_init_encode E codec settings a))"
| "adapter_step E B a (snd (adapter_encode E B frame frame_types a))"
| "adapter_step E B a (snd (adapter_register_callback E callback a))"
| "adapter_step E B a (snd (adapter_release E a))"
| "adapter_step E B a (adapter_set_rates E parameters a)"

lemma adapter_init_inv: "adapter_inv (snd (adapter_init_encode E codec settings a))"
proof -
  obtain codec' target where t: "apply_alignment_to_codec codec (ad_codec_type a)
      (ad_horizontal_alignment a) (ad_vertical_alignment a) = (codec', target)" by fastforce
  show ?thesis
  proof (cases target)
    case None
    with t show ?thesis by (simp add: adapter_init_encode_def adapter_inv_def)
  next
    case (Some size)
    obtain w h where s: "size = (w, h)" by (cases size)
    note al = apply_alignment_Some [OF t [unfolded Some s]]
    then have "aligned_size (ad_horizontal_alignment a) (ad_vertical_alignment a) (w, h)"
      using align_down_Some by (auto simp: aligned_size_def)
    with t Some s show ?thesis
      by (simp add: adapter_init_encode_def adapter_inv_def split: prod.split)
  qed
qed

lemma adapter_other_inv:
  assumes "adapter_inv a"
  shows "adapter_inv (snd (adapter_encode E B frame frame_types a))"
    and "adapter_inv (snd (adapter_register_callback E callback a))"
    and "adapter_inv (snd (adapter_release E a))"
    and "adapter_inv (adapter_set_rates E parameters a)"
  using assms
  by (simp_all add: adapter_inv_def adapter_encode_def adapter_register_callback_def
      adapter_release_def adapter_set_rates_def split: option.split prod.split)

lemma adapter_reachable_inv:
  assumes "(adapter_step E B)\<^sup>*\<^sup>* (adapter_new e t ha va) a" shows "adapter_inv a"
  using assms
proof (induction rule: rtranclp_induct)
  case base
  show ?case by (simp add: adapter_new_def adapter_inv_def)
next
  case (step a1 a2)
  from step.hyps(2) step.IH show ?case
    by (cases rule: adapter_step.cases) (simp_all add: adapter_init_inv adapter_other_inv)
qed

definition crop_sizes :: "'b buffer_ops \<Rightarrow> bool" where
  "crop_sizes B \<longleftrightarrow> (\<forall>b x y cw ch w h b'. crop_and_scale B b x y cw ch w h = Some b' \<longrightarrow>
     buffer_width B b' = w \<and> buffer_height B b' = h)"

lemma build_aligned_frame_Some:
  assumes "crop_sizes B" and "build_aligned_frame B f w h = Some f'"
  shows "buffer_width B (vf_buffer f') = w \<and> buffer_height B (vf_buffer f') = h \<and>
    vf_rtp_timestamp f' = vf_rtp_timestamp f"
  using assms by (auto simp: build_aligned_frame_def crop_sizes_def Let_def split: if_splits)

text \<open>
  Property C39. The alignment adapter, after any sequence of calls: an \<^verbatim>\<open>encode\<close> either fails
  without touching the downstream encoder, or calls it once, with a frame of the target size,
  which is positive and a multiple of the alignments, and with the time stamp of the input. The
  hypothesis on the crate is that cropping yields the requested size.
\<close>

theorem adapter_encodes_aligned:
  assumes "crop_sizes B" and "(adapter_step E B)\<^sup>*\<^sup>* (adapter_new e t ha va) a"
  shows "adapter_encode E B f ft a = (StatusError, a) \<or>
    (\<exists>f' w h. ad_target_size a = Some (w, h) \<and>
       aligned_size (ad_horizontal_alignment a) (ad_vertical_alignment a) (w, h) \<and>
       buffer_width B (vf_buffer f') = w \<and> buffer_height B (vf_buffer f') = h \<and>
       vf_rtp_timestamp f' = vf_rtp_timestamp f \<and>
       adapter_encode E B f ft a =
         (fst (enc_encode E f' ft (ad_encoder a)),
          a\<lparr>ad_encoder := snd (enc_encode E f' ft (ad_encoder a))\<rparr>))"
proof (cases "ad_target_size a")
  case None
  then show ?thesis by (simp add: adapter_encode_def)
next
  case (Some size)
  obtain w h where s: "size = (w, h)" by (cases size)
  show ?thesis
  proof (cases "build_aligned_frame B f w h")
    case None
    with Some s show ?thesis by (simp add: adapter_encode_def)
  next
    case (Some f')
    have "aligned_size (ad_horizontal_alignment a) (ad_vertical_alignment a) (w, h)"
      using adapter_reachable_inv [OF assms(2)] \<open>ad_target_size a = Some size\<close> s
      by (simp add: adapter_inv_def)
    with Some s \<open>ad_target_size a = Some size\<close> build_aligned_frame_Some [OF assms(1) Some]
    show ?thesis by (auto simp: adapter_encode_def split: prod.split)
  qed
qed

lemma div_round_up:
  "(if n mod 1000 > 0 then n div 1000 + 1 else n div 1000) = (n + 999) div (1000::nat)"
proof -
  define d where "d = n div 1000"
  define r where "r = n mod 1000"
  have n: "n + 999 = d * 1000 + (r + 999)"
    unfolding d_def r_def using div_mult_mod_eq [of n 1000] by linarith
  have r: "r < 1000" by (simp add: r_def)
  have "(n + 999) div 1000 = d + (r + 999) div 1000" unfolding n by (rule div_mult_self3) simp
  moreover have "(r + 999) div 1000 = (if r > 0 then 1 else 0)"
    using r by (cases "r = 0") (simp_all add: div_nat_eqI)
  ultimately show ?thesis by (simp add: d_def [symmetric] r_def [symmetric])
qed

text \<open>
  Fact. The bit rate in kbps is the bit rate in bps divided by 1000 and rounded up, at
  least 1, and it is never truncated.
\<close>

theorem target_kbps_from_bps_spec:
  "unat (target_kbps_from_bps b) = (max (unat b) 1 + 999) div 1000"
proof -
  let ?m = "max b 1"
  have m: "unat ?m = max (unat b) 1" by (simp add: max_def word_le_nat_alt)
  define x where "x = (ucast ?m :: u64)"
  have x: "unat x = unat ?m" by (simp add: x_def)
  have small: "unat x < 4294967296" using u32_bound [of ?m] x by simp
  define q where "q = (if x mod 1000 > 0 then x div 1000 + 1 else x div 1000)"
  have dm: "unat (x div 1000) = unat x div 1000" "unat (x mod 1000) = unat x mod 1000"
    by (simp_all add: unat_div_distrib unat_mod_distrib)
  have "unat (x div 1000) + 1 < 2 ^ 64" using small dm by simp
  then have succ: "unat (x div 1000 + 1) = unat x div 1000 + 1"
    using dm by (simp add: unat_word_ariths)
  have "(x mod 1000 > 0) = (unat x mod 1000 > 0)"
    using dm(2) by (simp only: word_less_nat_alt unat_0)
  then have "unat q = (if unat x mod 1000 > 0 then unat x div 1000 + 1 else unat x div 1000)"
    unfolding q_def by (simp only: succ dm(1) if_distrib [of unat])
  also have "\<dots> = (unat x + 999) div 1000" by (rule div_round_up)
  finally have q: "unat q = (unat x + 999) div 1000" .
  with small have "unat (ucast q :: u32) = unat q" by (intro unat_ucast_u64_u32) simp
  moreover have "target_kbps_from_bps b = ucast q"
    unfolding target_kbps_from_bps_def Let_def q_def x_def by (rule refl)
  ultimately show ?thesis by (simp only: q x m)
qed

subsection \<open>Witnesses\<close>

theorem encoder_factory_create_spec_witness:
  "encoder_factory_create example_webrtc [example_preference_codec] [example_capability]
     (sdp_new ''VP8'') = Some () \<and>
   encoder_factory_create example_webrtc [example_preference_codec] [example_capability]
     (sdp_new ''VP9'') = None"
proof -
  have valid: "validate_video_codec_preference example_webrtc [example_preference_codec]
      [example_capability] = Inr ()"
    by (simp add: validate_preference_Inr example_preference_codec_def example_capability_def
        find_capability_def VIDEO_CODEC_TYPES_def)
  from encoder_factory_create_spec [OF valid, of "sdp_new ''VP8''"]
    encoder_factory_create_spec [OF valid, of "sdp_new ''VP9''"]
  show ?thesis
    by (simp add: codec_type_from_format_def example_preference_codec_def example_capability_def)
qed

definition example_buffer_ops :: "(int \<times> int) buffer_ops" where
  "example_buffer_ops =
     \<lparr>buffer_width = fst, buffer_height = snd,
      crop_and_scale = (\<lambda>b x y cw ch w h. Some (w, h))\<rparr>"

definition example_encoder :: "((int \<times> int) list, int \<times> int, unit, unit, unit, unit) video_encoder" where
  "example_encoder =
     \<lparr>enc_init_encode = (\<lambda>_ _ e. (StatusOk, e)),
      enc_encode = (\<lambda>f _ e. (StatusOk, e @ [vf_buffer f])),
      enc_register_callback = (\<lambda>_ e. (StatusOk, e)), enc_release = (\<lambda>e. (StatusOk, e)),
      enc_set_rates = (\<lambda>_ e. e), enc_implementation_name = (\<lambda>_. None)\<rparr>"

definition example_adapter :: "(int \<times> int) list alignment_adapter" where
  "example_adapter = snd (adapter_init_encode example_encoder
     \<lparr>vc_codec_type = H264, vc_width = 1920, vc_height = 1080,
      vc_number_of_simulcast_streams = 0, vc_simulcast_streams = []\<rparr> ()
     (adapter_new [] H264 16 16))"

theorem adapter_encodes_aligned_witness:
  "ad_encoder (snd (adapter_encode example_encoder example_buffer_ops
     \<lparr>vf_buffer = (1920, 1080), vf_rtp_timestamp = 7\<rparr> () example_adapter)) = [(1920, 1072)] \<and>
   (adapter_encode example_encoder example_buffer_ops
      \<lparr>vf_buffer = (1920, 1080), vf_rtp_timestamp = 7\<rparr> () example_adapter = (StatusError, example_adapter) \<or>
    (\<exists>size. ad_target_size example_adapter = Some size))"
proof
  show "ad_encoder (snd (adapter_encode example_encoder example_buffer_ops
     \<lparr>vf_buffer = (1920, 1080), vf_rtp_timestamp = 7\<rparr> () example_adapter)) = [(1920, 1072)]"
    by (simp add: adapter_encode_def example_adapter_def adapter_init_encode_def adapter_new_def
        apply_alignment_to_codec_def align_down_def build_aligned_frame_def example_buffer_ops_def
        example_encoder_def Let_def)
  have "crop_sizes example_buffer_ops" by (simp add: crop_sizes_def example_buffer_ops_def)
  moreover have "(adapter_step example_encoder example_buffer_ops)\<^sup>*\<^sup>* (adapter_new [] H264 16 16)
      example_adapter"
    unfolding example_adapter_def by (intro r_into_rtranclp adapter_step.intros)
  ultimately show "adapter_encode example_encoder example_buffer_ops
      \<lparr>vf_buffer = (1920, 1080), vf_rtp_timestamp = 7\<rparr> () example_adapter = (StatusError, example_adapter) \<or>
    (\<exists>size. ad_target_size example_adapter = Some size)"
    using adapter_encodes_aligned [of example_buffer_ops example_encoder "[]" H264 16 16
        example_adapter "\<lparr>vf_buffer = (1920, 1080), vf_rtp_timestamp = 7\<rparr>" "()"] by auto
qed

end
