(* ===== verification/Mp4_Encoder.thy ===== *)
theory Mp4_Encoder
  imports Mp4_Reader Video_Codec "HOL-Library.Sublist"
begin

text \<open>
  The sending side of \<^verbatim>\<open>src/video_codecs/mp4.rs\<close>: \<^verbatim>\<open>Mp4PassthroughEncoder\<close>,
  \<^verbatim>\<open>Mp4PassthroughVideoCodecCapability\<close> and the feeder thread of \<^verbatim>\<open>Mp4VideoCapturer\<close>.

  Each encoder method returns the status, the new state and, for \<^verbatim>\<open>encode\<close>, what it hands to
  the encoded image callback. The feeder thread is a step function: one iteration of its inner
  loop from the inputs it meets there (the stop flag, the frame adapter's verdict, the reader's
  reply for the index it asks for, the clock) to the frame it delivers and the next state, or the reason it ends.
\<close>

subsection \<open>The encoder\<close>

record 'cb mp4_passthrough_encoder =
  pe_callback :: "'cb option"
  pe_waiting_for_keyframe :: bool
  pe_last_playback_serial :: "u64 option"

definition passthrough_encoder_new :: "'cb mp4_passthrough_encoder" where
  "passthrough_encoder_new =
     \<lparr>pe_callback = None, pe_waiting_for_keyframe = True, pe_last_playback_serial = None\<rparr>"

definition enter_keyframe_wait :: "'cb mp4_passthrough_encoder \<Rightarrow> 'cb mp4_passthrough_encoder" where
  "enter_keyframe_wait e = e\<lparr>pe_waiting_for_keyframe := True, pe_last_playback_serial := None\<rparr>"

definition should_forward_sample ::
    "bool \<Rightarrow> u64 \<Rightarrow> 'cb mp4_passthrough_encoder \<Rightarrow> bool \<times> 'cb mp4_passthrough_encoder" where
  "should_forward_sample keyframe playback_serial e =
     (if pe_waiting_for_keyframe e then
        (if keyframe then
           (True, e\<lparr>pe_waiting_for_keyframe := False,
                    pe_last_playback_serial := Some playback_serial\<rparr>)
         else (False, e))
      else if Option.bind (pe_last_playback_serial e) (\<lambda>last. checked_add last 1)
                = Some playback_serial then
        (True, e\<lparr>pe_last_playback_serial := Some playback_serial\<rparr>)
      else if keyframe then
        (True, e\<lparr>pe_last_playback_serial := Some playback_serial\<rparr>)
      else (False, enter_keyframe_wait e))"

datatype video_frame_type = FrameEmpty | FrameKey | FrameDelta

record encoded_image =
  ei_encoded_data :: bytes
  ei_rtp_timestamp :: u32
  ei_encoded_width :: u32
  ei_encoded_height :: u32
  ei_frame_type :: video_frame_type

record codec_specific_info =
  csi_codec_type :: video_codec_type
  csi_h264_non_interleaved :: bool
  csi_h264_idr_frame :: "bool option"

definition passthrough_init_encode ::
    "'cb mp4_passthrough_encoder \<Rightarrow> video_codec_status \<times> 'cb mp4_passthrough_encoder" where
  "passthrough_init_encode e = (StatusOk, enter_keyframe_wait e)"

text \<open>
  \<^verbatim>\<open>encode\<close>: \<open>native_sample\<close> is the sample inside the frame buffer, \<open>None\<close> for a foreign
  buffer. The result of the callback does not influence the encoder.
\<close>

definition passthrough_encode ::
    "mp4_encoded_sample option \<Rightarrow> u32 \<Rightarrow> 'cb mp4_passthrough_encoder \<Rightarrow>
     video_codec_status \<times> 'cb mp4_passthrough_encoder \<times>
     ('cb \<times> encoded_image \<times> codec_specific_info) option" where
  "passthrough_encode native_sample rtp_timestamp e =
     (case pe_callback e of
        None \<Rightarrow> (StatusUninitialized, e, None)
      | Some callback \<Rightarrow>
        (case native_sample of
           None \<Rightarrow> (StatusError, e, None)
         | Some sample \<Rightarrow>
             (let (forward, e') =
                    should_forward_sample (es_is_keyframe sample) (es_playback_serial sample) e
              in if \<not> forward then (StatusOk, e', None)
                 else (StatusOk, e', Some (callback,
                   \<lparr>ei_encoded_data = es_data sample, ei_rtp_timestamp = rtp_timestamp,
                    ei_encoded_width = es_width sample, ei_encoded_height = es_height sample,
                    ei_frame_type = (if es_is_keyframe sample then FrameKey else FrameDelta)\<rparr>,
                   \<lparr>csi_codec_type = es_codec_type sample,
                    csi_h264_non_interleaved = (es_codec_type sample = H264),
                    csi_h264_idr_frame =
                      (if es_codec_type sample = H264 then Some (es_is_keyframe sample) else None)\<rparr>)))))"

definition passthrough_register_callback ::
    "'cb option \<Rightarrow> 'cb mp4_passthrough_encoder \<Rightarrow> video_codec_status \<times> 'cb mp4_passthrough_encoder" where
  "passthrough_register_callback callback e = (StatusOk, e\<lparr>pe_callback := callback\<rparr>)"

definition passthrough_release ::
    "'cb mp4_passthrough_encoder \<Rightarrow> video_codec_status \<times> 'cb mp4_passthrough_encoder" where
  "passthrough_release e = (StatusOk, e\<lparr>pe_callback := None\<rparr>)"

record encoder_info =
  info_implementation_name :: string
  info_is_hardware_accelerated :: bool
  info_has_trusted_rate_controller :: bool

definition passthrough_encoder_info :: encoder_info where
  "passthrough_encoder_info =
     \<lparr>info_implementation_name = ''MP4Passthrough'', info_is_hardware_accelerated = False,
      info_has_trusted_rate_controller = True\<rparr>"

subsection \<open>The capability\<close>

record mp4_passthrough_capability =
  mpc_codec_type :: video_codec_type
  mpc_required_format :: sdp_format

definition passthrough_capability ::
    "(profile_level_id \<Rightarrow> string) \<Rightarrow> mp4_sample_reader \<Rightarrow> sdp_panic + mp4_passthrough_capability" where
  "passthrough_capability to_hex r =
     bindE (required_sdp_format to_hex r) (\<lambda>format.
       Inr \<lparr>mpc_codec_type = ti_codec_type (r_track_info r), mpc_required_format = format\<rparr>)"

definition mp4_supported_formats ::
    "mp4_passthrough_capability \<Rightarrow> codec_direction \<Rightarrow> sdp_format list" where
  "mp4_supported_formats c direction =
     (if direction \<noteq> Encoder then [] else [mpc_required_format c])"

definition mp4_is_supported ::
    "mp4_passthrough_capability \<Rightarrow> codec_direction \<Rightarrow> video_codec_type \<Rightarrow> bool" where
  "mp4_is_supported c direction codec_type \<longleftrightarrow>
     direction = Encoder \<and> codec_type = mpc_codec_type c"

definition mp4_resolve_sdp_format ::
    "webrtc \<Rightarrow> (string \<Rightarrow> profile_level_id option) \<Rightarrow> mp4_passthrough_capability \<Rightarrow>
     codec_direction \<Rightarrow> sdp_format \<Rightarrow> h264_panic + sdp_format option" where
  "mp4_resolve_sdp_format w from_hex c direction format =
     (if mpc_codec_type c = H264 \<and> direction = Encoder then
        resolve_h264_incoming w from_hex (mpc_required_format c) format
      else if mpc_codec_type c = Av1 \<and> direction = Encoder then
        Inr (resolve_av1_incoming w (mpc_required_format c) format)
      else Inr (fuzzy_match w (mp4_supported_formats c direction) format))"

definition mp4_create_video_encoder ::
    "webrtc \<Rightarrow> mp4_passthrough_capability \<Rightarrow> sdp_format \<Rightarrow> 'cb mp4_passthrough_encoder option" where
  "mp4_create_video_encoder w c format =
     (case sdp_name format of
        None \<Rightarrow> None
      | Some format_name \<Rightarrow>
        (case codec_try_from w format_name of
           None \<Rightarrow> None
         | Some format_codec_type \<Rightarrow>
             if format_codec_type \<noteq> mpc_codec_type c then None
             else Some passthrough_encoder_new))"

text \<open>
  The capability as a value of the trait. A panic of \<^verbatim>\<open>resolve_sdp_format\<close> has no value there;
  for the capability of an opened reader there is none
  (\<open>passthrough_capability_negotiates\<close>).
\<close>

definition mp4_video_capability ::
    "webrtc \<Rightarrow> (string \<Rightarrow> profile_level_id option) \<Rightarrow> mp4_passthrough_capability \<Rightarrow>
     ('cb mp4_passthrough_encoder, 'd) video_capability" where
  "mp4_video_capability w from_hex c =
     \<lparr>get_implementation = \<lparr>vi_name = ''mp4-passthrough'', vi_description = ''MP4 Passthrough''\<rparr>,
      get_supported_formats = mp4_supported_formats c,
      is_supported = mp4_is_supported c,
      resolve_sdp_format = (\<lambda>direction format.
        case mp4_resolve_sdp_format w from_hex c direction format of Inl _ \<Rightarrow> None | Inr r \<Rightarrow> r),
      create_video_encoder = mp4_create_video_encoder w c,
      create_video_decoder = (\<lambda>_. None)\<rparr>"

subsection \<open>The capturer\<close>

text \<open>
  \<^verbatim>\<open>wait_until_or_stop\<close> over the successive readings of the stop flag and the clock (in
  nanoseconds): the result with the lengths of the sleeps, \<open>None\<close> while the readings given end
  before the loop does.
\<close>

definition MAX_SLEEP_DURATION :: nat where
  "MAX_SLEEP_DURATION = 100000000"

fun wait_until_or_stop :: "(bool \<times> nat) list \<Rightarrow> nat \<Rightarrow> (bool \<times> nat list) option" where
  "wait_until_or_stop [] deadline = None"
| "wait_until_or_stop ((stop, now) # readings) deadline =
     (if stop then Some (True, [])
      else (let remaining = deadline - now
            in if remaining = 0 then Some (False, [])
               else map_option (\<lambda>(result, sleeps).
                      (result, min remaining MAX_SLEEP_DURATION # sleeps))
                      (wait_until_or_stop readings deadline)))"

record feeder_state =
  fs_next_playback_serial :: u64
  fs_index :: nat

record 'x feeder_input =
  in_stop :: bool
  in_applied :: bool
  in_sample :: "nat \<Rightarrow> 'x mp4_error + mp4_encoded_sample option"
  in_deadline_ok :: bool
  in_wait_stopped :: bool

datatype feeder_end =
    StopRequested | SerialOverflow | SampleUnavailable | DeadlineOverflow

datatype feeder_result =
    FeederEnds feeder_end "mp4_encoded_sample option"
  | FeederContinues "mp4_encoded_sample option" feeder_state

text \<open>
  One iteration of the inner loop. After the last sample the outer loop starts the inner one
  over at index 0.
\<close>

definition feeder_init :: feeder_state where
  "feeder_init = \<lparr>fs_next_playback_serial = 0, fs_index = 0\<rparr>"

definition feeder_step ::
    "nat \<Rightarrow> 'x feeder_input \<Rightarrow> feeder_state \<Rightarrow> feeder_result" where
  "feeder_step sample_count input s =
     (if in_stop input then FeederEnds StopRequested None
      else (case checked_add (fs_next_playback_serial s) 1 of
        None \<Rightarrow> FeederEnds SerialOverflow None
      | Some next_playback_serial \<Rightarrow>
          (let finish = (\<lambda>frame.
                 if \<not> in_deadline_ok input then FeederEnds DeadlineOverflow frame
                 else if in_wait_stopped input then FeederEnds StopRequested frame
                 else FeederContinues frame
                        \<lparr>fs_next_playback_serial = next_playback_serial,
                         fs_index = (if fs_index s + 1 = sample_count then 0 else fs_index s + 1)\<rparr>)
           in if in_applied input then
                (case in_sample input (fs_index s) of
                   Inr (Some sample) \<Rightarrow>
                     finish (Some (sample\<lparr>es_playback_serial := fs_next_playback_serial s\<rparr>))
                 | _ \<Rightarrow> FeederEnds SampleUnavailable None)
              else finish None)))"

text \<open>The frames the thread delivers for a sequence of inputs, each with its sample index.\<close>

fun feeder_run :: "nat \<Rightarrow> 'x feeder_input list \<Rightarrow> feeder_state \<Rightarrow> (nat \<times> mp4_encoded_sample) list" where
  "feeder_run sample_count [] s = []"
| "feeder_run sample_count (input # inputs) s =
     (case feeder_step sample_count input s of
        FeederEnds _ frame \<Rightarrow> (case frame of None \<Rightarrow> [] | Some f \<Rightarrow> [(fs_index s, f)])
      | FeederContinues frame s' \<Rightarrow>
          (case frame of None \<Rightarrow> [] | Some f \<Rightarrow> [(fs_index s, f)]) @
          feeder_run sample_count inputs s')"

subsection \<open>Runs of the encoder\<close>

datatype 'cb encoder_op =
    OpInitEncode
  | OpEncode "mp4_encoded_sample option" u32
  | OpRegister "'cb option"
  | OpRelease

text \<open>What one call delivers, with the sample it was made from.\<close>

fun encoder_apply ::
    "'cb encoder_op \<Rightarrow> 'cb mp4_passthrough_encoder \<Rightarrow>
     'cb mp4_passthrough_encoder \<times> (mp4_encoded_sample \<times> encoded_image) list" where
  "encoder_apply OpInitEncode e = (snd (passthrough_init_encode e), [])"
| "encoder_apply (OpEncode native ts) e =
     (case passthrough_encode native ts e of
        (_, e', None) \<Rightarrow> (e', [])
      | (_, e', Some (_, img, _)) \<Rightarrow> (e', [(the native, img)]))"
| "encoder_apply (OpRegister cb) e = (snd (passthrough_register_callback cb e), [])"
| "encoder_apply OpRelease e = (snd (passthrough_release e), [])"

fun encoder_run ::
    "'cb encoder_op list \<Rightarrow> 'cb mp4_passthrough_encoder \<Rightarrow> (mp4_encoded_sample \<times> encoded_image) list" where
  "encoder_run [] e = []"
| "encoder_run (op # ops) e = snd (encoder_apply op e) @ encoder_run ops (fst (encoder_apply op e))"

fun op_samples :: "'cb encoder_op \<Rightarrow> mp4_encoded_sample list" where
  "op_samples (OpEncode (Some s) ts) = [s]"
| "op_samples _ = []"

definition follows :: "mp4_encoded_sample \<Rightarrow> mp4_encoded_sample \<Rightarrow> bool" where
  "follows a b \<longleftrightarrow> unat (es_playback_serial b) = unat (es_playback_serial a) + 1"

text \<open>Every sample is reached from a key frame through samples of consecutive serials.\<close>

definition decodable :: "mp4_encoded_sample list \<Rightarrow> bool" where
  "decodable fw \<longleftrightarrow> (\<forall>i < length fw. \<exists>j \<le> i. es_is_keyframe (fw ! j) \<and>
     (\<forall>k. j < k \<and> k \<le> i \<longrightarrow> follows (fw ! (k - 1)) (fw ! k)))"

lemma decodable_Nil [simp]: "decodable []"
  by (simp add: decodable_def)

lemma decodable_snoc_key:
  assumes "decodable fw" and "es_is_keyframe s" shows "decodable (fw @ [s])"
  unfolding decodable_def
proof (intro allI impI)
  fix i assume i: "i < length (fw @ [s])"
  show "\<exists>j\<le>i. es_is_keyframe ((fw @ [s]) ! j) \<and>
      (\<forall>k. j < k \<and> k \<le> i \<longrightarrow> follows ((fw @ [s]) ! (k - 1)) ((fw @ [s]) ! k))"
  proof (cases "i < length fw")
    case True
    with assms(1) obtain j where "j \<le> i" "es_is_keyframe (fw ! j)"
      "\<forall>k. j < k \<and> k \<le> i \<longrightarrow> follows (fw ! (k - 1)) (fw ! k)" by (auto simp: decodable_def)
    with True show ?thesis by (intro exI [of _ j]) (auto simp: nth_append)
  next
    case False
    with i have "i = length fw" by simp
    with assms(2) have "es_is_keyframe ((fw @ [s]) ! i)" by simp
    then show ?thesis by (intro exI [of _ i]) auto
  qed
qed

lemma decodable_snoc_follows:
  assumes "decodable fw" and "fw \<noteq> []" and "follows (last fw) s" shows "decodable (fw @ [s])"
  unfolding decodable_def
proof (intro allI impI)
  fix i assume i: "i < length (fw @ [s])"
  define i' where "i' = (if i < length fw then i else i - 1)"
  have "0 < length fw" using assms(2) by simp
  with i have i': "i' < length fw" "i' \<le> i" unfolding i'_def by (simp_all, linarith)
  with assms(1) obtain j where j: "j \<le> i'" "es_is_keyframe (fw ! j)"
    "\<forall>k. j < k \<and> k \<le> i' \<longrightarrow> follows (fw ! (k - 1)) (fw ! k)" by (auto simp: decodable_def)
  have "follows ((fw @ [s]) ! (k - 1)) ((fw @ [s]) ! k)" if k: "j < k" "k \<le> i" for k
  proof (cases "k < length fw")
    case True
    with k i' have "k \<le> i'" by (auto simp: i'_def)
    with k True j(3) show ?thesis by (auto simp: nth_append)
  next
    case False
    with k i have "k = length fw" by simp
    with assms(2,3) show ?thesis by (simp add: nth_append last_conv_nth)
  qed
  with j i' show "\<exists>j\<le>i. es_is_keyframe ((fw @ [s]) ! j) \<and>
      (\<forall>k. j < k \<and> k \<le> i \<longrightarrow> follows ((fw @ [s]) ! (k - 1)) ((fw @ [s]) ! k))"
    by (intro exI [of _ j]) (auto simp: nth_append)
qed

text \<open>What the encoder knows of the samples it has forwarded so far.\<close>

definition encoder_inv :: "'cb mp4_passthrough_encoder \<Rightarrow> mp4_encoded_sample list \<Rightarrow> bool" where
  "encoder_inv e fw \<longleftrightarrow> decodable fw \<and>
     (\<not> pe_waiting_for_keyframe e \<longrightarrow>
        fw \<noteq> [] \<and> pe_last_playback_serial e = Some (es_playback_serial (last fw)))"

lemma should_forward_inv:
  assumes "encoder_inv e fw"
    and "should_forward_sample (es_is_keyframe s) (es_playback_serial s) e = (forward, e')"
  shows "encoder_inv e' (if forward then fw @ [s] else fw)"
proof (cases "pe_waiting_for_keyframe e")
  case True
  with assms show ?thesis
    by (auto simp: should_forward_sample_def encoder_inv_def decodable_snoc_key split: if_splits)
next
  case False
  with assms(1) have fw: "fw \<noteq> []" "pe_last_playback_serial e = Some (es_playback_serial (last fw))"
    "decodable fw" by (simp_all add: encoder_inv_def)
  show ?thesis
  proof (cases "checked_add (es_playback_serial (last fw)) 1 = Some (es_playback_serial s)")
    case True
    then have "follows (last fw) s" using unat_checked_add [OF True] by (simp add: follows_def)
    with True False fw assms(2) show ?thesis
      by (auto simp: should_forward_sample_def encoder_inv_def decodable_snoc_follows)
  next
    case no: False
    with False fw assms(2) show ?thesis
      by (auto simp: should_forward_sample_def encoder_inv_def decodable_snoc_key
          enter_keyframe_wait_def split: if_splits)
  qed
qed

lemma encoder_apply_inv:
  assumes "encoder_inv e fw"
  shows "encoder_inv (fst (encoder_apply op e)) (fw @ map fst (snd (encoder_apply op e)))"
proof (cases op)
  case OpInitEncode
  with assms show ?thesis
    by (simp add: passthrough_init_encode_def enter_keyframe_wait_def encoder_inv_def)
next
  case (OpEncode native ts)
  show ?thesis
  proof (cases "pe_callback e = None \<or> native = None")
    case True
    with OpEncode assms show ?thesis
      by (auto simp: passthrough_encode_def split: option.split)
  next
    case False
    then obtain cb s where cs: "pe_callback e = Some cb" "native = Some s" by auto
    obtain forward e' where f: "should_forward_sample (es_is_keyframe s) (es_playback_serial s) e
        = (forward, e')" by fastforce
    with cs OpEncode should_forward_inv [OF assms f] show ?thesis
      by (cases forward) (simp_all add: passthrough_encode_def)
  qed
next
  case (OpRegister cb)
  with assms show ?thesis by (simp add: passthrough_register_callback_def encoder_inv_def)
next
  case OpRelease
  with assms show ?thesis by (simp add: passthrough_release_def encoder_inv_def)
qed

lemma encoder_run_inv:
  fixes e :: "'cb mp4_passthrough_encoder"
  shows "encoder_inv e fw \<Longrightarrow> \<exists>e' :: 'cb mp4_passthrough_encoder. encoder_inv e' (fw @ map fst (encoder_run ops e))"
proof (induction ops arbitrary: e fw)
  case Nil
  then have "encoder_inv e (fw @ map fst (encoder_run [] e))" by simp
  then show ?case ..
next
  case (Cons op ops)
  from Cons.IH [OF encoder_apply_inv [OF Cons.prems]] show ?case by simp
qed

lemma encoder_new_inv: "encoder_inv passthrough_encoder_new []"
  by (simp add: encoder_inv_def passthrough_encoder_new_def)

lemma encoder_run_decodable: "decodable (map fst (encoder_run ops passthrough_encoder_new))"
  using encoder_run_inv [OF encoder_new_inv, of ops] by (auto simp: encoder_inv_def)

definition image_of :: "mp4_encoded_sample \<Rightarrow> encoded_image \<Rightarrow> bool" where
  "image_of s img \<longleftrightarrow> ei_encoded_data img = es_data s \<and>
     ei_encoded_width img = es_width s \<and> ei_encoded_height img = es_height s \<and>
     (ei_frame_type img = FrameKey \<longleftrightarrow> es_is_keyframe s)"

lemma encoder_apply_image: "(s, img) \<in> set (snd (encoder_apply op e)) \<Longrightarrow> image_of s img"
  by (cases op)
    (auto simp: passthrough_encode_def image_of_def Let_def split: option.splits if_splits prod.splits)

lemma encoder_run_image: "(s, img) \<in> set (encoder_run ops e) \<Longrightarrow> image_of s img"
  by (induction ops arbitrary: e) (auto dest: encoder_apply_image)

text \<open>
  Property C6. The pass-through encoder never forwards a sample whose references may be
  missing: for every sequence of initialisations, encodes, callback registrations and releases
  of a new encoder, each sample it forwards is a key frame or continues, serial by serial, from
  a key frame that it forwarded before without a gap; and every image handed on carries the
  data, the size and the frame type of its sample.
\<close>

theorem passthrough_encoder_decodable:
  "decodable (map fst (encoder_run ops passthrough_encoder_new)) \<and>
   list_all (\<lambda>(s, img). image_of s img) (encoder_run ops passthrough_encoder_new)"
  using encoder_run_decodable [of ops] encoder_run_image by (fastforce simp: list_all_iff)


subsection \<open>The feeder\<close>

lemma feeder_step_frame:
  assumes "feeder_step n input st = FeederContinues frame st' \<or> feeder_step n input st = FeederEnds r frame"
    and "frame = Some f"
  shows "\<exists>s. in_sample input (fs_index st) = Inr (Some s) \<and>
    f = s\<lparr>es_playback_serial := fs_next_playback_serial st\<rparr>"
  using assms
  by (auto simp: feeder_step_def Let_def split: if_splits option.splits sum.splits)

lemma feeder_step_continues:
  assumes "feeder_step n input st = FeederContinues frame st'"
  shows "checked_add (fs_next_playback_serial st) 1 = Some (fs_next_playback_serial st') \<and>
    fs_index st' = (if fs_index st + 1 = n then 0 else fs_index st + 1)"
  using assms
  by (auto simp: feeder_step_def Let_def split: if_splits option.splits sum.splits)

definition feeder_inv :: "nat \<Rightarrow> feeder_state \<Rightarrow> bool" where
  "feeder_inv n st \<longleftrightarrow> fs_index st = unat (fs_next_playback_serial st) mod n"

lemma feeder_step_inv:
  assumes "0 < n" and "feeder_inv n st" and "feeder_step n input st = FeederContinues frame st'"
  shows "feeder_inv n st'"
  using assms(1,2) feeder_step_continues [OF assms(3)] unat_checked_add
  by (fastforce simp: feeder_inv_def mod_Suc)

text \<open>
  The sample of the file at an index is \<open>content\<close>; a frame delivered by the feeder is the sample
  at its serial, counted modulo the number of samples.
\<close>

definition from_content ::
    "(nat \<Rightarrow> mp4_encoded_sample) \<Rightarrow> nat \<Rightarrow> mp4_encoded_sample \<Rightarrow> bool" where
  "from_content content n f \<longleftrightarrow>
     f = (content (unat (es_playback_serial f) mod n))\<lparr>es_playback_serial := es_playback_serial f\<rparr>"

definition reads_content ::
    "(nat \<Rightarrow> mp4_encoded_sample) \<Rightarrow> 'x feeder_input \<Rightarrow> bool" where
  "reads_content content input \<longleftrightarrow>
     (\<forall>i s. in_sample input i = Inr (Some s) \<longrightarrow> s = content i)"

abbreviation serial_of :: "mp4_encoded_sample \<Rightarrow> nat" where
  "serial_of s \<equiv> unat (es_playback_serial s)"

lemma feeder_step_content:
  assumes "feeder_inv n st" and "reads_content content input"
    and "feeder_step n input st = FeederContinues (Some f) st' \<or> feeder_step n input st = FeederEnds r (Some f)"
  shows "from_content content n f \<and> serial_of f = unat (fs_next_playback_serial st)"
  using feeder_step_frame [OF assms(3)] assms(1,2)
  by (auto simp: from_content_def reads_content_def feeder_inv_def)

lemma feeder_run_frames:
  assumes "0 < n" and "list_all (reads_content content) inputs" and "feeder_inv n st"
  shows "sorted_wrt (<) (map serial_of (map snd (feeder_run n inputs st))) \<and>
    (\<forall>f \<in> set (map snd (feeder_run n inputs st)). from_content content n f \<and>
       unat (fs_next_playback_serial st) \<le> serial_of f)"
  using assms(2,3)
proof (induction inputs arbitrary: st)
  case Nil
  then show ?case by simp
next
  case (Cons input inputs)
  have rc: "reads_content content input" using Cons.prems(1) by simp
  show ?case
  proof (cases "feeder_step n input st")
    case (FeederEnds r frame)
    then show ?thesis
      using feeder_step_content [OF Cons.prems(2) rc] by (cases frame) auto
  next
    case (FeederContinues frame st')
    have next_serial: "unat (fs_next_playback_serial st') = unat (fs_next_playback_serial st) + 1"
      using feeder_step_continues [OF FeederContinues] unat_checked_add by fastforce
    have "list_all (reads_content content) inputs" using Cons.prems(1) by simp
    note IH = Cons.IH [OF this feeder_step_inv [OF assms(1) Cons.prems(2) FeederContinues]]
    show ?thesis
    proof (cases frame)
      case None
      with IH FeederContinues next_serial show ?thesis by fastforce
    next
      case (Some f)
      have "from_content content n f" "serial_of f = unat (fs_next_playback_serial st)"
        using feeder_step_content [OF Cons.prems(2) rc] FeederContinues Some by auto
      with IH FeederContinues Some next_serial show ?thesis by fastforce
    qed
  qed
qed

lemma feeder_init_inv: "0 < n \<Longrightarrow> feeder_inv n feeder_init"
  by (simp add: feeder_inv_def feeder_init_def)

lemma encoder_apply_subseq: "subseq (map fst (snd (encoder_apply op e))) (op_samples op)"
proof (cases op)
  case (OpEncode native ts)
  then show ?thesis
    by (cases native; cases "pe_callback e")
      (auto simp: passthrough_encode_def Let_def split: prod.split)
qed simp_all

lemma encoder_run_subseq: "subseq (map fst (encoder_run ops e)) (concat (map op_samples ops))"
  by (induction ops arbitrary: e) (simp_all add: list_emb_append_mono encoder_apply_subseq)

lemma subseq_set: "subseq xs ys \<Longrightarrow> x \<in> set xs \<Longrightarrow> x \<in> set ys"
  by (auto dest: list_emb_set)

lemma sorted_wrt_subseq: "subseq xs ys \<Longrightarrow> sorted_wrt P ys \<Longrightarrow> sorted_wrt P xs"
proof (induction rule: list_emb.induct)
  case (list_emb_Cons2 x y xs ys)
  then show ?case using subseq_set [of xs ys] by auto
qed simp_all

text \<open>
  Property C5. From the file to the callback: whatever frames the feeder's frame adapter skips
  and whatever frames WebRTC drops between the capturer and the encoder, as long as it keeps
  their order, each sample the encoder forwards is the sample of the file at its serial modulo
  the number of samples, serials strictly increase, and each sample is reached from a forwarded
  key frame through an unbroken run of serials; so a delta sample always directly follows the
  sample stored before it in the file, or the last sample when it is the first.
\<close>

theorem capturer_to_callback:
  assumes "0 < n" and "list_all (reads_content content) inputs"
    and "subseq (concat (map op_samples ops)) (map snd (feeder_run n inputs feeder_init))"
    and "forwarded = map fst (encoder_run ops passthrough_encoder_new)"
  shows "decodable forwarded \<and> sorted_wrt (<) (map serial_of forwarded) \<and>
    list_all (from_content content n) forwarded"
proof -
  have sub: "subseq forwarded (map snd (feeder_run n inputs feeder_init))"
    using encoder_run_subseq [of ops passthrough_encoder_new] assms(3,4) subseq_order.trans by metis
  note frames = feeder_run_frames [OF assms(1,2) feeder_init_inv [OF assms(1)]]
  have "sorted_wrt (<) (map serial_of forwarded)"
    using frames subseq_map [OF sub, of serial_of] sorted_wrt_subseq by blast
  moreover have "list_all (from_content content n) forwarded"
    unfolding list_all_iff using frames subseq_set [OF sub] by blast
  ultimately show ?thesis using encoder_run_decodable assms(4) by blast
qed


subsection \<open>Waiting\<close>

text \<open>
  Property C40. \<^verbatim>\<open>wait_until_or_stop\<close>, for any readings of the flag and the clock: it returns at
  the first reading where the flag is set or the deadline is reached, with the flag's value, and
  every sleep before that is positive and at most \<^verbatim>\<open>MAX_SLEEP_DURATION\<close>; so it returns as soon
  as one such reading comes.
\<close>

theorem wait_until_or_stop_spec:
  "wait_until_or_stop readings deadline =
     map_option (\<lambda>m. (fst (readings ! m),
         map (\<lambda>(stop, now). min (deadline - now) MAX_SLEEP_DURATION) (take m readings)))
       (first_index (\<lambda>(stop, now). stop \<or> deadline \<le> now) 0 readings)"
proof -
  have shift: "first_index P (Suc i) xs = map_option Suc (first_index P i xs)"
    for P :: "bool \<times> nat \<Rightarrow> bool" and i xs
    by (induction xs arbitrary: i) simp_all
  show ?thesis
  proof (induction readings)
    case Nil
    then show ?case by simp
  next
    case (Cons r readings)
    obtain stop now where r: "r = (stop, now)" by (cases r)
    show ?case
    proof (cases "stop \<or> deadline \<le> now")
      case True
      with r show ?thesis by auto
    next
      case False
      with r Cons.IH show ?thesis
        by (cases "first_index (\<lambda>(stop, now). stop \<or> deadline \<le> now) 0 readings")
          (simp_all add: shift Let_def)
    qed
  qed
qed

subsection \<open>The capability of an opened file\<close>

definition codec_names_known :: "webrtc \<Rightarrow> bool" where
  "codec_names_known w \<longleftrightarrow>
     codec_try_from w ''H264'' = Some H264 \<and> codec_try_from w ''H265'' = Some H265 \<and>
     codec_try_from w ''VP8'' = Some Vp8 \<and> codec_try_from w ''VP9'' = Some Vp9 \<and>
     codec_try_from w ''AV1'' = Some Av1"

definition av1_fields_in_range :: "('x, 'h) av1_parsers \<Rightarrow> bool" where
  "av1_fields_in_range P \<longleftrightarrow> (\<forall>b h. parse_sequence_header P b = Inr h \<longrightarrow>
     sh_seq_profile h \<le> 2 \<and> sh_seq_level_idx_0 h \<le> 31 \<and> sh_seq_tier_0 h \<le> 1)"

lemma validated_track_fields:
  assumes "validate_av1_track P ks cfg rs = Inr ()" and "av1_fields_in_range P"
  shows "seq_profile cfg \<le> 2 \<and> seq_level_idx_0 cfg \<le> 31 \<and> seq_tier_0 cfg \<le> 1"
proof -
  from validate_av1_track_facts [OF assms(1)] obtain cobus where
    "sample_ok P cfg cobus rs 0 True" by auto
  then obtain obus where sh: "\<forall>obu \<in> set obus. is_sh_obu obu \<longrightarrow> sh_acceptable P cfg (obu_payload obu)"
    and sync: "sync_sample_ok P cfg cobus obus" by (auto simp: sample_ok_def)
  from sync obtain s where "s < length obus" "is_sh_obu (obus ! s)"
    unfolding sync_sample_ok_def using less_trans by blast
  with sh have "sh_acceptable P cfg (obu_payload (obus ! s))" by simp
  then obtain h where h: "parse_sequence_header P (obu_payload (obus ! s)) = Inr h"
    and "sh_agrees cfg h" unfolding sh_acceptable_def by blast
  then have "sh_seq_profile h = seq_profile cfg" "sh_seq_level_idx_0 h = seq_level_idx_0 cfg"
    "sh_seq_tier_0 h = seq_tier_0 cfg"
    unfolding sh_agrees_def sequence_header_matches_av1c_def by blast+
  moreover from assms(2) h have "sh_seq_profile h \<le> 2 \<and> sh_seq_level_idx_0 h \<le> 31 \<and> sh_seq_tier_0 h \<le> 1"
    unfolding av1_fields_in_range_def by blast
  ultimately show ?thesis by (simp only:)
qed

lemma resolve_av1_self:
  assumes "seq_profile c \<le> 2" and "seq_level_idx_0 c \<le> 31" and "seq_tier_0 c \<le> 1"
    and "codec_try_from w ''AV1'' = Some Av1"
  shows "resolve_av1_incoming w (av1_required_sdp_format (Some c)) (av1_required_sdp_format (Some c))
    = Some (av1_required_sdp_format (Some c))"
  using assms
  by (simp add: resolve_av1_incoming_alt codec_type_from_format_def av1_required_sdp_format_def
      parse_av1_sdp_field_dec not_less)

lemma resolve_h264_self:
  assumes "codec_try_from w ''H264'' = Some H264"
    and "from_hex (to_hex (profile_level_id c)) = Some (profile_level_id c)"
    and "parse_profile_level_id (profile_level_id c) \<noteq> None"
  shows "(\<exists>r. resolve_h264_incoming w from_hex (h264_required_sdp_format to_hex c) incoming = Inr r) \<and>
    resolve_h264_incoming w from_hex (h264_required_sdp_format to_hex c)
      (h264_required_sdp_format to_hex c) = Inr (Some (h264_required_sdp_format to_hex c))"
  using assms
  by (auto simp: resolve_h264_incoming_def h264_required_sdp_format_def split: option.splits)

definition negotiates_itself ::
    "webrtc \<Rightarrow> (string \<Rightarrow> profile_level_id option) \<Rightarrow> mp4_passthrough_capability \<Rightarrow> bool" where
  "negotiates_itself w from_hex cap \<longleftrightarrow>
     codec_type_from_format w (mpc_required_format cap) = Some (mpc_codec_type cap) \<and>
     mp4_resolve_sdp_format w from_hex cap Encoder (mpc_required_format cap)
       = Inr (Some (mpc_required_format cap)) \<and>
     (\<forall>d f. \<exists>res. mp4_resolve_sdp_format w from_hex cap d f = Inr res) \<and>
     mp4_create_video_encoder w cap (mpc_required_format cap)
       = Some (passthrough_encoder_new :: nat mp4_passthrough_encoder)"

lemma capability_negotiates:
  assumes inv: "reader_inv P rd file_size r" and names: "codec_names_known w"
    and fuzzy: "\<And>f. fuzzy_match w [f] f = Some f"
    and hex: "\<And>p. from_hex (to_hex p) = Some p" and range: "av1_fields_in_range P"
  shows "\<exists>cap. passthrough_capability to_hex r = Inr cap \<and>
    mpc_codec_type cap = ti_codec_type (r_track_info r) \<and> negotiates_itself w from_hex cap"
proof -
  let ?ti = "r_track_info r"
  have "track_info_wf ?ti" using inv by (simp add: reader_inv_def)
  then have "ti_codec_type ?ti \<in> {H264, H265, Vp8, Vp9, Av1}" by (simp add: track_info_wf_def)
  then consider (h264) "ti_codec_type ?ti = H264" | (av1) "ti_codec_type ?ti = Av1"
    | (h265) "ti_codec_type ?ti = H265" | (vp8) "ti_codec_type ?ti = Vp8"
    | (vp9) "ti_codec_type ?ti = Vp9" by blast
  then show ?thesis
  proof cases
    case h264
    with inv obtain c where c: "ti_h264_config ?ti = Some c"
      "parse_profile_level_id (profile_level_id c) \<noteq> None"
      by (auto simp: reader_inv_def track_info_wf_def)
    have known: "codec_try_from w ''H264'' = Some H264" using names by (simp add: codec_names_known_def)
    note self = resolve_h264_self [of w from_hex to_hex c, OF known hex c(2)]
    have name: "sdp_name (h264_required_sdp_format to_hex c) = Some ''H264''"
      by (simp add: h264_required_sdp_format_def)
    from h264 c(1) self known name show ?thesis
      by (simp add: passthrough_capability_def required_sdp_format_def negotiates_itself_def
          mp4_resolve_sdp_format_def mp4_create_video_encoder_def codec_type_from_format_def)
  next
    case av1
    with inv obtain c where c: "ti_av1_config ?ti = Some c"
      by (auto simp: reader_inv_def track_info_wf_def)
    with av1 inv have "validate_av1_track P (map is_keyframe (r_samples r)) c
        (\<lambda>i. read_bytes_at rd (data_offset (r_samples r ! i)) (data_size (r_samples r ! i)))
        = Inr ()" by (simp add: reader_inv_def)
    from validated_track_fields [OF this range]
    have f: "seq_profile c \<le> 2" "seq_level_idx_0 c \<le> 31" "seq_tier_0 c \<le> 1" by simp_all
    have known: "codec_try_from w ''AV1'' = Some Av1" using names by (simp add: codec_names_known_def)
    note self = resolve_av1_self [OF f known]
    have name: "sdp_name (av1_required_sdp_format (Some c)) = Some ''AV1''"
      by (simp add: av1_required_sdp_format_def)
    from av1 c self known name show ?thesis
      by (simp add: passthrough_capability_def required_sdp_format_def negotiates_itself_def
          mp4_resolve_sdp_format_def mp4_create_video_encoder_def codec_type_from_format_def)
  qed (use names fuzzy in \<open>simp_all add: passthrough_capability_def required_sdp_format_def
      negotiates_itself_def mp4_resolve_sdp_format_def mp4_create_video_encoder_def
      codec_type_from_format_def codec_names_known_def mp4_supported_formats_def\<close>)
qed

text \<open>
  Property C32. Negotiating the stream of an opened file, for every codec: the capability made
  from a reader advertises one format, of the codec of the file; offered its own format it
  resolves to that format, and the encoder is created; and its \<^verbatim>\<open>resolve_sdp_format\<close> does not
  panic on any format in either direction. The hypotheses on the crates: the five codec names
  are known, fuzzy matching finds a format in the list of just that format, hexadecimal
  conversion is inverted, and a parsed AV1 sequence header has its fields in the ranges of the
  AV1 specification.
\<close>

theorem passthrough_capability_negotiates:
  assumes "new_inner D A P (Inr (file_size, rd)) d0 = Some (Inr r)"
    and "codec_names_known w" and "\<And>f. fuzzy_match w [f] f = Some f"
    and "\<And>p. from_hex (to_hex p) = Some p" and "av1_fields_in_range P"
  shows "\<exists>cap. passthrough_capability to_hex r = Inr cap \<and>
    mpc_codec_type cap = ti_codec_type (r_track_info r) \<and> negotiates_itself w from_hex cap"
  using assms(2-) by (rule capability_negotiates [OF new_inner_inv_lemma [OF assms(1)]])

subsection \<open>Witnesses\<close>

definition example_content :: "nat \<Rightarrow> mp4_encoded_sample" where
  "example_content i =
     \<lparr>es_data = [of_nat i], es_is_keyframe = (i = 0), es_width = 640, es_height = 480,
      es_codec_type = Vp8, es_playback_serial = 0\<rparr>"

definition example_input :: "unit feeder_input" where
  "example_input =
     \<lparr>in_stop = False, in_applied = True, in_sample = (\<lambda>i. Inr (Some (example_content i))),
      in_deadline_ok = True, in_wait_stopped = False\<rparr>"

definition example_fed :: "mp4_encoded_sample list" where
  "example_fed =
     [(example_content 0)\<lparr>es_playback_serial := 0\<rparr>, (example_content 1)\<lparr>es_playback_serial := 1\<rparr>,
      (example_content 0)\<lparr>es_playback_serial := 2\<rparr>]"

definition example_ops :: "unit encoder_op list" where
  "example_ops =
     [OpInitEncode, OpRegister (Some ()), OpEncode (Some (example_fed ! 1)) 7,
      OpEncode (Some (example_fed ! 2)) 8]"

lemma example_feeder_run:
  "map snd (feeder_run 2 [example_input, example_input, example_input] feeder_init) = example_fed"
  by (simp add: feeder_step_def example_input_def feeder_init_def example_fed_def checked_add_def)

theorem capturer_to_callback_witness:
  "map fst (encoder_run example_ops passthrough_encoder_new) = [example_fed ! 2] \<and>
   decodable (map fst (encoder_run example_ops passthrough_encoder_new))"
proof
  show "map fst (encoder_run example_ops passthrough_encoder_new) = [example_fed ! 2]"
    by (simp add: example_ops_def example_fed_def passthrough_init_encode_def enter_keyframe_wait_def
        passthrough_register_callback_def passthrough_encoder_new_def passthrough_encode_def
        should_forward_sample_def example_content_def)
  have "list_all (reads_content example_content) [example_input, example_input, example_input]"
    by (simp add: reads_content_def example_input_def)
  moreover have "subseq (concat (map op_samples example_ops))
      (map snd (feeder_run 2 [example_input, example_input, example_input] feeder_init))"
    unfolding example_feeder_run by (simp add: example_ops_def example_fed_def)
  ultimately show "decodable (map fst (encoder_run example_ops passthrough_encoder_new))"
    using capturer_to_callback [of 2 example_content
        "[example_input, example_input, example_input]" example_ops] by simp
qed

definition example_to_hex :: "profile_level_id \<Rightarrow> string" where
  "example_to_hex p = [char_of (unat (profile_idc p)), char_of (unat (profile_iop p)),
     char_of (unat (level_idc p))]"

definition example_from_hex :: "string \<Rightarrow> profile_level_id option" where
  "example_from_hex s = (case s of
       [a, b, c] \<Rightarrow> Some \<lparr>profile_idc = of_nat (of_char a), profile_iop = of_nat (of_char b),
         level_idc = of_nat (of_char c)\<rparr>
     | _ \<Rightarrow> None)"

lemma example_hex_inverse: "example_from_hex (example_to_hex p) = Some p"
proof -
  have "of_nat (of_char (char_of (unat b) :: char) :: nat) = b" for b :: u8
  proof -
    have "unat b < 2 ^ LENGTH(8)" by (rule unsigned_less)
    then show ?thesis by simp
  qed
  then show ?thesis by (simp add: example_from_hex_def example_to_hex_def)
qed

theorem passthrough_capability_negotiates_witness:
  "\<exists>cap. passthrough_capability example_to_hex example_reader = Inr cap \<and>
     mpc_codec_type cap = Vp8 \<and> negotiates_itself example_webrtc example_from_hex cap"
proof -
  have "ti_codec_type (r_track_info example_reader) = Vp8"
    by (simp add: example_reader_def plain_track_info_def)
  moreover have "codec_names_known example_webrtc" by (simp add: codec_names_known_def)
  moreover have "av1_fields_in_range example_av1_api"
    by (simp add: av1_fields_in_range_def example_av1_api_def)
  moreover have "fuzzy_match example_webrtc [f] f = Some f" for f by (simp add: example_webrtc_def)
  ultimately show ?thesis
    using passthrough_capability_negotiates [OF example_new, of example_webrtc example_from_hex
        example_to_hex] example_hex_inverse by simp
qed

end
