(* ===== verification/Audio_Capability.thy ===== *)
theory Audio_Capability
  imports Video_Capability
begin

text \<open>
  \<^verbatim>\<open>src/audio_codec_capability.rs\<close> and \<^verbatim>\<open>src/audio_codecs/internal.rs\<close>: the trait
  \<^verbatim>\<open>AudioCodecCapability\<close> as a record of its methods, and the capability built on the audio
  factories of WebRTC. A format is what the code reads of an \<^verbatim>\<open>SdpAudioFormat\<close>, its name, and
  the rest of it; codec information, encoder options, encoders and decoders are the parameters
  \<open>'i\<close>, \<open>'o\<close>, \<open>'e\<close> and \<open>'d\<close>.
\<close>

datatype audio_codec_type = Opus | Isac | G722 | PcmA | PcmU | OtherAudio "32 word"

record sdp_audio_format =
  af_name :: "string option"
  af_params :: "string \<rightharpoonup> string"

record 'i audio_codec_spec =
  spec_format :: sdp_audio_format
  spec_info :: 'i

record audio_webrtc =
  audio_codec_try_from :: "string \<Rightarrow> audio_codec_type option"
  audio_codec_as_str :: "audio_codec_type \<Rightarrow> string option"
  audio_is_equal :: "sdp_audio_format \<Rightarrow> sdp_audio_format \<Rightarrow> bool"
  audio_matches :: "sdp_audio_format \<Rightarrow> sdp_audio_format \<Rightarrow> bool"

record audio_codec_implementation =
  ai_name :: string
  ai_description :: string

definition audio_implementation_eq ::
    "audio_codec_implementation \<Rightarrow> audio_codec_implementation \<Rightarrow> bool" where
  "audio_implementation_eq a b \<longleftrightarrow> ai_name a = ai_name b"

record ('i, 'o, 'e, 'd) audio_capability =
  audio_get_implementation :: audio_codec_implementation
  get_supported_codec_specs :: "codec_direction \<Rightarrow> 'i audio_codec_spec list"
  audio_is_supported :: "codec_direction \<Rightarrow> audio_codec_type \<Rightarrow> bool"
  audio_query :: "codec_direction \<Rightarrow> sdp_audio_format \<Rightarrow> 'i option"
  create_audio_encoder :: "sdp_audio_format \<Rightarrow> 'o \<Rightarrow> 'e option"
  create_audio_decoder :: "sdp_audio_format \<Rightarrow> 'd option"

definition default_audio_is_supported ::
    "audio_webrtc \<Rightarrow> (codec_direction \<Rightarrow> 'i audio_codec_spec list) \<Rightarrow> codec_direction \<Rightarrow>
     audio_codec_type \<Rightarrow> bool" where
  "default_audio_is_supported w specs direction codec_type =
     (case audio_codec_as_str w codec_type of
        None \<Rightarrow> False
      | Some codec_name \<Rightarrow>
          list_ex (\<lambda>spec. af_name (spec_format spec) = Some codec_name) (specs direction))"

definition find_audio_capability ::
    "('i, 'o, 'e, 'd) audio_capability list \<Rightarrow> audio_codec_implementation \<Rightarrow>
     ('i, 'o, 'e, 'd) audio_capability option" where
  "find_audio_capability capabilities implementation =
     find (\<lambda>c. ai_name (audio_get_implementation c) = ai_name implementation) capabilities"

subsection \<open>The capability built on WebRTC\<close>

record ('i, 'o, 'e) audio_encoder_factory =
  get_supported_encoders :: "'i audio_codec_spec list"
  query_audio_encoder :: "sdp_audio_format \<Rightarrow> 'i option"
  aef_create :: "sdp_audio_format \<Rightarrow> 'o \<Rightarrow> 'e option"

record ('i, 'd) audio_decoder_factory =
  get_supported_decoders :: "'i audio_codec_spec list"
  is_supported_decoder :: "sdp_audio_format \<Rightarrow> bool"
  adf_create :: "sdp_audio_format \<Rightarrow> 'd option"

definition internal_audio_query ::
    "audio_webrtc \<Rightarrow> ('i, 'o, 'e) audio_encoder_factory \<Rightarrow> ('i, 'd) audio_decoder_factory \<Rightarrow>
     codec_direction \<Rightarrow> sdp_audio_format \<Rightarrow> 'i option" where
  "internal_audio_query w ef df direction format =
     (case direction of
        Encoder \<Rightarrow> query_audio_encoder ef format
      | Decoder \<Rightarrow>
          if \<not> is_supported_decoder df format then None
          else map_option spec_info
                 (find (\<lambda>spec. audio_matches w (spec_format spec) format)
                    (get_supported_decoders df)))"

definition internal_audio_capability ::
    "audio_webrtc \<Rightarrow> ('i, 'o, 'e) audio_encoder_factory \<Rightarrow> ('i, 'd) audio_decoder_factory \<Rightarrow>
     ('i, 'o, 'e, 'd) audio_capability" where
  "internal_audio_capability w ef df =
     (let specs = (\<lambda>direction. case direction of
            Encoder \<Rightarrow> get_supported_encoders ef | Decoder \<Rightarrow> get_supported_decoders df)
      in \<lparr>audio_get_implementation =
            \<lparr>ai_name = ''internal'', ai_description = ''WebRTC built-in AudioCodecFactory''\<rparr>,
          get_supported_codec_specs = specs,
          audio_is_supported = default_audio_is_supported w specs,
          audio_query = internal_audio_query w ef df,
          create_audio_encoder = aef_create ef,
          create_audio_decoder = adf_create df\<rparr>)"

subsection \<open>JSON\<close>

definition audio_implementation_to_json :: "audio_codec_implementation \<Rightarrow> json" where
  "audio_implementation_to_json i =
     JObj [(''name'', JStr (ai_name i)), (''description'', JStr (ai_description i))]"

definition audio_implementation_of_json ::
    "('v, 'x) nojson \<Rightarrow> 'v \<Rightarrow> 'x + audio_codec_implementation" where
  "audio_implementation_of_json J v =
     bindE (bindE (json_required J v ''name'') (json_string J)) (\<lambda>name.
     bindE (bindE (json_required J v ''description'') (json_string J)) (\<lambda>description.
     Inr \<lparr>ai_name = name, ai_description = description\<rparr>))"

lemma audio_implementation_roundtrip:
  "json_faithful J rep \<Longrightarrow> audio_implementation_of_json J (rep (audio_implementation_to_json i)) = Inr i"
  by (simp add: audio_implementation_of_json_def audio_implementation_to_json_def
      json_required_member json_faithful_simps)

subsection \<open>Lookup\<close>

lemma find_audio_capability_Some:
  "find_audio_capability cs i = Some c \<Longrightarrow>
     c \<in> set cs \<and> ai_name (audio_get_implementation c) = ai_name i"
  unfolding find_audio_capability_def by (auto dest: find_SomeD)

lemma find_audio_capability_distinct:
  "distinct (map (ai_name \<circ> audio_get_implementation) cs) \<Longrightarrow> c \<in> set cs \<Longrightarrow>
     ai_name (audio_get_implementation c) = ai_name i \<Longrightarrow> find_audio_capability cs i = Some c"
  using find_distinct_key [of "ai_name \<circ> audio_get_implementation" cs c]
  by (simp add: find_audio_capability_def)

end
