(* ===== verification/Audio_Preference.thy ===== *)
theory Audio_Preference
  imports Audio_Capability Codec_Preference
begin

text \<open>
  \<^verbatim>\<open>src/audio_codec_preference.rs\<close>: the preference list, its operations, its JSON form and
  its validation. The \<^verbatim>\<open>reason\<close> of an error is the constructor of its message with the values
  the message interpolates.
\<close>

record audio_preference_codec =
  apc_direction :: codec_direction
  apc_codec_type :: audio_codec_type
  apc_implementation :: audio_codec_implementation

definition AUDIO_CODEC_TYPES :: "audio_codec_type list" where
  "AUDIO_CODEC_TYPES = [Opus, Isac, G722, PcmA, PcmU]"

definition set_audio_implementation ::
    "audio_codec_implementation \<Rightarrow> audio_preference_codec \<Rightarrow> audio_preference_codec" where
  "set_audio_implementation i c = c\<lparr>apc_implementation := i\<rparr>"

definition audio_entry_is :: "codec_direction \<Rightarrow> audio_codec_type \<Rightarrow> audio_preference_codec \<Rightarrow> bool" where
  "audio_entry_is direction codec_type codec \<longleftrightarrow>
     apc_direction codec = direction \<and> apc_codec_type codec = codec_type"

definition new_from_audio_capability :: "('i, 'o, 'e, 'd) audio_capability \<Rightarrow> audio_preference_codec list" where
  "new_from_audio_capability capability =
     concat (map (\<lambda>codec_type.
       concat (map (\<lambda>direction.
         if audio_is_supported capability direction codec_type
         then [\<lparr>apc_direction = direction, apc_codec_type = codec_type,
                apc_implementation = audio_get_implementation capability\<rparr>]
         else []) [Encoder, Decoder])) AUDIO_CODEC_TYPES)"

definition find_audio_codec ::
    "audio_preference_codec list \<Rightarrow> codec_direction \<Rightarrow> audio_codec_type \<Rightarrow> audio_preference_codec option" where
  "find_audio_codec codecs direction codec_type = find (audio_entry_is direction codec_type) codecs"

text \<open>
  \<^verbatim>\<open>get_or_add\<close>: the list afterwards and the position of the entry the returned reference
  points to.
\<close>

definition get_or_add_audio ::
    "audio_preference_codec list \<Rightarrow> codec_direction \<Rightarrow> audio_codec_type \<Rightarrow> audio_codec_implementation \<Rightarrow>
     audio_preference_codec list \<times> nat" where
  "get_or_add_audio codecs direction codec_type implementation =
     (case first_index (audio_entry_is direction codec_type) 0 codecs of
        Some index \<Rightarrow> (codecs, index)
      | None \<Rightarrow>
          (codecs @ [\<lparr>apc_direction = direction, apc_codec_type = codec_type,
                      apc_implementation = implementation\<rparr>], length codecs))"

definition has_audio_implementation :: "audio_preference_codec list \<Rightarrow> audio_codec_implementation \<Rightarrow> bool" where
  "has_audio_implementation codecs implementation \<longleftrightarrow>
     list_ex (\<lambda>codec. audio_implementation_eq (apc_implementation codec) implementation) codecs"

definition merge_audio_codec :: "audio_preference_codec list \<Rightarrow> audio_preference_codec \<Rightarrow> audio_preference_codec list" where
  "merge_audio_codec codecs codec =
     (case find_audio_codec codecs (apc_direction codec) (apc_codec_type codec) of
        Some existing \<Rightarrow>
          update_first (audio_entry_is (apc_direction codec) (apc_codec_type codec))
            (set_audio_implementation (apc_implementation codec)) codecs
      | None \<Rightarrow> codecs @ [codec])"

definition merge_audio_preference ::
    "audio_preference_codec list \<Rightarrow> audio_preference_codec list \<Rightarrow> audio_preference_codec list" where
  "merge_audio_preference codecs preference = foldl merge_audio_codec codecs preference"

subsection \<open>JSON\<close>

text \<open>Printing fails, as \<^verbatim>\<open>std::fmt::Error\<close>, for a codec type without a name.\<close>

definition audio_preference_codec_to_json :: "audio_webrtc \<Rightarrow> audio_preference_codec \<Rightarrow> json option" where
  "audio_preference_codec_to_json w codec =
     do { codec_type \<leftarrow> audio_codec_as_str w (apc_codec_type codec);
          Some (JObj
            [(''direction'', JStr (direction_as_str (apc_direction codec))),
             (''codec_type'', JStr codec_type),
             (''implementation'', audio_implementation_to_json (apc_implementation codec))]) }"

definition parse_audio_codec_type ::
    "('v, 'x) nojson \<Rightarrow> audio_webrtc \<Rightarrow> 'v \<Rightarrow> 'x + audio_codec_type" where
  "parse_audio_codec_type J w v =
     bindE (json_string J v) (\<lambda>text.
       ok_or (json_invalid J v (''unsupported audio codec type: '' @ text)) (audio_codec_try_from w text))"

definition audio_preference_codec_of_json ::
    "('v, 'x) nojson \<Rightarrow> audio_webrtc \<Rightarrow> 'v \<Rightarrow> 'x + audio_preference_codec" where
  "audio_preference_codec_of_json J w v =
     bindE (bindE (json_required J v ''direction'') (direction_of_json J)) (\<lambda>direction.
     bindE (bindE (json_required J v ''codec_type'') (parse_audio_codec_type J w)) (\<lambda>codec_type.
     bindE (bindE (json_required J v ''implementation'') (audio_implementation_of_json J))
       (\<lambda>implementation.
     Inr \<lparr>apc_direction = direction, apc_codec_type = codec_type,
          apc_implementation = implementation\<rparr>)))"

definition audio_preference_to_json :: "audio_webrtc \<Rightarrow> audio_preference_codec list \<Rightarrow> json option" where
  "audio_preference_to_json w codecs =
     do { js \<leftarrow> all_json (audio_preference_codec_to_json w) codecs; Some (JObj [(''codecs'', JArr js)]) }"

definition audio_preference_of_json ::
    "('v, 'x) nojson \<Rightarrow> audio_webrtc \<Rightarrow> 'v \<Rightarrow> 'x + audio_preference_codec list" where
  "audio_preference_of_json J w v =
     bindE (json_required J v ''codecs'') (json_parse_array J (audio_preference_codec_of_json J w))"

subsection \<open>Validation\<close>

datatype audio_preference_error =
    DuplicateAudioImplementation audio_codec_implementation
  | UnsupportedAudioCodecType codec_direction string
  | DuplicateAudioEntry string codec_direction
  | KnownAudioCodecTypeExpected audio_codec_type
  | AudioImplementationNotFound codec_direction audio_preference_codec
  | AudioCodecTypeNotFound audio_preference_codec
  | AudioDirectionNotSupported codec_direction audio_preference_codec
      audio_codec_implementation string bool bool

fun validate_audio_capabilities_from ::
    "string set \<Rightarrow> ('i, 'o, 'e, 'd) audio_capability list \<Rightarrow> audio_preference_error + unit" where
  "validate_audio_capabilities_from implementation_names [] = Inr ()"
| "validate_audio_capabilities_from implementation_names (capability # rest) =
     (if ai_name (audio_get_implementation capability) \<in> implementation_names
      then Inl (DuplicateAudioImplementation (audio_get_implementation capability))
      else validate_audio_capabilities_from
             (insert (ai_name (audio_get_implementation capability)) implementation_names) rest)"

definition validate_audio_capabilities :: "('i, 'o, 'e, 'd) audio_capability list \<Rightarrow> audio_preference_error + unit" where
  "validate_audio_capabilities capabilities = validate_audio_capabilities_from {} capabilities"

definition audio_codec_name_or_unknown :: "audio_webrtc \<Rightarrow> audio_codec_type \<Rightarrow> string" where
  "audio_codec_name_or_unknown w t = (case audio_codec_as_str w t of None \<Rightarrow> ''Unknown'' | Some s \<Rightarrow> s)"

definition check_known_audio_type :: "audio_webrtc \<Rightarrow> audio_preference_codec \<Rightarrow> audio_preference_error + unit" where
  "check_known_audio_type w codec =
     (if List.member AUDIO_CODEC_TYPES (apc_codec_type codec) then Inr ()
      else Inl (UnsupportedAudioCodecType (apc_direction codec)
             (audio_codec_name_or_unknown w (apc_codec_type codec))))"

definition check_audio_duplicate ::
    "audio_webrtc \<Rightarrow> audio_preference_codec list \<Rightarrow> audio_codec_type \<times> codec_direction \<Rightarrow>
     audio_preference_error + unit" where
  "check_audio_duplicate w codecs = (\<lambda>(codec_type, direction).
     if length (filter (audio_entry_is direction codec_type) codecs) \<ge> 2 then
       (case audio_codec_as_str w codec_type of
          None \<Rightarrow> Inl (KnownAudioCodecTypeExpected codec_type)
        | Some codec_type_name \<Rightarrow> Inl (DuplicateAudioEntry codec_type_name direction))
     else Inr ())"

definition validate_audio_entry ::
    "audio_webrtc \<Rightarrow> ('i, 'o, 'e, 'd) audio_capability list \<Rightarrow> audio_preference_codec \<Rightarrow> audio_preference_error + unit" where
  "validate_audio_entry w capabilities codec =
     (case find_audio_capability capabilities (apc_implementation codec) of
        None \<Rightarrow> Inl (AudioImplementationNotFound (apc_direction codec) codec)
      | Some capability \<Rightarrow>
          (let encoder_supported = audio_is_supported capability Encoder (apc_codec_type codec);
               decoder_supported = audio_is_supported capability Decoder (apc_codec_type codec);
               (direction_supported, opposite_supported) =
                 (case apc_direction codec of
                    Encoder \<Rightarrow> (encoder_supported, decoder_supported)
                  | Decoder \<Rightarrow> (decoder_supported, encoder_supported))
           in if \<not> direction_supported \<and> \<not> opposite_supported then
                Inl (AudioCodecTypeNotFound codec)
              else if \<not> direction_supported then
                Inl (AudioDirectionNotSupported (apc_direction codec) codec
                  (audio_get_implementation capability) (audio_codec_name_or_unknown w (apc_codec_type codec))
                  (audio_is_supported capability Encoder (apc_codec_type codec))
                  (audio_is_supported capability Decoder (apc_codec_type codec)))
              else Inr ()))"

definition validate_audio_codec_preference ::
    "audio_webrtc \<Rightarrow> audio_preference_codec list \<Rightarrow> ('i, 'o, 'e, 'd) audio_capability list \<Rightarrow>
     audio_preference_error + unit" where
  "validate_audio_codec_preference w codecs capabilities =
     bindE (validate_audio_capabilities capabilities) (\<lambda>_.
     bindE (eachE (check_known_audio_type w) codecs) (\<lambda>_.
     bindE (eachE (check_audio_duplicate w codecs)
             (List.product AUDIO_CODEC_TYPES [Encoder, Decoder])) (\<lambda>_.
     eachE (validate_audio_entry w capabilities) codecs)))"

subsection \<open>The contract\<close>

definition audio_codec_key :: "audio_preference_codec \<Rightarrow> codec_direction \<times> audio_codec_type" where
  "audio_codec_key c = (apc_direction c, apc_codec_type c)"

lemma audio_entry_is_key: "audio_entry_is d t = (\<lambda>c. audio_codec_key c = (d, t))"
  by (auto simp: audio_entry_is_def audio_codec_key_def fun_eq_iff)

lemma audio_codec_key_set_audio_implementation [simp]:
  "audio_codec_key (set_audio_implementation i c) = audio_codec_key c"
  "apc_implementation (set_audio_implementation i c) = i"
  by (simp_all add: audio_codec_key_def set_audio_implementation_def)

lemma merge_audio_codec_eq:
  "merge_audio_codec cs d =
     (case find (\<lambda>c. audio_codec_key c = audio_codec_key d) cs of
        Some _ \<Rightarrow> update_first (\<lambda>c. audio_codec_key c = audio_codec_key d)
          (set_audio_implementation (apc_implementation d)) cs
      | None \<Rightarrow> cs @ [d])"
proof -
  have "audio_entry_is (apc_direction d) (apc_codec_type d) = (\<lambda>c. audio_codec_key c = audio_codec_key d)"
    by (simp add: audio_entry_is_key audio_codec_key_def [of d])
  then show ?thesis by (simp only: merge_audio_codec_def find_audio_codec_def)
qed

interpretation audio_pref:
  codec_preference audio_codec_key apc_implementation "\<lambda>cs k. find_audio_codec cs (fst k) (snd k)" merge_audio_codec
proof
  show "find_audio_codec cs (fst k) (snd k) = find (\<lambda>c. audio_codec_key c = k) cs" for cs k
    by (simp add: find_audio_codec_def audio_entry_is_key)
  show "find_audio_codec (merge_audio_codec cs d) (fst k) (snd k) = find_audio_codec cs (fst k) (snd k)"
    if "k \<noteq> audio_codec_key d" for k d cs
  proof -
    have "find (\<lambda>c. audio_codec_key c = k) (update_first (\<lambda>c. audio_codec_key c = audio_codec_key d)
        (set_audio_implementation i) cs) = find (\<lambda>c. audio_codec_key c = k) cs" for i
      by (rule find_update_first_other) (use that in auto)
    with that show ?thesis
      by (auto simp: find_audio_codec_def audio_entry_is_key merge_audio_codec_eq find_append split: option.splits)
  qed
  show "\<exists>e. find_audio_codec (merge_audio_codec cs d) (fst (audio_codec_key d)) (snd (audio_codec_key d)) = Some e \<and>
      apc_implementation e = apc_implementation d" for cs d
    by (auto simp: find_audio_codec_def audio_entry_is_key merge_audio_codec_eq find_append find_update_first_same
        split: option.splits)
  show "map audio_codec_key (merge_audio_codec cs d) =
      (if audio_codec_key d \<in> audio_codec_key ` set cs then map audio_codec_key cs
       else map audio_codec_key cs @ [audio_codec_key d])" for cs d
  proof (cases "find (\<lambda>c. audio_codec_key c = audio_codec_key d) cs")
    case None
    then have "audio_codec_key d \<notin> audio_codec_key ` set cs" by (auto simp: find_None_iff image_iff)
    with None show ?thesis by (simp add: merge_audio_codec_eq)
  next
    case (Some c)
    then have "audio_codec_key c = audio_codec_key d" "c \<in> set cs" using find_SomeD [OF Some] by simp_all
    then have "audio_codec_key d \<in> audio_codec_key ` set cs" by (metis image_eqI)
    with Some show ?thesis by (simp add: merge_audio_codec_eq map_update_first)
  qed
qed

lemma merge_audio_preference_eq: "merge_audio_preference = audio_pref.merge_all"
  by (intro ext) (simp add: merge_audio_preference_def audio_pref.merge_all_def)

text \<open>
  Fact. Merging audio preferences: afterwards the implementation found for a direction
  and a codec type is the one of the last entry of the merged list for them, or the old one when
  it has none; the old entries keep their places and the new ones follow; and a list without
  two entries for the same direction and type stays one.
\<close>

theorem merge_audio_preference_spec:
  "map_option apc_implementation (find_audio_codec (merge_audio_preference cs ds) d t) =
     (case find (audio_entry_is d t) (rev ds) of
        Some e \<Rightarrow> Some (apc_implementation e)
      | None \<Rightarrow> map_option apc_implementation (find_audio_codec cs d t)) \<and>
   (\<exists>added. map audio_codec_key (merge_audio_preference cs ds) = map audio_codec_key cs @ added) \<and>
   audio_codec_key ` set (merge_audio_preference cs ds) = audio_codec_key ` set cs \<union> audio_codec_key ` set ds \<and>
   (distinct (map audio_codec_key cs) \<longrightarrow> distinct (map audio_codec_key (merge_audio_preference cs ds)))"
  using audio_pref.find_merge [of cs ds "(d, t)"] audio_pref.merge_keeps_order [of cs ds]
    audio_pref.keys_merge [of cs ds] audio_pref.distinct_merge [of cs ds]
  unfolding merge_audio_preference_eq audio_entry_is_key fst_conv snd_conv by blast

subsection \<open>Validation\<close>

lemma validate_audio_capabilities_from_Inr:
  "validate_audio_capabilities_from names cs = Inr u \<longleftrightarrow>
     distinct (map (ai_name \<circ> audio_get_implementation) cs) \<and>
     names \<inter> (ai_name \<circ> audio_get_implementation) ` set cs = {}"
  by (induction cs arbitrary: names) auto

lemma check_audio_duplicate_Inr:
  "check_audio_duplicate w cs (t, d) = Inr u \<longleftrightarrow> length (filter (\<lambda>c. audio_codec_key c = (d, t)) cs) < 2"
  by (auto simp: check_audio_duplicate_def audio_entry_is_key not_le split: option.splits)

lemma mem_audio_types_directions:
  "(t, d) \<in> set (List.product AUDIO_CODEC_TYPES [Encoder, Decoder]) \<longleftrightarrow> t \<in> set AUDIO_CODEC_TYPES"
  by (cases d) simp_all

lemma check_audio_duplicates_Inr:
  assumes "apc_codec_type ` set cs \<subseteq> set AUDIO_CODEC_TYPES"
  shows "eachE (check_audio_duplicate w cs) (List.product AUDIO_CODEC_TYPES [Encoder, Decoder]) = Inr u
    \<longleftrightarrow> distinct (map audio_codec_key cs)"
proof -
  have "snd ` audio_codec_key ` set cs \<subseteq> set AUDIO_CODEC_TYPES"
    using assms by (auto simp: audio_codec_key_def)
  then show ?thesis
    by (simp only: eachE_Inr Ball_def split_paired_All check_audio_duplicate_Inr mem_audio_types_directions
        counts_distinct)
qed

lemma known_audio_type_Inr:
  "check_known_audio_type w c = Inr u \<longleftrightarrow> apc_codec_type c \<in> set AUDIO_CODEC_TYPES"
  by (simp add: check_known_audio_type_def)

lemma validate_audio_entry_Inr:
  "validate_audio_entry w caps c = Inr u \<longleftrightarrow>
     (\<exists>cap. find_audio_capability caps (apc_implementation c) = Some cap \<and>
        audio_is_supported cap (apc_direction c) (apc_codec_type c))"
  by (auto simp: validate_audio_entry_def Let_def split: option.splits codec_direction.splits)

lemma validate_audio_preference_Inr:
  "validate_audio_codec_preference w cs caps = Inr () \<longleftrightarrow>
     distinct (map (ai_name \<circ> audio_get_implementation) caps) \<and>
     apc_codec_type ` set cs \<subseteq> set AUDIO_CODEC_TYPES \<and> distinct (map audio_codec_key cs) \<and>
     (\<forall>c \<in> set cs. \<exists>cap. find_audio_capability caps (apc_implementation c) = Some cap \<and>
        audio_is_supported cap (apc_direction c) (apc_codec_type c))"
proof (cases "apc_codec_type ` set cs \<subseteq> set AUDIO_CODEC_TYPES")
  case True
  then have known: "eachE (check_known_audio_type w) cs = Inr ()"
    by (auto simp: eachE_Inr known_audio_type_Inr)
  show ?thesis
    unfolding validate_audio_codec_preference_def known bindE_Inr bindE_eq_Inr
      validate_audio_capabilities_def validate_audio_capabilities_from_Inr check_audio_duplicates_Inr [OF True]
    by (simp add: eachE_Inr validate_audio_entry_Inr True)
next
  case False
  then have "eachE (check_known_audio_type w) cs \<noteq> Inr u" for u
    by (auto simp: eachE_Inr known_audio_type_Inr)
  with False show ?thesis
    by (simp add: validate_audio_codec_preference_def bindE_eq_Inr)
qed

text \<open>
  Fact. Validation of a audio preference: it succeeds exactly when no two capabilities
  share an implementation name, every codec type is one of the five known ones, no direction and
  type has two entries, and every entry's implementation is there and supports the type in the
  entry's direction.
\<close>

theorem validate_audio_codec_preference_spec:
  "validate_audio_codec_preference w cs caps = Inr () \<longleftrightarrow>
     distinct (map (ai_name \<circ> audio_get_implementation) caps) \<and>
     apc_codec_type ` set cs \<subseteq> set AUDIO_CODEC_TYPES \<and> distinct (map audio_codec_key cs) \<and>
     list_all (\<lambda>c. list_ex (\<lambda>cap. ai_name (audio_get_implementation cap) = ai_name (apc_implementation c) \<and>
       audio_is_supported cap (apc_direction c) (apc_codec_type c)) caps) cs"
proof (cases "distinct (map (ai_name \<circ> audio_get_implementation) caps)")
  case True
  have "(\<exists>cap. find_audio_capability caps i = Some cap \<and> audio_is_supported cap d t) \<longleftrightarrow>
      list_ex (\<lambda>cap. ai_name (audio_get_implementation cap) = ai_name i \<and> audio_is_supported cap d t) caps"
    for i d t
  proof
    assume "\<exists>cap. find_audio_capability caps i = Some cap \<and> audio_is_supported cap d t"
    then obtain cap where "find_audio_capability caps i = Some cap" "audio_is_supported cap d t" by blast
    with find_audio_capability_Some [of caps i cap] show "list_ex (\<lambda>cap.
        ai_name (audio_get_implementation cap) = ai_name i \<and> audio_is_supported cap d t) caps"
      unfolding list_ex_iff by blast
  next
    assume "list_ex (\<lambda>cap. ai_name (audio_get_implementation cap) = ai_name i \<and> audio_is_supported cap d t) caps"
    then obtain cap where cap: "cap \<in> set caps" "ai_name (audio_get_implementation cap) = ai_name i"
      "audio_is_supported cap d t" unfolding list_ex_iff by blast
    with find_audio_capability_distinct [OF True cap(1,2)]
    show "\<exists>cap. find_audio_capability caps i = Some cap \<and> audio_is_supported cap d t" by blast
  qed
  then show ?thesis by (simp add: validate_audio_preference_Inr list_all_iff)
qed (simp add: validate_audio_preference_Inr)

subsection \<open>A preference made from a capability\<close>

definition audio_capability_entry ::
    "('i, 'o, 'e, 'd) audio_capability \<Rightarrow> audio_codec_type \<times> codec_direction \<Rightarrow> audio_preference_codec" where
  "audio_capability_entry cap = (\<lambda>(t, d).
     \<lparr>apc_direction = d, apc_codec_type = t, apc_implementation = audio_get_implementation cap\<rparr>)"

lemma new_from_audio_capability_eq:
  "new_from_audio_capability cap =
     map (audio_capability_entry cap)
       (filter (\<lambda>(t, d). audio_is_supported cap d t) (List.product AUDIO_CODEC_TYPES [Encoder, Decoder]))"
  unfolding new_from_audio_capability_def concat_guarded_product audio_capability_entry_def ..

lemma set_new_from_audio_capability:
  "set (new_from_audio_capability cap) =
     audio_capability_entry cap ` {(t, d). t \<in> set AUDIO_CODEC_TYPES \<and> audio_is_supported cap d t}"
proof -
  have "{x \<in> set (List.product AUDIO_CODEC_TYPES [Encoder, Decoder]). case x of (t, d) \<Rightarrow> audio_is_supported cap d t}
      = {(t, d). t \<in> set AUDIO_CODEC_TYPES \<and> audio_is_supported cap d t}"
    using mem_audio_types_directions by (auto simp del: set_product)
  then show ?thesis by (simp add: new_from_audio_capability_eq del: set_product)
qed

lemma distinct_new_from_audio_capability: "distinct (map audio_codec_key (new_from_audio_capability cap))"
proof -
  have "audio_codec_key \<circ> audio_capability_entry cap = prod.swap"
    by (auto simp: audio_codec_key_def audio_capability_entry_def)
  moreover have "distinct (List.product AUDIO_CODEC_TYPES [Encoder, Decoder])"
    by (simp add: distinct_product AUDIO_CODEC_TYPES_def)
  ultimately show ?thesis
    unfolding new_from_audio_capability_eq map_map by (simp add: distinct_map distinct_filter inj_on_def)
qed

text \<open>
  Fact. A preference made from a capability lists exactly the known types the capability
  supports, per direction, and it passes the validation against every list of capabilities with
  distinct names that contains the capability.
\<close>

theorem new_from_audio_capability_valid:
  assumes "distinct (map (ai_name \<circ> audio_get_implementation) caps)" and "cap \<in> set caps"
  shows "validate_audio_codec_preference w (new_from_audio_capability cap) caps = Inr () \<and>
    (\<forall>d t. (find_audio_codec (new_from_audio_capability cap) d t \<noteq> None) =
       (t \<in> set AUDIO_CODEC_TYPES \<and> audio_is_supported cap d t))"
proof
  have "\<exists>cap'. find_audio_capability caps (apc_implementation c) = Some cap' \<and>
      audio_is_supported cap' (apc_direction c) (apc_codec_type c)"
    if "c \<in> set (new_from_audio_capability cap)" for c
    using that find_audio_capability_distinct [OF assms]
    by (auto simp: set_new_from_audio_capability audio_capability_entry_def)
  moreover have "apc_codec_type ` set (new_from_audio_capability cap) \<subseteq> set AUDIO_CODEC_TYPES"
    by (auto simp: set_new_from_audio_capability audio_capability_entry_def)
  ultimately show "validate_audio_codec_preference w (new_from_audio_capability cap) caps = Inr ()"
    using assms(1) distinct_new_from_audio_capability by (simp add: validate_audio_preference_Inr)
  show "\<forall>d t. (find_audio_codec (new_from_audio_capability cap) d t \<noteq> None) =
      (t \<in> set AUDIO_CODEC_TYPES \<and> audio_is_supported cap d t)"
  proof (intro allI)
    fix d t
    have "(find_audio_codec (new_from_audio_capability cap) d t = None) =
        (\<forall>c \<in> set (new_from_audio_capability cap). \<not> audio_entry_is d t c)"
      by (auto simp: find_audio_codec_def find_None_iff)
    also have "\<dots> = (\<not> (t \<in> set AUDIO_CODEC_TYPES \<and> audio_is_supported cap d t))"
      by (auto simp: set_new_from_audio_capability audio_capability_entry_def audio_entry_is_def)
    finally show "(find_audio_codec (new_from_audio_capability cap) d t \<noteq> None) =
        (t \<in> set AUDIO_CODEC_TYPES \<and> audio_is_supported cap d t)" by simp
  qed
qed

subsection \<open>Round trip\<close>

lemma audio_preference_codec_roundtrip:
  assumes "json_faithful J rep" and "audio_preference_codec_to_json w c = Some j"
    and "\<And>name. audio_codec_as_str w (apc_codec_type c) = Some name \<Longrightarrow>
      audio_codec_try_from w name = Some (apc_codec_type c)"
  shows "audio_preference_codec_of_json J w (rep j) = Inr c"
  using assms
  by (auto simp: audio_preference_codec_to_json_def audio_preference_codec_of_json_def bind_eq_Some_conv
      json_required_member direction_roundtrip audio_implementation_roundtrip parse_audio_codec_type_def
      json_faithful_simps)

text \<open>
  Fact. Round trip of a preference: what \<^verbatim>\<open>DisplayJson\<close> prints, when it prints, is read
  back by \<^verbatim>\<open>TryFrom\<close> as the same list, provided codec names are read back as their types.
\<close>

theorem audio_preference_roundtrip:
  assumes "json_faithful J rep"
    and "\<And>t name. audio_codec_as_str w t = Some name \<Longrightarrow> audio_codec_try_from w name = Some t"
    and "audio_preference_to_json w cs = Some j"
  shows "audio_preference_of_json J w (rep j) = Inr cs"
proof -
  from assms(3) obtain js where js: "all_json (audio_preference_codec_to_json w) cs = Some js"
    and j: "j = JObj [(''codecs'', JArr js)]"
    by (auto simp: audio_preference_to_json_def bind_eq_Some_conv)
  have map: "js = map (the \<circ> audio_preference_codec_to_json w) cs"
    and some: "\<forall>c \<in> set cs. audio_preference_codec_to_json w c \<noteq> None"
    using all_json_map [OF js] by auto
  have "json_parse_array J (audio_preference_codec_of_json J w)
      (rep (JArr (map (the \<circ> audio_preference_codec_to_json w) cs))) = Inr cs"
  proof (rule json_parse_array_rep [OF assms(1)])
    fix c assume "c \<in> set cs"
    with some obtain i where "audio_preference_codec_to_json w c = Some i" by blast
    with assms(1,2) show "audio_preference_codec_of_json J w
        (rep ((the \<circ> audio_preference_codec_to_json w) c)) = Inr c"
      by (simp add: audio_preference_codec_roundtrip)
  qed
  with assms(1) j map show ?thesis
    by (simp add: audio_preference_of_json_def json_required_member)
qed

subsection \<open>Witnesses\<close>

fun example_audio_name :: "audio_codec_type \<Rightarrow> string option" where
  "example_audio_name Opus = Some ''opus''"
| "example_audio_name PcmU = Some ''PCMU''"
| "example_audio_name _ = None"

definition example_audio_webrtc :: audio_webrtc where
  "example_audio_webrtc =
     \<lparr>audio_codec_try_from = (\<lambda>s. find (\<lambda>t. example_audio_name t = Some s) [Opus, PcmU]),
      audio_codec_as_str = example_audio_name,
      audio_is_equal = (\<lambda>f g. af_name f = af_name g),
      audio_matches = (\<lambda>f g. af_name f = af_name g)\<rparr>"

lemma example_audio_webrtc_names:
  "audio_codec_as_str example_audio_webrtc t = Some name \<Longrightarrow>
     audio_codec_try_from example_audio_webrtc name = Some t"
  by (cases t) (auto simp: example_audio_webrtc_def)

definition example_audio_implementation :: audio_codec_implementation where
  "example_audio_implementation = \<lparr>ai_name = ''impl'', ai_description = ''Example''\<rparr>"

definition example_audio_capability :: "(unit, unit, unit, unit) audio_capability" where
  "example_audio_capability =
     \<lparr>audio_get_implementation = example_audio_implementation,
      get_supported_codec_specs = (\<lambda>_. [\<lparr>spec_format = \<lparr>af_name = Some ''opus'',
        af_params = Map.empty\<rparr>, spec_info = ()\<rparr>]),
      audio_is_supported = (\<lambda>d t. d = Encoder \<and> t = Opus), audio_query = (\<lambda>_ _. Some ()),
      create_audio_encoder = (\<lambda>_ _. Some ()), create_audio_decoder = (\<lambda>_. None)\<rparr>"

definition example_audio_preference_codec :: audio_preference_codec where
  "example_audio_preference_codec =
     \<lparr>apc_direction = Encoder, apc_codec_type = Opus,
      apc_implementation = example_audio_implementation\<rparr>"

theorem merge_audio_preference_spec_witness:
  "distinct (map audio_codec_key (merge_audio_preference [example_audio_preference_codec] [example_audio_preference_codec]))"
  using merge_audio_preference_spec [of "[example_audio_preference_codec]" "[example_audio_preference_codec]" Encoder Opus]
  by simp

theorem new_from_audio_capability_valid_witness:
  "validate_audio_codec_preference example_audio_webrtc (new_from_audio_capability example_audio_capability)
     [example_audio_capability] = Inr ()"
  using new_from_audio_capability_valid [of "[example_audio_capability]" example_audio_capability example_audio_webrtc]
  by simp

theorem audio_preference_roundtrip_witness:
  "audio_preference_of_json (tree_nojson JNull) example_audio_webrtc
     (id (the (audio_preference_to_json example_audio_webrtc [example_audio_preference_codec])))
     = Inr [example_audio_preference_codec]"
proof (rule audio_preference_roundtrip [OF tree_nojson_faithful])
  show "audio_codec_as_str example_audio_webrtc t = Some name \<Longrightarrow> audio_codec_try_from example_audio_webrtc name = Some t"
    for t name by (rule example_audio_webrtc_names)
  show "audio_preference_to_json example_audio_webrtc [example_audio_preference_codec]
      = Some (the (audio_preference_to_json example_audio_webrtc [example_audio_preference_codec]))"
    by (simp add: audio_preference_to_json_def audio_preference_codec_to_json_def example_audio_preference_codec_def
        example_audio_webrtc_def)
qed

end
