(* ===== verification/Audio_Codec.thy ===== *)
theory Audio_Codec
  imports Audio_Preference
begin

text \<open>
  \<^verbatim>\<open>src/audio_codec.rs\<close>: the audio encoder and decoder factories over a preference and its
  capabilities, and the list of specifications they advertise.
\<close>

definition audio_factory_capability ::
    "audio_webrtc \<Rightarrow> audio_preference_codec list \<Rightarrow> ('i, 'o, 'e, 'd) audio_capability list \<Rightarrow>
     codec_direction \<Rightarrow> sdp_audio_format \<Rightarrow> ('i, 'o, 'e, 'd) audio_capability option" where
  "audio_factory_capability w preference capabilities direction format =
     do { format_name \<leftarrow> af_name format;
          codec_type \<leftarrow> audio_codec_try_from w format_name;
          codec \<leftarrow> find_audio_codec preference direction codec_type;
          find_audio_capability capabilities (apc_implementation codec) }"

definition audio_factory_query_encoder ::
    "audio_webrtc \<Rightarrow> audio_preference_codec list \<Rightarrow> ('i, 'o, 'e, 'd) audio_capability list \<Rightarrow>
     sdp_audio_format \<Rightarrow> 'i option" where
  "audio_factory_query_encoder w preference capabilities format =
     do { capability \<leftarrow> audio_factory_capability w preference capabilities Encoder format;
          audio_query capability Encoder format }"

definition audio_encoder_factory_create ::
    "audio_webrtc \<Rightarrow> audio_preference_codec list \<Rightarrow> ('i, 'o, 'e, 'd) audio_capability list \<Rightarrow>
     sdp_audio_format \<Rightarrow> 'o \<Rightarrow> 'e option" where
  "audio_encoder_factory_create w preference capabilities format options =
     do { capability \<leftarrow> audio_factory_capability w preference capabilities Encoder format;
          create_audio_encoder capability format options }"

definition audio_factory_is_supported_decoder ::
    "audio_webrtc \<Rightarrow> audio_preference_codec list \<Rightarrow> ('i, 'o, 'e, 'd) audio_capability list \<Rightarrow>
     sdp_audio_format \<Rightarrow> bool" where
  "audio_factory_is_supported_decoder w preference capabilities format =
     (case audio_factory_capability w preference capabilities Decoder format of
        None \<Rightarrow> False
      | Some capability \<Rightarrow> audio_query capability Decoder format \<noteq> None)"

definition audio_decoder_factory_create ::
    "audio_webrtc \<Rightarrow> audio_preference_codec list \<Rightarrow> ('i, 'o, 'e, 'd) audio_capability list \<Rightarrow>
     sdp_audio_format \<Rightarrow> 'd option" where
  "audio_decoder_factory_create w preference capabilities format =
     do { capability \<leftarrow> audio_factory_capability w preference capabilities Decoder format;
          create_audio_decoder capability format }"

definition push_spec ::
    "audio_webrtc \<Rightarrow> audio_codec_type \<Rightarrow> 'i audio_codec_spec list \<Rightarrow> 'i audio_codec_spec \<Rightarrow>
     'i audio_codec_spec list" where
  "push_spec w codec_type specs spec =
     (let format = spec_format spec
      in if do { name \<leftarrow> af_name format; audio_codec_try_from w name } \<noteq> Some codec_type then specs
         else if list_ex (\<lambda>existing. audio_is_equal w (spec_format existing) format) specs then specs
         else specs @ [\<lparr>spec_format = format, spec_info = spec_info spec\<rparr>])"

definition push_codec_specs ::
    "audio_webrtc \<Rightarrow> ('i, 'o, 'e, 'd) audio_capability list \<Rightarrow> codec_direction \<Rightarrow>
     'i audio_codec_spec list \<Rightarrow> audio_preference_codec \<Rightarrow> 'i audio_codec_spec list" where
  "push_codec_specs w capabilities direction specs codec =
     (if apc_direction codec \<noteq> direction then specs
      else case find_audio_capability capabilities (apc_implementation codec) of
        None \<Rightarrow> specs
      | Some capability \<Rightarrow>
          foldl (push_spec w (apc_codec_type codec)) specs
            (get_supported_codec_specs capability (apc_direction codec)))"

definition collect_audio_codec_specs ::
    "audio_webrtc \<Rightarrow> audio_preference_codec list \<Rightarrow> ('i, 'o, 'e, 'd) audio_capability list \<Rightarrow>
     codec_direction \<Rightarrow> 'i audio_codec_spec list" where
  "collect_audio_codec_specs w preference capabilities direction =
     foldl (push_codec_specs w capabilities direction) [] preference"

lemma audio_factory_capability_Some:
  assumes "audio_factory_capability w prefs caps d f = Some cap"
  obtains c where "c \<in> set prefs" "apc_direction c = d" "cap \<in> set caps"
    "Option.bind (af_name f) (audio_codec_try_from w) = Some (apc_codec_type c)"
    "find_audio_codec prefs d (apc_codec_type c) = Some c"
    "find_audio_capability caps (apc_implementation c) = Some cap"
proof -
  from assms obtain n t c where c: "af_name f = Some n" "audio_codec_try_from w n = Some t"
    "find_audio_codec prefs d t = Some c" "find_audio_capability caps (apc_implementation c) = Some cap"
    by (auto simp: audio_factory_capability_def bind_eq_Some_conv)
  from find_SomeD [OF c(3) [unfolded find_audio_codec_def]]
  have "c \<in> set prefs" "apc_direction c = d" "apc_codec_type c = t"
    by (simp_all add: audio_entry_is_def)
  with c find_audio_capability_Some [OF c(4)] show thesis by (intro that) auto
qed

text \<open>
  Fact. Audio factories under a validated preference: when the encoder or the decoder
  factory answers a query or creates something for a format, it is the answer of a capability
  that a preference entry of that direction names for the codec type of the format and that
  supports it, and this capability got the format and the options unchanged.
\<close>

theorem audio_factories_serve_preference:
  assumes "validate_audio_codec_preference w prefs caps = Inr ()"
    and "audio_factory_capability w prefs caps d f = Some cap"
  shows "(\<exists>c. find_audio_codec prefs d (apc_codec_type c) = Some c \<and>
      Option.bind (af_name f) (audio_codec_try_from w) = Some (apc_codec_type c) \<and>
      ai_name (audio_get_implementation cap) = ai_name (apc_implementation c) \<and>
      audio_is_supported cap d (apc_codec_type c)) \<and>
    (d = Encoder \<longrightarrow>
      audio_factory_query_encoder w prefs caps f = audio_query cap Encoder f \<and>
      audio_encoder_factory_create w prefs caps f options = create_audio_encoder cap f options) \<and>
    (d = Decoder \<longrightarrow>
      audio_factory_is_supported_decoder w prefs caps f = (audio_query cap Decoder f \<noteq> None) \<and>
      audio_decoder_factory_create w prefs caps f = create_audio_decoder cap f)"
proof -
  from assms(2) obtain c where c: "c \<in> set prefs" "apc_direction c = d" "cap \<in> set caps"
    "Option.bind (af_name f) (audio_codec_try_from w) = Some (apc_codec_type c)"
    "find_audio_codec prefs d (apc_codec_type c) = Some c"
    "find_audio_capability caps (apc_implementation c) = Some cap"
    by (rule audio_factory_capability_Some)
  moreover have "audio_is_supported cap d (apc_codec_type c)"
    using assms(1) c(1,2,6) by (auto simp: validate_audio_preference_Inr)
  ultimately show ?thesis
    using find_audio_capability_Some [OF c(6)] assms(2)
    by (auto simp: audio_factory_query_encoder_def audio_encoder_factory_create_def
        audio_factory_is_supported_decoder_def audio_decoder_factory_create_def)
qed

theorem audio_factories_serve_preference_witness:
  "audio_encoder_factory_create example_audio_webrtc [example_audio_preference_codec]
     [example_audio_capability] \<lparr>af_name = Some ''opus'', af_params = Map.empty\<rparr> () = Some ()"
proof -
  have "validate_audio_codec_preference example_audio_webrtc [example_audio_preference_codec]
      [example_audio_capability] = Inr ()"
    by (simp add: validate_audio_preference_Inr example_audio_preference_codec_def
        example_audio_capability_def find_audio_capability_def AUDIO_CODEC_TYPES_def)
  moreover have "audio_factory_capability example_audio_webrtc [example_audio_preference_codec]
      [example_audio_capability] Encoder \<lparr>af_name = Some ''opus'', af_params = Map.empty\<rparr>
      = Some example_audio_capability"
    by (simp add: audio_factory_capability_def example_audio_webrtc_def find_audio_codec_def
        audio_entry_is_def example_audio_preference_codec_def find_audio_capability_def
        example_audio_capability_def)
  ultimately show ?thesis
    using audio_factories_serve_preference [of example_audio_webrtc "[example_audio_preference_codec]"
        "[example_audio_capability]" Encoder "\<lparr>af_name = Some ''opus'', af_params = Map.empty\<rparr>"
        example_audio_capability "()"]
    by (simp add: example_audio_capability_def)
qed

end
