(* ===== verification/Version.thy ===== *)
theory Version
  imports Prelude
begin

text \<open>
  The client and environment names of \<^verbatim>\<open>src/version.rs\<close>. The version of the WebRTC crate, the
  architecture, the contents of \<^verbatim>\<open>/etc/os-release\<close> and the output of \<^verbatim>\<open>sw_vers\<close> are arguments; white
  space is that of ASCII.
\<close>

subsection \<open>Texts\<close>

fun split_on :: "char \<Rightarrow> string \<Rightarrow> string list" where
  "split_on c [] = [[]]"
| "split_on c (x # xs) =
     (if x = c then [] # split_on c xs
      else case split_on c xs of [] \<Rightarrow> [[x]] | p # ps \<Rightarrow> (x # p) # ps)"

definition is_space :: "char \<Rightarrow> bool" where
  "is_space c \<longleftrightarrow> of_char c = (32 :: nat) \<or> (9 \<le> (of_char c :: nat) \<and> of_char c \<le> (13 :: nat))"

definition trim_by :: "(char \<Rightarrow> bool) \<Rightarrow> string \<Rightarrow> string" where
  "trim_by p s = rev (dropWhile p (rev (dropWhile p s)))"

fun strip_prefix :: "string \<Rightarrow> string \<Rightarrow> string option" where
  "strip_prefix [] s = Some s"
| "strip_prefix (p # ps) [] = None"
| "strip_prefix (p # ps) (x # xs) = (if p = x then strip_prefix ps xs else None)"

text \<open>\<^verbatim>\<open>str::lines\<close>: a last empty line is dropped, and a carriage return before the end of a line.\<close>

definition strip_cr :: "string \<Rightarrow> string" where
  "strip_cr l = (if l \<noteq> [] \<and> last l = char_of (13 :: nat) then butlast l else l)"

definition text_lines :: "string \<Rightarrow> string list" where
  "text_lines s =
     (let ls = split_on (char_of (10 :: nat)) s in
      map strip_cr (if last ls = [] then butlast ls else ls))"

fun find_map :: "('a \<Rightarrow> 'b option) \<Rightarrow> 'a list \<Rightarrow> 'b option" where
  "find_map f [] = None"
| "find_map f (x # xs) = (case f x of None \<Rightarrow> find_map f xs | Some y \<Rightarrow> Some y)"

subsection \<open>Names\<close>

definition get_sora_client_name :: "string \<Rightarrow> string" where
  "get_sora_client_name pkg_version = ''Sora Rust SDK '' @ pkg_version"

definition get_libwebrtc_name :: "string \<Rightarrow> string" where
  "get_libwebrtc_name version =
     (let parts = split_on CHR ''.'' version in
      ''Shiguredo-Build M'' @ (if 1 < length parts then parts ! 1 else ''0''))"

definition get_environment_name :: "string \<Rightarrow> string \<Rightarrow> string" where
  "get_environment_name arch os_info = ''['' @ arch @ ''] '' @ os_info"

definition get_os_info_macos :: "string option \<Rightarrow> string" where
  "get_os_info_macos product_version =
     (let version = trim_by is_space (case product_version of None \<Rightarrow> [] | Some v \<Rightarrow> v) in
      if version = [] then ''macOS'' else ''macOS '' @ version)"

definition pretty_name :: "string \<Rightarrow> string option" where
  "pretty_name line =
     map_option (trim_by (\<lambda>c. c = CHR 0x22)) (strip_prefix ''PRETTY_NAME='' (trim_by is_space line))"

definition get_os_info_linux :: "string option \<Rightarrow> string" where
  "get_os_info_linux os_release =
     (case do { contents \<leftarrow> os_release; find_map pretty_name (text_lines contents) } of
        None \<Rightarrow> ''Linux''
      | Some name \<Rightarrow> name)"

subsection \<open>The milestone of libwebrtc\<close>

lemma split_on_append: "c \<notin> set xs \<Longrightarrow> split_on c (xs @ c # ys) = xs # split_on c ys"
  by (induction xs) auto

lemma split_on_none: "c \<notin> set xs \<Longrightarrow> split_on c xs = [xs]"
  by (induction xs) auto

text \<open>
  Fact. The name of libwebrtc carries the second component of the version of the WebRTC
  crate, and 0 when the version has no second component.
\<close>

theorem get_libwebrtc_name_spec:
  assumes "CHR ''.'' \<notin> set major" and "CHR ''.'' \<notin> set minor"
  shows "get_libwebrtc_name (major @ CHR ''.'' # minor @ CHR ''.'' # rest) =
      ''Shiguredo-Build M'' @ minor"
    and "get_libwebrtc_name (major @ CHR ''.'' # minor) = ''Shiguredo-Build M'' @ minor"
    and "get_libwebrtc_name major = ''Shiguredo-Build M0''"
  using assms by (simp_all add: get_libwebrtc_name_def split_on_append split_on_none)

theorem get_libwebrtc_name_spec_witness:
  "get_libwebrtc_name ''0.146.0-canary.0'' = ''Shiguredo-Build M146''"
  using get_libwebrtc_name_spec(1) [of "''0''" "''146''" "''0-canary.0''"] by simp

end
