(* ===== verification/Sora_Error.thy ===== *)
theory Sora_Error
  imports Mp4_Types
begin

text \<open>
  The error type of the crate, \<^verbatim>\<open>src/error.rs\<close>. A \<^verbatim>\<open>JsonParseError\<close> is of the type parameter
  \<open>'x\<close>; every other error value of a library the crate calls (I/O, URI, HTTP, TLS, WebSocket,
  WebRTC, UTF-8, channels, clock) is of \<open>'e\<close>, tagged by its variant. The seventy variants are
  grouped by the part of the crate that raises them, one datatype per group, because the
  checking time of a datatype grows with the square of its constructors. The variants of the
  optional hardware features and the texts of \<^verbatim>\<open>Display\<close> are left out.
\<close>

datatype 'e url_error =
    HostEmpty
  | HostInvalidFormat
  | UriParse 'e
  | UrlMissingScheme
  | UrlUnsupportedScheme string
  | UrlUserinfoNotSupported
  | UrlFragmentNotAllowed
  | UrlMissingHost

datatype 'e proxy_error =
    ProxyUrlUnsupportedScheme string
  | ProxyUrlUserinfoNotSupported
  | ProxyUrlFragmentNotAllowed
  | ProxyUrlMissingHost
  | ProxyUrlPathNotAllowed string
  | ProxyUrlQueryNotAllowed
  | ProxyConnectDecode 'e
  | ProxyConnectEncode 'e
  | ProxyConnectResponseMissing
  | ProxyConnectStatusNotSuccessful u16 string
  | ProxyConnectUnexpectedTrailingData
  | ProxyConnectTimeout string u16
  | ProxyAuth 'e

datatype 'e transport_error =
    DnsResolve string 'e
  | NoResolvedAddress string u16
  | TcpConnectTimeout string u16
  | TcpConnect string u16 'e
  | TlsConfig 'e
  | InvalidServerName 'e
  | TlsConnectTimeout string
  | TlsConnect string 'e
  | Websocket 'e
  | IoError 'e

datatype 'e negotiation_error =
    WebrtcError 'e
  | SetRemoteDescriptionTimeout
  | SetRemoteDescriptionResponseMissing
  | SetRemoteDescriptionFailed string
  | AnswerTimeout
  | AnswerResponseMissing
  | AnswerFailed string
  | SetLocalDescriptionTimeout
  | SetLocalDescriptionResponseMissing
  | SetLocalDescriptionFailed string
  | SimulcastVideoSenderMissing
  | SimulcastSetParametersFailed 'e
  | DegradationPreferenceSetParametersFailed 'e
  | UnknownDegradationPreference "32 word"
  | AdaptivePtimeSetParametersFailed 'e

datatype 'e setup_error =
    InvalidVideoCodecCapability string
  | InvalidVideoCodecPreference string
  | InvalidAudioCodecCapability string
  | InvalidAudioCodecPreference string
  | TurnTlsCaCert string
  | ClientCertParse
  | ClientKeyParse
  | CaCertParse
  | ClientCertKeyIncomplete
  | InvalidSystemTime 'e
  | Mp4Failed "'e mp4_error"

datatype ('x, 'e) sora_error =
    InvalidRole string
  | UrlError "'e url_error"
  | ProxyError "'e proxy_error"
  | TransportError "'e transport_error"
  | NegotiationError "'e negotiation_error"
  | SetupError "'e setup_error"
  | JsonParse 'x
  | DataChannelMissing string
  | DataChannelSendFailed
  | Redirected
  | InvalidDataChannelLabel string
  | Utf8DecodeFailed 'e
  | CandidateNotSupported
  | UnsupportedMessageType string
  | CommandSendFailed string string
  | CommandResponseMissing 'e string
  | CommandTimeout string
  | RpcTimeout
  | RpcProtocolViolation "u64 option"
  | SignalingUrlsEmpty
  | AllSignalingUrlsFailed "(string \<times> string) list"

text \<open>\<^verbatim>\<open>Error::source\<close>: the underlying error, for the variants that hold one.\<close>

datatype ('x, 'e) error_source = JsonSource 'x | ForeignSource 'e | Mp4Source "'e mp4_error"

fun url_error_source :: "'e url_error \<Rightarrow> 'e option" where
  "url_error_source (UriParse err) = Some err"
| "url_error_source _ = None"

fun proxy_error_source :: "'e proxy_error \<Rightarrow> 'e option" where
  "proxy_error_source (ProxyConnectDecode err) = Some err"
| "proxy_error_source (ProxyConnectEncode err) = Some err"
| "proxy_error_source (ProxyAuth err) = Some err"
| "proxy_error_source _ = None"

fun transport_error_source :: "'e transport_error \<Rightarrow> 'e option" where
  "transport_error_source (DnsResolve host err) = Some err"
| "transport_error_source (TcpConnect host port err) = Some err"
| "transport_error_source (TlsConfig err) = Some err"
| "transport_error_source (InvalidServerName err) = Some err"
| "transport_error_source (TlsConnect host err) = Some err"
| "transport_error_source (Websocket err) = Some err"
| "transport_error_source (IoError err) = Some err"
| "transport_error_source _ = None"

fun negotiation_error_source :: "'e negotiation_error \<Rightarrow> 'e option" where
  "negotiation_error_source (WebrtcError err) = Some err"
| "negotiation_error_source (SimulcastSetParametersFailed err) = Some err"
| "negotiation_error_source (DegradationPreferenceSetParametersFailed err) = Some err"
| "negotiation_error_source (AdaptivePtimeSetParametersFailed err) = Some err"
| "negotiation_error_source _ = None"

fun setup_error_source :: "'e setup_error \<Rightarrow> ('x, 'e) error_source option" where
  "setup_error_source (InvalidSystemTime err) = Some (ForeignSource err)"
| "setup_error_source (Mp4Failed err) = Some (Mp4Source err)"
| "setup_error_source _ = None"

fun sora_error_source :: "('x, 'e) sora_error \<Rightarrow> ('x, 'e) error_source option" where
  "sora_error_source (UrlError err) = map_option ForeignSource (url_error_source err)"
| "sora_error_source (ProxyError err) = map_option ForeignSource (proxy_error_source err)"
| "sora_error_source (TransportError err) = map_option ForeignSource (transport_error_source err)"
| "sora_error_source (NegotiationError err) =
     map_option ForeignSource (negotiation_error_source err)"
| "sora_error_source (SetupError err) = setup_error_source err"
| "sora_error_source (JsonParse err) = Some (JsonSource err)"
| "sora_error_source (Utf8DecodeFailed err) = Some (ForeignSource err)"
| "sora_error_source (CommandResponseMissing err command) = Some (ForeignSource err)"
| "sora_error_source _ = None"

end
