(* ===== verification/Types.thy ===== *)
theory Types
  imports Json Sora_Error "HOL-Library.Sublist"
begin

text \<open>
  The public types of \<^verbatim>\<open>src/types.rs\<close> and the JSON members they print. A \<^verbatim>\<open>JsonString\<close> is
  the validated text it holds, so it prints as \<open>JRaw\<close>. An optional field is a member that
  is present exactly when the field is \<^verbatim>\<open>Some\<close> (\<open>opt_member\<close>).
\<close>

subsection \<open>Roles\<close>

datatype signaling_type = WebSocketSignaling | DataChannelSignaling
datatype signaling_direction = Sent | Received

datatype role = SendOnly | RecvOnly | SendRecv

definition role_parse :: "string \<Rightarrow> ('x, 'e) sora_error + role" where
  "role_parse value =
     (if value = ''sendonly'' then Inr SendOnly
      else if value = ''recvonly'' then Inr RecvOnly
      else if value = ''sendrecv'' then Inr SendRecv
      else Inl (InvalidRole value))"

fun as_sora_role :: "role \<Rightarrow> string" where
  "as_sora_role SendOnly = ''sendonly''"
| "as_sora_role RecvOnly = ''recvonly''"
| "as_sora_role SendRecv = ''sendrecv''"

definition wants_send :: "role \<Rightarrow> bool" where
  "wants_send r = (case r of SendOnly \<Rightarrow> True | SendRecv \<Rightarrow> True | _ \<Rightarrow> False)"

definition wants_recv :: "role \<Rightarrow> bool" where
  "wants_recv r = (case r of RecvOnly \<Rightarrow> True | SendRecv \<Rightarrow> True | _ \<Rightarrow> False)"

text \<open>
  Fact. A role is parsed exactly from its Sora name, any other text is rejected with that
  text, and every role sends or receives.
\<close>

theorem role_parse_spec:
  "role_parse value = (Inr r :: ('x, 'e) sora_error + role) \<longleftrightarrow> value = as_sora_role r"
  "role_parse value = (Inl e :: ('x, 'e) sora_error + role) \<longleftrightarrow>
     (\<nexists>r. value = as_sora_role r) \<and> e = InvalidRole value"
  "wants_send r \<or> wants_recv r"
proof -
  show "role_parse value = (Inr r :: ('x, 'e) sora_error + role) \<longleftrightarrow> value = as_sora_role r"
    by (cases r) (simp_all add: role_parse_def)
  have "(\<exists>r. value = as_sora_role r) \<longleftrightarrow>
      value = ''sendonly'' \<or> value = ''recvonly'' \<or> value = ''sendrecv''"
    by (metis as_sora_role.simps role.exhaust)
  then show "role_parse value = (Inl e :: ('x, 'e) sora_error + role) \<longleftrightarrow>
      (\<nexists>r. value = as_sora_role r) \<and> e = InvalidRole value"
    by (simp add: role_parse_def eq_commute)
  show "wants_send r \<or> wants_recv r" by (cases r) (simp_all add: wants_send_def wants_recv_def)
qed

subsection \<open>JSON members\<close>

type_synonym json_string = string
type_synonym json_members = "(string \<times> json) list"

definition opt_member :: "string \<Rightarrow> ('a \<Rightarrow> json) \<Rightarrow> 'a option \<Rightarrow> json_members" where
  "opt_member k f x = (case x of None \<Rightarrow> [] | Some y \<Rightarrow> [(k, f y)])"

definition json_of_u32 :: "u32 \<Rightarrow> json" where "json_of_u32 x = JInt (uint x)"
definition json_of_i32 :: "i32 \<Rightarrow> json" where "json_of_i32 x = JInt (sint x)"

definition json_string_of_str ::
    "('v, 'x) nojson \<Rightarrow> string \<Rightarrow> ('x, 'e) sora_error + json_string" where
  "json_string_of_str J value =
     map_err JsonParse (bindE (json_parse J value) (\<lambda>v. Inr (json_text J v)))"

subsection \<open>Audio\<close>

record audio_opus_params =
  opus_channels :: "u32 option"
  opus_maxplaybackrate :: "u32 option"
  opus_minptime :: "u32 option"
  opus_ptime :: "u32 option"
  opus_stereo :: "bool option"
  opus_sprop_stereo :: "bool option"
  opus_useinbandfec :: "bool option"
  opus_usedtx :: "bool option"

definition opus_params_to_json :: "audio_opus_params \<Rightarrow> json" where
  "opus_params_to_json p = JObj
     (opt_member ''channels'' json_of_u32 (opus_channels p) @
      opt_member ''maxplaybackrate'' json_of_u32 (opus_maxplaybackrate p) @
      opt_member ''minptime'' json_of_u32 (opus_minptime p) @
      opt_member ''ptime'' json_of_u32 (opus_ptime p) @
      opt_member ''stereo'' JBool (opus_stereo p) @
      opt_member ''sprop_stereo'' JBool (opus_sprop_stereo p) @
      opt_member ''useinbandfec'' JBool (opus_useinbandfec p) @
      opt_member ''usedtx'' JBool (opus_usedtx p))"

datatype audio_codec = Opus

fun audio_codec_to_json :: "audio_codec \<Rightarrow> json" where
  "audio_codec_to_json Opus = JStr ''OPUS''"

datatype audio = AudioBool bool | AudioOpus "u32 option" "audio_opus_params option"

fun audio_to_json :: "audio \<Rightarrow> json" where
  "audio_to_json (AudioBool b) = JBool b"
| "audio_to_json (AudioOpus bit_rate params) = JObj
     ((''codec_type'', audio_codec_to_json Opus) #
      opt_member ''bit_rate'' json_of_u32 bit_rate @
      opt_member ''opus_params'' opus_params_to_json params)"

subsection \<open>Video\<close>

datatype video_codec = VideoCodecVp8 | VideoCodecVp9 | VideoCodecH264 | VideoCodecH265 | VideoCodecAv1

fun video_codec_to_json :: "video_codec \<Rightarrow> json" where
  "video_codec_to_json VideoCodecVp8 = JStr ''VP8''"
| "video_codec_to_json VideoCodecVp9 = JStr ''VP9''"
| "video_codec_to_json VideoCodecH264 = JStr ''H264''"
| "video_codec_to_json VideoCodecH265 = JStr ''H265''"
| "video_codec_to_json VideoCodecAv1 = JStr ''AV1''"

fun video_codec_to_webrtc :: "video_codec \<Rightarrow> video_codec_type" where
  "video_codec_to_webrtc VideoCodecVp8 = Vp8"
| "video_codec_to_webrtc VideoCodecVp9 = Vp9"
| "video_codec_to_webrtc VideoCodecH264 = H264"
| "video_codec_to_webrtc VideoCodecH265 = H265"
| "video_codec_to_webrtc VideoCodecAv1 = Av1"

text \<open>The error of \<^verbatim>\<open>TryFrom\<close> is a text that names the value; it is that value.\<close>

fun video_codec_of_webrtc :: "video_codec_type \<Rightarrow> video_codec_type + video_codec" where
  "video_codec_of_webrtc Vp8 = Inr VideoCodecVp8"
| "video_codec_of_webrtc Vp9 = Inr VideoCodecVp9"
| "video_codec_of_webrtc H264 = Inr VideoCodecH264"
| "video_codec_of_webrtc H265 = Inr VideoCodecH265"
| "video_codec_of_webrtc Av1 = Inr VideoCodecAv1"
| "video_codec_of_webrtc other = Inl other"

record video_vp9_params =
  vp9_profile_id :: "u32 option"

record video_h264_params =
  h264_profile_level_id :: "string option"
  h264_b_frame :: "bool option"

record video_h265_params =
  h265_level_id :: "string option"
  h265_profile_id :: "u32 option"
  h265_tier_flag :: "u32 option"
  h265_tx_mode :: "string option"
  h265_b_frame :: "bool option"

record video_av1_params =
  av1_profile :: "u32 option"
  av1_level_idx :: "u32 option"
  av1_tier :: "u32 option"

definition vp9_params_to_json :: "video_vp9_params \<Rightarrow> json" where
  "vp9_params_to_json p = JObj (opt_member ''profile_id'' json_of_u32 (vp9_profile_id p))"

definition h264_params_to_json :: "video_h264_params \<Rightarrow> json" where
  "h264_params_to_json p = JObj
     (opt_member ''profile_level_id'' JStr (h264_profile_level_id p) @
      opt_member ''b_frame'' JBool (h264_b_frame p))"

definition h265_params_to_json :: "video_h265_params \<Rightarrow> json" where
  "h265_params_to_json p = JObj
     (opt_member ''level_id'' JStr (h265_level_id p) @
      opt_member ''profile_id'' json_of_u32 (h265_profile_id p) @
      opt_member ''tier_flag'' json_of_u32 (h265_tier_flag p) @
      opt_member ''tx_mode'' JStr (h265_tx_mode p) @
      opt_member ''b_frame'' JBool (h265_b_frame p))"

definition av1_params_to_json :: "video_av1_params \<Rightarrow> json" where
  "av1_params_to_json p = JObj
     (opt_member ''profile'' json_of_u32 (av1_profile p) @
      opt_member ''level_idx'' json_of_u32 (av1_level_idx p) @
      opt_member ''tier'' json_of_u32 (av1_tier p))"

datatype video =
    VideoBool bool
  | VideoVp8 "u32 option"
  | VideoVp9 "u32 option" "video_vp9_params option"
  | VideoH264 "u32 option" "video_h264_params option"
  | VideoH265 "u32 option" "video_h265_params option"
  | VideoAv1 "u32 option" "video_av1_params option"

fun video_to_json :: "video \<Rightarrow> json" where
  "video_to_json (VideoBool b) = JBool b"
| "video_to_json (VideoVp8 bit_rate) = JObj
     ((''codec_type'', video_codec_to_json VideoCodecVp8) #
      opt_member ''bit_rate'' json_of_u32 bit_rate)"
| "video_to_json (VideoVp9 bit_rate params) = JObj
     ((''codec_type'', video_codec_to_json VideoCodecVp9) #
      opt_member ''bit_rate'' json_of_u32 bit_rate @
      opt_member ''vp9_params'' vp9_params_to_json params)"
| "video_to_json (VideoAv1 bit_rate params) = JObj
     ((''codec_type'', video_codec_to_json VideoCodecAv1) #
      opt_member ''bit_rate'' json_of_u32 bit_rate @
      opt_member ''av1_params'' av1_params_to_json params)"
| "video_to_json (VideoH264 bit_rate params) = JObj
     ((''codec_type'', video_codec_to_json VideoCodecH264) #
      opt_member ''bit_rate'' json_of_u32 bit_rate @
      opt_member ''h264_params'' h264_params_to_json params)"
| "video_to_json (VideoH265 bit_rate params) = JObj
     ((''codec_type'', video_codec_to_json VideoCodecH265) #
      opt_member ''bit_rate'' json_of_u32 bit_rate @
      opt_member ''h265_params'' h265_params_to_json params)"

subsection \<open>Data channels and forwarding filters of the connect message\<close>

record connect_data_channel =
  cdc_label :: string
  cdc_direction :: string
  cdc_ordered :: "bool option"
  cdc_max_packet_life_time :: "i32 option"
  cdc_max_retransmits :: "i32 option"
  cdc_protocol :: "string option"
  cdc_compress :: "bool option"
  cdc_header :: "json_string list option"

definition connect_data_channel_to_json :: "connect_data_channel \<Rightarrow> json" where
  "connect_data_channel_to_json c = JObj
     ((''label'', JStr (cdc_label c)) #
      (''direction'', JStr (cdc_direction c)) #
      opt_member ''ordered'' JBool (cdc_ordered c) @
      opt_member ''max_packet_life_time'' json_of_i32 (cdc_max_packet_life_time c) @
      opt_member ''max_retransmits'' json_of_i32 (cdc_max_retransmits c) @
      opt_member ''protocol'' JStr (cdc_protocol c) @
      opt_member ''compress'' JBool (cdc_compress c) @
      opt_member ''header'' (\<lambda>hs. JArr (map JRaw hs)) (cdc_header c))"

record forwarding_filter_rule =
  rule_field :: string
  rule_operator :: string
  rule_values :: "string list"

definition forwarding_filter_rule_to_json :: "forwarding_filter_rule \<Rightarrow> json" where
  "forwarding_filter_rule_to_json r = JObj
     [(''field'', JStr (rule_field r)),
      (''operator'', JStr (rule_operator r)),
      (''values'', JArr (map JStr (rule_values r)))]"

record forwarding_filter =
  ff_name :: "string option"
  ff_priority :: "i32 option"
  ff_action :: "string option"
  ff_rules :: "forwarding_filter_rule list list"
  ff_version :: "string option"
  ff_metadata :: "json_string option"

definition forwarding_filter_to_json :: "forwarding_filter \<Rightarrow> json" where
  "forwarding_filter_to_json ff = JObj
     (opt_member ''name'' JStr (ff_name ff) @
      opt_member ''priority'' json_of_i32 (ff_priority ff) @
      opt_member ''action'' JStr (ff_action ff) @
      (''rules'', JArr (map (\<lambda>rs. JArr (map forwarding_filter_rule_to_json rs)) (ff_rules ff))) #
      opt_member ''version'' JStr (ff_version ff) @
      opt_member ''metadata'' JRaw (ff_metadata ff))"

subsection \<open>Well-formed objects\<close>

text \<open>Every object in a tree has distinct member names (RFC 8259, section 4).\<close>

fun json_distinct :: "json \<Rightarrow> bool" where
  "json_distinct (JArr js) \<longleftrightarrow> (\<forall>j \<in> set js. json_distinct j)"
| "json_distinct (JObj ms) \<longleftrightarrow> distinct (map fst ms) \<and> (\<forall>m \<in> set ms. json_distinct (snd m))"
| "json_distinct _ \<longleftrightarrow> True"

text \<open>The names of a member list are a subsequence of the names its fields can have.\<close>

definition keys_sub :: "json_members \<Rightarrow> string list \<Rightarrow> bool" where
  "keys_sub ms ks \<longleftrightarrow> subseq (map fst ms) ks"

lemma keys_sub_intros:
  "keys_sub [] []"
  "keys_sub ms ks \<Longrightarrow> keys_sub ((k, j) # ms) (k # ks)"
  "keys_sub ms ks \<Longrightarrow> keys_sub (opt_member k f x @ ms) (k # ks)"
  "keys_sub (opt_member k f x) [k]"
  by (auto simp: keys_sub_def opt_member_def split: option.splits)

lemma subseq_distinct_aux: "subseq xs ys \<Longrightarrow> distinct ys \<Longrightarrow> distinct xs"
  by (induction rule: list_emb.induct) (auto dest: list_emb_set)

lemma keys_sub_distinct: "keys_sub ms ks \<Longrightarrow> distinct ks \<Longrightarrow> distinct (map fst ms)"
  by (auto simp: keys_sub_def dest: subseq_distinct_aux)

lemma members_distinct:
  "keys_sub ms ks \<Longrightarrow> distinct ks \<Longrightarrow> \<forall>m \<in> set ms. json_distinct (snd m) \<Longrightarrow>
     json_distinct (JObj ms)"
  by (simp add: keys_sub_distinct)

lemma ball_opt_member [simp]:
  "(\<forall>m \<in> set (opt_member k f x). json_distinct (snd m)) \<longleftrightarrow>
     (\<forall>y. x = Some y \<longrightarrow> json_distinct (f y))"
  by (cases x) (auto simp: opt_member_def)

lemma json_distinct_scalars [simp]:
  "json_distinct (json_of_u32 a)" "json_distinct (json_of_i32 b)"
  by (simp_all add: json_of_u32_def json_of_i32_def)

lemma opus_params_json_distinct [simp]: "json_distinct (opus_params_to_json p)"
  unfolding opus_params_to_json_def
  by (rule members_distinct, (rule keys_sub_intros)+) (simp_all add: ball_Un)

lemma video_params_json_distinct [simp]:
  "json_distinct (vp9_params_to_json p9)" "json_distinct (h264_params_to_json p4)"
  "json_distinct (h265_params_to_json p5)" "json_distinct (av1_params_to_json p1)"
  unfolding vp9_params_to_json_def h264_params_to_json_def h265_params_to_json_def
    av1_params_to_json_def
  by ((rule members_distinct, (rule keys_sub_intros)+); simp add: ball_Un)+

lemma audio_json_distinct [simp]: "json_distinct (audio_to_json a)"
  by (cases a; simp only: audio_to_json.simps;
      (((rule members_distinct, (rule keys_sub_intros)+); simp add: ball_Un) | simp))

lemma video_json_distinct [simp]: "json_distinct (video_to_json v)"
  by (cases v; simp only: video_to_json.simps;
      (((rule members_distinct, (rule keys_sub_intros)+); simp add: ball_Un) | simp))

lemma connect_data_channel_json_distinct [simp]:
  "json_distinct (connect_data_channel_to_json c)"
  unfolding connect_data_channel_to_json_def
  by (rule members_distinct, (rule keys_sub_intros)+) (simp_all add: ball_Un)

lemma forwarding_filter_rule_json_distinct [simp]:
  "json_distinct (forwarding_filter_rule_to_json r)"
  by (simp add: forwarding_filter_rule_to_json_def)

lemma forwarding_filter_json_distinct [simp]: "json_distinct (forwarding_filter_to_json ff)"
  unfolding forwarding_filter_to_json_def
  by (rule members_distinct, (rule keys_sub_intros)+) (simp_all add: ball_Un)

text \<open>
  Fact. The codec types of the crate and of WebRTC correspond one to one: converting there and
  back is the identity, and every other WebRTC type is rejected.
\<close>

theorem video_codec_webrtc_roundtrip:
  "video_codec_of_webrtc (video_codec_to_webrtc c) = Inr c"
  "video_codec_of_webrtc t = Inr c \<longleftrightarrow> t = video_codec_to_webrtc c"
  by (cases c; simp) (cases t; cases c; simp)

end
