(* ===== verification/Signaling.thy ===== *)
theory Signaling
  imports Types
begin

text \<open>
  The signaling messages of \<^verbatim>\<open>src/signaling_types.rs\<close>: reading what the server sends
  (\<open>incoming_of_json\<close>, \<open>incoming_parse\<close>) and printing what the client sends
  (\<open>outgoing_to_json\<close>). The converters of the nested objects fail with a \<^verbatim>\<open>JsonParseError\<close>
  only, so they are of the type \<open>'x + 'a\<close>; the message converter turns it into the error type of the crate.
\<close>

subsection \<open>Incoming messages\<close>

record ice_server_config =
  ice_urls :: "string list"
  ice_username :: "string option"
  ice_credential :: "string option"

record data_channel_config =
  dc_label :: string
  dc_compress :: bool
  dc_direction :: string

record scale_resolution_down_to =
  max_width :: i32
  max_height :: i32

record simulcast_encoding =
  se_rid :: string
  se_max_bitrate :: "i32 option"
  se_min_bitrate :: "i32 option"
  se_scale_resolution_down_by :: "f64 option"
  se_max_framerate :: "f64 option"
  se_active :: "bool option"
  se_scalability_mode :: "string option"
  se_scale_resolution_down_to :: "scale_resolution_down_to option"

datatype incoming_message_data =
    Offer string "ice_server_config list" "data_channel_config list" bool "simulcast_encoding list"
  | ReOffer string
  | Ping "bool option"
  | ReqStats
  | Notify
  | Push
  | Switched bool
  | Redirect string
  | Close u16 string

record incoming_message =
  im_message :: string
  im_data :: incoming_message_data

text \<open>\<^verbatim>\<open>to_member(name)?.required()?.try_into()?\<close>\<close>

definition json_get :: "('v, 'x) nojson \<Rightarrow> 'v \<Rightarrow> string \<Rightarrow> ('v \<Rightarrow> 'x + 'a) \<Rightarrow> 'x + 'a" where
  "json_get J v name conv = bindE (json_required J v name) conv"

definition ice_server_of_json :: "('v, 'x) nojson \<Rightarrow> 'v \<Rightarrow> 'x + ice_server_config" where
  "ice_server_of_json J v =
     bindE (json_get J v ''urls'' (json_parse_array J (json_string J))) (\<lambda>urls.
     bindE (json_optional J v ''username'' (json_string J)) (\<lambda>username.
     bindE (json_optional J v ''credential'' (json_string J)) (\<lambda>credential.
     Inr \<lparr>ice_urls = urls, ice_username = username, ice_credential = credential\<rparr>)))"

definition data_channel_config_of_json :: "('v, 'x) nojson \<Rightarrow> 'v \<Rightarrow> 'x + data_channel_config" where
  "data_channel_config_of_json J v =
     bindE (json_get J v ''label'' (json_string J)) (\<lambda>label.
     bindE (json_get J v ''compress'' (json_bool J)) (\<lambda>compress.
     bindE (json_get J v ''direction'' (json_string J)) (\<lambda>direction.
     Inr \<lparr>dc_label = label, dc_compress = compress, dc_direction = direction\<rparr>)))"

definition scale_down_to_of_json :: "('v, 'x) nojson \<Rightarrow> 'v \<Rightarrow> 'x + scale_resolution_down_to" where
  "scale_down_to_of_json J v =
     bindE (json_get J v ''maxWidth'' (json_i32 J)) (\<lambda>w.
     bindE (json_get J v ''maxHeight'' (json_i32 J)) (\<lambda>h.
     Inr \<lparr>max_width = w, max_height = h\<rparr>))"

definition simulcast_encoding_of_json :: "('v, 'x) nojson \<Rightarrow> 'v \<Rightarrow> 'x + simulcast_encoding" where
  "simulcast_encoding_of_json J v =
     bindE (json_get J v ''rid'' (json_string J)) (\<lambda>rid.
     bindE (json_optional J v ''maxBitrate'' (json_i32 J)) (\<lambda>max_bitrate.
     bindE (json_optional J v ''minBitrate'' (json_i32 J)) (\<lambda>min_bitrate.
     bindE (json_optional J v ''scaleResolutionDownBy'' (json_f64 J)) (\<lambda>down_by.
     bindE (json_optional J v ''maxFramerate'' (json_f64 J)) (\<lambda>max_framerate.
     bindE (json_optional J v ''active'' (json_bool J)) (\<lambda>active.
     bindE (json_optional J v ''scalabilityMode'' (json_string J)) (\<lambda>mode.
     bindE (json_optional J v ''scaleResolutionDownTo'' (scale_down_to_of_json J)) (\<lambda>down_to.
     Inr \<lparr>se_rid = rid, se_max_bitrate = max_bitrate, se_min_bitrate = min_bitrate,
          se_scale_resolution_down_by = down_by, se_max_framerate = max_framerate,
          se_active = active, se_scalability_mode = mode,
          se_scale_resolution_down_to = down_to\<rparr>))))))))"

definition parse_optional ::
    "('v, 'x) nojson \<Rightarrow> 'v \<Rightarrow> string \<Rightarrow> ('v \<Rightarrow> 'x + 'a list) \<Rightarrow> 'x + 'a list" where
  "parse_optional J v member parse =
     bindE (json_member J v member) (\<lambda>m. case m of None \<Rightarrow> Inr [] | Some x \<Rightarrow> parse x)"

definition parse_ice_servers :: "('v, 'x) nojson \<Rightarrow> 'v \<Rightarrow> 'x + ice_server_config list" where
  "parse_ice_servers J v =
     parse_optional J v ''config'' (\<lambda>config.
       parse_optional J config ''iceServers'' (json_parse_array J (ice_server_of_json J)))"

definition parse_data_channels :: "('v, 'x) nojson \<Rightarrow> 'v \<Rightarrow> 'x + data_channel_config list" where
  "parse_data_channels J v =
     parse_optional J v ''data_channels'' (json_parse_array J (data_channel_config_of_json J))"

definition parse_simulcast_encodings ::
    "('v, 'x) nojson \<Rightarrow> 'v \<Rightarrow> 'x + simulcast_encoding list" where
  "parse_simulcast_encodings J v =
     parse_optional J v ''encodings'' (json_parse_array J (simulcast_encoding_of_json J))"

definition offer_of_json :: "('v, 'x) nojson \<Rightarrow> 'v \<Rightarrow> 'x + incoming_message_data" where
  "offer_of_json J v =
     bindE (json_get J v ''sdp'' (json_string J)) (\<lambda>sdp.
     bindE (parse_ice_servers J v) (\<lambda>ice_servers.
     bindE (parse_data_channels J v) (\<lambda>data_channels.
     bindE (json_optional J v ''simulcast'' (json_bool J)) (\<lambda>simulcast.
     bindE (parse_simulcast_encodings J v) (\<lambda>encodings.
     Inr (Offer sdp ice_servers data_channels
       (case simulcast of None \<Rightarrow> False | Some b \<Rightarrow> b) encodings))))))"

definition close_of_json :: "('v, 'x) nojson \<Rightarrow> 'v \<Rightarrow> 'x + incoming_message_data" where
  "close_of_json J v =
     bindE (json_get J v ''code'' (json_u16 J)) (\<lambda>code.
     bindE (json_get J v ''reason'' (json_string J)) (\<lambda>reason.
     Inr (Close code reason)))"

definition incoming_of_json ::
    "('v, 'x) nojson \<Rightarrow> 'v \<Rightarrow> ('x, 'e) sora_error + incoming_message_data" where
  "incoming_of_json J v =
     bindE (map_err JsonParse (json_get J v ''type'' (json_string J))) (\<lambda>message_type.
     if message_type = ''offer'' then map_err JsonParse (offer_of_json J v)
     else if message_type = ''re-offer'' then
       map_err JsonParse (bindE (json_get J v ''sdp'' (json_string J)) (\<lambda>sdp. Inr (ReOffer sdp)))
     else if message_type = ''ping'' then
       map_err JsonParse
         (bindE (json_optional J v ''stats'' (json_bool J)) (\<lambda>stats. Inr (Ping stats)))
     else if message_type = ''req-stats'' then Inr ReqStats
     else if message_type = ''notify'' then Inr Notify
     else if message_type = ''push'' then Inr Push
     else if message_type = ''switched'' then
       map_err JsonParse
         (bindE (json_optional J v ''ignore_disconnect_websocket'' (json_bool J)) (\<lambda>ignore.
          Inr (Switched (case ignore of None \<Rightarrow> False | Some b \<Rightarrow> b))))
     else if message_type = ''redirect'' then
       map_err JsonParse
         (bindE (json_get J v ''location'' (json_string J)) (\<lambda>location. Inr (Redirect location)))
     else if message_type = ''close'' then map_err JsonParse (close_of_json J v)
     else if message_type = ''candidate'' then Inl CandidateNotSupported
     else Inl (UnsupportedMessageType message_type))"

definition incoming_parse ::
    "('v, 'x) nojson \<Rightarrow> string \<Rightarrow> ('x, 'e) sora_error + incoming_message" where
  "incoming_parse J text =
     bindE (map_err JsonParse (json_parse J text)) (\<lambda>v.
     bindE (incoming_of_json J v) (\<lambda>data.
     Inr \<lparr>im_message = text, im_data = data\<rparr>))"

subsection \<open>Outgoing messages\<close>

record connect_message =
  cm_channel_id :: string
  cm_role :: role
  cm_client_id :: "string option"
  cm_bundle_id :: "string option"
  cm_redirect :: bool
  cm_sora_client :: string
  cm_libwebrtc :: string
  cm_environment :: string
  cm_metadata :: "json_string option"
  cm_data_channel_signaling :: "bool option"
  cm_ignore_disconnect_websocket :: "bool option"
  cm_simulcast :: "bool option"
  cm_simulcast_request_rid :: "string option"
  cm_spotlight :: "bool option"
  cm_spotlight_focus_rid :: "string option"
  cm_spotlight_unfocus_rid :: "string option"
  cm_signaling_notify_metadata :: "json_string option"
  cm_data_channels :: "connect_data_channel list option"
  cm_forwarding_filters :: "forwarding_filter list option"
  cm_audio :: "audio option"
  cm_video :: "video option"

datatype outgoing_message =
    Connect connect_message
  | Answer string
  | ReAnswer string
  | Pong "json_string option"
  | Stats json_string
  | Candidate string
  | Disconnect

definition connect_members :: "connect_message \<Rightarrow> json_members" where
  "connect_members c =
     (''type'', JStr ''connect'') #
     (''channel_id'', JStr (cm_channel_id c)) #
     opt_member ''client_id'' JStr (cm_client_id c) @
     opt_member ''bundle_id'' JStr (cm_bundle_id c) @
     opt_member ''redirect'' JBool (if cm_redirect c then Some True else None) @
     (''role'', JStr (as_sora_role (cm_role c))) #
     (''sora_client'', JStr (cm_sora_client c)) #
     (''libwebrtc'', JStr (cm_libwebrtc c)) #
     (''environment'', JStr (cm_environment c)) #
     opt_member ''metadata'' JRaw (cm_metadata c) @
     opt_member ''data_channel_signaling'' JBool (cm_data_channel_signaling c) @
     opt_member ''ignore_disconnect_websocket'' JBool (cm_ignore_disconnect_websocket c) @
     opt_member ''simulcast'' JBool (cm_simulcast c) @
     opt_member ''simulcast_request_rid'' JStr (cm_simulcast_request_rid c) @
     opt_member ''spotlight'' JBool (cm_spotlight c) @
     opt_member ''spotlight_focus_rid'' JStr (cm_spotlight_focus_rid c) @
     opt_member ''spotlight_unfocus_rid'' JStr (cm_spotlight_unfocus_rid c) @
     opt_member ''signaling_notify_metadata'' JRaw (cm_signaling_notify_metadata c) @
     opt_member ''data_channels''
       (\<lambda>cs. JArr (map connect_data_channel_to_json cs)) (cm_data_channels c) @
     opt_member ''forwarding_filters''
       (\<lambda>ffs. JArr (map forwarding_filter_to_json ffs)) (cm_forwarding_filters c) @
     opt_member ''audio'' audio_to_json (cm_audio c) @
     opt_member ''video'' video_to_json (cm_video c)"

fun outgoing_to_json :: "outgoing_message \<Rightarrow> json" where
  "outgoing_to_json (Connect c) = JObj (connect_members c)"
| "outgoing_to_json (Answer sdp) = JObj [(''type'', JStr ''answer''), (''sdp'', JStr sdp)]"
| "outgoing_to_json (ReAnswer sdp) = JObj [(''type'', JStr ''re-answer''), (''sdp'', JStr sdp)]"
| "outgoing_to_json (Pong stats) =
     JObj ((''type'', JStr ''pong'') # opt_member ''stats'' JRaw stats)"
| "outgoing_to_json (Stats reports) =
     JObj [(''type'', JStr ''stats''), (''reports'', JRaw reports)]"
| "outgoing_to_json (Candidate candidate) =
     JObj [(''type'', JStr ''candidate''), (''candidate'', JStr candidate)]"
| "outgoing_to_json Disconnect =
     JObj [(''type'', JStr ''disconnect''), (''reason'', JStr ''NO-ERROR'')]"

subsection \<open>Unknown and refused messages\<close>

definition incoming_types :: "string list" where
  "incoming_types = [''offer'', ''re-offer'', ''ping'', ''req-stats'', ''notify'', ''push'',
     ''switched'', ''redirect'', ''close'']"

lemma map_err_JsonParse:
  "map_err JsonParse r \<noteq> Inl CandidateNotSupported"
  "map_err JsonParse r \<noteq> Inl (UnsupportedMessageType t)"
  "map_err JsonParse r = Inl e \<Longrightarrow> \<exists>x. e = JsonParse x"
  by (cases r; auto)+

text \<open>
  Fact. A message is dispatched on its type only: a candidate is refused as
  unsupported, a text that is not the name of a message is reported with that name, and
  whatever else is wrong with a message is a JSON error.
\<close>

theorem incoming_refused:
  "incoming_of_json J v = (Inl CandidateNotSupported :: ('x, 'e) sora_error + _) \<longleftrightarrow>
     json_get J v ''type'' (json_string J) = Inr ''candidate''"
  "incoming_of_json J v = (Inl (UnsupportedMessageType t) :: ('x, 'e) sora_error + _) \<longleftrightarrow>
     json_get J v ''type'' (json_string J) = Inr t \<and> t \<notin> set incoming_types \<and> t \<noteq> ''candidate''"
  "incoming_of_json J v = (Inl e :: ('x, 'e) sora_error + _) \<longleftrightarrow>
     e = CandidateNotSupported \<and> json_get J v ''type'' (json_string J) = Inr ''candidate'' \<or>
     (\<exists>t. e = UnsupportedMessageType t \<and> json_get J v ''type'' (json_string J) = Inr t \<and>
        t \<notin> set incoming_types \<and> t \<noteq> ''candidate'') \<or>
     (\<exists>x. e = JsonParse x \<and> incoming_of_json J v = (Inl (JsonParse x) :: ('x, 'e) sora_error + _))"
proof -
  show a: "incoming_of_json J v = (Inl CandidateNotSupported :: ('x, 'e) sora_error + _) \<longleftrightarrow>
      json_get J v ''type'' (json_string J) = Inr ''candidate''"
    by (cases "json_get J v ''type'' (json_string J)")
      (simp_all add: incoming_of_json_def map_err_JsonParse)
  show b: "incoming_of_json J v = (Inl (UnsupportedMessageType t) :: ('x, 'e) sora_error + _) \<longleftrightarrow>
      json_get J v ''type'' (json_string J) = Inr t \<and> t \<notin> set incoming_types \<and> t \<noteq> ''candidate''"
    for t
    by (cases "json_get J v ''type'' (json_string J)")
      (auto simp: incoming_of_json_def incoming_types_def map_err_JsonParse)
  have c: "incoming_of_json J v = (Inl e :: ('x, 'e) sora_error + _) \<Longrightarrow>
      e = CandidateNotSupported \<or> (\<exists>t. e = UnsupportedMessageType t) \<or> (\<exists>x. e = JsonParse x)"
    by (cases "json_get J v ''type'' (json_string J)")
      (auto simp: incoming_of_json_def map_err_eq split: if_splits)
  show "incoming_of_json J v = (Inl e :: ('x, 'e) sora_error + _) \<longleftrightarrow>
     e = CandidateNotSupported \<and> json_get J v ''type'' (json_string J) = Inr ''candidate'' \<or>
     (\<exists>t. e = UnsupportedMessageType t \<and> json_get J v ''type'' (json_string J) = Inr t \<and>
        t \<notin> set incoming_types \<and> t \<noteq> ''candidate'') \<or>
     (\<exists>x. e = JsonParse x \<and> incoming_of_json J v = (Inl (JsonParse x) :: ('x, 'e) sora_error + _))"
    using a b c by metis
qed

subsection \<open>The messages of the server\<close>

text \<open>
  The JSON objects that stand for a message, written down from its members: an object may list its members
  in any order, each once, and may have further ones. A missing member is the value \<open>None\<close>, an empty list
  or \<open>False\<close>, where the message allows it to be missing.
\<close>

definition member_is :: "json \<Rightarrow> string \<Rightarrow> json option \<Rightarrow> bool" where
  "member_is j name x \<longleftrightarrow> (\<exists>ms. j = JObj ms \<and> distinct (map fst ms) \<and> map_of ms name = x)"

definition list_member_is :: "json \<Rightarrow> string \<Rightarrow> (json \<Rightarrow> 'a \<Rightarrow> bool) \<Rightarrow> 'a list \<Rightarrow> bool" where
  "list_member_is j name stands xs \<longleftrightarrow>
     (\<exists>js. member_is j name (Some (JArr js)) \<and> list_all2 stands js xs) \<or>
     xs = [] \<and> member_is j name None"

definition flag_member_is :: "json \<Rightarrow> string \<Rightarrow> bool \<Rightarrow> bool" where
  "flag_member_is j name b \<longleftrightarrow> member_is j name (Some (JBool b)) \<or> \<not> b \<and> member_is j name None"

definition ice_server_stands :: "json \<Rightarrow> ice_server_config \<Rightarrow> bool" where
  "ice_server_stands j c \<longleftrightarrow>
     member_is j ''urls'' (Some (JArr (map JStr (ice_urls c)))) \<and>
     member_is j ''username'' (map_option JStr (ice_username c)) \<and>
     member_is j ''credential'' (map_option JStr (ice_credential c))"

definition data_channel_config_stands :: "json \<Rightarrow> data_channel_config \<Rightarrow> bool" where
  "data_channel_config_stands j c \<longleftrightarrow>
     member_is j ''label'' (Some (JStr (dc_label c))) \<and>
     member_is j ''compress'' (Some (JBool (dc_compress c))) \<and>
     member_is j ''direction'' (Some (JStr (dc_direction c)))"

definition scale_down_to_stands :: "json \<Rightarrow> scale_resolution_down_to \<Rightarrow> bool" where
  "scale_down_to_stands j c \<longleftrightarrow>
     member_is j ''maxWidth'' (Some (json_of_i32 (max_width c))) \<and>
     member_is j ''maxHeight'' (Some (json_of_i32 (max_height c)))"

definition simulcast_encoding_stands :: "json \<Rightarrow> simulcast_encoding \<Rightarrow> bool" where
  "simulcast_encoding_stands j c \<longleftrightarrow>
     member_is j ''rid'' (Some (JStr (se_rid c))) \<and>
     member_is j ''maxBitrate'' (map_option json_of_i32 (se_max_bitrate c)) \<and>
     member_is j ''minBitrate'' (map_option json_of_i32 (se_min_bitrate c)) \<and>
     member_is j ''scaleResolutionDownBy'' (map_option JF64 (se_scale_resolution_down_by c)) \<and>
     member_is j ''maxFramerate'' (map_option JF64 (se_max_framerate c)) \<and>
     member_is j ''active'' (map_option JBool (se_active c)) \<and>
     member_is j ''scalabilityMode'' (map_option JStr (se_scalability_mode c)) \<and>
     (\<exists>x. member_is j ''scaleResolutionDownTo'' x \<and>
        rel_option scale_down_to_stands x (se_scale_resolution_down_to c))"

definition ice_servers_stand :: "json \<Rightarrow> ice_server_config list \<Rightarrow> bool" where
  "ice_servers_stand j servers \<longleftrightarrow>
     (\<exists>config. member_is j ''config'' (Some config) \<and>
        list_member_is config ''iceServers'' ice_server_stands servers) \<or>
     servers = [] \<and> member_is j ''config'' None"

fun message_members :: "json \<Rightarrow> incoming_message_data \<Rightarrow> bool" where
  "message_members j (Offer sdp servers channels simulcast encodings) \<longleftrightarrow>
     member_is j ''type'' (Some (JStr ''offer'')) \<and> member_is j ''sdp'' (Some (JStr sdp)) \<and>
     ice_servers_stand j servers \<and>
     list_member_is j ''data_channels'' data_channel_config_stands channels \<and>
     flag_member_is j ''simulcast'' simulcast \<and>
     list_member_is j ''encodings'' simulcast_encoding_stands encodings"
| "message_members j (ReOffer sdp) \<longleftrightarrow>
     member_is j ''type'' (Some (JStr ''re-offer'')) \<and> member_is j ''sdp'' (Some (JStr sdp))"
| "message_members j (Ping stats) \<longleftrightarrow>
     member_is j ''type'' (Some (JStr ''ping'')) \<and> member_is j ''stats'' (map_option JBool stats)"
| "message_members j ReqStats \<longleftrightarrow> member_is j ''type'' (Some (JStr ''req-stats''))"
| "message_members j Notify \<longleftrightarrow> member_is j ''type'' (Some (JStr ''notify''))"
| "message_members j Push \<longleftrightarrow> member_is j ''type'' (Some (JStr ''push''))"
| "message_members j (Switched ignore) \<longleftrightarrow>
     member_is j ''type'' (Some (JStr ''switched'')) \<and>
     flag_member_is j ''ignore_disconnect_websocket'' ignore"
| "message_members j (Redirect location) \<longleftrightarrow>
     member_is j ''type'' (Some (JStr ''redirect'')) \<and> member_is j ''location'' (Some (JStr location))"
| "message_members j (Close code reason) \<longleftrightarrow>
     member_is j ''type'' (Some (JStr ''close'')) \<and> member_is j ''code'' (Some (JInt (uint code))) \<and>
     member_is j ''reason'' (Some (JStr reason))"

lemma map_of_opt_member [simp]:
  "map_of (opt_member k f x) k' = (if k = k' then map_option f x else None)"
  "map_of (opt_member k f x @ ms) k' =
     (if k = k' then or_else (map_option f x) (map_of ms k') else map_of ms k')"
  by (cases x; simp add: opt_member_def)+

lemma or_else_None [simp]: "or_else x None = x"
  by (cases x) simp_all

lemma case_option_Inr [simp]:
  "(case x of None \<Rightarrow> Inr None | Some y \<Rightarrow> Inr (Some y)) = Inr x"
  by (cases x) simp_all

lemma member_is_obj [simp]: "member_is (JObj ms) name x \<longleftrightarrow> distinct (map fst ms) \<and> map_of ms name = x"
  by (auto simp: member_is_def)

lemma member_read:
  assumes "json_faithful J rep" and "member_is j name x"
  shows "json_member J (rep j) name = Inr (map_option rep x)"
proof -
  from assms(2) obtain ms where ms: "j = JObj ms" "distinct (map fst ms)" "map_of ms name = x"
    by (auto simp: member_is_def)
  with json_member_unique [OF assms(1) ms(2)] json_member_absent [OF assms(1)] show ?thesis
    by (cases x) (auto simp: map_of_eq_None_iff)
qed

lemma get_read:
  "json_faithful J rep \<Longrightarrow> member_is j name (Some x) \<Longrightarrow> json_get J (rep j) name conv = conv (rep x)"
  by (simp add: json_get_def json_required_def member_read)

lemma optional_read:
  assumes "json_faithful J rep" and "member_is j name (map_option enc x)"
    and "\<And>y. conv (rep (enc y)) = Inr y"
  shows "json_optional J (rep j) name conv = Inr x"
  using member_read [OF assms(1,2)] assms(3) by (cases x) (simp_all add: json_optional_def)

lemma flag_read:
  assumes "json_faithful J rep" and "flag_member_is j name b"
  shows "\<exists>x. json_optional J (rep j) name (json_bool J) = Inr x \<and> (case x of None \<Rightarrow> False | Some b \<Rightarrow> b) = b"
  using assms member_read [OF assms(1)]
  by (fastforce simp: flag_member_is_def json_optional_def json_faithful_simps [OF assms(1)])

lemma array_read:
  assumes "json_faithful J rep" and "list_all2 stands js xs"
    and "\<And>j x. stands j x \<Longrightarrow> conv (rep j) = Inr x"
  shows "json_parse_array J conv (rep (JArr js)) = Inr xs"
proof -
  have "mapE conv (map rep js) = Inr xs"
    using assms(2) by (induction rule: list_all2_induct) (simp_all add: assms(3))
  then show ?thesis by (simp add: json_parse_array_def json_faithful_simps [OF assms(1)])
qed

lemma list_read:
  assumes "json_faithful J rep" and "list_member_is j name stands xs"
    and "\<And>j x. stands j x \<Longrightarrow> conv (rep j) = Inr x"
  shows "parse_optional J (rep j) name (json_parse_array J conv) = Inr xs"
proof -
  have "json_parse_array J conv (rep (JArr js)) = Inr xs" if "list_all2 stands js xs" for js
    using array_read [where conv = conv, OF assms(1) that] assms(3) by blast
  with assms(2) show ?thesis
    by (auto simp: list_member_is_def parse_optional_def member_read [OF assms(1)])
qed

lemma json_i32_rep: "json_faithful J rep \<Longrightarrow> json_i32 J (rep (json_of_i32 x)) = Inr x"
  using sint_range_size [of x] by (simp add: json_of_i32_def json_faithful_simps word_size)

lemma json_u16_rep: "json_faithful J rep \<Longrightarrow> json_u16 J (rep (JInt (uint (x :: u16)))) = Inr x"
  using uint_range_size [of x] by (simp add: json_faithful_simps word_size)

lemmas json_reads = json_faithful_simps json_i32_rep json_u16_rep

lemma strings_read:
  "json_faithful J rep \<Longrightarrow> json_parse_array J (json_string J) (rep (JArr (map JStr xs))) = Inr xs"
  by (rule json_parse_array_rep) (simp_all add: json_reads)

lemma ice_server_read:
  assumes J: "json_faithful J rep" and "ice_server_stands j c"
  shows "ice_server_of_json J (rep j) = Inr c"
  using assms(2) unfolding ice_server_stands_def
  by (elim conjE) (simp add: ice_server_of_json_def get_read [OF J] strings_read [OF J]
      optional_read [OF J, where enc = JStr] json_reads [OF J])

lemma data_channel_config_read:
  assumes J: "json_faithful J rep" and "data_channel_config_stands j c"
  shows "data_channel_config_of_json J (rep j) = Inr c"
  using assms(2) unfolding data_channel_config_stands_def
  by (elim conjE) (simp add: data_channel_config_of_json_def get_read [OF J]
      json_reads [OF J])

lemma scale_down_to_read:
  assumes J: "json_faithful J rep" and "scale_down_to_stands j c"
  shows "scale_down_to_of_json J (rep j) = Inr c"
  using assms(2) unfolding scale_down_to_stands_def
  by (elim conjE) (simp add: scale_down_to_of_json_def get_read [OF J] json_reads [OF J])

lemma simulcast_encoding_read:
  assumes J: "json_faithful J rep" and "simulcast_encoding_stands j c"
  shows "simulcast_encoding_of_json J (rep j) = Inr c"
proof -
  from assms(2) obtain x where x: "member_is j ''scaleResolutionDownTo'' x"
    "rel_option scale_down_to_stands x (se_scale_resolution_down_to c)"
    by (auto simp: simulcast_encoding_stands_def)
  have "json_optional J (rep j) ''scaleResolutionDownTo'' (scale_down_to_of_json J) =
      Inr (se_scale_resolution_down_to c)"
    using x(2) member_read [OF J x(1)]
    by (cases x; cases "se_scale_resolution_down_to c")
      (simp_all add: json_optional_def scale_down_to_read [OF J])
  with assms(2) show ?thesis
    unfolding simulcast_encoding_stands_def
    by (elim conjE) (simp add: simulcast_encoding_of_json_def get_read [OF J]
        optional_read [OF J, where enc = JStr] optional_read [OF J, where enc = json_of_i32]
        optional_read [OF J, where enc = JF64] optional_read [OF J, where enc = JBool] json_reads [OF J])
qed

lemma ice_servers_read:
  assumes J: "json_faithful J rep" and "ice_servers_stand j servers"
  shows "parse_ice_servers J (rep j) = Inr servers"
proof -
  have servers: "parse_optional J (rep config) ''iceServers'' (json_parse_array J (ice_server_of_json J)) =
      Inr servers" if "list_member_is config ''iceServers'' ice_server_stands servers" for config
    using that by (rule list_read [OF J]) (rule ice_server_read [OF J])
  from assms(2) show ?thesis
    by (auto simp: ice_servers_stand_def parse_ice_servers_def parse_optional_def [of _ _ "''config''"]
        member_read [OF J] servers)
qed

lemma offer_read:
  assumes J: "json_faithful J rep" and m: "message_members j (Offer sdp servers channels simulcast encodings)"
  shows "offer_of_json J (rep j) = Inr (Offer sdp servers channels simulcast encodings)"
proof -
  from m flag_read [OF J] obtain x where
    "json_optional J (rep j) ''simulcast'' (json_bool J) = Inr x"
    "(case x of None \<Rightarrow> False | Some b \<Rightarrow> b) = simulcast" by fastforce
  moreover have "parse_data_channels J (rep j) = Inr channels"
    using m unfolding parse_data_channels_def
    by (intro list_read [where stands = data_channel_config_stands, OF J] data_channel_config_read [OF J])
      simp_all
  moreover have "parse_simulcast_encodings J (rep j) = Inr encodings"
    using m unfolding parse_simulcast_encodings_def
    by (intro list_read [where stands = simulcast_encoding_stands, OF J] simulcast_encoding_read [OF J])
      simp_all
  ultimately show ?thesis
    using m
    by (clarsimp simp: offer_of_json_def get_read [OF J] json_reads [OF J] ice_servers_read [OF J])
qed

lemma switched_read:
  assumes J: "json_faithful J rep" and "flag_member_is j ''ignore_disconnect_websocket'' b"
  shows "bindE (json_optional J (rep j) ''ignore_disconnect_websocket'' (json_bool J)) (\<lambda>ignore.
    Inr (Switched (case ignore of None \<Rightarrow> False | Some b \<Rightarrow> b))) = Inr (Switched b)"
  using flag_read [OF assms] by auto

text \<open>
  Property C36. Every message a server can send is read back as sent: with a JSON library that returns the
  members, elements and scalars of the text, parsing any object that stands for a message gives exactly
  that message, in whatever order its members come, whatever members it has besides, and whichever of the
  members that may be missing are missing.
\<close>

theorem incoming_read:
  fixes J :: "('v, 'x) nojson"
  assumes J: "json_faithful J rep" and "json_parse J text = Inr (rep j)" and m: "message_members j m"
  shows "incoming_parse J text = (Inr \<lparr>im_message = text, im_data = m\<rparr> :: ('x, 'e) sora_error + _)"
proof -
  note get = get_read [OF J] json_reads [OF J]
  have "incoming_of_json J (rep j) = (Inr m :: ('x, 'e) sora_error + _)"
  proof (cases m)
    case (Offer sdp servers channels simulcast encodings)
    with m have "member_is j ''type'' (Some (JStr ''offer''))" by simp
    with offer_read [OF J m [unfolded Offer]] Offer show ?thesis
      by (simp add: incoming_of_json_def get)
  qed (use m in \<open>clarsimp simp: incoming_of_json_def close_of_json_def get switched_read [OF J]
        optional_read [OF J, where enc = JBool]\<close>)+
  with assms(2) show ?thesis by (simp add: incoming_parse_def)
qed

text \<open>An offer with a member that the code does not know, and without most of those that it does.\<close>

definition example_offer_json :: json where
  "example_offer_json = JObj
     [(''sdp'', JStr ''v=0''), (''version'', JInt 7), (''type'', JStr ''offer''),
      (''encodings'', JArr [JObj [(''active'', JBool True), (''rid'', JStr ''r0'')]])]"

definition example_offer_message :: incoming_message_data where
  "example_offer_message = Offer ''v=0'' [] [] False
     [\<lparr>se_rid = ''r0'', se_max_bitrate = None, se_min_bitrate = None,
       se_scale_resolution_down_by = None, se_max_framerate = None, se_active = Some True,
       se_scalability_mode = None, se_scale_resolution_down_to = None\<rparr>]"

theorem incoming_read_witness:
  "incoming_parse (tree_nojson example_offer_json) ''text'' =
     (Inr \<lparr>im_message = ''text'', im_data = example_offer_message\<rparr> :: (unit, unit) sora_error + _)"
  by (rule incoming_read [OF tree_nojson_faithful, where j = example_offer_json])
    (simp_all add: example_offer_json_def example_offer_message_def list_member_is_def
      flag_member_is_def ice_servers_stand_def simulcast_encoding_stands_def)

subsection \<open>What the printed messages hold\<close>

definition connect_keys :: "string list" where
  "connect_keys =
     [''type'', ''channel_id'', ''client_id'', ''bundle_id'', ''redirect'', ''role'', ''sora_client'',
      ''libwebrtc'', ''environment'', ''metadata'', ''data_channel_signaling'',
      ''ignore_disconnect_websocket'', ''simulcast'', ''simulcast_request_rid'', ''spotlight'',
      ''spotlight_focus_rid'', ''spotlight_unfocus_rid'', ''signaling_notify_metadata'',
      ''data_channels'', ''forwarding_filters'', ''audio'', ''video'']"

lemma connect_keys_sub: "keys_sub (connect_members c) connect_keys"
  unfolding connect_members_def connect_keys_def by (intro keys_sub_intros)

lemma connect_keys_distinct: "distinct connect_keys"
  by (simp add: connect_keys_def)

lemma connect_json_distinct: "json_distinct (JObj (connect_members c))"
proof (rule members_distinct [OF connect_keys_sub connect_keys_distinct])
  show "\<forall>m \<in> set (connect_members c). json_distinct (snd m)"
    by (simp add: connect_members_def ball_Un)
qed

text \<open>The field of a printed object.\<close>

fun json_field :: "json \<Rightarrow> string \<Rightarrow> json option" where
  "json_field (JObj ms) k = map_of ms k"
| "json_field _ k = None"

lemma connect_fields:
  "json_field (JObj (connect_members c)) ''type'' = Some (JStr ''connect'')"
  "json_field (JObj (connect_members c)) ''channel_id'' = Some (JStr (cm_channel_id c))"
  "json_field (JObj (connect_members c)) ''role'' = Some (JStr (as_sora_role (cm_role c)))"
  "json_field (JObj (connect_members c)) ''sora_client'' = Some (JStr (cm_sora_client c))"
  "json_field (JObj (connect_members c)) ''libwebrtc'' = Some (JStr (cm_libwebrtc c))"
  "json_field (JObj (connect_members c)) ''environment'' = Some (JStr (cm_environment c))"
  "json_field (JObj (connect_members c)) ''redirect'' =
     (if cm_redirect c then Some (JBool True) else None)"
  by (simp_all add: connect_members_def del: map_of_append)

lemma connect_optional_fields:
  "json_field (JObj (connect_members c)) ''client_id'' = map_option JStr (cm_client_id c)"
  "json_field (JObj (connect_members c)) ''bundle_id'' = map_option JStr (cm_bundle_id c)"
  "json_field (JObj (connect_members c)) ''metadata'' = map_option JRaw (cm_metadata c)"
  "json_field (JObj (connect_members c)) ''data_channel_signaling'' =
     map_option JBool (cm_data_channel_signaling c)"
  "json_field (JObj (connect_members c)) ''ignore_disconnect_websocket'' =
     map_option JBool (cm_ignore_disconnect_websocket c)"
  "json_field (JObj (connect_members c)) ''simulcast'' = map_option JBool (cm_simulcast c)"
  "json_field (JObj (connect_members c)) ''simulcast_request_rid'' =
     map_option JStr (cm_simulcast_request_rid c)"
  "json_field (JObj (connect_members c)) ''spotlight'' = map_option JBool (cm_spotlight c)"
  "json_field (JObj (connect_members c)) ''spotlight_focus_rid'' =
     map_option JStr (cm_spotlight_focus_rid c)"
  "json_field (JObj (connect_members c)) ''spotlight_unfocus_rid'' =
     map_option JStr (cm_spotlight_unfocus_rid c)"
  "json_field (JObj (connect_members c)) ''signaling_notify_metadata'' =
     map_option JRaw (cm_signaling_notify_metadata c)"
  "json_field (JObj (connect_members c)) ''data_channels'' =
     map_option (\<lambda>cs. JArr (map connect_data_channel_to_json cs)) (cm_data_channels c)"
  "json_field (JObj (connect_members c)) ''forwarding_filters'' =
     map_option (\<lambda>ffs. JArr (map forwarding_filter_to_json ffs)) (cm_forwarding_filters c)"
  "json_field (JObj (connect_members c)) ''audio'' = map_option audio_to_json (cm_audio c)"
  "json_field (JObj (connect_members c)) ''video'' = map_option video_to_json (cm_video c)"
  by (simp_all add: connect_members_def del: map_of_append)

subsection \<open>The printed tree determines the message\<close>

lemma map_option_inj: "inj f \<Longrightarrow> (map_option f x = map_option f y) = (x = y)"
  by (meson injD option.inj_map)

lemma inj_json_scalars:
  "inj JBool" "inj JStr" "inj JRaw" "inj JArr" "inj JF64" "inj json_of_u32" "inj json_of_i32"
  by (auto intro!: injI simp: json_of_u32_def json_of_i32_def
      dest: word_uint_eqI signed_word_eqI)

lemmas map_option_scalars [simp] = inj_json_scalars [THEN map_option_inj]

lemma inj_arr: "inj f \<Longrightarrow> inj (\<lambda>xs. JArr (map f xs))"
  by (auto intro!: injI dest: inj_map_eq_map [THEN iffD1, rotated])

lemma fields_eq: "j = j' \<Longrightarrow> json_field j k = json_field j' k"
  by simp

lemma inj_opus_params: "inj opus_params_to_json"
proof (rule injI)
  fix p q
  assume "opus_params_to_json p = opus_params_to_json q"
  note f = fields_eq [OF this]
  from f [of "''channels''"] f [of "''maxplaybackrate''"] f [of "''minptime''"] f [of "''ptime''"]
    f [of "''stereo''"] f [of "''sprop_stereo''"] f [of "''useinbandfec''"] f [of "''usedtx''"]
  show "p = q" by (simp add: opus_params_to_json_def del: map_of_append)
qed

lemma inj_audio: "inj audio_to_json"
proof (rule injI)
  fix a b
  assume eq: "audio_to_json a = audio_to_json b"
  note f = fields_eq [OF eq]
  show "a = b"
  proof (cases "\<exists>x y. a = AudioBool x \<and> b = AudioBool y")
    case True
    with eq show ?thesis by auto
  next
    case False
    with f [of "''codec_type''"] f [of "''bit_rate''"] f [of "''opus_params''"] show ?thesis
      by (cases a; cases b) (simp_all add: map_option_inj [OF inj_opus_params] del: map_of_append)
  qed
qed

lemma inj_video_params:
  "inj vp9_params_to_json" "inj h264_params_to_json" "inj h265_params_to_json" "inj av1_params_to_json"
proof -
  show "inj vp9_params_to_json"
    by (rule injI) (drule fields_eq [of _ _ "''profile_id''"], simp add: vp9_params_to_json_def)
  show "inj h264_params_to_json"
  proof (rule injI)
    fix p q assume "h264_params_to_json p = h264_params_to_json q"
    note f = fields_eq [OF this]
    from f [of "''profile_level_id''"] f [of "''b_frame''"] show "p = q"
      by (simp add: h264_params_to_json_def del: map_of_append)
  qed
  show "inj h265_params_to_json"
  proof (rule injI)
    fix p q assume "h265_params_to_json p = h265_params_to_json q"
    note f = fields_eq [OF this]
    from f [of "''level_id''"] f [of "''profile_id''"] f [of "''tier_flag''"] f [of "''tx_mode''"]
      f [of "''b_frame''"] show "p = q"
      by (simp add: h265_params_to_json_def del: map_of_append)
  qed
  show "inj av1_params_to_json"
  proof (rule injI)
    fix p q assume "av1_params_to_json p = av1_params_to_json q"
    note f = fields_eq [OF this]
    from f [of "''profile''"] f [of "''level_idx''"] f [of "''tier''"] show "p = q"
      by (simp add: av1_params_to_json_def del: map_of_append)
  qed
qed

lemma inj_video: "inj video_to_json"
proof (rule injI)
  fix v w
  assume eq: "video_to_json v = video_to_json w"
  note f = fields_eq [OF eq]
  show "v = w"
  proof (cases "\<exists>x y. v = VideoBool x \<and> w = VideoBool y")
    case True
    with eq show ?thesis by auto
  next
    case False
    with f [of "''codec_type''"] f [of "''bit_rate''"] f [of "''vp9_params''"]
      f [of "''h264_params''"] f [of "''h265_params''"] f [of "''av1_params''"] show ?thesis
      by (cases v; cases w)
        (simp_all add: inj_video_params [THEN map_option_inj] del: map_of_append)
  qed
qed

lemma inj_connect_data_channel: "inj connect_data_channel_to_json"
proof (rule injI)
  fix p q assume "connect_data_channel_to_json p = connect_data_channel_to_json q"
  note f = fields_eq [OF this]
  from f [of "''label''"] f [of "''direction''"] f [of "''ordered''"]
    f [of "''max_packet_life_time''"] f [of "''max_retransmits''"] f [of "''protocol''"]
    f [of "''compress''"] f [of "''header''"] show "p = q"
    by (simp add: connect_data_channel_to_json_def map_option_inj [OF inj_arr] inj_json_scalars
        del: map_of_append)
qed

lemma inj_forwarding_filter_rule: "inj forwarding_filter_rule_to_json"
  by (rule injI) (auto simp: forwarding_filter_rule_to_json_def
      dest: inj_map_eq_map [OF inj_json_scalars(2), THEN iffD1])

lemma inj_forwarding_filter: "inj forwarding_filter_to_json"
proof (rule injI)
  fix p q assume "forwarding_filter_to_json p = forwarding_filter_to_json q"
  note f = fields_eq [OF this]
  note arr = injD [OF inj_arr [OF inj_arr [OF inj_forwarding_filter_rule]]]
  from f [of "''name''"] f [of "''priority''"] f [of "''action''"] f [of "''rules''"]
    f [of "''version''"] f [of "''metadata''"] show "p = q"
    by (auto simp: forwarding_filter_to_json_def arr simp del: map_of_append)
qed


lemma inj_as_sora_role: "inj as_sora_role"
  by (rule injI) (auto elim!: as_sora_role.elims)

lemma connect_members_inj:
  assumes eq: "connect_members c = connect_members d"
  shows "c = d"
proof -
  have "JObj (connect_members c) = JObj (connect_members d)" by (simp add: eq)
  note f = fields_eq [OF this]
  note lists = map_option_inj [OF inj_arr [OF inj_connect_data_channel]]
    map_option_inj [OF inj_arr [OF inj_forwarding_filter]]
    map_option_inj [OF inj_audio] map_option_inj [OF inj_video]
  have plain: "cm_channel_id c = cm_channel_id d" "cm_role c = cm_role d"
    "cm_sora_client c = cm_sora_client d" "cm_libwebrtc c = cm_libwebrtc d"
    "cm_environment c = cm_environment d" "cm_redirect c = cm_redirect d"
    using f [of "''channel_id''"] f [of "''role''"] f [of "''sora_client''"] f [of "''libwebrtc''"]
      f [of "''environment''"] f [of "''redirect''"]
    unfolding connect_fields by (simp_all add: inj_as_sora_role [THEN inj_eq] split: if_splits)
  have opts: "cm_client_id c = cm_client_id d" "cm_bundle_id c = cm_bundle_id d"
    "cm_metadata c = cm_metadata d" "cm_data_channel_signaling c = cm_data_channel_signaling d"
    "cm_ignore_disconnect_websocket c = cm_ignore_disconnect_websocket d"
    "cm_simulcast c = cm_simulcast d" "cm_simulcast_request_rid c = cm_simulcast_request_rid d"
    "cm_spotlight c = cm_spotlight d" "cm_spotlight_focus_rid c = cm_spotlight_focus_rid d"
    "cm_spotlight_unfocus_rid c = cm_spotlight_unfocus_rid d"
    "cm_signaling_notify_metadata c = cm_signaling_notify_metadata d"
    using f [of "''client_id''"] f [of "''bundle_id''"] f [of "''metadata''"]
      f [of "''data_channel_signaling''"] f [of "''ignore_disconnect_websocket''"]
      f [of "''simulcast''"] f [of "''simulcast_request_rid''"] f [of "''spotlight''"]
      f [of "''spotlight_focus_rid''"] f [of "''spotlight_unfocus_rid''"]
      f [of "''signaling_notify_metadata''"]
    unfolding connect_optional_fields by simp_all
  have "cm_data_channels c = cm_data_channels d" "cm_forwarding_filters c = cm_forwarding_filters d"
    "cm_audio c = cm_audio d" "cm_video c = cm_video d"
    using f [of "''data_channels''"] f [of "''forwarding_filters''"] f [of "''audio''"]
      f [of "''video''"]
    unfolding connect_optional_fields by (simp_all add: lists)
  with plain opts show ?thesis by (intro connect_message.equality) simp_all
qed

text \<open>
  Fact. What the client sends is lossless: two messages that print the same tree are the same
  message, down to every optional field of the codecs, data channels and filters of a connect message, and
  no object that the code prints repeats a member name. The raw JSON texts of the caller (metadata,
  statistics) are sent as they are and are not looked into.
\<close>

theorem outgoing_json_lossless:
  "json_distinct (outgoing_to_json m) \<and> (outgoing_to_json m = outgoing_to_json n \<longleftrightarrow> m = n)"
proof
  show "json_distinct (outgoing_to_json m)"
    using connect_json_distinct by (cases m) (simp_all add: opt_member_def split: option.splits)
  show "outgoing_to_json m = outgoing_to_json n \<longleftrightarrow> m = n"
  proof
    assume eq: "outgoing_to_json m = outgoing_to_json n"
    note f = fields_eq [OF eq]
    show "m = n"
    proof (cases "\<exists>c d. m = Connect c \<and> n = Connect d")
      case True
      with eq connect_members_inj show ?thesis by auto
    next
      case False
      with f [of "''type''"] f [of "''sdp''"] f [of "''stats''"] f [of "''reports''"]
        f [of "''candidate''"] show ?thesis
        by (cases m; cases n) (simp_all add: connect_fields [unfolded json_field.simps])
    qed
  qed simp
qed

text \<open>
  Fact. The connect message carries the configuration as it is: the mandatory fields
  under their names, \<^verbatim>\<open>redirect\<close> exactly on a redirected connection, and every optional
  field exactly when it is set.
\<close>

theorem connect_message_fields:
  "json_field (outgoing_to_json (Connect c)) ''type'' = Some (JStr ''connect'')"
  "json_field (outgoing_to_json (Connect c)) ''channel_id'' = Some (JStr (cm_channel_id c))"
  "json_field (outgoing_to_json (Connect c)) ''role'' = Some (JStr (as_sora_role (cm_role c)))"
  "json_field (outgoing_to_json (Connect c)) ''redirect'' =
     (if cm_redirect c then Some (JBool True) else None)"
  "json_field (outgoing_to_json (Connect c)) ''data_channel_signaling'' =
     map_option JBool (cm_data_channel_signaling c)"
  "json_field (outgoing_to_json (Connect c)) ''ignore_disconnect_websocket'' =
     map_option JBool (cm_ignore_disconnect_websocket c)"
  "json_field (outgoing_to_json (Connect c)) ''metadata'' = map_option JRaw (cm_metadata c)"
  "json_field (outgoing_to_json (Connect c)) ''audio'' = map_option audio_to_json (cm_audio c)"
  "json_field (outgoing_to_json (Connect c)) ''video'' = map_option video_to_json (cm_video c)"
  unfolding outgoing_to_json.simps by (rule connect_fields connect_optional_fields)+

end
