(* ===== verification/Zlib.thy ===== *)
theory Zlib
  imports Prelude
begin

text \<open>
  \<^verbatim>\<open>src/zlib.rs\<close>: bounded decompression. The streaming decoder of the crate \<^verbatim>\<open>noflate\<close> is the
  record \<open>zlib_decoder\<close>; \<^verbatim>\<open>usize\<close> is 64 bits wide.
\<close>

record ('d, 'e) zlib_decoder =
  zlib_new :: 'd
  zlib_feed :: "'d \<Rightarrow> bytes \<Rightarrow> 'e + 'd"
  zlib_output :: "'d \<Rightarrow> bytes"
  zlib_advance :: "'d \<Rightarrow> nat \<Rightarrow> 'd"
  zlib_is_finished :: "'d \<Rightarrow> bool"

datatype 'e zlib_error =
    ZlibOther 'e
  | DecompressedSizeOverflow
  | DecompressedSizeExceedsLimit
  | ZlibStreamEndedBeforeTrailer

definition CHUNK_SIZE :: nat where
  "CHUNK_SIZE = 4 * 1024"

text \<open>\<^verbatim>\<open>slice::chunks\<close>\<close>

function chunks :: "nat \<Rightarrow> 'a list \<Rightarrow> 'a list list" where
  "chunks n xs = (if n = 0 \<or> xs = [] then [] else take n xs # chunks n (drop n xs))"
  by pat_completeness auto
termination
  by (relation "measure (\<lambda>(n, xs). length xs)") auto

declare chunks.simps [simp del]

fun decompress_chunks ::
    "('d, 'e) zlib_decoder \<Rightarrow> nat \<Rightarrow> bytes list \<Rightarrow> 'd \<Rightarrow> bytes \<Rightarrow> nat \<Rightarrow> 'e zlib_error + 'd \<times> bytes"
  where
    "decompress_chunks D max_size [] d output total_output = Inr (d, output)"
  | "decompress_chunks D max_size (chunk # rest) d output total_output =
       bindE (map_err ZlibOther (zlib_feed D d chunk)) (\<lambda>d.
       let produced = zlib_output D d; new_total = total_output + length produced in
       if new_total \<ge> 2 ^ 64 then Inl DecompressedSizeOverflow
       else if new_total > max_size then Inl DecompressedSizeExceedsLimit
       else decompress_chunks D max_size rest (zlib_advance D d (length produced))
              (output @ produced) new_total)"

definition decompress_zlib ::
    "('d, 'e) zlib_decoder \<Rightarrow> bytes \<Rightarrow> nat \<Rightarrow> 'e zlib_error + bytes" where
  "decompress_zlib D data max_size =
     bindE (decompress_chunks D max_size (chunks CHUNK_SIZE data) (zlib_new D) [] 0)
       (\<lambda>(d, output).
          if zlib_is_finished D d then Inr output else Inl ZlibStreamEndedBeforeTrailer)"

definition compress_zlib :: "(bytes \<Rightarrow> 'e + bytes) \<Rightarrow> bytes \<Rightarrow> 'e zlib_error + bytes" where
  "compress_zlib compress data = map_err ZlibOther (compress data)"

subsection \<open>What the decoder produces without a limit\<close>

fun produce ::
    "('d, 'e) zlib_decoder \<Rightarrow> bytes list \<Rightarrow> 'd \<Rightarrow> ('d \<times> bytes list) option" where
  "produce D [] d = Some (d, [])"
| "produce D (chunk # rest) d =
     do {
       d \<leftarrow> ok_opt (zlib_feed D d chunk);
       (d', outs) \<leftarrow> produce D rest (zlib_advance D d (length (zlib_output D d)));
       Some (d', zlib_output D d # outs)
     }"

lemma concat_chunks: "0 < n \<Longrightarrow> concat (chunks n xs) = xs"
proof (induction n xs rule: chunks.induct)
  case (1 n xs)
  then show ?case by (subst chunks.simps) simp
qed

lemma chunks_length: "c \<in> set (chunks n xs) \<Longrightarrow> 0 < length c \<and> length c \<le> n"
proof (induction n xs rule: chunks.induct)
  case (1 n xs)
  then show ?case by (subst (asm) (2) chunks.simps) (auto split: if_splits)
qed

lemma decompress_chunks_ok:
  assumes "max_size < 2 ^ 64" and "so_far = length buf"
  shows "decompress_chunks D max_size cs d buf so_far = Inr (d', out) \<and> so_far \<le> max_size \<longleftrightarrow>
     (\<exists>outs. produce D cs d = Some (d', outs) \<and> out = buf @ concat outs \<and> length out \<le> max_size)"
  using assms(2)
proof (induction cs arbitrary: d buf so_far)
  case Nil
  then show ?case by auto
next
  case (Cons c cs)
  show ?case
  proof (cases "zlib_feed D d c")
    case (Inl e)
    then show ?thesis by simp
  next
    case (Inr d1)
    let ?p = "zlib_output D d1" and ?d = "zlib_advance D d1 (length (zlib_output D d1))"
    have p: "produce D (c # cs) d = Some (d', os) \<longleftrightarrow>
        (\<exists>outs. produce D cs ?d = Some (d', outs) \<and> os = ?p # outs)" for os
      using Inr by (simp add: bind_eq_Some_conv) blast
    have p': "(\<exists>os. produce D (c # cs) d = Some (d', os) \<and> out = buf @ concat os \<and> length out \<le> max_size)
        \<longleftrightarrow> (\<exists>outs. produce D cs ?d = Some (d', outs) \<and> out = (buf @ ?p) @ concat outs \<and>
          length out \<le> max_size)"
      unfolding p by force
    show ?thesis
    proof (cases "so_far + length ?p \<le> max_size")
      case True
      then have le: "so_far \<le> max_size" by simp
      from True assms(1) Inr have eq: "decompress_chunks D max_size (c # cs) d buf so_far =
          decompress_chunks D max_size cs ?d (buf @ ?p) (so_far + length ?p)"
        by (simp add: Let_def)
      have ih: "decompress_chunks D max_size cs ?d (buf @ ?p) (so_far + length ?p) = Inr (d', out)
            \<and> so_far + length ?p \<le> max_size \<longleftrightarrow>
          (\<exists>outs. produce D cs ?d = Some (d', outs) \<and> out = (buf @ ?p) @ concat outs \<and>
             length out \<le> max_size)"
        by (rule Cons.IH) (simp add: Cons.prems)
      show ?thesis unfolding p' eq using ih True le by blast
    next
      case False
      with Inr have "decompress_chunks D max_size (c # cs) d buf so_far \<noteq> Inr (d', out)"
        by (simp add: Let_def)
      moreover from False Cons.prems have "\<not> length (buf @ concat (?p # outs)) \<le> max_size" for outs
        by simp
      ultimately show ?thesis unfolding p by blast
    qed
  qed
qed

text \<open>
  Property C37. Decompression is bounded and exact: it succeeds exactly when every chunk
  decodes, the stream ends with its trailer and all of the output together fits the limit,
  and then returns all of the output, which is never longer than the limit.
\<close>

theorem decompress_zlib_spec:
  assumes "max_size < 2 ^ 64"
  shows "decompress_zlib D data max_size = Inr out \<longleftrightarrow>
     (\<exists>d outs. produce D (chunks CHUNK_SIZE data) (zlib_new D) = Some (d, outs) \<and>
        zlib_is_finished D d \<and> out = concat outs \<and> length out \<le> max_size)"
  using decompress_chunks_ok [OF assms, of 0 "[]" D "chunks CHUNK_SIZE data" "zlib_new D"]
  by (auto simp: decompress_zlib_def result_simps split: prod.splits if_splits)

text \<open>
  Fact. The decoder is fed all of the input in order, in pieces of at most 4096 bytes.
\<close>

theorem decompress_zlib_input:
  "concat (chunks CHUNK_SIZE data) = data"
  "\<forall>c \<in> set (chunks CHUNK_SIZE data). length c \<le> 4096"
  using concat_chunks [of CHUNK_SIZE data] chunks_length [of _ CHUNK_SIZE data]
  by (auto simp: CHUNK_SIZE_def)

definition example_decoder :: "(bytes, unit) zlib_decoder" where
  "example_decoder =
     \<lparr>zlib_new = [], zlib_feed = (\<lambda>d c. Inr (d @ c)), zlib_output = (\<lambda>d. d),
      zlib_advance = (\<lambda>d n. drop n d), zlib_is_finished = (\<lambda>d. True)\<rparr>"

theorem decompress_zlib_spec_witness:
  "decompress_zlib example_decoder [1, 2, 3] 3 = Inr [1, 2, 3] \<and>
   decompress_zlib example_decoder [1, 2, 3] 2 \<noteq> Inr [1, 2, 3]"
proof -
  have "produce example_decoder (chunks CHUNK_SIZE [1, 2, 3]) (zlib_new example_decoder) =
      Some ([], [[1, 2, 3]])"
    by (simp add: chunks.simps CHUNK_SIZE_def example_decoder_def)
  moreover have "zlib_is_finished example_decoder []" by (simp add: example_decoder_def)
  ultimately show ?thesis
    using decompress_zlib_spec [of 3 example_decoder "[1, 2, 3]" "[1, 2, 3]"]
      decompress_zlib_spec [of 2 example_decoder "[1, 2, 3]" "[1, 2, 3]"] by simp
qed

end
