(* ===== verification/Media_Path.thy ===== *)
theory Media_Path
  imports Prelude
begin

text \<open>
  The monitor of the media path, \<^verbatim>\<open>MediaPathMonitor\<close> of \<^verbatim>\<open>src/connection.rs\<close>: a state machine over the
  states of the peer connection that decides when a lost path ends the connection. The grace timers it
  starts are the output of \<open>handle_media_path_state\<close>; \<open>timer_events\<close> is what may arrive of them.
\<close>

datatype peer_connection_state =
    PcNew | PcConnecting | PcConnected | PcDisconnected | PcFailed | PcClosed | PcUnknown "32 word"

datatype media_path_action =
    NoAction
  | StartGraceTimer u64
  | TerminatePath

record media_path_monitor =
  mp_connected :: bool
  mp_generation :: u64
  mp_grace_timer :: "u64 option"

definition monitor_new :: media_path_monitor where
  "monitor_new = \<lparr>mp_connected = False, mp_generation = 0, mp_grace_timer = None\<rparr>"

definition monitor_observe ::
    "media_path_monitor \<Rightarrow> peer_connection_state \<Rightarrow> media_path_action \<times> media_path_monitor" where
  "monitor_observe m state =
     (let m = (if state = PcConnected then m\<lparr>mp_connected := True\<rparr> else m) in
      if \<not> mp_connected m then (NoAction, m)
      else case state of
        PcConnected \<Rightarrow> (NoAction, m\<lparr>mp_grace_timer := None\<rparr>)
      | PcConnecting \<Rightarrow> (NoAction, m\<lparr>mp_grace_timer := None\<rparr>)
      | PcDisconnected \<Rightarrow>
          (let g = mp_generation m + 1 in
           (StartGraceTimer g, m\<lparr>mp_generation := g, mp_grace_timer := Some g\<rparr>))
      | PcFailed \<Rightarrow> (TerminatePath, m)
      | _ \<Rightarrow> (NoAction, m))"

definition should_terminate_on_timeout :: "media_path_monitor \<Rightarrow> u64 \<Rightarrow> bool" where
  "should_terminate_on_timeout m generation \<longleftrightarrow> mp_grace_timer m = Some generation"

text \<open>Whether to terminate, and the timer that was spawned.\<close>

definition handle_media_path_state ::
    "media_path_monitor \<Rightarrow> peer_connection_state \<Rightarrow> bool \<times> u64 option \<times> media_path_monitor" where
  "handle_media_path_state m state =
     (case monitor_observe m state of
        (NoAction, m) \<Rightarrow> (False, None, m)
      | (StartGraceTimer g, m) \<Rightarrow> (False, Some g, m)
      | (TerminatePath, m) \<Rightarrow> (True, None, m))"

subsection \<open>Runs\<close>

fun observe_all :: "media_path_monitor \<Rightarrow> peer_connection_state list \<Rightarrow> media_path_monitor" where
  "observe_all m [] = m"
| "observe_all m (s # ss) = observe_all (snd (monitor_observe m s)) ss"

text \<open>The states since the last \<^verbatim>\<open>Disconnected\<close>, and whether the path had been connected before it.\<close>

definition recovers :: "peer_connection_state \<Rightarrow> bool" where
  "recovers s \<longleftrightarrow> s = PcConnected \<or> s = PcConnecting"

fun disconnects :: "bool \<Rightarrow> peer_connection_state list \<Rightarrow> nat" where
  "disconnects c [] = 0"
| "disconnects c (s # ss) =
     (if s = PcConnected then disconnects True ss
      else (if c \<and> s = PcDisconnected then 1 else 0) + disconnects c ss)"

lemma observe_generation:
  assumes "unat (mp_generation m) + disconnects (mp_connected m) ss < 2 ^ 64"
  shows "unat (mp_generation (observe_all m ss)) =
     unat (mp_generation m) + disconnects (mp_connected m) ss"
  using assms
proof (induction ss arbitrary: m)
  case (Cons s ss)
  show ?case
  proof (cases "mp_connected m \<and> s = PcDisconnected")
    case True
    with Cons.prems have "unat (mp_generation m + 1) = unat (mp_generation m) + 1"
      by (simp add: unat_word_ariths)
    with True Cons show ?thesis by (simp add: monitor_observe_def Let_def)
  next
    case False
    with Cons show ?thesis
      by (cases s; cases "mp_connected m") (simp_all add: monitor_observe_def Let_def)
  qed
qed simp

lemma observe_one_connected [simp]:
  "mp_connected (snd (monitor_observe m s)) \<longleftrightarrow> mp_connected m \<or> s = PcConnected"
  by (cases s) (simp_all add: monitor_observe_def Let_def)

lemma handle_one:
  "fst (handle_media_path_state m s) \<longleftrightarrow> mp_connected m \<and> s = PcFailed"
  "fst (snd (handle_media_path_state m s)) =
     (if mp_connected m \<and> s = PcDisconnected then Some (mp_generation m + 1) else None)"
  by (cases s; cases "mp_connected m";
      simp add: handle_media_path_state_def monitor_observe_def Let_def)+

lemma observe_connected: "mp_connected (observe_all m ss) \<longleftrightarrow> mp_connected m \<or> PcConnected \<in> set ss"
  by (induction ss arbitrary: m) auto

lemma observe_append: "observe_all m (ss @ ts) = observe_all (observe_all m ss) ts"
  by (induction ss arbitrary: m) simp_all

lemma disconnects_append:
  "disconnects c (ss @ ts) = disconnects c ss + disconnects (c \<or> PcConnected \<in> set ss) ts"
  by (induction ss arbitrary: c) auto

lemma grace_kept:
  assumes "mp_connected m" and "\<forall>s \<in> set ts. \<not> recovers s \<and> s \<noteq> PcDisconnected"
  shows "mp_grace_timer (observe_all m ts) = mp_grace_timer m"
  using assms
proof (induction ts arbitrary: m)
  case (Cons s ts)
  then show ?case by (cases s) (auto simp: monitor_observe_def recovers_def Let_def)
qed simp

lemma grace_from:
  "mp_grace_timer (observe_all m ts) = Some g \<Longrightarrow>
     (mp_grace_timer m = Some g \<and> (\<forall>s \<in> set ts. mp_connected m \<longrightarrow> \<not> recovers s \<and> s \<noteq> PcDisconnected)) \<or>
     (\<exists>before after. ts = before @ PcDisconnected # after \<and> mp_connected (observe_all m before) \<and>
        g = mp_generation (observe_all m before) + 1 \<and>
        (\<forall>s \<in> set after. \<not> recovers s \<and> s \<noteq> PcDisconnected))"
proof (induction ts rule: rev_induct)
  case Nil
  then show ?case by simp
next
  case (snoc s ts)
  let ?m = "observe_all m ts"
  have step: "observe_all m (ts @ [s]) = snd (monitor_observe ?m s)" by (simp add: observe_append)
  show ?case
  proof (cases "mp_connected ?m \<and> s = PcDisconnected")
    case True
    with snoc.prems step have "g = mp_generation ?m + 1" by (simp add: monitor_observe_def Let_def)
    with True show ?thesis by (intro disjI2 exI [of _ ts] exI [of _ "[]"]) simp
  next
    case False
    with snoc.prems step have keep: "mp_grace_timer ?m = Some g \<and>
        (mp_connected ?m \<longrightarrow> \<not> recovers s \<and> s \<noteq> PcDisconnected)"
      by (cases s; cases "mp_connected ?m") (simp_all add: monitor_observe_def Let_def recovers_def)
    with snoc.IH consider
        (old) "mp_grace_timer m = Some g" "\<forall>s \<in> set ts. mp_connected m \<longrightarrow> \<not> recovers s \<and> s \<noteq> PcDisconnected"
      | (new) before after where "ts = before @ PcDisconnected # after" "mp_connected (observe_all m before)"
          "g = mp_generation (observe_all m before) + 1"
          "\<forall>s \<in> set after. \<not> recovers s \<and> s \<noteq> PcDisconnected" by blast
    then show ?thesis
    proof cases
      case old
      with keep observe_connected [of m ts] show ?thesis by auto
    next
      case new
      have "mp_connected ?m" using new(2) by (simp add: new(1) observe_append observe_connected)
      with keep new show ?thesis
        by (intro disjI2 exI [of _ before] exI [of _ "after @ [s]"]) auto
    qed
  qed
qed

text \<open>
  Property C38. A grace timer ends the connection exactly when the path is still lost: after any
  sequence of states, the timer of the generation \<open>g\<close> counts only if the last \<^verbatim>\<open>Disconnected\<close> after the first
  \<^verbatim>\<open>Connected\<close> was given \<open>g\<close> and no \<^verbatim>\<open>Connected\<close>, \<^verbatim>\<open>Connecting\<close> or further \<^verbatim>\<open>Disconnected\<close> followed, and
  the timers of two different \<^verbatim>\<open>Disconnected\<close> states never have the same generation.
\<close>

theorem grace_timer_spec:
  assumes "disconnects False states < 2 ^ 64"
  shows "should_terminate_on_timeout (observe_all monitor_new states) g \<longleftrightarrow>
     (\<exists>before after. states = before @ PcDisconnected # after \<and> PcConnected \<in> set before \<and>
        unat g = disconnects False before + 1 \<and>
        (\<forall>s \<in> set after. \<not> recovers s \<and> s \<noteq> PcDisconnected))"
proof -
  have gen: "unat (mp_generation (observe_all monitor_new before) + 1) = disconnects False before + 1"
    if "states = before @ PcDisconnected # after" "PcConnected \<in> set before" for before after
  proof -
    from assms that have b: "disconnects False before + 1 < 2 ^ 64"
      by (simp add: disconnects_append split: if_splits)
    then have "unat (mp_generation (observe_all monitor_new before)) = disconnects False before"
      using observe_generation [of monitor_new before] by (simp add: monitor_new_def)
    with b show ?thesis by (simp add: unat_word_ariths)
  qed
  show ?thesis
  proof
    assume "should_terminate_on_timeout (observe_all monitor_new states) g"
    then have "mp_grace_timer (observe_all monitor_new states) = Some g"
      by (simp add: should_terminate_on_timeout_def)
    from grace_from [OF this] obtain before after where
      f: "states = before @ PcDisconnected # after" "mp_connected (observe_all monitor_new before)"
        "g = mp_generation (observe_all monitor_new before) + 1"
        "\<forall>s \<in> set after. \<not> recovers s \<and> s \<noteq> PcDisconnected"
      by (auto simp: monitor_new_def)
    from f(2) have "PcConnected \<in> set before" by (simp add: observe_connected monitor_new_def)
    with f gen [OF f(1)] show "\<exists>before after. states = before @ PcDisconnected # after \<and>
        PcConnected \<in> set before \<and> unat g = disconnects False before + 1 \<and>
        (\<forall>s \<in> set after. \<not> recovers s \<and> s \<noteq> PcDisconnected)"
      by blast
  next
    assume "\<exists>before after. states = before @ PcDisconnected # after \<and>
        PcConnected \<in> set before \<and> unat g = disconnects False before + 1 \<and>
        (\<forall>s \<in> set after. \<not> recovers s \<and> s \<noteq> PcDisconnected)"
    then obtain before after where f: "states = before @ PcDisconnected # after"
      "PcConnected \<in> set before" "unat g = disconnects False before + 1"
      "\<forall>s \<in> set after. \<not> recovers s \<and> s \<noteq> PcDisconnected" by blast
    let ?m = "observe_all monitor_new before"
    from f(2) have c: "mp_connected ?m" by (simp add: observe_connected)
    let ?m' = "snd (monitor_observe ?m PcDisconnected)"
    from c have m': "mp_connected ?m'" "mp_grace_timer ?m' = Some (mp_generation ?m + 1)"
      by (simp_all add: monitor_observe_def Let_def)
    from gen [OF f(1,2)] f(3) have "mp_generation ?m + 1 = g" by (simp add: word_unat_eq_iff)
    with m' grace_kept [OF m'(1) f(4)] f(1)
    show "should_terminate_on_timeout (observe_all monitor_new states) g"
      by (simp add: should_terminate_on_timeout_def observe_append)
  qed
qed

theorem grace_timer_spec_witness:
  "should_terminate_on_timeout (observe_all monitor_new [PcConnected, PcDisconnected, PcClosed]) 1"
proof (rule grace_timer_spec [THEN iffD2])
  show "disconnects False [PcConnected, PcDisconnected, PcClosed] < 2 ^ 64" by simp
  show "\<exists>before after. [PcConnected, PcDisconnected, PcClosed] = before @ PcDisconnected # after \<and>
      PcConnected \<in> set before \<and> unat (1 :: u64) = disconnects False before + 1 \<and>
      (\<forall>s \<in> set after. \<not> recovers s \<and> s \<noteq> PcDisconnected)"
    by (rule exI [of _ "[PcConnected]"], rule exI [of _ "[PcClosed]"]) (simp add: recovers_def)
qed

text \<open>
  Fact. Before the first \<^verbatim>\<open>Connected\<close> no state ends the connection or starts a timer; afterwards
  \<^verbatim>\<open>Failed\<close> ends it at once and every \<^verbatim>\<open>Disconnected\<close> starts a timer.
\<close>

theorem handle_media_path_state_spec:
  "fst (handle_media_path_state (observe_all monitor_new states) s) \<longleftrightarrow>
     PcConnected \<in> set states \<and> s = PcFailed"
  "fst (snd (handle_media_path_state (observe_all monitor_new states) s)) \<noteq> None \<longleftrightarrow>
     PcConnected \<in> set states \<and> s = PcDisconnected"
  by (simp_all add: handle_one observe_connected monitor_new_def)

end
