(* ===== verification/Data_Channels.thy ===== *)
theory Data_Channels
  imports Signaling Zlib Media_Path
begin

text \<open>
  The data channels of a connection, from \<^verbatim>\<open>src/connection.rs\<close>: which are open, when signaling moves to
  them, when the closing of one ends the connection, sending, and waiting for them to close.

  A channel of the WebRTC crate is of the type \<open>'c\<close>; what the code asks of it is in the record
  \<open>channel_lib\<close>, over the state \<open>'w\<close> of everything outside of the crate. The set of the open labels
  is the list of its elements; a \<^verbatim>\<open>HashSet\<close> gives no order and no statement depends on it. The calls of the
  event handler are the list of \<open>callback\<close>s made so far.
\<close>

subsection \<open>Callbacks\<close>

datatype callback =
    OnSignalingMessage signaling_type signaling_direction string
  | OnNotify string
  | OnPush string
  | OnTrack nat
  | OnRemoveTrack nat
  | OnSignalingStateChange nat
  | OnConnectionStateChange peer_connection_state
  | OnIceConnectionStateChange nat
  | OnIceGatheringStateChange nat
  | OnSwitched
  | OnWebsocketClose "u16 option" string
  | OnMessage string bytes
  | OnDataChannel string
  | OnDataChannelOpen string
  | OnDataChannelMessage string bytes
  | OnDataChannelClose string

subsection \<open>Channels\<close>

datatype data_channel_state = DcConnecting | DcOpen | DcClosing | DcClosed

record 'c managed_data_channel =
  mc_channel :: 'c
  mc_compress :: bool

type_synonym 'c data_channels = "string \<rightharpoonup> 'c managed_data_channel"

record ('c, 'w, 'e) channel_lib =
  ch_label :: "'c \<Rightarrow> string option"
  ch_state :: "'w \<Rightarrow> 'c \<Rightarrow> data_channel_state"
  ch_send :: "'c \<Rightarrow> bytes \<Rightarrow> 'w \<Rightarrow> bool \<times> 'w"
  ch_compress :: "bytes \<Rightarrow> 'e + bytes"

datatype data_channel_state_result = ContinueConnection | TerminateConnection

definition is_data_channel_signaling_ready ::
    "bool \<Rightarrow> data_channel_config list \<Rightarrow> string list \<Rightarrow> bool" where
  "is_data_channel_signaling_ready switched_received configs opened \<longleftrightarrow>
     0 < length configs \<and> switched_received \<and> length configs \<le> length opened"

definition is_switching_ready ::
    "bool \<Rightarrow> bool \<Rightarrow> bool \<Rightarrow> data_channel_config list \<Rightarrow> string list \<Rightarrow> bool" where
  "is_switching_ready ignore websocket_closed switched_received configs opened \<longleftrightarrow>
     ignore \<and> \<not> websocket_closed \<and>
     is_data_channel_signaling_ready switched_received configs opened"

definition resolve_ws_disconnect_delay_start ::
    "nat option \<Rightarrow> bool \<Rightarrow> bool \<Rightarrow> nat \<Rightarrow> nat option" where
  "resolve_ws_disconnect_delay_start start ws_connected switching_ready now =
     (if \<not> ws_connected \<or> \<not> switching_ready then None else or_else start (Some now))"

definition is_data_channel_open ::
    "('c, 'w, 'e) channel_lib \<Rightarrow> 'w \<Rightarrow> 'c data_channels \<Rightarrow> string \<Rightarrow> bool" where
  "is_data_channel_open L w channels label =
     (case channels label of None \<Rightarrow> False | Some m \<Rightarrow> ch_state L w (mc_channel m) = DcOpen)"

definition is_data_channel_closed ::
    "('c, 'w, 'e) channel_lib \<Rightarrow> 'w \<Rightarrow> 'c data_channels \<Rightarrow> string \<Rightarrow> bool" where
  "is_data_channel_closed L w channels label =
     (case channels label of None \<Rightarrow> False | Some m \<Rightarrow> ch_state L w (mc_channel m) = DcClosed)"

definition should_notify_close ::
    "('c, 'w, 'e) channel_lib \<Rightarrow> 'w \<Rightarrow> 'c data_channels \<Rightarrow> string list \<Rightarrow> string \<Rightarrow> bool" where
  "should_notify_close L w channels opened label \<longleftrightarrow>
     is_data_channel_closed L w channels label \<and> label \<in> set opened"

definition notify_data_channel_closed ::
    "string \<Rightarrow> string list \<times> callback list \<Rightarrow> string list \<times> callback list" where
  "notify_data_channel_closed label s =
     (removeAll label (fst s), snd s @ [OnDataChannelClose label])"

fun notify_labels_closed ::
    "string list \<Rightarrow> string list \<times> callback list \<Rightarrow> string list \<times> callback list" where
  "notify_labels_closed [] s = s"
| "notify_labels_closed (label # ls) s = notify_labels_closed ls (notify_data_channel_closed label s)"

definition notify_close_for_remaining ::
    "string list \<times> callback list \<Rightarrow> string list \<times> callback list" where
  "notify_close_for_remaining s = notify_labels_closed (fst s) s"

text \<open>The open labels, whether signaling runs over data channels, and the callbacks.\<close>

record channel_view =
  cv_opened :: "string list"
  cv_use_data_channel :: bool
  cv_callbacks :: "callback list"

definition handle_data_channel_state ::
    "('c, 'w, 'e) channel_lib \<Rightarrow> 'w \<Rightarrow> 'c data_channels \<Rightarrow> data_channel_config list \<Rightarrow> bool \<Rightarrow> string \<Rightarrow>
       channel_view \<Rightarrow> data_channel_state_result \<times> channel_view" where
  "handle_data_channel_state L w channels configs switched_received label v =
     (if is_data_channel_open L w channels label \<and> label \<notin> set (cv_opened v) then
        let opened = cv_opened v @ [label] in
        (ContinueConnection,
         \<lparr>cv_opened = opened,
          cv_use_data_channel = cv_use_data_channel v \<or>
            is_data_channel_signaling_ready switched_received configs opened,
          cv_callbacks = cv_callbacks v @ [OnDataChannelOpen label]\<rparr>)
      else if should_notify_close L w channels (cv_opened v) label then
        let (opened, cbs) = notify_data_channel_closed label (cv_opened v, cv_callbacks v) in
        (TerminateConnection, v\<lparr>cv_opened := opened, cv_callbacks := cbs\<rparr>)
      else (ContinueConnection, v))"

subsection \<open>Registering and sending\<close>

text \<open>The new channels, and the label to notify when the channel is open already.\<close>

definition register_data_channel ::
    "('c, 'w, 'e) channel_lib \<Rightarrow> 'w \<Rightarrow> data_channel_config list \<Rightarrow> 'c \<Rightarrow> 'c data_channels \<Rightarrow>
       'c data_channels \<times> string option" where
  "register_data_channel L w configs channel channels =
     (case ch_label L channel of
        None \<Rightarrow> (channels, None)
      | Some label \<Rightarrow>
          let compress = (case find (\<lambda>c. dc_label c = label) configs of
                            None \<Rightarrow> False | Some c \<Rightarrow> dc_compress c) in
          (channels(label \<mapsto> \<lparr>mc_channel = channel, mc_compress = compress\<rparr>),
           if ch_state L w channel = DcOpen then Some label else None))"

definition send_data_channel_message ::
    "('c, 'w, 'e) channel_lib \<Rightarrow> 'c data_channels \<Rightarrow> string \<Rightarrow> bytes \<Rightarrow> 'w \<Rightarrow>
       (('x, 'e) sora_error + unit) \<times> 'w" where
  "send_data_channel_message L channels label data w =
     (case channels label of
        None \<Rightarrow> (Inl (DataChannelMissing label), w)
      | Some m \<Rightarrow>
          (case if mc_compress m then ch_compress L data else Inr data of
             Inl err \<Rightarrow> (Inl (TransportError (IoError err)), w)
           | Inr send_data \<Rightarrow>
               (case ch_send L (mc_channel m) send_data w of
                  (ok, w) \<Rightarrow> (if ok then Inr () else Inl DataChannelSendFailed, w))))"

definition handle_send_message_command ::
    "('c, 'w, 'e) channel_lib \<Rightarrow> data_channel_config list \<Rightarrow> 'c data_channels \<Rightarrow> string \<Rightarrow> bytes \<Rightarrow> 'w \<Rightarrow>
       (('x, 'e) sora_error + unit) \<times> 'w" where
  "handle_send_message_command L configs channels label data w =
     (if label \<noteq> [] \<and> hd label = CHR ''#'' \<and> (\<exists>c \<in> set configs. dc_label c = label)
      then send_data_channel_message L channels label data w
      else (Inl (InvalidDataChannelLabel label), w))"

subsection \<open>Waiting for the channels to close\<close>

datatype close_wait_event =
    WaitStateChange string
  | WaitOtherEvent
  | WaitEventChannelClosed
  | WaitDeadline

datatype data_channel_close_wait_result = AllChannelsClosed | CloseWaitTimedOut | EventChannelClosed

text \<open>
  What \<^verbatim>\<open>select!\<close> yields one after the other, with the state of the channels at that time; \<open>None\<close> when
  the list ends before the loop does.
\<close>

fun wait_data_channels_close ::
    "('c, 'w, 'e) channel_lib \<Rightarrow> 'c data_channels \<Rightarrow> (close_wait_event \<times> 'w) list \<Rightarrow>
       string list \<times> callback list \<Rightarrow>
       (data_channel_close_wait_result \<times> string list \<times> callback list) option" where
  "wait_data_channels_close L channels [] s = None"
| "wait_data_channels_close L channels ((WaitStateChange label, w) # es) s =
     (let s = (if should_notify_close L w channels (fst s) label
               then notify_data_channel_closed label s else s) in
      if fst s = [] then Some (AllChannelsClosed, s) else wait_data_channels_close L channels es s)"
| "wait_data_channels_close L channels ((WaitOtherEvent, w) # es) s =
     (if fst s = [] then Some (AllChannelsClosed, s) else wait_data_channels_close L channels es s)"
| "wait_data_channels_close L channels ((WaitEventChannelClosed, w) # es) s =
     Some (EventChannelClosed, notify_close_for_remaining s)"
| "wait_data_channels_close L channels ((WaitDeadline, w) # es) s =
     Some (CloseWaitTimedOut, notify_close_for_remaining s)"

subsection \<open>Opens and closes match\<close>

text \<open>
  The contract between the channels and the callbacks: the labels are distinct, and per label the
  handler has seen an open and a close in turn, the last being an open exactly for the open labels.
\<close>

fun channel_open_after :: "string \<Rightarrow> callback list \<Rightarrow> bool \<Rightarrow> bool option" where
  "channel_open_after l [] is_open = Some is_open"
| "channel_open_after l (OnDataChannelOpen k # cs) is_open =
     (if k \<noteq> l then channel_open_after l cs is_open
      else if is_open then None else channel_open_after l cs True)"
| "channel_open_after l (OnDataChannelClose k # cs) is_open =
     (if k \<noteq> l then channel_open_after l cs is_open
      else if is_open then channel_open_after l cs False else None)"
| "channel_open_after l (_ # cs) is_open = channel_open_after l cs is_open"

definition callbacks_match :: "string list \<Rightarrow> callback list \<Rightarrow> bool" where
  "callbacks_match opened cbs \<longleftrightarrow>
     distinct opened \<and> (\<forall>l. channel_open_after l cbs False = Some (l \<in> set opened))"

lemma channel_open_after_append:
  "channel_open_after l (cs @ ds) b =
     (case channel_open_after l cs b of None \<Rightarrow> None | Some b' \<Rightarrow> channel_open_after l ds b')"
  by (induction l cs b rule: channel_open_after.induct) simp_all

definition channel_free :: "callback list \<Rightarrow> bool" where
  "channel_free cbs \<longleftrightarrow> (\<forall>c \<in> set cbs. \<forall>l. c \<noteq> OnDataChannelOpen l \<and> c \<noteq> OnDataChannelClose l)"

lemma channel_open_after_free: "channel_free cbs \<Longrightarrow> channel_open_after l cbs b = Some b"
  by (induction l cbs b rule: channel_open_after.induct) (auto simp: channel_free_def)

lemma callbacks_match_free:
  "callbacks_match opened cbs \<Longrightarrow> channel_free ds \<Longrightarrow> callbacks_match opened (cbs @ ds)"
  by (simp add: callbacks_match_def channel_open_after_append channel_open_after_free)

lemma callbacks_match_open:
  "callbacks_match opened cbs \<Longrightarrow> label \<notin> set opened \<Longrightarrow>
     callbacks_match (opened @ [label]) (cbs @ [OnDataChannelOpen label])"
  by (auto simp: callbacks_match_def channel_open_after_append)

lemma callbacks_match_closed:
  "callbacks_match opened cbs \<Longrightarrow> label \<in> set opened \<Longrightarrow>
     callbacks_match (removeAll label opened) (cbs @ [OnDataChannelClose label])"
  by (auto simp: callbacks_match_def channel_open_after_append distinct_removeAll)

lemma notify_labels_match:
  "callbacks_match (fst s) (snd s) \<Longrightarrow> set ls \<subseteq> set (fst s) \<Longrightarrow> distinct ls \<Longrightarrow>
     callbacks_match (fst (notify_labels_closed ls s)) (snd (notify_labels_closed ls s)) \<and>
     fst (notify_labels_closed ls s) = filter (\<lambda>l. l \<notin> set ls) (fst s)"
proof (induction ls arbitrary: s)
  case (Cons l ls)
  let ?s = "notify_data_channel_closed l s"
  from Cons.prems callbacks_match_closed have "callbacks_match (fst ?s) (snd ?s)"
    by (simp add: notify_data_channel_closed_def)
  moreover from Cons.prems have "set ls \<subseteq> set (fst ?s)" "distinct ls"
    by (auto simp: notify_data_channel_closed_def)
  ultimately have ih: "callbacks_match (fst (notify_labels_closed ls ?s)) (snd (notify_labels_closed ls ?s)) \<and>
      fst (notify_labels_closed ls ?s) = filter (\<lambda>l. l \<notin> set ls) (fst ?s)"
    by (rule Cons.IH)
  have "filter (\<lambda>k. k \<notin> set ls) (removeAll l xs) = filter (\<lambda>k. k \<notin> set (l # ls)) xs" for xs
    by (induction xs) auto
  then have flt: "filter (\<lambda>k. k \<notin> set (l # ls)) (fst s) = filter (\<lambda>k. k \<notin> set ls) (fst ?s)"
    by (simp add: notify_data_channel_closed_def)
  show ?case unfolding notify_labels_closed.simps flt by (rule ih)
qed simp

lemma notify_remaining_match:
  assumes "callbacks_match (fst s) (snd s)"
  shows "callbacks_match [] (snd (notify_close_for_remaining s))"
    and "fst (notify_close_for_remaining s) = []"
  using notify_labels_match [OF assms, of "fst s"] assms
  by (auto simp: notify_close_for_remaining_def callbacks_match_def)

lemma handle_state_match:
  assumes "callbacks_match (cv_opened v) (cv_callbacks v)"
    and "handle_data_channel_state L w channels configs switched label v = (r, v')"
  shows "callbacks_match (cv_opened v') (cv_callbacks v')"
  using assms callbacks_match_open [OF assms(1)] callbacks_match_closed [OF assms(1)]
  by (auto simp: handle_data_channel_state_def Let_def notify_data_channel_closed_def
      should_notify_close_def split: if_splits)

lemma wait_match:
  assumes "callbacks_match (fst s) (snd s)"
    and "wait_data_channels_close L channels es s = Some (r, opened, cbs)"
  shows "opened = [] \<and> callbacks_match [] cbs"
  using assms
proof (induction L channels es s rule: wait_data_channels_close.induct)
  case (2 L channels label w es s)
  let ?s = "if should_notify_close L w channels (fst s) label
    then notify_data_channel_closed label s else s"
  have m: "callbacks_match (fst ?s) (snd ?s)"
    using "2.prems"(1) callbacks_match_closed
    by (auto simp: notify_data_channel_closed_def should_notify_close_def)
  show ?case
  proof (cases "fst ?s = []")
    case True
    with "2.prems"(2) m show ?thesis by (cases ?s) (simp add: Let_def)
  next
    case False
    with "2.prems"(2) have "wait_data_channels_close L channels es ?s = Some (r, opened, cbs)"
      by (simp add: Let_def)
    with "2.IH" [OF refl False m] show ?thesis by simp
  qed
next
  case (3 L channels w es s)
  then show ?case by (cases s) (auto split: if_splits)
next
  case (4 L channels w es s)
  with notify_remaining_match [of s] show ?case by auto
next
  case (5 L channels w es s)
  with notify_remaining_match [of s] show ?case by auto
qed simp


subsection \<open>When signaling moves to the data channels\<close>

text \<open>
  Fact. When the open labels are among the labels of the offer and the offer lists each label once,
  signaling is ready for the data channels exactly when \<^verbatim>\<open>switched\<close> was received, the offer
  has channels, and every one of them is open.
\<close>

theorem signaling_ready_spec:
  assumes "distinct opened" and "distinct (map dc_label configs)"
    and "set opened \<subseteq> dc_label ` set configs"
  shows "is_data_channel_signaling_ready switched configs opened \<longleftrightarrow>
     switched \<and> configs \<noteq> [] \<and> dc_label ` set configs \<subseteq> set opened"
proof -
  have n: "card (set opened) = length opened" "card (dc_label ` set configs) = length configs"
    using assms(1,2) distinct_card [of opened] distinct_card [of "map dc_label configs"] by simp_all
  have "length configs \<le> length opened \<longleftrightarrow> dc_label ` set configs \<subseteq> set opened"
  proof
    assume "length configs \<le> length opened"
    moreover have "card (set opened) \<le> card (dc_label ` set configs)"
      using assms(3) by (intro card_mono) simp_all
    ultimately have "card (set opened) = card (dc_label ` set configs)" using n by simp
    with assms(3) have "set opened = dc_label ` set configs" by (intro card_subset_eq) simp_all
    then show "dc_label ` set configs \<subseteq> set opened" by simp
  next
    assume "dc_label ` set configs \<subseteq> set opened"
    then have "card (dc_label ` set configs) \<le> card (set opened)" by (intro card_mono) simp_all
    with n show "length configs \<le> length opened" by simp
  qed
  then show ?thesis by (auto simp: is_data_channel_signaling_ready_def)
qed

definition example_configs :: "data_channel_config list" where
  "example_configs =
     [\<lparr>dc_label = ''signaling'', dc_compress = False, dc_direction = ''sendrecv''\<rparr>,
      \<lparr>dc_label = ''notify'', dc_compress = True, dc_direction = ''recvonly''\<rparr>]"

theorem signaling_ready_spec_witness:
  "is_data_channel_signaling_ready True example_configs [''notify'', ''signaling'']"
  by (subst signaling_ready_spec) (auto simp: example_configs_def)

text \<open>
  Fact. The test counts labels only: an open channel the offer does not list stands in for
  a listed one that is not open yet.
\<close>

theorem signaling_ready_counts_labels:
  "is_data_channel_signaling_ready True example_configs [''signaling'', ''#chat''] \<and>
   (\<exists>c \<in> set example_configs. dc_label c \<notin> set [''signaling'', ''#chat''])"
  by (simp add: is_data_channel_signaling_ready_def example_configs_def)

subsection \<open>The delay before the WebSocket is closed\<close>

text \<open>The start of the delay after the loop has seen a list of (connected, ready, now).\<close>

fun delay_after :: "(bool \<times> bool \<times> nat) list \<Rightarrow> nat option \<Rightarrow> nat option" where
  "delay_after [] start = start"
| "delay_after ((connected, ready, now) # obs) start =
     delay_after obs (resolve_ws_disconnect_delay_start start connected ready now)"

lemma delay_after_append: "delay_after (xs @ ys) s = delay_after ys (delay_after xs s)"
  by (induction xs s rule: delay_after.induct) simp_all

definition holds_at :: "bool \<times> bool \<times> nat \<Rightarrow> bool" where
  "holds_at x \<longleftrightarrow> fst x \<and> fst (snd x)"

lemma delay_after_kept: "\<forall>x \<in> set xs. holds_at x \<Longrightarrow> delay_after xs (Some t) = Some t"
  by (induction xs) (auto simp: resolve_ws_disconnect_delay_start_def holds_at_def)

text \<open>
  Fact. The WebSocket is closed after the delay only if it was connected and the switch was
  ready the whole time: the recorded start is the time of the first of the uninterrupted
  iterations that lead up to now, and any interruption starts the count anew.
\<close>

theorem delay_start_spec:
  "delay_after obs None = Some t \<longleftrightarrow>
     (\<exists>before x after. obs = before @ x # after \<and> holds_at x \<and> snd (snd x) = t \<and>
        (\<forall>y \<in> set after. holds_at y) \<and> (before = [] \<or> \<not> holds_at (last before)))"
proof
  assume "delay_after obs None = Some t"
  then show "\<exists>before x after. obs = before @ x # after \<and> holds_at x \<and> snd (snd x) = t \<and>
      (\<forall>y \<in> set after. holds_at y) \<and> (before = [] \<or> \<not> holds_at (last before))"
  proof (induction obs rule: rev_induct)
    case (snoc x xs)
    show ?case
    proof (cases "delay_after xs None")
      case None
      with snoc.prems have "holds_at x \<and> snd (snd x) = t"
        by (cases x) (auto simp: delay_after_append resolve_ws_disconnect_delay_start_def
            holds_at_def split: if_splits)
      moreover have "xs = [] \<or> \<not> holds_at (last xs)"
      proof (cases xs rule: rev_cases)
        case (snoc ys y)
        with None show ?thesis
          by (cases y; cases "delay_after ys None")
            (auto simp: delay_after_append resolve_ws_disconnect_delay_start_def holds_at_def
              split: if_splits)
      qed simp
      ultimately show ?thesis by (intro exI [of _ xs] exI [of _ x] exI [of _ "[]"]) simp
    next
      case (Some t')
      with snoc.prems have "holds_at x" "t' = t"
        by (cases x; auto simp: delay_after_append resolve_ws_disconnect_delay_start_def
            holds_at_def split: if_splits)+
      with Some snoc.IH obtain before y after where
        "xs = before @ y # after" "holds_at y" "snd (snd y) = t" "\<forall>z \<in> set after. holds_at z"
        "before = [] \<or> \<not> holds_at (last before)" by blast
      with \<open>holds_at x\<close> show ?thesis
        by (intro exI [of _ before] exI [of _ y] exI [of _ "after @ [x]"]) auto
    qed
  qed simp
next
  assume "\<exists>before x after. obs = before @ x # after \<and> holds_at x \<and> snd (snd x) = t \<and>
      (\<forall>y \<in> set after. holds_at y) \<and> (before = [] \<or> \<not> holds_at (last before))"
  then obtain before x after where f: "obs = before @ x # after" "holds_at x" "snd (snd x) = t"
    "\<forall>y \<in> set after. holds_at y" "before = [] \<or> \<not> holds_at (last before)" by blast
  have "delay_after before None = None"
  proof (cases before rule: rev_cases)
    case (snoc ys y)
    with f(5) show ?thesis
      by (cases y) (auto simp: delay_after_append resolve_ws_disconnect_delay_start_def holds_at_def)
  qed simp
  with f(2,3) have "delay_after (before @ [x]) None = Some t"
    by (cases x) (simp add: delay_after_append resolve_ws_disconnect_delay_start_def holds_at_def)
  with f(1,4) delay_after_kept [of after t] show "delay_after obs None = Some t"
    using delay_after_append [of "before @ [x]" after] by simp
qed

text \<open>A closed instance of the characterisation.\<close>

theorem delay_start_spec_witness:
  "delay_after [(True, False, 1), (True, True, 2), (True, True, 9)] None = Some 2"
  by (rule delay_start_spec [THEN iffD2],
      rule exI [of _ "[(True, False, 1)]"], rule exI [of _ "(True, True, 2)"],
      rule exI [of _ "[(True, True, 9)]"]) (simp add: holds_at_def)

subsection \<open>Sending\<close>

definition user_label :: "data_channel_config list \<Rightarrow> string \<Rightarrow> bool" where
  "user_label configs label \<longleftrightarrow>
     label \<noteq> [] \<and> hd label = CHR ''#'' \<and> label \<in> dc_label ` set configs"

text \<open>
  Fact. A user message leaves only on a label the user may use: for any other label nothing
  is sent, and for a label of the offer that begins with \<^verbatim>\<open>#\<close> the channel of that label is given the
  data, compressed exactly when the channel is.
\<close>

theorem send_message_spec:
  shows "\<not> user_label configs label \<Longrightarrow> handle_send_message_command L configs channels label data w =
      (Inl (InvalidDataChannelLabel label) :: ('x, 'e) sora_error + unit, w)"
    and "user_label configs label \<Longrightarrow> channels label = None \<Longrightarrow>
      handle_send_message_command L configs channels label data w =
      (Inl (DataChannelMissing label) :: ('x, 'e) sora_error + unit, w)"
    and "user_label configs label \<Longrightarrow> channels label = Some m \<Longrightarrow>
      (if mc_compress m then ch_compress L data else Inr data) = Inr sent \<Longrightarrow>
      handle_send_message_command L configs channels label data w =
      (if fst (ch_send L (mc_channel m) sent w) then Inr () else Inl DataChannelSendFailed
         :: ('x, 'e) sora_error + unit, snd (ch_send L (mc_channel m) sent w))"
    and "label \<in> {''signaling'', ''stats'', ''push'', ''notify'', ''rpc''} \<Longrightarrow> \<not> user_label configs label"
  unfolding user_label_def
  by (auto simp: handle_send_message_command_def send_data_channel_message_def split: prod.splits)

definition example_channels :: "(nat, bytes list, unit) channel_lib" where
  "example_channels =
     \<lparr>ch_label = (\<lambda>c. Some ''#chat''), ch_state = (\<lambda>w c. DcOpen),
      ch_send = (\<lambda>c data w. (True, w @ [data])), ch_compress = (\<lambda>data. Inr (rev data))\<rparr>"

theorem send_message_spec_witness:
  "handle_send_message_command example_channels
     [\<lparr>dc_label = ''#chat'', dc_compress = True, dc_direction = ''sendrecv''\<rparr>]
     [''#chat'' \<mapsto> \<lparr>mc_channel = 0, mc_compress = True\<rparr>] ''#chat'' [1, 2] [] =
   (Inr () :: (unit, unit) sora_error + unit, [[2, 1]])"
  by (subst send_message_spec(3) [where sent = "[2, 1]" and m = "\<lparr>mc_channel = 0, mc_compress = True\<rparr>"])
    (simp_all add: example_channels_def user_label_def)

subsection \<open>The end of the wait\<close>

text \<open>
  Fact. Waiting for the channels to close ends with the deadline or the end of the
  events at the latest, and however it ends, no label is left open and the handler has seen exactly one
  close for each label it saw opened.
\<close>

theorem wait_closes_all:
  assumes "callbacks_match (fst s) (snd s)"
  shows "wait_data_channels_close L channels es s = Some (r, opened, cbs) \<Longrightarrow>
      opened = [] \<and> callbacks_match [] cbs"
    and "\<exists>e \<in> set es. fst e = WaitDeadline \<or> fst e = WaitEventChannelClosed \<Longrightarrow>
      \<exists>res. wait_data_channels_close L channels es s = Some res"
proof -
  show "wait_data_channels_close L channels es s = Some (r, opened, cbs) \<Longrightarrow>
      opened = [] \<and> callbacks_match [] cbs"
    by (rule wait_match [OF assms])
  show "\<exists>e \<in> set es. fst e = WaitDeadline \<or> fst e = WaitEventChannelClosed \<Longrightarrow>
      \<exists>res. wait_data_channels_close L channels es s = Some res"
    by (induction L channels es s rule: wait_data_channels_close.induct) (auto simp: Let_def)
qed

theorem wait_closes_all_witness:
  "\<exists>r cbs. wait_data_channels_close example_channels Map.empty [(WaitDeadline, [])]
     ([''signaling''], [OnDataChannelOpen ''signaling'']) = Some (r, [], cbs) \<and> callbacks_match [] cbs"
proof -
  have m: "callbacks_match (fst ([''signaling''], [OnDataChannelOpen ''signaling'']))
      (snd ([''signaling''], [OnDataChannelOpen ''signaling'']))"
    by (auto simp: callbacks_match_def)
  obtain r opened cbs where w: "wait_data_channels_close example_channels Map.empty [(WaitDeadline, [])]
     ([''signaling''], [OnDataChannelOpen ''signaling'']) = Some (r, opened, cbs)"
    by (cases "notify_close_for_remaining ([''signaling''], [OnDataChannelOpen ''signaling''])") simp
  with wait_closes_all(1) [OF m w] show ?thesis by blast
qed

end
