(* ===== verification/Url.thy ===== *)
theory Url
  imports Signaling Version
begin

text \<open>
  Addresses: hosts, signaling URLs and proxies, from \<^verbatim>\<open>src/connection.rs\<close> and the masking of
  \<^verbatim>\<open>src/types.rs\<close>. The URI parser is the crate \<^verbatim>\<open>shiguredo_http11\<close>: a parsed URI is the record \<open>uri\<close> of what
  its accessors return, the parser an argument. Hosts are ASCII texts.
\<close>

record uri =
  uri_scheme :: "string option"
  uri_authority :: "string option"
  uri_host :: "string option"
  uri_port :: "u16 option"
  uri_path :: string
  uri_query :: "string option"
  uri_fragment :: "string option"
  uri_origin_form :: string

type_synonym 'e uri_parser = "string \<Rightarrow> 'e + uri"

subsection \<open>Texts\<close>

definition ascii_lower :: "char \<Rightarrow> char" where
  "ascii_lower c =
     (let n = of_char c :: nat in if 65 \<le> n \<and> n \<le> 90 then char_of (n + 32) else c)"

definition eq_ignore_ascii_case :: "string \<Rightarrow> string \<Rightarrow> bool" where
  "eq_ignore_ascii_case s t \<longleftrightarrow> map ascii_lower s = map ascii_lower t"

definition strip_last :: "char \<Rightarrow> string \<Rightarrow> string option" where
  "strip_last c s = (if s \<noteq> [] \<and> last s = c then Some (butlast s) else None)"

text \<open>\<^verbatim>\<open>rfind\<close>: the text after the last occurrence.\<close>

fun after_last :: "char \<Rightarrow> string \<Rightarrow> string option" where
  "after_last c [] = None"
| "after_last c (x # xs) =
     (case after_last c xs of Some r \<Rightarrow> Some r | None \<Rightarrow> if x = c then Some xs else None)"

subsection \<open>Hosts and ports\<close>

definition DEFAULT_TLS_PORT :: u16 where "DEFAULT_TLS_PORT = 443"
definition DEFAULT_PLAIN_PORT :: u16 where "DEFAULT_PLAIN_PORT = 80"

definition default_port :: "bool \<Rightarrow> u16" where
  "default_port tls = (if tls then DEFAULT_TLS_PORT else DEFAULT_PLAIN_PORT)"

definition normalize_host :: "string \<Rightarrow> ('x, 'e) sora_error + string" where
  "normalize_host host =
     (case trim_by is_space host of
        [] \<Rightarrow> Inl (UrlError HostEmpty)
      | c # rest \<Rightarrow>
          if c = CHR ''['' then
            bindE (ok_or (UrlError HostInvalidFormat) (strip_last CHR '']'' rest)) (\<lambda>stripped.
            if stripped = [] then Inl (UrlError HostEmpty) else Inr stripped)
          else Inr (c # rest))"

definition format_bracketed_host :: "string \<Rightarrow> string" where
  "format_bracketed_host host = (if CHR '':'' \<in> set host then ''['' @ host @ '']'' else host)"

definition format_host_header :: "string \<Rightarrow> u16 \<Rightarrow> bool \<Rightarrow> string" where
  "format_host_header host port tls =
     (let host = format_bracketed_host host in
      if port = default_port tls then host else host @ '':'' @ dec (unat port))"

subsection \<open>Signaling URLs\<close>

record signaling_target =
  st_host :: string
  st_port :: u16
  st_path :: string
  st_tls :: bool

definition has_userinfo :: "uri \<Rightarrow> bool" where
  "has_userinfo u = (case uri_authority u of None \<Rightarrow> False | Some a \<Rightarrow> CHR ''@'' \<in> set a)"

definition parse_signaling_url ::
    "'e uri_parser \<Rightarrow> string \<Rightarrow> ('x, 'e) sora_error + signaling_target" where
  "parse_signaling_url parse_uri url =
     bindE (map_err (UrlError \<circ> UriParse) (parse_uri url)) (\<lambda>u.
     bindE (ok_or (UrlError UrlMissingScheme) (uri_scheme u)) (\<lambda>scheme.
     bindE (if eq_ignore_ascii_case scheme ''wss'' then Inr True
            else if eq_ignore_ascii_case scheme ''ws'' then Inr False
            else Inl (UrlError (UrlUnsupportedScheme scheme))) (\<lambda>tls.
     if has_userinfo u then Inl (UrlError UrlUserinfoNotSupported)
     else if uri_fragment u \<noteq> None then Inl (UrlError UrlFragmentNotAllowed)
     else
       bindE (ok_or (UrlError UrlMissingHost) (uri_host u)) (\<lambda>host.
       bindE (normalize_host host) (\<lambda>host.
       Inr \<lparr>st_host = host, st_port = case_option (default_port tls) id (uri_port u),
            st_path = uri_origin_form u, st_tls = tls\<rparr>)))))"

subsection \<open>Proxies\<close>

record proxy_info =
  proxy_url :: string
  proxy_username :: "string option"
  proxy_password :: "string option"
  proxy_user_agent :: "string option"

record parsed_proxy_info =
  pp_host :: string
  pp_port :: u16
  pp_username :: "string option"
  pp_password :: "string option"
  pp_user_agent :: string

definition parse_proxy_info ::
    "'e uri_parser \<Rightarrow> string \<Rightarrow> proxy_info \<Rightarrow> ('x, 'e) sora_error + parsed_proxy_info" where
  "parse_proxy_info parse_uri sora_client proxy =
     bindE (map_err (UrlError \<circ> UriParse) (parse_uri (proxy_url proxy))) (\<lambda>u.
     bindE (ok_or (UrlError UrlMissingScheme) (uri_scheme u)) (\<lambda>scheme.
     if \<not> eq_ignore_ascii_case scheme ''http''
     then Inl (ProxyError (ProxyUrlUnsupportedScheme scheme))
     else if has_userinfo u then Inl (ProxyError ProxyUrlUserinfoNotSupported)
     else if uri_fragment u \<noteq> None then Inl (ProxyError ProxyUrlFragmentNotAllowed)
     else if uri_query u \<noteq> None then Inl (ProxyError ProxyUrlQueryNotAllowed)
     else if uri_path u \<noteq> [] \<and> uri_path u \<noteq> ''/''
     then Inl (ProxyError (ProxyUrlPathNotAllowed (uri_path u)))
     else
       bindE (ok_or (ProxyError ProxyUrlMissingHost) (uri_host u)) (\<lambda>host.
       bindE (normalize_host host) (\<lambda>host.
       Inr \<lparr>pp_host = host, pp_port = case_option (default_port False) id (uri_port u),
            pp_username = proxy_username proxy, pp_password = proxy_password proxy,
            pp_user_agent = case_option sora_client id (proxy_user_agent proxy)\<rparr>))))"

text \<open>The fields \<^verbatim>\<open>Debug\<close> prints of a parsed proxy.\<close>

definition parsed_proxy_debug :: "parsed_proxy_info \<Rightarrow> parsed_proxy_info" where
  "parsed_proxy_debug p =
     p\<lparr>pp_username := map_option (\<lambda>_. ''<redacted>'') (pp_username p),
       pp_password := map_option (\<lambda>_. ''<redacted>'') (pp_password p)\<rparr>"

definition mask_url_userinfo :: "'e uri_parser \<Rightarrow> string \<Rightarrow> string" where
  "mask_url_userinfo parse_uri url =
     (case parse_uri url of
        Inl _ \<Rightarrow> url
      | Inr u \<Rightarrow>
          (case uri_authority u of
             None \<Rightarrow> url
           | Some authority \<Rightarrow>
               (case after_last CHR ''@'' authority of
                  None \<Rightarrow> url
                | Some host \<Rightarrow>
                    (case uri_scheme u of None \<Rightarrow> [] | Some scheme \<Rightarrow> scheme @ ''://'') @
                    ''<redacted>@'' @ host @ uri_path u @
                    (case uri_query u of None \<Rightarrow> [] | Some q \<Rightarrow> ''?'' @ q) @
                    (case uri_fragment u of None \<Rightarrow> [] | Some fr \<Rightarrow> ''#'' @ fr))))"

definition proxy_info_debug :: "'e uri_parser \<Rightarrow> proxy_info \<Rightarrow> proxy_info" where
  "proxy_info_debug parse_uri p =
     p\<lparr>proxy_url := mask_url_userinfo parse_uri (proxy_url p),
       proxy_username := map_option (\<lambda>_. ''<redacted>'') (proxy_username p),
       proxy_password := map_option (\<lambda>_. ''<redacted>'') (proxy_password p)\<rparr>"

subsection \<open>The CONNECT request\<close>

text \<open>
  The request builder of \<^verbatim>\<open>shiguredo_http11\<close>: making a request, adding a header and encoding may
  fail with an encoding error, making a basic authentication header with an authentication error.
\<close>

record ('q, 'e) http_request_lib =
  rq_new :: "string \<Rightarrow> string \<Rightarrow> 'e + 'q"
  rq_header :: "'q \<Rightarrow> string \<Rightarrow> string \<Rightarrow> 'e + 'q"
  rq_basic_auth :: "string \<Rightarrow> string \<Rightarrow> 'e + string"
  rq_encode :: "'q \<Rightarrow> 'e + bytes"

definition build_proxy_connect_request ::
    "('q, 'e) http_request_lib \<Rightarrow> signaling_target \<Rightarrow> parsed_proxy_info \<Rightarrow> ('x, 'e) sora_error + bytes"
  where
    "build_proxy_connect_request H target proxy =
     (let authority = format_bracketed_host (st_host target) @ '':'' @ dec (unat (st_port target));
          encode_err = ProxyError \<circ> ProxyConnectEncode in
      bindE (map_err encode_err (rq_new H ''CONNECT'' authority)) (\<lambda>r.
      bindE (map_err encode_err (rq_header H r ''Host'' authority)) (\<lambda>r.
      bindE (map_err encode_err (rq_header H r ''User-Agent'' (pp_user_agent proxy))) (\<lambda>r.
      bindE (if pp_username proxy \<noteq> None \<or> pp_password proxy \<noteq> None then
               bindE (map_err (ProxyError \<circ> ProxyAuth)
                  (rq_basic_auth H (case_option [] id (pp_username proxy))
                     (case_option [] id (pp_password proxy)))) (\<lambda>auth.
               map_err encode_err (rq_header H r ''Proxy-Authorization'' auth))
             else Inr r) (\<lambda>r.
      map_err encode_err (rq_encode H r))))))"

definition ensure_proxy_connect_status_success :: "u16 \<Rightarrow> string \<Rightarrow> ('x, 'e) sora_error + unit" where
  "ensure_proxy_connect_status_success status_code reason_phrase =
     (if 200 \<le> status_code \<and> status_code < 300 then Inr ()
      else Inl (ProxyError (ProxyConnectStatusNotSuccessful status_code reason_phrase)))"

subsection \<open>Lemmas\<close>

lemma trim_by_id:
  assumes "s \<noteq> [] \<longrightarrow> \<not> p (hd s) \<and> \<not> p (last s)"
  shows "trim_by p s = s"
proof (cases "s = []")
  case True
  then show ?thesis by (simp add: trim_by_def)
next
  case False
  with assms have "dropWhile p s = s" "dropWhile p (rev s) = rev s"
    by (simp_all add: dropWhile_eq_self_iff hd_rev)
  then show ?thesis by (simp add: trim_by_def)
qed

definition plain_host :: "string \<Rightarrow> bool" where
  "plain_host h \<longleftrightarrow> h \<noteq> [] \<and> hd h \<noteq> CHR ''['' \<and> \<not> is_space (hd h) \<and> \<not> is_space (last h)"

lemma normalize_plain: "plain_host h \<Longrightarrow> normalize_host h = Inr h"
  by (cases h) (auto simp: normalize_host_def trim_by_id plain_host_def)

lemma normalize_bracketed: "h \<noteq> [] \<Longrightarrow> normalize_host (''['' @ h @ '']'') = Inr h"
  by (simp add: normalize_host_def trim_by_id is_space_def strip_last_def)

text \<open>
  Fact. The host formats are inverse: a host, with the brackets an IPv6 address needs,
  is read back as itself; a host with white space or one pair of brackets around it is the host inside.
\<close>

theorem host_roundtrip:
  assumes "plain_host h"
  shows "normalize_host (format_bracketed_host h) = (Inr h :: ('x, 'e) sora_error + _)"
    and "normalize_host (''['' @ h @ '']'') = (Inr h :: ('x, 'e) sora_error + _)"
    and "format_host_header h port tls =
      format_bracketed_host h @ (if port = default_port tls then [] else '':'' @ dec (unat port))"
  using assms normalize_plain [OF assms] normalize_bracketed [of h]
  by (auto simp: format_bracketed_host_def plain_host_def format_host_header_def Let_def)

theorem host_roundtrip_witness:
  "normalize_host (format_bracketed_host ''::1'') = (Inr ''::1'' :: (unit, unit) sora_error + _)"
  by (rule host_roundtrip(1)) (simp add: plain_host_def is_space_def)

text \<open>
  Fact. A signaling URL is accepted exactly when it parses with the scheme ws or wss in
  any case, without user information and fragment, and with a usable host; the target has that host, the
  port of the URL or the default of the scheme, and the origin form as its path.
\<close>

theorem parse_signaling_url_spec:
  "parse_signaling_url parse_uri url = (Inr target :: ('x, 'e) sora_error + _) \<longleftrightarrow>
     (\<exists>u scheme host. parse_uri url = Inr u \<and> uri_scheme u = Some scheme \<and>
        (eq_ignore_ascii_case scheme ''wss'' \<or> eq_ignore_ascii_case scheme ''ws'') \<and>
        \<not> has_userinfo u \<and> uri_fragment u = None \<and> uri_host u = Some host \<and>
        normalize_host host = (Inr (st_host target) :: ('x, 'e) sora_error + _) \<and>
        st_tls target = eq_ignore_ascii_case scheme ''wss'' \<and>
        st_port target = (case uri_port u of None \<Rightarrow> default_port (st_tls target) | Some p \<Rightarrow> p) \<and>
        st_path target = uri_origin_form u)"
proof (cases "parse_uri url")
  case (Inl e)
  then show ?thesis by (simp add: parse_signaling_url_def)
next
  case u: (Inr u)
  show ?thesis
  proof (cases "uri_scheme u = None \<or> uri_host u = None")
    case True
    with u show ?thesis by (auto simp: parse_signaling_url_def result_simps split: if_splits)
  next
    case False
    then obtain scheme host where some: "uri_scheme u = Some scheme" "uri_host u = Some host"
      by auto
    show ?thesis
    proof (cases "normalize_host host :: ('x, 'e) sora_error + _")
      case (Inl e)
      with u some show ?thesis
        by (auto simp: parse_signaling_url_def result_simps split: if_splits)
    next
      case (Inr h)
      with u some show ?thesis
        by (cases target) (auto simp: parse_signaling_url_def id_def split: option.split)
    qed
  qed
qed

definition example_uri :: uri where
  "example_uri =
     \<lparr>uri_scheme = Some ''WSS'', uri_authority = Some ''[::1]'', uri_host = Some ''[::1]'',
      uri_port = None, uri_path = ''/signaling'', uri_query = None, uri_fragment = None,
      uri_origin_form = ''/signaling''\<rparr>"

text \<open>
  Fact. A proxy is accepted exactly when its URL is a plain \<^verbatim>\<open>http://host[:port]\<close>: no user
  information, fragment, query or path; credentials are taken from the settings only and the user agent
  is the one set, or the name of the SDK.
\<close>

theorem parse_proxy_info_spec:
  "parse_proxy_info parse_uri sora_client proxy = (Inr p :: ('x, 'e) sora_error + _) \<longleftrightarrow>
     (\<exists>u scheme host. parse_uri (proxy_url proxy) = Inr u \<and> uri_scheme u = Some scheme \<and>
        eq_ignore_ascii_case scheme ''http'' \<and> \<not> has_userinfo u \<and> uri_fragment u = None \<and>
        uri_query u = None \<and> uri_path u \<in> {[], ''/''} \<and> uri_host u = Some host \<and>
        normalize_host host = (Inr (pp_host p) :: ('x, 'e) sora_error + _) \<and>
        pp_port p = (case uri_port u of None \<Rightarrow> 80 | Some port \<Rightarrow> port) \<and>
        pp_username p = proxy_username proxy \<and> pp_password p = proxy_password proxy \<and>
        pp_user_agent p = (case proxy_user_agent proxy of None \<Rightarrow> sora_client | Some a \<Rightarrow> a))"
proof (cases "parse_uri (proxy_url proxy)")
  case (Inl e)
  then show ?thesis by (simp add: parse_proxy_info_def)
next
  case u: (Inr u)
  show ?thesis
  proof (cases "uri_scheme u = None \<or> uri_host u = None")
    case True
    with u show ?thesis by (auto simp: parse_proxy_info_def result_simps split: if_splits)
  next
    case False
    then obtain scheme host where some: "uri_scheme u = Some scheme" "uri_host u = Some host"
      by auto
    show ?thesis
    proof (cases "normalize_host host :: ('x, 'e) sora_error + _")
      case (Inl e)
      with u some show ?thesis
        by (auto simp: parse_proxy_info_def result_simps split: if_splits)
    next
      case (Inr h)
      with u some show ?thesis
        by (cases p) (auto simp: parse_proxy_info_def id_def default_port_def DEFAULT_PLAIN_PORT_def
            split: option.split)
    qed
  qed
qed

subsection \<open>Secrets are masked\<close>

lemma after_last_host: "CHR ''@'' \<notin> set host \<Longrightarrow> after_last CHR ''@'' (info @ CHR ''@'' # host) = Some host"
proof (induction info)
  case Nil
  have "CHR ''@'' \<notin> set h \<Longrightarrow> after_last CHR ''@'' h = None" for h by (induction h) auto
  with Nil show ?case by simp
qed simp

text \<open>
  Fact. What \<^verbatim>\<open>Debug\<close> prints of a proxy whose URL can be parsed does not depend on its secrets: two
  settings that differ in the user information of the URL, the user name and the password only, print the
  same. A URL that cannot be parsed is printed as it is.
\<close>

theorem proxy_debug_hides_secrets:
  assumes "parse_uri url1 = Inr (u\<lparr>uri_authority := Some (info1 @ CHR ''@'' # host)\<rparr>)"
    and "parse_uri url2 = Inr (u\<lparr>uri_authority := Some (info2 @ CHR ''@'' # host)\<rparr>)"
    and "CHR ''@'' \<notin> set host"
  shows "proxy_info_debug parse_uri
      \<lparr>proxy_url = url1, proxy_username = Some n1, proxy_password = Some p1, proxy_user_agent = ua\<rparr> =
    proxy_info_debug parse_uri
      \<lparr>proxy_url = url2, proxy_username = Some n2, proxy_password = Some p2, proxy_user_agent = ua\<rparr> \<and>
    parsed_proxy_debug \<lparr>pp_host = h, pp_port = port, pp_username = Some n1, pp_password = Some p1,
        pp_user_agent = agent\<rparr> =
      parsed_proxy_debug \<lparr>pp_host = h, pp_port = port, pp_username = Some n2, pp_password = Some p2,
        pp_user_agent = agent\<rparr>"
  using assms after_last_host [of host]
  by (simp_all add: proxy_info_debug_def mask_url_userinfo_def parsed_proxy_debug_def)

definition example_parser :: "unit uri_parser" where
  "example_parser url =
     Inr (example_uri\<lparr>uri_scheme := Some ''http'', uri_authority := Some (url @ ''@proxy'')\<rparr>)"

theorem proxy_debug_hides_secrets_witness:
  "proxy_info_debug example_parser
      \<lparr>proxy_url = ''a:b'', proxy_username = Some ''a'', proxy_password = Some ''b'', proxy_user_agent = None\<rparr> =
    proxy_info_debug example_parser
      \<lparr>proxy_url = ''c:d'', proxy_username = Some ''c'', proxy_password = Some ''d'', proxy_user_agent = None\<rparr>"
  by (rule conjunct1 [OF proxy_debug_hides_secrets [where u = "example_uri\<lparr>uri_scheme := Some ''http''\<rparr>" and
        host = "''proxy''" and ?info1.0 = "''a:b''" and ?info2.0 = "''c:d''"]])
    (simp_all add: example_parser_def)

text \<open>
  Fact. Exactly the status codes of the class 2xx open the tunnel; any other status is
  reported with its reason.
\<close>

theorem connect_status_spec:
  "ensure_proxy_connect_status_success code reason = (Inr r :: ('x, 'e) sora_error + _) \<longleftrightarrow>
     unat code div 100 = 2"
  "ensure_proxy_connect_status_success code reason = (Inl e :: ('x, 'e) sora_error + _) \<longleftrightarrow>
     unat code div 100 \<noteq> 2 \<and> e = ProxyError (ProxyConnectStatusNotSuccessful code reason)"
proof -
  have "(200 \<le> code \<and> code < 300) \<longleftrightarrow> unat code div 100 = 2"
    by (simp add: word_le_nat_alt word_less_nat_alt) arith
  then show "ensure_proxy_connect_status_success code reason = (Inr r :: ('x, 'e) sora_error + _) \<longleftrightarrow>
     unat code div 100 = 2"
    "ensure_proxy_connect_status_success code reason = (Inl e :: ('x, 'e) sora_error + _) \<longleftrightarrow>
     unat code div 100 \<noteq> 2 \<and> e = ProxyError (ProxyConnectStatusNotSuccessful code reason)"
    by (auto simp: ensure_proxy_connect_status_success_def)
qed

end
