(* ===== verification/Transport.thy ===== *)
theory Transport
  imports Url "HOL-Library.Multiset"
begin

text \<open>
  The transport of the signaling: the byte stream with what was read ahead, the timers of the
  WebSocket, TLS settings, the proxy tunnel and the choice of a signaling URL (\<^verbatim>\<open>src/connection.rs\<close>).

  Everything outside of the crate (sockets, clock, WebSocket protocol, tasks) is in a state \<open>'w\<close>, and
  the operations the code calls are in the record \<open>io_lib\<close>. A deadline that passes during a read is the
  result \<open>None\<close>.
\<close>

subsection \<open>The world\<close>

datatype timer_id = PingTimer | PongTimeoutTimer | CloseTimeoutTimer

datatype ws_state = WsConnecting | WsConnected | WsClosing | WsClosed

datatype ws_event =
    WsConnectedEvent
  | WsTextMessage string
  | WsBinaryMessage bytes
  | WsPing
  | WsPong
  | WsClose "u16 option" string
  | WsStateChanged ws_state
  | WsErrorEvent string

datatype ws_output =
    WsSendData bytes
  | WsSetTimer timer_id u64
  | WsClearTimer timer_id
  | WsCloseConnection

record ('w, 'e) io_lib =
  io_read :: "nat \<Rightarrow> 'w \<Rightarrow> ('e + bytes) \<times> 'w"
  io_read_until :: "nat \<Rightarrow> 'w \<Rightarrow> ('e + bytes) option \<times> 'w"
  io_write :: "bytes \<Rightarrow> 'w \<Rightarrow> ('e + unit) \<times> 'w"
  io_now :: "'w \<Rightarrow> 'e + u64"
  io_spawn_timer :: "timer_id \<Rightarrow> u64 \<Rightarrow> 'w \<Rightarrow> nat \<times> 'w"
  io_abort :: "nat \<Rightarrow> 'w \<Rightarrow> 'w"
  ws_state_of :: "'w \<Rightarrow> ws_state"
  ws_feed :: "bytes \<Rightarrow> u64 \<Rightarrow> 'w \<Rightarrow> ('e + unit) \<times> 'w"
  ws_handle_timer :: "timer_id \<Rightarrow> 'w \<Rightarrow> ('e + unit) \<times> 'w"
  ws_send_text :: "string \<Rightarrow> 'w \<Rightarrow> ('e + unit) \<times> 'w"
  ws_close :: "u16 \<Rightarrow> string \<Rightarrow> 'w \<Rightarrow> ('e + unit) \<times> 'w"
  ws_poll_event :: "'w \<Rightarrow> ws_event option \<times> 'w"
  ws_poll_output :: "'w \<Rightarrow> ws_output option \<times> 'w"

subsection \<open>The stream\<close>

record client_stream =
  cs_tls :: bool
  cs_pending :: bytes

definition stream_new_plain :: client_stream where
  "stream_new_plain = \<lparr>cs_tls = False, cs_pending = []\<rparr>"

definition stream_new_tls :: client_stream where
  "stream_new_tls = \<lparr>cs_tls = True, cs_pending = []\<rparr>"

definition push_pending_read :: "bytes \<Rightarrow> client_stream \<Rightarrow> client_stream" where
  "push_pending_read data s =
     (if data = [] then s
      else if cs_pending s = [] then s\<lparr>cs_pending := data\<rparr>
      else s\<lparr>cs_pending := cs_pending s @ data\<rparr>)"

definition into_plain_parts :: "client_stream \<Rightarrow> bytes option" where
  "into_plain_parts s = (if cs_tls s then None else Some (cs_pending s))"

definition stream_read ::
    "('w, 'e) io_lib \<Rightarrow> nat \<Rightarrow> client_stream \<Rightarrow> 'w \<Rightarrow> ('e + bytes) \<times> client_stream \<times> 'w" where
  "stream_read N len s w =
     (if cs_pending s \<noteq> [] then
        let n = min (length (cs_pending s)) len in
        (Inr (take n (cs_pending s)), s\<lparr>cs_pending := drop n (cs_pending s)\<rparr>, w)
      else case io_read N len w of (r, w) \<Rightarrow> (r, s, w))"

text \<open>\<^verbatim>\<open>timeout_at(deadline, stream.read(..))\<close>\<close>

definition stream_read_until ::
    "('w, 'e) io_lib \<Rightarrow> nat \<Rightarrow> client_stream \<Rightarrow> 'w \<Rightarrow>
       ('e + bytes) option \<times> client_stream \<times> 'w" where
  "stream_read_until N len s w =
     (if cs_pending s \<noteq> [] then
        let n = min (length (cs_pending s)) len in
        (Some (Inr (take n (cs_pending s))), s\<lparr>cs_pending := drop n (cs_pending s)\<rparr>, w)
      else case io_read_until N len w of (r, w) \<Rightarrow> (r, s, w))"

subsection \<open>Timers\<close>

record timer_manager =
  tm_ping :: "nat option"
  tm_pong_timeout :: "nat option"
  tm_close_timeout :: "nat option"

definition timers_new :: timer_manager where
  "timers_new = \<lparr>tm_ping = None, tm_pong_timeout = None, tm_close_timeout = None\<rparr>"

fun timer_slot :: "timer_id \<Rightarrow> timer_manager \<Rightarrow> nat option" where
  "timer_slot PingTimer tm = tm_ping tm"
| "timer_slot PongTimeoutTimer tm = tm_pong_timeout tm"
| "timer_slot CloseTimeoutTimer tm = tm_close_timeout tm"

fun set_timer_slot :: "timer_id \<Rightarrow> nat option \<Rightarrow> timer_manager \<Rightarrow> timer_manager" where
  "set_timer_slot PingTimer h tm = tm\<lparr>tm_ping := h\<rparr>"
| "set_timer_slot PongTimeoutTimer h tm = tm\<lparr>tm_pong_timeout := h\<rparr>"
| "set_timer_slot CloseTimeoutTimer h tm = tm\<lparr>tm_close_timeout := h\<rparr>"

definition clear_timer ::
    "('w, 'e) io_lib \<Rightarrow> timer_id \<Rightarrow> timer_manager \<times> 'w \<Rightarrow> timer_manager \<times> 'w" where
  "clear_timer N i s =
     (set_timer_slot i None (fst s),
      case timer_slot i (fst s) of None \<Rightarrow> snd s | Some h \<Rightarrow> io_abort N h (snd s))"

definition set_timer ::
    "('w, 'e) io_lib \<Rightarrow> timer_id \<Rightarrow> u64 \<Rightarrow> timer_manager \<times> 'w \<Rightarrow> timer_manager \<times> 'w" where
  "set_timer N i duration s =
     (let (tm, w) = clear_timer N i s; (h, w) = io_spawn_timer N i duration w in
      (set_timer_slot i (Some h) tm, w))"

definition drop_timers :: "('w, 'e) io_lib \<Rightarrow> timer_manager \<times> 'w \<Rightarrow> timer_manager \<times> 'w" where
  "drop_timers N s =
     clear_timer N CloseTimeoutTimer (clear_timer N PongTimeoutTimer (clear_timer N PingTimer s))"

subsection \<open>Flushing the WebSocket\<close>

text \<open>One round of the loop; \<open>Inr True\<close> as the result when the connection is to be closed.\<close>

definition flush_round ::
    "('w, 'e) io_lib \<Rightarrow> timer_manager \<times> 'w \<Rightarrow>
       (timer_manager \<times> 'w) + ((('x, 'e) sora_error + bool) \<times> timer_manager \<times> 'w)" where
  "flush_round N s =
     (case s of (tm, w) \<Rightarrow>
      (case ws_poll_output N w of
         (None, w) \<Rightarrow> Inr (Inr False, tm, w)
       | (Some out, w) \<Rightarrow>
           (case out of
              WsSendData buf \<Rightarrow>
                (case io_write N buf w of
                   (Inl err, w) \<Rightarrow> Inr (Inl (TransportError (IoError err)), tm, w)
                 | (Inr _, w) \<Rightarrow> Inl (tm, w))
            | WsSetTimer i duration \<Rightarrow> Inl (set_timer N i duration (tm, w))
            | WsClearTimer i \<Rightarrow> Inl (clear_timer N i (tm, w))
            | WsCloseConnection \<Rightarrow> Inr (Inr True, tm, w))))"

partial_function (option) flush_ws_output ::
    "('w, 'e) io_lib \<Rightarrow> timer_manager \<times> 'w \<Rightarrow>
       ((('x, 'e) sora_error + bool) \<times> timer_manager \<times> 'w) option"
  where
    "flush_ws_output N s =
       (case flush_round N s of
          Inl s \<Rightarrow> flush_ws_output N s
        | Inr res \<Rightarrow> Some res)"

subsection \<open>TLS settings\<close>

record tls_config =
  tls_insecure :: bool
  tls_client_cert :: "string option"
  tls_client_key :: "string option"
  tls_ca_cert :: "string option"

text \<open>
  \<^verbatim>\<open>rustls\<close>: certificates are of the type \<open>'crt\<close>, keys of \<open>'k\<close>. A client configuration is what verifies the
  server and what the client presents.
\<close>

datatype 'crt server_verifier = NoServerVerification | CaRoots "'crt list" | PlatformVerifier

record ('crt, 'k) client_config =
  cc_verifier :: "'crt server_verifier"
  cc_client_auth :: "('crt list \<times> 'k) option"

record ('crt, 'k, 'e) tls_lib =
  pem_certs :: "string \<Rightarrow> 'e + 'crt list"
  pem_private_key :: "string \<Rightarrow> 'e + 'k"
  root_accepts :: "'crt \<Rightarrow> bool"
  platform_verifier :: "'e + unit"
  client_auth_ok :: "'crt list \<Rightarrow> 'k \<Rightarrow> 'e + unit"

definition parse_certs_from_pem ::
    "('crt, 'k, 'e) tls_lib \<Rightarrow> string \<Rightarrow> ('x, 'e) sora_error + 'crt list" where
  "parse_certs_from_pem T pem =
     bindE (map_err (\<lambda>_. SetupError ClientCertParse) (pem_certs T pem)) (\<lambda>certs.
     if certs = [] then Inl (SetupError ClientCertParse) else Inr certs)"

definition parse_private_key_from_pem ::
    "('crt, 'k, 'e) tls_lib \<Rightarrow> string \<Rightarrow> ('x, 'e) sora_error + 'k" where
  "parse_private_key_from_pem T pem =
     map_err (\<lambda>_. SetupError ClientKeyParse) (pem_private_key T pem)"

definition client_auth_of ::
    "('crt, 'k, 'e) tls_lib \<Rightarrow> tls_config \<Rightarrow> ('x, 'e) sora_error + ('crt list \<times> 'k) option" where
  "client_auth_of T c =
     (case (tls_client_cert c, tls_client_key c) of
        (Some cert_pem, Some key_pem) \<Rightarrow>
          bindE (parse_certs_from_pem T cert_pem) (\<lambda>certs.
          bindE (parse_private_key_from_pem T key_pem) (\<lambda>key.
          bindE (map_err (TransportError \<circ> TlsConfig) (client_auth_ok T certs key)) (\<lambda>_.
          Inr (Some (certs, key)))))
      | _ \<Rightarrow> Inr None)"

definition build_tls_client_config_with_client_auth ::
    "('crt, 'k, 'e) tls_lib \<Rightarrow> ('crt, 'k) client_config \<Rightarrow> tls_config \<Rightarrow>
       ('x, 'e) sora_error + ('crt, 'k) client_config" where
  "build_tls_client_config_with_client_auth T config c =
     bindE (client_auth_of T c) (\<lambda>auth.
     Inr (case auth of None \<Rightarrow> config | Some a \<Rightarrow> config\<lparr>cc_client_auth := Some a\<rparr>))"

definition ca_roots ::
    "('crt, 'k, 'e) tls_lib \<Rightarrow> string \<Rightarrow> ('x, 'e) sora_error + 'crt server_verifier" where
  "ca_roots T ca_pem =
     bindE (map_err (\<lambda>_. SetupError CaCertParse) (pem_certs T ca_pem)) (\<lambda>certs.
     if certs = [] then Inl (SetupError CaCertParse)
     else
       bindE (eachE (\<lambda>crt. guardE (root_accepts T crt) (SetupError CaCertParse)) certs) (\<lambda>_.
       Inr (CaRoots certs)))"

definition build_tls_client_config ::
    "('crt, 'k, 'e) tls_lib \<Rightarrow> tls_config \<Rightarrow> ('x, 'e) sora_error + ('crt, 'k) client_config" where
  "build_tls_client_config T c =
     (if (tls_client_cert c \<noteq> None) \<noteq> (tls_client_key c \<noteq> None)
      then Inl (SetupError ClientCertKeyIncomplete)
      else if \<not> tls_insecure c \<and> tls_ca_cert c = None then
        bindE (map_err (TransportError \<circ> TlsConfig) (platform_verifier T)) (\<lambda>_.
        build_tls_client_config_with_client_auth T
          \<lparr>cc_verifier = PlatformVerifier, cc_client_auth = None\<rparr> c)
      else
        bindE (if tls_insecure c then Inr NoServerVerification
               else ca_roots T (the (tls_ca_cert c))) (\<lambda>verifier.
        bindE (client_auth_of T c) (\<lambda>auth.
        Inr \<lparr>cc_verifier = verifier, cc_client_auth = auth\<rparr>)))"

text \<open>
  Property C16. Server verification is only ever switched off on request: a configuration that is built
  verifies against exactly the given roots, or else against the platform, unless it was asked to be
  insecure; client authentication is used exactly when certificate and key are both given, and one
  without the other is always refused.
\<close>

theorem tls_config_spec:
  assumes "build_tls_client_config T c = (Inr config :: ('x, 'e) sora_error + _)"
  shows "(cc_verifier config = NoServerVerification \<longleftrightarrow> tls_insecure c) \<and>
    (\<not> tls_insecure c \<longrightarrow> tls_ca_cert c = None \<longrightarrow> cc_verifier config = PlatformVerifier) \<and>
    (\<forall>pem. \<not> tls_insecure c \<longrightarrow> tls_ca_cert c = Some pem \<longrightarrow>
      (\<exists>certs. pem_certs T pem = Inr certs \<and> certs \<noteq> [] \<and> cc_verifier config = CaRoots certs)) \<and>
    (tls_client_cert c = None) = (tls_client_key c = None) \<and>
    (cc_client_auth config = None) = (tls_client_cert c = None)"
proof -
  have half: "(tls_client_cert c = None) = (tls_client_key c = None)"
    using assms by (auto simp: build_tls_client_config_def split: if_splits)
  have auth: "client_auth_of T c = (Inr a :: ('x, 'e) sora_error + _) \<Longrightarrow>
      (a = None) = (tls_client_cert c = None)" for a
    using half by (auto simp: client_auth_of_def result_simps split: option.splits)
  have roots: "ca_roots T pem = (Inr v :: ('x, 'e) sora_error + _) \<Longrightarrow>
      \<exists>certs. pem_certs T pem = Inr certs \<and> certs \<noteq> [] \<and> v = CaRoots certs" for pem v
    by (auto simp: ca_roots_def result_simps split: if_splits)
  have "(cc_verifier config = NoServerVerification \<longleftrightarrow> tls_insecure c) \<and>
    (\<not> tls_insecure c \<longrightarrow> tls_ca_cert c = None \<longrightarrow> cc_verifier config = PlatformVerifier) \<and>
    (\<forall>pem. \<not> tls_insecure c \<longrightarrow> tls_ca_cert c = Some pem \<longrightarrow>
      (\<exists>certs. pem_certs T pem = Inr certs \<and> certs \<noteq> [] \<and> cc_verifier config = CaRoots certs)) \<and>
    (cc_client_auth config = None) = (tls_client_cert c = None)"
  proof (cases "\<not> tls_insecure c \<and> tls_ca_cert c = None")
    case True
    with assms half obtain a where "client_auth_of T c = (Inr a :: ('x, 'e) sora_error + _)"
      "config = (case a of None \<Rightarrow> \<lparr>cc_verifier = PlatformVerifier, cc_client_auth = None\<rparr>
        | Some x \<Rightarrow> \<lparr>cc_verifier = PlatformVerifier, cc_client_auth = Some x\<rparr>)"
      by (auto simp: build_tls_client_config_def build_tls_client_config_with_client_auth_def
          result_simps split: option.splits)
    with True auth show ?thesis by (cases a) auto
  next
    case False
    with assms half obtain v a where
      v: "(if tls_insecure c then Inr NoServerVerification else ca_roots T (the (tls_ca_cert c))) =
        (Inr v :: ('x, 'e) sora_error + _)"
      and a: "client_auth_of T c = (Inr a :: ('x, 'e) sora_error + _)"
      and config: "config = \<lparr>cc_verifier = v, cc_client_auth = a\<rparr>"
      by (auto simp: build_tls_client_config_def result_simps split: if_splits)
    show ?thesis
    proof (cases "tls_insecure c")
      case True
      with v a auth config show ?thesis by simp
    next
      case insecure: False
      with False obtain pem where pem: "tls_ca_cert c = Some pem" by auto
      with insecure v have "ca_roots T pem = (Inr v :: ('x, 'e) sora_error + _)" by simp
      from roots [OF this] insecure pem a auth config show ?thesis by auto
    qed
  qed
  with half show ?thesis by blast
qed

definition example_tls :: "(nat, nat, unit) tls_lib" where
  "example_tls =
     \<lparr>pem_certs = (\<lambda>pem. Inr [length pem]), pem_private_key = (\<lambda>pem. Inr (length pem)),
      root_accepts = (\<lambda>c. True), platform_verifier = Inr (), client_auth_ok = (\<lambda>cs k. Inr ())\<rparr>"

theorem tls_config_spec_witness:
  "\<exists>config. build_tls_client_config example_tls
       \<lparr>tls_insecure = False, tls_client_cert = Some ''c'', tls_client_key = Some ''k'',
        tls_ca_cert = Some ''ca''\<rparr> = (Inr config :: (unit, unit) sora_error + _) \<and>
     cc_verifier config = CaRoots [2] \<and> (\<exists>a. cc_client_auth config = Some a)"
proof -
  have "build_tls_client_config example_tls
       \<lparr>tls_insecure = False, tls_client_cert = Some ''c'', tls_client_key = Some ''k'',
        tls_ca_cert = Some ''ca''\<rparr> =
      (Inr \<lparr>cc_verifier = CaRoots [2], cc_client_auth = Some ([1], 1)\<rparr> :: (unit, unit) sora_error + _)"
    by (simp add: build_tls_client_config_def ca_roots_def client_auth_of_def example_tls_def
        parse_certs_from_pem_def parse_private_key_from_pem_def)
  from this tls_config_spec [OF this] show ?thesis by auto
qed


subsection \<open>Connecting\<close>

text \<open>
  Name resolution, TCP and TLS of \<^verbatim>\<open>tokio\<close> and \<^verbatim>\<open>tokio-rustls\<close>; \<open>None\<close> is a timeout. The response decoder is the
  one of \<^verbatim>\<open>shiguredo_http11\<close>, made for a CONNECT request.
\<close>

record ('w, 'd, 'crt, 'k, 'e) connect_lib =
  lookup_host :: "string \<Rightarrow> u16 \<Rightarrow> 'w \<Rightarrow> ('e + nat list) \<times> 'w"
  tcp_connect :: "nat list \<Rightarrow> 'w \<Rightarrow> ('e + unit) option \<times> 'w"
  server_name_ok :: "string \<Rightarrow> 'e + unit"
  tls_handshake :: "string \<Rightarrow> ('crt, 'k) client_config \<Rightarrow> 'w \<Rightarrow> ('e + unit) option \<times> 'w"
  rd_new :: 'd
  rd_feed :: "'d \<Rightarrow> bytes \<Rightarrow> 'e + 'd"
  rd_decode_headers :: "'d \<Rightarrow> 'e + (u16 \<times> string) option \<times> 'd"
  rd_take_remaining :: "'d \<Rightarrow> bytes"

definition connect_tcp ::
    "('w, 'd, 'crt, 'k, 'e) connect_lib \<Rightarrow> string \<Rightarrow> u16 \<Rightarrow> 'w \<Rightarrow> (('x, 'e) sora_error + unit) \<times> 'w" where
  "connect_tcp C host port w =
     (case lookup_host C host port w of
        (Inl err, w) \<Rightarrow> (Inl (TransportError (DnsResolve host err)), w)
      | (Inr addrs, w) \<Rightarrow>
          if addrs = [] then (Inl (TransportError (NoResolvedAddress host port)), w)
          else (case tcp_connect C addrs w of
             (None, w) \<Rightarrow> (Inl (TransportError (TcpConnectTimeout host port)), w)
           | (Some (Inl err), w) \<Rightarrow> (Inl (TransportError (TcpConnect host port err)), w)
           | (Some (Inr _), w) \<Rightarrow> (Inr (), w)))"

definition connect_tls ::
    "('w, 'd, 'crt, 'k, 'e) connect_lib \<Rightarrow> ('crt, 'k, 'e) tls_lib \<Rightarrow> string \<Rightarrow> tls_config \<Rightarrow> 'w \<Rightarrow>
       (('x, 'e) sora_error + unit) \<times> 'w" where
  "connect_tls C T host c w =
     (case bindE (build_tls_client_config T c) (\<lambda>config.
             bindE (map_err (TransportError \<circ> InvalidServerName) (server_name_ok C host)) (\<lambda>_.
             Inr config)) of
        Inl err \<Rightarrow> (Inl err, w)
      | Inr config \<Rightarrow>
          (case tls_handshake C host config w of
             (None, w) \<Rightarrow> (Inl (TransportError (TlsConnectTimeout host)), w)
           | (Some (Inl err), w) \<Rightarrow> (Inl (TransportError (TlsConnect host err)), w)
           | (Some (Inr _), w) \<Rightarrow> (Inr (), w)))"

text \<open>One round of the loop: another round from the new state, or the result.\<close>

definition tunnel_round ::
    "('w, 'e) io_lib \<Rightarrow> ('w, 'd, 'crt, 'k, 'e) connect_lib \<Rightarrow> parsed_proxy_info \<Rightarrow>
       'd \<times> client_stream \<times> 'w \<Rightarrow>
       ('d \<times> client_stream \<times> 'w) + (('x, 'e) sora_error + client_stream) \<times> 'w" where
  "tunnel_round N C proxy dsw =
     (case dsw of (d, s, w) \<Rightarrow>
      case stream_read_until N 8192 s w of (read, s, w) \<Rightarrow>
      case read of
        None \<Rightarrow> Inr (Inl (ProxyError (ProxyConnectTimeout (pp_host proxy) (pp_port proxy))), w)
      | Some (Inl err) \<Rightarrow> Inr (Inl (TransportError (IoError err)), w)
      | Some (Inr data) \<Rightarrow>
          if data = [] then Inr (Inl (ProxyError ProxyConnectResponseMissing), w)
          else (case bindE (rd_feed C d data) (rd_decode_headers C) of
             Inl err \<Rightarrow> Inr (Inl (ProxyError (ProxyConnectDecode err)), w)
           | Inr (None, d) \<Rightarrow> Inl (d, s, w)
           | Inr (Some (code, reason), d) \<Rightarrow>
               Inr (bindE (ensure_proxy_connect_status_success code reason) (\<lambda>_.
                      Inr (push_pending_read (rd_take_remaining C d) s)), w)))"

partial_function (option) tunnel_loop ::
    "('w, 'e) io_lib \<Rightarrow> ('w, 'd, 'crt, 'k, 'e) connect_lib \<Rightarrow> parsed_proxy_info \<Rightarrow>
       'd \<times> client_stream \<times> 'w \<Rightarrow> ((('x, 'e) sora_error + client_stream) \<times> 'w) option" where
  "tunnel_loop N C proxy dsw =
     (case tunnel_round N C proxy dsw of
        Inl dsw \<Rightarrow> tunnel_loop N C proxy dsw
      | Inr res \<Rightarrow> Some res)"

definition connect_http_proxy_tunnel ::
    "('w, 'e) io_lib \<Rightarrow> ('w, 'd, 'crt, 'k, 'e) connect_lib \<Rightarrow> ('q, 'e) http_request_lib \<Rightarrow>
       signaling_target \<Rightarrow> parsed_proxy_info \<Rightarrow> client_stream \<Rightarrow> 'w \<Rightarrow>
       ((('x, 'e) sora_error + client_stream) \<times> 'w) option" where
  "connect_http_proxy_tunnel N C H target proxy s w =
     (case build_proxy_connect_request H target proxy of
        Inl err \<Rightarrow> Some (Inl err, w)
      | Inr request \<Rightarrow>
          (case io_write N request w of
             (Inl err, w) \<Rightarrow> Some (Inl (TransportError (IoError err)), w)
           | (Inr _, w) \<Rightarrow> tunnel_loop N C proxy (rd_new C, s, w)))"

definition connect_over_tls ::
    "('w, 'd, 'crt, 'k, 'e) connect_lib \<Rightarrow> ('crt, 'k, 'e) tls_lib \<Rightarrow> signaling_target \<Rightarrow> tls_config \<Rightarrow>
       'w \<Rightarrow> (('x, 'e) sora_error + client_stream) \<times> 'w" where
  "connect_over_tls C T target c w =
     (case connect_tls C T (st_host target) c w of
        (Inl err, w) \<Rightarrow> (Inl err, w)
      | (Inr _, w) \<Rightarrow> (Inr stream_new_tls, w))"

text \<open>\<^verbatim>\<open>into_plain_parts().expect(..)\<close> panics on a TLS stream: \<open>None\<close>.\<close>

definition connect_through_tunnel ::
    "('w, 'd, 'crt, 'k, 'e) connect_lib \<Rightarrow> ('crt, 'k, 'e) tls_lib \<Rightarrow> signaling_target \<Rightarrow> tls_config \<Rightarrow>
       client_stream \<Rightarrow> 'w \<Rightarrow> ((('x, 'e) sora_error + client_stream) \<times> 'w) option" where
  "connect_through_tunnel C T target c s w =
     (if st_tls target then
        (case into_plain_parts s of
           None \<Rightarrow> None
         | Some pending \<Rightarrow>
             Some (if pending \<noteq> [] then (Inl (ProxyError ProxyConnectUnexpectedTrailingData), w)
                   else connect_over_tls C T target c w))
      else Some (Inr s, w))"

definition connect_websocket ::
    "('w, 'e) io_lib \<Rightarrow> ('w, 'd, 'crt, 'k, 'e) connect_lib \<Rightarrow> ('crt, 'k, 'e) tls_lib \<Rightarrow>
       ('q, 'e) http_request_lib \<Rightarrow> signaling_target \<Rightarrow> parsed_proxy_info option \<Rightarrow> tls_config \<Rightarrow> 'w \<Rightarrow>
       ((('x, 'e) sora_error + client_stream) \<times> 'w) option" where
  "connect_websocket N C T H target proxy c w =
     (case proxy of
        Some p \<Rightarrow>
          (case connect_tcp C (pp_host p) (pp_port p) w of
             (Inl err, w) \<Rightarrow> Some (Inl err, w)
           | (Inr _, w) \<Rightarrow>
               (case connect_http_proxy_tunnel N C H target p stream_new_plain w of
                  None \<Rightarrow> None
                | Some (Inl err, w) \<Rightarrow> Some (Inl err, w)
                | Some (Inr s, w) \<Rightarrow> connect_through_tunnel C T target c s w))
      | None \<Rightarrow>
          (case connect_tcp C (st_host target) (st_port target) w of
             (Inl err, w) \<Rightarrow> Some (Inl err, w)
           | (Inr _, w) \<Rightarrow>
               Some (if st_tls target then connect_over_tls C T target c w
                     else (Inr stream_new_plain, w))))"

text \<open>
  A small world for the examples: the number of reads left (the first of them come with one byte each),
  a decoder that is done after two bytes, no tasks.
\<close>

definition example_io :: "(nat, unit) io_lib" where
  "example_io =
     \<lparr>io_read = (\<lambda>n w. (Inr (if w = 0 then [] else [72]), w - 1)),
      io_read_until = (\<lambda>n w. (Some (Inr (if w = 0 then [] else [72])), w - 1)),
      io_write = (\<lambda>buf w. (Inr (), w)), io_now = (\<lambda>w. Inr 0), io_spawn_timer = (\<lambda>i d w. (0, w)),
      io_abort = (\<lambda>h w. w), ws_state_of = (\<lambda>w. WsConnected), ws_feed = (\<lambda>buf t w. (Inr (), w)),
      ws_handle_timer = (\<lambda>i w. (Inr (), w)), ws_send_text = (\<lambda>s w. (Inr (), w)),
      ws_close = (\<lambda>code reason w. (Inr (), w)), ws_poll_event = (\<lambda>w. (None, w)),
      ws_poll_output = (\<lambda>w. (if w = 0 then None else Some (WsSendData [0]), w - 1))\<rparr>"

definition example_connect :: "(nat, nat, nat, nat, unit) connect_lib" where
  "example_connect =
     \<lparr>lookup_host = (\<lambda>h p w. (Inr [1], w)), tcp_connect = (\<lambda>addrs w. (Some (Inr ()), w)),
      server_name_ok = (\<lambda>h. Inr ()), tls_handshake = (\<lambda>h c w. (Some (Inr ()), w)),
      rd_new = 0, rd_feed = (\<lambda>d data. Inr (d + length data)),
      rd_decode_headers = (\<lambda>d. Inr (if d < 2 then None else Some (200, ''OK''), d)),
      rd_take_remaining = (\<lambda>d. [])\<rparr>"

definition example_http :: "(nat, unit) http_request_lib" where
  "example_http =
     \<lparr>rq_new = (\<lambda>m u. Inr 0), rq_header = (\<lambda>q k v. Inr (q + 1)),
      rq_basic_auth = (\<lambda>u p. Inr ''Basic''), rq_encode = (\<lambda>q. Inr [0])\<rparr>"

definition example_target :: signaling_target where
  "example_target =
     \<lparr>st_host = ''sora'', st_port = 443, st_path = ''/signaling'', st_tls = True\<rparr>"

definition example_proxy :: parsed_proxy_info where
  "example_proxy =
     \<lparr>pp_host = ''proxy'', pp_port = 8080, pp_username = None, pp_password = None,
      pp_user_agent = ''sora''\<rparr>"

lemmas example_world_simps =
  example_io_def example_connect_def example_http_def example_target_def example_proxy_def example_tls_def

subsection \<open>Choosing a signaling URL\<close>

text \<open>
  The shuffle of \<^verbatim>\<open>run\<close>: for \<open>i\<close> from the last index down to 1, swap with the index the random number
  gives.
\<close>

definition swap_at :: "nat \<Rightarrow> nat \<Rightarrow> 'a list \<Rightarrow> 'a list" where
  "swap_at i j xs = xs[i := xs ! j, j := xs ! i]"

fun shuffle_from :: "nat \<Rightarrow> (nat \<Rightarrow> u64) \<Rightarrow> 'a list \<Rightarrow> 'a list" where
  "shuffle_from 0 rng urls = urls"
| "shuffle_from (Suc i) rng urls =
     shuffle_from i rng (swap_at (Suc i) (unat (rng (Suc i)) mod (Suc i + 1)) urls)"

definition shuffle_urls :: "(nat \<Rightarrow> u64) \<Rightarrow> 'a list \<Rightarrow> 'a list" where
  "shuffle_urls rng urls = (if 1 < length urls then shuffle_from (length urls - 1) rng urls else urls)"

text \<open>
  The attempts run at the same time; \<open>outcomes\<close> is the list of their results in the order in which
  \<^verbatim>\<open>join_next\<close> returns them. \<open>error_text\<close> is \<^verbatim>\<open>to_string\<close> of an error.
\<close>

datatype ('r, 'x, 'e) attempt =
    Attempt string "('x, 'e) sora_error + 'r"
  | JoinFailed bool string

fun first_connected ::
    "(('x, 'e) sora_error \<Rightarrow> string) \<Rightarrow> ('r, 'x, 'e) attempt list \<Rightarrow> (string \<times> string) list \<Rightarrow>
       ('x, 'e) sora_error + 'r \<times> string" where
  "first_connected error_text [] errors = Inl (AllSignalingUrlsFailed errors)"
| "first_connected error_text (Attempt url (Inr r) # outcomes) errors = Inr (r, url)"
| "first_connected error_text (Attempt url (Inl err) # outcomes) errors =
     first_connected error_text outcomes (errors @ [(url, error_text err)])"
| "first_connected error_text (JoinFailed cancelled msg # outcomes) errors =
     first_connected error_text outcomes
       (if cancelled then errors else errors @ [(''(unknown)'', msg)])"


subsection \<open>The stream\<close>

text \<open>
  Fact. What was read ahead is delivered first and in order: while bytes are pending, a read gives a
  non-empty part of their beginning, leaves the rest pending, and does not touch the socket.
\<close>

theorem stream_read_pending:
  assumes "cs_pending s \<noteq> []" and "0 < len"
  shows "\<exists>data s'. stream_read N len s w = (Inr data, s', w) \<and> data \<noteq> [] \<and> length data \<le> len \<and>
      data @ cs_pending s' = cs_pending s \<and> cs_tls s' = cs_tls s"
  using assms by (simp add: stream_read_def Let_def min_def)

theorem stream_read_pending_witness:
  fixes N :: "(nat, unit) io_lib"
  shows "\<exists>data s'. stream_read N 2 \<lparr>cs_tls = False, cs_pending = [1, 2, 3]\<rparr> 0 = (Inr data, s', 0) \<and>
     data @ cs_pending s' = [1, 2, 3]"
  using stream_read_pending [of "\<lparr>cs_tls = False, cs_pending = [1, 2, 3]\<rparr>" 2 N 0] by auto

lemma stream_read_until_tls:
  "stream_read_until N len s w = (r, s', w') \<Longrightarrow> cs_tls s' = cs_tls s"
  by (auto simp: stream_read_until_def Let_def split: if_splits prod.splits)

subsection \<open>The tunnel\<close>

lemma tunnel_round_tls:
  "tunnel_round N C proxy (d, s, w) = Inl (d', s', w') \<Longrightarrow> cs_tls s' = cs_tls s"
  "tunnel_round N C proxy (d, s, w) = Inr (Inr s', w') \<Longrightarrow> cs_tls s' = cs_tls s"
  by (auto simp: tunnel_round_def result_simps push_pending_read_def dest: stream_read_until_tls
      split: prod.splits option.splits sum.splits if_splits)

lemma tunnel_loop_tls:
  assumes "tunnel_loop N C proxy dsw = Some res"
  shows "fst res = Inr s' \<longrightarrow> cs_tls s' = cs_tls (fst (snd dsw))"
  using assms
proof (induction N C proxy dsw res
    rule: tunnel_loop.raw_induct [rotated, consumes 1, case_names step])
  case (step loop N C proxy dsw res)
  obtain d s w where dsw: "dsw = (d, s, w)" by (metis prod_cases3)
  from step.hyps obtain x where x: "tunnel_round N C proxy dsw = x"
    "(case x of Inl dsw \<Rightarrow> loop N C proxy dsw | Inr res \<Rightarrow> Some res) = Some res" by blast
  show ?case
  proof (cases x)
    case (Inl again)
    obtain d1 s1 w1 where again: "again = (d1, s1, w1)" by (metis prod_cases3)
    from Inl x step.IH [of N C proxy again res] have "fst res = Inr s' \<longrightarrow> cs_tls s' = cs_tls s1"
      by (simp add: again)
    moreover have "tunnel_round N C proxy (d, s, w) = x" using x(1) dsw by simp
    note tunnel_round_tls(1) [OF this [unfolded Inl again]]
    ultimately show ?thesis by (simp add: dsw)
  next
    case (Inr r)
    with x have "r = res" by simp
    have eq: "tunnel_round N C proxy (d, s, w) = x" using x(1) dsw by simp
    show ?thesis
    proof
      assume "fst res = Inr s'"
      with Inr \<open>r = res\<close> have "x = Inr (Inr s', snd res)" by (cases res) simp
      from tunnel_round_tls(2) [OF eq [unfolded this]] show "cs_tls s' = cs_tls (fst (snd dsw))"
        by (simp add: dsw)
    qed
  qed
qed

text \<open>
  Property C15. A connection is what the URL asks for: on success the stream is encrypted exactly for a
  \<^verbatim>\<open>wss\<close> target, and unless it is a plain tunnel nothing is pending on it, so that no byte the proxy
  appended to its answer can pass for data of the server; the panic on a TLS stream is unreachable.
\<close>

theorem connect_websocket_clean:
  assumes "connect_websocket N C T H target proxy c w =
    Some (Inr s :: ('x, 'e) sora_error + client_stream, w')"
  shows "cs_tls s = st_tls target \<and> (st_tls target \<or> proxy = None \<longrightarrow> cs_pending s = [])"
proof -
  have over: "connect_over_tls C T target c w1 = (Inr s :: ('x, 'e) sora_error + _, w') \<Longrightarrow>
      s = stream_new_tls" for w1
    by (auto simp: connect_over_tls_def split: prod.splits sum.splits)
  show ?thesis
  proof (cases proxy)
    case None
    with assms show ?thesis
      by (auto simp: connect_websocket_def stream_new_plain_def stream_new_tls_def
          split: prod.splits sum.splits if_splits dest!: over)
  next
    case (Some p)
    with assms obtain s1 w1 w2 where
      tunnel: "connect_http_proxy_tunnel N C H target p stream_new_plain w2 =
        Some (Inr s1 :: ('x, 'e) sora_error + _, w1)" and
      rest: "connect_through_tunnel C T target c s1 w1 = Some (Inr s :: ('x, 'e) sora_error + _, w')"
      by (auto simp: connect_websocket_def split: prod.splits sum.splits option.splits)
    from tunnel have "cs_tls s1 = cs_tls stream_new_plain"
      by (auto simp: connect_http_proxy_tunnel_def dest!: tunnel_loop_tls
          split: prod.splits sum.splits)
    then have plain: "\<not> cs_tls s1" by (simp add: stream_new_plain_def)
    show ?thesis
    proof (cases "st_tls target")
      case True
      with rest plain have "s = stream_new_tls"
        by (auto simp: connect_through_tunnel_def into_plain_parts_def split: if_splits dest: over)
      with True show ?thesis by (simp add: stream_new_tls_def)
    next
      case False
      with rest plain Some show ?thesis by (auto simp: connect_through_tunnel_def)
    qed
  qed
qed

theorem connect_websocket_clean_witness:
  "\<exists>s w. connect_websocket example_io example_connect example_tls example_http example_target
       (Some example_proxy)
       \<lparr>tls_insecure = False, tls_client_cert = None, tls_client_key = None, tls_ca_cert = None\<rparr> 5 =
     Some (Inr s :: (unit, unit) sora_error + client_stream, w) \<and> cs_tls s \<and> cs_pending s = []"
proof -
  have "connect_websocket example_io example_connect example_tls example_http example_target
       (Some example_proxy)
       \<lparr>tls_insecure = False, tls_client_cert = None, tls_client_key = None, tls_ca_cert = None\<rparr> 5 =
     Some (Inr stream_new_tls :: (unit, unit) sora_error + client_stream, 3)"
    by (simp add: connect_websocket_def connect_tcp_def connect_http_proxy_tunnel_def
        build_proxy_connect_request_def tunnel_loop.simps tunnel_round_def stream_read_until_def
        push_pending_read_def ensure_proxy_connect_status_success_def stream_new_plain_def
        connect_through_tunnel_def into_plain_parts_def connect_over_tls_def connect_tls_def
        build_tls_client_config_def build_tls_client_config_with_client_auth_def client_auth_of_def
        example_world_simps)
  from this connect_websocket_clean [OF this] show ?thesis by (simp add: example_target_def)
qed

text \<open>
  Fact. The tunnel does not wait for ever: when every read of data brings the proxy closer to
  silence or the deadline, the loop returns for every decoder and every answer.
\<close>

theorem tunnel_returns:
  fixes N :: "('w, 'e) io_lib"
  assumes "\<And>w r w'. io_read_until N 8192 w = (Some (Inr r), w') \<Longrightarrow> r \<noteq> [] \<Longrightarrow> m w' < (m w :: nat)"
  shows "\<exists>res :: (('x, 'e) sora_error + client_stream) \<times> 'w. tunnel_loop N C proxy (d, s, w) = Some res"
proof (induction "m w + length (cs_pending s)" arbitrary: d s w rule: less_induct)
  case less
  show ?case
  proof (cases "tunnel_round N C proxy (d, s, w) :: _ + (('x, 'e) sora_error + client_stream) \<times> 'w")
    case (Inr r)
    then show ?thesis by (subst tunnel_loop.simps) simp
  next
    case (Inl again)
    obtain d1 s1 w1 where again: "again = (d1, s1, w1)" by (metis prod_cases3)
    with Inl have "m w1 + length (cs_pending s1) < m w + length (cs_pending s)"
      using assms
      by (auto simp: tunnel_round_def stream_read_until_def Let_def result_simps
          split: prod.splits option.splits sum.splits if_splits)
    from less [OF this] Inl again show ?thesis by (subst tunnel_loop.simps) simp
  qed
qed


theorem tunnel_returns_witness:
  "\<exists>res :: ((unit, unit) sora_error + client_stream) \<times> nat.
     tunnel_loop example_io example_connect example_proxy (0, stream_new_plain, 5) = Some res"
  by (rule tunnel_returns [where m = id]) (auto simp: example_io_def split: if_splits)

subsection \<open>The shuffle\<close>

lemma swap_at_mset: "i < length xs \<Longrightarrow> j < length xs \<Longrightarrow> mset (swap_at i j xs) = mset xs"
  by (simp add: swap_at_def mset_swap)

lemma swap_at_length [simp]: "length (swap_at i j xs) = length xs"
  by (simp add: swap_at_def)

lemma shuffle_from_mset: "i < length urls \<Longrightarrow> mset (shuffle_from i rng urls) = mset urls"
proof (induction i arbitrary: urls)
  case (Suc i)
  have "unat (rng (Suc i)) mod (Suc i + 1) < length urls"
    using Suc.prems by (metis Suc_eq_plus1 Suc_leI mod_less_divisor order_less_le_trans zero_less_Suc)
  with Suc show ?case by (simp add: swap_at_mset)
qed simp

lemma shuffle_from_above: "k < n \<Longrightarrow> n < length urls \<Longrightarrow> shuffle_from k rng urls ! n = urls ! n"
proof (induction k arbitrary: urls)
  case (Suc k)
  have "unat (rng (Suc k)) mod (Suc k + 1) < n"
    using Suc.prems by (metis Suc_eq_plus1 Suc_leI mod_less_divisor order_less_le_trans zero_less_Suc)
  then have "swap_at (Suc k) (unat (rng (Suc k)) mod (Suc k + 1)) urls ! n = urls ! n"
    using Suc.prems by (simp add: swap_at_def)
  with Suc.IH [of "swap_at (Suc k) (unat (rng (Suc k)) mod (Suc k + 1)) urls"] Suc.prems
  show ?case by simp
qed simp

lemma swap_at_same [simp]: "swap_at j j xs = xs"
  by (simp add: swap_at_def)

lemma shuffle_from_id:
  assumes "\<And>j. 0 < j \<Longrightarrow> j \<le> k \<Longrightarrow> unat (rng j) mod (j + 1) = j"
  shows "shuffle_from k rng xs = xs"
  using assms by (induction k) simp_all

lemma shuffle_from_front:
  assumes "i \<le> k" and "k < length xs"
    and "\<And>j. 0 < j \<Longrightarrow> j \<le> k \<Longrightarrow> unat (rng j) mod (j + 1) = (if j = i then 0 else j)"
  shows "shuffle_from k rng xs ! 0 = xs ! i"
  using assms
proof (induction k)
  case (Suc k)
  show ?case
  proof (cases "i = Suc k")
    case True
    with Suc.prems have "shuffle_from (Suc k) rng xs = swap_at (Suc k) 0 xs"
      using shuffle_from_id [of k rng] by simp
    then have "shuffle_from (Suc k) rng xs ! 0 = swap_at (Suc k) 0 xs ! 0" by simp
    also have "\<dots> = xs ! i"
      using Suc.prems(2) True unfolding swap_at_def by (subst nth_list_update_eq) auto
    finally show ?thesis .
  next
    case False
    with Suc.prems have "shuffle_from (Suc k) rng xs = shuffle_from k rng xs" by simp
    with Suc False show ?thesis by simp
  qed
qed simp

text \<open>
  Fact. The order of the attempts is a permutation: no URL is lost or tried twice, whatever the
  random numbers are, and any URL can come first: for each one there are random numbers that bring it to
  the front.
\<close>

theorem shuffle_urls_spec:
  shows "mset (shuffle_urls rng urls) = mset urls"
    and "i < length urls \<Longrightarrow> length urls \<le> 2 ^ 64 \<Longrightarrow> \<exists>rng. shuffle_urls rng urls ! 0 = urls ! i"
proof -
  show "mset (shuffle_urls rng urls) = mset urls"
    by (auto simp: shuffle_urls_def intro: shuffle_from_mset)
  let ?rng = "\<lambda>j. if j = i then 0 else of_nat j :: u64"
  assume i: "i < length urls" "length urls \<le> 2 ^ 64"
  have "shuffle_from (length urls - 1) ?rng urls ! 0 = urls ! i"
  proof (rule shuffle_from_front)
    show "unat (?rng j) mod (j + 1) = (if j = i then 0 else j)" if "j \<le> length urls - 1" for j
    proof -
      have "j < 2 ^ 64" using that i by simp
      then have "unat (of_nat j :: u64) = j" by (simp add: unat_of_nat)
      then show ?thesis by simp
    qed
  qed (use i in auto)
  then have "shuffle_urls ?rng urls ! 0 = urls ! i" using i by (cases urls) (auto simp: shuffle_urls_def)
  then show "\<exists>rng. shuffle_urls rng urls ! 0 = urls ! i" by blast
qed

theorem shuffle_urls_spec_witness:
  "\<exists>rng. shuffle_urls rng [''a'', ''b'', ''c''] ! 0 = ''c''"
  using shuffle_urls_spec(2) [of 2 "[''a'', ''b'', ''c'']"] by simp

subsection \<open>The first connection wins\<close>

definition attempt_failed :: "('r, 'x, 'e) attempt \<Rightarrow> bool" where
  "attempt_failed a = (case a of Attempt url (Inr r) \<Rightarrow> False | _ \<Rightarrow> True)"

definition attempt_report ::
    "(('x, 'e) sora_error \<Rightarrow> string) \<Rightarrow> ('r, 'x, 'e) attempt \<Rightarrow> (string \<times> string) list" where
  "attempt_report error_text a =
     (case a of
        Attempt url (Inl err) \<Rightarrow> [(url, error_text err)]
      | Attempt url (Inr r) \<Rightarrow> []
      | JoinFailed cancelled msg \<Rightarrow> if cancelled then [] else [(''(unknown)'', msg)])"

lemma attempt_failed_simps:
  "\<not> attempt_failed (Attempt url (Inr r))"
  "attempt_failed (Attempt url (Inl err))"
  "attempt_failed (JoinFailed cancelled msg)"
  by (simp_all add: attempt_failed_def)

lemma attempt_report_simps:
  "attempt_report error_text (Attempt url (Inr r)) = []"
  "attempt_report error_text (Attempt url (Inl err)) = [(url, error_text err)]"
  "attempt_report error_text (JoinFailed cancelled msg) =
     (if cancelled then [] else [(''(unknown)'', msg)])"
  by (simp_all add: attempt_report_def)

text \<open>
  Fact. The first attempt that succeeds decides: it is taken whatever the attempts before it
  reported, and only when all of them failed is there an error, which lists every failure in the order
  they ended (attempts that were cancelled are not listed).
\<close>

theorem first_connected_spec:
  "first_connected error_text outcomes errors =
     (case dropWhile attempt_failed outcomes of
        Attempt url (Inr r) # _ \<Rightarrow> Inr (r, url)
      | _ \<Rightarrow> Inl (AllSignalingUrlsFailed
          (errors @ concat (map (attempt_report error_text) outcomes))))"
  by (induction error_text outcomes errors rule: first_connected.induct)
    (simp_all add: attempt_failed_simps attempt_report_simps
      cong: list.case_cong attempt.case_cong sum.case_cong)

subsection \<open>Timers\<close>

text \<open>
  The tasks of the runtime: \<open>live\<close> gives the timer tasks that may still fire. Spawning adds the new task,
  aborting removes the task, and nothing else starts one.
\<close>

definition task_laws :: "('w, 'e) io_lib \<Rightarrow> ('w \<Rightarrow> (timer_id \<times> nat) set) \<Rightarrow> bool" where
  "task_laws N live =
     ((\<forall>i d w. live (snd (io_spawn_timer N i d w)) \<subseteq> insert (i, fst (io_spawn_timer N i d w)) (live w)) \<and>
      (\<forall>h w. live (io_abort N h w) \<subseteq> {t \<in> live w. snd t \<noteq> h}) \<and>
      (\<forall>buf w. live (snd (io_write N buf w)) \<subseteq> live w) \<and>
      (\<forall>w. live (snd (ws_poll_output N w)) \<subseteq> live w))"

definition timers_owned :: "('w \<Rightarrow> (timer_id \<times> nat) set) \<Rightarrow> timer_manager \<times> 'w \<Rightarrow> bool" where
  "timers_owned live s = (\<forall>(i, h) \<in> live (snd s). timer_slot i (fst s) = Some h)"

lemma timer_slot_set [simp]:
  "timer_slot i (set_timer_slot j h tm) = (if i = j then h else timer_slot i tm)"
  by (cases i; cases j) simp_all

lemma timers_owned_mono:
  "timers_owned live (tm, w) \<Longrightarrow> live w' \<subseteq> live w \<Longrightarrow> timers_owned live (tm, w')"
  by (auto simp: timers_owned_def)

lemma clear_timer_owned:
  assumes "task_laws N live" and "timers_owned live s"
  shows "timers_owned live (clear_timer N i s)"
    and "(i, h) \<notin> live (snd (clear_timer N i s))"
    and "live (snd (clear_timer N i s)) \<subseteq> live (snd s)"
proof -
  obtain tm w where s: "s = (tm, w)" by fastforce
  obtain w' where clear: "clear_timer N i s = (set_timer_slot i None tm, w')"
    and w': "live w' \<subseteq> live w" "\<And>h. timer_slot i tm = Some h \<Longrightarrow> (j, h) \<notin> live w'" for j
  proof (cases "timer_slot i tm")
    case None
    show thesis by (rule that [of w]) (simp_all add: clear_timer_def s None)
  next
    case (Some h)
    from assms(1) have "live (io_abort N h w) \<subseteq> {t \<in> live w. snd t \<noteq> h}"
      unfolding task_laws_def by blast
    then show thesis by (intro that [of "io_abort N h w"]) (auto simp: clear_timer_def s Some)
  qed
  have own: "timer_slot j tm = Some h" if "(j, h) \<in> live w'" for j h
    using assms(2) w'(1) that by (auto simp: timers_owned_def s)
  have free: "j \<noteq> i" if "(j, h) \<in> live w'" for j h
    using own [OF that] w'(2) [of h j] that by auto
  show "timers_owned live (clear_timer N i s)"
    using own free by (auto simp: timers_owned_def clear)
  show "(i, h) \<notin> live (snd (clear_timer N i s))"
    using free by (auto simp: clear)
  show "live (snd (clear_timer N i s)) \<subseteq> live (snd s)"
    using w' unfolding clear by (simp add: s)
qed

lemma set_timer_owned:
  assumes "task_laws N live" and "timers_owned live s"
  shows "timers_owned live (set_timer N i d s)"
proof -
  obtain tm w where c: "clear_timer N i s = (tm, w)" by fastforce
  obtain h w' where s: "io_spawn_timer N i d w = (h, w')" by fastforce
  from assms(1) have "live w' \<subseteq> insert (i, h) (live w)"
    using s unfolding task_laws_def by (metis fst_conv snd_conv)
  with clear_timer_owned [OF assms, of i] show ?thesis
    by (fastforce simp: set_timer_def c s timers_owned_def)
qed

lemma drop_timers_none:
  assumes "task_laws N live" and "timers_owned live s"
  shows "live (snd (drop_timers N s)) = {}"
proof -
  let ?a = "clear_timer N PingTimer s"
  let ?b = "clear_timer N PongTimeoutTimer ?a"
  note laws = assms(1)
  note a = clear_timer_owned(1) [OF assms, of PingTimer]
  note b = clear_timer_owned(1) [OF laws a, of PongTimeoutTimer]
  have "(i, h) \<notin> live (snd (drop_timers N s))" for i h
    using clear_timer_owned(2,3) [OF assms, of PingTimer] clear_timer_owned(2,3) [OF laws a, of PongTimeoutTimer]
      clear_timer_owned(2,3) [OF laws b, of CloseTimeoutTimer]
    unfolding drop_timers_def by (cases i) blast+
  then show ?thesis by auto
qed

lemma flush_round_owned:
  assumes "task_laws N live" and "timers_owned live s"
  shows "flush_round N s = Inl s' \<Longrightarrow> timers_owned live s'"
    and "flush_round N s = Inr (r, s') \<Longrightarrow> timers_owned live s'"
proof -
  obtain tm w where s: "s = (tm, w)" by fastforce
  obtain out w1 where poll: "ws_poll_output N w = (out, w1)" by fastforce
  from assms have w1: "timers_owned live (tm, w1)"
    unfolding task_laws_def s using poll by (metis snd_conv timers_owned_mono)
  have wr: "timers_owned live (tm, w2)" if "io_write N buf w1 = (x, w2)" for buf x w2
    using assms(1) w1 that unfolding task_laws_def by (metis snd_conv timers_owned_mono)
  show "flush_round N s = Inl s' \<Longrightarrow> timers_owned live s'"
    "flush_round N s = Inr (r, s') \<Longrightarrow> timers_owned live s'"
    using w1 wr assms(1)
    by (auto simp: flush_round_def s poll intro: clear_timer_owned set_timer_owned
        split: option.splits ws_output.splits prod.splits sum.splits)
qed

text \<open>
  Fact. No timer outlives its slot: whatever the WebSocket asks for while it is flushed, every
  timer task that may still fire is the one in its slot, so at most one for each of the three timers, and
  dropping the timers leaves none.
\<close>

theorem flush_keeps_timers:
  assumes laws: "task_laws N live" and own: "timers_owned live s"
    and run: "flush_ws_output N s = Some (r, s')"
  shows "timers_owned live s' \<and> live (snd (drop_timers N s')) = {}"
proof -
  have "timers_owned live (snd res)"
    if "flush_ws_output N s = Some res" "task_laws N live" "timers_owned live s" for res
    using that
  proof (induction N s res
      rule: flush_ws_output.raw_induct [rotated, consumes 1, case_names step])
    case (step flush N s res)
    from step.hyps obtain x where x: "flush_round N s = x"
      "(case x of Inl s \<Rightarrow> flush N s | Inr res \<Rightarrow> Some res) = Some res" by blast
    show ?case
    proof (cases x)
      case (Inl s1)
      with x(1) flush_round_owned(1) [OF step.prems] have "timers_owned live s1" by blast
      with Inl x(2) step.IH [of N s1 res] step.prems(1) show ?thesis by simp
    next
      case (Inr res')
      with x(2) have "res' = res" by simp
      with Inr x(1) flush_round_owned(2) [OF step.prems, of "fst res" "snd res"] show ?thesis by simp
    qed
  qed
  from this [OF run laws own] have "timers_owned live s'" by simp
  with laws drop_timers_none show ?thesis by blast
qed

end
