(* ===== verification/Exec.thy ===== *)
theory Exec
  imports Prelude
begin

text \<open>
  Statements of the connection: a state that is passed on, an error that ends the function (\<^verbatim>\<open>?\<close> and
  \<^verbatim>\<open>return Err\<close>), and \<open>None\<close> for a panic or for code that does not return. The triple
  \<open>triple P m Q R\<close> says that from a state with \<open>P\<close>, a result of \<open>m\<close> satisfies \<open>Q\<close> and an
  error \<open>R\<close>.
\<close>

type_synonym ('s, 'r, 'a) exec = "'s \<Rightarrow> ('r + 'a \<times> 's) option"

subsection \<open>Statements\<close>

definition retM :: "'a \<Rightarrow> ('s, 'r, 'a) exec" where
  "retM a = (\<lambda>s. Some (Inr (a, s)))"

definition failM :: "'r \<Rightarrow> ('s, 'r, 'a) exec" where
  "failM err = (\<lambda>s. Some (Inl err))"

definition panicM :: "('s, 'r, 'a) exec" where
  "panicM = (\<lambda>s. None)"

definition bindM :: "('s, 'r, 'a) exec \<Rightarrow> ('a \<Rightarrow> ('s, 'r, 'b) exec) \<Rightarrow> ('s, 'r, 'b) exec" where
  "bindM m f = (\<lambda>s.
     case m s of
       None \<Rightarrow> None
     | Some (Inl err) \<Rightarrow> Some (Inl err)
     | Some (Inr (a, s)) \<Rightarrow> f a s)"

definition seqM :: "('s, 'r, unit) exec \<Rightarrow> ('s, 'r, 'b) exec \<Rightarrow> ('s, 'r, 'b) exec" where
  "seqM m n = bindM m (\<lambda>_. n)"

definition getM :: "('s \<Rightarrow> 'a) \<Rightarrow> ('s, 'r, 'a) exec" where
  "getM f = (\<lambda>s. Some (Inr (f s, s)))"

definition modM :: "('s \<Rightarrow> 's) \<Rightarrow> ('s, 'r, unit) exec" where
  "modM f = (\<lambda>s. Some (Inr ((), f s)))"

definition whenM :: "bool \<Rightarrow> ('s, 'r, unit) exec \<Rightarrow> ('s, 'r, unit) exec" where
  "whenM b m = (if b then m else retM ())"

definition liftM :: "'r + 'a \<Rightarrow> ('s, 'r, 'a) exec" where
  "liftM r = (case r of Inl err \<Rightarrow> failM err | Inr a \<Rightarrow> retM a)"

definition ifM :: "('s \<Rightarrow> bool) \<Rightarrow> ('s, 'r, 'a) exec \<Rightarrow> ('s, 'r, 'a) exec \<Rightarrow> ('s, 'r, 'a) exec" where
  "ifM b m n = (\<lambda>s. if b s then m s else n s)"

text \<open>
  \<^verbatim>\<open>tokio::time::timeout\<close> around waiting for something: \<open>arrival\<close> is when it comes, in milliseconds from now,
  and what it is, and \<open>None\<close> when it never comes; without a limit the code just waits. What is there when
  the time is up counts. The result is \<open>None\<close> for a wait without an end, and \<open>Some None\<close> when time ran out.
\<close>

definition await :: "nat option \<Rightarrow> (nat \<times> 'a) option \<Rightarrow> 'a option option" where
  "await limit arrival =
     (case limit of
        None \<Rightarrow> map_option (Some \<circ> snd) arrival
      | Some duration \<Rightarrow>
          Some (case arrival of
            None \<Rightarrow> None
          | Some (t, x) \<Rightarrow> if t \<le> duration then Some x else None))"

lemma await_limit: "await (Some duration) arrival \<noteq> None"
  by (simp add: await_def)

text \<open>\<^verbatim>\<open>loop\<close>: again as long as the body yields \<open>None\<close>.\<close>

partial_function (option) loopM :: "('s, 'r, 'a option) exec \<Rightarrow> ('s, 'r, 'a) exec" where
  "loopM m s =
     (case m s of
        None \<Rightarrow> None
      | Some (Inl err) \<Rightarrow> Some (Inl err)
      | Some (Inr (None, s)) \<Rightarrow> loopM m s
      | Some (Inr (Some a, s)) \<Rightarrow> Some (Inr (a, s)))"

fun eachM :: "('a \<Rightarrow> ('s, 'r, unit) exec) \<Rightarrow> 'a list \<Rightarrow> ('s, 'r, unit) exec" where
  "eachM f [] = retM ()"
| "eachM f (x # xs) = seqM (f x) (eachM f xs)"

named_theorems exec_defs
named_theorems exec_rules

lemmas exec_basic [exec_defs] =
  retM_def failM_def panicM_def bindM_def seqM_def getM_def modM_def whenM_def liftM_def ifM_def

lemma exec_simps [simp]:
  "retM a s = Some (Inr (a, s))"
  "failM err s = Some (Inl err)"
  "panicM s = None"
  "getM f s = Some (Inr (f s, s))"
  "modM g s = Some (Inr ((), g s))"
  "liftM (Inl err) = failM err"
  "liftM (Inr a) = retM a"
  "whenM True m = m"
  "whenM False m = retM ()"
  "ifM b m n s = (if b s then m s else n s)"
  by (simp_all add: exec_basic)

lemma bindM_simps [simp]:
  "bindM (retM a) f = f a"
  "bindM (failM err) f = failM err"
  "bindM panicM f = panicM"
  "seqM (retM u) m = m"
  "seqM (failM err) m = failM err"
  "seqM panicM m = panicM"
  by (simp_all add: exec_basic)

lemma bindM_apply:
  "bindM (getM g) f s = f (g s) s"
  "seqM (modM h) m s = m (h s)"
  "bindM (modM h) k s = k () (h s)"
  by (simp_all add: exec_basic)

lemma bindM_Inr:
  "bindM m f s = Some (Inr r) \<longleftrightarrow> (\<exists>a s1. m s = Some (Inr (a, s1)) \<and> f a s1 = Some (Inr r))"
  by (auto simp: bindM_def split: option.splits sum.splits)

lemma seqM_Inr:
  "seqM m n s = Some (Inr r) \<longleftrightarrow> (\<exists>s1. m s = Some (Inr ((), s1)) \<and> n s1 = Some (Inr r))"
  by (auto simp: seqM_def bindM_Inr)

lemma whenM_Inr:
  "whenM b m s = Some (Inr ((), s')) \<longleftrightarrow> (if b then m s = Some (Inr ((), s')) else s' = s)"
  by auto

lemma liftM_Inr: "liftM r s = Some (Inr (a, s')) \<longleftrightarrow> r = Inr a \<and> s' = s"
  by (cases r) auto

lemmas exec_Inr = bindM_Inr seqM_Inr whenM_Inr liftM_Inr

subsection \<open>Triples\<close>

definition triple ::
    "('s \<Rightarrow> bool) \<Rightarrow> ('s, 'r, 'a) exec \<Rightarrow> ('a \<Rightarrow> 's \<Rightarrow> bool) \<Rightarrow> ('r \<Rightarrow> bool) \<Rightarrow> bool" where
  "triple P m Q R \<longleftrightarrow>
     (\<forall>s. P s \<longrightarrow>
        (case m s of
           None \<Rightarrow> True
         | Some (Inl err) \<Rightarrow> R err
         | Some (Inr (a, s')) \<Rightarrow> Q a s'))"

definition anyE :: "'r \<Rightarrow> bool" where "anyE err = True"

lemma anyE [simp]: "anyE err" by (simp add: anyE_def)

lemma triple_result: "triple P m Q R \<Longrightarrow> P s \<Longrightarrow> m s = Some (Inr (a, s')) \<Longrightarrow> Q a s'"
  by (auto simp: triple_def)

lemma triple_error: "triple P m Q R \<Longrightarrow> P s \<Longrightarrow> m s = Some (Inl err) \<Longrightarrow> R err"
  by (auto simp: triple_def split: option.splits sum.splits)

lemma triple_any: "triple P m (\<lambda>_ _. True) anyE"
  by (auto simp: triple_def split: option.split sum.split)

lemma triple_pre: "triple P m Q R \<Longrightarrow> (\<And>s. P' s \<Longrightarrow> P s) \<Longrightarrow> triple P' m Q R"
  by (auto simp: triple_def)

lemma triple_post:
  "triple P m Q R \<Longrightarrow> (\<And>a s. Q a s \<Longrightarrow> Q' a s) \<Longrightarrow> triple P m Q' R"
  unfolding triple_def by (fastforce split: option.splits sum.splits)

lemma triple_bind:
  "triple P m Q R \<Longrightarrow> (\<And>a. triple (Q a) (f a) Q' R) \<Longrightarrow> triple P (bindM m f) Q' R"
  unfolding triple_def bindM_def by (fastforce split: option.splits sum.splits)

lemma triple_seq:
  "triple P m (\<lambda>_. Q) R \<Longrightarrow> triple Q n Q' R \<Longrightarrow> triple P (seqM m n) Q' R"
  unfolding seqM_def by (rule triple_bind)

lemma triple_ret: "(\<And>s. P s \<Longrightarrow> Q a s) \<Longrightarrow> triple P (retM a) Q R"
  by (simp add: triple_def)

lemma triple_fail: "R err \<Longrightarrow> triple P (failM err) Q R"
  by (simp add: triple_def)

lemma triple_panic: "triple P panicM Q R"
  by (simp add: triple_def)

lemma triple_get: "(\<And>s. P s \<Longrightarrow> Q (f s) s) \<Longrightarrow> triple P (getM f) Q R"
  by (simp add: triple_def)

lemma triple_mod: "(\<And>s. P s \<Longrightarrow> Q () (f s)) \<Longrightarrow> triple P (modM f) Q R"
  by (simp add: triple_def)

lemma triple_when:
  "(b \<Longrightarrow> triple P m (\<lambda>_. Q) R) \<Longrightarrow> (\<And>s. \<not> b \<Longrightarrow> P s \<Longrightarrow> Q s) \<Longrightarrow> triple P (whenM b m) (\<lambda>_. Q) R"
  by (cases b) (auto simp: triple_def)

lemma triple_if:
  "triple (\<lambda>s. P s \<and> b s) m Q R \<Longrightarrow> triple (\<lambda>s. P s \<and> \<not> b s) n Q R \<Longrightarrow> triple P (ifM b m n) Q R"
  by (simp add: triple_def ifM_def)

lemma triple_lift:
  "(\<And>a s. r = Inr a \<Longrightarrow> P s \<Longrightarrow> Q a s) \<Longrightarrow> (\<And>err. r = Inl err \<Longrightarrow> R err) \<Longrightarrow> triple P (liftM r) Q R"
  by (cases r) (auto simp: triple_def)

lemma triple_loop:
  assumes body: "triple P m (\<lambda>r s. case r of None \<Rightarrow> P s | Some a \<Rightarrow> Q a s) R"
  shows "triple P (loopM m) Q R"
proof -
  have "P s \<Longrightarrow> (case res of Inl err \<Rightarrow> R err | Inr (a, s') \<Rightarrow> Q a s')" if "loopM m s = Some res" for s res
    using that body
  proof (induction m s res rule: loopM.raw_induct [rotated, consumes 1, case_names step])
    case (step loop m s res)
    obtain r where m: "m s = Some r" using step.hyps by (cases "m s") auto
    show ?case
    proof (cases r)
      case (Inl err)
      with step m show ?thesis by (auto simp: triple_def split: option.splits sum.splits)
    next
      case (Inr p)
      obtain a s' where p: "p = (a, s')" by fastforce
      from triple_result [OF step.prems(2,1) m [unfolded Inr p]]
      have s': "case a of None \<Rightarrow> P s' | Some a \<Rightarrow> Q a s'" .
      show ?thesis
      proof (cases a)
        case None
        with step.hyps m Inr p have "loop m s' = Some res" by simp
        with step.IH [OF this _ step.prems(2)] s' None show ?thesis by simp
      next
        case (Some b)
        with step.hyps m Inr p s' show ?thesis by auto
      qed
    qed
  qed
  then show ?thesis by (fastforce simp: triple_def split: option.splits)
qed

lemma triple_each:
  assumes "\<And>x. x \<in> set xs \<Longrightarrow> triple P (f x) (\<lambda>_. P) R"
  shows "triple P (eachM f xs) (\<lambda>_. P) R"
  using assms by (induction xs) (auto intro: triple_ret triple_seq)

text \<open>A statement keeps a property of the state, whatever else it does.\<close>

definition keeps :: "('s \<Rightarrow> bool) \<Rightarrow> ('s, 'r, 'a) exec \<Rightarrow> bool" where
  "keeps P m \<longleftrightarrow> triple P m (\<lambda>_. P) anyE"

lemma keeps_result: "keeps P m \<Longrightarrow> P s \<Longrightarrow> m s = Some (Inr (a, s')) \<Longrightarrow> P s'"
  unfolding keeps_def by (rule triple_result)

lemma keepsI: "(\<And>s a s'. P s \<Longrightarrow> m s = Some (Inr (a, s')) \<Longrightarrow> P s') \<Longrightarrow> keeps P m"
  by (auto simp: keeps_def triple_def split: option.splits sum.splits)

lemma keeps_bind [exec_rules]: "keeps P m \<Longrightarrow> (\<And>a. keeps P (f a)) \<Longrightarrow> keeps P (bindM m f)"
  unfolding keeps_def by (rule triple_bind)

lemma keeps_seq [exec_rules]: "keeps P m \<Longrightarrow> keeps P n \<Longrightarrow> keeps P (seqM m n)"
  unfolding keeps_def by (rule triple_seq)

lemma keeps_simple [exec_rules]:
  "keeps P (retM a)" "keeps P (failM err)" "keeps P panicM" "keeps P (getM f)" "keeps P (liftM r)"
  unfolding keeps_def
  by (auto intro: triple_ret triple_fail triple_panic triple_get triple_lift)

lemma keeps_mod [exec_rules]: "(\<And>s. P s \<Longrightarrow> P (f s)) \<Longrightarrow> keeps P (modM f)"
  unfolding keeps_def by (rule triple_mod)

lemma keeps_when [exec_rules]: "(b \<Longrightarrow> keeps P m) \<Longrightarrow> keeps P (whenM b m)"
  unfolding keeps_def by (rule triple_when) auto

lemma keeps_if [exec_rules]: "keeps P m \<Longrightarrow> keeps P n \<Longrightarrow> keeps P (ifM b m n)"
  by (auto simp: keeps_def triple_def ifM_def)

lemma keeps_loop [exec_rules]: "keeps P m \<Longrightarrow> keeps P (loopM m)"
  unfolding keeps_def by (rule triple_loop) (auto elim: triple_post split: option.split)

lemma keeps_each [exec_rules]: "(\<And>x. x \<in> set xs \<Longrightarrow> keeps P (f x)) \<Longrightarrow> keeps P (eachM f xs)"
  unfolding keeps_def by (rule triple_each)

lemma keeps_seq_cong:
  assumes "keeps P m" and "P s" and "\<And>s'. P s' \<Longrightarrow> n s' = n' s'"
  shows "seqM m n s = seqM m n' s"
  using assms(1,2,3) keeps_result [OF assms(1,2)]
  by (auto simp: seqM_def bindM_def split: option.split sum.split)

text \<open>A loop returns when its body always does and a measure goes down with every further round.\<close>

lemma loopM_returns:
  assumes body: "\<And>s. P s \<Longrightarrow> m s \<noteq> None"
    and inv: "\<And>s s'. P s \<Longrightarrow> m s = Some (Inr (None, s')) \<Longrightarrow> P s' \<and> mu s' < (mu s :: nat)"
    and "P s"
  shows "loopM m s \<noteq> None"
  using \<open>P s\<close>
proof (induction "mu s" arbitrary: s rule: less_induct)
  case less
  from body [OF less.prems] obtain r where r: "m s = Some r" by auto
  show ?case
  proof (cases "\<exists>s'. r = Inr (None, s')")
    case True
    then obtain s' where s': "r = Inr (None, s')" by blast
    with inv [OF less.prems] r have "P s' \<and> mu s' < mu s" by simp
    with less(1) [of s'] r s' show ?thesis by (subst loopM.simps) simp
  next
    case False
    with r show ?thesis by (subst loopM.simps) (auto split: sum.splits option.splits)
  qed
qed

text \<open>A statement that never panics, and always returns.\<close>

definition totalM :: "('s, 'r, 'a) exec \<Rightarrow> bool" where
  "totalM m \<longleftrightarrow> (\<forall>s. m s \<noteq> None)"

lemma total_bind [exec_rules]: "totalM m \<Longrightarrow> (\<And>a. totalM (f a)) \<Longrightarrow> totalM (bindM m f)"
  unfolding totalM_def bindM_def by (fastforce split: option.splits sum.splits)

lemma total_seq [exec_rules]: "totalM m \<Longrightarrow> totalM n \<Longrightarrow> totalM (seqM m n)"
  unfolding seqM_def by (rule total_bind)

lemma total_simple [exec_rules]:
  "totalM (retM a)" "totalM (failM err)" "totalM (getM f)" "totalM (modM g)" "totalM (liftM r)"
  by (cases r; simp add: totalM_def)+

lemma total_when [exec_rules]: "(b \<Longrightarrow> totalM m) \<Longrightarrow> totalM (whenM b m)"
  by (cases b) (simp_all add: totalM_def)

lemma total_if [exec_rules]: "totalM m \<Longrightarrow> totalM n \<Longrightarrow> totalM (ifM b m n)"
  by (auto simp: totalM_def ifM_def)

lemma total_each [exec_rules]: "(\<And>x. x \<in> set xs \<Longrightarrow> totalM (f x)) \<Longrightarrow> totalM (eachM f xs)"
  by (induction xs) (auto intro: total_seq total_simple)

text \<open>Which errors a statement may end with.\<close>

definition failsM :: "('r \<Rightarrow> bool) \<Rightarrow> ('s, 'r, 'a) exec \<Rightarrow> bool" where
  "failsM R m \<longleftrightarrow> (\<forall>s err. m s = Some (Inl err) \<longrightarrow> R err)"

lemma fails_bind [exec_rules]: "failsM R m \<Longrightarrow> (\<And>a. failsM R (f a)) \<Longrightarrow> failsM R (bindM m f)"
  unfolding failsM_def bindM_def by (fastforce split: option.splits sum.splits)

lemma fails_seq [exec_rules]: "failsM R m \<Longrightarrow> failsM R n \<Longrightarrow> failsM R (seqM m n)"
  unfolding seqM_def by (rule fails_bind)

lemma fails_simple [exec_rules]:
  "failsM R (retM a)" "failsM R panicM" "failsM R (getM f)" "failsM R (modM g)"
  "R err \<Longrightarrow> failsM R (failM err)"
  by (simp_all add: failsM_def)

lemma fails_lift [exec_rules]: "(\<And>err. r = Inl err \<Longrightarrow> R err) \<Longrightarrow> failsM R (liftM r)"
  by (cases r) (simp_all add: failsM_def)

lemma fails_when [exec_rules]: "(b \<Longrightarrow> failsM R m) \<Longrightarrow> failsM R (whenM b m)"
  by (cases b) (simp_all add: failsM_def)

lemma fails_if [exec_rules]: "failsM R m \<Longrightarrow> failsM R n \<Longrightarrow> failsM R (ifM b m n)"
  by (auto simp: failsM_def ifM_def)

lemma fails_each [exec_rules]: "(\<And>x. x \<in> set xs \<Longrightarrow> failsM R (f x)) \<Longrightarrow> failsM R (eachM f xs)"
  by (induction xs) (auto intro: fails_seq fails_simple)

lemma fails_loop [exec_rules]:
  assumes "failsM R m"
  shows "failsM R (loopM m)"
proof -
  have fails: "failsM R n \<longleftrightarrow> triple (\<lambda>_. True) n (\<lambda>_ _. True) R" for n :: "('b, 'a, 'c) exec"
    unfolding failsM_def triple_def by (fastforce split: option.splits sum.splits)
  have "triple (\<lambda>_. True) m (\<lambda>r s. case r of None \<Rightarrow> True | Some a \<Rightarrow> True) R"
    using assms unfolding failsM_def triple_def by (fastforce split: option.splits sum.splits)
  from triple_loop [OF this] show ?thesis by (simp add: fails)
qed

text \<open>Case distinctions.\<close>

lemma keeps_cases [exec_rules]:
  "(c \<Longrightarrow> keeps P m) \<Longrightarrow> (\<not> c \<Longrightarrow> keeps P n) \<Longrightarrow> keeps P (if c then m else n)"
  "(x = None \<Longrightarrow> keeps P m) \<Longrightarrow> (\<And>a. x = Some a \<Longrightarrow> keeps P (f a)) \<Longrightarrow> keeps P (case_option m f x)"
  "(\<And>err. y = Inl err \<Longrightarrow> keeps P (g err)) \<Longrightarrow> (\<And>b. y = Inr b \<Longrightarrow> keeps P (h b)) \<Longrightarrow>
     keeps P (case_sum g h y)"
  "(\<And>a b. z = (a, b) \<Longrightarrow> keeps P (k a b)) \<Longrightarrow> keeps P (case_prod k z)"
  "(c \<Longrightarrow> keeps P m) \<Longrightarrow> (\<not> c \<Longrightarrow> keeps P n) \<Longrightarrow> keeps P (case_bool m n c)"
  by (auto split: option.split sum.split prod.split bool.split)

lemma total_cases [exec_rules]:
  "(c \<Longrightarrow> totalM m) \<Longrightarrow> (\<not> c \<Longrightarrow> totalM n) \<Longrightarrow> totalM (if c then m else n)"
  "(x = None \<Longrightarrow> totalM m) \<Longrightarrow> (\<And>a. x = Some a \<Longrightarrow> totalM (f a)) \<Longrightarrow> totalM (case_option m f x)"
  "(\<And>err. y = Inl err \<Longrightarrow> totalM (g err)) \<Longrightarrow> (\<And>b. y = Inr b \<Longrightarrow> totalM (h b)) \<Longrightarrow>
     totalM (case_sum g h y)"
  "(\<And>a b. z = (a, b) \<Longrightarrow> totalM (k a b)) \<Longrightarrow> totalM (case_prod k z)"
  "(c \<Longrightarrow> totalM m) \<Longrightarrow> (\<not> c \<Longrightarrow> totalM n) \<Longrightarrow> totalM (case_bool m n c)"
  by (auto split: option.split sum.split prod.split bool.split)

lemma fails_cases [exec_rules]:
  "(c \<Longrightarrow> failsM R m) \<Longrightarrow> (\<not> c \<Longrightarrow> failsM R n) \<Longrightarrow> failsM R (if c then m else n)"
  "(x = None \<Longrightarrow> failsM R m) \<Longrightarrow> (\<And>a. x = Some a \<Longrightarrow> failsM R (f a)) \<Longrightarrow> failsM R (case_option m f x)"
  "(\<And>err. y = Inl err \<Longrightarrow> failsM R (g err)) \<Longrightarrow> (\<And>b. y = Inr b \<Longrightarrow> failsM R (h b)) \<Longrightarrow>
     failsM R (case_sum g h y)"
  "(\<And>a b. z = (a, b) \<Longrightarrow> failsM R (k a b)) \<Longrightarrow> failsM R (case_prod k z)"
  "(c \<Longrightarrow> failsM R m) \<Longrightarrow> (\<not> c \<Longrightarrow> failsM R n) \<Longrightarrow> failsM R (case_bool m n c)"
  by (auto split: option.split sum.split prod.split bool.split)

end
