(* ===== verification/Negotiation.thy ===== *)
theory Negotiation
  imports Exec Signaling
begin

text \<open>
  Answering an offer, from \<^verbatim>\<open>src/connection.rs\<close>: \<^verbatim>\<open>handle_offer\<close> and the methods it calls, over the peer
  connection of \<^verbatim>\<open>shiguredo_webrtc\<close>, whose operations are the record \<open>pc_lib\<close> and whose state is part of
  \<open>'w\<close>. Tracks and senders are known by a number. An operation with an observer yields an \<open>arrival\<close>: when
  and what its observer sends, if it ever does; the code waits for it for a limited time (\<open>sdp_reply\<close>).
\<close>

subsection \<open>The peer connection\<close>

text \<open>
  What comes to the channel of an observer, and after how many milliseconds: a value, or \<open>None\<close> when the
  observer was dropped without a word. Nothing may come at all.
\<close>

type_synonym 'a arrival = "(nat \<times> 'a option) option"

datatype 'a reply = ReplyTimeout | ReplyMissing | Reply 'a

datatype sdp_type = SdpOffer | SdpAnswer

text \<open>\<^verbatim>\<open>RtcError\<close>: \<^verbatim>\<open>ok()\<close>, and \<^verbatim>\<open>message()\<close> when it can be read.\<close>

record rtc_error =
  rtc_ok :: bool
  rtc_message :: "string option"

text \<open>What the code does not touch of the parameters is \<open>rp_other\<close> and \<open>en_other\<close>.\<close>

datatype 'e answer_result = AnswerCreated "'e + string" | AnswerRefused rtc_error

record rtp_encoding =
  en_rid :: string
  en_max_bitrate_bps :: "i32 option"
  en_min_bitrate_bps :: "i32 option"
  en_scale_resolution_down_by :: "f64 option"
  en_max_framerate :: "f64 option"
  en_active :: bool
  en_scalability_mode :: "string option"
  en_scale_resolution_down_to :: "(i32 \<times> i32) option"
  en_adaptive_ptime :: bool
  en_other :: nat

datatype degradation_preference = KnownPreference nat | UnknownPreference "32 word"

record rtp_parameters =
  rp_encodings :: "rtp_encoding list"
  rp_degradation_preference :: "degradation_preference option"
  rp_other :: nat

record ice_server_entry =
  ie_username :: "string option"
  ie_password :: "string option"
  ie_insecure :: bool
  ie_urls :: "string list"

record ('w, 'e) pc_lib =
  pc_set_configuration :: "ice_server_entry list \<Rightarrow> 'w \<Rightarrow> ('e + unit) \<times> 'w"
  pc_description :: "sdp_type \<Rightarrow> string \<Rightarrow> 'e + unit"
  pc_set_remote :: "string \<Rightarrow> 'w \<Rightarrow> rtc_error arrival \<times> 'w"
  pc_create_answer :: "'w \<Rightarrow> 'e answer_result arrival \<times> 'w"
  pc_set_local :: "string \<Rightarrow> 'w \<Rightarrow> rtc_error arrival \<times> 'w"
  pc_add_track :: "nat \<Rightarrow> 'w \<Rightarrow> ('e + nat) \<times> 'w"
  sender_get_parameters :: "nat \<Rightarrow> 'w \<Rightarrow> rtp_parameters"
  sender_set_parameters :: "nat \<Rightarrow> rtp_parameters \<Rightarrow> 'w \<Rightarrow> ('e + unit) \<times> 'w"
  sender_set_transformer :: "nat \<Rightarrow> nat \<Rightarrow> 'w \<Rightarrow> 'w"
  new_encoding :: rtp_encoding

subsection \<open>The state\<close>

text \<open>The settings that stay, and the part of the connection an offer changes.\<close>

record session_config =
  sc_role :: role
  sc_degradation_preference :: "degradation_preference option"
  sc_adaptive_ptime :: "bool option"
  sc_turn_tls_insecure :: bool
  sc_ice_server_url_configurer :: "(string list \<Rightarrow> ice_server_entry \<Rightarrow> ice_server_entry) option"

record 'w session =
  ss_world :: 'w
  ss_sender_video_track :: "nat option"
  ss_sender_audio_track :: "nat option"
  ss_sender_video_transform :: "nat option"
  ss_offer_simulcast :: bool
  ss_simulcast_encodings :: "simulcast_encoding list"
  ss_video_sender :: "nat option"
  ss_audio_sender :: "nat option"
  ss_sender_video_frame_transformer :: "nat option"

text \<open>An operation of the library on the world.\<close>

definition worldM :: "('w \<Rightarrow> 'a \<times> 'w) \<Rightarrow> (('w, 'z) session_scheme, 'r, 'a) exec" where
  "worldM f = (\<lambda>s. case f (ss_world s) of (a, w) \<Rightarrow> Some (Inr (a, s\<lparr>ss_world := w\<rparr>)))"

subsection \<open>Waiting for an observer\<close>

definition SDP_OPERATION_TIMEOUT :: nat where
  "SDP_OPERATION_TIMEOUT = 5 * 1000"

text \<open>\<open>None\<close> is a wait that never ends.\<close>

definition reply_of :: "nat option \<Rightarrow> 'a arrival \<Rightarrow> 'a reply option" where
  "reply_of limit arrival =
     map_option (\<lambda>r. case r of
         None \<Rightarrow> ReplyTimeout
       | Some None \<Rightarrow> ReplyMissing
       | Some (Some x) \<Rightarrow> Reply x) (await limit arrival)"

definition replyM :: "'a option \<Rightarrow> ('s, 'r, 'a) exec" where
  "replyM r = (\<lambda>s. case r of None \<Rightarrow> None | Some a \<Rightarrow> Some (Inr (a, s)))"

text \<open>\<^verbatim>\<open>timeout(SDP_OPERATION_TIMEOUT, rx.recv()).await\<close> for an operation with an observer.\<close>

definition sdp_reply :: "('w \<Rightarrow> 'a arrival \<times> 'w) \<Rightarrow> (('w, 'z) session_scheme, 'r, 'a reply) exec" where
  "sdp_reply operation =
     bindM (worldM operation) (\<lambda>arrival. replyM (reply_of (Some SDP_OPERATION_TIMEOUT) arrival))"

subsection \<open>Tracks\<close>

definition add_sender_media_track ::
    "('w, 'e) pc_lib \<Rightarrow> nat \<Rightarrow> (('w, 'z) session_scheme, ('x, 'e) sora_error, nat) exec" where
  "add_sender_media_track P track =
     bindM (worldM (pc_add_track P track)) (\<lambda>r.
     liftM (map_err (NegotiationError \<circ> WebrtcError) r))"

definition add_video_track ::
    "('w, 'e) pc_lib \<Rightarrow> (('w, 'z) session_scheme, ('x, 'e) sora_error, unit) exec" where
  "add_video_track P =
     bindM (getM ss_sender_video_track) (\<lambda>track.
     case track of
       None \<Rightarrow> retM ()
     | Some track \<Rightarrow>
         seqM (modM (\<lambda>s. s\<lparr>ss_sender_video_track := None\<rparr>))
         (bindM (add_sender_media_track P track) (\<lambda>sender.
          bindM (getM ss_sender_video_transform) (\<lambda>handler.
          seqM (case handler of
                  None \<Rightarrow> retM ()
                | Some handler \<Rightarrow>
                    seqM (modM (\<lambda>s. s\<lparr>ss_sender_video_transform := None\<rparr>))
                    (seqM (worldM (\<lambda>w. ((), sender_set_transformer P sender handler w)))
                    (modM (\<lambda>s. s\<lparr>ss_sender_video_frame_transformer := Some handler\<rparr>))))
          (modM (\<lambda>s. s\<lparr>ss_video_sender := Some sender\<rparr>))))))"

definition add_audio_track ::
    "('w, 'e) pc_lib \<Rightarrow> (('w, 'z) session_scheme, ('x, 'e) sora_error, unit) exec" where
  "add_audio_track P =
     bindM (getM ss_sender_audio_track) (\<lambda>track.
     case track of
       None \<Rightarrow> retM ()
     | Some track \<Rightarrow>
         seqM (modM (\<lambda>s. s\<lparr>ss_sender_audio_track := None\<rparr>))
         (bindM (add_sender_media_track P track) (\<lambda>sender.
          modM (\<lambda>s. s\<lparr>ss_audio_sender := Some sender\<rparr>))))"

definition add_sender_tracks ::
    "('w, 'e) pc_lib \<Rightarrow> (('w, 'z) session_scheme, ('x, 'e) sora_error, unit) exec" where
  "add_sender_tracks P = seqM (add_video_track P) (add_audio_track P)"

subsection \<open>Parameters of the senders\<close>

definition encoding_of :: "rtp_encoding \<Rightarrow> simulcast_encoding \<Rightarrow> rtp_encoding" where
  "encoding_of new c =
     new\<lparr>en_rid := se_rid c,
         en_max_bitrate_bps := se_max_bitrate c,
         en_min_bitrate_bps := se_min_bitrate c,
         en_scale_resolution_down_by := se_scale_resolution_down_by c,
         en_max_framerate := se_max_framerate c,
         en_active := (case se_active c of None \<Rightarrow> en_active new | Some active \<Rightarrow> active),
         en_scalability_mode := se_scalability_mode c,
         en_scale_resolution_down_to :=
           (case se_scale_resolution_down_to c of
              None \<Rightarrow> en_scale_resolution_down_to new
            | Some v \<Rightarrow> Some (max_width v, max_height v))\<rparr>"

definition set_parameters ::
    "('w, 'e) pc_lib \<Rightarrow> ('e \<Rightarrow> 'e negotiation_error) \<Rightarrow> nat \<Rightarrow> rtp_parameters \<Rightarrow>
       (('w, 'z) session_scheme, ('x, 'e) sora_error, unit) exec" where
  "set_parameters P failed sender parameters =
     bindM (worldM (sender_set_parameters P sender parameters)) (\<lambda>r.
     liftM (map_err (NegotiationError \<circ> failed) r))"

definition apply_simulcast_encodings ::
    "('w, 'e) pc_lib \<Rightarrow> (('w, 'z) session_scheme, ('x, 'e) sora_error, unit) exec" where
  "apply_simulcast_encodings P =
     ifM (\<lambda>s. ss_video_sender s = None) (failM (NegotiationError SimulcastVideoSenderMissing))
     (bindM (getM ss_video_sender) (\<lambda>sender.
      case sender of
        None \<Rightarrow> panicM
      | Some sender \<Rightarrow>
          bindM (getM (\<lambda>s. sender_get_parameters P sender (ss_world s))) (\<lambda>parameters.
          bindM (getM ss_simulcast_encodings) (\<lambda>configs.
          set_parameters P SimulcastSetParametersFailed sender
            (parameters\<lparr>rp_encodings := map (encoding_of (new_encoding P)) configs\<rparr>)))))"

definition apply_degradation_preference ::
    "('w, 'e) pc_lib \<Rightarrow> session_config \<Rightarrow> (('w, 'z) session_scheme, ('x, 'e) sora_error, unit) exec" where
  "apply_degradation_preference P K =
     (case sc_degradation_preference K of
        None \<Rightarrow> retM ()
      | Some (UnknownPreference v) \<Rightarrow> failM (NegotiationError (UnknownDegradationPreference v))
      | Some preference \<Rightarrow>
          bindM (getM ss_video_sender) (\<lambda>sender.
          case sender of
            None \<Rightarrow> retM ()
          | Some sender \<Rightarrow>
              bindM (getM (\<lambda>s. sender_get_parameters P sender (ss_world s))) (\<lambda>parameters.
              set_parameters P DegradationPreferenceSetParametersFailed sender
                (parameters\<lparr>rp_degradation_preference := Some preference\<rparr>))))"

text \<open>The loop over the indices; \<open>None\<close> is \<^verbatim>\<open>expect("index must be within encodings length")\<close>.\<close>

fun set_adaptive_ptime :: "bool \<Rightarrow> nat list \<Rightarrow> rtp_encoding list \<Rightarrow> rtp_encoding list option" where
  "set_adaptive_ptime value [] encodings = Some encodings"
| "set_adaptive_ptime value (i # is) encodings =
     (if i < length encodings
      then set_adaptive_ptime value is (encodings[i := (encodings ! i)\<lparr>en_adaptive_ptime := value\<rparr>])
      else None)"

definition apply_adaptive_ptime ::
    "('w, 'e) pc_lib \<Rightarrow> session_config \<Rightarrow> (('w, 'z) session_scheme, ('x, 'e) sora_error, unit) exec" where
  "apply_adaptive_ptime P K =
     (case sc_adaptive_ptime K of
        None \<Rightarrow> retM ()
      | Some adaptive_ptime \<Rightarrow>
          bindM (getM ss_audio_sender) (\<lambda>sender.
          case sender of
            None \<Rightarrow> retM ()
          | Some sender \<Rightarrow>
              bindM (getM (\<lambda>s. sender_get_parameters P sender (ss_world s))) (\<lambda>parameters.
              if rp_encodings parameters = [] then retM ()
              else
                (case set_adaptive_ptime adaptive_ptime [0..<length (rp_encodings parameters)]
                    (rp_encodings parameters) of
                   None \<Rightarrow> panicM
                 | Some encodings \<Rightarrow>
                     set_parameters P AdaptivePtimeSetParametersFailed sender
                       (parameters\<lparr>rp_encodings := encodings\<rparr>)))))"

lemma set_adaptive_ptime_within:
  "\<forall>i \<in> set is. i < length encodings \<Longrightarrow> \<exists>es. set_adaptive_ptime value is encodings = Some es"
  by (induction "is" arbitrary: encodings) auto

lemma set_adaptive_ptime_returns: "set_adaptive_ptime value [0..<length encodings] encodings \<noteq> None"
  using set_adaptive_ptime_within [of "[0..<length encodings]" encodings] by auto

subsection \<open>ICE servers\<close>

definition configure_ice_server_urls ::
    "session_config \<Rightarrow> string list \<Rightarrow> ice_server_entry \<Rightarrow> ice_server_entry" where
  "configure_ice_server_urls K urls entry =
     (case sc_ice_server_url_configurer K of
        Some configurer \<Rightarrow> configurer urls entry
      | None \<Rightarrow> entry\<lparr>ie_urls := ie_urls entry @ urls\<rparr>)"

definition ice_server_entry_of :: "session_config \<Rightarrow> ice_server_config \<Rightarrow> ice_server_entry" where
  "ice_server_entry_of K server =
     configure_ice_server_urls K (ice_urls server)
       \<lparr>ie_username = ice_username server, ie_password = ice_credential server,
        ie_insecure = sc_turn_tls_insecure K, ie_urls = []\<rparr>"

definition apply_pc_configuration ::
    "('w, 'e) pc_lib \<Rightarrow> session_config \<Rightarrow> ice_server_config list \<Rightarrow>
       (('w, 'z) session_scheme, ('x, 'e) sora_error, unit) exec" where
  "apply_pc_configuration P K servers =
     (if servers = [] then retM ()
      else
        bindM (worldM (pc_set_configuration P
          (filter (\<lambda>entry. ie_urls entry \<noteq> []) (map (ice_server_entry_of K) servers)))) (\<lambda>r.
        liftM (map_err (NegotiationError \<circ> WebrtcError) r)))"

subsection \<open>The offer\<close>

text \<open>\<^verbatim>\<open>send_set_description_result\<close>: what the observer sends.\<close>

definition set_description_result :: "rtc_error \<Rightarrow> string option" where
  "set_description_result err =
     (if rtc_ok err then None else Some (case rtc_message err of None \<Rightarrow> ''unknown'' | Some m \<Rightarrow> m))"

definition await_description ::
    "'e negotiation_error \<Rightarrow> 'e negotiation_error \<Rightarrow> (string \<Rightarrow> 'e negotiation_error) \<Rightarrow>
       rtc_error reply \<Rightarrow> ('x, 'e) sora_error + unit" where
  "await_description timed_out missing failed r =
     (case r of
        ReplyTimeout \<Rightarrow> Inl (NegotiationError timed_out)
      | ReplyMissing \<Rightarrow> Inl (NegotiationError missing)
      | Reply err \<Rightarrow>
          (case set_description_result err of
             Some reason \<Rightarrow> Inl (NegotiationError (failed reason))
           | None \<Rightarrow> Inr ()))"

text \<open>The observer of the answer, and waiting for it.\<close>

definition answer_result_of :: "'e answer_result \<Rightarrow> ('x, 'e) sora_error + string" where
  "answer_result_of r =
     (case r of
        AnswerCreated sdp \<Rightarrow> map_err (NegotiationError \<circ> WebrtcError) sdp
      | AnswerRefused err \<Rightarrow>
          Inl (NegotiationError
            (AnswerFailed (case rtc_message err of None \<Rightarrow> ''unknown'' | Some m \<Rightarrow> m))))"

definition await_answer :: "'e answer_result reply \<Rightarrow> ('x, 'e) sora_error + string" where
  "await_answer r =
     (case r of
        ReplyTimeout \<Rightarrow> Inl (NegotiationError AnswerTimeout)
      | ReplyMissing \<Rightarrow> Inl (NegotiationError AnswerResponseMissing)
      | Reply result \<Rightarrow> answer_result_of result)"

definition description ::
    "('w, 'e) pc_lib \<Rightarrow> sdp_type \<Rightarrow> string \<Rightarrow> (('w, 'z) session_scheme, ('x, 'e) sora_error, unit) exec" where
  "description P kind sdp = liftM (map_err (NegotiationError \<circ> WebrtcError) (pc_description P kind sdp))"

definition apply_remote_description ::
    "('w, 'e) pc_lib \<Rightarrow> string \<Rightarrow> (('w, 'z) session_scheme, ('x, 'e) sora_error, unit) exec" where
  "apply_remote_description P sdp =
     seqM (description P SdpOffer sdp)
     (bindM (sdp_reply (pc_set_remote P sdp)) (\<lambda>r.
      liftM (await_description SetRemoteDescriptionTimeout SetRemoteDescriptionResponseMissing
        SetRemoteDescriptionFailed r)))"

definition apply_local_description ::
    "('w, 'e) pc_lib \<Rightarrow> string \<Rightarrow> (('w, 'z) session_scheme, ('x, 'e) sora_error, unit) exec" where
  "apply_local_description P sdp =
     seqM (description P SdpAnswer sdp)
     (bindM (sdp_reply (pc_set_local P sdp)) (\<lambda>r.
      liftM (await_description SetLocalDescriptionTimeout SetLocalDescriptionResponseMissing
        SetLocalDescriptionFailed r)))"

definition handle_offer ::
    "('w, 'e) pc_lib \<Rightarrow> session_config \<Rightarrow> string \<Rightarrow> ice_server_config list \<Rightarrow>
       (('w, 'z) session_scheme, ('x, 'e) sora_error, string) exec" where
  "handle_offer P K sdp ice_servers =
     seqM (apply_pc_configuration P K ice_servers)
     (seqM (apply_remote_description P sdp)
     (seqM (whenM (wants_send (sc_role K)) (add_sender_tracks P))
     (seqM (ifM (\<lambda>s. ss_offer_simulcast s \<and> ss_simulcast_encodings s \<noteq> [])
              (apply_simulcast_encodings P) (retM ()))
     (seqM (apply_degradation_preference P K)
     (bindM (sdp_reply (pc_create_answer P)) (\<lambda>r.
      bindM (liftM (await_answer r)) (\<lambda>answer_sdp.
      seqM (apply_local_description P answer_sdp)
      (seqM (apply_adaptive_ptime P K)
      (retM answer_sdp)))))))))"

subsection \<open>What the parts keep\<close>

lemmas negotiation_defs =
  handle_offer_def apply_pc_configuration_def apply_remote_description_def
  apply_local_description_def description_def add_sender_tracks_def add_video_track_def
  add_audio_track_def add_sender_media_track_def apply_simulcast_encodings_def
  apply_degradation_preference_def apply_adaptive_ptime_def set_parameters_def

lemma worldM_rules [exec_rules]:
  "(\<And>s a w. P s \<Longrightarrow> f (ss_world s) = (a, w) \<Longrightarrow> P (s\<lparr>ss_world := w\<rparr>)) \<Longrightarrow> keeps P (worldM f)"
  "totalM (worldM f)"
  "failsM R (worldM f)"
  by (auto simp: worldM_def totalM_def failsM_def intro!: keepsI split: prod.splits)

lemma worldM_Inr:
  "worldM f s = Some (Inr (a, s')) \<longleftrightarrow> (\<exists>w. f (ss_world s) = (a, w) \<and> s' = s\<lparr>ss_world := w\<rparr>)"
  by (auto simp: worldM_def split: prod.splits)

lemma replyM_rules [exec_rules]:
  "keeps P (replyM r)" "failsM R (replyM r)" "r \<noteq> None \<Longrightarrow> totalM (replyM r)"
  by (auto simp: replyM_def totalM_def failsM_def intro!: keepsI split: option.splits)

lemma reply_of_limit: "reply_of (Some limit) arrival \<noteq> None"
  by (simp add: reply_of_def await_def)

lemma sdp_reply_rules [exec_rules]:
  "(\<And>s a w. P s \<Longrightarrow> f (ss_world s) = (a, w) \<Longrightarrow> P (s\<lparr>ss_world := w\<rparr>)) \<Longrightarrow> keeps P (sdp_reply f)"
  "totalM (sdp_reply f)"
  "failsM R (sdp_reply f)"
  unfolding sdp_reply_def by (intro exec_rules reply_of_limit, assumption?)+

lemma reply_of_Reply:
  "reply_of (Some limit) arrival = Some (Reply x) \<longleftrightarrow> (\<exists>t \<le> limit. arrival = Some (t, Some x))"
  by (auto simp: reply_of_def await_def split: option.splits prod.splits if_splits)

lemma sdp_reply_Inr:
  "sdp_reply f s = Some (Inr (Reply x, s')) \<longleftrightarrow>
     (\<exists>t w. t \<le> SDP_OPERATION_TIMEOUT \<and> f (ss_world s) = (Some (t, Some x), w) \<and> s' = s\<lparr>ss_world := w\<rparr>)"
proof -
  obtain arrival w where f: "f (ss_world s) = (arrival, w)" by fastforce
  obtain r where r: "reply_of (Some SDP_OPERATION_TIMEOUT) arrival = Some r"
    using reply_of_limit by blast
  have "r = Reply x \<longleftrightarrow> (\<exists>t \<le> SDP_OPERATION_TIMEOUT. arrival = Some (t, Some x))"
    using r reply_of_Reply [of SDP_OPERATION_TIMEOUT arrival x] by simp
  then show ?thesis
    by (auto simp: sdp_reply_def bindM_def worldM_def replyM_def f r)
qed

lemma await_description_Inr:
  "await_description timed_out missing failed r = Inr u \<longleftrightarrow> (\<exists>err. r = Reply err \<and> rtc_ok err)"
  by (auto simp: await_description_def set_description_result_def split: reply.splits option.splits if_splits)

lemma await_answer_Inr:
  "await_answer r = Inr answer \<longleftrightarrow> r = Reply (AnswerCreated (Inr answer))"
  by (auto simp: await_answer_def answer_result_of_def result_simps
      split: reply.splits answer_result.splits)

definition negotiation_error :: "('x, 'e) sora_error \<Rightarrow> bool" where
  "negotiation_error err \<longleftrightarrow> (\<exists>n. err = NegotiationError n)"

lemma map_negotiation:
  "map_err (NegotiationError \<circ> f) r = Inl err \<Longrightarrow> negotiation_error err"
  "await_description a b c d = Inl err \<Longrightarrow> negotiation_error err"
  "await_answer e = Inl err \<Longrightarrow> negotiation_error err"
  by (auto simp: negotiation_error_def map_err_def await_description_def await_answer_def
      answer_result_of_def split: sum.splits reply.splits option.splits answer_result.splits)

lemma fails_negotiation [exec_rules]:
  "failsM negotiation_error (liftM (map_err (NegotiationError \<circ> f) r))"
  "failsM negotiation_error (liftM (await_description a b c d))"
  "failsM negotiation_error (liftM (await_answer e))"
  by (auto intro!: fails_lift intro: map_negotiation)

lemma negotiation_error_simp [simp]: "negotiation_error (NegotiationError n)"
  by (simp add: negotiation_error_def)

lemma total_simulcast [exec_rules]: "totalM (apply_simulcast_encodings P)"
  by (auto simp: totalM_def apply_simulcast_encodings_def set_parameters_def worldM_def exec_basic
      split: option.split prod.split sum.split)

lemma total_adaptive_ptime [exec_rules]: "totalM (apply_adaptive_ptime P K)"
  unfolding apply_adaptive_ptime_def set_parameters_def
  by (intro exec_rules) (simp_all add: set_adaptive_ptime_returns)

lemma total_parts [exec_rules]:
  "totalM (apply_pc_configuration P K servers)"
  "totalM (apply_remote_description P sdp)"
  "totalM (apply_local_description P sdp)"
  "totalM (add_sender_tracks P)"
  "totalM (apply_degradation_preference P K)"
  unfolding negotiation_defs
  by (auto intro!: exec_rules split: option.split degradation_preference.split)

text \<open>
  Property C14. Answering an offer comes to an end whatever the peer connection does, also when one of
  its observers never says anything: none of the waits is without a limit and none of the two
  \<^verbatim>\<open>expect\<close>s on the way is reached. When it fails it is with an error of the negotiation.
\<close>

theorem handle_offer_total:
  "totalM (handle_offer P K sdp servers) \<and>
    failsM negotiation_error (handle_offer P K sdp servers)"
proof
  show "totalM (handle_offer P K sdp servers)"
    unfolding handle_offer_def by (intro exec_rules)
  show "failsM negotiation_error (handle_offer P K sdp servers)"
    unfolding negotiation_defs
    by (auto intro!: exec_rules split: option.split degradation_preference.split)
qed

text \<open>
  Property C7. An answer is given to the server only after it took effect: it is the answer that the peer
  connection created, after the offer was applied as the remote description, and it was then applied
  as the local description, both without an error and each within the time limit.
\<close>

theorem answer_applied:
  fixes P :: "('w, 'e) pc_lib" and s :: "('w, 'z) session_scheme"
  assumes "handle_offer P K sdp servers s = Some (Inr (answer, s') :: ('x, 'e) sora_error + _)"
  shows "\<exists>w1 w2 w3 w4 w5 r1 r2 t1 t2 t3.
     pc_description P SdpOffer sdp = Inr () \<and>
     pc_set_remote P sdp w1 = (Some (t1, Some r1), w2) \<and> rtc_ok r1 \<and>
     pc_create_answer P w3 = (Some (t2, Some (AnswerCreated (Inr answer))), w4) \<and>
     pc_description P SdpAnswer answer = Inr () \<and>
     pc_set_local P answer w4 = (Some (t3, Some r2), w5) \<and> rtc_ok r2 \<and>
     {t1, t2, t3} \<subseteq> {0..SDP_OPERATION_TIMEOUT}"
proof -
  from assms obtain s1 s2 s3 s4 s5 :: "('w, 'z) session_scheme" and r1 r2 r3 where
    "pc_description P SdpOffer sdp = Inr ()"
    "sdp_reply (pc_set_remote P sdp) s1 = Some (Inr (r1, s2) :: ('x, 'e) sora_error + _)"
    "await_description SetRemoteDescriptionTimeout SetRemoteDescriptionResponseMissing
       SetRemoteDescriptionFailed r1 = (Inr () :: ('x, 'e) sora_error + _)"
    "sdp_reply (pc_create_answer P) s3 = Some (Inr (r2, s4) :: ('x, 'e) sora_error + _)"
    "await_answer r2 = (Inr answer :: ('x, 'e) sora_error + _)"
    "pc_description P SdpAnswer answer = Inr ()"
    "sdp_reply (pc_set_local P answer) s4 = Some (Inr (r3, s5) :: ('x, 'e) sora_error + _)"
    "await_description SetLocalDescriptionTimeout SetLocalDescriptionResponseMissing
       SetLocalDescriptionFailed r3 = (Inr () :: ('x, 'e) sora_error + _)"
    unfolding handle_offer_def apply_remote_description_def apply_local_description_def description_def
    by (simp add: exec_Inr result_simps) blast
  then show ?thesis
    by (clarsimp simp: await_description_Inr await_answer_Inr sdp_reply_Inr) (intro exI conjI, assumption+)
qed

definition no_tracks :: "('w, 'z) session_scheme \<Rightarrow> bool" where
  "no_tracks s \<longleftrightarrow> ss_sender_video_track s = None \<and> ss_sender_audio_track s = None"

text \<open>
  The same peer connection with a record of the tracks that are added to it: the second component of
  the state lists them in order, whether or not adding them fails.
\<close>

definition beside_log :: "('w \<Rightarrow> 'a \<times> 'w) \<Rightarrow> 'w \<times> 'l \<Rightarrow> 'a \<times> 'w \<times> 'l" where
  "beside_log f = (\<lambda>(w, l). case f w of (a, w') \<Rightarrow> (a, w', l))"

definition recorded :: "('w, 'e) pc_lib \<Rightarrow> ('w \<times> nat list, 'e) pc_lib" where
  "recorded P =
     \<lparr>pc_set_configuration = (\<lambda>entries. beside_log (pc_set_configuration P entries)),
      pc_description = pc_description P,
      pc_set_remote = (\<lambda>sdp. beside_log (pc_set_remote P sdp)),
      pc_create_answer = beside_log (pc_create_answer P),
      pc_set_local = (\<lambda>sdp. beside_log (pc_set_local P sdp)),
      pc_add_track = (\<lambda>track (w, l). beside_log (pc_add_track P track) (w, l @ [track])),
      sender_get_parameters = (\<lambda>sender (w, l). sender_get_parameters P sender w),
      sender_set_parameters = (\<lambda>sender p. beside_log (sender_set_parameters P sender p)),
      sender_set_transformer = (\<lambda>sender handler (w, l). (sender_set_transformer P sender handler w, l)),
      new_encoding = new_encoding P\<rparr>"

definition added_tracks :: "('w \<times> nat list, 'z) session_scheme \<Rightarrow> nat list" where
  "added_tracks s = snd (ss_world s)"

text \<open>The tracks that are still to be added: the video track, then the audio track.\<close>

definition tracks_left :: "('w, 'z) session_scheme \<Rightarrow> nat list" where
  "tracks_left s =
     (case ss_sender_video_track s of None \<Rightarrow> [] | Some track \<Rightarrow> [track]) @
     (case ss_sender_audio_track s of None \<Rightarrow> [] | Some track \<Rightarrow> [track])"

lemma beside_log_keeps: "beside_log f p = (a, w, l) \<Longrightarrow> l = snd p"
  by (auto simp: beside_log_def split: prod.splits)

lemma recorded_simps [simp]:
  "pc_set_configuration (recorded P) entries = beside_log (pc_set_configuration P entries)"
  "pc_set_remote (recorded P) sdp = beside_log (pc_set_remote P sdp)"
  "pc_create_answer (recorded P) = beside_log (pc_create_answer P)"
  "pc_set_local (recorded P) sdp = beside_log (pc_set_local P sdp)"
  "sender_set_parameters (recorded P) sender p = beside_log (sender_set_parameters P sender p)"
  by (simp_all add: recorded_def)

definition tracks_are ::
    "nat list \<Rightarrow> nat option \<Rightarrow> nat option \<Rightarrow> ('w \<times> nat list, 'z) session_scheme \<Rightarrow> bool" where
  "tracks_are added video audio s \<longleftrightarrow>
     added_tracks s = added \<and> ss_sender_video_track s = video \<and> ss_sender_audio_track s = audio"

lemma keeps_tracks:
  "keeps (tracks_are l v a) (apply_pc_configuration (recorded P) K servers)"
  "keeps (tracks_are l v a) (apply_remote_description (recorded P) sdp)"
  "keeps (tracks_are l v a) (apply_local_description (recorded P) sdp)"
  "keeps (tracks_are l v a) (apply_simulcast_encodings (recorded P))"
  "keeps (tracks_are l v a) (apply_degradation_preference (recorded P) K)"
  "keeps (tracks_are l v a) (apply_adaptive_ptime (recorded P) K)"
  "keeps (tracks_are l v a) (sdp_reply (pc_create_answer (recorded P)))"
  unfolding negotiation_defs
  by (auto intro!: exec_rules simp: tracks_are_def added_tracks_def dest!: beside_log_keeps
      split: option.split degradation_preference.split)

lemma triple_add_track:
  "triple (tracks_are l v a) (add_sender_media_track (recorded P) track)
     (\<lambda>_. tracks_are (l @ [track]) v a) anyE"
  by (auto simp: triple_def tracks_are_def added_tracks_def add_sender_media_track_def worldM_def
      recorded_def beside_log_def exec_basic split: option.splits sum.splits prod.splits)

lemma triple_add_video:
  "triple (tracks_are l v a) (add_video_track (recorded P))
     (\<lambda>_. tracks_are (l @ (case v of None \<Rightarrow> [] | Some track \<Rightarrow> [track])) None a) anyE"
  by (auto simp: triple_def tracks_are_def added_tracks_def add_video_track_def
      add_sender_media_track_def worldM_def recorded_def beside_log_def exec_basic
      split: option.splits sum.splits prod.splits)

lemma triple_add_audio:
  "triple (tracks_are l v a) (add_audio_track (recorded P))
     (\<lambda>_. tracks_are (l @ (case a of None \<Rightarrow> [] | Some track \<Rightarrow> [track])) v None) anyE"
  by (auto simp: triple_def tracks_are_def added_tracks_def add_audio_track_def
      add_sender_media_track_def worldM_def recorded_def beside_log_def exec_basic
      split: option.splits sum.splits prod.splits)

lemma triple_offer_tracks:
  "triple (tracks_are l v a) (handle_offer (recorded P) K sdp servers)
     (\<lambda>_. if wants_send (sc_role K)
          then tracks_are (l @ (case v of None \<Rightarrow> [] | Some track \<Rightarrow> [track]) @
                 (case a of None \<Rightarrow> [] | Some track \<Rightarrow> [track])) None None
          else tracks_are l v a) anyE"
  (is "triple _ _ (\<lambda>_. ?Q) _")
  unfolding handle_offer_def
proof (rule triple_seq [OF keeps_tracks(1) [unfolded keeps_def]],
    rule triple_seq [OF keeps_tracks(2) [unfolded keeps_def]], rule triple_seq)
  show "triple (tracks_are l v a) (whenM (wants_send (sc_role K)) (add_sender_tracks (recorded P)))
      (\<lambda>_. ?Q) anyE"
    using triple_seq [OF triple_add_video triple_add_audio]
    by (auto simp: add_sender_tracks_def intro!: triple_ret)
qed (fold keeps_def, cases "wants_send (sc_role K)"; simp only: if_True if_False;
    intro exec_rules keeps_tracks)

text \<open>
  Property C13. The media tracks are added once: the first successful offer of a sender adds the
  tracks that are there to the peer connection, the video track before the audio track, and takes
  them, so that an offer that follows adds none. For a role that does not send no track is ever
  added.
\<close>

theorem tracks_added_once:
  assumes "handle_offer (recorded P) K sdp servers s = Some (Inr (answer, s'))"
  shows "added_tracks s' = added_tracks s @ (if wants_send (sc_role K) then tracks_left s else []) \<and>
    tracks_left s' = (if wants_send (sc_role K) then [] else tracks_left s)"
  using triple_result [OF triple_offer_tracks _ assms, of "added_tracks s" "ss_sender_video_track s"
      "ss_sender_audio_track s"]
  by (auto simp: tracks_are_def tracks_left_def split: if_splits)

subsection \<open>An example\<close>

text \<open>A peer connection that counts the tracks, answers at once and refuses nothing.\<close>

definition example_encoding :: rtp_encoding where
  "example_encoding =
     \<lparr>en_rid = [], en_max_bitrate_bps = None, en_min_bitrate_bps = None,
      en_scale_resolution_down_by = None, en_max_framerate = None, en_active = True,
      en_scalability_mode = None, en_scale_resolution_down_to = None, en_adaptive_ptime = False,
      en_other = 0\<rparr>"

definition example_pc :: "(nat, unit) pc_lib" where
  "example_pc =
     \<lparr>pc_set_configuration = (\<lambda>entries w. (Inr (), w)), pc_description = (\<lambda>kind sdp. Inr ()),
      pc_set_remote = (\<lambda>sdp w. (Some (0, Some \<lparr>rtc_ok = True, rtc_message = None\<rparr>), w)),
      pc_create_answer = (\<lambda>w. (Some (0, Some (AnswerCreated (Inr ''answer''))), w)),
      pc_set_local = (\<lambda>sdp w. (Some (0, Some \<lparr>rtc_ok = True, rtc_message = None\<rparr>), w)),
      pc_add_track = (\<lambda>track w. (Inr w, w + 1)),
      sender_get_parameters =
        (\<lambda>sender w. \<lparr>rp_encodings = [], rp_degradation_preference = None, rp_other = 0\<rparr>),
      sender_set_parameters = (\<lambda>sender p w. (Inr (), w)),
      sender_set_transformer = (\<lambda>sender handler w. w), new_encoding = example_encoding\<rparr>"

definition example_config :: session_config where
  "example_config =
     \<lparr>sc_role = SendRecv, sc_degradation_preference = None, sc_adaptive_ptime = Some True,
      sc_turn_tls_insecure = False, sc_ice_server_url_configurer = None\<rparr>"

definition example_session :: "nat session" where
  "example_session =
     \<lparr>ss_world = 0, ss_sender_video_track = Some 1, ss_sender_audio_track = Some 2,
      ss_sender_video_transform = None, ss_offer_simulcast = False, ss_simulcast_encodings = [],
      ss_video_sender = None, ss_audio_sender = None, ss_sender_video_frame_transformer = None\<rparr>"

definition example_session_answered :: "nat session" where
  "example_session_answered = example_session\<lparr>ss_world := 2, ss_sender_video_track := None,
     ss_sender_audio_track := None, ss_video_sender := Some 0, ss_audio_sender := Some 1\<rparr>"

lemma example_offer:
  "handle_offer example_pc example_config ''offer'' [] example_session =
     Some (Inr (''answer'', example_session_answered) :: (unit, unit) sora_error + _)"
  by (simp add: negotiation_defs worldM_def exec_basic example_pc_def example_config_def
      example_session_def example_session_answered_def await_description_def await_answer_def
      answer_result_of_def set_description_result_def wants_send_def sdp_reply_def
      replyM_def reply_of_def await_def SDP_OPERATION_TIMEOUT_def)

theorem answer_applied_witness:
  "\<exists>w3 w4 w5 r2 t2 t3.
     pc_create_answer example_pc w3 = (Some (t2, Some (AnswerCreated (Inr ''answer''))), w4) \<and>
     pc_set_local example_pc ''answer'' w4 = (Some (t3, Some r2), w5) \<and> rtc_ok r2 \<and>
     {t2, t3} \<subseteq> {0..SDP_OPERATION_TIMEOUT}"
  using answer_applied [OF example_offer] by (simp add: insert_subset) blast

text \<open>Both tracks are added by the first offer.\<close>

definition recorded_session :: "(nat \<times> nat list) session" where
  "recorded_session =
     \<lparr>ss_world = (0, []), ss_sender_video_track = Some 1, ss_sender_audio_track = Some 2,
      ss_sender_video_transform = None, ss_offer_simulcast = False, ss_simulcast_encodings = [],
      ss_video_sender = None, ss_audio_sender = None, ss_sender_video_frame_transformer = None\<rparr>"

definition recorded_session_answered :: "(nat \<times> nat list) session" where
  "recorded_session_answered = recorded_session\<lparr>ss_world := (2, [1, 2]), ss_sender_video_track := None,
     ss_sender_audio_track := None, ss_video_sender := Some 0, ss_audio_sender := Some 1\<rparr>"

lemma recorded_offer:
  "handle_offer (recorded example_pc) example_config ''offer'' [] recorded_session =
     Some (Inr (''answer'', recorded_session_answered) :: (unit, unit) sora_error + _)"
  by (simp add: negotiation_defs worldM_def exec_basic example_pc_def example_config_def recorded_def
      beside_log_def recorded_session_def recorded_session_answered_def await_description_def
      await_answer_def answer_result_of_def set_description_result_def wants_send_def sdp_reply_def
      replyM_def reply_of_def await_def SDP_OPERATION_TIMEOUT_def)

theorem tracks_added_once_witness:
  "added_tracks recorded_session_answered = [1, 2] \<and> tracks_left recorded_session_answered = []"
  using tracks_added_once [OF recorded_offer]
  by (simp add: example_config_def wants_send_def recorded_session_def tracks_left_def
      added_tracks_def)

end
