(* ===== verification/Rpc.thy ===== *)
theory Rpc
  imports Signaling
begin

text \<open>
  JSON-RPC 2.0 over the data channel, \<^verbatim>\<open>src/rpc.rs\<close>. \<open>rpc_parse\<close> returns \<open>None\<close> where the code panics
  (the two \<^verbatim>\<open>expect\<close> calls); a \<^verbatim>\<open>JsonString\<close> made of a value is its text \<open>json_text\<close>.
\<close>

record rpc_request_options =
  rpc_notification :: bool
  rpc_timeout_ms :: nat

definition rpc_request_options_default :: rpc_request_options where
  "rpc_request_options_default = \<lparr>rpc_notification = False, rpc_timeout_ms = 5000\<rparr>"

datatype rpc_response =
    RpcSuccess json_string
  | RpcError i32 string "json_string option"

subsection \<open>Counting the control members\<close>

record member_seen =
  is_seen :: bool
  is_duplicated :: bool

definition unseen :: member_seen where
  "unseen = \<lparr>is_seen = False, is_duplicated = False\<rparr>"

definition see :: "member_seen \<Rightarrow> member_seen" where
  "see m = \<lparr>is_seen = True, is_duplicated = is_seen m \<or> is_duplicated m\<rparr>"

record control_members =
  seen_jsonrpc :: member_seen
  seen_id :: member_seen
  seen_result :: member_seen
  seen_error :: member_seen

definition no_members :: control_members where
  "no_members = \<lparr>seen_jsonrpc = unseen, seen_id = unseen, seen_result = unseen, seen_error = unseen\<rparr>"

definition see_member :: "string \<Rightarrow> control_members \<Rightarrow> control_members" where
  "see_member name c =
     (if name = ''jsonrpc'' then c\<lparr>seen_jsonrpc := see (seen_jsonrpc c)\<rparr>
      else if name = ''id'' then c\<lparr>seen_id := see (seen_id c)\<rparr>
      else if name = ''result'' then c\<lparr>seen_result := see (seen_result c)\<rparr>
      else if name = ''error'' then c\<lparr>seen_error := see (seen_error c)\<rparr>
      else c)"

fun scan_members ::
    "('v, 'x) nojson \<Rightarrow> ('v \<times> 'v) list \<Rightarrow> control_members \<Rightarrow> 'x + control_members" where
  "scan_members J [] c = Inr c"
| "scan_members J ((key, _) # ms) c =
     bindE (json_unquoted J key) (\<lambda>name. scan_members J ms (see_member name c))"

subsection \<open>The error object\<close>

record error_members =
  seen_code :: bool
  seen_message :: bool
  seen_data :: bool

fun scan_error_members ::
    "('v, 'x) nojson \<Rightarrow> u64 option \<Rightarrow> ('v \<times> 'v) list \<Rightarrow> error_members \<Rightarrow>
       ('x, 'e) sora_error + error_members" where
  "scan_error_members J trusted_id [] c = Inr c"
| "scan_error_members J trusted_id ((key, _) # ms) c =
     bindE (map_err JsonParse (json_unquoted J key)) (\<lambda>name.
       if name = ''code'' then
         (if seen_code c then Inl (RpcProtocolViolation trusted_id)
          else scan_error_members J trusted_id ms (c\<lparr>seen_code := True\<rparr>))
       else if name = ''message'' then
         (if seen_message c then Inl (RpcProtocolViolation trusted_id)
          else scan_error_members J trusted_id ms (c\<lparr>seen_message := True\<rparr>))
       else if name = ''data'' then
         (if seen_data c then Inl (RpcProtocolViolation trusted_id)
          else scan_error_members J trusted_id ms (c\<lparr>seen_data := True\<rparr>))
       else scan_error_members J trusted_id ms c)"

text \<open>A mandatory member of the error object: whatever is wrong with it is a violation.\<close>

definition error_member ::
    "('v, 'x) nojson \<Rightarrow> u64 option \<Rightarrow> 'v \<Rightarrow> string \<Rightarrow> ('v \<Rightarrow> 'x + 'a) \<Rightarrow> ('x, 'e) sora_error + 'a" where
  "error_member J trusted_id v name conv =
     bindE (map_err JsonParse (json_member J v name)) (\<lambda>m.
       case m of
         None \<Rightarrow> Inl (RpcProtocolViolation trusted_id)
       | Some x \<Rightarrow> map_err (\<lambda>_. RpcProtocolViolation trusted_id) (conv x))"

definition parse_error_object ::
    "('v, 'x) nojson \<Rightarrow> u64 option \<Rightarrow> 'v \<Rightarrow>
       ('x, 'e) sora_error + i32 \<times> string \<times> json_string option" where
  "parse_error_object J trusted_id v =
     (if json_kind J v \<noteq> KindObject then Inl (RpcProtocolViolation trusted_id)
      else
        bindE (map_err JsonParse (json_object J v)) (\<lambda>ms.
        bindE (scan_error_members J trusted_id ms
          \<lparr>seen_code = False, seen_message = False, seen_data = False\<rparr>) (\<lambda>_.
        bindE (error_member J trusted_id v ''code'' (json_i32 J)) (\<lambda>code.
        bindE (error_member J trusted_id v ''message'' (json_string J)) (\<lambda>message.
        bindE (map_err JsonParse (json_member J v ''data'')) (\<lambda>data.
        Inr (code, message, map_option (json_text J) data)))))))"

subsection \<open>The response\<close>

definition trusted_id_of ::
    "('v, 'x) nojson \<Rightarrow> 'v \<Rightarrow> control_members \<Rightarrow> 'x + u64 option" where
  "trusted_id_of J v c =
     (if is_duplicated (seen_id c) then Inr None
      else bindE (json_member J v ''id'') (\<lambda>m.
        Inr (do { x \<leftarrow> m; if json_kind J x = KindNull then None else ok_opt (json_u64 J x) })))"

definition jsonrpc_ok :: "('v, 'x) nojson \<Rightarrow> 'v \<Rightarrow> 'x + bool" where
  "jsonrpc_ok J v =
     bindE (json_member J v ''jsonrpc'') (\<lambda>m.
       Inr (case m of
              None \<Rightarrow> False
            | Some x \<Rightarrow> (case ok_opt (json_unquoted J x) of None \<Rightarrow> False | Some s \<Rightarrow> s = ''2.0'')))"

definition rpc_parse ::
    "('v, 'x) nojson \<Rightarrow> string \<Rightarrow> (('x, 'e) sora_error + u64 option \<times> rpc_response) option" where
  "rpc_parse J text =
     (case json_parse J text of
        Inl err \<Rightarrow> Some (Inl (JsonParse err))
      | Inr v \<Rightarrow>
     if json_kind J v \<noteq> KindObject then Some (Inl (RpcProtocolViolation None))
     else case bindE (json_object J v) (\<lambda>ms. scan_members J ms no_members) of
        Inl err \<Rightarrow> Some (Inl (JsonParse err))
      | Inr c \<Rightarrow>
     (case trusted_id_of J v c of
        Inl err \<Rightarrow> Some (Inl (JsonParse err))
      | Inr trusted_id \<Rightarrow>
     if is_duplicated (seen_jsonrpc c) \<or> is_duplicated (seen_result c) \<or> is_duplicated (seen_error c)
     then Some (Inl (RpcProtocolViolation trusted_id))
     else case jsonrpc_ok J v of
        Inl err \<Rightarrow> Some (Inl (JsonParse err))
      | Inr ok \<Rightarrow>
     if \<not> ok then Some (Inl (RpcProtocolViolation trusted_id))
     else if is_seen (seen_result c) \<and> \<not> is_seen (seen_error c) then
       (case json_member J v ''result'' of
          Inl err \<Rightarrow> Some (Inl (JsonParse err))
        | Inr None \<Rightarrow> None
        | Inr (Some x) \<Rightarrow> Some (Inr (trusted_id, RpcSuccess (json_text J x))))
     else if \<not> is_seen (seen_result c) \<and> is_seen (seen_error c) then
       (case json_member J v ''error'' of
          Inl err \<Rightarrow> Some (Inl (JsonParse err))
        | Inr None \<Rightarrow> None
        | Inr (Some x) \<Rightarrow> Some (bindE (parse_error_object J trusted_id x)
            (\<lambda>(code, message, data). Inr (trusted_id, RpcError code message data))))
     else Some (Inl (RpcProtocolViolation trusted_id))))"

subsection \<open>The request\<close>

text \<open>
  \<^verbatim>\<open>*id_counter += 1\<close> overflows after \<open>2 ^ 64 - 1\<close> requests: \<open>None\<close> is the panic of a build with
  overflow checks.
\<close>

definition build_rpc_message ::
    "u64 \<Rightarrow> string \<Rightarrow> json_string option \<Rightarrow> bool \<Rightarrow> (json \<times> u64 option \<times> u64) option" where
  "build_rpc_message id_counter method params notification =
     do {
       (rid, id_counter) \<leftarrow>
         if notification then Some (None, id_counter)
         else do { n \<leftarrow> checked_add id_counter 1; Some (Some n, n) };
       Some (JObj ((''jsonrpc'', JStr ''2.0'') # (''method'', JStr method) #
               opt_member ''params'' JRaw params @ opt_member ''id'' (\<lambda>n. JInt (uint n)) rid),
             rid, id_counter)
     }"


subsection \<open>The JSON-RPC 2.0 reading of a response\<close>

text \<open>
  What the specification says of a response, on the members of its object: the control
  members occur once, the version is the text 2.0, exactly one of result and error is
  present, and an error object has an integer code, a text and at most one data member.
\<close>

definition occurs :: "json_members \<Rightarrow> string \<Rightarrow> nat" where
  "occurs ms k = count_list (map fst ms) k"

definition response_id :: "json_members \<Rightarrow> u64 option" where
  "response_id ms =
     (if occurs ms ''id'' = 1 then
        (case map_of ms ''id'' of
           Some (JInt i) \<Rightarrow> if 0 \<le> i \<and> i < 2 ^ 64 then Some (word_of_int i) else None
         | _ \<Rightarrow> None)
      else None)"

definition error_object :: "json_members \<Rightarrow> (i32 \<times> string \<times> json option) option" where
  "error_object es =
     (if occurs es ''code'' = 1 \<and> occurs es ''message'' = 1 \<and> occurs es ''data'' \<le> 1 then
        (case (map_of es ''code'', map_of es ''message'') of
           (Some (JInt i), Some (JStr message)) \<Rightarrow>
             if - (2 ^ 31) \<le> i \<and> i < 2 ^ 31
             then Some (word_of_int i, message, map_of es ''data'') else None
         | _ \<Rightarrow> None)
      else None)"

definition response_of :: "(json \<Rightarrow> json_string) \<Rightarrow> json_members \<Rightarrow> rpc_response option" where
  "response_of show_json ms =
     (if occurs ms ''jsonrpc'' = 1 \<and> map_of ms ''jsonrpc'' = Some (JStr ''2.0'') \<and>
         occurs ms ''result'' + occurs ms ''error'' = 1 then
        (case (map_of ms ''result'', map_of ms ''error'') of
           (Some r, _) \<Rightarrow> Some (RpcSuccess (show_json r))
         | (None, Some (JObj es)) \<Rightarrow>
             map_option (\<lambda>(code, message, data). RpcError code message (map_option show_json data))
               (error_object es)
         | _ \<Rightarrow> None)
      else None)"

subsection \<open>The scans count the control members\<close>

lemma scan_members_rep:
  assumes "json_faithful J rep"
  shows "scan_members J (map (\<lambda>(k, j). (rep (JStr k), rep j)) ms) c =
     Inr (fold see_member (map fst ms) c)"
  using assms by (induction ms arbitrary: c) (auto simp: json_faithful_simps)

lemma see_pow: "(see ^^ n) unseen = \<lparr>is_seen = 0 < n, is_duplicated = 1 < n\<rparr>"
  by (induction n) (auto simp: see_def unseen_def)

lemma seen_fold:
  "seen_jsonrpc (fold see_member ks c) = (see ^^ count_list ks ''jsonrpc'') (seen_jsonrpc c)"
  "seen_id (fold see_member ks c) = (see ^^ count_list ks ''id'') (seen_id c)"
  "seen_result (fold see_member ks c) = (see ^^ count_list ks ''result'') (seen_result c)"
  "seen_error (fold see_member ks c) = (see ^^ count_list ks ''error'') (seen_error c)"
  by (induction ks arbitrary: c) (auto simp: see_member_def funpow_swap1)

lemma seen_counts:
  "seen_jsonrpc (fold see_member (map fst ms) no_members) =
     \<lparr>is_seen = 0 < occurs ms ''jsonrpc'', is_duplicated = 1 < occurs ms ''jsonrpc''\<rparr>"
  "seen_id (fold see_member (map fst ms) no_members) =
     \<lparr>is_seen = 0 < occurs ms ''id'', is_duplicated = 1 < occurs ms ''id''\<rparr>"
  "seen_result (fold see_member (map fst ms) no_members) =
     \<lparr>is_seen = 0 < occurs ms ''result'', is_duplicated = 1 < occurs ms ''result''\<rparr>"
  "seen_error (fold see_member (map fst ms) no_members) =
     \<lparr>is_seen = 0 < occurs ms ''error'', is_duplicated = 1 < occurs ms ''error''\<rparr>"
  by (simp_all add: seen_fold occurs_def no_members_def see_pow)

lemma occurs_Cons: "occurs ((k, j) # ms) k' = of_bool (k = k') + occurs ms k'"
  by (simp add: occurs_def)

lemma scan_error_members_rep:
  assumes J: "json_faithful J rep"
  shows "(\<exists>c'. scan_error_members J tid (map (\<lambda>(k, j). (rep (JStr k), rep j)) ms) c = Inr c') \<longleftrightarrow>
       of_bool (seen_code c) + occurs ms ''code'' \<le> 1 \<and>
       of_bool (seen_message c) + occurs ms ''message'' \<le> 1 \<and>
       of_bool (seen_data c) + occurs ms ''data'' \<le> 1"
proof (induction ms arbitrary: c)
  case Nil
  then show ?case by (simp add: occurs_def)
next
  case (Cons m ms)
  obtain k j where m: "m = (k, j)" by (cases m)
  consider "k = ''code''" | "k = ''message''" | "k = ''data''"
    | "k \<noteq> ''code'' \<and> k \<noteq> ''message'' \<and> k \<noteq> ''data''" by blast
  then show ?case
  proof cases
    case 1
    with Cons.IH m show ?thesis
      by (cases "seen_code c") (simp_all add: json_faithful_simps [OF J] occurs_Cons)
  next
    case 2
    with Cons.IH m show ?thesis
      by (cases "seen_message c") (simp_all add: json_faithful_simps [OF J] occurs_Cons)
  next
    case 3
    with Cons.IH m show ?thesis
      by (cases "seen_data c") (simp_all add: json_faithful_simps [OF J] occurs_Cons)
  next
    case 4
    with Cons.IH m show ?thesis by (simp add: json_faithful_simps [OF J] occurs_Cons)
  qed
qed

lemma scan_error_members_Inl:
  assumes J: "json_faithful J rep"
  shows "scan_error_members J tid (map (\<lambda>(k, j). (rep (JStr k), rep j)) ms) c = Inl e \<Longrightarrow>
       e = RpcProtocolViolation tid"
proof (induction ms arbitrary: c)
  case (Cons m ms)
  then show ?case
    by (cases m) (simp add: json_faithful_simps [OF J] split: if_splits)
qed simp

lemma count_list_pos: "0 < count_list xs x \<longleftrightarrow> x \<in> set xs"
  by (induction xs) auto

lemma occurs_pos: "0 < occurs ms k \<longleftrightarrow> k \<in> fst ` set ms"
  by (simp add: occurs_def count_list_pos)

lemma occurs_0_member:
  "json_faithful J rep \<Longrightarrow> occurs ms k = 0 \<Longrightarrow> json_member J (rep (JObj ms)) k = Inr None"
  using occurs_pos [of ms k] by (simp add: json_member_absent)

lemma occurs_1_unique:
  "occurs ms k = 1 \<Longrightarrow> (k, i) \<in> set ms \<Longrightarrow> map_of ms k = Some i"
proof (induction ms)
  case (Cons m ms)
  show ?case
  proof (cases "fst m = k")
    case True
    with Cons.prems have "occurs ms k = 0" by (simp add: occurs_def)
    then have "k \<notin> fst ` set ms" using occurs_pos [of ms k] by simp
    with Cons.prems True show ?thesis by (cases m) (auto simp: rev_image_eqI)
  next
    case False
    with Cons.prems have "occurs ms k = 1" by (simp add: occurs_def)
    with Cons False show ?thesis by (cases m) auto
  qed
qed simp

lemma occurs_1_member:
  assumes "json_faithful J rep" and "occurs ms k = 1"
  shows "json_member J (rep (JObj ms)) k = Inr (map_option rep (map_of ms k))"
proof -
  from assms(2) have "k \<in> fst ` set ms" using occurs_pos [of ms k] by simp
  with assms(1) obtain i where "(k, i) \<in> set ms"
    "json_member J (rep (JObj ms)) k = Inr (Some (rep i))" by (rule json_member_some)
  with assms(2) show ?thesis by (simp add: occurs_1_unique)
qed

lemma occurs_le_1_member:
  "json_faithful J rep \<Longrightarrow> occurs ms k \<le> 1 \<Longrightarrow>
     json_member J (rep (JObj ms)) k = Inr (map_option rep (map_of ms k))"
  using occurs_1_member [of J rep ms k] occurs_0_member [of J rep ms k] occurs_pos [of ms k]
  by (cases "occurs ms k") (auto simp: map_of_eq_None_iff [symmetric])

lemma occurs_map_of: "occurs ms k = 0 \<longleftrightarrow> map_of ms k = None"
  using occurs_pos [of ms k] by (auto simp: map_of_eq_None_iff)


subsection \<open>The code implements the reading\<close>

lemma plain_member: "json_plain (JObj ms) \<Longrightarrow> map_of ms k = Some j \<Longrightarrow> json_plain j"
  by (auto dest!: map_of_SomeD)

lemma json_u64_ok:
  assumes "json_faithful J rep" "json_strict J rep" "json_plain j"
  shows "ok_opt (json_u64 J (rep j)) =
     (case j of JInt i \<Rightarrow> if 0 \<le> i \<and> i < 2 ^ 64 then Some (word_of_int i) else None | _ \<Rightarrow> None)"
proof (cases "json_u64 J (rep j)")
  case (Inl e)
  with assms(1) show ?thesis by (auto simp: json_faithful_simps split: json.split)
next
  case (Inr n)
  with assms(2,3) have "j = JInt (uint n)" by (simp add: json_strict_def)
  with Inr show ?thesis using uint_range_size [of n] by (simp add: word_size)
qed

lemma json_i32_ok:
  assumes "json_faithful J rep" "json_strict J rep" "json_plain j"
  shows "ok_opt (json_i32 J (rep j)) =
     (case j of JInt i \<Rightarrow> if - (2 ^ 31) \<le> i \<and> i < 2 ^ 31 then Some (word_of_int i) else None
      | _ \<Rightarrow> None)"
proof (cases "json_i32 J (rep j)")
  case (Inl e)
  with assms(1) show ?thesis by (auto simp: json_faithful_simps split: json.split)
next
  case (Inr n)
  with assms(2,3) have "j = JInt (sint n)" by (simp add: json_strict_def)
  with Inr show ?thesis using sint_range_size [of n] by (simp add: word_size)
qed

lemma json_str_ok:
  assumes "json_faithful J rep" "json_strict J rep" "json_plain j"
  shows "ok_opt (json_string J (rep j)) = (case j of JStr s \<Rightarrow> Some s | _ \<Rightarrow> None)"
    and "ok_opt (json_unquoted J (rep j)) = (case j of JStr s \<Rightarrow> Some s | _ \<Rightarrow> None)"
proof -
  show "ok_opt (json_string J (rep j)) = (case j of JStr s \<Rightarrow> Some s | _ \<Rightarrow> None)"
  proof (cases "json_string J (rep j)")
    case (Inl e)
    with assms(1) show ?thesis by (auto simp: json_faithful_simps split: json.split)
  next
    case (Inr s)
    with assms(2,3) have "j = JStr s" by (simp add: json_strict_def)
    with Inr show ?thesis by simp
  qed
  show "ok_opt (json_unquoted J (rep j)) = (case j of JStr s \<Rightarrow> Some s | _ \<Rightarrow> None)"
  proof (cases "json_unquoted J (rep j)")
    case (Inl e)
    with assms(1) show ?thesis by (auto simp: json_faithful_simps split: json.split)
  next
    case (Inr s)
    with assms(2,3) have "j = JStr s" by (simp add: json_strict_def)
    with Inr show ?thesis by simp
  qed
qed

lemma json_kind_rep:
  "json_faithful J rep \<Longrightarrow> json_plain j \<Longrightarrow> json_kind J (rep j) = tree_kind j"
  unfolding json_faithful_def by (cases j) simp_all

lemma error_member_ok:
  assumes "json_faithful J rep" "occurs es name \<le> 1"
  shows "error_member J tid (rep (JObj es)) name conv =
     ok_or (RpcProtocolViolation tid) (do { j \<leftarrow> map_of es name; ok_opt (conv (rep j)) })"
proof (cases "map_of es name")
  case None
  with assms show ?thesis by (simp add: error_member_def occurs_le_1_member)
next
  case (Some j)
  with assms show ?thesis
    by (cases "conv (rep j)") (simp_all add: error_member_def occurs_le_1_member)
qed

lemma parse_error_object_ok:
  fixes J :: "('v, 'x) nojson"
  assumes J: "json_faithful J rep" "json_strict J rep" and es: "json_plain (JObj es)"
  shows "(parse_error_object J tid (rep (JObj es)) :: ('x, 'e) sora_error + _) =
     ok_or (RpcProtocolViolation tid)
       (map_option (\<lambda>(code, message, data). (code, message, map_option (json_text J \<circ> rep) data))
          (error_object es))"
proof -
  let ?c0 = "\<lparr>seen_code = False, seen_message = False, seen_data = False\<rparr>"
  let ?scan = "scan_error_members J tid (map (\<lambda>(k, j). (rep (JStr k), rep j)) es) ?c0
    :: ('x, 'e) sora_error + error_members"
  note obj = json_faithful_simps [OF J(1)]
  have "(\<exists>c'. ?scan = Inr c') \<longleftrightarrow>
      of_bool (seen_code ?c0) + occurs es ''code'' \<le> 1 \<and>
      of_bool (seen_message ?c0) + occurs es ''message'' \<le> 1 \<and>
      of_bool (seen_data ?c0) + occurs es ''data'' \<le> 1"
    by (rule scan_error_members_rep [OF J(1)])
  then have scan: "(\<exists>c'. ?scan = Inr c') \<longleftrightarrow>
      occurs es ''code'' \<le> 1 \<and> occurs es ''message'' \<le> 1 \<and> occurs es ''data'' \<le> 1" by simp
  show ?thesis
  proof (cases ?scan)
    case (Inl e)
    then have "e = RpcProtocolViolation tid" by (rule scan_error_members_Inl [OF J(1)])
    moreover from Inl have "\<not> (occurs es ''code'' \<le> 1 \<and> occurs es ''message'' \<le> 1 \<and>
        occurs es ''data'' \<le> 1)"
      using scan by auto
    then have "error_object es = None" by (auto simp: error_object_def)
    ultimately show ?thesis using Inl by (simp add: parse_error_object_def obj)
  next
    case (Inr c)
    then have n: "occurs es ''code'' \<le> 1" "occurs es ''message'' \<le> 1" "occurs es ''data'' \<le> 1"
      using scan by auto
    have parse: "(parse_error_object J tid (rep (JObj es)) :: ('x, 'e) sora_error + _) =
      bindE (ok_or (RpcProtocolViolation tid)
          (do { j \<leftarrow> map_of es ''code''; ok_opt (json_i32 J (rep j)) })) (\<lambda>code.
      bindE (ok_or (RpcProtocolViolation tid)
          (do { j \<leftarrow> map_of es ''message''; ok_opt (json_string J (rep j)) })) (\<lambda>message.
      Inr (code, message, map_option (json_text J) (map_option rep (map_of es ''data'')))))"
      using Inr n by (simp add: parse_error_object_def obj error_member_ok [OF J(1)]
          occurs_le_1_member [OF J(1)])
    show ?thesis
    proof (cases "map_of es ''code''")
      case None
      then have "error_object es = None" using occurs_map_of [of es "''code''"]
        by (simp add: error_object_def)
      with None parse show ?thesis by simp
    next
      case code: (Some cj)
      with n(1) occurs_map_of [of es "''code''"] have c1: "occurs es ''code'' = 1"
        by (cases "occurs es ''code''") simp_all
      show ?thesis
      proof (cases "map_of es ''message''")
        case None
        then have "error_object es = None" using occurs_map_of [of es "''message''"]
          by (simp add: error_object_def)
        with None code parse show ?thesis by (simp add: bindE_def ok_or_def split: sum.split option.split)
      next
        case message: (Some mj)
        with n(2) occurs_map_of [of es "''message''"] have m1: "occurs es ''message'' = 1"
          by (cases "occurs es ''message''") simp_all
        note plain = plain_member [OF es code] plain_member [OF es message]
        show ?thesis
          using code message c1 m1 n(3)
          by (simp add: parse json_i32_ok [OF J plain(1)] json_str_ok [OF J plain(2)]
              error_object_def option.map_comp split: json.split)
      qed
    qed
  qed
qed

lemma response_id_ok:
  assumes J: "json_faithful J rep" "json_strict J rep" and ms: "json_plain (JObj ms)"
  shows "trusted_id_of J (rep (JObj ms)) (fold see_member (map fst ms) no_members) =
     Inr (response_id ms)"
proof (cases "occurs ms ''id'' \<le> 1")
  case False
  then show ?thesis by (simp add: trusted_id_of_def seen_counts response_id_def)
next
  case True
  note m = occurs_le_1_member [OF J(1) True]
  show ?thesis
  proof (cases "map_of ms ''id''")
    case None
    then show ?thesis using True occurs_map_of [of ms "''id''"]
      by (simp add: trusted_id_of_def seen_counts response_id_def m)
  next
    case (Some j)
    with True occurs_map_of [of ms "''id''"] have "occurs ms ''id'' = 1"
      by (cases "occurs ms ''id''") simp_all
    with Some plain_member [OF ms Some] show ?thesis
      by (simp add: trusted_id_of_def seen_counts response_id_def m json_kind_rep [OF J(1)]
          json_u64_ok [OF J] split: json.split)
  qed
qed


lemma error_response_ok:
  fixes J :: "('v, 'x) nojson"
  assumes J: "json_faithful J rep" "json_strict J rep" and j: "json_plain j"
  shows "bindE (parse_error_object J tid (rep j))
       (\<lambda>(code, message, data). Inr (tid, RpcError code message data)) =
     (ok_or (RpcProtocolViolation tid)
       (case j of
          JObj es \<Rightarrow>
            map_option (\<lambda>(code, message, data).
                (tid, RpcError code message (map_option (json_text J \<circ> rep) data)))
              (error_object es)
        | _ \<Rightarrow> None) :: ('x, 'e) sora_error + _)"
proof (cases "\<exists>es. j = JObj es")
  case True
  then obtain es where es: "j = JObj es" by blast
  with J j show ?thesis
    by (cases "error_object es") (auto simp: parse_error_object_ok)
next
  case False
  then have "tree_kind j \<noteq> KindObject" by (cases j) simp_all
  with False J j show ?thesis
    by (cases j) (simp_all add: parse_error_object_def json_kind_rep)
qed

text \<open>
  Property C22. Reading a response is the JSON-RPC 2.0 reading: on every JSON object,
  \<^verbatim>\<open>RpcResponse::parse\<close> never panics and answers exactly the response the specification
  reads there, under the identifier when it is a single integer of 64 bits; everything else is a
  protocol violation under that identifier, and a text that is no object a violation without one.
\<close>

theorem rpc_parse_spec:
  fixes J :: "('v, 'x) nojson"
  assumes "json_faithful J rep" and "json_strict J rep"
    and "json_plain j" and "json_parse J text = Inr (rep j)"
  shows "rpc_parse J text =
     Some (case j of
       JObj ms \<Rightarrow>
         (ok_or (RpcProtocolViolation (response_id ms))
            (map_option (Pair (response_id ms)) (response_of (json_text J \<circ> rep) ms))
            :: ('x, 'e) sora_error + _)
     | _ \<Rightarrow> Inl (RpcProtocolViolation None))"
proof (cases "\<exists>ms. j = JObj ms")
  case False
  then have "tree_kind j \<noteq> KindObject" by (cases j) simp_all
  with False assms show ?thesis by (cases j) (simp_all add: rpc_parse_def json_kind_rep)
next
  case True
  then obtain ms where j: "j = JObj ms" by blast
  note J = assms(1,2) and ms = assms(3) [unfolded j]
  let ?c = "fold see_member (map fst ms) no_members"
  have scan: "bindE (json_object J (rep (JObj ms))) (\<lambda>ms. scan_members J ms no_members) = Inr ?c"
    by (simp add: json_faithful_simps [OF J(1)] scan_members_rep [OF J(1)])
  have ok: "occurs ms ''jsonrpc'' \<le> 1 \<Longrightarrow> jsonrpc_ok J (rep (JObj ms)) =
      Inr (map_of ms ''jsonrpc'' = Some (JStr ''2.0''))"
    by (cases "map_of ms ''jsonrpc''")
      (auto simp: jsonrpc_ok_def occurs_le_1_member [OF J(1)] json_str_ok [OF J plain_member [OF ms]]
        split: json.split)
  note parse = rpc_parse_def assms(4) j scan json_kind_rep [OF J(1) ms] seen_counts
    response_id_ok [OF J ms]
  show ?thesis
  proof (cases "occurs ms ''jsonrpc'' = 1 \<and> map_of ms ''jsonrpc'' = Some (JStr ''2.0'') \<and>
      occurs ms ''result'' + occurs ms ''error'' = 1")
    case False
    then have "response_of (json_text J \<circ> rep) ms = None" by (auto simp: response_of_def)
    moreover from False ok have "rpc_parse J text =
        (Some (Inl (RpcProtocolViolation (response_id ms))) :: (('x, 'e) sora_error + _) option)"
      using occurs_map_of [of ms "''jsonrpc''"] by (auto simp: parse)
    ultimately show ?thesis by (simp add: j)
  next
    case True
    show ?thesis
    proof (cases "map_of ms ''result''")
      case (Some r)
      with occurs_map_of [of ms "''result''"] have "occurs ms ''result'' \<noteq> 0" by simp
      with True have n: "occurs ms ''result'' = 1" "occurs ms ''error'' = 0" by auto
      with Some True ok occurs_1_member [OF J(1) n(1)] show ?thesis
        by (simp add: parse response_of_def)
    next
      case None
      with True occurs_map_of [of ms "''result''"] have n: "occurs ms ''result'' = 0"
        "occurs ms ''error'' = 1" by simp_all
      then obtain e where e: "map_of ms ''error'' = Some e"
        using occurs_map_of [of ms "''error''"] by (cases "map_of ms ''error''") simp_all
      have "rpc_parse J text = Some (bindE (parse_error_object J (response_id ms) (rep e))
          (\<lambda>(code, message, data). Inr (response_id ms, RpcError code message data) ::
             ('x, 'e) sora_error + _))"
        using True n e ok occurs_1_member [OF J(1) n(2)] by (simp add: parse)
      also note error_response_ok [OF J plain_member [OF ms e]]
      finally show ?thesis
        using None True n e
        by (simp add: j response_of_def option.map_comp comp_def case_prod_unfold split: json.split)
    qed
  qed
qed


definition example_response :: json where
  "example_response = JObj
     [(''jsonrpc'', JStr ''2.0''), (''id'', JInt 7), (''error'', JObj
        [(''code'', JInt (-32601)), (''message'', JStr ''Method not found'')])]"

theorem rpc_parse_spec_witness:
  "rpc_parse (tree_nojson example_response) ''text'' =
     (Some (Inr (Some 7, RpcError (- 32601) ''Method not found'' None)) ::
       ((unit, unit) sora_error + _) option)"
proof -
  have "json_plain example_response" by (simp add: example_response_def)
  from rpc_parse_spec [OF tree_nojson_faithful tree_nojson_strict this, of example_response "''text''"] show ?thesis
    by (simp add: example_response_def response_id_def response_of_def error_object_def occurs_def)
qed

lemma example_response_parsed:
  "rpc_parse (tree_nojson example_response) ''text'' =
     (Some (Inr (Some 7, RpcError (- 32601) ''Method not found'' None)) ::
       ((unit, unit) sora_error + _) option)"
  by (simp add: rpc_parse_def example_response_def tree_nojson_def no_members_def unseen_def see_member_def
      see_def trusted_id_of_def jsonrpc_ok_def parse_error_object_def error_member_def ok_opt_def)

text \<open>
  Fact. A request is a JSON-RPC 2.0 request with the method and parameters as given
  and, unless it is a notification, an identifier one above the last; a response that
  carries the identifier of the request is read under it.
\<close>

theorem build_rpc_message_spec:
  assumes "build_rpc_message n method params notification = Some (message, rid, n')"
  shows "json_distinct message"
    and "json_field message ''jsonrpc'' = Some (JStr ''2.0'')"
    and "json_field message ''method'' = Some (JStr method)"
    and "json_field message ''params'' = map_option JRaw params"
    and "json_field message ''id'' = map_option (JInt \<circ> uint) rid"
    and "if notification then rid = None \<and> n' = n else rid = Some n' \<and> unat n' = unat n + 1"
    and "occurs ms ''id'' = 1 \<Longrightarrow> map_of ms ''id'' = json_field message ''id'' \<Longrightarrow>
      response_id ms = rid"
proof -
  from assms obtain rn where
    rn: "(if notification then Some (None, n)
          else do { k \<leftarrow> checked_add n 1; Some (Some k, k) }) = Some rn"
    and m: "message = JObj ((''jsonrpc'', JStr ''2.0'') # (''method'', JStr method) #
        opt_member ''params'' JRaw params @ opt_member ''id'' (\<lambda>k. JInt (uint k)) (fst rn))"
    and ids: "rid = fst rn" "n' = snd rn"
    unfolding build_rpc_message_def bind_eq_Some_conv by (auto split: prod.splits)
  have keys: "keys_sub ((''jsonrpc'', JStr ''2.0'') # (''method'', JStr method) #
      opt_member ''params'' JRaw params @ opt_member ''id'' (\<lambda>k. JInt (uint k)) rid)
      [''jsonrpc'', ''method'', ''params'', ''id'']"
    by (intro keys_sub_intros)
  show "json_distinct message"
    unfolding m ids(1) [symmetric] by (rule members_distinct [OF keys]) (simp_all add: ball_Un)
  show "json_field message ''jsonrpc'' = Some (JStr ''2.0'')"
    "json_field message ''method'' = Some (JStr method)"
    "json_field message ''params'' = map_option JRaw params"
    by (simp_all add: m del: map_of_append)
  show field: "json_field message ''id'' = map_option (JInt \<circ> uint) rid"
    by (simp add: m ids comp_def del: map_of_append)
  show "if notification then rid = None \<and> n' = n else rid = Some n' \<and> unat n' = unat n + 1"
    using rn ids unat_checked_add [of n 1 n'] by (auto simp: bind_eq_Some_conv)
  show "response_id ms = rid" if "occurs ms ''id'' = 1" "map_of ms ''id'' = json_field message ''id''"
  proof (cases rid)
    case None
    with that field occurs_map_of [of ms "''id''"] show ?thesis by simp
  next
    case (Some k)
    have "uint k < 2 ^ 64" using uint_range_size [of k] by (simp add: word_size)
    with Some that field show ?thesis by (simp add: response_id_def)
  qed
qed

theorem build_rpc_message_spec_witness:
  "response_id [(''result'', JNull), (''id'', JInt 1)] = Some 1"
proof -
  have "build_rpc_message 0 ''Chat.Send'' None False =
      Some (JObj [(''jsonrpc'', JStr ''2.0''), (''method'', JStr ''Chat.Send''), (''id'', JInt 1)],
        Some 1, 1)"
    by (simp add: build_rpc_message_def checked_add_def opt_member_def)
  from build_rpc_message_spec(7) [OF this] show ?thesis by (simp add: occurs_def)
qed

end
