(* ===== verification/Conn_State.thy ===== *)
theory Conn_State
  imports Data_Channels Transport Negotiation Rpc
begin

text \<open>
  The state of a running connection, from \<^verbatim>\<open>src/connection.rs\<close>: the fields of \<^verbatim>\<open>SoraConnection\<close> that change
  and the variables of \<^verbatim>\<open>run\<close>, with what leaves the connection (calls of the event handler,
  answers to commands, statistics that were asked for, timers that were started). The state of the
  world is the field \<open>ss_world\<close> of the session it extends.
\<close>

subsection \<open>Events, commands and reasons\<close>

datatype disconnect_reason =
    ClientDisconnect
  | ServerClose u16 string
  | SignalingError string
  | WebSocketClosed "u16 option" string
  | DataChannelClosed string
  | PeerConnectionFailed

text \<open>\<^verbatim>\<open>SoraEvent\<close>; a transceiver comes with whether its receiver has a video track.\<close>

datatype 'c sora_event =
    TrackEvent nat bool
  | RemoveTrackEvent nat
  | SignalingChangeEvent nat
  | ConnectionChangeEvent peer_connection_state
  | DisconnectedTimeoutEvent u64
  | IceConnectionChangeEvent nat
  | IceGatheringChangeEvent nat
  | SignalingMessageEvent string
  | DataChannelMessageEvent string bytes
  | DataChannelRegisterEvent 'c
  | DataChannelStateChangeEvent string
  | SendWebSocketMessageEvent string
  | SendDataChannelMessageEvent string string
  | RpcTimeoutEvent u64

text \<open>\<^verbatim>\<open>SoraConnectionCommand\<close>; the number is the channel the answer goes to.\<close>

datatype conn_command =
    DisconnectCommand nat
  | GetStatsCommand nat
  | GetSelectedSignalingUrlCommand nat
  | GetConnectedSignalingUrlCommand nat
  | SendRpcRequestCommand string "json_string option" bool nat
  | SendMessageCommand string bytes nat

fun command_channel :: "conn_command \<Rightarrow> nat" where
  "command_channel (DisconnectCommand r) = r"
| "command_channel (GetStatsCommand r) = r"
| "command_channel (GetSelectedSignalingUrlCommand r) = r"
| "command_channel (GetConnectedSignalingUrlCommand r) = r"
| "command_channel (SendRpcRequestCommand method params notification r) = r"
| "command_channel (SendMessageCommand label data r) = r"

datatype ('x, 'e) command_answer =
    DisconnectAnswer
  | StatsAnswer "('x, 'e) sora_error + json_string"
  | UrlAnswer "string option"
  | RpcAnswer "('x, 'e) sora_error + rpc_response option"
  | MessageAnswer "('x, 'e) sora_error + unit"

text \<open>What the callback of \<^verbatim>\<open>get_stats\<close> is to do with the report.\<close>

datatype stats_request =
    StatsForCommand nat
  | StatsForPong
  | StatsForStats
  | StatsForChannelPong
  | StatsForChannelStats

record pending_rpc =
  pr_response :: "nat option"

subsection \<open>The state\<close>

record ('c, 'w, 'x, 'e) conn = "'w session" +
  cn_stream :: client_stream
  cn_timers :: timer_manager
  cn_channels :: "'c data_channels"
  cn_configs :: "data_channel_config list"
  cn_receiver_video_transform :: "nat option"
  cn_receiver_video_frame_transformer :: "nat option"
  cn_commands :: "conn_command list"
  cn_events :: "'c sora_event list"
  cn_pending :: "u64 \<rightharpoonup> pending_rpc"
  cn_rpc_id_counter :: u64
  cn_selected_url :: "string option"
  cn_connected_url :: "string option"
  cn_redirect_location :: "string option"
  cn_redirect :: bool
  cn_use_data_channel :: bool
  cn_websocket_closed :: bool
  cn_switched_received :: bool
  cn_ignore :: bool
  cn_opened :: "string list"
  cn_delay_start :: "nat option"
  cn_server_close_received :: bool
  cn_user_initiated :: bool
  cn_terminated :: bool
  cn_media_path :: media_path_monitor
  cn_close_frame :: "(u16 option \<times> string) option"
  cn_reason :: "disconnect_reason option"
  cn_callbacks :: "callback list"
  cn_answers :: "(nat \<times> ('x, 'e) command_answer) list"
  cn_stats :: "stats_request list"
  cn_grace_timers :: "u64 list"
  cn_rpc_timers :: "u64 list"

subsection \<open>What is outside of the crate, and the settings\<close>

record ('v, 'x, 'c, 'd, 'w, 'e, 'h, 'crt, 'k, 'q) conn_lib =
  cl_io :: "('w, 'e) io_lib"
  cl_channels :: "('c, 'w, 'e) channel_lib"
  cl_pc :: "('w, 'e) pc_lib"
  cl_json :: "('v, 'x) nojson"
  cl_zlib :: "('d, 'e) zlib_decoder"
  cl_connect :: "('w, 'h, 'crt, 'k, 'e) connect_lib"
  cl_tls :: "('crt, 'k, 'e) tls_lib"
  cl_http :: "('q, 'e) http_request_lib"
  cl_uri :: "'e uri_parser"
  cl_json_text :: "json \<Rightarrow> string"
  cl_utf8 :: "string \<Rightarrow> bytes"
  cl_from_utf8 :: "bytes \<Rightarrow> 'e + string"
  cl_unexpected_eof :: "'e \<Rightarrow> bool"
  cl_instant :: "'w \<Rightarrow> nat"
  cl_request_stats :: "'w \<Rightarrow> 'w"
  cl_receiver_transform :: "nat \<Rightarrow> nat \<Rightarrow> 'w \<Rightarrow> 'w"
  cl_ws_connect :: "string \<Rightarrow> string \<Rightarrow> string \<Rightarrow> 'w \<Rightarrow> ('e + unit) \<times> 'w"

text \<open>\<open>kc_connect\<close> holds the fields of the connect message; its \<^verbatim>\<open>redirect\<close> is the one of the state.\<close>

record conn_config =
  kc_session :: session_config
  kc_connect :: connect_message
  kc_proxy :: "parsed_proxy_info option"
  kc_tls :: tls_config
  kc_user_agent :: string

definition MAX_DECOMPRESSED_DATA_CHANNEL_MESSAGE_SIZE :: nat where
  "MAX_DECOMPRESSED_DATA_CHANNEL_MESSAGE_SIZE = 16 * 1024 * 1024"

definition WS_DISCONNECT_DELAY :: nat where
  "WS_DISCONNECT_DELAY = 10 * 1000"

definition SIGNALING_ERROR_CLOSE_CODE :: u16 where
  "SIGNALING_ERROR_CLOSE_CODE = 4490"

text \<open>\<^verbatim>\<open>CloseCode::NORMAL\<close>\<close>

definition CLOSE_NORMAL :: u16 where
  "CLOSE_NORMAL = 1000"

subsection \<open>Reasons\<close>

definition websocket_closed_without_close_frame :: disconnect_reason where
  "websocket_closed_without_close_frame = WebSocketClosed None []"

definition disconnect_reason_from_websocket_close :: "u16 option \<Rightarrow> string \<Rightarrow> disconnect_reason" where
  "disconnect_reason_from_websocket_close code reason =
     (if code = Some SIGNALING_ERROR_CLOSE_CODE then SignalingError reason
      else WebSocketClosed code reason)"

definition set_disconnect_reason ::
    "disconnect_reason \<Rightarrow> (('c, 'w, 'x, 'e) conn, ('x, 'e) sora_error, unit) exec" where
  "set_disconnect_reason value =
     modM (\<lambda>s. s\<lparr>cn_reason := or_else (cn_reason s) (Some value)\<rparr>)"

subsection \<open>What leaves the connection\<close>

definition callbackM :: "callback \<Rightarrow> (('c, 'w, 'x, 'e) conn, ('x, 'e) sora_error, unit) exec" where
  "callbackM cb = modM (\<lambda>s. s\<lparr>cn_callbacks := cn_callbacks s @ [cb]\<rparr>)"

definition answerM ::
    "nat \<Rightarrow> ('x, 'e) command_answer \<Rightarrow> (('c, 'w, 'x, 'e) conn, ('x, 'e) sora_error, unit) exec" where
  "answerM r answer = modM (\<lambda>s. s\<lparr>cn_answers := cn_answers s @ [(r, answer)]\<rparr>)"

definition sendEventM ::
    "'c sora_event \<Rightarrow> (('c, 'w, 'x, 'e) conn, ('x, 'e) sora_error, unit) exec" where
  "sendEventM ev = modM (\<lambda>s. s\<lparr>cn_events := cn_events s @ [ev]\<rparr>)"

text \<open>\<^verbatim>\<open>?\<close> on a result that is a value.\<close>

definition tryM :: "('s, 'r, 'r + 'a) exec \<Rightarrow> ('s, 'r, 'a) exec" where
  "tryM m = bindM m liftM"

text \<open>\<^verbatim>\<open>pc.get_stats\<close>; the report may come later (\<open>stats_done\<close>).\<close>

definition request_stats ::
    "('v, 'x, 'c, 'd, 'w, 'e, 'h, 'crt, 'k, 'q) conn_lib \<Rightarrow> stats_request \<Rightarrow>
       (('c, 'w, 'x, 'e) conn, ('x, 'e) sora_error, unit) exec" where
  "request_stats L request =
     seqM (worldM (\<lambda>w. ((), cl_request_stats L w)))
       (modM (\<lambda>s. s\<lparr>cn_stats := cn_stats s @ [request]\<rparr>))"

definition report_to_json_string ::
    "('v, 'x, 'c, 'd, 'w, 'e, 'h, 'crt, 'k, 'q) conn_lib \<Rightarrow> 'e + string \<Rightarrow>
       ('x, 'e) sora_error + json_string" where
  "report_to_json_string L report =
     bindE (map_err (NegotiationError \<circ> WebrtcError) report) (json_string_of_str (cl_json L))"

fun stats_done ::
    "('v, 'x, 'c, 'd, 'w, 'e, 'h, 'crt, 'k, 'q) conn_lib \<Rightarrow> stats_request \<Rightarrow> 'e + string \<Rightarrow>
       (('c, 'w, 'x, 'e) conn, ('x, 'e) sora_error, unit) exec" where
  "stats_done L (StatsForCommand r) report =
     answerM r (StatsAnswer (report_to_json_string L report))"
| "stats_done L StatsForPong report =
     sendEventM (SendWebSocketMessageEvent (cl_json_text L (outgoing_to_json
       (Pong (ok_opt (report_to_json_string L report :: ('x, 'e) sora_error + _))))))"
| "stats_done L StatsForStats report =
     (case report_to_json_string L report :: ('x, 'e) sora_error + _ of
        Inl err \<Rightarrow> retM ()
      | Inr reports \<Rightarrow>
          sendEventM (SendWebSocketMessageEvent (cl_json_text L (outgoing_to_json (Stats reports)))))"
| "stats_done L StatsForChannelPong report =
     sendEventM (SendDataChannelMessageEvent ''signaling'' (cl_json_text L (outgoing_to_json
       (Pong (ok_opt (report_to_json_string L report :: ('x, 'e) sora_error + _))))))"
| "stats_done L StatsForChannelStats report =
     (case report_to_json_string L report :: ('x, 'e) sora_error + _ of
        Inl err \<Rightarrow> retM ()
      | Inr reports \<Rightarrow>
          sendEventM (SendDataChannelMessageEvent ''stats''
            (cl_json_text L (outgoing_to_json (Stats reports)))))"

subsection \<open>Sending\<close>

text \<open>These yield their result as a value, because some callers only log an error.\<close>

definition send_websocket_message ::
    "('v, 'x, 'c, 'd, 'w, 'e, 'h, 'crt, 'k, 'q) conn_lib \<Rightarrow> string \<Rightarrow>
       (('c, 'w, 'x, 'e) conn, ('x, 'e) sora_error, ('x, 'e) sora_error + unit) exec" where
  "send_websocket_message L message =
     bindM (worldM (ws_send_text (cl_io L) message)) (\<lambda>r.
     retM (map_err (TransportError \<circ> Websocket) r))"

definition send_on_channel ::
    "('v, 'x, 'c, 'd, 'w, 'e, 'h, 'crt, 'k, 'q) conn_lib \<Rightarrow> string \<Rightarrow> bytes \<Rightarrow>
       (('c, 'w, 'x, 'e) conn, ('x, 'e) sora_error, ('x, 'e) sora_error + unit) exec" where
  "send_on_channel L label data =
     bindM (getM cn_channels) (\<lambda>channels.
     worldM (send_data_channel_message (cl_channels L) channels label data))"

definition send_message_for_signaling ::
    "('v, 'x, 'c, 'd, 'w, 'e, 'h, 'crt, 'k, 'q) conn_lib \<Rightarrow> string \<Rightarrow>
       (('c, 'w, 'x, 'e) conn, ('x, 'e) sora_error, ('x, 'e) sora_error + unit) exec" where
  "send_message_for_signaling L message =
     ifM cn_use_data_channel
       (seqM (callbackM (OnSignalingMessage DataChannelSignaling Sent message))
          (send_on_channel L ''signaling'' (cl_utf8 L message)))
       (ifM (\<lambda>s. ws_state_of (cl_io L) (ss_world s) = WsConnected)
          (seqM (callbackM (OnSignalingMessage WebSocketSignaling Sent message))
             (send_websocket_message L message))
          (retM (Inr ())))"

text \<open>Reading from the stream, without and with a time limit (\<open>None\<close> when it is met).\<close>

definition readM ::
    "('v, 'x, 'c, 'd, 'w, 'e, 'h, 'crt, 'k, 'q) conn_lib \<Rightarrow>
       (('c, 'w, 'x, 'e) conn, ('x, 'e) sora_error, 'e + bytes) exec" where
  "readM L = (\<lambda>s.
     case stream_read (cl_io L) 8192 (cn_stream s) (ss_world s) of
       (r, stream, w) \<Rightarrow> Some (Inr (r, s\<lparr>cn_stream := stream, ss_world := w\<rparr>)))"

definition readUntilM ::
    "('v, 'x, 'c, 'd, 'w, 'e, 'h, 'crt, 'k, 'q) conn_lib \<Rightarrow>
       (('c, 'w, 'x, 'e) conn, ('x, 'e) sora_error, ('e + bytes) option) exec" where
  "readUntilM L = (\<lambda>s.
     case stream_read_until (cl_io L) 8192 (cn_stream s) (ss_world s) of
       (r, stream, w) \<Rightarrow> Some (Inr (r, s\<lparr>cn_stream := stream, ss_world := w\<rparr>)))"

text \<open>\<^verbatim>\<open>flush_ws_output\<close>; \<open>Inr True\<close> when the WebSocket wants the connection closed.\<close>

definition flushM ::
    "('v, 'x, 'c, 'd, 'w, 'e, 'h, 'crt, 'k, 'q) conn_lib \<Rightarrow>
       (('c, 'w, 'x, 'e) conn, ('x, 'e) sora_error, ('x, 'e) sora_error + bool) exec" where
  "flushM L = (\<lambda>s.
     map_option (\<lambda>(r, tm, w). Inr (r, s\<lparr>cn_timers := tm, ss_world := w\<rparr>))
       (flush_ws_output (cl_io L) (cn_timers s, ss_world s)))"

definition ws_connected :: "('v, 'x, 'c, 'd, 'w, 'e, 'h, 'crt, 'k, 'q) conn_lib \<Rightarrow>
    ('c, 'w, 'x, 'e) conn \<Rightarrow> bool" where
  "ws_connected L s \<longleftrightarrow> ws_state_of (cl_io L) (ss_world s) = WsConnected"

definition ws_closeM ::
    "('v, 'x, 'c, 'd, 'w, 'e, 'h, 'crt, 'k, 'q) conn_lib \<Rightarrow> string \<Rightarrow>
       (('c, 'w, 'x, 'e) conn, ('x, 'e) sora_error, ('x, 'e) sora_error + unit) exec" where
  "ws_closeM L reason =
     bindM (worldM (ws_close (cl_io L) CLOSE_NORMAL reason)) (\<lambda>r.
     retM (map_err (TransportError \<circ> Websocket) r))"

subsection \<open>Rules\<close>

lemma fails_basic [exec_rules]:
  "failsM R (flushM L)" "failsM R (readM L)" "failsM R (readUntilM L)"
  by (auto simp: failsM_def flushM_def readM_def readUntilM_def split: prod.splits)

lemma fails_leaving [exec_rules]:
  "failsM R (callbackM cb)" "failsM R (answerM r a)" "failsM R (sendEventM ev)"
  "failsM R (set_disconnect_reason v)" "failsM R (request_stats L q)"
  "failsM R (send_websocket_message L m)" "failsM R (send_on_channel L label data)"
  "failsM R (send_message_for_signaling L m)" "failsM R (ws_closeM L reason)"
  unfolding callbackM_def answerM_def sendEventM_def set_disconnect_reason_def request_stats_def
    send_websocket_message_def send_on_channel_def send_message_for_signaling_def ws_closeM_def
  by (intro exec_rules)+

lemma keeps_read [exec_rules]:
  assumes "\<And>s stream w. P s \<Longrightarrow> P (s\<lparr>cn_stream := stream, ss_world := w\<rparr>)"
  shows "keeps P (readM L)" and "keeps P (readUntilM L)"
  by (rule keepsI; clarsimp simp: readM_def readUntilM_def split: prod.splits; rule assms; assumption)+

lemma keeps_flush [exec_rules]:
  assumes "\<And>s tm w. P s \<Longrightarrow> P (s\<lparr>cn_timers := tm, ss_world := w\<rparr>)"
  shows "keeps P (flushM L)"
  by (rule keepsI; clarsimp simp: flushM_def; rule assms; assumption)

text \<open>What the operations on the world, the stream and the timers leave alone.\<close>

definition io_stable :: "(('c, 'w, 'x, 'e) conn \<Rightarrow> bool) \<Rightarrow> bool" where
  "io_stable P \<longleftrightarrow>
     (\<forall>s stream tm w. P s \<longrightarrow> P (s\<lparr>cn_stream := stream, cn_timers := tm, ss_world := w\<rparr>))"

lemma io_stable_update:
  assumes "io_stable P" and "P s"
  shows "P (s\<lparr>cn_stream := stream, ss_world := w\<rparr>)" and "P (s\<lparr>cn_timers := tm, ss_world := w\<rparr>)"
    and "P (s\<lparr>ss_world := w\<rparr>)" and "P (s\<lparr>cn_stream := stream\<rparr>)"
proof -
  have all: "P (s\<lparr>cn_stream := a, cn_timers := b, ss_world := c\<rparr>)" for a b c
    using assms unfolding io_stable_def by blast
  show "P (s\<lparr>cn_stream := stream, ss_world := w\<rparr>)" using all [where a = stream and b = "cn_timers s" and c = w] by simp
  show "P (s\<lparr>cn_timers := tm, ss_world := w\<rparr>)" using all [where a = "cn_stream s" and b = tm and c = w] by simp
  show "P (s\<lparr>ss_world := w\<rparr>)" using all [where a = "cn_stream s" and b = "cn_timers s" and c = w] by simp
  show "P (s\<lparr>cn_stream := stream\<rparr>)" using all [where a = stream and b = "cn_timers s" and c = "ss_world s"] by simp
qed

lemma keeps_io:
  assumes "io_stable P"
  shows "keeps P (worldM f)" "keeps P (readM L)" "keeps P (readUntilM L)" "keeps P (flushM L)"
    "keeps P (ws_closeM L reason)" "keeps P (send_websocket_message L m)"
    "keeps P (send_on_channel L label data)"
  unfolding ws_closeM_def send_websocket_message_def send_on_channel_def
  by (intro exec_rules worldM_rules keeps_read keeps_flush; erule io_stable_update [OF assms])+

subsection \<open>An example\<close>

text \<open>A world without data channels, where every text is the same JSON value.\<close>

definition example_lib ::
    "json \<Rightarrow> (json, unit, nat, bytes, nat, unit, nat, nat, nat, nat) conn_lib" where
  "example_lib parsed =
     \<lparr>cl_io = example_io,
      cl_channels = \<lparr>ch_label = (\<lambda>c. Some ''signaling''), ch_state = (\<lambda>w c. DcOpen),
        ch_send = (\<lambda>c data w. (True, w)), ch_compress = (\<lambda>data. Inr data)\<rparr>,
      cl_pc = example_pc, cl_json = tree_nojson parsed, cl_zlib = example_decoder,
      cl_connect = example_connect, cl_tls = example_tls, cl_http = example_http,
      cl_uri = (\<lambda>text. Inl ()), cl_json_text = (\<lambda>j. ''json''), cl_utf8 = (\<lambda>text. [0]),
      cl_from_utf8 = (\<lambda>data. Inr ''text''), cl_unexpected_eof = (\<lambda>err. False),
      cl_instant = (\<lambda>w. 0), cl_request_stats = (\<lambda>w. w), cl_receiver_transform = (\<lambda>r h w. w),
      cl_ws_connect = (\<lambda>host path agent w. (Inr (), w))\<rparr>"

definition example_conn :: "nat \<Rightarrow> (nat, nat, unit, unit) conn" where
  "example_conn w =
     \<lparr>ss_world = w, ss_sender_video_track = None, ss_sender_audio_track = None,
      ss_sender_video_transform = None, ss_offer_simulcast = False, ss_simulcast_encodings = [],
      ss_video_sender = None, ss_audio_sender = None, ss_sender_video_frame_transformer = None,
      cn_stream = stream_new_plain, cn_timers = timers_new, cn_channels = Map.empty, cn_configs = [],
      cn_receiver_video_transform = None, cn_receiver_video_frame_transformer = None,
      cn_commands = [], cn_events = [], cn_pending = Map.empty, cn_rpc_id_counter = 0,
      cn_selected_url = None, cn_connected_url = None, cn_redirect_location = None,
      cn_redirect = False, cn_use_data_channel = False, cn_websocket_closed = False,
      cn_switched_received = False, cn_ignore = False, cn_opened = [], cn_delay_start = None,
      cn_server_close_received = False, cn_user_initiated = False, cn_terminated = False,
      cn_media_path = monitor_new, cn_close_frame = None, cn_reason = None, cn_callbacks = [],
      cn_answers = [], cn_stats = [], cn_grace_timers = [], cn_rpc_timers = []\<rparr>"

definition example_connect_message :: connect_message where
  "example_connect_message =
     \<lparr>cm_channel_id = ''sora'', cm_role = SendRecv, cm_client_id = None, cm_bundle_id = None,
      cm_redirect = False, cm_sora_client = ''client'', cm_libwebrtc = ''libwebrtc'',
      cm_environment = ''env'', cm_metadata = None, cm_data_channel_signaling = None,
      cm_ignore_disconnect_websocket = None, cm_simulcast = None, cm_simulcast_request_rid = None,
      cm_spotlight = None, cm_spotlight_focus_rid = None, cm_spotlight_unfocus_rid = None,
      cm_signaling_notify_metadata = None, cm_data_channels = None, cm_forwarding_filters = None,
      cm_audio = None, cm_video = None\<rparr>"

definition example_settings :: conn_config where
  "example_settings =
     \<lparr>kc_session = example_config, kc_connect = example_connect_message, kc_proxy = None,
      kc_tls = \<lparr>tls_insecure = False, tls_client_cert = None, tls_client_key = None, tls_ca_cert = None\<rparr>,
      kc_user_agent = ''sora''\<rparr>"

end
