(* ===== verification/Close_Handshake.thy ===== *)
theory Close_Handshake
  imports Conn_State
begin

text \<open>
  The close handshake at the end of a connection (\<^verbatim>\<open>close_websocket_handshake\<close> of
  \<^verbatim>\<open>src/connection.rs\<close>). The time limit is looked at where the code waits for data: a read that meets it
  is \<open>None\<close> (\<open>io_read_until\<close>); a write that takes too long is seen at the next read.
\<close>

subsection \<open>The handshake\<close>

datatype ('x, 'e) handshake_end = HandshakeDone | HandshakeTimedOut | HandshakeFailed "('x, 'e) sora_error"

text \<open>\<^verbatim>\<open>while let Some(event) = ws.poll_event()\<close>\<close>

definition drain_one ::
    "('v, 'x, 'c, 'd, 'w, 'e, 'h, 'crt, 'k, 'q) conn_lib \<Rightarrow> bool \<Rightarrow>
       (('c, 'w, 'x, 'e) conn, ('x, 'e) sora_error, unit option) exec" where
  "drain_one L server_close_received =
     bindM (worldM (ws_poll_event (cl_io L))) (\<lambda>ev.
       case ev of
         None \<Rightarrow> retM (Some ())
       | Some (WsClose code reason) \<Rightarrow>
           seqM (whenM server_close_received (callbackM (OnWebsocketClose code reason))) (retM None)
       | Some _ \<Rightarrow> retM None)"

definition drain_closes ::
    "('v, 'x, 'c, 'd, 'w, 'e, 'h, 'crt, 'k, 'q) conn_lib \<Rightarrow> bool \<Rightarrow>
       (('c, 'w, 'x, 'e) conn, ('x, 'e) sora_error, unit) exec" where
  "drain_closes L server_close_received = loopM (drain_one L server_close_received)"

text \<open>Reading and processing what was read, after a flush.\<close>

definition handshake_feed ::
    "('v, 'x, 'c, 'd, 'w, 'e, 'h, 'crt, 'k, 'q) conn_lib \<Rightarrow> bool \<Rightarrow> bytes \<Rightarrow>
       (('c, 'w, 'x, 'e) conn, ('x, 'e) sora_error, ('x, 'e) handshake_end option) exec" where
  "handshake_feed L server_close_received data =
     bindM (getM (\<lambda>s. io_now (cl_io L) (ss_world s))) (\<lambda>now.
     case now of
       Inl err \<Rightarrow> retM (Some (HandshakeFailed (SetupError (InvalidSystemTime err))))
     | Inr now \<Rightarrow>
         bindM (worldM (ws_feed (cl_io L) data now)) (\<lambda>r.
         case r of
           Inl err \<Rightarrow> retM (Some (HandshakeFailed (TransportError (Websocket err))))
         | Inr _ \<Rightarrow>
             seqM (drain_closes L server_close_received)
             (bindM (getM (\<lambda>s. ws_state_of (cl_io L) (ss_world s))) (\<lambda>state.
              retM (if state = WsClosed then Some HandshakeDone else None)))))"

definition handshake_read ::
    "('v, 'x, 'c, 'd, 'w, 'e, 'h, 'crt, 'k, 'q) conn_lib \<Rightarrow> bool \<Rightarrow>
       (('c, 'w, 'x, 'e) conn, ('x, 'e) sora_error, ('x, 'e) handshake_end option) exec" where
  "handshake_read L server_close_received =
     bindM (readUntilM L) (\<lambda>read.
     case read of
       None \<Rightarrow> retM (Some HandshakeTimedOut)
     | Some (Inl err) \<Rightarrow> retM (Some (HandshakeFailed (TransportError (IoError err))))
     | Some (Inr data) \<Rightarrow>
         if data = [] then retM (Some HandshakeDone)
         else handshake_feed L server_close_received data)"

definition handshake_round ::
    "('v, 'x, 'c, 'd, 'w, 'e, 'h, 'crt, 'k, 'q) conn_lib \<Rightarrow> bool \<Rightarrow>
       (('c, 'w, 'x, 'e) conn, ('x, 'e) sora_error, ('x, 'e) handshake_end option) exec" where
  "handshake_round L server_close_received =
     bindM (flushM L) (\<lambda>r.
     case r of
       Inl err \<Rightarrow> retM (Some (HandshakeFailed err))
     | Inr True \<Rightarrow> retM (Some HandshakeDone)
     | Inr False \<Rightarrow> handshake_read L server_close_received)"

definition close_websocket_handshake ::
    "('v, 'x, 'c, 'd, 'w, 'e, 'h, 'crt, 'k, 'q) conn_lib \<Rightarrow> bool \<Rightarrow> bool \<Rightarrow>
       (('c, 'w, 'x, 'e) conn, ('x, 'e) sora_error, unit) exec" where
  "close_websocket_handshake L server_close_received absorb_close_handshake_errors =
     ifM (ws_connected L)
       (bindM (bindM (ws_closeM L ''shutdown'') (\<lambda>r.
          case r of
            Inl err \<Rightarrow> retM (HandshakeFailed err)
          | Inr _ \<Rightarrow> loopM (handshake_round L server_close_received))) (\<lambda>result.
        case result of
          HandshakeDone \<Rightarrow> retM ()
        | HandshakeTimedOut \<Rightarrow> retM ()
        | HandshakeFailed err \<Rightarrow>
            if server_close_received \<or> absorb_close_handshake_errors then retM () else failM err))
       (retM ())"

subsection \<open>Lemmas\<close>

text \<open>Only the events of the WebSocket that are a close matter here.\<close>

definition only_closes :: "callback list \<Rightarrow> bool" where
  "only_closes cbs \<longleftrightarrow> (\<forall>c \<in> set cbs. \<exists>code reason. c = OnWebsocketClose code reason)"

lemma drain_closes_fails [exec_rules]: "failsM R (drain_closes L sc)"
  unfolding drain_closes_def drain_one_def
  by (intro fails_loop exec_rules; auto split: ws_event.split intro!: exec_rules)

lemma handshake_loop_fails: "failsM R (loopM (handshake_round L sc))"
  unfolding handshake_round_def handshake_read_def handshake_feed_def
  by (intro fails_loop exec_rules; auto split: bool.split intro!: exec_rules)

lemma handshake_keeps:
  assumes "io_stable P"
    and "\<And>s code reason. sc \<Longrightarrow> P s \<Longrightarrow>
      P (s\<lparr>cn_callbacks := cn_callbacks s @ [OnWebsocketClose code reason]\<rparr>)"
  shows "keeps P (close_websocket_handshake L sc absorb)"
proof -
  note io = keeps_io [OF assms(1)]
  have drain: "keeps P (drain_closes L sc)"
    unfolding drain_closes_def drain_one_def callbackM_def
    by (intro keeps_loop exec_rules io; auto split: ws_event.split intro!: exec_rules assms)
  have feed: "keeps P (handshake_feed L sc data)" for data
    unfolding handshake_feed_def by (intro exec_rules io drain)
  have "keeps P (handshake_read L sc)"
    unfolding handshake_read_def by (intro exec_rules io feed)
  then have "keeps P (handshake_round L sc)"
    unfolding handshake_round_def by (intro exec_rules io; auto split: bool.split intro!: exec_rules)
  then show ?thesis
    unfolding close_websocket_handshake_def
    by (intro exec_rules io; auto split: handshake_end.split intro!: exec_rules)
qed

subsection \<open>What the handshake does\<close>

text \<open>
  Property C12. Closing does not spoil an end that is already decided: when the server closed or the caller
  asks for it, no error of the handshake reaches the caller; a WebSocket that is not connected is left
  alone; and the handler hears of a close frame only when the server closed, whatever else the
  socket delivers, and hears of nothing else.
\<close>

theorem close_handshake_spec:
  shows "(sc \<or> absorb \<longrightarrow> close_websocket_handshake L sc absorb s \<noteq> Some (Inl err)) \<and>
    (\<not> ws_connected L s \<longrightarrow> close_websocket_handshake L sc absorb s = Some (Inr ((), s))) \<and>
    (close_websocket_handshake L sc absorb s = Some (Inr ((), s')) \<longrightarrow>
      (\<exists>cbs. cn_callbacks s' = cn_callbacks s @ cbs \<and> only_closes cbs \<and> (\<not> sc \<longrightarrow> cbs = []) \<and>
        cn_reason s' = cn_reason s \<and> cn_opened s' = cn_opened s))"
proof (intro conjI impI)
  show "close_websocket_handshake L sc absorb s \<noteq> Some (Inl err)" if "sc \<or> absorb"
  proof -
    have "failsM (\<lambda>_. False) (close_websocket_handshake L sc absorb)"
      unfolding close_websocket_handshake_def
      by (intro exec_rules handshake_loop_fails; use that in \<open>auto split: handshake_end.split intro!: exec_rules\<close>)
    then show ?thesis by (auto simp: failsM_def)
  qed
  show "close_websocket_handshake L sc absorb s = Some (Inr ((), s))" if "\<not> ws_connected L s"
    using that by (simp add: close_websocket_handshake_def)
  assume run: "close_websocket_handshake L sc absorb s = Some (Inr ((), s'))"
  let ?P = "\<lambda>t. \<exists>cbs. cn_callbacks t = cn_callbacks s @ cbs \<and> only_closes cbs \<and> (\<not> sc \<longrightarrow> cbs = []) \<and>
        cn_reason t = cn_reason s \<and> cn_opened t = cn_opened s"
  have "keeps ?P (close_websocket_handshake L sc absorb)"
    by (rule handshake_keeps) (auto simp: io_stable_def only_closes_def)
  from keeps_result [OF this _ run] show "?P s'" by (simp add: only_closes_def)
qed

subsection \<open>The handshake ends\<close>

text \<open>
  What is asked of the world: \<open>time\<close> stands for the time that is left and for what the server may still
  send, \<open>outs\<close> and \<open>evs\<close> for the outputs and events the WebSocket has queued. Data that is read brings the
  end closer and nothing else delays it; polling takes from the queues, and sending an output queues no
  further one.
\<close>

definition winds_down ::
    "('w, 'e) io_lib \<Rightarrow> ('w \<Rightarrow> nat) \<Rightarrow> ('w \<Rightarrow> nat) \<Rightarrow> ('w \<Rightarrow> nat) \<Rightarrow> bool" where
  "winds_down N time outs evs \<longleftrightarrow>
     (\<forall>w data w'. io_read_until N 8192 w = (Some (Inr data), w') \<longrightarrow> data \<noteq> [] \<longrightarrow> time w' < time w) \<and>
     (\<forall>data now w. time (snd (ws_feed N data now w)) \<le> time w) \<and>
     (\<forall>w. time (snd (ws_poll_event N w)) \<le> time w) \<and>
     (\<forall>w. time (snd (ws_poll_output N w)) \<le> time w) \<and>
     (\<forall>buf w. time (snd (io_write N buf w)) \<le> time w \<and> outs (snd (io_write N buf w)) \<le> outs w) \<and>
     (\<forall>i d w. time (snd (io_spawn_timer N i d w)) \<le> time w \<and> outs (snd (io_spawn_timer N i d w)) \<le> outs w) \<and>
     (\<forall>h w. time (io_abort N h w) \<le> time w \<and> outs (io_abort N h w) \<le> outs w) \<and>
     (\<forall>w out w'. ws_poll_output N w = (Some out, w') \<longrightarrow> outs w' < outs w) \<and>
     (\<forall>w ev w'. ws_poll_event N w = (Some ev, w') \<longrightarrow> evs w' < evs w)"

lemma winds_down_read:
  "winds_down N time outs evs \<Longrightarrow> io_read_until N 8192 w = (Some (Inr data), w') \<Longrightarrow> data \<noteq> [] \<Longrightarrow>
     time w' < time w"
  by (simp add: winds_down_def)

lemma winds_down_feed:
  "winds_down N time outs evs \<Longrightarrow> ws_feed N data now w = (a, w') \<Longrightarrow> time w' \<le> time w"
  unfolding winds_down_def by (metis snd_conv)

lemma winds_down_timers:
  assumes "winds_down N time outs evs"
  shows "time (snd (clear_timer N i s)) \<le> time (snd s)" "outs (snd (clear_timer N i s)) \<le> outs (snd s)"
    and "time (snd (set_timer N i d s)) \<le> time (snd s)" "outs (snd (set_timer N i d s)) \<le> outs (snd s)"
proof -
  have clear: "time (snd (clear_timer N i s)) \<le> time (snd s) \<and> outs (snd (clear_timer N i s)) \<le> outs (snd s)"
    using assms by (auto simp: winds_down_def clear_timer_def split: option.split)
  then show "time (snd (clear_timer N i s)) \<le> time (snd s)"
    "outs (snd (clear_timer N i s)) \<le> outs (snd s)" by simp_all
  obtain tm w where c: "clear_timer N i s = (tm, w)" by fastforce
  have spawn: "time (snd (io_spawn_timer N i d w)) \<le> time w \<and> outs (snd (io_spawn_timer N i d w)) \<le> outs w"
    using assms unfolding winds_down_def by blast
  have "snd (set_timer N i d s) = snd (io_spawn_timer N i d w)"
    by (simp add: set_timer_def c split: prod.split)
  with clear spawn c show "time (snd (set_timer N i d s)) \<le> time (snd s)"
    "outs (snd (set_timer N i d s)) \<le> outs (snd s)" by simp_all
qed

lemma flush_round_winds_down:
  assumes laws: "winds_down N time outs evs"
  shows "flush_round N s = Inl s' \<Longrightarrow> time (snd s') \<le> time (snd s) \<and> outs (snd s') < outs (snd s)"
    and "flush_round N s = Inr (r, s') \<Longrightarrow> time (snd s') \<le> time (snd s)"
proof -
  obtain tm w where s: "s = (tm, w)" by fastforce
  obtain out w1 where poll: "ws_poll_output N w = (out, w1)" by fastforce
  have time1: "time w1 \<le> time w" and outs1: "out \<noteq> None \<Longrightarrow> outs w1 < outs w"
    using laws poll unfolding winds_down_def by (metis snd_conv, metis option.exhaust)
  have wr: "time w2 \<le> time w1 \<and> outs w2 \<le> outs w1" if "io_write N buf w1 = (x, w2)" for buf x w2
    using laws that unfolding winds_down_def by (metis snd_conv)
  note clear = winds_down_timers(1,2) [OF laws, where s = "(tm, w1)", unfolded snd_conv]
    and set = winds_down_timers(3,4) [OF laws, where s = "(tm, w1)", unfolded snd_conv]
  note down = order_trans [OF clear(1) time1] order_trans [OF set(1) time1]
    le_less_trans [OF clear(2)] le_less_trans [OF set(2)]
  show "flush_round N s = Inl s' \<Longrightarrow> time (snd s') \<le> time (snd s) \<and> outs (snd s') < outs (snd s)"
    using time1 outs1
    by (auto simp: flush_round_def s poll split: option.splits ws_output.splits prod.splits sum.splits
        dest: wr intro: down)
  show "flush_round N s = Inr (r, s') \<Longrightarrow> time (snd s') \<le> time (snd s)"
    using time1
    by (auto simp: flush_round_def s poll split: option.splits ws_output.splits prod.splits sum.splits
        dest: wr)
qed

lemma flush_winds_down:
  fixes N :: "('w, 'e) io_lib"
  assumes "winds_down N time outs evs"
  shows "\<exists>r s'. flush_ws_output N s = Some (r :: ('x, 'e) sora_error + bool, s') \<and>
    time (snd s') \<le> time (snd s)"
proof (induction "outs (snd s)" arbitrary: s rule: less_induct)
  case less
  show ?case
  proof (cases "flush_round N s :: _ + (('x, 'e) sora_error + bool) \<times> _")
    case (Inl s1)
    with flush_round_winds_down(1) [OF assms] have "time (snd s1) \<le> time (snd s)" "outs (snd s1) < outs (snd s)"
      by blast+
    with less [of s1] Inl show ?thesis by (subst flush_ws_output.simps) (auto intro: order_trans)
  next
    case (Inr res)
    with flush_round_winds_down(2) [OF assms, of s "fst res" "snd res"] show ?thesis
      by (subst flush_ws_output.simps) (cases res, simp)
  qed
qed

lemma drain_winds_down:
  assumes laws: "winds_down (cl_io L) time outs evs"
  shows "totalM (drain_closes L sc)" and "keeps (\<lambda>s. time (ss_world s) \<le> n) (drain_closes L sc)"
proof -
  have ev: "evs w1 < evs w" if "ws_poll_event (cl_io L) w = (Some e, w1)" for w e w1
    using laws that unfolding winds_down_def by blast
  have "loopM (drain_one L sc) s \<noteq> None" for s
    by (rule loopM_returns [where P = "\<lambda>_. True" and mu = "\<lambda>s. evs (ss_world s)"])
      (auto simp: drain_one_def bindM_def seqM_def worldM_def callbackM_def whenM_def dest!: ev
        split: prod.split option.splits sum.splits ws_event.splits prod.splits if_splits)
  then show "totalM (drain_closes L sc)" by (auto simp: totalM_def drain_closes_def)
  have poll: "time w' \<le> time w" if "ws_poll_event (cl_io L) w = (a, w')" for a w w'
    using laws that unfolding winds_down_def by (metis snd_conv)
  show "keeps (\<lambda>s. time (ss_world s) \<le> n) (drain_closes L sc)"
    unfolding drain_closes_def drain_one_def callbackM_def
    by (intro exec_rules; auto split: ws_event.split intro!: exec_rules dest!: poll)
qed

definition time_left :: "('w \<Rightarrow> nat) \<Rightarrow> ('c, 'w, 'x, 'e) conn \<Rightarrow> nat" where
  "time_left time s = time (ss_world s) + length (cs_pending (cn_stream s))"

lemma readUntil_winds_down:
  assumes laws: "winds_down (cl_io L) time outs evs"
    and "readUntilM L s = Some (Inr (Some (Inr data), s'))" and "data \<noteq> []"
  shows "time_left time s' < time_left time s"
  using assms(2,3) winds_down_read [OF laws _ assms(3)]
  by (auto simp: readUntilM_def stream_read_until_def Let_def time_left_def split: prod.splits if_splits)

lemma handshake_feed_winds_down:
  assumes laws: "winds_down (cl_io L) time outs evs"
  shows "totalM (handshake_feed L sc data)"
    and "handshake_feed L sc data s = Some (Inr (r, s')) \<Longrightarrow> time_left time s' \<le> time_left time s"
proof -
  note drain = drain_winds_down [OF laws]
  show "totalM (handshake_feed L sc data)"
    unfolding handshake_feed_def by (intro exec_rules drain(1))
  let ?P = "\<lambda>t. time (ss_world t) \<le> time (ss_world s)"
  let ?Q = "\<lambda>t. cn_stream t = cn_stream s"
  have P: "keeps ?P (handshake_feed L sc data)"
    unfolding handshake_feed_def
    by (intro exec_rules drain(2)) (auto dest!: winds_down_feed [OF laws])
  have "keeps ?Q (drain_closes L sc)"
    unfolding drain_closes_def drain_one_def callbackM_def
    by (intro keeps_loop exec_rules; auto split: ws_event.split intro!: exec_rules)
  then have Q: "keeps ?Q (handshake_feed L sc data)"
    unfolding handshake_feed_def by (intro exec_rules) simp_all
  assume "handshake_feed L sc data s = Some (Inr (r, s'))"
  from keeps_result [OF P _ this] keeps_result [OF Q _ this] show "time_left time s' \<le> time_left time s"
    by (simp add: time_left_def)
qed

lemma handshake_round_winds_down:
  fixes L :: "('v, 'x, 'c, 'd, 'w, 'e, 'h, 'crt, 'k, 'q) conn_lib"
  assumes laws: "winds_down (cl_io L) time outs evs"
  shows "handshake_round L sc s \<noteq> None"
    and "handshake_round L sc s = Some (Inr (None, s')) \<Longrightarrow> time_left time s' < time_left time s"
proof -
  have flush: "\<exists>r s'. flushM L s = Some (Inr (r, s')) \<and> time_left time s' \<le> time_left time s" for s
  proof -
    obtain r :: "('x, 'e) sora_error + bool" and p
      where "flush_ws_output (cl_io L) (cn_timers s, ss_world s) = Some (r, p)"
      "time (snd p) \<le> time (ss_world s)"
      using flush_winds_down [OF laws, of "(cn_timers s, ss_world s)"] by auto
    then show ?thesis by (cases p) (force simp: flushM_def time_left_def)
  qed
  have fl: "totalM (flushM L)" using flush unfolding totalM_def by blast
  have rd: "totalM (readUntilM L)" by (simp add: totalM_def readUntilM_def split: prod.split)
  have "totalM (handshake_round L sc)"
    unfolding handshake_round_def handshake_read_def bool.case_eq_if
    by (intro exec_rules fl rd handshake_feed_winds_down(1) [OF laws])
  then show "handshake_round L sc s \<noteq> None" by (simp add: totalM_def)
  assume "handshake_round L sc s = Some (Inr (None, s'))"
  then obtain r s1 where 1: "flushM L s = Some (Inr (r, s1))"
    and "(case r of Inl err \<Rightarrow> retM (Some (HandshakeFailed err))
      | Inr True \<Rightarrow> retM (Some HandshakeDone)
      | Inr False \<Rightarrow> handshake_read L sc) s1 = Some (Inr (None, s'))"
    unfolding handshake_round_def bindM_Inr by blast
  then have "handshake_read L sc s1 = Some (Inr (None, s'))"
    by (cases r) (simp_all split: bool.splits)
  then obtain read s2 where read: "readUntilM L s1 = Some (Inr (read, s2))"
    and "(case read of None \<Rightarrow> retM (Some HandshakeTimedOut)
      | Some (Inl err) \<Rightarrow> retM (Some (HandshakeFailed (TransportError (IoError err))))
      | Some (Inr data) \<Rightarrow> if data = [] then retM (Some HandshakeDone)
          else handshake_feed L sc data) s2 = Some (Inr (None, s'))"
    unfolding handshake_read_def bindM_Inr by blast
  then obtain data where 2: "readUntilM L s1 = Some (Inr (Some (Inr data), s2))" "data \<noteq> []"
    and 3: "handshake_feed L sc data s2 = Some (Inr (None, s'))"
    by (cases read) (auto split: sum.splits if_splits)
  from flush [of s] 1 have "time_left time s1 \<le> time_left time s" by auto
  with readUntil_winds_down [OF laws 2] handshake_feed_winds_down(2) [OF laws 3]
  show "time_left time s' < time_left time s" by simp
qed

lemma handshake_total:
  assumes "winds_down (cl_io L) time outs evs"
  shows "totalM (close_websocket_handshake L sc absorb)"
proof -
  have "loopM (handshake_round L sc) t \<noteq> None" for t
    by (rule loopM_returns [where P = "\<lambda>_. True" and mu = "time_left time"])
      (use handshake_round_winds_down [OF assms] in blast)+
  then have "totalM (loopM (handshake_round L sc))" by (simp add: totalM_def)
  then show ?thesis
    unfolding close_websocket_handshake_def ws_closeM_def
    by (intro exec_rules worldM_rules; auto split: handshake_end.split intro!: exec_rules)
qed

text \<open>
  Fact. The close handshake comes to an end: in a world that winds down it returns from every state,
  whatever the server sends.
\<close>

theorem close_handshake_returns:
  assumes "winds_down (cl_io L) time outs evs"
  shows "\<exists>r. close_websocket_handshake L sc absorb s = Some r"
  using handshake_total [OF assms] by (simp add: totalM_def)

theorem close_handshake_returns_witness:
  "\<exists>r. close_websocket_handshake (example_lib JNull) True False (example_conn 7) = Some r"
  by (rule close_handshake_returns [where time = id and outs = id and evs = "\<lambda>w. 0"])
    (auto simp: winds_down_def example_lib_def example_io_def split: if_splits)

theorem close_handshake_spec_witness:
  "\<exists>s cbs. close_websocket_handshake (example_lib JNull) True False (example_conn 0) = Some (Inr ((), s)) \<and>
     cn_callbacks s = cn_callbacks (example_conn 0) @ cbs \<and> only_closes cbs"
proof -
  have "close_websocket_handshake (example_lib JNull) True False (example_conn 0) =
      Some (Inr ((), example_conn 0))"
    by (simp add: close_websocket_handshake_def ws_connected_def ws_closeM_def bindM_def worldM_def
        example_lib_def example_io_def example_conn_def loopM.simps handshake_round_def flushM_def
        flush_ws_output.simps flush_round_def handshake_read_def readUntilM_def stream_read_until_def
        stream_new_plain_def)
  from this close_handshake_spec show ?thesis by blast
qed

end
