(* ===== verification/Channel_Messages.thy ===== *)
theory Channel_Messages
  imports Close_Handshake
begin

text \<open>
  Messages that arrive over a data channel: \<^verbatim>\<open>handle_data_channel_message\<close> of \<^verbatim>\<open>src/connection.rs\<close>, and
  the answers to RPC requests among them.
\<close>

subsection \<open>Definitions\<close>

datatype data_channel_message_result = MessageContinue | MessageServerClose u16 string

definition is_server_close_label :: "string \<Rightarrow> bool" where
  "is_server_close_label label \<longleftrightarrow> label = ''signaling''"

text \<open>
  Taking a pending request out of the table: its timer is aborted, and the answer is sent. A request
  without a response channel is the \<^verbatim>\<open>expect\<close> that panics.
\<close>

definition finish_rpc ::
    "u64 \<Rightarrow> ('x, 'e) sora_error + rpc_response option \<Rightarrow>
       (('c, 'w, 'x, 'e) conn, ('x, 'e) sora_error, unit) exec" where
  "finish_rpc n result =
     bindM (getM (\<lambda>s. cn_pending s n)) (\<lambda>pending.
     case pending of
       None \<Rightarrow> retM ()
     | Some pending \<Rightarrow>
         seqM (modM (\<lambda>s. s\<lparr>cn_pending := (cn_pending s)(n := None),
                           cn_rpc_timers := removeAll n (cn_rpc_timers s)\<rparr>))
           (case pr_response pending of
              None \<Rightarrow> panicM
            | Some r \<Rightarrow> answerM r (RpcAnswer result)))"

definition handle_rpc_message ::
    "('v, 'x, 'c, 'd, 'w, 'e, 'h, 'crt, 'k, 'q) conn_lib \<Rightarrow> bytes \<Rightarrow>
       (('c, 'w, 'x, 'e) conn, ('x, 'e) sora_error, unit) exec" where
  "handle_rpc_message L data =
     (case cl_from_utf8 L data of
        Inl err \<Rightarrow> retM ()
      | Inr text \<Rightarrow>
          (case rpc_parse (cl_json L) text of
             None \<Rightarrow> panicM
           | Some (Inr (Some n, response)) \<Rightarrow> finish_rpc n (Inr (Some response))
           | Some (Inr (None, response)) \<Rightarrow> retM ()
           | Some (Inl err) \<Rightarrow>
               (case err of
                  RpcProtocolViolation (Some n) \<Rightarrow> finish_rpc n (Inl err)
                | _ \<Rightarrow> retM ())))"

definition handle_channel_reoffer ::
    "('v, 'x, 'c, 'd, 'w, 'e, 'h, 'crt, 'k, 'q) conn_lib \<Rightarrow> conn_config \<Rightarrow> string \<Rightarrow>
       (('c, 'w, 'x, 'e) conn, ('x, 'e) sora_error, unit) exec" where
  "handle_channel_reoffer L K sdp =
     bindM (handle_offer (cl_pc L) (kc_session K) sdp []) (\<lambda>answer_sdp.
     let reanswer = cl_json_text L (outgoing_to_json (ReAnswer answer_sdp)) in
     seqM (callbackM (OnSignalingMessage DataChannelSignaling Sent reanswer))
       (tryM (send_on_channel L ''signaling'' (cl_utf8 L reanswer))))"

definition handle_signaling_data ::
    "('v, 'x, 'c, 'd, 'w, 'e, 'h, 'crt, 'k, 'q) conn_lib \<Rightarrow> conn_config \<Rightarrow> string \<Rightarrow> string \<Rightarrow>
       incoming_message_data \<Rightarrow>
       (('c, 'w, 'x, 'e) conn, ('x, 'e) sora_error, data_channel_message_result) exec" where
  "handle_signaling_data L K label message data =
     (case data of
        ReOffer sdp \<Rightarrow> seqM (handle_channel_reoffer L K sdp) (retM MessageContinue)
      | Ping stats \<Rightarrow>
          if stats = Some True then seqM (request_stats L StatsForChannelPong) (retM MessageContinue)
          else seqM (tryM (send_on_channel L ''signaling''
                 (cl_utf8 L (cl_json_text L (outgoing_to_json (Pong None)))))) (retM MessageContinue)
      | ReqStats \<Rightarrow> seqM (request_stats L StatsForChannelStats) (retM MessageContinue)
      | Notify \<Rightarrow> seqM (callbackM (OnNotify message)) (retM MessageContinue)
      | Push \<Rightarrow> seqM (callbackM (OnPush message)) (retM MessageContinue)
      | Close code reason \<Rightarrow>
          retM (if is_server_close_label label then MessageServerClose code reason else MessageContinue)
      | _ \<Rightarrow> retM MessageContinue)"

definition handle_signaling_message ::
    "('v, 'x, 'c, 'd, 'w, 'e, 'h, 'crt, 'k, 'q) conn_lib \<Rightarrow> conn_config \<Rightarrow> string \<Rightarrow> bytes \<Rightarrow>
       (('c, 'w, 'x, 'e) conn, ('x, 'e) sora_error, data_channel_message_result) exec" where
  "handle_signaling_message L K label data =
     bindM (liftM (map_err Utf8DecodeFailed (cl_from_utf8 L data))) (\<lambda>message.
     seqM (whenM (label = ''signaling'')
             (callbackM (OnSignalingMessage DataChannelSignaling Received message)))
     (bindM (liftM (incoming_parse (cl_json L) message)) (\<lambda>incoming.
      handle_signaling_data L K label message (im_data incoming))))"

text \<open>The message with the compression undone; \<open>None\<close> when that failed.\<close>

definition message_bytes ::
    "('v, 'x, 'c, 'd, 'w, 'e, 'h, 'crt, 'k, 'q) conn_lib \<Rightarrow> 'c data_channels \<Rightarrow> string \<Rightarrow> bytes \<Rightarrow>
       bytes option" where
  "message_bytes L channels label data =
     (if (case channels label of None \<Rightarrow> False | Some m \<Rightarrow> mc_compress m)
      then ok_opt (decompress_zlib (cl_zlib L) data MAX_DECOMPRESSED_DATA_CHANNEL_MESSAGE_SIZE)
      else Some data)"

definition signaling_labels :: "string list" where
  "signaling_labels = [''signaling'', ''stats'', ''push'', ''notify'']"

definition handle_data_channel_message ::
    "('v, 'x, 'c, 'd, 'w, 'e, 'h, 'crt, 'k, 'q) conn_lib \<Rightarrow> conn_config \<Rightarrow> string \<Rightarrow> bytes \<Rightarrow>
       (('c, 'w, 'x, 'e) conn, ('x, 'e) sora_error, data_channel_message_result) exec" where
  "handle_data_channel_message L K label data =
     bindM (getM cn_channels) (\<lambda>channels.
     case message_bytes L channels label data of
       None \<Rightarrow> retM MessageContinue
     | Some data \<Rightarrow>
         seqM (callbackM (OnDataChannelMessage label data))
         (if label \<in> set signaling_labels then handle_signaling_message L K label data
          else if label = ''rpc'' then seqM (handle_rpc_message L data) (retM MessageContinue)
          else if label \<noteq> [] \<and> hd label = CHR ''#''
          then seqM (callbackM (OnMessage label data)) (retM MessageContinue)
          else retM MessageContinue))"

subsection \<open>Lemmas\<close>

lemmas channel_message_defs =
  handle_data_channel_message_def handle_signaling_message_def handle_signaling_data_def
  handle_channel_reoffer_def

lemma incoming_cases [exec_rules]:
  "(\<And>sdp a b c d. data = Offer sdp a b c d \<Longrightarrow> keeps P (f1 sdp a b c d)) \<Longrightarrow>
   (\<And>sdp. data = ReOffer sdp \<Longrightarrow> keeps P (f2 sdp)) \<Longrightarrow> (\<And>st. data = Ping st \<Longrightarrow> keeps P (f3 st)) \<Longrightarrow>
   (data = ReqStats \<Longrightarrow> keeps P f4) \<Longrightarrow> (data = Notify \<Longrightarrow> keeps P f5) \<Longrightarrow> (data = Push \<Longrightarrow> keeps P f6) \<Longrightarrow>
   (\<And>i. data = Switched i \<Longrightarrow> keeps P (f7 i)) \<Longrightarrow> (\<And>l. data = Redirect l \<Longrightarrow> keeps P (f8 l)) \<Longrightarrow>
   (\<And>code r. data = Close code r \<Longrightarrow> keeps P (f9 code r)) \<Longrightarrow>
   keeps P (case_incoming_message_data f1 f2 f3 f4 f5 f6 f7 f8 f9 data)"
  by (cases data) simp_all

text \<open>
  A property of the connection that does not look at the world, the session, the stream and the timers.
\<close>

definition frame :: "(('c, 'w, 'x, 'e) conn \<Rightarrow> bool) \<Rightarrow> bool" where
  "frame P \<longleftrightarrow>
     (\<forall>s t. session.more s = session.more t \<longrightarrow> P s \<longrightarrow> P t) \<and>
     (\<forall>s stream tm. P s \<longrightarrow> P (s\<lparr>cn_stream := stream, cn_timers := tm\<rparr>))"

lemma frame_more: "frame P \<Longrightarrow> session.more s = session.more t \<Longrightarrow> P s \<Longrightarrow> P t"
  unfolding frame_def by blast

lemma session_more_update [simp]:
  "session.more (s\<lparr>ss_world := w\<rparr>) = session.more s"
  "session.more (s\<lparr>ss_sender_video_track := vt\<rparr>) = session.more s"
  "session.more (s\<lparr>ss_sender_audio_track := at\<rparr>) = session.more s"
  "session.more (s\<lparr>ss_sender_video_transform := vx\<rparr>) = session.more s"
  "session.more (s\<lparr>ss_video_sender := vs\<rparr>) = session.more s"
  "session.more (s\<lparr>ss_audio_sender := au\<rparr>) = session.more s"
  "session.more (s\<lparr>ss_sender_video_frame_transformer := vf\<rparr>) = session.more s"
  "session.more (s\<lparr>ss_offer_simulcast := os\<rparr>) = session.more s"
  "session.more (s\<lparr>ss_simulcast_encodings := se\<rparr>) = session.more s"
  by (cases s; simp only: session.update_convs session.select_convs)+

lemma frame_io: "frame P \<Longrightarrow> io_stable P"
proof -
  assume frame: "frame P"
  have "P (s\<lparr>cn_stream := stream, cn_timers := tm, ss_world := w\<rparr>)" if "P s" for s stream tm w
  proof -
    from frame that have "P (s\<lparr>cn_stream := stream, cn_timers := tm\<rparr>)"
      unfolding frame_def by blast
    from frame_more [OF frame _ this] show ?thesis by (simp only: session_more_update)
  qed
  then show ?thesis by (simp add: io_stable_def)
qed

lemma degradation_cases [exec_rules]:
  "(\<And>n. d = KnownPreference n \<Longrightarrow> keeps P (f n)) \<Longrightarrow> (\<And>v. d = UnknownPreference v \<Longrightarrow> keeps P (g v)) \<Longrightarrow>
     keeps P (case_degradation_preference f g d)"
  by (cases d) simp_all

lemma handle_offer_more: "keeps (\<lambda>s. session.more s = m) (handle_offer P K sdp servers)"
  unfolding negotiation_defs by (intro exec_rules) simp_all

lemma keeps_handle_offer:
  assumes "frame P"
  shows "keeps P (handle_offer D K sdp servers)"
proof (rule keepsI)
  fix s a s'
  assume "P s" and run: "handle_offer D K sdp servers s = Some (Inr (a, s'))"
  from keeps_result [OF handle_offer_more _ run, of "session.more s"] have "session.more s' = session.more s"
    by simp
  from frame_more [OF assms this [symmetric] \<open>P s\<close>] show "P s'" .
qed

lemma keeps_try [exec_rules]: "keeps P m \<Longrightarrow> keeps P (tryM m)"
  unfolding tryM_def by (intro exec_rules)

lemma channel_message_keeps:
  assumes frame: "frame P"
    and cb: "\<And>s cb. channel_free [cb] \<Longrightarrow> P s \<Longrightarrow> P (s\<lparr>cn_callbacks := cn_callbacks s @ [cb]\<rparr>)"
    and st: "\<And>s q. (\<forall>r. q \<noteq> StatsForCommand r) \<Longrightarrow> P s \<Longrightarrow> P (s\<lparr>cn_stats := cn_stats s @ [q]\<rparr>)"
    and rpc: "\<And>n r. r \<noteq> Inr None \<Longrightarrow> keeps P (finish_rpc n r)"
  shows "keeps P (handle_data_channel_message L K label data)"
proof -
  note io = keeps_io [OF frame_io [OF frame]]
  have callback: "keeps P (callbackM c)" if "channel_free [c]" for c
    unfolding callbackM_def using cb [OF that] by (intro exec_rules)
  have stats: "keeps P (request_stats L q)" if "\<forall>r. q \<noteq> StatsForCommand r" for q
    unfolding request_stats_def using st [OF that] by (intro keeps_seq io keeps_mod)
  have rpc_message: "keeps P (handle_rpc_message L d)" for d
    unfolding handle_rpc_message_def
    by (intro exec_rules rpc) (auto split: sora_error.split option.split intro!: exec_rules rpc)
  have signaling: "keeps P (handle_signaling_message L K l d)" for l d
    unfolding handle_signaling_message_def handle_signaling_data_def handle_channel_reoffer_def Let_def
    by (intro exec_rules io callback stats keeps_handle_offer [OF frame]) (simp_all add: channel_free_def)
  show ?thesis
    unfolding handle_data_channel_message_def
    by (intro exec_rules callback signaling rpc_message) (simp_all add: channel_free_def)
qed

subsection \<open>Parsing an answer never panics\<close>

text \<open>An object has the members that its list of members names.\<close>

definition members_found :: "('v, 'x) nojson \<Rightarrow> bool" where
  "members_found J \<longleftrightarrow>
     (\<forall>v ms key x name. json_object J v = Inr ms \<longrightarrow> (key, x) \<in> set ms \<longrightarrow>
        json_unquoted J key = Inr name \<longrightarrow> json_member J v name \<noteq> Inr None)"

lemma scan_members_seen:
  "scan_members J ms c = Inr c' \<Longrightarrow>
     (is_seen (seen_result c') \<longrightarrow> is_seen (seen_result c) \<or>
        (\<exists>key x. (key, x) \<in> set ms \<and> json_unquoted J key = Inr ''result'')) \<and>
     (is_seen (seen_error c') \<longrightarrow> is_seen (seen_error c) \<or>
        (\<exists>key x. (key, x) \<in> set ms \<and> json_unquoted J key = Inr ''error''))"
proof (induction J ms c rule: scan_members.induct)
  case (2 J key x ms c)
  then obtain name where name: "json_unquoted J key = Inr name"
    "scan_members J ms (see_member name c) = Inr c'" by (auto simp: result_simps)
  from "2.IH" [OF this] name(1) show ?case
    by (auto simp: see_member_def split: if_splits)
qed simp

lemma rpc_parse_returns:
  assumes "members_found J"
  shows "rpc_parse J text \<noteq> None"
proof (cases "json_parse J text")
  case (Inr v)
  show ?thesis
  proof (cases "bindE (json_object J v) (\<lambda>ms. scan_members J ms no_members)")
    case c: (Inr c)
    then obtain ms where ms: "json_object J v = Inr ms" "scan_members J ms no_members = Inr c"
      by (auto simp: result_simps)
    have "is_seen (seen_result c) \<Longrightarrow> json_member J v ''result'' \<noteq> Inr None"
      using scan_members_seen [OF ms(2)] assms ms(1)
      unfolding members_found_def by (auto simp: no_members_def unseen_def)
    moreover have "is_seen (seen_error c) \<Longrightarrow> json_member J v ''error'' \<noteq> Inr None"
      using scan_members_seen [OF ms(2)] assms ms(1)
      unfolding members_found_def by (auto simp: no_members_def unseen_def)
    ultimately show ?thesis
      using Inr c by (auto simp: rpc_parse_def split: sum.splits option.splits)
  qed (simp add: rpc_parse_def Inr)
qed (simp add: rpc_parse_def)

subsection \<open>Properties\<close>

definition rpc_ready :: "('c, 'w, 'x, 'e) conn \<Rightarrow> bool" where
  "rpc_ready s \<longleftrightarrow> (\<forall>n p. cn_pending s n = Some p \<longrightarrow> pr_response p \<noteq> None)"

lemma finish_rpc_spec:
  assumes "rpc_ready s"
  shows "finish_rpc n result s = Some (Inr ((),
     case cn_pending s n of
       None \<Rightarrow> s
     | Some p \<Rightarrow>
         s\<lparr>cn_pending := (cn_pending s)(n := None), cn_rpc_timers := removeAll n (cn_rpc_timers s),
           cn_answers := cn_answers s @ [(the (pr_response p), RpcAnswer result)]\<rparr>))"
proof (cases "cn_pending s n")
  case (Some p)
  with assms obtain r where "pr_response p = Some r" by (auto simp: rpc_ready_def)
  with Some show ?thesis by (simp add: finish_rpc_def bindM_apply answerM_def)
qed (simp add: finish_rpc_def bindM_apply)

text \<open>
  Property C10. Data of the user or of the RPC channel never ends the connection: whatever arrives on a label
  that carries no signaling, the connection goes on, without a panic and without an error.
\<close>

theorem foreign_messages_harmless:
  fixes L :: "('v, 'x, 'c, 'd, 'w, 'e, 'h, 'crt, 'k, 'q) conn_lib"
  assumes "label \<notin> set signaling_labels" and "members_found (cl_json L)" and "rpc_ready s"
  shows "\<exists>s'. handle_data_channel_message L K label data s = Some (Inr (MessageContinue, s'))"
proof (cases "message_bytes L (cn_channels s) label data")
  case None
  then show ?thesis by (simp add: handle_data_channel_message_def bindM_apply)
next
  case (Some d)
  have parsed: "(rpc_parse (cl_json L) m :: (('x, 'e) sora_error + _) option) \<noteq> None" for m
    by (rule rpc_parse_returns [OF assms(2)])
  have "\<exists>s'. handle_rpc_message L d t = Some (Inr ((), s'))" if "rpc_ready t" for t
    using finish_rpc_spec [OF that]
    unfolding handle_rpc_message_def
    by (auto simp: parsed [simplified] split: sum.split option.split sora_error.split dest: parsed [THEN notE])
  moreover have "rpc_ready (s\<lparr>cn_callbacks := cbs\<rparr>)" for cbs
    using assms(3) by (simp add: rpc_ready_def)
  ultimately obtain s1 where
    "handle_rpc_message L d (s\<lparr>cn_callbacks := cn_callbacks s @ [OnDataChannelMessage label d]\<rparr>) =
       Some (Inr ((), s1))" by blast
  with assms(1) Some show ?thesis
    by (auto simp: handle_data_channel_message_def bindM_apply callbackM_def seqM_Inr)
qed

lemma signaling_data_close:
  "(\<exists>s'. handle_signaling_data L K label message data s = Some (Inr (MessageServerClose code reason, s'))) \<longleftrightarrow>
     label = ''signaling'' \<and> data = Close code reason"
  by (cases data)
    (auto simp: handle_signaling_data_def is_server_close_label_def seqM_Inr)

text \<open>
  What a message over a data channel says to the signaling: nothing when its label carries no signaling or
  its compression cannot be undone, an error when it is no text or no message.
\<close>

definition signaling_input ::
    "('v, 'x, 'c, 'd, 'w, 'e, 'h, 'crt, 'k, 'q) conn_lib \<Rightarrow> 'c data_channels \<Rightarrow> string \<Rightarrow> bytes \<Rightarrow>
       (('x, 'e) sora_error + incoming_message) option" where
  "signaling_input L channels label data =
     (if label \<in> set signaling_labels
      then map_option (\<lambda>d. case cl_from_utf8 L d of
               Inl err \<Rightarrow> Inl (Utf8DecodeFailed err)
             | Inr message \<Rightarrow> incoming_parse (cl_json L) message)
             (message_bytes L channels label data)
      else None)"

lemma signaling_data_error:
  "handle_signaling_data L K label message data s = Some (Inl err) \<Longrightarrow>
     (\<exists>sdp. data = ReOffer sdp) \<or> (\<exists>stats. data = Ping stats \<and> stats \<noteq> Some True)"
  by (cases data)
    (auto simp: handle_signaling_data_def request_stats_def callbackM_def worldM_def seqM_def bindM_def
      split: if_splits prod.splits)

lemma signaling_message_no_text:
  "cl_from_utf8 L d = Inl err \<Longrightarrow> handle_signaling_message L K label d s = Some (Inl (Utf8DecodeFailed err))"
  by (simp add: handle_signaling_message_def map_err_def)

lemma signaling_message_no_message:
  fixes L :: "('v, 'x, 'c, 'd, 'w, 'e, 'h, 'crt, 'k, 'q) conn_lib"
  assumes "cl_from_utf8 L d = Inr message"
    and "incoming_parse (cl_json L) message = (Inl err :: ('x, 'e) sora_error + _)"
  shows "handle_signaling_message L K label d s = Some (Inl err)"
  using assms
  by (simp add: handle_signaling_message_def map_err_def whenM_def callbackM_def seqM_def bindM_def)

lemma signaling_message_read:
  fixes L :: "('v, 'x, 'c, 'd, 'w, 'e, 'h, 'crt, 'k, 'q) conn_lib"
  assumes "cl_from_utf8 L d = Inr message"
    and "incoming_parse (cl_json L) message = (Inr m :: ('x, 'e) sora_error + _)"
  shows "\<exists>t. handle_signaling_message L K label d s =
    handle_signaling_data L K label message (im_data m) t"
  using assms
  by (auto simp: handle_signaling_message_def map_err_def whenM_def callbackM_def seqM_def bindM_def)

lemma channel_message_signaling:
  assumes "label \<in> set signaling_labels"
  shows "handle_data_channel_message L K label data s =
    (case message_bytes L (cn_channels s) label data of
       None \<Rightarrow> Some (Inr (MessageContinue, s))
     | Some d \<Rightarrow> handle_signaling_message L K label d
         (s\<lparr>cn_callbacks := cn_callbacks s @ [OnDataChannelMessage label d]\<rparr>))"
  using assms
  by (auto simp: handle_data_channel_message_def bindM_apply callbackM_def split: option.split)

lemma channel_message_foreign:
  assumes "label \<notin> set signaling_labels"
    and "handle_data_channel_message L K label data s = Some r"
  shows "\<exists>s'. r = Inr (MessageContinue, s')"
proof -
  have rpc: "\<exists>t'. x = Inr ((), t')" if "handle_rpc_message L d t = Some x" for d t x
    using that unfolding handle_rpc_message_def
    by (auto simp: finish_rpc_def bindM_apply answerM_def
        split: sum.splits option.splits sora_error.splits)
  show ?thesis
    using assms rpc
    by (auto simp: handle_data_channel_message_def bindM_apply callbackM_def seqM_def bindM_def
        split: option.splits if_splits sum.splits prod.splits)
qed

text \<open>
  Property C9. What a message over a data channel does to the connection, by what it says to the signaling.
  When it says nothing, the connection goes on. A text or a message that cannot be read ends it with that
  error. A message that can be read ends it as closed by the server, with its code and its reason, exactly
  when it is a close message on the label \<^verbatim>\<open>signaling\<close>; and with an error only when a re-offer or a ping
  without statistics could not be answered.
\<close>

theorem server_close_spec:
  fixes L :: "('v, 'x, 'c, 'd, 'w, 'e, 'h, 'crt, 'k, 'q) conn_lib"
    and s :: "('c, 'w, 'x, 'e) conn"
  shows "case signaling_input L (cn_channels s) label data of
      None \<Rightarrow>
        (\<forall>r. handle_data_channel_message L K label data s = Some r \<longrightarrow> (\<exists>s'. r = Inr (MessageContinue, s')))
    | Some (Inl err) \<Rightarrow> handle_data_channel_message L K label data s = Some (Inl err)
    | Some (Inr m) \<Rightarrow>
        (\<forall>code reason.
           (\<exists>s'. handle_data_channel_message L K label data s =
              Some (Inr (MessageServerClose code reason, s'))) \<longleftrightarrow>
           label = ''signaling'' \<and> im_data m = Close code reason) \<and>
        (\<forall>err. handle_data_channel_message L K label data s = Some (Inl err) \<longrightarrow>
           (\<exists>sdp. im_data m = ReOffer sdp) \<or> (\<exists>stats. im_data m = Ping stats \<and> stats \<noteq> Some True))"
proof (cases "label \<in> set signaling_labels")
  case False
  then show ?thesis
    using channel_message_foreign [OF False, of L K data s] by (simp add: signaling_input_def)
next
  case True
  note eq = channel_message_signaling [OF True, of L K data s]
  show ?thesis
  proof (cases "message_bytes L (cn_channels s) label data")
    case None
    with True eq show ?thesis by (simp add: signaling_input_def)
  next
    case (Some d)
    show ?thesis
    proof (cases "cl_from_utf8 L d")
      case (Inl err)
      with True Some eq show ?thesis by (simp add: signaling_input_def signaling_message_no_text)
    next
      case utf8: (Inr message)
      show ?thesis
      proof (cases "incoming_parse (cl_json L) message :: ('x, 'e) sora_error + _")
        case (Inl err)
        with True Some utf8 eq show ?thesis
          by (simp add: signaling_input_def signaling_message_no_message)
      next
        case (Inr m)
        from signaling_message_read [OF utf8 Inr] obtain t where
          "handle_data_channel_message L K label data s = handle_signaling_data L K label message (im_data m) t"
          using Some eq by fastforce
        then show ?thesis
          using True Some utf8 Inr signaling_data_close [of L K label message "im_data m" t]
            signaling_data_error [of L K label message "im_data m" t]
          by (simp add: signaling_input_def)
      qed
    qed
  qed
qed

text \<open>
  Property C11. An answer to an RPC request reaches the request with its identifier and nobody else: with a
  pending request of that identifier, its caller gets the answer (the response, or that it violates the
  protocol), its timer is stopped and it is no longer pending; any other message changes nothing.
\<close>

theorem rpc_answer_spec:
  fixes L :: "('v, 'x, 'c, 'd, 'w, 'e, 'h, 'crt, 'k, 'q) conn_lib"
  assumes "rpc_ready s" and "cl_from_utf8 L data = Inr message"
    and "rpc_parse (cl_json L) message = (Some parsed :: (('x, 'e) sora_error + _) option)"
  shows "handle_rpc_message L data s = Some (Inr ((),
     case (case parsed of Inr (trusted, response) \<Rightarrow> trusted | Inl (RpcProtocolViolation trusted) \<Rightarrow> trusted
           | _ \<Rightarrow> None) of
       None \<Rightarrow> s
     | Some n \<Rightarrow>
         (case cn_pending s n of
            None \<Rightarrow> s
          | Some p \<Rightarrow>
              s\<lparr>cn_pending := (cn_pending s)(n := None), cn_rpc_timers := removeAll n (cn_rpc_timers s),
                cn_answers := cn_answers s @
                  [(the (pr_response p), RpcAnswer (map_sum id (Some \<circ> snd) parsed))]\<rparr>)))"
  using assms finish_rpc_spec [OF assms(1)]
  by (auto simp: handle_rpc_message_def split: sum.split option.split sora_error.split)

lemma tree_nojson_members: "members_found (tree_nojson parsed)"
  unfolding members_found_def
proof (intro allI impI notI)
  fix v os key x name
  assume os: "json_object (tree_nojson parsed) v = Inr os" and key: "(key, x) \<in> set os"
    and name: "json_unquoted (tree_nojson parsed) key = Inr name"
    and missing: "json_member (tree_nojson parsed) v name = Inr None"
  from os obtain ms where v: "v = JObj ms" by (cases v) (simp_all add: tree_nojson_def)
  from name have "key = JStr name" by (cases key) (simp_all add: tree_nojson_def)
  with os key v have "name \<in> fst ` set ms" by (force simp: tree_nojson_def)
  with missing v show False by (simp add: tree_nojson_def map_of_eq_None_iff)
qed

theorem foreign_messages_harmless_witness:
  "\<exists>s'. handle_data_channel_message (example_lib JNull) example_settings ''rpc'' [0] (example_conn 0) =
     Some (Inr (MessageContinue, s'))"
  by (rule foreign_messages_harmless)
    (simp_all add: signaling_labels_def example_lib_def tree_nojson_members rpc_ready_def example_conn_def)

text \<open>A close message on the signaling channel, and a text that is no message.\<close>

definition example_close :: json where
  "example_close =
     JObj [(''type'', JStr ''close''), (''code'', JInt 1000), (''reason'', JStr ''bye'')]"

theorem server_close_spec_witness:
  "(\<exists>s'. handle_data_channel_message (example_lib example_close) example_settings ''signaling'' [0]
       (example_conn 0) = Some (Inr (MessageServerClose 1000 ''bye'', s'))) \<and>
   (\<exists>err. handle_data_channel_message (example_lib JNull) example_settings ''push'' [0]
       (example_conn 0) = Some (Inl err))"
proof
  have "signaling_input (example_lib example_close) (cn_channels (example_conn 0)) ''signaling'' [0] =
      Some (Inr \<lparr>im_message = ''text'', im_data = Close 1000 ''bye''\<rparr>)"
    by (simp add: signaling_input_def signaling_labels_def message_bytes_def example_conn_def
        example_lib_def incoming_parse_def incoming_of_json_def close_of_json_def json_get_def
        json_required_def tree_nojson_def example_close_def ok_or_def map_err_def)
  with server_close_spec [where L = "example_lib example_close" and s = "example_conn 0" and
      label = "''signaling''" and data = "[0]" and K = example_settings]
  show "\<exists>s'. handle_data_channel_message (example_lib example_close) example_settings ''signaling'' [0]
       (example_conn 0) = Some (Inr (MessageServerClose 1000 ''bye'', s'))"
    by simp
  have "signaling_input (example_lib JNull) (cn_channels (example_conn 0)) ''push'' [0] =
      Some (Inl (JsonParse ()))"
    by (simp add: signaling_input_def signaling_labels_def message_bytes_def example_conn_def
        example_lib_def incoming_parse_def incoming_of_json_def json_get_def json_required_def
        tree_nojson_def map_err_def)
  with server_close_spec [where L = "example_lib JNull" and s = "example_conn 0" and label = "''push''" and
      data = "[0]" and K = example_settings]
  show "\<exists>err. handle_data_channel_message (example_lib JNull) example_settings ''push'' [0]
       (example_conn 0) = Some (Inl err)"
    by simp
qed

definition example_pending :: "(nat, nat, unit, unit) conn" where
  "example_pending =
     (example_conn 0)\<lparr>cn_pending := [7 \<mapsto> \<lparr>pr_response = Some 3\<rparr>, 8 \<mapsto> \<lparr>pr_response = Some 4\<rparr>],
       cn_rpc_timers := [7, 8]\<rparr>"

theorem rpc_answer_spec_witness:
  "\<exists>s'. handle_rpc_message (example_lib example_response) [0] example_pending = Some (Inr ((), s')) \<and>
     cn_answers s' = [(3, RpcAnswer (Inr (Some (RpcError (- 32601) ''Method not found'' None))))] \<and>
     cn_rpc_timers s' = [8]"
proof -
  have ready: "rpc_ready example_pending"
    by (simp add: rpc_ready_def example_pending_def example_conn_def)
  have "rpc_parse (cl_json (example_lib example_response)) ''text'' =
      (Some (Inr (Some 7, RpcError (- 32601) ''Method not found'' None)) ::
        ((unit, unit) sora_error + _) option)"
    using example_response_parsed by (simp add: example_lib_def)
  from rpc_answer_spec [OF ready _ this, of "[0]"] show ?thesis
    by (simp add: example_lib_def example_pending_def example_conn_def)
qed

end
