(* ===== verification/Conn_Events.thy ===== *)
theory Conn_Events
  imports Channel_Messages
begin

text \<open>
  What one round of the loop of \<^verbatim>\<open>run\<close> in \<^verbatim>\<open>src/connection.rs\<close> waits for: data of the stream, a timer of the
  WebSocket, an event of the peer connection or of a task, a command of a handle. Each branch of
  \<^verbatim>\<open>select!\<close> is a statement that says how the round goes on.
\<close>

datatype flow = GoOn | ContinueLoop | BreakLoop

subsection \<open>Reading\<close>

text \<open>\<^verbatim>\<open>switched_ignore_disconnect_websocket && use_data_channel_signaling\<close>\<close>

definition absorbs :: "('c, 'w, 'x, 'e) conn \<Rightarrow> bool" where
  "absorbs s \<longleftrightarrow> cn_ignore s \<and> cn_use_data_channel s"

definition drop_websocket :: "(('c, 'w, 'x, 'e) conn, ('x, 'e) sora_error, flow) exec" where
  "drop_websocket = seqM (modM (\<lambda>s. s\<lparr>cn_websocket_closed := True\<rparr>)) (retM ContinueLoop)"

definition read_eof :: "(('c, 'w, 'x, 'e) conn, ('x, 'e) sora_error, flow) exec" where
  "read_eof =
     ifM absorbs drop_websocket
       (seqM (set_disconnect_reason websocket_closed_without_close_frame) (retM BreakLoop))"

definition read_branch ::
    "('v, 'x, 'c, 'd, 'w, 'e, 'h, 'crt, 'k, 'q) conn_lib \<Rightarrow>
       (('c, 'w, 'x, 'e) conn, ('x, 'e) sora_error, flow) exec" where
  "read_branch L =
     bindM (readM L) (\<lambda>read.
     case read of
       Inl err \<Rightarrow>
         if cl_unexpected_eof L err then read_eof
         else ifM absorbs drop_websocket (failM (TransportError (IoError err)))
     | Inr data \<Rightarrow>
         if data = [] then read_eof
         else
           bindM (getM (\<lambda>s. io_now (cl_io L) (ss_world s))) (\<lambda>now.
           bindM (liftM (map_err (SetupError \<circ> InvalidSystemTime) now)) (\<lambda>now.
           bindM (worldM (ws_feed (cl_io L) data now)) (\<lambda>r.
           case r of
             Inl err \<Rightarrow> ifM absorbs drop_websocket (failM (TransportError (Websocket err)))
           | Inr _ \<Rightarrow> retM GoOn))))"

definition timer_branch ::
    "('v, 'x, 'c, 'd, 'w, 'e, 'h, 'crt, 'k, 'q) conn_lib \<Rightarrow> timer_id \<Rightarrow>
       (('c, 'w, 'x, 'e) conn, ('x, 'e) sora_error, flow) exec" where
  "timer_branch L i =
     bindM (worldM (ws_handle_timer (cl_io L) i)) (\<lambda>r.
     seqM (liftM (map_err (TransportError \<circ> Websocket) r)) (retM GoOn))"

subsection \<open>Events\<close>

definition terminate :: "disconnect_reason \<Rightarrow> (('c, 'w, 'x, 'e) conn, ('x, 'e) sora_error, flow) exec" where
  "terminate reason =
     seqM (set_disconnect_reason reason)
     (seqM (modM (\<lambda>s. s\<lparr>cn_terminated := True\<rparr>)) (retM BreakLoop))"

text \<open>\<^verbatim>\<open>handle_media_path_state\<close>, with the grace timer it starts; \<open>True\<close> when the path is lost for good.\<close>

definition media_pathM ::
    "peer_connection_state \<Rightarrow> (('c, 'w, 'x, 'e) conn, ('x, 'e) sora_error, bool) exec" where
  "media_pathM state = (\<lambda>s.
     case handle_media_path_state (cn_media_path s) state of
       (lost, timer, m) \<Rightarrow>
         Some (Inr (lost,
           s\<lparr>cn_media_path := m,
             cn_grace_timers := cn_grace_timers s @ (case timer of None \<Rightarrow> [] | Some g \<Rightarrow> [g])\<rparr>)))"

definition data_channel_stateM ::
    "('v, 'x, 'c, 'd, 'w, 'e, 'h, 'crt, 'k, 'q) conn_lib \<Rightarrow> string \<Rightarrow>
       (('c, 'w, 'x, 'e) conn, ('x, 'e) sora_error, data_channel_state_result) exec" where
  "data_channel_stateM L label = (\<lambda>s.
     case handle_data_channel_state (cl_channels L) (ss_world s) (cn_channels s) (cn_configs s)
            (cn_switched_received s) label
            \<lparr>cv_opened = cn_opened s, cv_use_data_channel = cn_use_data_channel s,
             cv_callbacks = cn_callbacks s\<rparr> of
       (r, v) \<Rightarrow>
         Some (Inr (r,
           s\<lparr>cn_opened := cv_opened v, cn_use_data_channel := cv_use_data_channel v,
             cn_callbacks := cv_callbacks v\<rparr>)))"

definition channel_state_event ::
    "('v, 'x, 'c, 'd, 'w, 'e, 'h, 'crt, 'k, 'q) conn_lib \<Rightarrow> string \<Rightarrow>
       (('c, 'w, 'x, 'e) conn, ('x, 'e) sora_error, flow) exec" where
  "channel_state_event L label =
     bindM (data_channel_stateM L label) (\<lambda>r.
     case r of
       ContinueConnection \<Rightarrow> retM GoOn
     | TerminateConnection \<Rightarrow> terminate (DataChannelClosed label))"

text \<open>\<^verbatim>\<open>register_data_channel\<close>; a channel that is open already is announced by an event.\<close>

definition registerM ::
    "('v, 'x, 'c, 'd, 'w, 'e, 'h, 'crt, 'k, 'q) conn_lib \<Rightarrow> 'c \<Rightarrow>
       (('c, 'w, 'x, 'e) conn, ('x, 'e) sora_error, unit) exec" where
  "registerM L channel = (\<lambda>s.
     case register_data_channel (cl_channels L) (ss_world s) (cn_configs s) channel (cn_channels s) of
       (channels, announce) \<Rightarrow>
         Some (Inr ((),
           s\<lparr>cn_channels := channels,
             cn_events := cn_events s @
               (case announce of None \<Rightarrow> [] | Some label \<Rightarrow> [DataChannelStateChangeEvent label])\<rparr>)))"

text \<open>The transformer of the receivers is made once, from the handler of the settings.\<close>

definition receiver_transformer ::
    "(('c, 'w, 'x, 'e) conn, ('x, 'e) sora_error, nat) exec" where
  "receiver_transformer =
     bindM (getM cn_receiver_video_frame_transformer) (\<lambda>made.
     case made of
       Some t \<Rightarrow> retM t
     | None \<Rightarrow>
         bindM (getM cn_receiver_video_transform) (\<lambda>handler.
         case handler of
           None \<Rightarrow> panicM
         | Some h \<Rightarrow>
             seqM (modM (\<lambda>s. s\<lparr>cn_receiver_video_transform := None,
                               cn_receiver_video_frame_transformer := Some h\<rparr>))
               (retM h)))"

definition track_event ::
    "('v, 'x, 'c, 'd, 'w, 'e, 'h, 'crt, 'k, 'q) conn_lib \<Rightarrow> nat \<Rightarrow> bool \<Rightarrow>
       (('c, 'w, 'x, 'e) conn, ('x, 'e) sora_error, flow) exec" where
  "track_event L transceiver is_video =
     seqM (ifM (\<lambda>s. (cn_receiver_video_transform s \<noteq> None \<or>
                     cn_receiver_video_frame_transformer s \<noteq> None) \<and> is_video)
             (bindM receiver_transformer (\<lambda>t.
              worldM (\<lambda>w. ((), cl_receiver_transform L transceiver t w))))
             (retM ()))
     (seqM (callbackM (OnTrack transceiver)) (retM GoOn))"

definition data_channel_message_event ::
    "('v, 'x, 'c, 'd, 'w, 'e, 'h, 'crt, 'k, 'q) conn_lib \<Rightarrow> conn_config \<Rightarrow> string \<Rightarrow> bytes \<Rightarrow>
       (('c, 'w, 'x, 'e) conn, ('x, 'e) sora_error, flow) exec" where
  "data_channel_message_event L K label data =
     bindM (handle_data_channel_message L K label data) (\<lambda>r.
     case r of
       MessageContinue \<Rightarrow> retM GoOn
     | MessageServerClose code reason \<Rightarrow>
         seqM (modM (\<lambda>s. s\<lparr>cn_server_close_received := True\<rparr>))
         (seqM (set_disconnect_reason (ServerClose code reason)) (retM BreakLoop)))"

definition register_event ::
    "('v, 'x, 'c, 'd, 'w, 'e, 'h, 'crt, 'k, 'q) conn_lib \<Rightarrow> 'c \<Rightarrow>
       (('c, 'w, 'x, 'e) conn, ('x, 'e) sora_error, flow) exec" where
  "register_event L channel =
     (case ch_label (cl_channels L) channel of
        None \<Rightarrow> retM ContinueLoop
      | Some label \<Rightarrow>
          seqM (callbackM (OnDataChannel label))
          (seqM (registerM L channel)
          (channel_state_event L label)))"

definition connection_change_event ::
    "peer_connection_state \<Rightarrow> (('c, 'w, 'x, 'e) conn, ('x, 'e) sora_error, flow) exec" where
  "connection_change_event state =
     seqM (callbackM (OnConnectionStateChange state))
     (bindM (media_pathM state) (\<lambda>lost.
      if lost then terminate PeerConnectionFailed else retM GoOn))"

definition goM :: "('s, 'r, unit) exec \<Rightarrow> ('s, 'r, flow) exec" where
  "goM m = seqM m (retM GoOn)"

text \<open>A result that is only logged.\<close>

definition ignoreM :: "('s, 'r, 'a) exec \<Rightarrow> ('s, 'r, unit) exec" where
  "ignoreM m = bindM m (\<lambda>_. retM ())"

definition handle_event ::
    "('v, 'x, 'c, 'd, 'w, 'e, 'h, 'crt, 'k, 'q) conn_lib \<Rightarrow> conn_config \<Rightarrow> 'c sora_event \<Rightarrow>
       (('c, 'w, 'x, 'e) conn, ('x, 'e) sora_error, flow) exec" where
  "handle_event L K ev =
     (case ev of
        SignalingMessageEvent message \<Rightarrow> goM (tryM (send_message_for_signaling L message))
      | DataChannelMessageEvent label data \<Rightarrow> data_channel_message_event L K label data
      | TrackEvent transceiver is_video \<Rightarrow> track_event L transceiver is_video
      | RemoveTrackEvent receiver \<Rightarrow> goM (callbackM (OnRemoveTrack receiver))
      | SignalingChangeEvent state \<Rightarrow> goM (callbackM (OnSignalingStateChange state))
      | ConnectionChangeEvent state \<Rightarrow> connection_change_event state
      | DisconnectedTimeoutEvent generation \<Rightarrow>
          ifM (\<lambda>s. should_terminate_on_timeout (cn_media_path s) generation)
            (terminate PeerConnectionFailed) (retM GoOn)
      | IceConnectionChangeEvent state \<Rightarrow> goM (callbackM (OnIceConnectionStateChange state))
      | IceGatheringChangeEvent state \<Rightarrow> goM (callbackM (OnIceGatheringStateChange state))
      | DataChannelRegisterEvent channel \<Rightarrow> register_event L channel
      | RpcTimeoutEvent n \<Rightarrow> goM (finish_rpc n (Inl RpcTimeout))
      | DataChannelStateChangeEvent label \<Rightarrow> channel_state_event L label
      | SendWebSocketMessageEvent message \<Rightarrow> goM (ignoreM (send_websocket_message L message))
      | SendDataChannelMessageEvent label message \<Rightarrow>
          goM (ignoreM (send_on_channel L label (cl_utf8 L message))))"

subsection \<open>Commands\<close>

text \<open>The close callbacks for what is open; the set of the open labels is emptied.\<close>

definition close_opened :: "(('c, 'w, 'x, 'e) conn, ('x, 'e) sora_error, unit) exec" where
  "close_opened =
     modM (\<lambda>s. s\<lparr>cn_callbacks := cn_callbacks s @ map OnDataChannelClose (cn_opened s),
                 cn_opened := []\<rparr>)"

definition disconnect_command ::
    "('v, 'x, 'c, 'd, 'w, 'e, 'h, 'crt, 'k, 'q) conn_lib \<Rightarrow> nat \<Rightarrow>
       (('c, 'w, 'x, 'e) conn, ('x, 'e) sora_error, flow) exec" where
  "disconnect_command L r =
     seqM (modM (\<lambda>s. s\<lparr>cn_user_initiated := True\<rparr>))
     (seqM (ignoreM (send_message_for_signaling L (cl_json_text L (outgoing_to_json Disconnect))))
     (seqM (ifM cn_use_data_channel (retM ()) close_opened)
     (seqM (answerM r DisconnectAnswer)
     (seqM (set_disconnect_reason ClientDisconnect)
     (retM BreakLoop)))))"

text \<open>
  The request and its answer: a notification is answered at once, a request when its response, its
  timeout or a redirect comes. \<open>None\<close> of \<open>build_rpc_message\<close> is the overflow of the counter.
\<close>

definition rpc_command ::
    "('v, 'x, 'c, 'd, 'w, 'e, 'h, 'crt, 'k, 'q) conn_lib \<Rightarrow> string \<Rightarrow> json_string option \<Rightarrow> bool \<Rightarrow> nat \<Rightarrow>
       (('c, 'w, 'x, 'e) conn, ('x, 'e) sora_error, flow) exec" where
  "rpc_command L method params notification r =
     bindM (getM cn_rpc_id_counter) (\<lambda>counter.
     case build_rpc_message counter method params notification of
       None \<Rightarrow> panicM
     | Some (message, rpc_id, counter) \<Rightarrow>
         seqM (modM (\<lambda>s. s\<lparr>cn_rpc_id_counter := counter\<rparr>))
         (bindM (send_on_channel L ''rpc'' (cl_utf8 L (cl_json_text L message))) (\<lambda>result.
          goM (case result of
            Inl err \<Rightarrow> answerM r (RpcAnswer (Inl err))
          | Inr _ \<Rightarrow>
              if notification then answerM r (RpcAnswer (Inr None))
              else (case rpc_id of
                 None \<Rightarrow> panicM
               | Some n \<Rightarrow>
                   modM (\<lambda>s. s\<lparr>cn_pending := (cn_pending s)(n \<mapsto> \<lparr>pr_response = Some r\<rparr>),
                               cn_rpc_timers := removeAll n (cn_rpc_timers s) @ [n]\<rparr>))))))"

definition send_message_command ::
    "('v, 'x, 'c, 'd, 'w, 'e, 'h, 'crt, 'k, 'q) conn_lib \<Rightarrow> string \<Rightarrow> bytes \<Rightarrow> nat \<Rightarrow>
       (('c, 'w, 'x, 'e) conn, ('x, 'e) sora_error, flow) exec" where
  "send_message_command L label data r =
     bindM (getM (\<lambda>s. (cn_configs s, cn_channels s))) (\<lambda>(configs, channels).
     bindM (worldM (handle_send_message_command (cl_channels L) configs channels label data)) (\<lambda>result.
     goM (answerM r (MessageAnswer result))))"

definition handle_command ::
    "('v, 'x, 'c, 'd, 'w, 'e, 'h, 'crt, 'k, 'q) conn_lib \<Rightarrow> conn_command \<Rightarrow>
       (('c, 'w, 'x, 'e) conn, ('x, 'e) sora_error, flow) exec" where
  "handle_command L command =
     (case command of
        DisconnectCommand r \<Rightarrow> disconnect_command L r
      | GetStatsCommand r \<Rightarrow> goM (request_stats L (StatsForCommand r))
      | GetSelectedSignalingUrlCommand r \<Rightarrow>
          bindM (getM cn_selected_url) (\<lambda>url. goM (answerM r (UrlAnswer url)))
      | GetConnectedSignalingUrlCommand r \<Rightarrow>
          bindM (getM cn_connected_url) (\<lambda>url. goM (answerM r (UrlAnswer url)))
      | SendRpcRequestCommand method params notification r \<Rightarrow>
          rpc_command L method params notification r
      | SendMessageCommand label data r \<Rightarrow> send_message_command L label data r)"

subsection \<open>The branch that is taken\<close>

text \<open>
  \<^verbatim>\<open>select!\<close> takes any branch that is ready: the stream while the WebSocket is in use, a timer that fired,
  an event or a command that waits, the end of the delay. What can be read and which timers fired is
  part of the world, so those branches are ready whenever their guard holds.
\<close>

datatype select_branch = ReadBranch | TimerBranch timer_id | EventBranch | CommandBranch | DelayBranch

definition branch_ready ::
    "('v, 'x, 'c, 'd, 'w, 'e, 'h, 'crt, 'k, 'q) conn_lib \<Rightarrow> ('c, 'w, 'x, 'e) conn \<Rightarrow> select_branch \<Rightarrow> bool"
  where
    "branch_ready L s branch =
       (case branch of
          ReadBranch \<Rightarrow> \<not> cn_websocket_closed s
        | TimerBranch i \<Rightarrow> True
        | EventBranch \<Rightarrow> cn_events s \<noteq> []
        | CommandBranch \<Rightarrow> cn_commands s \<noteq> []
        | DelayBranch \<Rightarrow>
            (case cn_delay_start s of
               None \<Rightarrow> False
             | Some start \<Rightarrow> start + WS_DISCONNECT_DELAY \<le> cl_instant L (ss_world s)))"

definition select_branchM ::
    "('v, 'x, 'c, 'd, 'w, 'e, 'h, 'crt, 'k, 'q) conn_lib \<Rightarrow> conn_config \<Rightarrow> select_branch \<Rightarrow>
       (('c, 'w, 'x, 'e) conn, ('x, 'e) sora_error, flow) exec" where
  "select_branchM L K branch =
     (case branch of
        ReadBranch \<Rightarrow> read_branch L
      | TimerBranch i \<Rightarrow> timer_branch L i
      | EventBranch \<Rightarrow>
          bindM (getM cn_events) (\<lambda>events.
          case events of
            [] \<Rightarrow> retM GoOn
          | ev # events \<Rightarrow> seqM (modM (\<lambda>s. s\<lparr>cn_events := events\<rparr>)) (handle_event L K ev))
      | CommandBranch \<Rightarrow>
          bindM (getM cn_commands) (\<lambda>commands.
          case commands of
            [] \<Rightarrow> retM GoOn
          | command # commands \<Rightarrow>
              seqM (modM (\<lambda>s. s\<lparr>cn_commands := commands\<rparr>)) (handle_command L command))
      | DelayBranch \<Rightarrow> retM GoOn)"

end
