(* ===== verification/Conn_Websocket.thy ===== *)
theory Conn_Websocket
  imports Conn_Events
begin

text \<open>
  The WebSocket half of a round of the loop of \<^verbatim>\<open>run\<close> in \<^verbatim>\<open>src/connection.rs\<close>: the events of the WebSocket,
  the redirect to another server, closing the WebSocket once signaling runs over data channels, and
  noticing that it was closed. In the loop over the events, \<open>None\<close> goes on and \<open>Some ()\<close> leaves it.
\<close>

subsection \<open>Messages\<close>

definition send_ws_signaling ::
    "('v, 'x, 'c, 'd, 'w, 'e, 'h, 'crt, 'k, 'q) conn_lib \<Rightarrow> outgoing_message \<Rightarrow>
       (('c, 'w, 'x, 'e) conn, ('x, 'e) sora_error, unit) exec" where
  "send_ws_signaling L message =
     (let text = cl_json_text L (outgoing_to_json message) in
      seqM (callbackM (OnSignalingMessage WebSocketSignaling Sent text))
        (tryM (send_websocket_message L text)))"

definition ws_established ::
    "('v, 'x, 'c, 'd, 'w, 'e, 'h, 'crt, 'k, 'q) conn_lib \<Rightarrow> conn_config \<Rightarrow>
       (('c, 'w, 'x, 'e) conn, ('x, 'e) sora_error, unit option) exec" where
  "ws_established L K =
     bindM (getM cn_redirect) (\<lambda>redirect.
     seqM (send_ws_signaling L (Connect ((kc_connect K)\<lparr>cm_redirect := redirect\<rparr>))) (retM None))"

definition ws_received :: "string \<Rightarrow> (('c, 'w, 'x, 'e) conn, ('x, 'e) sora_error, unit) exec" where
  "ws_received text = callbackM (OnSignalingMessage WebSocketSignaling Received text)"

definition ws_offer ::
    "('v, 'x, 'c, 'd, 'w, 'e, 'h, 'crt, 'k, 'q) conn_lib \<Rightarrow> conn_config \<Rightarrow> string \<Rightarrow> string \<Rightarrow>
       ice_server_config list \<Rightarrow> data_channel_config list \<Rightarrow> bool \<Rightarrow> simulcast_encoding list \<Rightarrow>
       (('c, 'w, 'x, 'e) conn, ('x, 'e) sora_error, unit) exec" where
  "ws_offer L K text sdp ice_servers data_channels simulcast encodings =
     seqM (ws_received text)
     (seqM (modM (\<lambda>s. s\<lparr>cn_configs := data_channels, ss_offer_simulcast := simulcast,
                        ss_simulcast_encodings := encodings\<rparr>))
     (bindM (handle_offer (cl_pc L) (kc_session K) sdp ice_servers) (\<lambda>answer_sdp.
      send_ws_signaling L (Answer answer_sdp))))"

definition ws_reoffer ::
    "('v, 'x, 'c, 'd, 'w, 'e, 'h, 'crt, 'k, 'q) conn_lib \<Rightarrow> conn_config \<Rightarrow> string \<Rightarrow> string \<Rightarrow>
       (('c, 'w, 'x, 'e) conn, ('x, 'e) sora_error, unit) exec" where
  "ws_reoffer L K text sdp =
     seqM (ws_received text)
     (bindM (handle_offer (cl_pc L) (kc_session K) sdp []) (\<lambda>answer_sdp.
      send_ws_signaling L (ReAnswer answer_sdp)))"

definition ws_ping ::
    "('v, 'x, 'c, 'd, 'w, 'e, 'h, 'crt, 'k, 'q) conn_lib \<Rightarrow> bool option \<Rightarrow>
       (('c, 'w, 'x, 'e) conn, ('x, 'e) sora_error, unit) exec" where
  "ws_ping L stats =
     (if stats = Some True then request_stats L StatsForPong
      else sendEventM (SendWebSocketMessageEvent (cl_json_text L (outgoing_to_json (Pong None)))))"

definition ws_switched :: "bool \<Rightarrow> (('c, 'w, 'x, 'e) conn, ('x, 'e) sora_error, unit) exec" where
  "ws_switched ignore_disconnect_websocket =
     seqM (modM (\<lambda>s. s\<lparr>cn_switched_received := True, cn_ignore := ignore_disconnect_websocket\<rparr>))
     (seqM (callbackM OnSwitched)
     (modM (\<lambda>s. if \<not> cn_use_data_channel s \<and>
                    is_data_channel_signaling_ready (cn_switched_received s) (cn_configs s) (cn_opened s)
                 then s\<lparr>cn_use_data_channel := True\<rparr> else s)))"

definition nextM :: "('s, 'r, unit) exec \<Rightarrow> ('s, 'r, unit option) exec" where
  "nextM m = seqM m (retM None)"

definition handle_ws_message ::
    "('v, 'x, 'c, 'd, 'w, 'e, 'h, 'crt, 'k, 'q) conn_lib \<Rightarrow> conn_config \<Rightarrow> string \<Rightarrow>
       incoming_message_data \<Rightarrow> (('c, 'w, 'x, 'e) conn, ('x, 'e) sora_error, unit option) exec" where
  "handle_ws_message L K text data =
     (case data of
        Offer sdp ice_servers data_channels simulcast encodings \<Rightarrow>
          nextM (ws_offer L K text sdp ice_servers data_channels simulcast encodings)
      | ReOffer sdp \<Rightarrow> nextM (ws_reoffer L K text sdp)
      | Ping stats \<Rightarrow> nextM (ws_ping L stats)
      | ReqStats \<Rightarrow> nextM (request_stats L StatsForStats)
      | Notify \<Rightarrow> nextM (callbackM (OnNotify text))
      | Push \<Rightarrow> nextM (callbackM (OnPush text))
      | Switched ignore_disconnect_websocket \<Rightarrow> nextM (ws_switched ignore_disconnect_websocket)
      | Redirect location \<Rightarrow>
          seqM (ws_received text)
          (seqM (modM (\<lambda>s. s\<lparr>cn_redirect_location := Some location\<rparr>)) (retM (Some ())))
      | Close code reason \<Rightarrow>
          seqM (set_disconnect_reason (ServerClose code reason)) (retM (Some ())))"

definition handle_ws_event ::
    "('v, 'x, 'c, 'd, 'w, 'e, 'h, 'crt, 'k, 'q) conn_lib \<Rightarrow> conn_config \<Rightarrow> ws_event \<Rightarrow>
       (('c, 'w, 'x, 'e) conn, ('x, 'e) sora_error, unit option) exec" where
  "handle_ws_event L K ev =
     (case ev of
        WsConnectedEvent \<Rightarrow> ws_established L K
      | WsTextMessage text \<Rightarrow>
          (case incoming_parse (cl_json L) text :: ('x, 'e) sora_error + incoming_message of
             Inl err \<Rightarrow> retM None
           | Inr message \<Rightarrow> handle_ws_message L K text (im_data message))
      | WsClose code reason \<Rightarrow>
          seqM (callbackM (OnWebsocketClose code reason))
          (seqM (modM (\<lambda>s. s\<lparr>cn_close_frame := Some (code, reason)\<rparr>)) (retM (Some ())))
      | _ \<Rightarrow> retM None)"

definition ws_event_round ::
    "('v, 'x, 'c, 'd, 'w, 'e, 'h, 'crt, 'k, 'q) conn_lib \<Rightarrow> conn_config \<Rightarrow>
       (('c, 'w, 'x, 'e) conn, ('x, 'e) sora_error, unit option) exec" where
  "ws_event_round L K =
     bindM (worldM (ws_poll_event (cl_io L))) (\<lambda>ev.
     case ev of None \<Rightarrow> retM (Some ()) | Some ev \<Rightarrow> handle_ws_event L K ev)"

definition ws_events ::
    "('v, 'x, 'c, 'd, 'w, 'e, 'h, 'crt, 'k, 'q) conn_lib \<Rightarrow> conn_config \<Rightarrow>
       (('c, 'w, 'x, 'e) conn, ('x, 'e) sora_error, unit) exec" where
  "ws_events L K = ifM cn_websocket_closed (retM ()) (loopM (ws_event_round L K))"

subsection \<open>Redirect\<close>

text \<open>What is forgotten of the session with the old server, and who is told.\<close>

definition reset_session :: "(('c, 'w, 'x, 'e) conn, ('x, 'e) sora_error, unit) exec" where
  "reset_session =
     seqM (modM (\<lambda>s. s\<lparr>cn_switched_received := False, cn_ignore := False, cn_use_data_channel := False,
                       cn_close_frame := None\<rparr>))
     (seqM close_opened
     (modM (\<lambda>s. s\<lparr>cn_channels := Map.empty, cn_configs := []\<rparr>)))"

text \<open>
  \<^verbatim>\<open>drain\<close> of the pending requests, in the order \<open>ids\<close> of the table; dropping a request aborts its timer.
\<close>

definition redirected_answer :: "pending_rpc \<Rightarrow> (nat \<times> ('x, 'e) command_answer) list" where
  "redirected_answer p =
     (case pr_response p of None \<Rightarrow> [] | Some r \<Rightarrow> [(r, RpcAnswer (Inl Redirected))])"

fun pending_answers ::
    "(u64 \<rightharpoonup> pending_rpc) \<Rightarrow> u64 list \<Rightarrow> (nat \<times> ('x, 'e) command_answer) list" where
  "pending_answers pending [] = []"
| "pending_answers pending (n # ids) =
     (case pending n of
        None \<Rightarrow> pending_answers pending ids
      | Some p \<Rightarrow> redirected_answer p @ pending_answers (pending(n := None)) ids)"

definition drain_pending ::
    "((u64 \<rightharpoonup> pending_rpc) \<Rightarrow> u64 list) \<Rightarrow> (('c, 'w, 'x, 'e) conn, ('x, 'e) sora_error, unit) exec" where
  "drain_pending order =
     modM (\<lambda>s. s\<lparr>cn_answers := cn_answers s @ pending_answers (cn_pending s) (order (cn_pending s)),
                 cn_pending := Map.empty, cn_rpc_timers := [], cn_rpc_id_counter := 0\<rparr>)"

text \<open>The events that wait are dropped, but the state of the peer connection is not; \<open>True\<close> when the path is lost.\<close>

fun drain_events :: "'c sora_event list \<Rightarrow> (('c, 'w, 'x, 'e) conn, ('x, 'e) sora_error, bool) exec" where
  "drain_events [] = retM False"
| "drain_events (ev # events) =
     seqM (modM (\<lambda>s. s\<lparr>cn_events := events\<rparr>))
       (case ev of
          ConnectionChangeEvent state \<Rightarrow>
            bindM (media_pathM state) (\<lambda>lost. if lost then retM True else drain_events events)
        | _ \<Rightarrow> drain_events events)"

definition close_old_websocket ::
    "('v, 'x, 'c, 'd, 'w, 'e, 'h, 'crt, 'k, 'q) conn_lib \<Rightarrow>
       (('c, 'w, 'x, 'e) conn, ('x, 'e) sora_error, unit) exec" where
  "close_old_websocket L =
     ifM (ws_connected L)
       (seqM (tryM (ws_closeM L ''redirect'')) (ignoreM (flushM L)))
       (retM ())"

definition connectM ::
    "('v, 'x, 'c, 'd, 'w, 'e, 'h, 'crt, 'k, 'q) conn_lib \<Rightarrow> conn_config \<Rightarrow> signaling_target \<Rightarrow>
       (('c, 'w, 'x, 'e) conn, ('x, 'e) sora_error, client_stream) exec" where
  "connectM L K target = (\<lambda>s.
     case connect_websocket (cl_io L) (cl_connect L) (cl_tls L) (cl_http L) target (kc_proxy K) (kc_tls K)
            (ss_world s) of
       None \<Rightarrow> None
     | Some (r, w) \<Rightarrow> liftM r (s\<lparr>ss_world := w\<rparr>))"

text \<open>Dropping the old timers aborts their tasks.\<close>

definition new_timers ::
    "('v, 'x, 'c, 'd, 'w, 'e, 'h, 'crt, 'k, 'q) conn_lib \<Rightarrow>
       (('c, 'w, 'x, 'e) conn, ('x, 'e) sora_error, unit) exec" where
  "new_timers L = (\<lambda>s.
     Some (Inr ((), s\<lparr>cn_timers := timers_new,
                      ss_world := snd (drop_timers (cl_io L) (cn_timers s, ss_world s))\<rparr>)))"

definition new_websocket ::
    "('v, 'x, 'c, 'd, 'w, 'e, 'h, 'crt, 'k, 'q) conn_lib \<Rightarrow> conn_config \<Rightarrow> signaling_target \<Rightarrow>
       (('c, 'w, 'x, 'e) conn, ('x, 'e) sora_error, unit) exec" where
  "new_websocket L K target =
     bindM (worldM (cl_ws_connect L (format_host_header (st_host target) (st_port target) (st_tls target))
       (st_path target) (kc_user_agent K))) (\<lambda>r.
     liftM (map_err (TransportError \<circ> Websocket) r))"

definition reconnect ::
    "('v, 'x, 'c, 'd, 'w, 'e, 'h, 'crt, 'k, 'q) conn_lib \<Rightarrow> conn_config \<Rightarrow> string \<Rightarrow>
       (('c, 'w, 'x, 'e) conn, ('x, 'e) sora_error, flow) exec" where
  "reconnect L K location =
     bindM (liftM (parse_signaling_url (cl_uri L) location)) (\<lambda>target.
     bindM (connectM L K target) (\<lambda>stream.
     seqM (modM (\<lambda>s. s\<lparr>cn_stream := stream, cn_connected_url := Some location\<rparr>))
     (seqM (new_timers L)
     (seqM (new_websocket L K target)
     (seqM (modM (\<lambda>s. s\<lparr>cn_websocket_closed := False, cn_redirect := True\<rparr>))
     (bindM (flushM L) (\<lambda>r.
      bindM (liftM r) (\<lambda>close.
      if close then
        seqM (set_disconnect_reason websocket_closed_without_close_frame) (retM BreakLoop)
      else retM ContinueLoop))))))))"

definition handle_redirect ::
    "('v, 'x, 'c, 'd, 'w, 'e, 'h, 'crt, 'k, 'q) conn_lib \<Rightarrow> conn_config \<Rightarrow>
       ((u64 \<rightharpoonup> pending_rpc) \<Rightarrow> u64 list) \<Rightarrow> string \<Rightarrow>
       (('c, 'w, 'x, 'e) conn, ('x, 'e) sora_error, flow) exec" where
  "handle_redirect L K order location =
     seqM reset_session
     (seqM (drain_pending order)
     (bindM (getM cn_events) (\<lambda>events.
      bindM (drain_events events) (\<lambda>lost.
      if lost then terminate PeerConnectionFailed
      else seqM (close_old_websocket L) (reconnect L K location)))))"

subsection \<open>Closing and noticing\<close>

definition switching_ready :: "('c, 'w, 'x, 'e) conn \<Rightarrow> bool" where
  "switching_ready s \<longleftrightarrow>
     is_switching_ready (cn_ignore s) (cn_websocket_closed s) (cn_switched_received s) (cn_configs s)
       (cn_opened s)"

text \<open>The head of the loop.\<close>

definition resolve_delay ::
    "('v, 'x, 'c, 'd, 'w, 'e, 'h, 'crt, 'k, 'q) conn_lib \<Rightarrow>
       (('c, 'w, 'x, 'e) conn, ('x, 'e) sora_error, unit) exec" where
  "resolve_delay L =
     modM (\<lambda>s. s\<lparr>cn_delay_start :=
       resolve_ws_disconnect_delay_start (cn_delay_start s) (ws_connected L s) (switching_ready s)
         (cl_instant L (ss_world s))\<rparr>)"

definition delay_elapsed ::
    "('v, 'x, 'c, 'd, 'w, 'e, 'h, 'crt, 'k, 'q) conn_lib \<Rightarrow> ('c, 'w, 'x, 'e) conn \<Rightarrow> bool" where
  "delay_elapsed L s =
     (case cn_delay_start s of
        None \<Rightarrow> False
      | Some start \<Rightarrow> WS_DISCONNECT_DELAY \<le> cl_instant L (ss_world s) - start)"

definition close_after_switch ::
    "('v, 'x, 'c, 'd, 'w, 'e, 'h, 'crt, 'k, 'q) conn_lib \<Rightarrow>
       (('c, 'w, 'x, 'e) conn, ('x, 'e) sora_error, unit) exec" where
  "close_after_switch L =
     ifM (\<lambda>s. switching_ready s \<and> delay_elapsed L s \<and> ws_connected L s)
       (tryM (ws_closeM L ''switching to datachannel'')) (retM ())"

text \<open>The WebSocket was closed: with signaling over data channels the connection goes on without it.\<close>

definition websocket_gone :: "(('c, 'w, 'x, 'e) conn, ('x, 'e) sora_error, flow) exec" where
  "websocket_gone =
     ifM absorbs drop_websocket
       (bindM (getM cn_close_frame) (\<lambda>frame.
        seqM (modM (\<lambda>s. s\<lparr>cn_close_frame := None\<rparr>))
        (seqM (set_disconnect_reason
           (case frame of
              Some (code, reason) \<Rightarrow> disconnect_reason_from_websocket_close code reason
            | None \<Rightarrow> websocket_closed_without_close_frame))
        (retM BreakLoop))))"

definition flush_and_detect_close ::
    "('v, 'x, 'c, 'd, 'w, 'e, 'h, 'crt, 'k, 'q) conn_lib \<Rightarrow>
       (('c, 'w, 'x, 'e) conn, ('x, 'e) sora_error, flow) exec" where
  "flush_and_detect_close L =
     ifM cn_websocket_closed (retM GoOn)
       (bindM (flushM L) (\<lambda>r.
        bindM (case r of
                 Inr emitted \<Rightarrow> retM emitted
               | Inl err \<Rightarrow> ifM absorbs (retM True) (failM err)) (\<lambda>close_emitted.
        ifM (\<lambda>s. close_emitted \<or> ws_state_of (cl_io L) (ss_world s) = WsClosed)
          websocket_gone (retM GoOn))))"

subsection \<open>A round of the loop\<close>

definition after_select ::
    "('v, 'x, 'c, 'd, 'w, 'e, 'h, 'crt, 'k, 'q) conn_lib \<Rightarrow> conn_config \<Rightarrow>
       ((u64 \<rightharpoonup> pending_rpc) \<Rightarrow> u64 list) \<Rightarrow>
       (('c, 'w, 'x, 'e) conn, ('x, 'e) sora_error, flow) exec" where
  "after_select L K order =
     seqM (ws_events L K)
     (bindM (getM cn_redirect_location) (\<lambda>redirect_location.
      case redirect_location of
        Some location \<Rightarrow>
          seqM (modM (\<lambda>s. s\<lparr>cn_redirect_location := None\<rparr>)) (handle_redirect L K order location)
      | None \<Rightarrow> seqM (close_after_switch L) (flush_and_detect_close L)))"

definition loop_round ::
    "('v, 'x, 'c, 'd, 'w, 'e, 'h, 'crt, 'k, 'q) conn_lib \<Rightarrow> conn_config \<Rightarrow>
       ((u64 \<rightharpoonup> pending_rpc) \<Rightarrow> u64 list) \<Rightarrow> select_branch \<Rightarrow>
       (('c, 'w, 'x, 'e) conn, ('x, 'e) sora_error, flow) exec" where
  "loop_round L K order branch =
     bindM (select_branchM L K branch) (\<lambda>flow.
     case flow of
       GoOn \<Rightarrow> after_select L K order
     | _ \<Rightarrow> retM flow)"

end
