(* ===== verification/Connection.thy ===== *)
theory Connection
  imports Conn_Websocket
begin

text \<open>
  A whole connection, \<^verbatim>\<open>run\<close> of \<^verbatim>\<open>src/connection.rs\<close>: how it starts, the loop together with the world
  around it as a step relation, and how it ends.
\<close>

subsection \<open>The start\<close>

text \<open>\<^verbatim>\<open>SoraConnection::new\<close>: the tracks and transforms are the ones of the settings.\<close>

definition connection_new ::
    "'w \<Rightarrow> nat option \<Rightarrow> nat option \<Rightarrow> nat option \<Rightarrow> nat option \<Rightarrow> ('c, 'w, 'x, 'e) conn" where
  "connection_new w video_track audio_track sender_transform receiver_transform =
     \<lparr>ss_world = w, ss_sender_video_track = video_track, ss_sender_audio_track = audio_track,
      ss_sender_video_transform = sender_transform, ss_offer_simulcast = False,
      ss_simulcast_encodings = [], ss_video_sender = None, ss_audio_sender = None,
      ss_sender_video_frame_transformer = None,
      cn_stream = stream_new_plain, cn_timers = timers_new, cn_channels = Map.empty, cn_configs = [],
      cn_receiver_video_transform = receiver_transform, cn_receiver_video_frame_transformer = None,
      cn_commands = [], cn_events = [], cn_pending = Map.empty, cn_rpc_id_counter = 0,
      cn_selected_url = None, cn_connected_url = None, cn_redirect_location = None,
      cn_redirect = False, cn_use_data_channel = False, cn_websocket_closed = False,
      cn_switched_received = False, cn_ignore = False, cn_opened = [], cn_delay_start = None,
      cn_server_close_received = False, cn_user_initiated = False, cn_terminated = False,
      cn_media_path = monitor_new, cn_close_frame = None, cn_reason = None, cn_callbacks = [],
      cn_answers = [], cn_stats = [], cn_grace_timers = [], cn_rpc_timers = []\<rparr>"

definition initial_websocket ::
    "('v, 'x, 'c, 'd, 'w, 'e, 'h, 'crt, 'k, 'q) conn_lib \<Rightarrow> conn_config \<Rightarrow> signaling_target \<Rightarrow>
       (('c, 'w, 'x, 'e) conn, ('x, 'e) sora_error, disconnect_reason option) exec" where
  "initial_websocket L K target =
     seqM (new_websocket L K target)
     (bindM (flushM L) (\<lambda>r.
      bindM (liftM r) (\<lambda>close.
      retM (if close then Some websocket_closed_without_close_frame else None))))"

text \<open>
  \<open>outcomes\<close> are the results of the attempts to connect, in the order in which they end. A reason is the
  result of the whole \<^verbatim>\<open>run\<close>, without a reason the loop begins.
\<close>

definition run_start ::
    "('v, 'x, 'c, 'd, 'w, 'e, 'h, 'crt, 'k, 'q) conn_lib \<Rightarrow> conn_config \<Rightarrow> string list \<Rightarrow>
       (('x, 'e) sora_error \<Rightarrow> string) \<Rightarrow> (client_stream \<times> signaling_target, 'x, 'e) attempt list \<Rightarrow>
       (('c, 'w, 'x, 'e) conn, ('x, 'e) sora_error, disconnect_reason option) exec" where
  "run_start L K signaling_urls error_text outcomes =
     (if signaling_urls = [] then failM SignalingUrlsEmpty
      else
        bindM (liftM (first_connected error_text outcomes [])) (\<lambda>((stream, target), url).
        seqM (modM (\<lambda>s. s\<lparr>cn_stream := stream, cn_selected_url := Some url,
                          cn_connected_url := Some url, cn_timers := timers_new\<rparr>))
          (initial_websocket L K target)))"

subsection \<open>The end\<close>

fun disconnect_acks :: "conn_command list \<Rightarrow> (nat \<times> ('x, 'e) command_answer) list" where
  "disconnect_acks [] = []"
| "disconnect_acks (DisconnectCommand r # commands) = (r, DisconnectAnswer) # disconnect_acks commands"
| "disconnect_acks (command # commands) = disconnect_acks commands"

definition close_command_channel_and_ack_pending_disconnects ::
    "(('c, 'w, 'x, 'e) conn, ('x, 'e) sora_error, unit) exec" where
  "close_command_channel_and_ack_pending_disconnects =
     modM (\<lambda>s.
       let acks = disconnect_acks (cn_commands s) in
       s\<lparr>cn_commands := [], cn_answers := cn_answers s @ acks,
         cn_user_initiated := (cn_user_initiated s \<or> acks \<noteq> [])\<rparr>)"

definition notify_remainingM :: "(('c, 'w, 'x, 'e) conn, ('x, 'e) sora_error, unit) exec" where
  "notify_remainingM =
     modM (\<lambda>s.
       case notify_close_for_remaining (cn_opened s, cn_callbacks s) of
         (opened, cbs) \<Rightarrow> s\<lparr>cn_opened := opened, cn_callbacks := cbs\<rparr>)"

text \<open>\<open>events\<close> is what the wait sees; a list that ends too early means that the wait has not ended yet.\<close>

definition waitM ::
    "('v, 'x, 'c, 'd, 'w, 'e, 'h, 'crt, 'k, 'q) conn_lib \<Rightarrow> (close_wait_event \<times> 'w) list \<Rightarrow>
       (('c, 'w, 'x, 'e) conn, ('x, 'e) sora_error, unit) exec" where
  "waitM L events = (\<lambda>s.
     case wait_data_channels_close (cl_channels L) (cn_channels s) events (cn_opened s, cn_callbacks s) of
       None \<Rightarrow> None
     | Some (result, opened, cbs) \<Rightarrow>
         Some (Inr ((), s\<lparr>cn_channels := Map.empty, cn_opened := opened, cn_callbacks := cbs\<rparr>)))"

definition close_channels ::
    "('v, 'x, 'c, 'd, 'w, 'e, 'h, 'crt, 'k, 'q) conn_lib \<Rightarrow> (close_wait_event \<times> 'w) list \<Rightarrow>
       (('c, 'w, 'x, 'e) conn, ('x, 'e) sora_error, unit) exec" where
  "close_channels L events =
     ifM cn_terminated notify_remainingM
     (ifM (\<lambda>s. cn_use_data_channel s \<and> cn_opened s \<noteq> []) (waitM L events)
     (ifM (\<lambda>s. cn_opened s \<noteq> []) notify_remainingM (retM ())))"

definition absorbs_handshake_errors :: "('c, 'w, 'x, 'e) conn \<Rightarrow> bool" where
  "absorbs_handshake_errors s \<longleftrightarrow>
     absorbs s \<or> cn_user_initiated s \<or>
     (case cn_reason s of Some (WebSocketClosed None text) \<Rightarrow> True | _ \<Rightarrow> False)"

definition final_handshake ::
    "('v, 'x, 'c, 'd, 'w, 'e, 'h, 'crt, 'k, 'q) conn_lib \<Rightarrow>
       (('c, 'w, 'x, 'e) conn, ('x, 'e) sora_error, unit) exec" where
  "final_handshake L =
     ifM cn_websocket_closed (retM ())
       (bindM (getM (\<lambda>s. (cn_server_close_received s, absorbs_handshake_errors s))) (\<lambda>(server, absorb).
        close_websocket_handshake L server absorb))"

text \<open>\<^verbatim>\<open>disconnect_reason.expect(..)\<close>\<close>

definition final_reason :: "(('c, 'w, 'x, 'e) conn, ('x, 'e) sora_error, disconnect_reason) exec" where
  "final_reason =
     bindM (getM cn_reason) (\<lambda>reason.
     case reason of None \<Rightarrow> panicM | Some r \<Rightarrow> retM r)"

definition finish ::
    "('v, 'x, 'c, 'd, 'w, 'e, 'h, 'crt, 'k, 'q) conn_lib \<Rightarrow> (close_wait_event \<times> 'w) list \<Rightarrow>
       (('c, 'w, 'x, 'e) conn, ('x, 'e) sora_error, disconnect_reason) exec" where
  "finish L events =
     seqM close_command_channel_and_ack_pending_disconnects
     (seqM (close_channels L events)
     (seqM (final_handshake L)
     final_reason))"

subsection \<open>The loop and the world around it\<close>

text \<open>The events that only the timers of this crate send.\<close>

fun timer_event :: "'c sora_event \<Rightarrow> bool" where
  "timer_event (DisconnectedTimeoutEvent g) = True"
| "timer_event (RpcTimeoutEvent n) = True"
| "timer_event _ = False"

text \<open>The channels that answers go to: of the commands that wait, of those being worked on, and those used.\<close>

fun stats_channels :: "stats_request list \<Rightarrow> nat list" where
  "stats_channels [] = []"
| "stats_channels (StatsForCommand r # requests) = r # stats_channels requests"
| "stats_channels (request # requests) = stats_channels requests"

definition waiting_channels :: "('c, 'w, 'x, 'e) conn \<Rightarrow> nat set" where
  "waiting_channels s =
     set (stats_channels (cn_stats s)) \<union> {r. \<exists>n p. cn_pending s n = Some p \<and> pr_response p = Some r}"

definition used_channels :: "('c, 'w, 'x, 'e) conn \<Rightarrow> nat set" where
  "used_channels s =
     set (map command_channel (cn_commands s)) \<union> waiting_channels s \<union> set (map fst (cn_answers s))"

text \<open>
  The loop between two rounds. The world changes by itself; the peer connection and the handles send;
  timers fire; reports arrive. A round may take any branch that is ready.
\<close>

inductive conn_step ::
    "('v, 'x, 'c, 'd, 'w, 'e, 'h, 'crt, 'k, 'q) conn_lib \<Rightarrow> conn_config \<Rightarrow>
       ((u64 \<rightharpoonup> pending_rpc) \<Rightarrow> u64 list) \<Rightarrow>
       ('c, 'w, 'x, 'e) conn \<Rightarrow> ('c, 'w, 'x, 'e) conn \<Rightarrow> bool"
  for L K order where
    world: "conn_step L K order s (s\<lparr>ss_world := w\<rparr>)"
  | event: "\<not> timer_event ev \<Longrightarrow> conn_step L K order s (s\<lparr>cn_events := cn_events s @ [ev]\<rparr>)"
  | command: "command_channel command \<notin> used_channels s \<Longrightarrow>
      conn_step L K order s (s\<lparr>cn_commands := cn_commands s @ [command]\<rparr>)"
  | grace_timer: "g \<in> set (cn_grace_timers s) \<Longrightarrow>
      conn_step L K order s (s\<lparr>cn_grace_timers := remove1 g (cn_grace_timers s),
        cn_events := cn_events s @ [DisconnectedTimeoutEvent g]\<rparr>)"
  | rpc_timer: "n \<in> set (cn_rpc_timers s) \<Longrightarrow>
      conn_step L K order s (s\<lparr>cn_rpc_timers := removeAll n (cn_rpc_timers s),
        cn_events := cn_events s @ [RpcTimeoutEvent n]\<rparr>)"
  | stats: "request \<in> set (cn_stats s) \<Longrightarrow>
      stats_done L request report (s\<lparr>cn_stats := remove1 request (cn_stats s)\<rparr>) =
        Some (Inr ((), s')) \<Longrightarrow> conn_step L K order s s'"
  | round: "branch_ready L s branch \<Longrightarrow> loop_round L K order branch s = Some (Inr (flow, s')) \<Longrightarrow>
      flow \<noteq> BreakLoop \<Longrightarrow> resolve_delay L s' = Some (Inr ((), s'')) \<Longrightarrow> conn_step L K order s s''"

text \<open>
  The states of the loop: from a new connection that was started, by any number of steps. The loop is
  left with a round that ends in \<open>BreakLoop\<close>.
\<close>

inductive running ::
    "('v, 'x, 'c, 'd, 'w, 'e, 'h, 'crt, 'k, 'q) conn_lib \<Rightarrow> conn_config \<Rightarrow>
       ((u64 \<rightharpoonup> pending_rpc) \<Rightarrow> u64 list) \<Rightarrow> ('c, 'w, 'x, 'e) conn \<Rightarrow> bool"
  for L K order where
    started: "run_start L K urls error_text outcomes
        (connection_new w video_track audio_track sender_transform receiver_transform) =
          Some (Inr (None, s)) \<Longrightarrow>
      resolve_delay L s = Some (Inr ((), s')) \<Longrightarrow> running L K order s'"
  | step: "running L K order s \<Longrightarrow> conn_step L K order s s' \<Longrightarrow> running L K order s'"

definition leaves ::
    "('v, 'x, 'c, 'd, 'w, 'e, 'h, 'crt, 'k, 'q) conn_lib \<Rightarrow> conn_config \<Rightarrow>
       ((u64 \<rightharpoonup> pending_rpc) \<Rightarrow> u64 list) \<Rightarrow> ('c, 'w, 'x, 'e) conn \<Rightarrow> ('c, 'w, 'x, 'e) conn \<Rightarrow> bool"
  where
    "leaves L K order s s' \<longleftrightarrow>
       (\<exists>branch. branch_ready L s branch \<and>
          loop_round L K order branch s = Some (Inr (BreakLoop, s')))"

end
