(* ===== verification/Conn_Invariants.thy ===== *)
theory Conn_Invariants
  imports Connection
begin

text \<open>
  What a round of the loop keeps: a property of the connection that survives the single updates that the
  handlers make survives a round. The updates are the assumptions of three locales: what all parts
  do, what the WebSocket delivers, and the rest of the round. Each invariant of the connection is an
  interpretation.
\<close>

lemma flow_keeps [exec_rules]:
  "keeps P m \<Longrightarrow> keeps P (nextM m)" "keeps P m \<Longrightarrow> keeps P (goM m)" "keeps P n \<Longrightarrow> keeps P (ignoreM n)"
  unfolding nextM_def goM_def ignoreM_def by (intro exec_rules; assumption)+

lemma more_fields:
  assumes "session.more s = session.more t"
  shows "cn_commands s = cn_commands t" "cn_events s = cn_events t" "cn_pending s = cn_pending t"
    "cn_rpc_id_counter s = cn_rpc_id_counter t" "cn_rpc_timers s = cn_rpc_timers t"
    "cn_answers s = cn_answers t" "cn_stats s = cn_stats t" "cn_callbacks s = cn_callbacks t"
    "cn_opened s = cn_opened t" "cn_reason s = cn_reason t" "cn_websocket_closed s = cn_websocket_closed t"
    "cn_ignore s = cn_ignore t" "cn_use_data_channel s = cn_use_data_channel t"
    "cn_switched_received s = cn_switched_received t"
  using assms by (cases s; cases t; simp)+

lemma frameI:
  fixes P :: "('c, 'w, 'x, 'e) conn \<Rightarrow> bool"
  assumes "\<And>s t. P s \<Longrightarrow>
    cn_commands t = cn_commands s \<Longrightarrow> cn_events t = cn_events s \<Longrightarrow> cn_pending t = cn_pending s \<Longrightarrow>
    cn_rpc_id_counter t = cn_rpc_id_counter s \<Longrightarrow> cn_rpc_timers t = cn_rpc_timers s \<Longrightarrow>
    cn_answers t = cn_answers s \<Longrightarrow> cn_stats t = cn_stats s \<Longrightarrow> cn_callbacks t = cn_callbacks s \<Longrightarrow>
    cn_opened t = cn_opened s \<Longrightarrow> cn_reason t = cn_reason s \<Longrightarrow>
    cn_websocket_closed t = cn_websocket_closed s \<Longrightarrow> cn_ignore t = cn_ignore s \<Longrightarrow>
    cn_use_data_channel t = cn_use_data_channel s \<Longrightarrow> cn_switched_received t = cn_switched_received s \<Longrightarrow> P t"
  shows "frame P"
  unfolding frame_def
proof (intro conjI allI impI)
  fix s t :: "('c, 'w, 'x, 'e) conn"
  assume more: "session.more s = session.more t" and "P s"
  from \<open>P s\<close> show "P t" by (rule assms) (simp_all add: more_fields [OF more])
next
  fix s :: "('c, 'w, 'x, 'e) conn" and stream tm
  assume "P s"
  then show "P (s\<lparr>cn_stream := stream, cn_timers := tm\<rparr>)" by (rule assms) simp_all
qed

lemma frame_conj: "frame P \<Longrightarrow> frame P' \<Longrightarrow> frame (\<lambda>s. P s \<and> P' s)"
  unfolding frame_def by blast

lemma frame_closed: "frame (\<lambda>s. \<not> cn_websocket_closed s)"
  by (auto simp: frame_def dest: more_fields)

subsection \<open>What all parts do\<close>

locale basic_invariant =
  fixes P :: "('c, 'w, 'x, 'e) conn \<Rightarrow> bool"
  assumes framed: "frame P"
    and callback: "channel_free [cb] \<Longrightarrow> P s \<Longrightarrow> P (s\<lparr>cn_callbacks := cn_callbacks s @ [cb]\<rparr>)"
    and stats: "(\<forall>r. request \<noteq> StatsForCommand r) \<Longrightarrow> P s \<Longrightarrow> P (s\<lparr>cn_stats := cn_stats s @ [request]\<rparr>)"
    and reason: "P s \<Longrightarrow> P (s\<lparr>cn_reason := or_else (cn_reason s) (Some v)\<rparr>)"
    and send: "\<not> timer_event ev \<Longrightarrow> P s \<Longrightarrow> P (s\<lparr>cn_events := cn_events s @ [ev]\<rparr>)"
begin

lemma io: "keeps P (worldM f)" "keeps P (readM L)" "keeps P (readUntilM L)" "keeps P (flushM L)"
  "keeps P (ws_closeM L text)" "keeps P (send_websocket_message L m)" "keeps P (send_on_channel L label data)"
  by (rule keeps_io [OF frame_io [OF framed]])+

lemma callback_keeps: "channel_free [cb] \<Longrightarrow> keeps P (callbackM cb)"
  unfolding callbackM_def using callback by (intro exec_rules)

lemma reason_keeps: "keeps P (set_disconnect_reason v)"
  unfolding set_disconnect_reason_def using reason by (intro exec_rules)

lemma stats_keeps: "(\<forall>r. request \<noteq> StatsForCommand r) \<Longrightarrow> keeps P (request_stats L request)"
  unfolding request_stats_def using stats by (intro exec_rules io)

lemma send_keeps: "\<not> timer_event ev \<Longrightarrow> keeps P (sendEventM ev)"
  unfolding sendEventM_def using send by (intro exec_rules)

lemma offer_keeps: "keeps P (handle_offer D K sdp servers)"
  by (rule keeps_handle_offer [OF framed])

lemmas basic_keeps = io callback_keeps reason_keeps stats_keeps send_keeps offer_keeps

lemma signaling_keeps: "keeps P (send_message_for_signaling L m)"
  unfolding send_message_for_signaling_def by (intro exec_rules basic_keeps) (simp_all add: channel_free_def)

end

subsection \<open>What the WebSocket delivers\<close>

locale ws_invariant = basic_invariant P
  for P :: "('c, 'w, 'x, 'e) conn \<Rightarrow> bool" +
  assumes configs: "P s \<Longrightarrow> P (s\<lparr>cn_configs := cs\<rparr>)"
    and switched: "P s \<Longrightarrow> P (s\<lparr>cn_switched_received := True, cn_ignore := iws\<rparr>)"
    and use_channels: "P s \<Longrightarrow> cn_switched_received s \<Longrightarrow> P (s\<lparr>cn_use_data_channel := True\<rparr>)"
    and location: "P s \<Longrightarrow> P (s\<lparr>cn_redirect_location := loc\<rparr>)"
    and close_frame: "P s \<Longrightarrow> P (s\<lparr>cn_close_frame := f\<rparr>)"
begin

lemma send_ws_keeps: "keeps P (send_ws_signaling L message)"
  unfolding send_ws_signaling_def Let_def by (intro exec_rules basic_keeps) (simp add: channel_free_def)

lemma received_keeps: "keeps P (ws_received text)"
  unfolding ws_received_def by (intro callback_keeps) (simp add: channel_free_def)

lemma session_keeps:
  assumes "P s"
  shows "P (s\<lparr>cn_configs := cs, ss_offer_simulcast := b, ss_simulcast_encodings := es\<rparr>)"
  by (rule frame_more [OF framed _ configs [OF assms]]) (simp only: session_more_update)

lemma switched_keeps: "keeps P (ws_switched iws)"
  unfolding ws_switched_def
  using switched use_channels
  by (intro exec_rules callback_keeps) (auto simp: channel_free_def is_data_channel_signaling_ready_def)

lemma ws_message_keeps: "keeps P (handle_ws_message L K text data)"
  unfolding handle_ws_message_def ws_offer_def ws_reoffer_def ws_ping_def
  by (intro exec_rules basic_keeps send_ws_keeps received_keeps session_keeps switched_keeps location)
    (simp_all add: channel_free_def)

lemma ws_event_keeps: "keeps P (handle_ws_event L K ev)"
  unfolding handle_ws_event_def ws_established_def
  by (cases ev)
    (simp_all, intro exec_rules basic_keeps send_ws_keeps ws_message_keeps close_frame; simp add: channel_free_def)+

lemma ws_loop_keeps: "keeps P (loopM (ws_event_round L K))"
  unfolding ws_event_round_def by (intro exec_rules io ws_event_keeps)

end

subsection \<open>A round of the loop\<close>

locale round_base = basic_invariant P
  for P :: "('c, 'w, 'x, 'e) conn \<Rightarrow> bool" +
  fixes L :: "('v, 'x, 'c, 'd, 'w, 'e, 'h, 'crt, 'k, 'q) conn_lib"
  assumes configs: "P s \<Longrightarrow> P (s\<lparr>cn_configs := cs\<rparr>)"
    and switched: "P s \<Longrightarrow> \<not> cn_websocket_closed s \<Longrightarrow> P (s\<lparr>cn_switched_received := True, cn_ignore := iws\<rparr>)"
    and use_channels: "P s \<Longrightarrow> cn_switched_received s \<Longrightarrow> P (s\<lparr>cn_use_data_channel := True\<rparr>)"
    and location: "P s \<Longrightarrow> P (s\<lparr>cn_redirect_location := loc\<rparr>)"
    and close_frame: "P s \<Longrightarrow> P (s\<lparr>cn_close_frame := f\<rparr>)"
    and dropped: "P s \<Longrightarrow> absorbs s \<Longrightarrow> P (s\<lparr>cn_websocket_closed := True\<rparr>)"
    and marks: "P s \<Longrightarrow> P (s\<lparr>cn_terminated := t\<rparr>)" "P s \<Longrightarrow> P (s\<lparr>cn_server_close_received := t\<rparr>)"
    and media: "P s \<Longrightarrow> P (s\<lparr>cn_media_path := m, cn_grace_timers := gs\<rparr>)"
    and channel_state: "keeps P (data_channel_stateM L label)"
    and register: "P s \<Longrightarrow> P (s\<lparr>cn_channels := channels\<rparr>)"
    and receivers: "P s \<Longrightarrow>
      P (s\<lparr>cn_receiver_video_transform := a, cn_receiver_video_frame_transformer := b\<rparr>)"
begin

lemma open_websocket: "ws_invariant (\<lambda>s. P s \<and> \<not> cn_websocket_closed s)"
proof -
  have "frame (\<lambda>s. P s \<and> \<not> cn_websocket_closed s)"
    using framed by (rule frame_conj) (rule frame_closed)
  then show ?thesis
    using callback stats reason send configs switched use_channels location close_frame
    by unfold_locales auto
qed

lemma ws_events_keeps: "keeps P (ws_events L K)"
proof (rule keepsI)
  fix s a s'
  assume "P s" and run: "ws_events L K s = Some (Inr (a, s'))"
  show "P s'"
  proof (cases "cn_websocket_closed s")
    case False
    with \<open>P s\<close> run ws_invariant.ws_loop_keeps [OF open_websocket]
    show ?thesis by (auto simp: ws_events_def dest: keeps_result)
  next
    case True
    with \<open>P s\<close> run show ?thesis by (simp add: ws_events_def)
  qed
qed

lemma drop_keeps: "keeps P (ifM absorbs drop_websocket m)" if "keeps P m"
  using that dropped
  by (auto simp: keeps_def triple_def ifM_def drop_websocket_def bindM_apply)

lemma terminate_keeps: "keeps P (terminate v)"
  unfolding terminate_def by (intro exec_rules reason_keeps marks)

lemma media_keeps: "keeps P (media_pathM state)"
  by (rule keepsI) (auto simp: media_pathM_def split: prod.splits intro: media)

lemma gone_keeps: "keeps P websocket_gone"
  unfolding websocket_gone_def by (intro drop_keeps exec_rules reason_keeps close_frame)

lemma read_keeps: "keeps P (read_branch L)"
  unfolding read_branch_def read_eof_def by (intro drop_keeps exec_rules basic_keeps)

lemma after_keeps: "keeps P (close_after_switch L)" "keeps P (flush_and_detect_close L)"
  unfolding close_after_switch_def flush_and_detect_close_def
  by (intro exec_rules basic_keeps gone_keeps; simp)+

lemma register_keeps: "keeps P (registerM L channel)"
proof (rule keepsI)
  fix s a s'
  assume "P s" and run: "registerM L channel s = Some (Inr (a, s'))"
  obtain channels announce where reg: "register_data_channel (cl_channels L) (ss_world s) (cn_configs s)
      channel (cn_channels s) = (channels, announce)" by fastforce
  from \<open>P s\<close> have ch: "P (s\<lparr>cn_channels := channels\<rparr>)" by (rule register)
  have "P (s\<lparr>cn_channels := channels,
      cn_events := cn_events s @ (case announce of None \<Rightarrow> [] | Some l \<Rightarrow> [DataChannelStateChangeEvent l])\<rparr>)"
  proof (cases announce)
    case None
    with ch show ?thesis by simp
  next
    case (Some l)
    with send [OF _ ch, of "DataChannelStateChangeEvent l"] show ?thesis by simp
  qed
  with run reg show "P s'" by (simp add: registerM_def)
qed

lemma track_keeps: "keeps P (track_event L transceiver is_video)"
  unfolding track_event_def receiver_transformer_def
  by (intro exec_rules basic_keeps receivers) (simp_all add: channel_free_def)

end

text \<open>
  \<open>P\<close> holds between the rounds, \<open>Q\<close> when the loop is left. What concerns the calls of the handles (the
  commands, their answers and what is pending) is assumed for whole handlers.
\<close>

locale loop_invariant = round_base P L
  for P :: "('c, 'w, 'x, 'e) conn \<Rightarrow> bool"
    and L :: "('v, 'x, 'c, 'd, 'w, 'e, 'h, 'crt, 'k, 'q) conn_lib" +
  fixes Q :: "('c, 'w, 'x, 'e) conn \<Rightarrow> bool"
    and order :: "(u64 \<rightharpoonup> pending_rpc) \<Rightarrow> u64 list"
  assumes leaving: "P s \<Longrightarrow> Q s"
    and pop_event: "P s \<Longrightarrow> cn_events s = ev # evs \<Longrightarrow> (\<forall>n. ev \<noteq> RpcTimeoutEvent n) \<Longrightarrow>
      P (s\<lparr>cn_events := evs\<rparr>)"
    and timeout: "P s \<Longrightarrow> cn_events s = RpcTimeoutEvent n # evs \<Longrightarrow>
      finish_rpc n (Inl RpcTimeout) (s\<lparr>cn_events := evs\<rparr>) = Some (Inr ((), s')) \<Longrightarrow> P s'"
    and rpc: "result \<noteq> Inr None \<Longrightarrow> keeps P (finish_rpc n result)"
    and command: "P s \<Longrightarrow> cn_commands s = c # commands \<Longrightarrow>
      handle_command L c (s\<lparr>cn_commands := commands\<rparr>) = Some (Inr (flow, s')) \<Longrightarrow> P s'"
    and redirect: "P s \<Longrightarrow> handle_redirect L K order l s = Some (Inr (flow, s')) \<Longrightarrow>
      if flow = BreakLoop then Q s' else P s'"
begin

lemma message_keeps: "keeps P (handle_data_channel_message L K label data)"
  by (rule channel_message_keeps [OF framed]) (auto intro: callback stats rpc)

lemma event_keeps: "keeps P (handle_event L K ev)"
proof -
  have state: "keeps P (channel_state_event L label)" for label
    unfolding channel_state_event_def
    by (intro exec_rules channel_state) (auto split: data_channel_state_result.split intro!: exec_rules terminate_keeps)
  have data: "keeps P (data_channel_message_event L K label data)" for label data
    unfolding data_channel_message_event_def
    by (intro exec_rules message_keeps)
      (auto split: data_channel_message_result.split intro!: exec_rules marks reason_keeps)
  have reg: "keeps P (register_event L channel)" for channel
    unfolding register_event_def
    by (intro exec_rules register_keeps state callback_keeps) (simp add: channel_free_def)
  have change: "keeps P (connection_change_event state)" for state
    unfolding connection_change_event_def
    by (intro exec_rules media_keeps terminate_keeps callback_keeps) (simp add: channel_free_def)
  show ?thesis
    unfolding handle_event_def
    by (cases ev)
      (simp_all, intro exec_rules basic_keeps signaling_keeps state data reg change track_keeps terminate_keeps
         rpc; simp add: channel_free_def)+
qed

lemma select_keeps: "keeps P (select_branchM L K branch)"
proof (rule keepsI)
  fix s flow s'
  assume "P s" and run: "select_branchM L K branch s = Some (Inr (flow, s'))"
  show "P s'"
  proof (cases branch)
    case ReadBranch
    with run \<open>P s\<close> keeps_result [OF read_keeps] show ?thesis by (simp add: select_branchM_def)
  next
    case (TimerBranch i)
    have "keeps P (timer_branch L i)"
      unfolding timer_branch_def by (intro exec_rules io)
    with TimerBranch run \<open>P s\<close> show ?thesis by (auto simp: select_branchM_def dest: keeps_result)
  next
    case EventBranch
    show ?thesis
    proof (cases "cn_events s")
      case Nil
      with EventBranch run \<open>P s\<close> show ?thesis by (simp add: select_branchM_def bindM_apply)
    next
      case (Cons ev evs)
      with EventBranch run have handle: "handle_event L K ev (s\<lparr>cn_events := evs\<rparr>) = Some (Inr (flow, s'))"
        by (simp add: select_branchM_def bindM_apply)
      show ?thesis
      proof (cases "\<exists>n. ev = RpcTimeoutEvent n")
        case True
        with handle timeout [OF \<open>P s\<close>] Cons show ?thesis
          by (auto simp: handle_event_def goM_def seqM_Inr)
      next
        case False
        with pop_event [OF \<open>P s\<close> Cons] handle event_keeps show ?thesis by (auto dest: keeps_result)
      qed
    qed
  next
    case CommandBranch
    with run \<open>P s\<close> command [OF \<open>P s\<close>] show ?thesis
      by (cases "cn_commands s") (auto simp: select_branchM_def bindM_apply)
  next
    case DelayBranch
    with run \<open>P s\<close> show ?thesis by (simp add: select_branchM_def)
  qed
qed

theorem round_keeps:
  assumes "P s" and run: "loop_round L K order branch s = Some (Inr (flow, s'))"
  shows "if flow = BreakLoop then Q s' else P s'"
proof -
  from run obtain f s1 where select: "select_branchM L K branch s = Some (Inr (f, s1))"
    and rest: "(case f of GoOn \<Rightarrow> after_select L K order | _ \<Rightarrow> retM f) s1 = Some (Inr (flow, s'))"
    by (auto simp: loop_round_def bindM_Inr)
  from select \<open>P s\<close> select_keeps have s1: "P s1" by (auto dest: keeps_result)
  show ?thesis
  proof (cases "f = GoOn")
    case True
    with rest obtain s2 where ws: "ws_events L K s1 = Some (Inr ((), s2))"
      and rest: "(case cn_redirect_location s2 of
          Some l \<Rightarrow> seqM (modM (\<lambda>s. s\<lparr>cn_redirect_location := None\<rparr>)) (handle_redirect L K order l)
        | None \<Rightarrow> seqM (close_after_switch L) (flush_and_detect_close L)) s2 = Some (Inr (flow, s'))"
      by (auto simp: after_select_def seqM_Inr bindM_apply)
    from ws s1 ws_events_keeps have s2: "P s2" by (auto dest: keeps_result)
    show ?thesis
    proof (cases "cn_redirect_location s2")
      case None
      have "keeps P (seqM (close_after_switch L) (flush_and_detect_close L))"
        by (intro exec_rules after_keeps)
      with None rest s2 have "P s'" by (auto dest: keeps_result)
      with leaving show ?thesis by simp
    next
      case (Some l)
      with rest have "handle_redirect L K order l (s2\<lparr>cn_redirect_location := None\<rparr>) = Some (Inr (flow, s'))"
        by (simp add: bindM_apply)
      with redirect location [OF s2] show ?thesis by blast
    qed
  next
    case False
    with rest s1 leaving show ?thesis by (cases f) simp_all
  qed
qed

end

subsection \<open>The session that a redirect resets\<close>

locale session_invariant = round_base P L
  for P :: "('c, 'w, 'x, 'e) conn \<Rightarrow> bool"
    and L :: "('v, 'x, 'c, 'd, 'w, 'e, 'h, 'crt, 'k, 'q) conn_lib" +
  assumes events: "P s \<Longrightarrow> P (s\<lparr>cn_events := es\<rparr>)"
    and closing: "P s \<Longrightarrow>
      P (s\<lparr>cn_callbacks := cn_callbacks s @ map OnDataChannelClose (cn_opened s), cn_opened := []\<rparr>)"
    and reset: "P s \<Longrightarrow> P (s\<lparr>cn_switched_received := False, cn_ignore := False,
      cn_use_data_channel := False, cn_close_frame := None\<rparr>)"
    and connected: "P s \<Longrightarrow> P (s\<lparr>cn_connected_url := u\<rparr>)"
    and reopened: "P s \<Longrightarrow> P (s\<lparr>cn_websocket_closed := False, cn_redirect := True\<rparr>)"
begin

lemma close_opened_keeps: "keeps P close_opened"
  unfolding close_opened_def by (intro exec_rules closing)

lemma drain_events_keeps: "keeps P (drain_events evs)"
proof (induction evs)
  case (Cons ev evs)
  then show ?case
    by (cases ev) (simp_all, (intro exec_rules media_keeps events; assumption)+)
qed (simp only: drain_events.simps, rule exec_rules)

lemma close_old_keeps: "keeps P (close_old_websocket L)"
  unfolding close_old_websocket_def by (intro exec_rules io)

lemma world_update:
  assumes "P s"
  shows "P (s\<lparr>ss_world := w\<rparr>)" "P (s\<lparr>cn_timers := tm, ss_world := w\<rparr>)" "P (s\<lparr>cn_stream := stream\<rparr>)"
  using io_stable_update [OF frame_io [OF framed] assms] by blast+

lemma reconnect_keeps: "keeps P (reconnect L K location)"
proof -
  have "keeps P (connectM L K target)" for target
    by (rule keepsI) (auto simp: connectM_def liftM_Inr split: option.splits prod.splits intro: world_update)
  moreover have "keeps P (new_timers L)"
    by (rule keepsI) (auto simp: new_timers_def intro: world_update)
  moreover have "P (s\<lparr>cn_stream := stream, cn_connected_url := u\<rparr>)" if "P s" for s stream u
    by (rule connected [OF world_update(3) [OF that]])
  ultimately show ?thesis
    unfolding reconnect_def new_websocket_def by (intro exec_rules io reason_keeps reopened)
qed

lemma redirect_keeps:
  assumes "keeps P (drain_pending order)"
  shows "keeps P (handle_redirect L K order location)"
proof -
  have "P (s\<lparr>cn_channels := channels, cn_configs := cs\<rparr>)" if "P s" for s channels cs
    by (rule configs [OF register [OF that]])
  then show ?thesis
    unfolding handle_redirect_def reset_session_def
    by (intro exec_rules reset close_opened_keeps assms drain_events_keeps terminate_keeps
        close_old_keeps reconnect_keeps)
qed

end

subsection \<open>Properties that do not look at the calls\<close>

locale plain_invariant = session_invariant P L
  for P :: "('c, 'w, 'x, 'e) conn \<Rightarrow> bool"
    and L :: "('v, 'x, 'c, 'd, 'w, 'e, 'h, 'crt, 'k, 'q) conn_lib" +
  assumes calls: "P s \<Longrightarrow>
      P (s\<lparr>cn_commands := c, cn_answers := as, cn_pending := p, cn_rpc_timers := ts,
           cn_rpc_id_counter := n, cn_stats := qs\<rparr>)"
    and user: "P s \<Longrightarrow> P (s\<lparr>cn_user_initiated := b\<rparr>)"
    and delay: "P s \<Longrightarrow> P (s\<lparr>cn_delay_start := d\<rparr>)"
begin

lemma calls_single:
  assumes "P s"
  shows "P (s\<lparr>cn_commands := c\<rparr>)" "P (s\<lparr>cn_answers := as\<rparr>)" "P (s\<lparr>cn_rpc_id_counter := n\<rparr>)"
    "P (s\<lparr>cn_stats := qs\<rparr>)" "P (s\<lparr>cn_pending := p, cn_rpc_timers := ts\<rparr>)"
    "P (s\<lparr>cn_answers := as, cn_pending := p, cn_rpc_timers := ts, cn_rpc_id_counter := n\<rparr>)"
proof -
  show "P (s\<lparr>cn_commands := c\<rparr>)"
    using calls [OF assms, where c = c and n = "cn_rpc_id_counter s" and p = "cn_pending s" and ts = "cn_rpc_timers s" and qs = "cn_stats s" and as = "cn_answers s"] by simp
  show "P (s\<lparr>cn_answers := as\<rparr>)"
    using calls [OF assms, where c = "cn_commands s" and n = "cn_rpc_id_counter s" and p = "cn_pending s" and ts = "cn_rpc_timers s" and qs = "cn_stats s" and as = as] by simp
  show "P (s\<lparr>cn_rpc_id_counter := n\<rparr>)"
    using calls [OF assms, where c = "cn_commands s" and n = n and p = "cn_pending s" and ts = "cn_rpc_timers s" and qs = "cn_stats s" and as = "cn_answers s"] by simp
  show "P (s\<lparr>cn_stats := qs\<rparr>)"
    using calls [OF assms, where c = "cn_commands s" and n = "cn_rpc_id_counter s" and p = "cn_pending s" and ts = "cn_rpc_timers s" and qs = qs and as = "cn_answers s"] by simp
  show "P (s\<lparr>cn_pending := p, cn_rpc_timers := ts\<rparr>)"
    using calls [OF assms, where c = "cn_commands s" and n = "cn_rpc_id_counter s" and p = p and ts = ts and qs = "cn_stats s" and as = "cn_answers s"] by simp
  show "P (s\<lparr>cn_answers := as, cn_pending := p, cn_rpc_timers := ts, cn_rpc_id_counter := n\<rparr>)"
    using calls [OF assms, where c = "cn_commands s" and n = n and p = p and ts = ts and qs = "cn_stats s" and as = as] by simp
qed

lemma answer_keeps: "keeps P (answerM r a)"
  unfolding answerM_def by (intro exec_rules calls_single)

lemma rpc_keeps: "keeps P (finish_rpc n r)"
  unfolding finish_rpc_def by (intro exec_rules answer_keeps calls_single)

lemma request_keeps: "keeps P (request_stats L request)"
  unfolding request_stats_def by (intro exec_rules io calls_single)

lemma command_keeps: "keeps P (handle_command L c)"
proof -
  have "keeps P (rpc_command L m params notification r)" for m params notification r
    unfolding rpc_command_def by (intro exec_rules io answer_keeps calls_single)
  moreover have "keeps P (send_message_command L label data r)" for label data r
    unfolding send_message_command_def by (intro exec_rules io answer_keeps)
  moreover have "keeps P (disconnect_command L r)" for r
    unfolding disconnect_command_def
    by (intro exec_rules signaling_keeps close_opened_keeps answer_keeps reason_keeps user)
  ultimately show ?thesis
    unfolding handle_command_def
    by (cases c) (simp_all, (intro exec_rules request_keeps answer_keeps)+)
qed

lemma drain_pending_keeps: "keeps P (drain_pending order)"
  unfolding drain_pending_def by (intro exec_rules calls_single)

end

sublocale plain_invariant \<subseteq> loop_invariant P L P order
  for order :: "(u64 \<rightharpoonup> pending_rpc) \<Rightarrow> u64 list"
proof unfold_locales
  fix s n evs s'
  assume "P s" and "finish_rpc n (Inl RpcTimeout) (s\<lparr>cn_events := evs\<rparr>) = Some (Inr ((), s'))"
  with events rpc_keeps show "P s'" by (blast dest: keeps_result)
next
  fix s c commands flow s'
  assume "P s" and "handle_command L c (s\<lparr>cn_commands := commands\<rparr>) = Some (Inr (flow, s'))"
  with calls_single(1) command_keeps show "P s'" by (blast dest: keeps_result)
next
  fix s K l flow s'
  assume "P s" and "handle_redirect L K order l s = Some (Inr (flow, s'))"
  with redirect_keeps [OF drain_pending_keeps] show "if flow = BreakLoop then P s' else P s'" by (auto dest: keeps_result)
qed (auto intro: events rpc_keeps)

subsection \<open>The whole loop\<close>

locale step_invariant = loop_invariant P L Q order
  for P :: "('c, 'w, 'x, 'e) conn \<Rightarrow> bool"
    and L :: "('v, 'x, 'c, 'd, 'w, 'e, 'h, 'crt, 'k, 'q) conn_lib"
    and Q :: "('c, 'w, 'x, 'e) conn \<Rightarrow> bool"
    and order :: "(u64 \<rightharpoonup> pending_rpc) \<Rightarrow> u64 list" +
  assumes asked: "P s \<Longrightarrow> command_channel c \<notin> used_channels s \<Longrightarrow> P (s\<lparr>cn_commands := cn_commands s @ [c]\<rparr>)"
    and grace: "P s \<Longrightarrow> P (s\<lparr>cn_grace_timers := gs, cn_events := cn_events s @ [DisconnectedTimeoutEvent g]\<rparr>)"
    and rpc_timer: "P s \<Longrightarrow> n \<in> set (cn_rpc_timers s) \<Longrightarrow>
      P (s\<lparr>cn_rpc_timers := removeAll n (cn_rpc_timers s), cn_events := cn_events s @ [RpcTimeoutEvent n]\<rparr>)"
    and reported: "P s \<Longrightarrow> request \<in> set (cn_stats s) \<Longrightarrow>
      stats_done L request report (s\<lparr>cn_stats := remove1 request (cn_stats s)\<rparr>) = Some (Inr ((), s')) \<Longrightarrow> P s'"
    and delayed: "P s \<Longrightarrow> P (s\<lparr>cn_delay_start := d\<rparr>)"
begin

lemma step_keeps: "conn_step L K order s s' \<Longrightarrow> P s \<Longrightarrow> P s'"
proof (induction rule: conn_step.induct)
  case (world s w)
  then show ?case using io_stable_update(3) [OF frame_io [OF framed]] by blast
next
  case (round s branch flow s' s'')
  from round_keeps [OF round.prems round.hyps(2)] round.hyps(3) have "P s'" by simp
  with round.hyps(4) delayed show ?case by (auto simp: resolve_delay_def)
qed (auto intro: send asked grace rpc_timer reported)

lemma running_keeps:
  assumes "running L K order s"
    and start: "\<And>w vt at st rt selected connected.
      P ((connection_new w vt at st rt)\<lparr>cn_selected_url := selected, cn_connected_url := connected\<rparr>)"
  shows "P s"
  using assms(1)
proof induction
  case (started urls error_text outcomes w vt at st rt s s')
  let ?new = "connection_new w vt at st rt"
  have "\<exists>stream target url. initial_websocket L K target
      (?new\<lparr>cn_stream := stream, cn_selected_url := Some url, cn_connected_url := Some url,
         cn_timers := timers_new\<rparr>) = Some (Inr (None, s))"
    using started(1)
    by (auto simp: run_start_def bindM_Inr liftM_Inr bindM_apply split: if_splits prod.splits)
  then obtain stream target url where init: "initial_websocket L K target
      (?new\<lparr>cn_stream := stream, cn_selected_url := Some url, cn_connected_url := Some url,
         cn_timers := timers_new\<rparr>) = Some (Inr (None, s))" by blast
  have eq: "?new\<lparr>cn_stream := stream, cn_selected_url := Some url, cn_connected_url := Some url,
      cn_timers := timers_new\<rparr> =
    ?new\<lparr>cn_selected_url := Some url, cn_connected_url := Some url, cn_stream := stream,
      cn_timers := timers_new, ss_world := w\<rparr>" by (simp add: connection_new_def)
  have "P (?new\<lparr>cn_selected_url := Some url, cn_connected_url := Some url, cn_stream := stream,
      cn_timers := timers_new, ss_world := w\<rparr>)"
    using frame_io [OF framed] start unfolding io_stable_def by blast
  moreover have "keeps P (initial_websocket L K target)"
    unfolding initial_websocket_def new_websocket_def by (intro exec_rules io)
  ultimately have "P s" using init unfolding eq by (auto dest: keeps_result)
  with started(2) delayed show ?case by (auto simp: resolve_delay_def)
next
  case (step s s')
  then show ?case by (blast intro: step_keeps)
qed

end

lemma stats_done_cases:
  fixes L :: "('v, 'x, 'c, 'd, 'w, 'e, 'h, 'crt, 'k, 'q) conn_lib"
  assumes "stats_done L request report s = Some (Inr ((), s'))"
  obtains (answered) r where "request = StatsForCommand r"
      "s' = s\<lparr>cn_answers := cn_answers s @ [(r, StatsAnswer (report_to_json_string L report))]\<rparr>"
  | (sent) ev where "\<not> timer_event ev" "\<forall>r. request \<noteq> StatsForCommand r"
      "s' = s\<lparr>cn_events := cn_events s @ [ev]\<rparr>"
  | (dropped) "\<forall>r. request \<noteq> StatsForCommand r" "s' = s"
proof (cases request)
  case (StatsForCommand r)
  with assms show thesis by (intro answered) (auto simp: answerM_def)
next
  case StatsForPong
  with assms show thesis
    by (intro sent [of "SendWebSocketMessageEvent (cl_json_text L (outgoing_to_json
      (Pong (ok_opt (report_to_json_string L report :: ('x, 'e) sora_error + _)))))"])
      (auto simp: sendEventM_def)
next
  case StatsForStats
  show thesis
  proof (cases "report_to_json_string L report :: ('x, 'e) sora_error + _")
    case (Inl err)
    with assms StatsForStats show thesis by (intro dropped) simp_all
  next
    case (Inr reports)
    with assms StatsForStats show thesis
      by (intro sent [of "SendWebSocketMessageEvent (cl_json_text L (outgoing_to_json (Stats reports)))"])
        (auto simp: sendEventM_def)
  qed
next
  case StatsForChannelPong
  with assms show thesis
    by (intro sent [of "SendDataChannelMessageEvent ''signaling'' (cl_json_text L (outgoing_to_json
      (Pong (ok_opt (report_to_json_string L report :: ('x, 'e) sora_error + _)))))"])
      (auto simp: sendEventM_def)
next
  case StatsForChannelStats
  show thesis
  proof (cases "report_to_json_string L report :: ('x, 'e) sora_error + _")
    case (Inl err)
    with assms StatsForChannelStats show thesis by (intro dropped) simp_all
  next
    case (Inr reports)
    with assms StatsForChannelStats show thesis
      by (intro sent [of "SendDataChannelMessageEvent ''stats'' (cl_json_text L (outgoing_to_json (Stats reports)))"])
        (auto simp: sendEventM_def)
  qed
qed

sublocale plain_invariant \<subseteq> step_invariant P L P order
  for order :: "(u64 \<rightharpoonup> pending_rpc) \<Rightarrow> u64 list"
proof unfold_locales
  fix s gs g
  assume "P s"
  from media [OF this, where m = "cn_media_path s" and gs = gs] have "P (s\<lparr>cn_grace_timers := gs\<rparr>)" by simp
  then show "P (s\<lparr>cn_grace_timers := gs, cn_events := cn_events s @ [DisconnectedTimeoutEvent g]\<rparr>)"
    by (rule events)
next
  fix s n
  assume "P s"
  from calls_single(5) [OF this, where p = "cn_pending s" and ts = "removeAll n (cn_rpc_timers s)"]
  have "P (s\<lparr>cn_rpc_timers := removeAll n (cn_rpc_timers s)\<rparr>)" by simp
  then show "P (s\<lparr>cn_rpc_timers := removeAll n (cn_rpc_timers s),
      cn_events := cn_events s @ [RpcTimeoutEvent n]\<rparr>)" by (rule events)
next
  fix s request report s'
  assume "P s" and "stats_done L request report (s\<lparr>cn_stats := remove1 request (cn_stats s)\<rparr>) = Some (Inr ((), s'))"
  note s' = this(2) and s = calls_single(4) [OF \<open>P s\<close>]
  from s' show "P s'"
    by (rule stats_done_cases) (simp_all add: calls_single events s)
qed (auto intro: calls_single delay)

end
