(* ===== verification/Conn_Properties.thy ===== *)
theory Conn_Properties
  imports Conn_Invariants
begin

text \<open>
  The invariants of the loop, as interpretations of the locales of \<open>Conn_Invariants\<close>, and what they say of
  a whole connection.
\<close>

subsection \<open>Channels\<close>

text \<open>
  The handler has seen each open label opened and each closed one closed; signaling runs over data
  channels only after the server announced it.
\<close>

definition channels_consistent :: "('c, 'w, 'x, 'e) conn \<Rightarrow> bool" where
  "channels_consistent s \<longleftrightarrow>
     callbacks_match (cn_opened s) (cn_callbacks s) \<and> (cn_use_data_channel s \<longrightarrow> cn_switched_received s)"

lemma callbacks_match_all:
  assumes "callbacks_match opened cbs"
  shows "callbacks_match [] (cbs @ map OnDataChannelClose opened)"
proof -
  have "channel_open_after l (map OnDataChannelClose ls) (l \<in> set ls) = Some False" if "distinct ls" for l ls
    using that
  proof (induction ls)
    case (Cons k ls)
    then show ?case by (cases "k = l") auto
  qed simp
  with assms show ?thesis by (auto simp: callbacks_match_def channel_open_after_append)
qed

lemma channel_state_consistent:
  fixes L :: "('v, 'x, 'c, 'd, 'w, 'e, 'h, 'crt, 'k, 'q) conn_lib"
  shows "keeps channels_consistent (data_channel_stateM L label)"
proof (rule keepsI)
  fix s :: "('c, 'w, 'x, 'e) conn" and r s'
  assume s: "channels_consistent s" and run: "data_channel_stateM L label s = Some (Inr (r, s'))"
  let ?v = "\<lparr>cv_opened = cn_opened s, cv_use_data_channel = cn_use_data_channel s, cv_callbacks = cn_callbacks s\<rparr>"
  obtain r' v where h: "handle_data_channel_state (cl_channels L) (ss_world s) (cn_channels s) (cn_configs s)
      (cn_switched_received s) label ?v = (r', v)" by fastforce
  from s handle_state_match [OF _ h] have "callbacks_match (cv_opened v) (cv_callbacks v)"
    by (simp add: channels_consistent_def)
  moreover from h have "cv_use_data_channel v \<Longrightarrow> cn_use_data_channel s \<or> cn_switched_received s"
    by (auto simp: handle_data_channel_state_def is_data_channel_signaling_ready_def Let_def
        notify_data_channel_closed_def split: if_splits)
  ultimately show "channels_consistent s'"
    using s run h by (auto simp: data_channel_stateM_def channels_consistent_def)
qed

interpretation channels: plain_invariant channels_consistent L
  for L :: "('v, 'x, 'c, 'd, 'w, 'e, 'h, 'crt, 'k, 'q) conn_lib"
proof unfold_locales
  show "frame channels_consistent"
    by (rule frameI) (simp add: channels_consistent_def)
  show "keeps channels_consistent (data_channel_stateM L label)" for label
    by (rule channel_state_consistent)
qed (auto simp: channels_consistent_def callbacks_match_free callbacks_match_all)

subsection \<open>The reason\<close>

text \<open>A statement that only leaves the loop with a reason.\<close>

definition decides :: "(('c, 'w, 'x, 'e) conn, ('x, 'e) sora_error, flow) exec \<Rightarrow> bool" where
  "decides m \<longleftrightarrow> (\<forall>s s'. m s = Some (Inr (BreakLoop, s')) \<longrightarrow> cn_reason s' \<noteq> None)"

lemma decides_reason:
  "decides (seqM (set_disconnect_reason v) (retM BreakLoop))"
  "decides (terminate v)"
  "decides drop_websocket"
  "decides (goM m')"
  by (auto simp: decides_def seqM_Inr goM_def set_disconnect_reason_def terminate_def
      drop_websocket_def or_else_def split: option.splits)

lemma decides_rules:
  "(\<And>a. decides (f a)) \<Longrightarrow> decides (bindM b f)"
  "decides n \<Longrightarrow> decides (seqM m' n)"
  "flow \<noteq> BreakLoop \<Longrightarrow> decides (retM flow)"
  "decides (failM err)"
  "decides panicM"
  by (auto simp: decides_def bindM_Inr seqM_Inr)

lemma decides_if: "decides m \<Longrightarrow> decides n \<Longrightarrow> decides (ifM b m n)"
  by (simp add: decides_def ifM_def)

lemma decides_cases:
  "(c \<Longrightarrow> decides m) \<Longrightarrow> (\<not> c \<Longrightarrow> decides n) \<Longrightarrow> decides (if c then m else n)"
  "(x = None \<Longrightarrow> decides m) \<Longrightarrow> (\<And>a. x = Some a \<Longrightarrow> decides (g a)) \<Longrightarrow> decides (case_option m g x)"
  "(\<And>err. y = Inl err \<Longrightarrow> decides (h err)) \<Longrightarrow> (\<And>b. y = Inr b \<Longrightarrow> decides (k b)) \<Longrightarrow>
     decides (case_sum h k y)"
  "(\<And>a b. z = (a, b) \<Longrightarrow> decides (q a b)) \<Longrightarrow> decides (case_prod q z)"
  "(l = [] \<Longrightarrow> decides m) \<Longrightarrow> (\<And>c cs. l = c # cs \<Longrightarrow> decides (i c cs)) \<Longrightarrow> decides (case_list m i l)"
  "decides m \<Longrightarrow> decides n \<Longrightarrow>
     decides (case d of ContinueConnection \<Rightarrow> m | TerminateConnection \<Rightarrow> n)"
  by (auto split: option.split sum.split prod.split list.split data_channel_state_result.split)

lemma data_message_decides: "decides (data_channel_message_event L K label data)"
  unfolding data_channel_message_event_def
  by (rule decides_rules) (auto intro: decides_reason decides_rules split: data_channel_message_result.split)

lemma event_decides: "decides (handle_event L K ev)"
  unfolding handle_event_def track_event_def register_event_def connection_change_event_def
    channel_state_event_def
  by (cases ev)
    (simp_all, (rule decides_reason data_message_decides decides_cases decides_if decides_rules | simp)+)

lemma command_decides: "decides (handle_command L c)"
  unfolding handle_command_def disconnect_command_def rpc_command_def send_message_command_def
  by (cases c) (simp_all, (rule decides_reason decides_cases decides_if decides_rules | simp)+)

lemma select_decides: "decides (select_branchM L K branch)"
  unfolding select_branchM_def read_branch_def read_eof_def timer_branch_def
  by (cases branch)
    (simp_all, (rule decides_reason decides_cases decides_if event_decides command_decides decides_rules | simp)+)

lemma after_select_decides: "decides (after_select L K order)"
  unfolding after_select_def handle_redirect_def reconnect_def flush_and_detect_close_def
    websocket_gone_def
  by (rule decides_reason decides_cases decides_if decides_rules | simp)+

lemma round_decides: "decides (loop_round L K order branch)"
  unfolding decides_def
proof (intro allI impI)
  fix s s'
  assume "loop_round L K order branch s = Some (Inr (BreakLoop, s'))"
  then obtain f s1 where "select_branchM L K branch s = Some (Inr (f, s1))"
    "(case f of GoOn \<Rightarrow> after_select L K order | _ \<Rightarrow> retM f) s1 = Some (Inr (BreakLoop, s'))"
    unfolding loop_round_def bindM_Inr by blast
  with select_decides [of L K branch] after_select_decides [of L K order] show "cn_reason s' \<noteq> None"
    by (cases f) (auto simp: decides_def)
qed

definition reason_is :: "disconnect_reason \<Rightarrow> ('c, 'w, 'x, 'e) conn \<Rightarrow> bool" where
  "reason_is r s \<longleftrightarrow> cn_reason s = Some r"

interpretation reason: plain_invariant "reason_is r" L
  for r :: disconnect_reason and L :: "('v, 'x, 'c, 'd, 'w, 'e, 'h, 'crt, 'k, 'q) conn_lib"
proof unfold_locales
  show "frame (reason_is r)" by (rule frameI) (simp add: reason_is_def)
  show "keeps (reason_is r) (data_channel_stateM L label)" for label
    by (rule keepsI) (auto simp: data_channel_stateM_def reason_is_def split: prod.splits)
qed (simp_all add: reason_is_def or_else_def)

subsection \<open>The end of a connection\<close>

lemma seqM_elim:
  assumes "seqM m n s = Some (Inr res)"
  obtains s1 where "m s = Some (Inr ((), s1))" "n s1 = Some (Inr res)"
  using assms unfolding seqM_Inr by blast

lemma seqM_first: "m s = Some (Inr ((), s1)) \<Longrightarrow> seqM m n s = n s1"
  by (simp add: seqM_def bindM_def)

lemma finish_parts:
  assumes "finish L events s = Some (Inr (r, s'))"
  obtains s1 s2 where
    "close_command_channel_and_ack_pending_disconnects s = Some (Inr ((), s1))"
    "close_channels L events s1 = Some (Inr ((), s2))"
    "final_handshake L s2 = Some (Inr ((), s'))" "cn_reason s' = Some r"
proof (rule seqM_elim [OF assms [unfolded finish_def]])
  fix s1
  assume 1: "close_command_channel_and_ack_pending_disconnects s = Some (Inr ((), s1))"
    and "seqM (close_channels L events) (seqM (final_handshake L) final_reason) s1 = Some (Inr (r, s'))"
  then obtain s2 s3 where 2: "close_channels L events s1 = Some (Inr ((), s2))"
    and 3: "final_handshake L s2 = Some (Inr ((), s3))"
    and last: "final_reason s3 = Some (Inr (r, s'))" by (elim seqM_elim) blast
  from last have "s3 = s'" "cn_reason s' = Some r"
    by (auto simp: final_reason_def bindM_apply split: option.splits)
  with 1 2 3 that show thesis by blast
qed

lemma close_command_same:
  assumes "close_command_channel_and_ack_pending_disconnects s = Some (Inr ((), s1))"
  shows "cn_opened s1 = cn_opened s" "cn_callbacks s1 = cn_callbacks s" "cn_reason s1 = cn_reason s"
    "cn_commands s1 = []" "cn_answers s1 = cn_answers s @ disconnect_acks (cn_commands s)"
    "cn_pending s1 = cn_pending s" "cn_stats s1 = cn_stats s"
  using assms by (auto simp: close_command_channel_and_ack_pending_disconnects_def Let_def)

lemma close_channels_closes:
  assumes "callbacks_match (cn_opened s) (cn_callbacks s)"
    and "close_channels L events s = Some (Inr ((), s'))"
  shows "cn_opened s' = [] \<and> callbacks_match [] (cn_callbacks s') \<and> cn_reason s' = cn_reason s"
proof -
  have rest: "cn_opened t = [] \<and> callbacks_match [] (cn_callbacks t) \<and> cn_reason t = cn_reason s"
    if "notify_remainingM s = Some (Inr ((), t))" for t
    using that notify_remaining_match [of "(cn_opened s, cn_callbacks s)"] assms(1)
    by (auto simp: notify_remainingM_def split: prod.splits)
  have wait: "cn_opened t = [] \<and> callbacks_match [] (cn_callbacks t) \<and> cn_reason t = cn_reason s"
    if "waitM L events s = Some (Inr ((), t))" for t
    using that wait_match [of "(cn_opened s, cn_callbacks s)" "cl_channels L" "cn_channels s" events] assms(1)
    by (auto simp: waitM_def split: option.splits prod.splits)
  show ?thesis
    using assms rest wait by (auto simp: close_channels_def split: if_splits)
qed

lemma handshake_quiet:
  assumes "callbacks_match [] (cn_callbacks s)" and "final_handshake L s = Some (Inr ((), s'))"
  shows "callbacks_match [] (cn_callbacks s') \<and> cn_opened s' = cn_opened s \<and> cn_reason s' = cn_reason s"
proof -
  let ?P = "\<lambda>t. callbacks_match [] (cn_callbacks t) \<and> cn_opened t = cn_opened s \<and> cn_reason t = cn_reason s"
  have "keeps ?P (close_websocket_handshake L server absorb)" for server absorb
    by (rule handshake_keeps) (auto simp: io_stable_def callbacks_match_free channel_free_def)
  then have "keeps ?P (final_handshake L)"
    unfolding final_handshake_def by (intro exec_rules)
  with assms show ?thesis by (auto dest: keeps_result)
qed

lemma handshake_reason: "keeps (\<lambda>t. cn_reason t = x) (final_handshake L)"
  unfolding final_handshake_def
  by (intro exec_rules; rule handshake_keeps) (auto simp: io_stable_def)

lemma finish_reason:
  assumes "finish L events s = Some (Inr (r, s'))"
  shows "cn_reason s = Some r"
proof -
  from assms obtain s1 s2 where parts:
    "close_command_channel_and_ack_pending_disconnects s = Some (Inr ((), s1))"
    "close_channels L events s1 = Some (Inr ((), s2))"
    "final_handshake L s2 = Some (Inr ((), s'))" "cn_reason s' = Some r" by (rule finish_parts)
  have "cn_reason s2 = cn_reason s1"
    using parts(2)
    by (auto simp: close_channels_def notify_remainingM_def waitM_def split: if_splits option.splits prod.splits)
  with handshake_reason [of "cn_reason s2" L] parts(3,4) close_command_same(3) [OF parts(1)] show ?thesis
    by (auto dest: keeps_result)
qed

text \<open>
  Property C2. At any time of a connection the labels that the handler saw opened and not closed are those
  recorded as open, each of them opened and closed in turn. When \<^verbatim>\<open>run\<close> returns a reason, each data
  channel that the handler saw opened was also closed, once each time, and none is left open. (When it
  ends with an error instead, the open ones are dropped without a word to the handler.)
\<close>

theorem connection_closes_channels:
  assumes "running L K order s"
  shows "callbacks_match (cn_opened s) (cn_callbacks s) \<and>
    (leaves L K order s s' \<longrightarrow> finish L events s' = Some (Inr (r, s'')) \<longrightarrow>
       cn_opened s'' = [] \<and> callbacks_match [] (cn_callbacks s''))"
proof (intro conjI impI)
  have c: "channels_consistent s"
    by (rule channels.running_keeps [OF assms])
      (simp add: channels_consistent_def connection_new_def callbacks_match_def)
  then show "callbacks_match (cn_opened s) (cn_callbacks s)" by (simp add: channels_consistent_def)
  assume left: "leaves L K order s s'" and finished: "finish L events s' = Some (Inr (r, s''))"
  from left c have "channels_consistent s'"
    unfolding leaves_def by (auto dest: channels.round_keeps)
  then have m: "callbacks_match (cn_opened s') (cn_callbacks s')" by (simp add: channels_consistent_def)
  from finished obtain s1 s2 where parts:
    "close_command_channel_and_ack_pending_disconnects s' = Some (Inr ((), s1))"
    "close_channels L events s1 = Some (Inr ((), s2))"
    "final_handshake L s2 = Some (Inr ((), s''))" by (rule finish_parts)
  from m have "callbacks_match (cn_opened s1) (cn_callbacks s1)"
    by (simp add: close_command_same [OF parts(1)])
  note closed = close_channels_closes [OF this parts(2)] handshake_quiet [OF _ parts(3)]
  then show "cn_opened s'' = []" by auto
  from closed show "callbacks_match [] (cn_callbacks s'')" by auto
qed

text \<open>
  Property C3. A connection returns the first reason that was found: when the loop is left a reason is known,
  it is what \<^verbatim>\<open>run\<close> returns, and a reason that was known at any earlier time is that reason.
\<close>

theorem first_reason_returned:
  assumes "leaves L K order s s'"
  shows "(\<exists>r. cn_reason s' = Some r) \<and>
    (finish L events s' = Some (Inr (r, s'')) \<longrightarrow> cn_reason s' = Some r) \<and>
    ((conn_step L K order)\<^sup>*\<^sup>* s0 s \<longrightarrow> cn_reason s0 = Some r \<longrightarrow> cn_reason s' = Some r)"
proof (intro conjI impI)
  from assms obtain branch where run: "loop_round L K order branch s = Some (Inr (BreakLoop, s'))"
    by (auto simp: leaves_def)
  with round_decides [of L K order branch] show "\<exists>r. cn_reason s' = Some r" by (auto simp: decides_def)
  show "cn_reason s' = Some r" if "finish L events s' = Some (Inr (r, s''))"
    using that by (rule finish_reason)
  assume "(conn_step L K order)\<^sup>*\<^sup>* s0 s" and "cn_reason s0 = Some r"
  then have "reason_is r s"
    by (induction rule: rtranclp_induct) (auto simp: reason_is_def dest: reason.step_keeps [unfolded reason_is_def])
  with run show "cn_reason s' = Some r"
    by (auto simp: reason_is_def dest: reason.round_keeps [unfolded reason_is_def])
qed

text \<open>
  Property C8. A connection that left the loop comes to an end without a panic: with a deadline for the
  channels, in a world that winds down, \<^verbatim>\<open>run\<close> returns its reason or an error of the close handshake.
\<close>

theorem connection_ends:
  assumes "leaves L K order s s'" and "winds_down (cl_io L) time outs evs"
    and "\<exists>e \<in> set events. fst e = WaitDeadline \<or> fst e = WaitEventChannelClosed"
  shows "\<exists>res. finish L events s' = Some res"
proof -
  from assms(1) obtain branch where "loop_round L K order branch s = Some (Inr (BreakLoop, s'))"
    by (auto simp: leaves_def)
  with round_decides [of L K order branch] obtain r where r: "cn_reason s' = Some r"
    by (auto simp: decides_def)
  obtain s1 where s1: "close_command_channel_and_ack_pending_disconnects s' = Some (Inr ((), s1))"
    by (simp add: close_command_channel_and_ack_pending_disconnects_def)
  have "wait_data_channels_close C channels events t \<noteq> None" for C channels t
    using assms(3)
    by (induction C channels events t rule: wait_data_channels_close.induct) (auto simp: Let_def)
  then obtain result opened cbs where wait: "wait_data_channels_close (cl_channels L) (cn_channels s1) events
      (cn_opened s1, cn_callbacks s1) = Some (result, opened, cbs)" by (metis option.exhaust prod.exhaust)
  then have "\<exists>s2. close_channels L events s1 = Some (Inr ((), s2)) \<and> cn_reason s2 = cn_reason s1"
    by (auto simp: close_channels_def notify_remainingM_def waitM_def split: prod.split)
  then obtain s2 where s2: "close_channels L events s1 = Some (Inr ((), s2))"
    and "cn_reason s2 = cn_reason s1" by blast
  with r close_command_same(3) [OF s1] have r2: "cn_reason s2 = Some r" by simp
  have "totalM (final_handshake L)"
    unfolding final_handshake_def by (intro exec_rules handshake_total [OF assms(2)])
  then obtain res where res: "final_handshake L s2 = Some res" by (auto simp: totalM_def)
  have eq: "finish L events s' = seqM (final_handshake L) final_reason s2"
    by (simp only: finish_def
        seqM_first [where m = close_command_channel_and_ack_pending_disconnects, OF s1]
        seqM_first [where m = "close_channels L events", OF s2])
  show ?thesis
  proof (cases res)
    case (Inl err)
    with res show ?thesis unfolding eq by (simp add: seqM_def bindM_def)
  next
    case (Inr p)
    with res have p: "final_handshake L s2 = Some (Inr ((), snd p))" by (cases p) simp
    with handshake_reason r2 have "cn_reason (snd p) = Some r" by (auto dest: keeps_result)
    then show ?thesis
      by (simp add: eq seqM_first [where m = "final_handshake L", OF p] final_reason_def bindM_apply)
  qed
qed

subsection \<open>An example\<close>

text \<open>A server that closes the stream at once.\<close>

definition example_running :: "(nat, nat, unit, unit) conn" where
  "example_running =
     (connection_new 0 None None None None)\<lparr>cn_selected_url := Some ''wss://sora/signaling'',
       cn_connected_url := Some ''wss://sora/signaling''\<rparr>"

definition example_left :: "(nat, nat, unit, unit) conn" where
  "example_left = example_running\<lparr>cn_reason := Some websocket_closed_without_close_frame\<rparr>"

lemma example_runs: "running (example_lib JNull) example_settings order example_running"
proof (rule running.started)
  show "run_start (example_lib JNull) example_settings [''wss://sora/signaling''] (\<lambda>err. ''error'')
      [Attempt ''wss://sora/signaling'' (Inr (stream_new_plain, example_target))]
      (connection_new 0 None None None None) = Some (Inr (None, example_running))"
    by (simp add: run_start_def bindM_apply initial_websocket_def new_websocket_def seqM_def bindM_def
        worldM_def flushM_def flush_ws_output.simps flush_round_def example_lib_def example_io_def
        example_running_def connection_new_def timers_new_def)
  show "resolve_delay (example_lib JNull) example_running = Some (Inr ((), example_running))"
    by (simp add: resolve_delay_def resolve_ws_disconnect_delay_start_def switching_ready_def
        is_switching_ready_def example_running_def connection_new_def)
qed

lemma example_leaves: "leaves (example_lib JNull) example_settings order example_running example_left"
  unfolding leaves_def
  by (rule exI [of _ ReadBranch])
    (simp add: branch_ready_def loop_round_def select_branchM_def read_branch_def readM_def stream_read_def
      read_eof_def absorbs_def ifM_def set_disconnect_reason_def seqM_def bindM_def example_lib_def
      example_io_def example_left_def example_running_def connection_new_def stream_new_plain_def or_else_def)

lemma example_finishes:
  "finish (example_lib JNull) [] example_left =
     Some (Inr (websocket_closed_without_close_frame, example_left))"
  by (simp add: finish_def close_command_channel_and_ack_pending_disconnects_def close_channels_def
      final_handshake_def final_reason_def seqM_def bindM_def ifM_def close_websocket_handshake_def
      ws_connected_def ws_closeM_def worldM_def loopM.simps handshake_round_def flushM_def
      flush_ws_output.simps flush_round_def handshake_read_def readUntilM_def stream_read_until_def
      example_lib_def example_io_def example_left_def example_running_def connection_new_def
      stream_new_plain_def timers_new_def)

theorem connection_closes_channels_witness:
  "\<exists>s. finish (example_lib JNull) [] example_left = Some (Inr (websocket_closed_without_close_frame, s)) \<and>
     cn_opened s = []"
  using conjunct2 [OF connection_closes_channels [OF example_runs], rule_format,
      OF example_leaves example_finishes] example_finishes
  by blast

theorem first_reason_returned_witness:
  "\<exists>r. cn_reason example_left = Some r"
  using first_reason_returned [OF example_leaves] by blast

theorem connection_ends_witness:
  "\<exists>res. finish (example_lib JNull) [(WaitDeadline, 0)] example_left = Some res"
  by (rule connection_ends [OF example_leaves, where time = id and outs = id and evs = "\<lambda>w. 0"])
    (auto simp: winds_down_def example_lib_def example_io_def split: if_splits)

end
