(* ===== verification/Conn_Calls.thy ===== *)
theory Conn_Calls
  imports Conn_Properties
begin

text \<open>
  The calls of the handles: each command carries a channel for its answer. The protocol of such a call
  is the relation \<open>call_step\<close>; the loop refines it, so that a call is answered at most once and with an
  answer of its kind.
\<close>

subsection \<open>The protocol of a call\<close>

datatype ('x, 'e) call_status =
    NotAsked
  | Queued conn_command
  | WaitingStats
  | WaitingRpc
  | Answered "('x, 'e) command_answer"

text \<open>The answers that a command gets at once.\<close>

fun answers_now :: "conn_command \<Rightarrow> ('x, 'e) command_answer \<Rightarrow> bool" where
  "answers_now (DisconnectCommand r) DisconnectAnswer = True"
| "answers_now (GetSelectedSignalingUrlCommand r) (UrlAnswer url) = True"
| "answers_now (GetConnectedSignalingUrlCommand r) (UrlAnswer url) = True"
| "answers_now (SendRpcRequestCommand method params notification r) (RpcAnswer (Inl err)) = True"
| "answers_now (SendRpcRequestCommand method params notification r) (RpcAnswer (Inr None)) = notification"
| "answers_now (SendMessageCommand label data r) (MessageAnswer result) = True"
| "answers_now _ _ = False"

inductive call_step :: "('x, 'e) call_status \<Rightarrow> ('x, 'e) call_status \<Rightarrow> bool" where
  ask: "call_step NotAsked (Queued c)"
| serve: "answers_now c a \<Longrightarrow> call_step (Queued c) (Answered a)"
| request_stats: "call_step (Queued (GetStatsCommand r)) WaitingStats"
| request: "call_step (Queued (SendRpcRequestCommand method params False r)) WaitingRpc"
| report: "call_step WaitingStats (Answered (StatsAnswer result))"
| response: "result \<noteq> Inr None \<Longrightarrow> call_step WaitingRpc (Answered (RpcAnswer result))"

inductive_cases call_step_answered: "call_step (Answered a) status"

subsection \<open>The calls of a connection\<close>

definition pending_channel :: "('c, 'w, 'x, 'e) conn \<Rightarrow> nat \<Rightarrow> bool" where
  "pending_channel s r \<longleftrightarrow> (\<exists>n p. cn_pending s n = Some p \<and> pr_response p = Some r)"

definition call_status :: "('c, 'w, 'x, 'e) conn \<Rightarrow> nat \<Rightarrow> ('x, 'e) call_status" where
  "call_status s r =
     (case find (\<lambda>c. command_channel c = r) (cn_commands s) of
        Some c \<Rightarrow> Queued c
      | None \<Rightarrow>
          if r \<in> set (stats_channels (cn_stats s)) then WaitingStats
          else if pending_channel s r then WaitingRpc
          else (case map_of (cn_answers s) r of
             Some a \<Rightarrow> Answered a
           | None \<Rightarrow> NotAsked))"

text \<open>No channel is in two places, and the identifiers of the requests are used up one after the other.\<close>

definition one_place :: "('c, 'w, 'x, 'e) conn \<Rightarrow> nat \<Rightarrow> bool" where
  "one_place s r \<longleftrightarrow>
     (r \<in> set (map command_channel (cn_commands s)) \<longrightarrow>
        r \<notin> set (stats_channels (cn_stats s)) \<and> \<not> pending_channel s r \<and> r \<notin> set (map fst (cn_answers s))) \<and>
     (r \<in> set (stats_channels (cn_stats s)) \<longrightarrow> \<not> pending_channel s r \<and> r \<notin> set (map fst (cn_answers s))) \<and>
     (pending_channel s r \<longrightarrow> r \<notin> set (map fst (cn_answers s)))"

definition calls_distinct :: "('c, 'w, 'x, 'e) conn \<Rightarrow> bool" where
  "calls_distinct s \<longleftrightarrow>
     distinct (map command_channel (cn_commands s)) \<and> distinct (stats_channels (cn_stats s)) \<and>
     distinct (map fst (cn_answers s)) \<and> (\<forall>r. one_place s r) \<and>
     (\<forall>n p. cn_pending s n = Some p \<longrightarrow> pr_response p \<noteq> None \<and> n \<le> cn_rpc_id_counter s) \<and>
     (\<forall>n m p. cn_pending s n = Some p \<longrightarrow> cn_pending s m = Some p \<longrightarrow> n = m)"

definition advanced :: "('c, 'w, 'x, 'e) conn \<Rightarrow> ('c, 'w, 'x, 'e) conn \<Rightarrow> bool" where
  "advanced s0 s \<longleftrightarrow> calls_distinct s \<and> (\<forall>r. call_step\<^sup>*\<^sup>* (call_status s0 r) (call_status s r))"

lemma advanced_step:
  assumes "advanced s0 s" and "calls_distinct s'" and "\<And>r. call_step\<^sup>*\<^sup>* (call_status s r) (call_status s' r)"
  shows "advanced s0 s'"
  using assms unfolding advanced_def by (blast intro: rtranclp_trans)

text \<open>Only these fields matter.\<close>

lemma calls_same:
  fixes s t :: "('c, 'w, 'x, 'e) conn"
  assumes "cn_commands t = cn_commands s" "cn_pending t = cn_pending s" "cn_answers t = cn_answers s"
    "stats_channels (cn_stats t) = stats_channels (cn_stats s)" "cn_rpc_id_counter t = cn_rpc_id_counter s"
  shows "call_status t r = call_status s r" "calls_distinct t \<longleftrightarrow> calls_distinct s" "advanced s0 t \<longleftrightarrow> advanced s0 s"
proof -
  show status: "call_status t r = call_status s r" for r
    by (simp only: call_status_def pending_channel_def assms)
  show ok: "calls_distinct t \<longleftrightarrow> calls_distinct s"
    by (simp only: calls_distinct_def one_place_def pending_channel_def assms)
  show "advanced s0 t \<longleftrightarrow> advanced s0 s"
    by (simp add: advanced_def status ok)
qed

lemma advanced_same:
  fixes s t :: "('c, 'w, 'x, 'e) conn"
  shows "advanced s0 s \<Longrightarrow> cn_commands t = cn_commands s \<Longrightarrow> cn_pending t = cn_pending s \<Longrightarrow>
    cn_answers t = cn_answers s \<Longrightarrow> stats_channels (cn_stats t) = stats_channels (cn_stats s) \<Longrightarrow>
    cn_rpc_id_counter t = cn_rpc_id_counter s \<Longrightarrow> advanced s0 t"
  using calls_same(3) [of t s s0] by blast

lemma stats_channels_append [simp]:
  "stats_channels (xs @ ys) = stats_channels xs @ stats_channels ys"
  by (induction xs rule: stats_channels.induct) simp_all

lemma stats_channels_other: "\<forall>r. q \<noteq> StatsForCommand r \<Longrightarrow> stats_channels [q] = []"
  by (cases q) simp_all

lemma stats_channels_remove:
  "\<forall>r. q \<noteq> StatsForCommand r \<Longrightarrow> stats_channels (remove1 q qs) = stats_channels qs"
  "distinct (stats_channels qs) \<Longrightarrow> StatsForCommand r \<in> set qs \<Longrightarrow>
     stats_channels (remove1 (StatsForCommand r) qs) = remove1 r (stats_channels qs)"
  by (induction qs rule: stats_channels.induct) auto

lemma stats_channels_in: "r \<in> set (stats_channels qs) \<longleftrightarrow> StatsForCommand r \<in> set qs"
  by (induction qs rule: stats_channels.induct) auto

text \<open>A channel that was in no place, and channels that moved.\<close>

lemma find_channel:
  "distinct (map command_channel cs) \<Longrightarrow> c \<in> set cs \<Longrightarrow> find (\<lambda>d. command_channel d = command_channel c) cs = Some c"
  by (induction cs) auto

lemma find_channel_none: "find (\<lambda>d. command_channel d = r) cs = None \<longleftrightarrow> r \<notin> command_channel ` set cs"
  by (auto simp: find_None_iff)

lemma map_of_distinct: "distinct (map fst as) \<Longrightarrow> (r, a) \<in> set as \<Longrightarrow> map_of as r = Some a"
  by simp

lemma status_of:
  assumes "calls_distinct s"
  shows "c \<in> set (cn_commands s) \<Longrightarrow> call_status s (command_channel c) = Queued c"
    and "r \<in> set (stats_channels (cn_stats s)) \<Longrightarrow> call_status s r = WaitingStats"
    and "pending_channel s r \<Longrightarrow> call_status s r = WaitingRpc"
    and "(r, a) \<in> set (cn_answers s) \<Longrightarrow> call_status s r = Answered a"
    and "r \<notin> used_channels s \<Longrightarrow> call_status s r = NotAsked"
proof -
  note d = assms [unfolded calls_distinct_def]
  from d have place: "one_place s r" for r by blast
  note place = place [unfolded one_place_def]
  show "c \<in> set (cn_commands s) \<Longrightarrow> call_status s (command_channel c) = Queued c"
    using d by (simp add: call_status_def find_channel)
  have none: "r \<notin> set (map command_channel (cn_commands s)) \<Longrightarrow>
      find (\<lambda>c. command_channel c = r) (cn_commands s) = None" for r
    by (simp add: find_channel_none)
  show "r \<in> set (stats_channels (cn_stats s)) \<Longrightarrow> call_status s r = WaitingStats"
    using place [of r] by (simp add: call_status_def none)
  show "pending_channel s r \<Longrightarrow> call_status s r = WaitingRpc"
    using place [of r] by (simp add: call_status_def none)
  show "call_status s r = Answered a" if "(r, a) \<in> set (cn_answers s)"
  proof -
    from that have "r \<in> set (map fst (cn_answers s))" by force
    with place [of r] d that show ?thesis by (simp add: call_status_def none)
  qed
  show "call_status s r = NotAsked" if "r \<notin> used_channels s"
  proof -
    from that have "r \<notin> set (map command_channel (cn_commands s))" "r \<notin> set (stats_channels (cn_stats s))"
      "\<not> pending_channel s r" "r \<notin> set (map fst (cn_answers s))"
      unfolding used_channels_def waiting_channels_def pending_channel_def by blast+
    moreover from this have "map_of (cn_answers s) r = None" by (simp add: map_of_eq_None_iff)
    ultimately show ?thesis by (simp add: call_status_def none)
  qed
qed

subsection \<open>Moves\<close>

text \<open>The calls that stay where they are.\<close>

lemma status_kept:
  assumes "find (\<lambda>c. command_channel c = r) (cn_commands t) = find (\<lambda>c. command_channel c = r) (cn_commands s)"
    "r \<in> set (stats_channels (cn_stats t)) \<longleftrightarrow> r \<in> set (stats_channels (cn_stats s))"
    "pending_channel t r \<longleftrightarrow> pending_channel s r"
    "map_of (cn_answers t) r = map_of (cn_answers s) r"
  shows "call_status t r = call_status s r"
  unfolding call_status_def assms ..

lemma advanced_move:
  assumes "advanced s0 s" and "calls_distinct t"
    and "\<And>r. r \<noteq> moved \<Longrightarrow> call_status t r = call_status s r"
    and "call_step (call_status s moved) (call_status t moved)"
  shows "advanced s0 t"
proof (rule advanced_step [OF assms(1,2)])
  show "call_step\<^sup>*\<^sup>* (call_status s r) (call_status t r)" for r
    using assms(3,4) by (cases "r = moved") (auto intro: r_into_rtranclp)
qed

lemma pending_insert:
  assumes "cn_pending s n = None" and "cn_pending t = (cn_pending s)(n \<mapsto> \<lparr>pr_response = Some r\<rparr>)"
  shows "pending_channel t q \<longleftrightarrow> pending_channel s q \<or> q = r"
proof
  assume "pending_channel t q"
  then obtain m p where "cn_pending t m = Some p" "pr_response p = Some q"
    unfolding pending_channel_def by blast
  then show "pending_channel s q \<or> q = r"
    by (cases "m = n") (auto simp: pending_channel_def assms)
next
  assume "pending_channel s q \<or> q = r"
  then show "pending_channel t q"
  proof
    assume "pending_channel s q"
    then obtain m p where m: "cn_pending s m = Some p" "pr_response p = Some q"
      unfolding pending_channel_def by blast
    with assms(1) have "m \<noteq> n" by auto
    with m have "cn_pending t m = Some p" by (simp add: assms)
    with m(2) show ?thesis unfolding pending_channel_def by blast
  next
    assume "q = r"
    then have "cn_pending t n = Some \<lparr>pr_response = Some q\<rparr>" by (simp add: assms)
    then show ?thesis unfolding pending_channel_def by fastforce
  qed
qed

lemma advanced_answer:
  assumes adv: "advanced s0 s" and cs: "cn_commands s = c # cs" and now: "answers_now c a"
    and t: "cn_commands t = cs" "cn_answers t = cn_answers s @ [(command_channel c, a)]"
      "cn_pending t = cn_pending s" "stats_channels (cn_stats t) = stats_channels (cn_stats s)" "cn_rpc_id_counter s \<le> cn_rpc_id_counter t"
  shows "advanced s0 t"
proof (rule advanced_move [OF adv, where moved = "command_channel c"])
  from adv have s: "calls_distinct s" by (simp add: advanced_def)
  then have place: "one_place s r" for r by (simp add: calls_distinct_def)
  have pend: "pending_channel t r \<longleftrightarrow> pending_channel s r" for r by (simp add: pending_channel_def t)
  have "one_place t r" for r
    using place [of r] place [of "command_channel c"] s
    by (cases "r = command_channel c") (simp_all add: one_place_def t(1-4) cs pend calls_distinct_def)
  moreover have le: "n \<le> cn_rpc_id_counter t" if "cn_pending s n = Some p" for n p
    using s that t(5) unfolding calls_distinct_def by (meson order_trans)
  ultimately show d: "calls_distinct t"
    using s place [of "command_channel c"] by (auto simp: calls_distinct_def t(1-4) cs one_place_def)
  show "call_status t r = call_status s r" if "r \<noteq> command_channel c" for r
    using that by (intro status_kept) (simp_all add: t(1-4) cs pend map_add_def split: option.split)
  have "call_status s (command_channel c) = Queued c" by (rule status_of(1) [OF s]) (simp add: cs)
  moreover have "call_status t (command_channel c) = Answered a" by (rule status_of(4) [OF d]) (simp add: t)
  ultimately show "call_step (call_status s (command_channel c)) (call_status t (command_channel c))"
    using now by (simp add: call_step.serve)
qed

lemma advanced_stats:
  assumes adv: "advanced s0 s" and cs: "cn_commands s = GetStatsCommand r # cs"
    and t: "cn_commands t = cs" "cn_answers t = cn_answers s" "cn_pending t = cn_pending s"
      "cn_stats t = cn_stats s @ [StatsForCommand r]" "cn_rpc_id_counter t = cn_rpc_id_counter s"
  shows "advanced s0 t"
proof (rule advanced_move [OF adv, where moved = r])
  from adv have s: "calls_distinct s" by (simp add: advanced_def)
  then have place: "one_place s r" for r by (simp add: calls_distinct_def)
  have pend: "pending_channel t q \<longleftrightarrow> pending_channel s q" for q by (simp add: pending_channel_def t)
  have "one_place t q" for q
    using place [of q] place [of r] s by (cases "q = r") (simp_all add: one_place_def t cs pend calls_distinct_def)
  with s place [of r] show d: "calls_distinct t"
    by (auto simp: calls_distinct_def t cs one_place_def)
  show "call_status t q = call_status s q" if "q \<noteq> r" for q
    using that by (intro status_kept) (simp_all add: t cs pend)
  have "call_status s (command_channel (GetStatsCommand r)) = Queued (GetStatsCommand r)"
    by (rule status_of(1) [OF s]) (simp add: cs)
  moreover have "call_status t r = WaitingStats" by (rule status_of(2) [OF d]) (simp add: t)
  ultimately show "call_step (call_status s r) (call_status t r)" by (simp add: call_step.request_stats)
qed

lemma advanced_request:
  assumes adv: "advanced s0 s" and cs: "cn_commands s = SendRpcRequestCommand method params False r # cs"
    and n: "cn_rpc_id_counter s < n"
    and t: "cn_commands t = cs" "cn_answers t = cn_answers s"
      "cn_pending t = (cn_pending s)(n \<mapsto> \<lparr>pr_response = Some r\<rparr>)"
      "stats_channels (cn_stats t) = stats_channels (cn_stats s)" "cn_rpc_id_counter t = n"
  shows "advanced s0 t"
proof (rule advanced_move [OF adv, where moved = r])
  from adv have s: "calls_distinct s" by (simp add: advanced_def)
  then have place: "one_place s r" for r by (simp add: calls_distinct_def)
  have fresh: "cn_pending s n = None"
    using s n unfolding calls_distinct_def by (meson leD not_None_eq)
  have pend: "pending_channel t q \<longleftrightarrow> pending_channel s q \<or> q = r" for q
    using fresh t(3) by (rule pending_insert)
  have "one_place t q" for q
    using place [of q] place [of r] s by (cases "q = r") (simp_all add: one_place_def t cs pend calls_distinct_def)
  moreover have new: "cn_pending s m \<noteq> Some \<lparr>pr_response = Some r\<rparr>" for m
  proof
    assume "cn_pending s m = Some \<lparr>pr_response = Some r\<rparr>"
    then have "pending_channel s r" unfolding pending_channel_def by fastforce
    with place [of r] show False by (simp add: one_place_def cs)
  qed
  moreover have le: "m \<le> n" if "cn_pending s m = Some p" for m p
    using s that n unfolding calls_distinct_def by (meson less_imp_le order_trans)
  ultimately show d: "calls_distinct t"
    using s n le new by (auto simp: calls_distinct_def t cs)
  show "call_status t q = call_status s q" if "q \<noteq> r" for q
    using that by (intro status_kept) (simp_all add: t cs pend)
  have "call_status s (command_channel (SendRpcRequestCommand method params False r)) =
      Queued (SendRpcRequestCommand method params False r)"
    by (rule status_of(1) [OF s]) (simp add: cs)
  moreover have "call_status t r = WaitingRpc" by (rule status_of(3) [OF d]) (simp add: pend)
  ultimately show "call_step (call_status s r) (call_status t r)" by (simp add: call_step.request)
qed

lemma advanced_response:
  assumes adv: "advanced s0 s" and n: "cn_pending s n = Some p" "pr_response p = Some r"
    and result: "result \<noteq> Inr None"
    and t: "cn_commands t = cn_commands s" "cn_answers t = cn_answers s @ [(r, RpcAnswer result)]"
      "cn_pending t = (cn_pending s)(n := None)" "cn_stats t = cn_stats s"
      "cn_rpc_id_counter t = cn_rpc_id_counter s"
  shows "advanced s0 t"
proof (rule advanced_move [OF adv, where moved = r])
  from adv have s: "calls_distinct s" by (simp add: advanced_def)
  then have place: "one_place s r" for r by (simp add: calls_distinct_def)
  have pr: "pending_channel s r" using n by (auto simp: pending_channel_def)
  have eq: "p' = p" if "pr_response p' = Some r" for p' :: pending_rpc
    using n(2) that by (cases p; cases p') simp
  have only: "m = n" if "cn_pending s m = Some p" for m
    using s n(1) that unfolding calls_distinct_def by blast
  have pend: "pending_channel t q \<longleftrightarrow> pending_channel s q \<and> q \<noteq> r" for q
    unfolding pending_channel_def t fun_upd_apply
    using n eq only by (metis option.discI option.inject)
  have "one_place t q" for q
    using place [of q] place [of r] pr by (cases "q = r") (simp_all add: one_place_def t pend)
  moreover have "r \<notin> set (map fst (cn_answers s))"
    using place [of r] pr by (simp add: one_place_def)
  ultimately show d: "calls_distinct t"
    using s by (auto simp: calls_distinct_def t)
  show "call_status t q = call_status s q" if "q \<noteq> r" for q
    using that by (intro status_kept) (simp_all add: t pend map_add_def split: option.split)
  have "call_status t r = Answered (RpcAnswer result)" by (rule status_of(4) [OF d]) (simp add: t)
  with status_of(3) [OF s pr] result show "call_step (call_status s r) (call_status t r)"
    by (simp add: call_step.response)
qed

lemma advanced_report:
  assumes adv: "advanced s0 s" and r: "StatsForCommand r \<in> set (cn_stats s)"
    and t: "cn_commands t = cn_commands s" "cn_answers t = cn_answers s @ [(r, StatsAnswer result)]"
      "cn_pending t = cn_pending s" "cn_stats t = remove1 (StatsForCommand r) (cn_stats s)"
      "cn_rpc_id_counter t = cn_rpc_id_counter s"
  shows "advanced s0 t"
proof (rule advanced_move [OF adv, where moved = r])
  from adv have s: "calls_distinct s" by (simp add: advanced_def)
  then have place: "one_place s r" for r by (simp add: calls_distinct_def)
  have sr: "r \<in> set (stats_channels (cn_stats s))" using r by (simp add: stats_channels_in)
  from s have sd: "distinct (stats_channels (cn_stats s))" by (simp add: calls_distinct_def)
  have st: "stats_channels (cn_stats t) = remove1 r (stats_channels (cn_stats s))"
    unfolding t by (rule stats_channels_remove(2) [OF sd r])
  have pend: "pending_channel t q \<longleftrightarrow> pending_channel s q" for q by (simp add: pending_channel_def t)
  have "one_place t q" for q
    using place [of q] place [of r] sr sd
    by (cases "q = r") (simp_all add: one_place_def t(1-3) st pend set_remove1_eq)
  moreover have "r \<notin> set (map fst (cn_answers s))"
    using place [of r] sr by (simp add: one_place_def)
  ultimately show d: "calls_distinct t"
    using s by (auto simp: calls_distinct_def t(1-3,5) st distinct_remove1)
  show "call_status t q = call_status s q" if "q \<noteq> r" for q
    using that sd by (intro status_kept)
      (simp_all add: t(1-3) st pend set_remove1_eq map_add_def split: option.split)
  have "call_status t r = Answered (StatsAnswer result)" by (rule status_of(4) [OF d]) (simp add: t)
  with status_of(2) [OF s sr] show "call_step (call_status s r) (call_status t r)"
    by (simp add: call_step.report)
qed

lemma advanced_ask:
  assumes adv: "advanced s0 s" and new: "command_channel c \<notin> used_channels s"
    and t: "cn_commands t = cn_commands s @ [c]" "cn_answers t = cn_answers s" "cn_pending t = cn_pending s"
      "cn_stats t = cn_stats s" "cn_rpc_id_counter t = cn_rpc_id_counter s"
  shows "advanced s0 t"
proof (rule advanced_move [OF adv, where moved = "command_channel c"])
  from adv have s: "calls_distinct s" by (simp add: advanced_def)
  then have place: "one_place s r" for r by (simp add: calls_distinct_def)
  from new have free: "command_channel c \<notin> set (map command_channel (cn_commands s))"
    "command_channel c \<notin> set (stats_channels (cn_stats s))" "\<not> pending_channel s (command_channel c)"
    "command_channel c \<notin> set (map fst (cn_answers s))"
    unfolding used_channels_def waiting_channels_def pending_channel_def by blast+
  have pend: "pending_channel t q \<longleftrightarrow> pending_channel s q" for q by (simp add: pending_channel_def t)
  have "one_place t q" for q
    using place [of q] free by (cases "q = command_channel c") (simp_all add: one_place_def t pend)
  then show d: "calls_distinct t"
    using s free by (auto simp: calls_distinct_def t)
  show "call_status t q = call_status s q" if "q \<noteq> command_channel c" for q
    using that by (intro status_kept) (simp_all add: t pend find_append split: option.split)
  have "call_status t (command_channel c) = Queued c" by (rule status_of(1) [OF d]) (simp add: t)
  with status_of(5) [OF s new] show "call_step (call_status s (command_channel c)) (call_status t (command_channel c))"
    by (simp add: call_step.ask)
qed

subsection \<open>The loop\<close>

text \<open>\<^verbatim>\<open>HashMap::drain\<close> yields every entry.\<close>

definition drains :: "((u64 \<rightharpoonup> pending_rpc) \<Rightarrow> u64 list) \<Rightarrow> bool" where
  "drains order \<longleftrightarrow> (\<forall>m. dom m \<subseteq> set (order m))"

lemma advanced_drain:
  assumes "advanced s0 s"
  shows "advanced s0 (s\<lparr>cn_answers := cn_answers s @ pending_answers (cn_pending s) ids,
    cn_pending := cn_pending s |` (- set ids)\<rparr>)"
  using assms
proof (induction ids arbitrary: s)
  case Nil
  have "s\<lparr>cn_answers := cn_answers s @ pending_answers (cn_pending s) [],
      cn_pending := cn_pending s |` (- set [])\<rparr> = s" by (simp add: restrict_map_def)
  with Nil show ?case by simp
next
  case (Cons n ids)
  show ?case
  proof (cases "cn_pending s n")
    case None
    then have "cn_pending s |` (- set (n # ids)) = cn_pending s |` (- set ids)"
      by (auto simp: restrict_map_def fun_eq_iff)
    with Cons.IH [OF Cons.prems] None show ?thesis by simp
  next
    case (Some p)
    with Cons.prems obtain r where r: "pr_response p = Some r"
      unfolding advanced_def calls_distinct_def by blast
    let ?t = "s\<lparr>cn_answers := cn_answers s @ [(r, RpcAnswer (Inl Redirected))],
      cn_pending := (cn_pending s)(n := None)\<rparr>"
    have "advanced s0 ?t"
      by (rule advanced_response [OF Cons.prems Some r, of "Inl Redirected"]) simp_all
    note adv = Cons.IH [OF this]
    show ?thesis
    proof (rule advanced_same [OF adv])
      show "cn_pending (s\<lparr>cn_answers := cn_answers s @ pending_answers (cn_pending s) (n # ids),
          cn_pending := cn_pending s |` (- set (n # ids))\<rparr>) =
        cn_pending (?t\<lparr>cn_answers := cn_answers ?t @ pending_answers (cn_pending ?t) ids,
          cn_pending := cn_pending ?t |` (- set ids)\<rparr>)"
        by (simp add: restrict_map_def fun_eq_iff)
    qed (simp_all add: Some r redirected_answer_def fun_upd_def)
  qed
qed

lemma advanced_drained:
  assumes "advanced s0 s" and "drains order"
  shows "advanced s0 (s\<lparr>cn_answers := cn_answers s @ pending_answers (cn_pending s) (order (cn_pending s)),
    cn_pending := Map.empty, cn_rpc_timers := [], cn_rpc_id_counter := 0\<rparr>)"
proof -
  have "cn_pending s |` (- set (order (cn_pending s))) = Map.empty"
    using assms(2) by (fastforce simp: drains_def restrict_map_def fun_eq_iff)
  with advanced_drain [OF assms(1), of "order (cn_pending s)"]
  have adv: "advanced s0 (s\<lparr>cn_answers := cn_answers s @ pending_answers (cn_pending s) (order (cn_pending s)),
      cn_pending := Map.empty\<rparr>)" (is "advanced s0 ?t") by simp
  have "calls_distinct (?t\<lparr>cn_rpc_timers := [], cn_rpc_id_counter := 0\<rparr>)"
    using adv by (simp add: advanced_def calls_distinct_def one_place_def pending_channel_def)
  moreover have "call_status (?t\<lparr>cn_rpc_timers := [], cn_rpc_id_counter := 0\<rparr>) r = call_status ?t r" for r
    by (rule status_kept) (simp_all add: pending_channel_def)
  ultimately show ?thesis using adv by (simp add: advanced_def)
qed

interpretation calls: session_invariant "advanced s0" L
  for s0 :: "('c, 'w, 'x, 'e) conn" and L :: "('v, 'x, 'c, 'd, 'w, 'e, 'h, 'crt, 'k, 'q) conn_lib"
proof unfold_locales
  show "frame (advanced s0)"
    by (rule frameI) (erule advanced_same; simp)
  show "advanced s0 (s\<lparr>cn_stats := cn_stats s @ [request]\<rparr>)"
    if "\<forall>r. request \<noteq> StatsForCommand r" "advanced s0 s" for s request
    by (rule advanced_same [OF that(2)]) (simp_all add: stats_channels_other [OF that(1)])
  show "keeps (advanced s0) (data_channel_stateM L label)" for label
    by (rule keepsI) (clarsimp simp: data_channel_stateM_def split: prod.splits, erule advanced_same; simp)
qed (erule advanced_same; simp)+

lemma drain_advanced: "drains order \<Longrightarrow> keeps (advanced s0) (drain_pending order)"
  unfolding drain_pending_def by (intro exec_rules advanced_drained)

lemma finish_rpc_advanced:
  assumes "result \<noteq> Inr None"
  shows "keeps (advanced s0) (finish_rpc n result)"
proof (rule keepsI)
  fix s u s'
  assume adv: "advanced s0 s" and run: "finish_rpc n result s = Some (Inr (u, s'))"
  show "advanced s0 s'"
  proof (cases "cn_pending s n")
    case None
    with adv run show ?thesis by (simp add: finish_rpc_def bindM_apply)
  next
    case (Some p)
    with run obtain r where r: "pr_response p = Some r"
      by (cases "pr_response p") (simp_all add: finish_rpc_def bindM_apply)
    with Some run show ?thesis
      by (intro advanced_response [OF adv Some r assms])
        (auto simp: finish_rpc_def bindM_apply answerM_def)
  qed
qed

text \<open>A state whose calls are known, up to statistics that no command asked for.\<close>

definition calls_are :: "('c, 'w, 'x, 'e) conn \<Rightarrow> ('c, 'w, 'x, 'e) conn \<Rightarrow> bool" where
  "calls_are s t \<longleftrightarrow>
     cn_commands t = cn_commands s \<and> cn_answers t = cn_answers s \<and> cn_pending t = cn_pending s \<and>
     stats_channels (cn_stats t) = stats_channels (cn_stats s) \<and> cn_rpc_id_counter t = cn_rpc_id_counter s"

interpretation fixed: session_invariant "calls_are s0" L
  for s0 :: "('c, 'w, 'x, 'e) conn" and L :: "('v, 'x, 'c, 'd, 'w, 'e, 'h, 'crt, 'k, 'q) conn_lib"
proof unfold_locales
  show "frame (calls_are s0)" by (rule frameI) (simp add: calls_are_def)
  show "keeps (calls_are s0) (data_channel_stateM L label)" for label
    by (rule keepsI) (auto simp: data_channel_stateM_def calls_are_def split: prod.splits)
qed (simp_all add: calls_are_def stats_channels_other)

lemma answered_now:
  assumes adv: "advanced s0 s" and cs: "cn_commands s = c # commands" and now: "answers_now c a"
    and t: "calls_are (s\<lparr>cn_commands := commands\<rparr>) t"
    and run: "goM (answerM (command_channel c) a) t = Some (Inr (flow, s'))"
  shows "advanced s0 s'"
  using t run by (intro advanced_answer [OF adv cs now]) (auto simp: calls_are_def goM_def seqM_Inr answerM_def)

lemma disconnect_advanced:
  assumes adv: "advanced s0 s" and cs: "cn_commands s = DisconnectCommand r # commands"
    and run: "disconnect_command L r (s\<lparr>cn_commands := commands\<rparr>) = Some (Inr (flow, s'))"
  shows "advanced s0 s'"
proof -
  let ?s = "s\<lparr>cn_commands := commands\<rparr>"
  from run obtain t where pre: "seqM (modM (\<lambda>s. s\<lparr>cn_user_initiated := True\<rparr>))
       (seqM (ignoreM (send_message_for_signaling L (cl_json_text L (outgoing_to_json Disconnect))))
         (ifM cn_use_data_channel (retM ()) close_opened)) ?s = Some (Inr ((), t))"
    and post: "seqM (answerM r DisconnectAnswer) (seqM (set_disconnect_reason ClientDisconnect) (retM BreakLoop)) t =
      Some (Inr (flow, s'))"
    unfolding disconnect_command_def seqM_Inr by blast
  have "keeps (calls_are ?s) (seqM (modM (\<lambda>s. s\<lparr>cn_user_initiated := True\<rparr>))
       (seqM (ignoreM (send_message_for_signaling L (cl_json_text L (outgoing_to_json Disconnect))))
         (ifM cn_use_data_channel (retM ()) close_opened)))"
    by (intro exec_rules fixed.signaling_keeps fixed.close_opened_keeps) (simp add: calls_are_def)
  from keeps_result [OF this _ pre] have t: "calls_are ?s t" by (simp add: calls_are_def)
  from post have "s' = t\<lparr>cn_answers := cn_answers t @ [(r, DisconnectAnswer)],
      cn_reason := or_else (cn_reason t) (Some ClientDisconnect)\<rparr>"
    by (auto simp: seqM_Inr answerM_def set_disconnect_reason_def)
  with t show ?thesis
    by (intro advanced_answer [OF adv cs, of DisconnectAnswer]) (simp_all add: calls_are_def)
qed

lemma rpc_advanced:
  assumes adv: "advanced s0 s"
    and cs: "cn_commands s = SendRpcRequestCommand method params notification r # commands"
    and run: "rpc_command L method params notification r (s\<lparr>cn_commands := commands\<rparr>) = Some (Inr (flow, s'))"
  shows "advanced s0 s'"
proof -
  let ?s = "s\<lparr>cn_commands := commands\<rparr>"
  obtain message rpc_id counter where build:
    "build_rpc_message (cn_rpc_id_counter s) method params notification = Some (message, rpc_id, counter)"
    using run by (cases "build_rpc_message (cn_rpc_id_counter s) method params notification")
      (auto simp: rpc_command_def bindM_apply)
  let ?s1 = "?s\<lparr>cn_rpc_id_counter := counter\<rparr>"
  obtain result t where send: "send_on_channel L ''rpc'' (cl_utf8 L (cl_json_text L message)) ?s1 = Some (Inr (result, t))"
    and rest: "goM (case result of
            Inl err \<Rightarrow> answerM r (RpcAnswer (Inl err))
          | Inr _ \<Rightarrow>
              if notification then answerM r (RpcAnswer (Inr None))
              else (case rpc_id of
                 None \<Rightarrow> panicM
               | Some n \<Rightarrow>
                   modM (\<lambda>s. s\<lparr>cn_pending := (cn_pending s)(n \<mapsto> \<lparr>pr_response = Some r\<rparr>),
                               cn_rpc_timers := removeAll n (cn_rpc_timers s) @ [n]\<rparr>))) t = Some (Inr (flow, s'))"
    using run build unfolding rpc_command_def by (auto simp: bindM_apply bindM_Inr)
  from keeps_result [OF fixed.io(7) [where ?s0.0 = ?s1] _ send] have t: "calls_are ?s1 t"
    by (simp add: calls_are_def)
  have counter: "notification \<Longrightarrow> counter = cn_rpc_id_counter s"
    "\<not> notification \<Longrightarrow> rpc_id = Some counter \<and> cn_rpc_id_counter s < counter"
    using build
    by (auto simp: build_rpc_message_def word_less_nat_alt split: if_splits bind_splits dest!: unat_checked_add [OF sym])
  show ?thesis
  proof (cases "result = Inr () \<and> \<not> notification")
    case True
    with counter(2) rest t have "cn_commands s' = commands" "cn_answers s' = cn_answers s"
      "cn_pending s' = (cn_pending s)(counter \<mapsto> \<lparr>pr_response = Some r\<rparr>)"
      "stats_channels (cn_stats s') = stats_channels (cn_stats s)" "cn_rpc_id_counter s' = counter"
      by (auto simp: goM_def seqM_Inr calls_are_def)
    with True counter(2) cs show ?thesis by (intro advanced_request [OF adv]) simp_all
  next
    case False
    have "\<exists>a. answers_now (SendRpcRequestCommand method params notification r) a \<and>
        goM (answerM r a) t = Some (Inr (flow, s'))"
    proof (cases result)
      case (Inl err)
      with rest show ?thesis by (intro exI [of _ "RpcAnswer (Inl err)"]) simp
    next
      case (Inr u)
      with False rest show ?thesis by (intro exI [of _ "RpcAnswer (Inr None)"]) simp
    qed
    then obtain a where "answers_now (SendRpcRequestCommand method params notification r) a"
      and "goM (answerM r a) t = Some (Inr (flow, s'))" by blast
    moreover from this(2) have "s' = t\<lparr>cn_answers := cn_answers t @ [(r, a)]\<rparr>"
      by (auto simp: goM_def seqM_Inr answerM_def)
    moreover have "cn_rpc_id_counter s \<le> counter"
      using counter by (cases notification) (simp_all add: less_imp_le)
    ultimately show ?thesis
      using t by (intro advanced_answer [OF adv cs]) (simp_all add: calls_are_def)
  qed
qed

lemma command_advanced:
  assumes adv: "advanced s0 s" and cs: "cn_commands s = c # commands"
    and run: "handle_command L c (s\<lparr>cn_commands := commands\<rparr>) = Some (Inr (flow, s'))"
  shows "advanced s0 s'"
proof (cases c)
  case (DisconnectCommand r)
  with assms disconnect_advanced show ?thesis by (auto simp: handle_command_def)
next
  case (GetStatsCommand r)
  with run cs show ?thesis
    by (intro advanced_stats [OF adv, of r commands])
      (auto simp: handle_command_def goM_def seqM_Inr request_stats_def worldM_Inr)
next
  case (GetSelectedSignalingUrlCommand r)
  with run show ?thesis
    by (intro answered_now [OF adv cs, of "UrlAnswer (cn_selected_url s)" "s\<lparr>cn_commands := commands\<rparr>"])
      (simp_all add: handle_command_def bindM_apply calls_are_def)
next
  case (GetConnectedSignalingUrlCommand r)
  with run show ?thesis
    by (intro answered_now [OF adv cs, of "UrlAnswer (cn_connected_url s)" "s\<lparr>cn_commands := commands\<rparr>"])
      (simp_all add: handle_command_def bindM_apply calls_are_def)
next
  case (SendRpcRequestCommand m params notification r)
  with assms rpc_advanced show ?thesis by (auto simp: handle_command_def)
next
  case (SendMessageCommand label data r)
  with run obtain result w where
    "goM (answerM r (MessageAnswer result)) (s\<lparr>cn_commands := commands, ss_world := w\<rparr>) = Some (Inr (flow, s'))"
    by (auto simp: handle_command_def send_message_command_def bindM_apply bindM_Inr worldM_Inr)
  with SendMessageCommand show ?thesis
    by (intro answered_now [OF adv cs, of "MessageAnswer result" "s\<lparr>cn_commands := commands, ss_world := w\<rparr>"])
      (simp_all add: calls_are_def)
qed

lemma calls_step:
  assumes "drains order"
  shows "step_invariant (advanced s0) L (advanced s0) order"
proof unfold_locales
  fix s n evs s'
  assume "advanced s0 s" "finish_rpc n (Inl RpcTimeout) (s\<lparr>cn_events := evs\<rparr>) = Some (Inr ((), s'))"
  with finish_rpc_advanced [of "Inl RpcTimeout" s0 n] calls.events show "advanced s0 s'"
    by (blast dest: keeps_result)
next
  show "result \<noteq> Inr None \<Longrightarrow> keeps (advanced s0) (finish_rpc n result)" for result n
    by (rule finish_rpc_advanced)
next
  show "advanced s0 s \<Longrightarrow> cn_commands s = c # commands \<Longrightarrow>
      handle_command L c (s\<lparr>cn_commands := commands\<rparr>) = Some (Inr (flow, s')) \<Longrightarrow> advanced s0 s'"
    for s c commands flow s' by (rule command_advanced)
next
  fix s K l flow s'
  assume "advanced s0 s" "handle_redirect L K order l s = Some (Inr (flow, s'))"
  with calls.redirect_keeps [OF drain_advanced [OF assms]] have "advanced s0 s'"
    by (blast dest: keeps_result)
  then show "if flow = BreakLoop then advanced s0 s' else advanced s0 s'" by simp
next
  show "advanced s0 s \<Longrightarrow> command_channel c \<notin> used_channels s \<Longrightarrow>
      advanced s0 (s\<lparr>cn_commands := cn_commands s @ [c]\<rparr>)" for s c
    by (erule advanced_ask) simp_all
next
  fix s request report s'
  assume adv: "advanced s0 s" and request: "request \<in> set (cn_stats s)"
    and run: "stats_done L request report (s\<lparr>cn_stats := remove1 request (cn_stats s)\<rparr>) = Some (Inr ((), s'))"
  from run show "advanced s0 s'"
  proof (cases rule: stats_done_cases)
    case (answered r)
    then show ?thesis
      using request
      by (intro advanced_report [OF adv, of r, where result = "report_to_json_string L report"]) simp_all
  next
    case (sent ev)
    then show ?thesis by (intro advanced_same [OF adv]) (simp_all add: stats_channels_remove)
  next
    case dropped
    then show ?thesis by (intro advanced_same [OF adv]) (simp_all add: stats_channels_remove)
  qed
qed (erule advanced_same; simp)+

lemma running_distinct:
  fixes L :: "('v, 'x, 'c, 'd, 'w, 'e, 'h, 'crt, 'k, 'q) conn_lib"
  assumes "drains order" and "running L K order s"
  shows "calls_distinct s"
proof -
  let ?first = "connection_new (ss_world s) None None None None :: ('c, 'w, 'x, 'e) conn"
  have "advanced ?first t"
    if "t = (connection_new w vt at st rt)\<lparr>cn_selected_url := u, cn_connected_url := v\<rparr>"
    for w vt at st rt u v and t :: "('c, 'w, 'x, 'e) conn"
  proof -
    have "call_status t r = call_status ?first r" for r
      by (rule status_kept) (simp_all add: that connection_new_def pending_channel_def)
    moreover have "calls_distinct t"
      by (simp add: that calls_distinct_def one_place_def pending_channel_def connection_new_def)
    ultimately show ?thesis by (simp add: advanced_def)
  qed
  from step_invariant.running_keeps [OF calls_step [OF assms(1)] assms(2) this [OF refl]]
  show ?thesis by (simp add: advanced_def)
qed

lemma advanced_refl: "calls_distinct s \<Longrightarrow> advanced s s"
  by (simp add: advanced_def)

lemma advanced_steps:
  assumes "drains order" and "running L K order s" and "(conn_step L K order)\<^sup>*\<^sup>* s s'"
  shows "advanced s s'"
  using assms(3) advanced_refl [OF running_distinct [OF assms(1,2)]]
  by (induction rule: rtranclp_induct)
    (auto intro: step_invariant.step_keeps [OF calls_step [OF assms(1)]])

text \<open>
  Property C1. Every step of the loop refines the protocol of the calls: whatever happens to a connection, a
  call goes on only as the protocol allows. In particular a call that was answered keeps its answer,
  is never answered again, and has an answer of its kind.
\<close>

theorem calls_refine_protocol:
  assumes "drains order" and "running L K order s" and "(conn_step L K order)\<^sup>*\<^sup>* s s'"
  shows "call_step\<^sup>*\<^sup>* (call_status s r) (call_status s' r) \<and>
    distinct (map fst (cn_answers s')) \<and>
    (call_status s r = Answered a \<longrightarrow> call_status s' r = Answered a)"
proof (intro conjI impI)
  from advanced_steps [OF assms] show step: "call_step\<^sup>*\<^sup>* (call_status s r) (call_status s' r)"
    and "distinct (map fst (cn_answers s'))"
    by (simp_all add: advanced_def calls_distinct_def)
  show "call_status s' r = Answered a" if "call_status s r = Answered a"
    using step that by (auto elim: converse_rtranclpE call_step_answered)
qed

subsection \<open>An example\<close>

definition by_identifier :: "(u64 \<rightharpoonup> pending_rpc) \<Rightarrow> u64 list" where
  "by_identifier m = sorted_list_of_set (dom m)"

lemma by_identifier_drains: "drains by_identifier"
  by (simp add: drains_def by_identifier_def)

definition example_asked :: "(nat, nat, unit, unit) conn" where
  "example_asked = example_running\<lparr>cn_commands := [GetSelectedSignalingUrlCommand 3]\<rparr>"

definition example_answered :: "(nat, nat, unit, unit) conn" where
  "example_answered = example_running\<lparr>cn_answers := [(3, UrlAnswer (Some ''wss://sora/signaling''))]\<rparr>"

lemma example_ask: "conn_step (example_lib JNull) example_settings order example_running example_asked"
proof -
  have "conn_step (example_lib JNull) example_settings order example_running
      (example_running\<lparr>cn_commands := cn_commands example_running @ [GetSelectedSignalingUrlCommand 3]\<rparr>)"
    by (rule conn_step.command)
      (simp add: used_channels_def waiting_channels_def example_running_def connection_new_def)
  then show ?thesis by (simp add: example_asked_def example_running_def connection_new_def)
qed

lemma example_answer: "conn_step (example_lib JNull) example_settings order example_asked example_answered"
proof (rule conn_step.round)
  show "branch_ready (example_lib JNull) example_asked CommandBranch"
    by (simp add: branch_ready_def example_asked_def)
  show "loop_round (example_lib JNull) example_settings order CommandBranch example_asked =
      Some (Inr (GoOn, example_answered))"
    by (simp add: loop_round_def select_branchM_def handle_command_def goM_def answerM_def after_select_def
        ws_events_def loopM.simps ws_event_round_def worldM_def close_after_switch_def switching_ready_def
        is_switching_ready_def flush_and_detect_close_def flushM_def flush_ws_output.simps flush_round_def
        seqM_def bindM_def ifM_def example_lib_def example_io_def example_asked_def example_answered_def
        example_running_def connection_new_def timers_new_def)
  show "resolve_delay (example_lib JNull) example_answered = Some (Inr ((), example_answered))"
    by (simp add: resolve_delay_def resolve_ws_disconnect_delay_start_def switching_ready_def
        is_switching_ready_def example_answered_def example_running_def connection_new_def)
qed simp

lemma example_steps:
  "(conn_step (example_lib JNull) example_settings order)\<^sup>*\<^sup>* example_running example_answered"
  by (meson example_ask example_answer converse_rtranclp_into_rtranclp r_into_rtranclp)

theorem calls_refine_protocol_witness:
  "call_step\<^sup>*\<^sup>* (call_status example_running 3) (call_status example_answered 3) \<and>
     call_status example_answered 3 = Answered (UrlAnswer (Some ''wss://sora/signaling''))"
  using calls_refine_protocol [OF by_identifier_drains example_runs example_steps, where r = 3]
  by (simp add: call_status_def example_answered_def example_running_def connection_new_def pending_channel_def)

end
