(* ===== verification/Conn_Timeouts.thy ===== *)
theory Conn_Timeouts
  imports Conn_Calls
begin

text \<open>
  The timeouts of RPC requests: no request waits for ever, and no timeout hits another request, even
  though a redirect starts the identifiers anew.
\<close>

subsection \<open>The invariant\<close>

definition timeout_due :: "('c, 'w, 'x, 'e) conn \<Rightarrow> u64 \<Rightarrow> bool" where
  "timeout_due s n \<longleftrightarrow> n \<in> set (cn_rpc_timers s) \<or> RpcTimeoutEvent n \<in> set (cn_events s)"

definition timeouts_match :: "('c, 'w, 'x, 'e) conn \<Rightarrow> bool" where
  "timeouts_match s \<longleftrightarrow>
     (\<forall>n. cn_pending s n \<noteq> None \<longrightarrow> timeout_due s n) \<and> (\<forall>n. timeout_due s n \<longrightarrow> n \<le> cn_rpc_id_counter s)"

lemma timeouts_same:
  fixes s t :: "('c, 'w, 'x, 'e) conn"
  assumes "timeouts_match s" "cn_pending t = cn_pending s" "cn_rpc_timers t = cn_rpc_timers s"
    "\<And>n. RpcTimeoutEvent n \<in> set (cn_events t) \<longleftrightarrow> RpcTimeoutEvent n \<in> set (cn_events s)"
    "cn_rpc_id_counter t = cn_rpc_id_counter s"
  shows "timeouts_match t"
proof -
  have "timeout_due t n \<longleftrightarrow> timeout_due s n" for n
    unfolding timeout_due_def assms(3,4) ..
  with assms(1) show ?thesis unfolding timeouts_match_def assms(2,5) by blast
qed

interpretation timeouts: round_base timeouts_match L
  for L :: "('v, 'x, 'c, 'd, 'w, 'e, 'h, 'crt, 'k, 'q) conn_lib"
proof unfold_locales
  show "frame timeouts_match"
    by (rule frameI) (erule timeouts_same; simp)
  show "timeouts_match (s\<lparr>cn_events := cn_events s @ [ev]\<rparr>)" if "\<not> timer_event ev" "timeouts_match s" for s ev
    by (rule timeouts_same [OF that(2)]) (use that(1) in auto)
  show "keeps timeouts_match (data_channel_stateM L label)" for label
    by (rule keepsI) (clarsimp simp: data_channel_stateM_def split: prod.splits, erule timeouts_same; simp)
qed (erule timeouts_same; simp)+

lemma finish_rpc_timeouts:
  fixes s :: "('c, 'w, 'x, 'e) conn"
  assumes run: "finish_rpc n result s = Some (Inr (u, s'))"
    and due: "\<And>m. cn_pending s m \<noteq> None \<Longrightarrow> m \<noteq> n \<Longrightarrow> timeout_due s m"
    and ids: "\<And>m. timeout_due s m \<Longrightarrow> m \<le> cn_rpc_id_counter s"
  shows "timeouts_match s'"
proof (cases "cn_pending s n")
  case None
  with run have "s' = s" by (simp add: finish_rpc_def bindM_apply)
  moreover have "m \<noteq> n" if "cn_pending s m \<noteq> None" for m using that None by auto
  ultimately show ?thesis using due ids unfolding timeouts_match_def by blast
next
  case (Some p)
  then obtain r where "pr_response p = Some r"
    using run by (cases "pr_response p") (simp_all add: finish_rpc_def bindM_apply)
  with Some run have s': "s' = s\<lparr>cn_pending := (cn_pending s)(n := None),
      cn_rpc_timers := removeAll n (cn_rpc_timers s), cn_answers := cn_answers s @ [(r, RpcAnswer result)]\<rparr>"
    by (auto simp: finish_rpc_def bindM_apply answerM_def)
  have "timeout_due s' m \<longleftrightarrow> timeout_due s m" if "m \<noteq> n" for m
    using that by (simp add: s' timeout_due_def)
  moreover have "timeout_due s' m \<Longrightarrow> timeout_due s m" for m
    by (auto simp: s' timeout_due_def)
  moreover have "cn_pending s' m \<noteq> None \<Longrightarrow> m \<noteq> n \<and> cn_pending s m \<noteq> None" for m
    by (simp add: s' split: if_splits)
  moreover have "cn_rpc_id_counter s' = cn_rpc_id_counter s" by (simp add: s')
  ultimately show ?thesis
    using due ids unfolding timeouts_match_def by metis
qed

lemma rpc_timeouts:
  fixes s :: "('c, 'w, 'x, 'e) conn"
  assumes match: "timeouts_match s"
    and run: "rpc_command L method params notification r s = Some (Inr (flow, s'))"
  shows "timeouts_match s'"
proof -
  obtain message rpc_id counter where build:
    "build_rpc_message (cn_rpc_id_counter s) method params notification = Some (message, rpc_id, counter)"
    using run by (cases "build_rpc_message (cn_rpc_id_counter s) method params notification")
      (auto simp: rpc_command_def bindM_apply)
  let ?s1 = "s\<lparr>cn_rpc_id_counter := counter\<rparr>"
  obtain result t where send: "send_on_channel L ''rpc'' (cl_utf8 L (cl_json_text L message)) ?s1 = Some (Inr (result, t))"
    and rest: "goM (case result of
            Inl err \<Rightarrow> answerM r (RpcAnswer (Inl err))
          | Inr _ \<Rightarrow>
              if notification then answerM r (RpcAnswer (Inr None))
              else (case rpc_id of
                 None \<Rightarrow> panicM
               | Some n \<Rightarrow>
                   modM (\<lambda>s. s\<lparr>cn_pending := (cn_pending s)(n \<mapsto> \<lparr>pr_response = Some r\<rparr>),
                               cn_rpc_timers := removeAll n (cn_rpc_timers s) @ [n]\<rparr>))) t = Some (Inr (flow, s'))"
    using run build unfolding rpc_command_def by (auto simp: bindM_apply bindM_Inr)
  have "cn_rpc_id_counter s \<le> counter" and id: "\<not> notification \<Longrightarrow> rpc_id = Some counter"
    using build
    by (auto simp: build_rpc_message_def word_le_nat_alt split: if_splits bind_splits dest!: unat_checked_add [OF sym])
  with match have "timeouts_match ?s1"
    unfolding timeouts_match_def timeout_due_def by (auto intro: order_trans)
  with send have t: "timeouts_match t" by (blast dest: keeps_result [OF timeouts.io(7)])
  have "cn_rpc_id_counter t = counter"
    using keeps_result [OF fixed.io(7) [where ?s0.0 = ?s1] _ send] by (simp add: calls_are_def)
  show ?thesis
  proof (cases "result = Inr () \<and> \<not> notification")
    case True
    with rest id have s': "s' = t\<lparr>cn_pending := (cn_pending t)(counter \<mapsto> \<lparr>pr_response = Some r\<rparr>),
        cn_rpc_timers := removeAll counter (cn_rpc_timers t) @ [counter]\<rparr>"
      by (auto simp: goM_def seqM_Inr)
    have "timeout_due s' m \<longleftrightarrow> timeout_due t m \<or> m = counter" for m
      by (auto simp: s' timeout_due_def)
    with t \<open>cn_rpc_id_counter t = counter\<close> show ?thesis
      unfolding timeouts_match_def by (simp add: s') 
  next
    case False
    with rest obtain a where "s' = t\<lparr>cn_answers := a\<rparr>"
      by (cases result) (auto simp: goM_def seqM_Inr answerM_def split: if_splits)
    with t show ?thesis by (auto elim!: timeouts_same)
  qed
qed

lemma command_timeouts:
  assumes "timeouts_match s" and run: "handle_command L c s = Some (Inr (flow, s'))"
  shows "timeouts_match s'"
proof -
  have answer: "keeps timeouts_match (answerM r a)" for r a
    unfolding answerM_def by (intro exec_rules) (erule timeouts_same; simp)
  have disconnect: "keeps timeouts_match (disconnect_command L r)" for r
    unfolding disconnect_command_def close_opened_def
    by (intro exec_rules timeouts.signaling_keeps answer timeouts.reason_keeps; erule timeouts_same; simp)
  have stats: "keeps timeouts_match (request_stats L q)" for q
    unfolding request_stats_def by (intro exec_rules timeouts.io; erule timeouts_same; simp)
  have other: "keeps timeouts_match (handle_command L c)"
    if "case c of SendRpcRequestCommand method params notification r \<Rightarrow> False | _ \<Rightarrow> True"
    using that unfolding handle_command_def send_message_command_def
    by (cases c) (simp_all, (intro exec_rules timeouts.io answer disconnect stats)+)
  show ?thesis
  proof (cases c)
    case (SendRpcRequestCommand m params notification r)
    with assms rpc_timeouts show ?thesis by (auto simp: handle_command_def)
  qed (use other assms in \<open>auto dest: keeps_result\<close>)
qed

subsection \<open>The redirect\<close>

lemma drain_events_empties:
  "drain_events evs s = Some (Inr (False, s')) \<Longrightarrow> cn_events s = evs \<Longrightarrow> cn_events s' = []"
proof (induction evs arbitrary: s)
  case (Cons ev evs)
  from Cons.prems(1) show ?case
    by (cases ev)
      (auto simp: bindM_apply bindM_Inr media_pathM_def split: if_splits prod.splits intro: Cons.IH)
qed simp

definition session_empty :: "('c, 'w, 'x, 'e) conn \<Rightarrow> bool" where
  "session_empty s \<longleftrightarrow> cn_pending s = Map.empty \<and> cn_rpc_timers s = []"

interpretation emptied: session_invariant session_empty L
  for L :: "('v, 'x, 'c, 'd, 'w, 'e, 'h, 'crt, 'k, 'q) conn_lib"
proof unfold_locales
  show "frame session_empty" by (rule frameI) (simp add: session_empty_def)
  show "keeps session_empty (data_channel_stateM L label)" for label
    by (rule keepsI) (auto simp: data_channel_stateM_def session_empty_def split: prod.splits)
qed (simp_all add: session_empty_def)

lemma reconnect_events:
  "keeps (\<lambda>s. cn_events s = []) (seqM (close_old_websocket L) (reconnect L K location))"
proof -
  have io: "io_stable (\<lambda>s. cn_events s = [])" by (simp add: io_stable_def)
  have connect: "keeps (\<lambda>s. cn_events s = []) (connectM L K target)" for target
    by (rule keepsI) (auto simp: connectM_def liftM_Inr split: option.splits prod.splits)
  have "keeps (\<lambda>s. cn_events s = []) (new_timers L)"
    by (rule keepsI) (auto simp: new_timers_def)
  with connect show ?thesis
    unfolding close_old_websocket_def reconnect_def new_websocket_def set_disconnect_reason_def
    by (intro exec_rules keeps_io [OF io]) simp_all
qed

lemma redirect_timeouts:
  assumes run: "handle_redirect L K order location s = Some (Inr (flow, s'))" and "flow \<noteq> BreakLoop"
  shows "timeouts_match s'"
proof -
  from run obtain s1 s2 where "reset_session s = Some (Inr ((), s1))"
    and 2: "drain_pending order s1 = Some (Inr ((), s2))"
    and rest: "bindM (getM cn_events) (\<lambda>events. bindM (drain_events events) (\<lambda>lost.
      if lost then terminate PeerConnectionFailed
      else seqM (close_old_websocket L) (reconnect L K location))) s2 = Some (Inr (flow, s'))"
    unfolding handle_redirect_def by (elim seqM_elim) blast
  from 2 have s2: "session_empty s2" by (auto simp: drain_pending_def session_empty_def)
  from rest obtain lost s3 where 3: "drain_events (cn_events s2) s2 = Some (Inr (lost, s3))"
    and 4: "(if lost then terminate PeerConnectionFailed
      else seqM (close_old_websocket L) (reconnect L K location)) s3 = Some (Inr (flow, s'))"
    unfolding bindM_apply bindM_Inr by blast
  from 4 assms(2) have lost: "\<not> lost"
    by (auto simp: terminate_def seqM_Inr set_disconnect_reason_def)
  with 3 have events: "cn_events s3 = []" by (auto intro: drain_events_empties)
  from 3 s2 have s3: "session_empty s3" by (blast dest: keeps_result [OF emptied.drain_events_keeps])
  from 4 lost have run: "seqM (close_old_websocket L) (reconnect L K location) s3 = Some (Inr (flow, s'))"
    by simp
  have "keeps session_empty (seqM (close_old_websocket L) (reconnect L K location))"
    by (intro keeps_seq emptied.close_old_keeps emptied.reconnect_keeps)
  with run s3 have "session_empty s'" by (blast dest: keeps_result)
  moreover from run events have "cn_events s' = []" by (blast dest: keeps_result [OF reconnect_events])
  ultimately show ?thesis by (simp add: timeouts_match_def timeout_due_def session_empty_def)
qed

interpretation timeouts: step_invariant timeouts_match L "\<lambda>s. True" order
  for L :: "('v, 'x, 'c, 'd, 'w, 'e, 'h, 'crt, 'k, 'q) conn_lib"
    and order :: "(u64 \<rightharpoonup> pending_rpc) \<Rightarrow> u64 list"
proof unfold_locales
  fix s ev evs
  assume match: "timeouts_match s" and evs: "cn_events s = ev # evs" "\<forall>n. ev \<noteq> RpcTimeoutEvent n"
  show "timeouts_match (s\<lparr>cn_events := evs\<rparr>)"
    by (rule timeouts_same [OF match]) (use evs in auto)
next
  fix s n evs s'
  assume match: "timeouts_match s" and evs: "cn_events s = RpcTimeoutEvent n # evs"
    and run: "finish_rpc n (Inl RpcTimeout) (s\<lparr>cn_events := evs\<rparr>) = Some (Inr ((), s'))"
  from run show "timeouts_match s'"
  proof (rule finish_rpc_timeouts)
    show "timeout_due (s\<lparr>cn_events := evs\<rparr>) m"
      if "cn_pending (s\<lparr>cn_events := evs\<rparr>) m \<noteq> None" "m \<noteq> n" for m
      using match that evs by (auto simp: timeouts_match_def timeout_due_def)
    show "m \<le> cn_rpc_id_counter (s\<lparr>cn_events := evs\<rparr>)" if "timeout_due (s\<lparr>cn_events := evs\<rparr>) m" for m
      using match that evs by (auto simp: timeouts_match_def timeout_due_def)
  qed
next
  show "keeps timeouts_match (finish_rpc n result)" for n result
    by (rule keepsI) (erule finish_rpc_timeouts; simp add: timeouts_match_def)
next
  fix s c commands flow s'
  assume "timeouts_match s" and run: "handle_command L c (s\<lparr>cn_commands := commands\<rparr>) = Some (Inr (flow, s'))"
  then have "timeouts_match (s\<lparr>cn_commands := commands\<rparr>)" by (auto elim: timeouts_same)
  from command_timeouts [OF this run] show "timeouts_match s'" .
next
  show "handle_redirect L K order l s = Some (Inr (flow, s')) \<Longrightarrow>
      if flow = BreakLoop then True else timeouts_match s'" for K l s flow s'
    using redirect_timeouts by auto
next
  fix s n
  assume match: "timeouts_match s" and n: "n \<in> set (cn_rpc_timers s)"
  let ?t = "s\<lparr>cn_rpc_timers := removeAll n (cn_rpc_timers s), cn_events := cn_events s @ [RpcTimeoutEvent n]\<rparr>"
  have "timeout_due ?t m \<longleftrightarrow> timeout_due s m" for m
    using n by (auto simp: timeout_due_def)
  with match show "timeouts_match ?t" by (simp add: timeouts_match_def)
next
  fix s request report s'
  assume match: "timeouts_match s"
    and run: "stats_done L request report (s\<lparr>cn_stats := remove1 request (cn_stats s)\<rparr>) = Some (Inr ((), s'))"
  from run show "timeouts_match s'"
  proof (cases rule: stats_done_cases)
    case (sent ev)
    then show ?thesis by (intro timeouts_same [OF match]) auto
  qed (auto intro!: timeouts_same [OF match])
qed (auto elim!: timeouts_same)

text \<open>
  Property C4. No RPC request waits for ever, and no timeout hits another request: for every pending request
  a timer runs or its timeout waits to be handled; a timer that runs or has fired is of a request of
  this session, and the next request of the session gets an identifier no timeout can be for.
\<close>

theorem requests_time_out:
  assumes "running L K order s"
  shows "(cn_pending s n \<noteq> None \<longrightarrow> timeout_due s n) \<and>
    (build_rpc_message (cn_rpc_id_counter s) method params False = Some (message, Some m, counter) \<longrightarrow>
      \<not> timeout_due s m)"
proof (intro conjI impI)
  have match: "timeouts_match s"
    by (rule timeouts.running_keeps [OF assms])
      (simp add: timeouts_match_def timeout_due_def connection_new_def)
  then show "timeout_due s n" if "cn_pending s n \<noteq> None" using that by (simp add: timeouts_match_def)
  assume "build_rpc_message (cn_rpc_id_counter s) method params False = Some (message, Some m, counter)"
  then have "cn_rpc_id_counter s < m"
    by (auto simp: build_rpc_message_def word_less_nat_alt split: bind_splits dest!: unat_checked_add)
  with match show "\<not> timeout_due s m" by (auto simp: timeouts_match_def)
qed

theorem requests_time_out_witness:
  "cn_rpc_id_counter example_running = 0 \<and> \<not> timeout_due example_running 1"
proof
  show zero: "cn_rpc_id_counter example_running = 0" by (simp add: example_running_def connection_new_def)
  have "build_rpc_message (cn_rpc_id_counter example_running) ''method'' None False =
      Some (JObj [(''jsonrpc'', JStr ''2.0''), (''method'', JStr ''method''), (''id'', JInt 1)], Some 1, 1)"
    unfolding zero by (simp add: build_rpc_message_def checked_add_def opt_member_def)
  from requests_time_out [OF example_runs] this show "\<not> timeout_due example_running 1" by blast
qed

end
