(* ===== verification/Conn_Handle.thy ===== *)
theory Conn_Handle
  imports Conn_Calls
begin

text \<open>
  \<^verbatim>\<open>SoraConnectionHandle\<close> of \<^verbatim>\<open>src/connection.rs\<close>: the calls of a handle, the command that each of them sends
  and what it returns. The run loop is the other side of the channel (\<open>Conn_Calls\<close>).
\<close>

subsection \<open>The calls\<close>

datatype handle_call =
    SelectedSignalingUrl
  | ConnectedSignalingUrl
  | DisconnectCall
  | SendRpcRequest string "json_string option" bool
  | SendMessage string bytes
  | GetStats

text \<open>The command with the number of its answer channel, its name and its time limit in milliseconds.\<close>

fun command_of :: "handle_call \<Rightarrow> nat \<Rightarrow> conn_command" where
  "command_of SelectedSignalingUrl tx = GetSelectedSignalingUrlCommand tx"
| "command_of ConnectedSignalingUrl tx = GetConnectedSignalingUrlCommand tx"
| "command_of DisconnectCall tx = DisconnectCommand tx"
| "command_of (SendRpcRequest method_name params notification) tx =
     SendRpcRequestCommand method_name params notification tx"
| "command_of (SendMessage label data) tx = SendMessageCommand label data tx"
| "command_of GetStats tx = GetStatsCommand tx"

fun command_name :: "handle_call \<Rightarrow> string" where
  "command_name SelectedSignalingUrl = ''selected_signaling_url''"
| "command_name ConnectedSignalingUrl = ''connected_signaling_url''"
| "command_name DisconnectCall = ''disconnect''"
| "command_name (SendRpcRequest method_name params notification) = ''send_rpc_request''"
| "command_name (SendMessage label data) = ''send_message''"
| "command_name GetStats = ''get_stats''"

fun call_timeout :: "handle_call \<Rightarrow> nat option" where
  "call_timeout GetStats = Some 5000"
| "call_timeout _ = None"

text \<open>
  What comes to a channel for one answer: the answer, or that its sender was dropped. \<open>arrival\<close> is when, in
  milliseconds since the call, and \<open>None\<close> when nothing ever comes.
\<close>

datatype ('x, 'e) oneshot = SentAnswer "('x, 'e) command_answer" | SenderDropped 'e

text \<open>\<open>sent\<close> is the result of sending the command, with the text of its error.\<close>

definition send_command ::
    "string \<Rightarrow> nat option \<Rightarrow> string + unit \<Rightarrow> (nat \<times> ('x, 'e) oneshot) option \<Rightarrow>
       (('x, 'e) sora_error + ('x, 'e) command_answer) option" where
  "send_command name limit sent arrival =
     (case sent of
        Inl reason \<Rightarrow> Some (Inl (CommandSendFailed reason name))
      | Inr _ \<Rightarrow>
          map_option (\<lambda>result. case result of
              None \<Rightarrow> Inl (CommandTimeout name)
            | Some (SenderDropped source) \<Rightarrow> Inl (CommandResponseMissing source name)
            | Some (SentAnswer answer) \<Rightarrow> Inr answer) (await limit arrival))"

datatype handle_value =
    UnitValue
  | UrlValue "string option"
  | RpcValue "rpc_response option"
  | StatsValue json_string

text \<open>
  The answer as the call returns it: the types of the channels make any other combination impossible, it
  is \<open>None\<close> here. An answer that is a result itself is flattened (\<^verbatim>\<open>.await?\<close>).
\<close>

fun returned :: "handle_call \<Rightarrow> ('x, 'e) command_answer \<Rightarrow> (('x, 'e) sora_error + handle_value) option" where
  "returned SelectedSignalingUrl (UrlAnswer url) = Some (Inr (UrlValue url))"
| "returned ConnectedSignalingUrl (UrlAnswer url) = Some (Inr (UrlValue url))"
| "returned DisconnectCall DisconnectAnswer = Some (Inr UnitValue)"
| "returned (SendRpcRequest method_name params notification) (RpcAnswer result) =
     Some (bindE result (Inr \<circ> RpcValue))"
| "returned (SendMessage label data) (MessageAnswer result) = Some (bindE result (\<lambda>_. Inr UnitValue))"
| "returned GetStats (StatsAnswer result) = Some (bindE result (Inr \<circ> StatsValue))"
| "returned _ _ = None"

definition handle_result ::
    "handle_call \<Rightarrow> string + unit \<Rightarrow> (nat \<times> ('x, 'e) oneshot) option \<Rightarrow>
       (('x, 'e) sora_error + handle_value) option" where
  "handle_result call sent arrival =
     Option.bind (send_command (command_name call) (call_timeout call) sent arrival) (\<lambda>result.
       case result of Inl err \<Rightarrow> Some (Inl err) | Inr answer \<Rightarrow> returned call answer)"

subsection \<open>Answers of a kind\<close>

fun fits :: "conn_command \<Rightarrow> ('x, 'e) command_answer \<Rightarrow> bool" where
  "fits (GetStatsCommand r) a = (\<exists>result. a = StatsAnswer result)"
| "fits (SendRpcRequestCommand m params False r) a = (\<exists>result. a = RpcAnswer result \<and> result \<noteq> Inr None)"
| "fits c a = answers_now c a"





lemma command_channel_of [simp]: "command_channel (command_of call r) = r"
  by (cases call) simp_all




text \<open>Fact. Whatever happens to the connection, reading the statistics returns within its time limit.\<close>

lemma get_stats_returns:
  fixes arrival :: "(nat \<times> ('x, 'e) oneshot) option"
  assumes "\<And>t a. arrival = Some (t, SentAnswer a) \<Longrightarrow> fits (GetStatsCommand r) a"
  shows "handle_result GetStats sent arrival \<noteq> None"
  using assms by (auto simp: handle_result_def send_command_def await_def split: sum.split option.split oneshot.split prod.split)


end
