(* ===== verification/Conn_Builder.thy ===== *)
theory Conn_Builder
  imports Conn_Invariants Version
begin

text \<open>
  \<^verbatim>\<open>SoraConnectionBuilder\<close>, \<^verbatim>\<open>SoraConnection::builder\<close> and \<^verbatim>\<open>SoraConnection::new\<close> of \<^verbatim>\<open>src/connection.rs\<close>, the
  observer of the peer connection, and what \<^verbatim>\<open>run\<close> makes of the settings: the connect message and the
  settings of the run loop (\<open>conn_config\<close>).

  Tracks and transforms are known by a number; durations are milliseconds; the event handler and the
  context are of the types \<open>'h\<close> and \<open>'ctx\<close>.
\<close>

subsection \<open>The settings\<close>

record ('h, 'ctx) connection_builder =
  cb_signaling_urls :: "string list"
  cb_channel_id :: string
  cb_role :: role
  cb_event_handler :: "'h option"
  cb_sender_video_track :: "nat option"
  cb_sender_audio_track :: "nat option"
  cb_sender_video_transform :: "nat option"
  cb_receiver_video_transform :: "nat option"
  cb_degradation_preference :: "degradation_preference option"
  cb_adaptive_ptime :: "bool option"
  cb_client_id :: "string option"
  cb_bundle_id :: "string option"
  cb_metadata :: "json_string option"
  cb_audio :: "audio option"
  cb_video :: "video option"
  cb_data_channel_signaling :: "bool option"
  cb_ignore_disconnect_websocket :: "bool option"
  cb_simulcast :: "bool option"
  cb_simulcast_request_rid :: "string option"
  cb_spotlight :: "bool option"
  cb_spotlight_focus_rid :: "string option"
  cb_spotlight_unfocus_rid :: "string option"
  cb_signaling_notify_metadata :: "json_string option"
  cb_data_channels :: "connect_data_channel list option"
  cb_forwarding_filters :: "forwarding_filter list option"
  cb_ice_server_url_configurer :: "(string list \<Rightarrow> ice_server_entry \<Rightarrow> ice_server_entry) option"
  cb_proxy :: "proxy_info option"
  cb_websocket_connection_timeout :: nat
  cb_websocket_close_timeout :: nat
  cb_disconnect_wait_timeout :: nat
  cb_disconnected_grace_period :: nat
  cb_turn_tls_insecure :: bool
  cb_turn_tls_ca_cert :: "bytes option"
  cb_user_agent :: "string option"
  cb_tls_config :: tls_config
  cb_context :: 'ctx

definition builder_new :: "'ctx \<Rightarrow> string list \<Rightarrow> string \<Rightarrow> role \<Rightarrow> 'h \<Rightarrow> ('h, 'ctx) connection_builder" where
  "builder_new context signaling_urls channel_id role event_handler =
     \<lparr>cb_signaling_urls = signaling_urls, cb_channel_id = channel_id, cb_role = role,
      cb_event_handler = Some event_handler,
      cb_sender_video_track = None, cb_sender_audio_track = None, cb_sender_video_transform = None,
      cb_receiver_video_transform = None, cb_degradation_preference = None, cb_adaptive_ptime = None,
      cb_client_id = None, cb_bundle_id = None, cb_metadata = None, cb_audio = None, cb_video = None,
      cb_data_channel_signaling = None, cb_ignore_disconnect_websocket = None, cb_simulcast = None,
      cb_simulcast_request_rid = None, cb_spotlight = None, cb_spotlight_focus_rid = None,
      cb_spotlight_unfocus_rid = None, cb_signaling_notify_metadata = None, cb_data_channels = None,
      cb_forwarding_filters = None, cb_ice_server_url_configurer = None, cb_proxy = None,
      cb_websocket_connection_timeout = 30000, cb_websocket_close_timeout = 3000,
      cb_disconnect_wait_timeout = 5000, cb_disconnected_grace_period = 10000,
      cb_turn_tls_insecure = False, cb_turn_tls_ca_cert = None, cb_user_agent = None,
      cb_tls_config = \<lparr>tls_insecure = False, tls_client_cert = None, tls_client_key = None, tls_ca_cert = None\<rparr>,
      cb_context = context\<rparr>"

text \<open>One definition per setter.\<close>

definition cb_set_sender_video_track :: "nat \<Rightarrow> ('h, 'ctx) connection_builder \<Rightarrow> ('h, 'ctx) connection_builder" where
  "cb_set_sender_video_track value b = b\<lparr>cb_sender_video_track := Some value\<rparr>"

definition cb_set_sender_audio_track :: "nat \<Rightarrow> ('h, 'ctx) connection_builder \<Rightarrow> ('h, 'ctx) connection_builder" where
  "cb_set_sender_audio_track value b = b\<lparr>cb_sender_audio_track := Some value\<rparr>"

definition cb_set_sender_video_transform :: "nat \<Rightarrow> ('h, 'ctx) connection_builder \<Rightarrow> ('h, 'ctx) connection_builder" where
  "cb_set_sender_video_transform value b = b\<lparr>cb_sender_video_transform := Some value\<rparr>"

definition cb_set_receiver_video_transform :: "nat \<Rightarrow> ('h, 'ctx) connection_builder \<Rightarrow> ('h, 'ctx) connection_builder" where
  "cb_set_receiver_video_transform value b = b\<lparr>cb_receiver_video_transform := Some value\<rparr>"

definition cb_set_degradation_preference :: "degradation_preference \<Rightarrow> ('h, 'ctx) connection_builder \<Rightarrow> ('h, 'ctx) connection_builder" where
  "cb_set_degradation_preference value b = b\<lparr>cb_degradation_preference := Some value\<rparr>"

definition cb_set_adaptive_ptime :: "bool \<Rightarrow> ('h, 'ctx) connection_builder \<Rightarrow> ('h, 'ctx) connection_builder" where
  "cb_set_adaptive_ptime value b = b\<lparr>cb_adaptive_ptime := Some value\<rparr>"

definition cb_set_client_id :: "string \<Rightarrow> ('h, 'ctx) connection_builder \<Rightarrow> ('h, 'ctx) connection_builder" where
  "cb_set_client_id value b = b\<lparr>cb_client_id := Some value\<rparr>"

definition cb_set_bundle_id :: "string \<Rightarrow> ('h, 'ctx) connection_builder \<Rightarrow> ('h, 'ctx) connection_builder" where
  "cb_set_bundle_id value b = b\<lparr>cb_bundle_id := Some value\<rparr>"

definition cb_set_metadata :: "json_string \<Rightarrow> ('h, 'ctx) connection_builder \<Rightarrow> ('h, 'ctx) connection_builder" where
  "cb_set_metadata value b = b\<lparr>cb_metadata := Some value\<rparr>"

definition cb_set_audio :: "audio \<Rightarrow> ('h, 'ctx) connection_builder \<Rightarrow> ('h, 'ctx) connection_builder" where
  "cb_set_audio value b = b\<lparr>cb_audio := Some value\<rparr>"

definition cb_set_video :: "video \<Rightarrow> ('h, 'ctx) connection_builder \<Rightarrow> ('h, 'ctx) connection_builder" where
  "cb_set_video value b = b\<lparr>cb_video := Some value\<rparr>"

definition cb_set_data_channel_signaling :: "bool \<Rightarrow> ('h, 'ctx) connection_builder \<Rightarrow> ('h, 'ctx) connection_builder" where
  "cb_set_data_channel_signaling value b = b\<lparr>cb_data_channel_signaling := Some value\<rparr>"

definition cb_set_ignore_disconnect_websocket :: "bool \<Rightarrow> ('h, 'ctx) connection_builder \<Rightarrow> ('h, 'ctx) connection_builder" where
  "cb_set_ignore_disconnect_websocket value b = b\<lparr>cb_ignore_disconnect_websocket := Some value\<rparr>"

definition cb_set_simulcast :: "bool \<Rightarrow> ('h, 'ctx) connection_builder \<Rightarrow> ('h, 'ctx) connection_builder" where
  "cb_set_simulcast value b = b\<lparr>cb_simulcast := Some value\<rparr>"

definition cb_set_simulcast_request_rid :: "string \<Rightarrow> ('h, 'ctx) connection_builder \<Rightarrow> ('h, 'ctx) connection_builder" where
  "cb_set_simulcast_request_rid value b = b\<lparr>cb_simulcast_request_rid := Some value\<rparr>"

definition cb_set_spotlight :: "bool \<Rightarrow> ('h, 'ctx) connection_builder \<Rightarrow> ('h, 'ctx) connection_builder" where
  "cb_set_spotlight value b = b\<lparr>cb_spotlight := Some value\<rparr>"

definition cb_set_spotlight_focus_rid :: "string \<Rightarrow> ('h, 'ctx) connection_builder \<Rightarrow> ('h, 'ctx) connection_builder" where
  "cb_set_spotlight_focus_rid value b = b\<lparr>cb_spotlight_focus_rid := Some value\<rparr>"

definition cb_set_spotlight_unfocus_rid :: "string \<Rightarrow> ('h, 'ctx) connection_builder \<Rightarrow> ('h, 'ctx) connection_builder" where
  "cb_set_spotlight_unfocus_rid value b = b\<lparr>cb_spotlight_unfocus_rid := Some value\<rparr>"

definition cb_set_signaling_notify_metadata :: "json_string \<Rightarrow> ('h, 'ctx) connection_builder \<Rightarrow> ('h, 'ctx) connection_builder" where
  "cb_set_signaling_notify_metadata value b = b\<lparr>cb_signaling_notify_metadata := Some value\<rparr>"

definition cb_set_data_channels :: "connect_data_channel list \<Rightarrow> ('h, 'ctx) connection_builder \<Rightarrow> ('h, 'ctx) connection_builder" where
  "cb_set_data_channels value b = b\<lparr>cb_data_channels := Some value\<rparr>"

definition cb_set_forwarding_filters :: "forwarding_filter list \<Rightarrow> ('h, 'ctx) connection_builder \<Rightarrow> ('h, 'ctx) connection_builder" where
  "cb_set_forwarding_filters value b = b\<lparr>cb_forwarding_filters := Some value\<rparr>"

definition cb_set_ice_server_url_configurer :: "(string list \<Rightarrow> ice_server_entry \<Rightarrow> ice_server_entry) \<Rightarrow> ('h, 'ctx) connection_builder \<Rightarrow> ('h, 'ctx) connection_builder" where
  "cb_set_ice_server_url_configurer value b = b\<lparr>cb_ice_server_url_configurer := Some value\<rparr>"

definition cb_set_proxy :: "proxy_info \<Rightarrow> ('h, 'ctx) connection_builder \<Rightarrow> ('h, 'ctx) connection_builder" where
  "cb_set_proxy value b = b\<lparr>cb_proxy := Some value\<rparr>"

definition cb_set_websocket_connection_timeout :: "nat \<Rightarrow> ('h, 'ctx) connection_builder \<Rightarrow> ('h, 'ctx) connection_builder" where
  "cb_set_websocket_connection_timeout value b = b\<lparr>cb_websocket_connection_timeout := value\<rparr>"

definition cb_set_websocket_close_timeout :: "nat \<Rightarrow> ('h, 'ctx) connection_builder \<Rightarrow> ('h, 'ctx) connection_builder" where
  "cb_set_websocket_close_timeout value b = b\<lparr>cb_websocket_close_timeout := value\<rparr>"

definition cb_set_disconnect_wait_timeout :: "nat \<Rightarrow> ('h, 'ctx) connection_builder \<Rightarrow> ('h, 'ctx) connection_builder" where
  "cb_set_disconnect_wait_timeout value b = b\<lparr>cb_disconnect_wait_timeout := value\<rparr>"

definition cb_set_disconnected_grace_period :: "nat \<Rightarrow> ('h, 'ctx) connection_builder \<Rightarrow> ('h, 'ctx) connection_builder" where
  "cb_set_disconnected_grace_period value b = b\<lparr>cb_disconnected_grace_period := value\<rparr>"

definition cb_set_insecure :: "bool \<Rightarrow> ('h, 'ctx) connection_builder \<Rightarrow> ('h, 'ctx) connection_builder" where
  "cb_set_insecure value b = b\<lparr>cb_tls_config := (cb_tls_config b)\<lparr>tls_insecure := value\<rparr>\<rparr>"

definition cb_set_turn_tls_insecure :: "bool \<Rightarrow> ('h, 'ctx) connection_builder \<Rightarrow> ('h, 'ctx) connection_builder" where
  "cb_set_turn_tls_insecure value b = b\<lparr>cb_turn_tls_insecure := value\<rparr>"

definition cb_set_ca_cert :: "string \<Rightarrow> ('h, 'ctx) connection_builder \<Rightarrow> ('h, 'ctx) connection_builder" where
  "cb_set_ca_cert value b = b\<lparr>cb_tls_config := (cb_tls_config b)\<lparr>tls_ca_cert := Some value\<rparr>\<rparr>"

definition cb_set_turn_tls_ca_cert :: "bytes \<Rightarrow> ('h, 'ctx) connection_builder \<Rightarrow> ('h, 'ctx) connection_builder" where
  "cb_set_turn_tls_ca_cert value b = b\<lparr>cb_turn_tls_ca_cert := Some value\<rparr>"

definition cb_set_client_cert :: "string \<Rightarrow> string \<Rightarrow> ('h, 'ctx) connection_builder \<Rightarrow> ('h, 'ctx) connection_builder" where
  "cb_set_client_cert cert key b =
     b\<lparr>cb_tls_config := (cb_tls_config b)\<lparr>tls_client_cert := Some cert, tls_client_key := Some key\<rparr>\<rparr>"

definition cb_set_user_agent :: "string \<Rightarrow> ('h, 'ctx) connection_builder \<Rightarrow> ('h, 'ctx) connection_builder" where
  "cb_set_user_agent value b = b\<lparr>cb_user_agent := Some value\<rparr>"

lemmas cb_set_defs =
  cb_set_sender_video_track_def cb_set_sender_audio_track_def cb_set_sender_video_transform_def
  cb_set_receiver_video_transform_def cb_set_degradation_preference_def cb_set_adaptive_ptime_def
  cb_set_client_id_def cb_set_bundle_id_def cb_set_metadata_def cb_set_audio_def cb_set_video_def
  cb_set_data_channel_signaling_def cb_set_ignore_disconnect_websocket_def cb_set_simulcast_def
  cb_set_simulcast_request_rid_def cb_set_spotlight_def cb_set_spotlight_focus_rid_def
  cb_set_spotlight_unfocus_rid_def cb_set_signaling_notify_metadata_def cb_set_data_channels_def
  cb_set_forwarding_filters_def cb_set_ice_server_url_configurer_def cb_set_proxy_def
  cb_set_websocket_connection_timeout_def cb_set_websocket_close_timeout_def
  cb_set_disconnect_wait_timeout_def cb_set_disconnected_grace_period_def cb_set_insecure_def
  cb_set_turn_tls_insecure_def cb_set_ca_cert_def cb_set_turn_tls_ca_cert_def
  cb_set_client_cert_def cb_set_user_agent_def

text \<open>A chain of calls of the setters.\<close>

datatype builder_setting =
    SetSenderVideoTrack nat
  | SetSenderAudioTrack nat
  | SetSenderVideoTransform nat
  | SetReceiverVideoTransform nat
  | SetDegradationPreference degradation_preference
  | SetAdaptivePtime bool
  | SetClientId string
  | SetBundleId string
  | SetMetadata json_string
  | SetAudio audio
  | SetVideo video
  | SetDataChannelSignaling bool
  | SetIgnoreDisconnectWebsocket bool
  | SetSimulcast bool
  | SetSimulcastRequestRid string
  | SetSpotlight bool
  | SetSpotlightFocusRid string
  | SetSpotlightUnfocusRid string
  | SetSignalingNotifyMetadata json_string
  | SetDataChannels "connect_data_channel list"
  | SetForwardingFilters "forwarding_filter list"
  | SetIceServerUrlConfigurer "string list \<Rightarrow> ice_server_entry \<Rightarrow> ice_server_entry"
  | SetProxy proxy_info
  | SetWebsocketConnectionTimeout nat
  | SetWebsocketCloseTimeout nat
  | SetDisconnectWaitTimeout nat
  | SetDisconnectedGracePeriod nat
  | SetInsecure bool
  | SetTurnTlsInsecure bool
  | SetCaCert string
  | SetTurnTlsCaCert bytes
  | SetClientCert string string
  | SetUserAgent string

fun apply_setting :: "builder_setting \<Rightarrow> ('h, 'ctx) connection_builder \<Rightarrow> ('h, 'ctx) connection_builder" where
  "apply_setting (SetSenderVideoTrack value) = cb_set_sender_video_track value"
| "apply_setting (SetSenderAudioTrack value) = cb_set_sender_audio_track value"
| "apply_setting (SetSenderVideoTransform value) = cb_set_sender_video_transform value"
| "apply_setting (SetReceiverVideoTransform value) = cb_set_receiver_video_transform value"
| "apply_setting (SetDegradationPreference value) = cb_set_degradation_preference value"
| "apply_setting (SetAdaptivePtime value) = cb_set_adaptive_ptime value"
| "apply_setting (SetClientId value) = cb_set_client_id value"
| "apply_setting (SetBundleId value) = cb_set_bundle_id value"
| "apply_setting (SetMetadata value) = cb_set_metadata value"
| "apply_setting (SetAudio value) = cb_set_audio value"
| "apply_setting (SetVideo value) = cb_set_video value"
| "apply_setting (SetDataChannelSignaling value) = cb_set_data_channel_signaling value"
| "apply_setting (SetIgnoreDisconnectWebsocket value) = cb_set_ignore_disconnect_websocket value"
| "apply_setting (SetSimulcast value) = cb_set_simulcast value"
| "apply_setting (SetSimulcastRequestRid value) = cb_set_simulcast_request_rid value"
| "apply_setting (SetSpotlight value) = cb_set_spotlight value"
| "apply_setting (SetSpotlightFocusRid value) = cb_set_spotlight_focus_rid value"
| "apply_setting (SetSpotlightUnfocusRid value) = cb_set_spotlight_unfocus_rid value"
| "apply_setting (SetSignalingNotifyMetadata value) = cb_set_signaling_notify_metadata value"
| "apply_setting (SetDataChannels value) = cb_set_data_channels value"
| "apply_setting (SetForwardingFilters value) = cb_set_forwarding_filters value"
| "apply_setting (SetIceServerUrlConfigurer value) = cb_set_ice_server_url_configurer value"
| "apply_setting (SetProxy value) = cb_set_proxy value"
| "apply_setting (SetWebsocketConnectionTimeout value) = cb_set_websocket_connection_timeout value"
| "apply_setting (SetWebsocketCloseTimeout value) = cb_set_websocket_close_timeout value"
| "apply_setting (SetDisconnectWaitTimeout value) = cb_set_disconnect_wait_timeout value"
| "apply_setting (SetDisconnectedGracePeriod value) = cb_set_disconnected_grace_period value"
| "apply_setting (SetInsecure value) = cb_set_insecure value"
| "apply_setting (SetTurnTlsInsecure value) = cb_set_turn_tls_insecure value"
| "apply_setting (SetCaCert value) = cb_set_ca_cert value"
| "apply_setting (SetTurnTlsCaCert value) = cb_set_turn_tls_ca_cert value"
| "apply_setting (SetClientCert cert key) = cb_set_client_cert cert key"
| "apply_setting (SetUserAgent value) = cb_set_user_agent value"

definition configured ::
    "'ctx \<Rightarrow> string list \<Rightarrow> string \<Rightarrow> role \<Rightarrow> 'h \<Rightarrow> builder_setting list \<Rightarrow> ('h, 'ctx) connection_builder" where
  "configured context signaling_urls channel_id role event_handler settings =
     fold apply_setting settings (builder_new context signaling_urls channel_id role event_handler)"

subsection \<open>Verifying a TURN server\<close>

text \<open>
  \<^verbatim>\<open>TurnTlsCaCertVerifier::verify_chain\<close> on a chain of DER certificates: \<open>parse\<close> reads the end entity
  certificate and \<open>verify\<close> verifies it for a server at the present time.
\<close>

definition verify_chain ::
    "(bytes \<Rightarrow> 'e + 'cert) \<Rightarrow> ('cert \<Rightarrow> 'anchor list \<Rightarrow> bytes list \<Rightarrow> bool) \<Rightarrow> 'anchor list \<Rightarrow> bytes list \<Rightarrow> bool" where
  "verify_chain parse verify trust_anchors chain =
     (case chain of
        [] \<Rightarrow> False
      | ee_der # intermediates \<Rightarrow>
          (case parse ee_der of
             Inl _ \<Rightarrow> False
           | Inr ee \<Rightarrow> verify ee trust_anchors intermediates))"

subsection \<open>The observer of the peer connection\<close>

datatype ('c, 'e) pc_callback =
    OnSignalingChange nat
  | OnConnectionChange peer_connection_state
  | OnStandardizedIceConnectionChange nat
  | OnIceGatheringChange nat
  | OnTrack nat bool
  | OnRemoveTrack nat
  | OnIceCandidate "'e + string"
  | OnDataChannel 'c

text \<open>The event that each callback sends to the run loop; a candidate that has no text is dropped.\<close>

fun observed :: "(json \<Rightarrow> string) \<Rightarrow> ('c, 'e) pc_callback \<Rightarrow> 'c sora_event option" where
  "observed print_json (OnSignalingChange new_state) = Some (SignalingChangeEvent new_state)"
| "observed print_json (OnConnectionChange new_state) = Some (ConnectionChangeEvent new_state)"
| "observed print_json (OnStandardizedIceConnectionChange new_state) = Some (IceConnectionChangeEvent new_state)"
| "observed print_json (OnIceGatheringChange new_state) = Some (IceGatheringChangeEvent new_state)"
| "observed print_json (OnTrack transceiver video) = Some (TrackEvent transceiver video)"
| "observed print_json (OnRemoveTrack receiver) = Some (RemoveTrackEvent receiver)"
| "observed print_json (OnIceCandidate candidate) =
     (case candidate of
        Inl _ \<Rightarrow> None
      | Inr message \<Rightarrow> Some (SignalingMessageEvent (print_json (outgoing_to_json (Candidate message)))))"
| "observed print_json (OnDataChannel channel) = Some (DataChannelRegisterEvent channel)"

subsection \<open>A new connection\<close>

record pc_proxy =
  px_host :: string
  px_port :: u16
  px_username :: string
  px_password :: string
  px_user_agent :: string

record 'anchor pc_deps =
  pd_trust_anchors :: "'anchor list option"
  pd_proxy :: "pc_proxy option"

record ('anchor, 'w, 'e) pc_create_lib =
  pl_anchor :: "bytes \<Rightarrow> 'e + 'anchor"
  pl_error_text :: "'e \<Rightarrow> string"
  pl_create :: "'anchor pc_deps \<Rightarrow> 'w \<Rightarrow> ('e + unit) \<times> 'w"

definition pc_proxy_of :: "parsed_proxy_info \<Rightarrow> pc_proxy" where
  "pc_proxy_of proxy =
     \<lparr>px_host = pp_host proxy, px_port = pp_port proxy,
      px_username = case_option [] id (pp_username proxy),
      px_password = case_option [] id (pp_password proxy), px_user_agent = pp_user_agent proxy\<rparr>"

text \<open>The trust anchors of the verifier for TURN, when a certificate was given.\<close>

definition turn_trust_anchors ::
    "('anchor, 'w, 'e) pc_create_lib \<Rightarrow> bytes option \<Rightarrow> ('x, 'e) sora_error + 'anchor list option" where
  "turn_trust_anchors P turn_tls_ca_cert =
     (case turn_tls_ca_cert of
        None \<Rightarrow> Inr None
      | Some ca_cert_der \<Rightarrow>
          bindE (map_err (SetupError \<circ> TurnTlsCaCert \<circ> pl_error_text P) (pl_anchor P ca_cert_der))
            (\<lambda>anchor. Inr (Some [anchor])))"

definition parsed_proxy ::
    "'e uri_parser \<Rightarrow> string \<Rightarrow> proxy_info option \<Rightarrow> ('x, 'e) sora_error + parsed_proxy_info option" where
  "parsed_proxy parse_uri sora_client proxy =
     (case proxy of
        None \<Rightarrow> Inr None
      | Some proxy \<Rightarrow> bindE (parse_proxy_info parse_uri sora_client proxy) (Inr \<circ> Some))"

definition sora_connection_new ::
    "('anchor, 'w, 'e) pc_create_lib \<Rightarrow> 'e uri_parser \<Rightarrow> string \<Rightarrow> ('h, 'ctx) connection_builder \<Rightarrow> 'w \<Rightarrow>
       (('x, 'e) sora_error + ('c, 'w, 'x, 'e) conn \<times> parsed_proxy_info option) \<times> 'w" where
  "sora_connection_new P parse_uri sora_client config w =
     (case bindE (turn_trust_anchors P (cb_turn_tls_ca_cert config)) (\<lambda>anchors.
           bindE (parsed_proxy parse_uri sora_client (cb_proxy config)) (\<lambda>proxy. Inr (anchors, proxy))) of
        Inl err \<Rightarrow> (Inl err, w)
      | Inr (anchors, proxy) \<Rightarrow>
          (case pl_create P \<lparr>pd_trust_anchors = anchors, pd_proxy = map_option pc_proxy_of proxy\<rparr> w of
             (Inl err, w) \<Rightarrow> (Inl (NegotiationError (WebrtcError err)), w)
           | (Inr _, w) \<Rightarrow>
               (Inr (connection_new w (cb_sender_video_track config) (cb_sender_audio_track config)
                  (cb_sender_video_transform config) (cb_receiver_video_transform config), proxy), w)))"

subsection \<open>What a run makes of the settings\<close>

record client_names =
  nm_sora_client :: string
  nm_libwebrtc :: string
  nm_environment :: string

definition connect_message_of :: "client_names \<Rightarrow> ('h, 'ctx) connection_builder \<Rightarrow> bool \<Rightarrow> connect_message" where
  "connect_message_of names config redirect =
     \<lparr>cm_channel_id = cb_channel_id config, cm_role = cb_role config, cm_client_id = cb_client_id config,
      cm_bundle_id = cb_bundle_id config, cm_redirect = redirect, cm_sora_client = nm_sora_client names,
      cm_libwebrtc = nm_libwebrtc names, cm_environment = nm_environment names,
      cm_metadata = cb_metadata config, cm_data_channel_signaling = cb_data_channel_signaling config,
      cm_ignore_disconnect_websocket = cb_ignore_disconnect_websocket config,
      cm_simulcast = cb_simulcast config, cm_simulcast_request_rid = cb_simulcast_request_rid config,
      cm_spotlight = cb_spotlight config, cm_spotlight_focus_rid = cb_spotlight_focus_rid config,
      cm_spotlight_unfocus_rid = cb_spotlight_unfocus_rid config,
      cm_signaling_notify_metadata = cb_signaling_notify_metadata config,
      cm_data_channels = cb_data_channels config, cm_forwarding_filters = cb_forwarding_filters config,
      cm_audio = cb_audio config, cm_video = cb_video config\<rparr>"

definition conn_config_of ::
    "client_names \<Rightarrow> ('h, 'ctx) connection_builder \<Rightarrow> parsed_proxy_info option \<Rightarrow> conn_config" where
  "conn_config_of names config proxy =
     \<lparr>kc_session = \<lparr>sc_role = cb_role config, sc_degradation_preference = cb_degradation_preference config,
         sc_adaptive_ptime = cb_adaptive_ptime config, sc_turn_tls_insecure = cb_turn_tls_insecure config,
         sc_ice_server_url_configurer = cb_ice_server_url_configurer config\<rparr>,
      kc_connect = connect_message_of names config False, kc_proxy = proxy, kc_tls = cb_tls_config config,
      kc_user_agent = case_option (nm_sora_client names) id (cb_user_agent config)\<rparr>"

text \<open>\<^verbatim>\<open>run\<close> up to its loop, with \<^verbatim>\<open>expect("event_handler must be set in new()")\<close>.\<close>

definition configured_start ::
    "('v, 'x, 'c, 'd, 'w, 'e, 'hh, 'crt, 'k, 'q) conn_lib \<Rightarrow> client_names \<Rightarrow> ('h, 'ctx) connection_builder \<Rightarrow>
       parsed_proxy_info option \<Rightarrow> (('x, 'e) sora_error \<Rightarrow> string) \<Rightarrow>
       (client_stream \<times> signaling_target, 'x, 'e) attempt list \<Rightarrow>
       (('c, 'w, 'x, 'e) conn, ('x, 'e) sora_error, disconnect_reason option) exec" where
  "configured_start L names config proxy error_text outcomes =
     (case cb_event_handler config of
        None \<Rightarrow> panicM
      | Some _ \<Rightarrow> run_start L (conn_config_of names config proxy) (cb_signaling_urls config) error_text outcomes)"


subsection \<open>What was configured is what is sent\<close>

text \<open>The value that the last call of a setter gave.\<close>

definition last_set :: "(builder_setting \<Rightarrow> 'a option) \<Rightarrow> builder_setting list \<Rightarrow> 'a option" where
  "last_set got settings = fold (\<lambda>setting found. or_else (got setting) found) settings None"

lemma fold_last_set:
  assumes "\<And>setting b. field (apply_setting setting b) = or_else (got setting) (field b)"
  shows "field (fold apply_setting settings b) = or_else (last_set got settings) (field b)"
  unfolding last_set_def
proof (induction settings rule: rev_induct)
  case (snoc setting settings)
  with assms [of setting "fold apply_setting settings b"] show ?case
    by (cases "got setting") (simp_all add: or_else_def)
qed (simp add: or_else_def)

lemma configured_client_id:
  "cb_client_id (configured ctx urls channel_id role handler settings) =
     last_set (\<lambda>s. case s of SetClientId v \<Rightarrow> Some v | _ \<Rightarrow> None) settings"
  unfolding configured_def
  by (subst fold_last_set [where got = "\<lambda>s. case s of SetClientId v \<Rightarrow> Some v | _ \<Rightarrow> None"])
    (simp_all add: builder_new_def cb_set_defs or_else_def split: builder_setting.split option.split)

lemma configured_bundle_id:
  "cb_bundle_id (configured ctx urls channel_id role handler settings) =
     last_set (\<lambda>s. case s of SetBundleId v \<Rightarrow> Some v | _ \<Rightarrow> None) settings"
  unfolding configured_def
  by (subst fold_last_set [where got = "\<lambda>s. case s of SetBundleId v \<Rightarrow> Some v | _ \<Rightarrow> None"])
    (simp_all add: builder_new_def cb_set_defs or_else_def split: builder_setting.split option.split)

lemma configured_metadata:
  "cb_metadata (configured ctx urls channel_id role handler settings) =
     last_set (\<lambda>s. case s of SetMetadata v \<Rightarrow> Some v | _ \<Rightarrow> None) settings"
  unfolding configured_def
  by (subst fold_last_set [where got = "\<lambda>s. case s of SetMetadata v \<Rightarrow> Some v | _ \<Rightarrow> None"])
    (simp_all add: builder_new_def cb_set_defs or_else_def split: builder_setting.split option.split)

lemma configured_data_channel_signaling:
  "cb_data_channel_signaling (configured ctx urls channel_id role handler settings) =
     last_set (\<lambda>s. case s of SetDataChannelSignaling v \<Rightarrow> Some v | _ \<Rightarrow> None) settings"
  unfolding configured_def
  by (subst fold_last_set [where got = "\<lambda>s. case s of SetDataChannelSignaling v \<Rightarrow> Some v | _ \<Rightarrow> None"])
    (simp_all add: builder_new_def cb_set_defs or_else_def split: builder_setting.split option.split)

lemma configured_ignore_disconnect_websocket:
  "cb_ignore_disconnect_websocket (configured ctx urls channel_id role handler settings) =
     last_set (\<lambda>s. case s of SetIgnoreDisconnectWebsocket v \<Rightarrow> Some v | _ \<Rightarrow> None) settings"
  unfolding configured_def
  by (subst fold_last_set [where got = "\<lambda>s. case s of SetIgnoreDisconnectWebsocket v \<Rightarrow> Some v | _ \<Rightarrow> None"])
    (simp_all add: builder_new_def cb_set_defs or_else_def split: builder_setting.split option.split)

lemma configured_simulcast:
  "cb_simulcast (configured ctx urls channel_id role handler settings) =
     last_set (\<lambda>s. case s of SetSimulcast v \<Rightarrow> Some v | _ \<Rightarrow> None) settings"
  unfolding configured_def
  by (subst fold_last_set [where got = "\<lambda>s. case s of SetSimulcast v \<Rightarrow> Some v | _ \<Rightarrow> None"])
    (simp_all add: builder_new_def cb_set_defs or_else_def split: builder_setting.split option.split)

lemma configured_simulcast_request_rid:
  "cb_simulcast_request_rid (configured ctx urls channel_id role handler settings) =
     last_set (\<lambda>s. case s of SetSimulcastRequestRid v \<Rightarrow> Some v | _ \<Rightarrow> None) settings"
  unfolding configured_def
  by (subst fold_last_set [where got = "\<lambda>s. case s of SetSimulcastRequestRid v \<Rightarrow> Some v | _ \<Rightarrow> None"])
    (simp_all add: builder_new_def cb_set_defs or_else_def split: builder_setting.split option.split)

lemma configured_spotlight:
  "cb_spotlight (configured ctx urls channel_id role handler settings) =
     last_set (\<lambda>s. case s of SetSpotlight v \<Rightarrow> Some v | _ \<Rightarrow> None) settings"
  unfolding configured_def
  by (subst fold_last_set [where got = "\<lambda>s. case s of SetSpotlight v \<Rightarrow> Some v | _ \<Rightarrow> None"])
    (simp_all add: builder_new_def cb_set_defs or_else_def split: builder_setting.split option.split)

lemma configured_spotlight_focus_rid:
  "cb_spotlight_focus_rid (configured ctx urls channel_id role handler settings) =
     last_set (\<lambda>s. case s of SetSpotlightFocusRid v \<Rightarrow> Some v | _ \<Rightarrow> None) settings"
  unfolding configured_def
  by (subst fold_last_set [where got = "\<lambda>s. case s of SetSpotlightFocusRid v \<Rightarrow> Some v | _ \<Rightarrow> None"])
    (simp_all add: builder_new_def cb_set_defs or_else_def split: builder_setting.split option.split)

lemma configured_spotlight_unfocus_rid:
  "cb_spotlight_unfocus_rid (configured ctx urls channel_id role handler settings) =
     last_set (\<lambda>s. case s of SetSpotlightUnfocusRid v \<Rightarrow> Some v | _ \<Rightarrow> None) settings"
  unfolding configured_def
  by (subst fold_last_set [where got = "\<lambda>s. case s of SetSpotlightUnfocusRid v \<Rightarrow> Some v | _ \<Rightarrow> None"])
    (simp_all add: builder_new_def cb_set_defs or_else_def split: builder_setting.split option.split)

lemma configured_signaling_notify_metadata:
  "cb_signaling_notify_metadata (configured ctx urls channel_id role handler settings) =
     last_set (\<lambda>s. case s of SetSignalingNotifyMetadata v \<Rightarrow> Some v | _ \<Rightarrow> None) settings"
  unfolding configured_def
  by (subst fold_last_set [where got = "\<lambda>s. case s of SetSignalingNotifyMetadata v \<Rightarrow> Some v | _ \<Rightarrow> None"])
    (simp_all add: builder_new_def cb_set_defs or_else_def split: builder_setting.split option.split)

lemma configured_data_channels:
  "cb_data_channels (configured ctx urls channel_id role handler settings) =
     last_set (\<lambda>s. case s of SetDataChannels v \<Rightarrow> Some v | _ \<Rightarrow> None) settings"
  unfolding configured_def
  by (subst fold_last_set [where got = "\<lambda>s. case s of SetDataChannels v \<Rightarrow> Some v | _ \<Rightarrow> None"])
    (simp_all add: builder_new_def cb_set_defs or_else_def split: builder_setting.split option.split)

lemma configured_forwarding_filters:
  "cb_forwarding_filters (configured ctx urls channel_id role handler settings) =
     last_set (\<lambda>s. case s of SetForwardingFilters v \<Rightarrow> Some v | _ \<Rightarrow> None) settings"
  unfolding configured_def
  by (subst fold_last_set [where got = "\<lambda>s. case s of SetForwardingFilters v \<Rightarrow> Some v | _ \<Rightarrow> None"])
    (simp_all add: builder_new_def cb_set_defs or_else_def split: builder_setting.split option.split)

lemma configured_audio:
  "cb_audio (configured ctx urls channel_id role handler settings) =
     last_set (\<lambda>s. case s of SetAudio v \<Rightarrow> Some v | _ \<Rightarrow> None) settings"
  unfolding configured_def
  by (subst fold_last_set [where got = "\<lambda>s. case s of SetAudio v \<Rightarrow> Some v | _ \<Rightarrow> None"])
    (simp_all add: builder_new_def cb_set_defs or_else_def split: builder_setting.split option.split)

lemma configured_video:
  "cb_video (configured ctx urls channel_id role handler settings) =
     last_set (\<lambda>s. case s of SetVideo v \<Rightarrow> Some v | _ \<Rightarrow> None) settings"
  unfolding configured_def
  by (subst fold_last_set [where got = "\<lambda>s. case s of SetVideo v \<Rightarrow> Some v | _ \<Rightarrow> None"])
    (simp_all add: builder_new_def cb_set_defs or_else_def split: builder_setting.split option.split)


lemmas configured_optional =
  configured_client_id configured_bundle_id configured_metadata configured_data_channel_signaling
  configured_ignore_disconnect_websocket configured_simulcast configured_simulcast_request_rid
  configured_spotlight configured_spotlight_focus_rid configured_spotlight_unfocus_rid
  configured_signaling_notify_metadata configured_data_channels configured_forwarding_filters
  configured_audio configured_video

lemma fold_given:
  "cb_channel_id (fold apply_setting settings b) = cb_channel_id b \<and>
    cb_role (fold apply_setting settings b) = cb_role b \<and>
    cb_signaling_urls (fold apply_setting settings b) = cb_signaling_urls b \<and>
    cb_event_handler (fold apply_setting settings b) = cb_event_handler b"
proof (induction settings arbitrary: b)
  case (Cons setting settings)
  then show ?case by (cases setting) (simp_all add: cb_set_defs)
qed simp

lemma configured_given:
  "cb_channel_id (configured ctx urls channel_id role handler settings) = channel_id"
  "cb_role (configured ctx urls channel_id role handler settings) = role"
  "cb_signaling_urls (configured ctx urls channel_id role handler settings) = urls"
  "cb_event_handler (configured ctx urls channel_id role handler settings) = Some handler"
  unfolding configured_def by (simp_all only: fold_given) (simp_all add: builder_new_def)

text \<open>The run never meets the missing event handler.\<close>

lemma configured_start_runs:
  "configured_start L names (configured ctx urls channel_id role handler settings) proxy error_text outcomes =
     run_start L (conn_config_of names (configured ctx urls channel_id role handler settings) proxy) urls
       error_text outcomes"
  by (simp add: configured_start_def configured_given)

text \<open>The member of the connect message that a setter is for.\<close>

fun setting_member :: "builder_setting \<Rightarrow> (string \<times> json) option" where
  "setting_member (SetClientId v) = Some (''client_id'', JStr v)"
| "setting_member (SetBundleId v) = Some (''bundle_id'', JStr v)"
| "setting_member (SetMetadata v) = Some (''metadata'', JRaw v)"
| "setting_member (SetDataChannelSignaling v) = Some (''data_channel_signaling'', JBool v)"
| "setting_member (SetIgnoreDisconnectWebsocket v) = Some (''ignore_disconnect_websocket'', JBool v)"
| "setting_member (SetSimulcast v) = Some (''simulcast'', JBool v)"
| "setting_member (SetSimulcastRequestRid v) = Some (''simulcast_request_rid'', JStr v)"
| "setting_member (SetSpotlight v) = Some (''spotlight'', JBool v)"
| "setting_member (SetSpotlightFocusRid v) = Some (''spotlight_focus_rid'', JStr v)"
| "setting_member (SetSpotlightUnfocusRid v) = Some (''spotlight_unfocus_rid'', JStr v)"
| "setting_member (SetSignalingNotifyMetadata v) = Some (''signaling_notify_metadata'', JRaw v)"
| "setting_member (SetDataChannels v) = Some (''data_channels'', JArr (map connect_data_channel_to_json v))"
| "setting_member (SetForwardingFilters v) =
     Some (''forwarding_filters'', JArr (map forwarding_filter_to_json v))"
| "setting_member (SetAudio v) = Some (''audio'', audio_to_json v)"
| "setting_member (SetVideo v) = Some (''video'', video_to_json v)"
| "setting_member _ = None"

definition setting_for :: "string \<Rightarrow> builder_setting \<Rightarrow> json option" where
  "setting_for key setting =
     (case setting_member setting of
        None \<Rightarrow> None
      | Some (name, j) \<Rightarrow> if name = key then Some j else None)"

definition setting_keys :: "string list" where
  "setting_keys =
     [''client_id'', ''bundle_id'', ''metadata'', ''data_channel_signaling'',
      ''ignore_disconnect_websocket'', ''simulcast'', ''simulcast_request_rid'', ''spotlight'',
      ''spotlight_focus_rid'', ''spotlight_unfocus_rid'', ''signaling_notify_metadata'',
      ''data_channels'', ''forwarding_filters'', ''audio'', ''video'']"

lemma last_set_map:
  assumes "\<And>s. setting_for key s = map_option enc (got s)"
  shows "map_option enc (last_set got settings) = last_set (setting_for key) settings"
  unfolding last_set_def
proof (induction settings rule: rev_induct)
  case (snoc setting settings)
  with assms [of setting] show ?case by (cases "got setting") (simp_all add: or_else_def)
qed simp

text \<open>
  Fact. What the application configured is what the client sends: each optional member of the connect
  message, also of the one that follows a redirect, is the value of the last call of the setter it is for,
  and is missing when that setter was never called; the channel and the role are those given to the
  builder. In particular no setter writes to the field of another.
\<close>

theorem connect_message_configured:
  assumes "key \<in> set setting_keys"
  shows "case connect_message_of names (configured ctx urls channel_id role handler settings) redirect of
    message \<Rightarrow>
      json_field (outgoing_to_json (Connect message)) key = last_set (setting_for key) settings \<and>
      json_field (outgoing_to_json (Connect message)) ''channel_id'' = Some (JStr channel_id) \<and>
      json_field (outgoing_to_json (Connect message)) ''role'' = Some (JStr (as_sora_role role))"
proof -
  let ?m = "connect_message_of names (configured ctx urls channel_id role handler settings) redirect"
  have "json_field (JObj (connect_members ?m)) key = last_set (setting_for key) settings"
    using assms unfolding setting_keys_def list.set insert_iff empty_iff
    apply (elim disjE FalseE; hypsubst)
    apply (simp_all only: connect_optional_fields connect_message_of_def connect_message.simps
          configured_optional)
    apply (rule last_set_map, simp add: setting_for_def split: builder_setting.split)+
    done
  then show ?thesis
    by (simp only: outgoing_to_json.simps connect_fields)
      (simp add: connect_message_of_def configured_given)
qed

text \<open>A later call of a setter takes the place of an earlier one.\<close>

theorem connect_message_configured_witness:
  "json_field (outgoing_to_json (Connect (connect_message_of
     \<lparr>nm_sora_client = ''sdk'', nm_libwebrtc = ''m140'', nm_environment = ''linux''\<rparr>
     (configured () [''wss://sora/signaling''] ''channel'' SendRecv ()
        [SetSpotlight True, SetClientId ''first'', SetSimulcast False, SetClientId ''second'']) True)))
     ''client_id'' = Some (JStr ''second'')"
  using connect_message_configured [where key = "''client_id''" and
      settings = "[SetSpotlight True, SetClientId ''first'', SetSimulcast False, SetClientId ''second'']" and
      names = "\<lparr>nm_sora_client = ''sdk'', nm_libwebrtc = ''m140'', nm_environment = ''linux''\<rparr>" and
      ctx = "()" and urls = "[''wss://sora/signaling'']" and channel_id = "''channel''" and
      role = SendRecv and handler = "()" and redirect = True]
  by (simp add: setting_keys_def last_set_def setting_for_def or_else_def)

end
