(* ===== verification/Context.thy ===== *)
theory Context
  imports Video_Codec Audio_Codec
begin

text \<open>
  \<^verbatim>\<open>src/connection_context.rs\<close>: the settings of a context with their defaults, and how the peer connection
  factory is built from them; \<^verbatim>\<open>src/video_codecs/internal_apple.rs\<close> and the simulcast helper of
  \<^verbatim>\<open>src/video_codec.rs\<close>, which the defaults use. Threads, environments, audio device modules and the peer
  connection factory of WebRTC are parameters.
\<close>

subsection \<open>The factories of the crate\<close>

text \<open>
  \<^verbatim>\<open>SoraVideoEncoderFactory\<close> and its three relatives, as what WebRTC calls: the capabilities are shared
  behind a mutex that each call holds for itself.
\<close>

definition sora_video_encoder_factory ::
    "webrtc \<Rightarrow> preference_codec list \<Rightarrow> ('e, 'd) video_capability list \<Rightarrow> 'e video_factory" where
  "sora_video_encoder_factory W preference capabilities =
     \<lparr>vf_get_supported_formats = collect_supported_formats W preference capabilities Encoder,
      vf_create = encoder_factory_create W preference capabilities\<rparr>"

definition sora_video_decoder_factory ::
    "webrtc \<Rightarrow> preference_codec list \<Rightarrow> ('e, 'd) video_capability list \<Rightarrow> 'd video_factory" where
  "sora_video_decoder_factory W preference capabilities =
     \<lparr>vf_get_supported_formats = collect_supported_formats W preference capabilities Decoder,
      vf_create = decoder_factory_create W preference capabilities\<rparr>"

definition sora_audio_encoder_factory ::
    "audio_webrtc \<Rightarrow> audio_preference_codec list \<Rightarrow> ('i, 'o, 'e, 'd) audio_capability list \<Rightarrow>
       ('i, 'o, 'e) audio_encoder_factory" where
  "sora_audio_encoder_factory W preference capabilities =
     \<lparr>get_supported_encoders = collect_audio_codec_specs W preference capabilities Encoder,
      query_audio_encoder = audio_factory_query_encoder W preference capabilities,
      aef_create = audio_encoder_factory_create W preference capabilities\<rparr>"

definition sora_audio_decoder_factory ::
    "audio_webrtc \<Rightarrow> audio_preference_codec list \<Rightarrow> ('i, 'o, 'e, 'd) audio_capability list \<Rightarrow>
       ('i, 'd) audio_decoder_factory" where
  "sora_audio_decoder_factory W preference capabilities =
     \<lparr>get_supported_decoders = collect_audio_codec_specs W preference capabilities Decoder,
      is_supported_decoder = audio_factory_is_supported_decoder W preference capabilities,
      adf_create = audio_decoder_factory_create W preference capabilities\<rparr>"

subsection \<open>Encoders with simulcast\<close>

text \<open>
  \<^verbatim>\<open>SimulcastCapabilityHelper\<close>: \<open>adapter\<close> is \<^verbatim>\<open>SimulcastEncoderAdapter::new\<close>, which creates the encoders of
  its layers with the factory it is given.
\<close>

definition simulcast_factory ::
    "('e video_factory \<Rightarrow> sdp_format \<Rightarrow> 'e) \<Rightarrow> 'e video_factory \<Rightarrow> 'e video_factory" where
  "simulcast_factory adapter primary_factory =
     \<lparr>vf_get_supported_formats = vf_get_supported_formats primary_factory,
      vf_create = (\<lambda>format. Some (adapter primary_factory format))\<rparr>"

text \<open>
  \<^verbatim>\<open>InternalAppleVideoCodecCapability::new\<close>, with the factories of the platform when it has them.
\<close>

definition internal_apple_capability ::
    "webrtc \<Rightarrow> ('e video_factory \<Rightarrow> sdp_format \<Rightarrow> 'e) \<Rightarrow> 'e video_factory option \<Rightarrow> 'd video_factory option \<Rightarrow>
       ('e, 'd) video_capability option" where
  "internal_apple_capability W adapter encoder_factory decoder_factory =
     do { encoder_factory \<leftarrow> encoder_factory;
          decoder_factory \<leftarrow> decoder_factory;
          let formats = internal_formats (simulcast_factory adapter encoder_factory) decoder_factory;
          let resolve = default_resolve_sdp_format W formats;
          Some \<lparr>get_implementation =
                  \<lparr>vi_name = ''internal-apple'', vi_description = ''WebRTC ObjC default VideoCodecFactory''\<rparr>,
                get_supported_formats = formats,
                is_supported = default_is_supported W resolve,
                resolve_sdp_format = resolve,
                create_video_encoder = vf_create (simulcast_factory adapter encoder_factory),
                create_video_decoder = vf_create decoder_factory\<rparr> }"

subsection \<open>The settings\<close>

datatype 'adm adm_config = NoAudioDevice | UseBuiltIn | UseExternal 'adm

record ('t, 'v, 'adm, 'e, 'd, 'i, 'o, 'ae, 'ad) context_config =
  cf_adm_config :: "'adm adm_config"
  cf_network_thread :: "'t option"
  cf_signaling_thread :: "'t option"
  cf_environment :: "'v option"
  cf_video_codec_preference :: "preference_codec list"
  cf_video_codec_capabilities :: "('e, 'd) video_capability list"
  cf_audio_codec_preference :: "audio_preference_codec list"
  cf_audio_codec_capabilities :: "('i, 'o, 'ae, 'ad) audio_capability list"

text \<open>One more capability of the defaults: it is merged into the preference and listed.\<close>

definition add_capability ::
    "('e, 'd) video_capability \<Rightarrow> preference_codec list \<times> ('e, 'd) video_capability list \<Rightarrow>
       preference_codec list \<times> ('e, 'd) video_capability list" where
  "add_capability capability = (\<lambda>(preference, capabilities).
     (merge_preference preference (new_from_capability capability), capabilities @ [capability]))"

text \<open>
  \<^verbatim>\<open>SoraConnectionContextConfig::default\<close>; \<open>apple\<close> is the capability of a macOS or iOS build and
  \<open>None\<close> in any other.
\<close>

definition context_config_default ::
    "('e, 'd) video_capability \<Rightarrow> ('e, 'd) video_capability option \<Rightarrow> ('i, 'o, 'ae, 'ad) audio_capability \<Rightarrow>
       ('t, 'v, 'adm, 'e, 'd, 'i, 'o, 'ae, 'ad) context_config" where
  "context_config_default internal apple internal_audio =
     (let video = add_capability internal ([], []);
          video = (case apple of None \<Rightarrow> video | Some capability \<Rightarrow> add_capability capability video)
      in \<lparr>cf_adm_config = NoAudioDevice, cf_network_thread = None, cf_signaling_thread = None,
          cf_environment = None,
          cf_video_codec_preference = fst video, cf_video_codec_capabilities = snd video,
          cf_audio_codec_preference =
            merge_audio_preference [] (new_from_audio_capability internal_audio),
          cf_audio_codec_capabilities = [internal_audio]\<rparr>)"

subsection \<open>Building a context\<close>

datatype 'err context_error =
    VideoPreferenceInvalid video_preference_error
  | AudioPreferenceInvalid audio_preference_error
  | NetworkThreadNotStarted
  | SignalingThreadNotStarted
  | ContextWebrtc 'err

datatype adm_layer = LayerDummy | LayerPlatformDefault

record ('t, 'v, 'adm, 'err, 'w) context_lib =
  tl_thread_with_socket_server :: "'w \<Rightarrow> 't \<times> 'w"
  tl_thread :: "'w \<Rightarrow> 't \<times> 'w"
  tl_start :: "'t \<Rightarrow> 'w \<Rightarrow> bool \<times> 'w"
  tl_environment :: "'w \<Rightarrow> 'v \<times> 'w"
  tl_adm :: "'t \<Rightarrow> 'v \<Rightarrow> adm_layer \<Rightarrow> 'w \<Rightarrow> ('err + 'adm) \<times> 'w"

record ('t, 'v, 'adm, 'e, 'd, 'i, 'o, 'ae, 'ad) factory_deps =
  fd_network_thread :: 't
  fd_signaling_thread :: 't
  fd_adm :: 'adm
  fd_environment :: 'v
  fd_audio_encoder_factory :: "('i, 'o, 'ae) audio_encoder_factory"
  fd_audio_decoder_factory :: "('i, 'ad) audio_decoder_factory"
  fd_video_encoder_factory :: "'e video_factory"
  fd_video_decoder_factory :: "'d video_factory"

record ('t, 'f) sora_context =
  cx_factory :: 'f
  cx_network :: 't
  cx_signaling :: 't

text \<open>\<open>match thread { Some(thread) => thread, None => .. }\<close>: a thread that was passed in is not started.\<close>

definition started_thread ::
    "('w \<Rightarrow> 't \<times> 'w) \<Rightarrow> ('t \<Rightarrow> 'w \<Rightarrow> bool \<times> 'w) \<Rightarrow> 'err context_error \<Rightarrow> 't option \<Rightarrow> 'w \<Rightarrow>
       ('err context_error + 't) \<times> 'w" where
  "started_thread new start failure given w =
     (case given of
        Some thread \<Rightarrow> (Inr thread, w)
      | None \<Rightarrow>
          (case new w of (thread, w) \<Rightarrow>
             (case start thread w of (started, w) \<Rightarrow> (if started then Inr thread else Inl failure, w))))"

definition context_adm ::
    "('t, 'v, 'adm, 'err, 'w) context_lib \<Rightarrow> 'adm adm_config \<Rightarrow> 't \<Rightarrow> 'v \<Rightarrow> 'w \<Rightarrow> ('err context_error + 'adm) \<times> 'w" where
  "context_adm T adm_config network environment w =
     (case adm_config of
        NoAudioDevice \<Rightarrow> apfst (map_err ContextWebrtc) (tl_adm T network environment LayerDummy w)
      | UseBuiltIn \<Rightarrow> apfst (map_err ContextWebrtc) (tl_adm T network environment LayerPlatformDefault w)
      | UseExternal adm \<Rightarrow> (Inr adm, w))"

text \<open>What runs while a result threads the world.\<close>

definition thenW :: "('a + 'b) \<times> 'w \<Rightarrow> ('b \<Rightarrow> 'w \<Rightarrow> ('a + 'c) \<times> 'w) \<Rightarrow> ('a + 'c) \<times> 'w" where
  "thenW r f = (case r of (Inl err, w) \<Rightarrow> (Inl err, w) | (Inr x, w) \<Rightarrow> f x w)"

definition context_validate ::
    "webrtc \<Rightarrow> audio_webrtc \<Rightarrow> ('t, 'v, 'adm, 'e, 'd, 'i, 'o, 'ae, 'ad) context_config \<Rightarrow> 'err context_error + unit" where
  "context_validate V A config =
     bindE (map_err VideoPreferenceInvalid (validate_video_codec_preference V
       (cf_video_codec_preference config) (cf_video_codec_capabilities config))) (\<lambda>_.
     map_err AudioPreferenceInvalid (validate_audio_codec_preference A
       (cf_audio_codec_preference config) (cf_audio_codec_capabilities config)))"

definition context_deps ::
    "webrtc \<Rightarrow> audio_webrtc \<Rightarrow> ('t, 'v, 'adm, 'e, 'd, 'i, 'o, 'ae, 'ad) context_config \<Rightarrow> 't \<Rightarrow> 't \<Rightarrow> 'adm \<Rightarrow> 'v \<Rightarrow>
       ('t, 'v, 'adm, 'e, 'd, 'i, 'o, 'ae, 'ad) factory_deps" where
  "context_deps V A config network signaling adm environment =
     (let video_preference = cf_video_codec_preference config;
          video = cf_video_codec_capabilities config;
          audio_preference = cf_audio_codec_preference config;
          audio = cf_audio_codec_capabilities config
      in \<lparr>fd_network_thread = network, fd_signaling_thread = signaling, fd_adm = adm,
          fd_environment = environment,
          fd_audio_encoder_factory = sora_audio_encoder_factory A audio_preference audio,
          fd_audio_decoder_factory = sora_audio_decoder_factory A audio_preference audio,
          fd_video_encoder_factory = sora_video_encoder_factory V video_preference video,
          fd_video_decoder_factory = sora_video_decoder_factory V video_preference video\<rparr>)"

text \<open>\<open>create\<close> is \<^verbatim>\<open>PeerConnectionFactory::create_modular_with_context\<close>.\<close>

definition context_build ::
    "('t, 'v, 'adm, 'err, 'w) context_lib \<Rightarrow>
     (('t, 'v, 'adm, 'e, 'd, 'i, 'o, 'ae, 'ad) factory_deps \<Rightarrow> 'w \<Rightarrow> ('err + 'f) \<times> 'w) \<Rightarrow>
     webrtc \<Rightarrow> audio_webrtc \<Rightarrow> ('t, 'v, 'adm, 'e, 'd, 'i, 'o, 'ae, 'ad) context_config \<Rightarrow> 'v \<Rightarrow> 'w \<Rightarrow>
       ('err context_error + ('t, 'f) sora_context) \<times> 'w" where
  "context_build T create V A config environment w =
     thenW (started_thread (tl_thread_with_socket_server T) (tl_start T) NetworkThreadNotStarted
       (cf_network_thread config) w) (\<lambda>network w.
     thenW (started_thread (tl_thread T) (tl_start T) SignalingThreadNotStarted
       (cf_signaling_thread config) w) (\<lambda>signaling w.
     thenW (context_adm T (cf_adm_config config) network environment w) (\<lambda>adm w.
     thenW (apfst (map_err ContextWebrtc)
         (create (context_deps V A config network signaling adm environment) w)) (\<lambda>factory w.
     (Inr \<lparr>cx_factory = factory, cx_network = network, cx_signaling = signaling\<rparr>, w)))))"

definition context_new_with_config ::
    "('t, 'v, 'adm, 'err, 'w) context_lib \<Rightarrow>
     (('t, 'v, 'adm, 'e, 'd, 'i, 'o, 'ae, 'ad) factory_deps \<Rightarrow> 'w \<Rightarrow> ('err + 'f) \<times> 'w) \<Rightarrow>
     webrtc \<Rightarrow> audio_webrtc \<Rightarrow> ('t, 'v, 'adm, 'e, 'd, 'i, 'o, 'ae, 'ad) context_config \<Rightarrow> 'w \<Rightarrow>
       ('err context_error + ('t, 'f) sora_context) \<times> 'w" where
  "context_new_with_config T create V A config w =
     (case context_validate V A config of
        Inl err \<Rightarrow> (Inl err, w)
      | Inr _ \<Rightarrow>
          (case cf_environment config of
             Some environment \<Rightarrow> context_build T create V A config environment w
           | None \<Rightarrow> (case tl_environment T w of (environment, w) \<Rightarrow>
               context_build T create V A config environment w)))"

definition context_new ::
    "('t, 'v, 'adm, 'err, 'w) context_lib \<Rightarrow>
     (('t, 'v, 'adm, 'e, 'd, 'i, 'o, 'ae, 'ad) factory_deps \<Rightarrow> 'w \<Rightarrow> ('err + 'f) \<times> 'w) \<Rightarrow>
     webrtc \<Rightarrow> audio_webrtc \<Rightarrow> ('e, 'd) video_capability \<Rightarrow> ('e, 'd) video_capability option \<Rightarrow>
     ('i, 'o, 'ae, 'ad) audio_capability \<Rightarrow> 'w \<Rightarrow> ('err context_error + ('t, 'f) sora_context) \<times> 'w" where
  "context_new T create V A internal apple internal_audio w =
     context_new_with_config T create V A (context_config_default internal apple internal_audio) w"

subsection \<open>The defaults are valid\<close>

lemma set_update_first: "set (update_first P f xs) \<subseteq> set xs \<union> f ` {x \<in> set xs. P x}"
  by (induction P f xs rule: update_first.induct) auto

lemma set_implementation_same: "codec_key c = codec_key d \<Longrightarrow> set_implementation (pc_implementation d) c = d"
  by (cases c; cases d) (simp add: set_implementation_def codec_key_def)

lemma set_merge_codec: "set (merge_codec cs d) \<subseteq> insert d (set cs)"
  using set_update_first [of "\<lambda>c. codec_key c = codec_key d" "set_implementation (pc_implementation d)" cs]
  by (auto simp: merge_codec_eq set_implementation_same split: option.splits)

lemma set_merge_preference: "set (merge_preference cs ds) \<subseteq> set cs \<union> set ds"
  unfolding merge_preference_def
proof (induction ds arbitrary: cs)
  case (Cons d ds)
  from Cons.IH [of "merge_codec cs d"] set_merge_codec [of cs d] show ?case by auto
qed simp

lemma distinct_merge_preference:
  "distinct (map codec_key cs) \<Longrightarrow> distinct (map codec_key (merge_preference cs ds))"
  by (simp add: merge_preference_eq video_pref.distinct_merge)

text \<open>Merging keeps a preference valid: each entry is one of the two preferences.\<close>

lemma merge_preference_valid:
  assumes "validate_video_codec_preference V cs caps = Inr ()" and "validate_video_codec_preference V ds caps = Inr ()"
  shows "validate_video_codec_preference V (merge_preference cs ds) caps = Inr ()"
  using assms set_merge_preference [of cs ds] distinct_merge_preference [of cs ds]
  unfolding validate_preference_Inr by (auto simp del: map_map) blast+

lemma set_audio_implementation_same:
  "audio_codec_key c = audio_codec_key d \<Longrightarrow> set_audio_implementation (apc_implementation d) c = d"
  by (cases c; cases d) (simp add: set_audio_implementation_def audio_codec_key_def)

lemma set_merge_audio_codec: "set (merge_audio_codec cs d) \<subseteq> insert d (set cs)"
  using set_update_first [of "\<lambda>c. audio_codec_key c = audio_codec_key d"
      "set_audio_implementation (apc_implementation d)" cs]
  by (auto simp: merge_audio_codec_eq set_audio_implementation_same split: option.splits)


lemma set_merge_audio_preference: "set (merge_audio_preference cs ds) \<subseteq> set cs \<union> set ds"
  unfolding merge_audio_preference_def
proof (induction ds arbitrary: cs)
  case (Cons d ds)
  from Cons.IH [of "merge_audio_codec cs d"] set_merge_audio_codec [of cs d] show ?case by auto
qed simp

lemma merge_audio_preference_valid:
  assumes "validate_audio_codec_preference A cs caps = Inr ()" and "validate_audio_codec_preference A ds caps = Inr ()"
  shows "validate_audio_codec_preference A (merge_audio_preference cs ds) caps = Inr ()"
proof -
  from assms have "distinct (map audio_codec_key (merge_audio_preference cs ds))"
    by (simp add: validate_audio_preference_Inr merge_audio_preference_eq audio_pref.distinct_merge)
  with assms set_merge_audio_preference [of cs ds] show ?thesis
    unfolding validate_audio_preference_Inr by (auto simp del: map_map) blast+
qed

lemma capability_preference_valid:
  assumes "distinct (map (vi_name \<circ> get_implementation) caps)" and "cap \<in> set caps"
  shows "validate_video_codec_preference V (new_from_capability cap) caps = Inr ()"
  using find_capability_distinct [OF assms] assms(1) distinct_new_from_capability [of cap]
  by (auto simp: validate_preference_Inr set_new_from_capability capability_entry_def)

lemma audio_capability_preference_valid:
  assumes "distinct (map (ai_name \<circ> audio_get_implementation) caps)" and "cap \<in> set caps"
  shows "validate_audio_codec_preference A (new_from_audio_capability cap) caps = Inr ()"
  using find_audio_capability_distinct [OF assms] assms(1) distinct_new_from_audio_capability [of cap]
  by (auto simp: validate_audio_preference_Inr set_new_from_audio_capability audio_capability_entry_def)

lemma validate_empty:
  "validate_video_codec_preference V [] caps = Inr () \<longleftrightarrow> distinct (map (vi_name \<circ> get_implementation) caps)"
  "validate_audio_codec_preference A [] acaps = Inr () \<longleftrightarrow> distinct (map (ai_name \<circ> audio_get_implementation) acaps)"
  by (simp_all add: validate_preference_Inr validate_audio_preference_Inr)

lemma validate_nothing: "validate_audio_codec_preference A [] [] = Inr ()"
  by (simp add: validate_empty)

lemma internal_name: "vi_name (get_implementation (internal_video_capability V ef df)) = ''internal''"
  by (simp add: internal_video_capability_def Let_def)

lemma apple_name:
  "internal_apple_capability V adapter ef df = Some cap \<Longrightarrow> vi_name (get_implementation cap) = ''internal-apple''"
  by (auto simp: internal_apple_capability_def bind_eq_Some_conv Let_def)

text \<open>
  Fact. The defaults pass the validation on every platform: whatever formats the factories of WebRTC
  support, and with or without the capability of Apple's platforms.
\<close>

theorem context_default_valid:
  "context_validate V A (context_config_default (internal_video_capability V ef df)
     (internal_apple_capability V adapter apple_ef apple_df) (internal_audio_capability A aef adf)) = Inr ()"
proof -
  let ?i = "internal_video_capability V ef df"
  let ?a = "internal_apple_capability V adapter apple_ef apple_df"
  let ?au = "internal_audio_capability A aef adf"
  let ?c = "context_config_default ?i ?a ?au"
  have video: "validate_video_codec_preference V (cf_video_codec_preference ?c) (cf_video_codec_capabilities ?c) = Inr ()"
  proof (cases ?a)
    case None
    then show ?thesis
      by (simp add: context_config_default_def add_capability_def Let_def merge_preference_valid
          validate_empty capability_preference_valid)
  next
    case (Some apple)
    with apple_name [OF Some] internal_name [of V ef df]
    have names: "distinct (map (vi_name \<circ> get_implementation) [?i, apple])" by simp
    have "validate_video_codec_preference V
        (merge_preference (merge_preference [] (new_from_capability ?i)) (new_from_capability apple)) [?i, apple] = Inr ()"
      using names by (intro merge_preference_valid capability_preference_valid) (auto simp: validate_empty)
    then show ?thesis by (simp add: Some context_config_default_def add_capability_def Let_def)
  qed
  have audio: "validate_audio_codec_preference A (cf_audio_codec_preference ?c) (cf_audio_codec_capabilities ?c) = Inr ()"
    by (simp add: context_config_default_def Let_def merge_audio_preference_valid validate_empty
        audio_capability_preference_valid)
  show ?thesis by (simp add: context_validate_def video audio)
qed

subsection \<open>What a context is built from\<close>

text \<open>
  What the code relies on: a thread that reported its start runs, and no operation stops a thread.
\<close>

definition thread_laws :: "('t, 'v, 'adm, 'err, 'w) context_lib \<Rightarrow> ('t \<Rightarrow> 'w \<Rightarrow> bool) \<Rightarrow> bool" where
  "thread_laws T running \<longleftrightarrow>
     (\<forall>t w w'. tl_start T t w = (True, w') \<longrightarrow> running t w') \<and>
     (\<forall>t u w. running t w \<longrightarrow> running t (snd (tl_thread_with_socket_server T w)) \<and>
        running t (snd (tl_thread T w)) \<and> running t (snd (tl_start T u w)) \<and> running t (snd (tl_environment T w)) \<and>
        (\<forall>environment layer. running t (snd (tl_adm T u environment layer w))))"

lemma thenW_Inr:
  "thenW r f = (Inr y, w') \<longleftrightarrow> (\<exists>x w. r = (Inr x, w) \<and> f x w = (Inr y, w'))"
  by (auto simp: thenW_def split: sum.splits prod.splits)

lemma apfst_map_err_Inr: "apfst (map_err g) r = (Inr x, w) \<longleftrightarrow> r = (Inr x, w)"
  by (cases r) (auto simp: map_err_eq)

lemma started_thread_Inr:
  assumes "thread_laws T running" and "new = tl_thread_with_socket_server T \<or> new = tl_thread T"
    and "started_thread new (tl_start T) failure given w = (Inr thread, w')"
    and "\<And>t. given = Some t \<Longrightarrow> running t w"
  shows "running thread w' \<and> (\<forall>t. running t w \<longrightarrow> running t w')"
proof (cases given)
  case None
  with assms(3) obtain w1 where new: "new w = (thread, w1)" and start: "tl_start T thread w1 = (True, w')"
    by (auto simp: started_thread_def split: prod.splits if_splits)
  have "running thread w'" using assms(1) start unfolding thread_laws_def by blast
  moreover have "running t w'" if "running t w" for t
  proof -
    from assms(1,2) that new have "running t w1" unfolding thread_laws_def by (metis snd_conv)
    with assms(1) have "running t (snd (tl_start T thread w1))" unfolding thread_laws_def by blast
    with start show ?thesis by simp
  qed
  ultimately show ?thesis by blast
next
  case (Some t)
  with assms(3,4) show ?thesis by (simp add: started_thread_def)
qed

lemma context_adm_running:
  assumes "thread_laws T running" and "context_adm T config network environment w = (r, w')" and "running t w"
  shows "running t w'"
proof -
  have "running t (snd (tl_adm T network environment layer w))" for layer
    using assms(1,3) unfolding thread_laws_def by blast
  with arg_cong [OF assms(2), of snd] assms(3) show ?thesis
    by (cases config) (auto simp: context_adm_def)
qed

lemma context_build_Inr:
  fixes T :: "('t, 'v, 'adm, 'err, 'w) context_lib"
  assumes "thread_laws T running" and "context_build T create V A config environment w = (Inr cx, w')"
    and "\<And>t. cf_network_thread config = Some t \<Longrightarrow> running t w"
    and "\<And>t. cf_signaling_thread config = Some t \<Longrightarrow> running t w"
  shows "\<exists>adm w1. running (cx_network cx) w1 \<and> running (cx_signaling cx) w1 \<and>
    create (context_deps V A config (cx_network cx) (cx_signaling cx) adm environment) w1 = (Inr (cx_factory cx), w')"
proof -
  from assms(2) obtain network signaling adm factory wn ws wa where
    n: "started_thread (tl_thread_with_socket_server T) (tl_start T) NetworkThreadNotStarted
      (cf_network_thread config) w = (Inr network :: 'err context_error + 't, wn)" and
    s: "started_thread (tl_thread T) (tl_start T) SignalingThreadNotStarted
      (cf_signaling_thread config) wn = (Inr signaling :: 'err context_error + 't, ws)" and
    a: "context_adm T (cf_adm_config config) network environment ws = (Inr adm :: 'err context_error + 'adm, wa)" and
    c: "create (context_deps V A config network signaling adm environment) wa = (Inr factory, w')"
      "cx = \<lparr>cx_factory = factory, cx_network = network, cx_signaling = signaling\<rparr>"
    by (simp add: context_build_def thenW_Inr apfst_map_err_Inr) blast
  from started_thread_Inr [OF assms(1) _ n assms(3)] have rn: "running network wn"
    and keep: "running t w \<Longrightarrow> running t wn" for t by blast+
  from started_thread_Inr [OF assms(1) _ s] keep assms(4) have rs: "running signaling ws"
    and keep_s: "running t wn \<Longrightarrow> running t ws" for t by blast+
  note context_adm_running [OF assms(1) a]
  with rn rs keep_s c show ?thesis by auto
qed

text \<open>
  Fact. A context is only built from a valid preference, and its factory is created when both of its
  threads run: those passed in and those the context started. For a format of a codec type that an entry
  of the preference names, the factory's encoders and decoders are made by the capability that the entry
  names, with the format that this capability resolved.
\<close>

theorem context_built_spec:
  fixes T :: "('t, 'v, 'adm, 'err, 'w) context_lib"
  assumes "thread_laws T running"
    and "context_new_with_config T create V A config w = (Inr cx, w')"
    and "\<And>t. cf_network_thread config = Some t \<or> cf_signaling_thread config = Some t \<Longrightarrow> running t w"
  shows "\<exists>deps w1. create deps w1 = (Inr (cx_factory cx), w') \<and>
    fd_network_thread deps = cx_network cx \<and> running (cx_network cx) w1 \<and>
    fd_signaling_thread deps = cx_signaling cx \<and> running (cx_signaling cx) w1 \<and>
    (\<forall>c \<in> set (cf_video_codec_preference config). \<forall>f.
       codec_type_from_format V f = Some (pc_codec_type c) \<longrightarrow>
       (\<exists>cap \<in> set (cf_video_codec_capabilities config).
          vi_name (get_implementation cap) = vi_name (pc_implementation c) \<and>
          is_supported cap (pc_direction c) (pc_codec_type c) \<and>
          (case pc_direction c of
             Encoder \<Rightarrow> vf_create (fd_video_encoder_factory deps) f =
               Option.bind (resolve_sdp_format cap Encoder f) (create_video_encoder cap)
           | Decoder \<Rightarrow> vf_create (fd_video_decoder_factory deps) f =
               Option.bind (resolve_sdp_format cap Decoder f) (create_video_decoder cap))))"
proof -
  from assms(2) have valid: "context_validate V A config = (Inr () :: 'err context_error + unit)"
    by (auto simp: context_new_with_config_def split: sum.splits)
  obtain environment w0 where build: "context_build T create V A config environment w0 = (Inr cx, w')"
    and kept: "running t w \<Longrightarrow> running t w0" for t
  proof (cases "cf_environment config")
    case None
    obtain environment w0 where env: "tl_environment T w = (environment, w0)" by fastforce
    with assms(2) valid None have "context_build T create V A config environment w0 = (Inr cx, w')"
      by (simp add: context_new_with_config_def)
    moreover have "running t w \<Longrightarrow> running t w0" for t
      using assms(1) env unfolding thread_laws_def by (metis snd_conv)
    ultimately show thesis by (rule that)
  next
    case (Some environment)
    with assms(2) valid have "context_build T create V A config environment w = (Inr cx, w')"
      by (simp add: context_new_with_config_def)
    then show thesis by (rule that)
  qed
  from context_build_Inr [OF assms(1) build] kept assms(3) obtain adm w1 where
    c: "create (context_deps V A config (cx_network cx) (cx_signaling cx) adm environment) w1 =
      (Inr (cx_factory cx), w')" "running (cx_network cx) w1" "running (cx_signaling cx) w1" by blast
  have video: "validate_video_codec_preference V (cf_video_codec_preference config)
      (cf_video_codec_capabilities config) = Inr ()"
    using valid by (simp add: context_validate_def bindE_eq_Inr map_err_eq)
  show ?thesis
  proof (intro exI conjI ballI allI impI)
    fix c f
    assume "c \<in> set (cf_video_codec_preference config)" and f: "codec_type_from_format V f = Some (pc_codec_type c)"
    from find_codec_validated [OF video this(1)] obtain cap where cap:
      "find_codec (cf_video_codec_preference config) (pc_direction c) (pc_codec_type c) = Some c"
      "find_capability (cf_video_codec_capabilities config) (pc_implementation c) = Some cap"
      "is_supported cap (pc_direction c) (pc_codec_type c)" .
    from f obtain n where "sdp_name f = Some n" "codec_try_from V n = Some (pc_codec_type c)"
      by (auto simp: codec_type_from_format_def bind_eq_Some_conv)
    with cap find_capability_Some [OF cap(2)] show "\<exists>cap \<in> set (cf_video_codec_capabilities config).
        vi_name (get_implementation cap) = vi_name (pc_implementation c) \<and>
        is_supported cap (pc_direction c) (pc_codec_type c) \<and>
        (case pc_direction c of
           Encoder \<Rightarrow> vf_create (fd_video_encoder_factory (context_deps V A config (cx_network cx)
               (cx_signaling cx) adm environment)) f =
             Option.bind (resolve_sdp_format cap Encoder f) (create_video_encoder cap)
         | Decoder \<Rightarrow> vf_create (fd_video_decoder_factory (context_deps V A config (cx_network cx)
               (cx_signaling cx) adm environment)) f =
             Option.bind (resolve_sdp_format cap Decoder f) (create_video_decoder cap))"
      by (auto simp: context_deps_def Let_def sora_video_encoder_factory_def sora_video_decoder_factory_def
          encoder_factory_create_def decoder_factory_create_def intro!: bexI [of _ cap]
          split: codec_direction.split)
  qed (use c in \<open>simp_all add: context_deps_def Let_def\<close>)
qed

subsection \<open>An example\<close>

text \<open>The world is the list of the threads that run; the network thread is passed in.\<close>

definition example_threads :: "(nat, unit, unit, unit, nat list) context_lib" where
  "example_threads =
     \<lparr>tl_thread_with_socket_server = (\<lambda>w. (length w, w)), tl_thread = (\<lambda>w. (length w, w)),
      tl_start = (\<lambda>t w. (True, t # w)), tl_environment = (\<lambda>w. ((), w)),
      tl_adm = (\<lambda>t environment layer w. (Inr (), w))\<rparr>"

definition example_context_config :: "(nat, unit, unit, unit, unit, unit, unit, unit, unit) context_config" where
  "example_context_config =
     \<lparr>cf_adm_config = NoAudioDevice, cf_network_thread = Some 7, cf_signaling_thread = None,
      cf_environment = None, cf_video_codec_preference = [example_preference_codec],
      cf_video_codec_capabilities = [example_capability], cf_audio_codec_preference = [],
      cf_audio_codec_capabilities = []\<rparr>"

text \<open>A factory that is the video encoder factory it was given.\<close>

theorem context_built_spec_witness:
  "\<exists>cx. context_new_with_config example_threads (\<lambda>deps w. (Inr (fd_video_encoder_factory deps), w))
       example_webrtc example_audio_webrtc example_context_config [7] = (Inr cx, [1, 7]) \<and>
     cx_network cx = 7 \<and> cx_signaling cx = 1 \<and> vf_create (cx_factory cx) (sdp_new ''VP8'') = Some ()"
proof -
  let ?create = "\<lambda>deps w. (Inr (fd_video_encoder_factory deps), w)"
  have laws: "thread_laws example_threads (\<lambda>t w. t \<in> set w)"
    by (auto simp: thread_laws_def example_threads_def)
  have valid: "context_validate example_webrtc example_audio_webrtc example_context_config =
      (Inr () :: unit context_error + unit)"
  proof -
    have "validate_video_codec_preference example_webrtc [example_preference_codec] [example_capability] = Inr ()"
      by (simp add: validate_preference_Inr example_preference_codec_def example_capability_def
          find_capability_def VIDEO_CODEC_TYPES_def)
    then show ?thesis by (simp add: context_validate_def example_context_config_def validate_nothing)
  qed
  obtain cx where cx: "context_new_with_config example_threads ?create example_webrtc example_audio_webrtc
      example_context_config [7] = (Inr cx, [1, 7])" "cx_network cx = 7" "cx_signaling cx = 1"
    unfolding context_new_with_config_def valid
    by (simp add: context_build_def thenW_def started_thread_def context_adm_def example_threads_def
        example_context_config_def map_err_def)
  from context_built_spec [OF laws cx(1)]
  have "vf_create (cx_factory cx) (sdp_new ''VP8'') = Some ()"
    by (auto simp: example_context_config_def codec_type_from_format_def example_preference_codec_def
        example_capability_def)
  with cx show ?thesis by blast
qed

end
