(* ===== verification/Hw_Codec.thy ===== *)
theory Hw_Codec
  imports Mp4_Encoder Complex_Main
begin

text \<open>
  What the codec backends of \<^verbatim>\<open>src/video_codecs\<close> (\<^verbatim>\<open>vpl.rs\<close>, \<^verbatim>\<open>amf.rs\<close>,
  \<^verbatim>\<open>nvcodec.rs\<close>, \<^verbatim>\<open>openh264.rs\<close>, \<^verbatim>\<open>v4l2.rs\<close>) share: the values WebRTC passes to them, the
  fields their encoders and decoders have in common with the operations that are the same in all of
  them, and the contract of an encoder whose rates are controlled, as a locale that the backends
  interpret.

  \<^item> An \<^verbatim>\<open>f64\<close> is \<open>NaN\<close>, an infinity or a rational number.
  \<^item> The native encoder is a value \<open>'enc\<close> that its operations replace; everything else that is
    outside of the backend is the world \<open>'w\<close>. The mutex around the callback is never held across an
    operation, so the callback is a field.
  \<^item> An operation that fails leaves a state behind: results are triples of the result, the state and
    the world.
\<close>

subsection \<open>Numbers\<close>

datatype f64 = NaN | NegInf | PosInf | Finite rat

text \<open>\<^verbatim>\<open>f64::max\<close> and \<^verbatim>\<open>as u32\<close>, which saturates.\<close>

fun f64_max :: "f64 \<Rightarrow> f64 \<Rightarrow> f64" where
  "f64_max NaN y = y"
| "f64_max x NaN = x"
| "f64_max PosInf y = PosInf"
| "f64_max x PosInf = PosInf"
| "f64_max NegInf y = y"
| "f64_max x NegInf = x"
| "f64_max (Finite x) (Finite y) = Finite (max x y)"

fun f64_as_u32 :: "f64 \<Rightarrow> u32" where
  "f64_as_u32 (Finite x) = word_of_int (max 0 (min \<lfloor>x\<rfloor> 4294967295))"
| "f64_as_u32 PosInf = 4294967295"
| "f64_as_u32 _ = 0"

definition saturating_mul_u32 :: "u32 \<Rightarrow> u32 \<Rightarrow> u32" where
  "saturating_mul_u32 a b = (if unat a * unat b < 4294967296 then a * b else 4294967295)"

definition saturating_mul_i64 :: "int \<Rightarrow> int \<Rightarrow> int" where
  "saturating_mul_i64 a b = max (- 9223372036854775808) (min 9223372036854775807 (a * b))"

definition I32_MAX :: int where
  "I32_MAX = 2147483647"

text \<open>\<^verbatim>\<open>v.max(0) as u32\<close> of an \<^verbatim>\<open>i32\<close>, and \<^verbatim>\<open>i32::try_from\<close>.\<close>

definition u32_of_size :: "int \<Rightarrow> u32" where
  "u32_of_size v = word_of_int (max v 0)"

definition try_i32 :: "int \<Rightarrow> int option" where
  "try_i32 v = (if - I32_MAX - 1 \<le> v \<and> v \<le> I32_MAX then Some v else None)"

lemma f64_max_ge_1: "1 \<le> f64_as_u32 (f64_max x (Finite 1))"
proof (cases x)
  case (Finite r)
  let ?n = "max 0 (min \<lfloor>max r 1\<rfloor> 4294967295)"
  have "1 \<le> ?n" "?n < 4294967296" by (auto simp: le_floor_iff)
  then have "1 \<le> uint (word_of_int ?n :: u32)"
    by (simp add: unsigned_of_int take_bit_int_eq_self)
  with Finite show ?thesis by (simp add: word_le_def)
qed simp_all

subsection \<open>What WebRTC passes\<close>

text \<open>The settings of \<^verbatim>\<open>init_encode\<close>, the frames, and the parameters of \<^verbatim>\<open>set_rates\<close>.\<close>

record encoder_settings = video_codec +
  vc_max_framerate :: u32
  vc_start_bitrate_kbps :: u32

text \<open>\<open>rf_i420\<close> is the result of \<^verbatim>\<open>to_i420()\<close> on the buffer of the frame.\<close>

record 'i raw_frame =
  rf_width :: int
  rf_height :: int
  rf_rtp_timestamp :: u32
  rf_timestamp_us :: int
  rf_i420 :: "'i option"

record rate_control =
  rc_framerate_fps :: f64
  rc_bitrate_sum_bps :: u32
  rc_target_bitrate_sum_bps :: u32

record callback_value =
  cv_rtp_timestamp :: u32
  cv_frame_width :: u32
  cv_frame_height :: u32

definition value_of_frame :: "('i, 'z) raw_frame_scheme \<Rightarrow> callback_value" where
  "value_of_frame f =
     \<lparr>cv_rtp_timestamp = rf_rtp_timestamp f, cv_frame_width = u32_of_size (rf_width f),
      cv_frame_height = u32_of_size (rf_height f)\<rparr>"

datatype picture_type = PicIdr | PicI | PicP | PicB | PicUnknown | PicOther

text \<open>The bits of a frame type of VPL and AMF.\<close>

record frame_type_bits =
  ft_unknown :: u16
  ft_i :: u16
  ft_ref :: u16
  ft_idr :: u16

text \<open>An error of a backend: a message of its own, or an error of the native library.\<close>

datatype 'e codec_error = CodecMessage string | CodecFailed 'e

subsection \<open>Encoders\<close>

record ('enc, 'cb) hw_encoder =
  he_encoder :: "'enc option"
  he_callback :: "'cb option"
  he_codec_type :: video_codec_type
  he_width :: u32
  he_height :: u32
  he_framerate :: u32
  he_target_bitrate_bps :: u32
  he_rebuild_needed :: bool
  he_reconfigure_needed :: bool

definition hw_encoder_new :: "video_codec_type \<Rightarrow> ('enc, 'cb) hw_encoder" where
  "hw_encoder_new codec_type =
     \<lparr>he_encoder = None, he_callback = None, he_codec_type = codec_type, he_width = 0, he_height = 0,
      he_framerate = 30, he_target_bitrate_bps = 500000, he_rebuild_needed = False,
      he_reconfigure_needed = False\<rparr>"

definition take_settings ::
    "encoder_settings \<Rightarrow> ('enc, 'cb, 'z) hw_encoder_scheme \<Rightarrow> ('enc, 'cb, 'z) hw_encoder_scheme" where
  "take_settings codec s =
     s\<lparr>he_width := u32_of_size (vc_width codec), he_height := u32_of_size (vc_height codec),
       he_framerate := max (vc_max_framerate codec) 1,
       he_target_bitrate_bps := max (saturating_mul_u32 (vc_start_bitrate_kbps codec) 1000) 1\<rparr>"

text \<open>\<^verbatim>\<open>init_encode\<close>, over the \<^verbatim>\<open>rebuild_encoder\<close> of the backend.\<close>

definition hw_init_encode ::
    "(('enc, 'cb, 'z) hw_encoder_scheme \<Rightarrow> 'w \<Rightarrow>
        ('e codec_error + unit) \<times> ('enc, 'cb, 'z) hw_encoder_scheme \<times> 'w) \<Rightarrow>
     encoder_settings \<Rightarrow> ('enc, 'cb, 'z) hw_encoder_scheme \<Rightarrow> 'w \<Rightarrow>
     video_codec_status \<times> ('enc, 'cb, 'z) hw_encoder_scheme \<times> 'w" where
  "hw_init_encode rebuild codec s w =
     (if vc_codec_type codec \<noteq> he_codec_type s then (StatusErrParameter, s, w)
      else case rebuild (take_settings codec s) w of
        (Inl _, s, w) \<Rightarrow> (StatusError, s, w)
      | (Inr _, s, w) \<Rightarrow> (StatusOk, s, w))"

text \<open>The size of a frame that is to be encoded: another size, or no encoder, needs a rebuild.\<close>

definition note_size ::
    "u32 \<Rightarrow> u32 \<Rightarrow> ('enc, 'cb, 'z) hw_encoder_scheme \<Rightarrow> ('enc, 'cb, 'z) hw_encoder_scheme" where
  "note_size frame_width frame_height s =
     (let s = (if he_width s \<noteq> frame_width \<or> he_height s \<noteq> frame_height
               then s\<lparr>he_width := frame_width, he_height := frame_height, he_rebuild_needed := True\<rparr>
               else s)
      in if he_encoder s = None then s\<lparr>he_rebuild_needed := True\<rparr> else s)"

text \<open>
  Before a frame is encoded: rebuild when needed, or else reconfigure when needed, with a rebuild when
  that fails.
\<close>

definition ready_encoder ::
    "(('enc, 'cb, 'z) hw_encoder_scheme \<Rightarrow> 'w \<Rightarrow>
        ('e codec_error + unit) \<times> ('enc, 'cb, 'z) hw_encoder_scheme \<times> 'w) \<Rightarrow>
     (('enc, 'cb, 'z) hw_encoder_scheme \<Rightarrow> 'w \<Rightarrow>
        ('e codec_error + unit) \<times> ('enc, 'cb, 'z) hw_encoder_scheme \<times> 'w) \<Rightarrow>
     ('enc, 'cb, 'z) hw_encoder_scheme \<Rightarrow> 'w \<Rightarrow>
     ('e codec_error + unit) \<times> ('enc, 'cb, 'z) hw_encoder_scheme \<times> 'w" where
  "ready_encoder rebuild reconfigure s w =
     (if he_rebuild_needed s then rebuild s w
      else if he_reconfigure_needed s then
        (case reconfigure s w of
           (Inl _, s, w) \<Rightarrow> rebuild (s\<lparr>he_rebuild_needed := True\<rparr>) w
         | (Inr _, s, w) \<Rightarrow> (Inr (), s, w))
      else (Inr (), s, w))"

definition hw_register_callback ::
    "'cb option \<Rightarrow> ('enc, 'cb, 'z) hw_encoder_scheme \<Rightarrow>
     video_codec_status \<times> ('enc, 'cb, 'z) hw_encoder_scheme" where
  "hw_register_callback callback s = (StatusOk, s\<lparr>he_callback := callback\<rparr>)"

definition hw_set_rates ::
    "rate_control \<Rightarrow> ('enc, 'cb, 'z) hw_encoder_scheme \<Rightarrow> ('enc, 'cb, 'z) hw_encoder_scheme" where
  "hw_set_rates parameters s =
     s\<lparr>he_framerate := f64_as_u32 (f64_max (rc_framerate_fps parameters) (Finite 1)),
       he_target_bitrate_bps :=
         max (max (rc_bitrate_sum_bps parameters) (rc_target_bitrate_sum_bps parameters)) 1,
       he_reconfigure_needed := True\<rparr>"

text \<open>
  The native encoder that is replaced or released is dropped: it delivers what it still holds, through
  \<open>free\<close>.
\<close>

definition drop_encoder :: "('enc \<Rightarrow> 'w \<Rightarrow> 'w) \<Rightarrow> ('enc, 'cb, 'z) hw_encoder_scheme \<Rightarrow> 'w \<Rightarrow> 'w" where
  "drop_encoder free s w = (case he_encoder s of None \<Rightarrow> w | Some enc \<Rightarrow> free enc w)"

definition hw_release ::
    "('enc \<Rightarrow> 'w \<Rightarrow> 'w) \<Rightarrow> ('enc, 'cb, 'z) hw_encoder_scheme \<Rightarrow> 'w \<Rightarrow>
     video_codec_status \<times> ('enc, 'cb, 'z) hw_encoder_scheme \<times> 'w" where
  "hw_release free s w =
     (StatusOk, s\<lparr>he_callback := None, he_encoder := None\<rparr>, drop_encoder free s w)"

definition hw_encoder_info :: "string \<Rightarrow> string \<times> bool" where
  "hw_encoder_info name = (name, True)"

subsection \<open>Decoders\<close>

record ('dec, 'cb) hw_decoder =
  hd_decoder :: "'dec option"
  hd_callback :: "'cb option"
  hd_codec_type :: video_codec_type

definition hw_decoder_new :: "video_codec_type \<Rightarrow> ('dec, 'cb) hw_decoder" where
  "hw_decoder_new codec_type = \<lparr>hd_decoder = None, hd_callback = None, hd_codec_type = codec_type\<rparr>"

definition hw_configure ::
    "(('dec, 'cb, 'z) hw_decoder_scheme \<Rightarrow> 'w \<Rightarrow>
        ('e codec_error + unit) \<times> ('dec, 'cb, 'z) hw_decoder_scheme \<times> 'w) \<Rightarrow>
     video_codec_type \<Rightarrow> ('dec, 'cb, 'z) hw_decoder_scheme \<Rightarrow> 'w \<Rightarrow>
     bool \<times> ('dec, 'cb, 'z) hw_decoder_scheme \<times> 'w" where
  "hw_configure rebuild codec_type s w =
     (if codec_type \<noteq> hd_codec_type s then (False, s, w)
      else case rebuild s w of (Inr _, s, w) \<Rightarrow> (True, s, w) | (Inl _, s, w) \<Rightarrow> (False, s, w))"

text \<open>The start of \<^verbatim>\<open>decode\<close>: the decoder is built when there is none.\<close>

definition ensure_decoder ::
    "(('dec, 'cb, 'z) hw_decoder_scheme \<Rightarrow> 'w \<Rightarrow>
        ('e codec_error + unit) \<times> ('dec, 'cb, 'z) hw_decoder_scheme \<times> 'w) \<Rightarrow>
     ('dec, 'cb, 'z) hw_decoder_scheme \<Rightarrow> 'w \<Rightarrow>
     ('e codec_error + unit) \<times> ('dec, 'cb, 'z) hw_decoder_scheme \<times> 'w" where
  "ensure_decoder rebuild s w = (if hd_decoder s = None then rebuild s w else (Inr (), s, w))"

definition hw_register_decoded ::
    "'cb option \<Rightarrow> ('dec, 'cb, 'z) hw_decoder_scheme \<Rightarrow>
     video_codec_status \<times> ('dec, 'cb, 'z) hw_decoder_scheme" where
  "hw_register_decoded callback s = (StatusOk, s\<lparr>hd_callback := callback\<rparr>)"

definition drop_decoder :: "('dec \<Rightarrow> 'w \<Rightarrow> 'w) \<Rightarrow> ('dec, 'cb, 'z) hw_decoder_scheme \<Rightarrow> 'w \<Rightarrow> 'w" where
  "drop_decoder free s w = (case hd_decoder s of None \<Rightarrow> w | Some d \<Rightarrow> free d w)"

definition hw_release_decoder ::
    "('dec \<Rightarrow> 'w \<Rightarrow> 'w) \<Rightarrow> ('dec, 'cb, 'z) hw_decoder_scheme \<Rightarrow> 'w \<Rightarrow>
     video_codec_status \<times> ('dec, 'cb, 'z) hw_decoder_scheme \<times> 'w" where
  "hw_release_decoder free s w =
     (StatusOk, s\<lparr>hd_callback := None, hd_decoder := None\<rparr>, drop_decoder free s w)"

text \<open>
  What a decoder is given with the data of an image, and the frame the callback gets: the copy of an
  NV12 picture, which is \<open>nv12_copy\<close> of \<^verbatim>\<open>libwebrtc\<close> into a new buffer, with the times.
\<close>

record decode_value =
  dv_rtp_timestamp :: u32
  dv_render_time_ms :: int

record input_image =
  ig_data :: "bytes option"
  ig_rtp_timestamp :: u32

record decoded_frame =
  df_width :: int
  df_height :: int
  df_pixels :: bytes
  df_timestamp_us :: int
  df_rtp_timestamp :: u32

definition decoded_nv12 ::
    "(bytes \<Rightarrow> int \<Rightarrow> bytes \<Rightarrow> int \<Rightarrow> int \<Rightarrow> int \<Rightarrow> bytes option) \<Rightarrow>
     bytes \<Rightarrow> int \<Rightarrow> bytes \<Rightarrow> int \<Rightarrow> int \<Rightarrow> int \<Rightarrow> decode_value \<Rightarrow> decoded_frame option" where
  "decoded_nv12 nv12_copy y y_pitch uv uv_pitch width height v =
     map_option (\<lambda>pixels.
       \<lparr>df_width = width, df_height = height, df_pixels = pixels,
        df_timestamp_us = saturating_mul_i64 (dv_render_time_ms v) 1000,
        df_rtp_timestamp = dv_rtp_timestamp v\<rparr>)
       (nv12_copy y y_pitch uv uv_pitch width height)"

record decoded_output =
  do_y :: bytes
  do_uv :: bytes
  do_width :: u64
  do_height :: u64
  do_pitch :: u64
  do_user_data :: decode_value

text \<open>What a decoded picture gives the callback that is registered.\<close>

definition nv12_output ::
    "(bytes \<Rightarrow> int \<Rightarrow> bytes \<Rightarrow> int \<Rightarrow> int \<Rightarrow> int \<Rightarrow> bytes option) \<Rightarrow> 'cb option \<Rightarrow> 'e + decoded_output \<Rightarrow>
       ('cb \<times> decoded_frame) option" where
  "nv12_output nv12_copy callback result =
     do { frame \<leftarrow> ok_opt result;
          width \<leftarrow> try_i32 (uint (do_width frame));
          height \<leftarrow> try_i32 (uint (do_height frame));
          pitch \<leftarrow> try_i32 (uint (do_pitch frame));
          decoded \<leftarrow> decoded_nv12 nv12_copy (do_y frame) pitch (do_uv frame) pitch width height
            (do_user_data frame);
          callback \<leftarrow> callback;
          Some (callback, decoded) }"

subsection \<open>Output and capability\<close>

record encoded_output =
  eo_data :: bytes
  eo_picture_type :: picture_type
  eo_user_data :: callback_value

definition image_of_output :: "video_frame_type \<Rightarrow> encoded_output \<Rightarrow> encoded_image" where
  "image_of_output frame_type encoded =
     \<lparr>ei_encoded_data = eo_data encoded, ei_rtp_timestamp = cv_rtp_timestamp (eo_user_data encoded),
      ei_encoded_width = cv_frame_width (eo_user_data encoded),
      ei_encoded_height = cv_frame_height (eo_user_data encoded), ei_frame_type = frame_type\<rparr>"

definition h264_info :: "video_codec_type \<Rightarrow> picture_type \<Rightarrow> codec_specific_info" where
  "h264_info codec_type picture_type =
     \<lparr>csi_codec_type = codec_type, csi_h264_non_interleaved = (codec_type = H264),
      csi_h264_idr_frame = (if codec_type = H264 then Some (picture_type = PicIdr) else None)\<rparr>"

record 't codec_support =
  cs_codec :: 't
  cs_encoding :: bool
  cs_decoding :: bool

text \<open>The formats of the codecs that can be encoded, and of those that can be decoded.\<close>

definition formats_of_support ::
    "('t \<Rightarrow> video_codec_type option) \<Rightarrow> 't codec_support list \<Rightarrow> sdp_format list \<times> sdp_format list" where
  "formats_of_support webrtc_type infos =
     (let formats = (\<lambda>supported. concat (map (\<lambda>info.
        case webrtc_type (cs_codec info) of
          Some T \<Rightarrow> if supported info then supported_formats_for_codec T else []
        | None \<Rightarrow> []) infos))
      in (formats cs_encoding, formats cs_decoding))"

text \<open>
  A backend as a capability: the formats of each direction, with the default methods of the trait; its
  encoders are built behind the simulcast adapter of \<^verbatim>\<open>libwebrtc\<close>, the parameter \<open>simulcast\<close>,
  which is given the formats and the builder.
\<close>

definition backend_capability ::
    "webrtc \<Rightarrow> (sdp_format list \<Rightarrow> (sdp_format \<Rightarrow> 'e option) \<Rightarrow> sdp_format \<Rightarrow> 'e option) \<Rightarrow>
       video_codec_implementation \<Rightarrow> (codec_direction \<Rightarrow> sdp_format list) \<Rightarrow>
       (sdp_format \<Rightarrow> 'e option) \<Rightarrow> (sdp_format \<Rightarrow> 'd option) \<Rightarrow> ('e, 'd) video_capability" where
  "backend_capability W simulcast implementation formats encoder decoder =
     (let resolve = default_resolve_sdp_format W formats
      in \<lparr>get_implementation = implementation, get_supported_formats = formats,
          is_supported = default_is_supported W resolve, resolve_sdp_format = resolve,
          create_video_encoder = simulcast (formats Encoder) encoder,
          create_video_decoder = decoder\<rparr>)"

subsection \<open>The calls of WebRTC\<close>

datatype ('f, 'cb) encoder_call =
    InitEncode encoder_settings
  | EncodeFrame 'f "video_frame_type list option"
  | RegisterCallback "'cb option"
  | ReleaseEncoder
  | SetRates rate_control

text \<open>
  The frame rate and bit rate that were asked for last: those of the last settings for the codec or of
  the last change of the rates.
\<close>

fun call_rates :: "video_codec_type \<Rightarrow> ('f, 'cb) encoder_call \<Rightarrow> u32 \<times> u32 \<Rightarrow> u32 \<times> u32" where
  "call_rates T (InitEncode codec) r =
     (if vc_codec_type codec \<noteq> T then r
      else (max (vc_max_framerate codec) 1,
            max (saturating_mul_u32 (vc_start_bitrate_kbps codec) 1000) 1))"
| "call_rates T (SetRates p) r =
     (f64_as_u32 (f64_max (rc_framerate_fps p) (Finite 1)),
      max (max (rc_bitrate_sum_bps p) (rc_target_bitrate_sum_bps p)) 1)"
| "call_rates T _ r = r"

definition requested_rates :: "video_codec_type \<Rightarrow> ('f, 'cb) encoder_call list \<Rightarrow> u32 \<times> u32" where
  "requested_rates T calls = fold (call_rates T) calls (30, 500000)"

text \<open>
  A backend as a step: the status of a call, what was handed to the native encoder if anything was, the
  state and the world; \<open>None\<close> is a panic. The trace has the calls with their results.
\<close>

fun run_calls ::
    "('c \<Rightarrow> 's \<Rightarrow> 'w \<Rightarrow> ((video_codec_status \<times> 'h option) \<times> 's \<times> 'w) option) \<Rightarrow> 'c list \<Rightarrow> 's \<Rightarrow> 'w \<Rightarrow>
     (('c \<times> video_codec_status \<times> 'h option) list \<times> 's \<times> 'w) option" where
  "run_calls step [] s w = Some ([], s, w)"
| "run_calls step (c # cs) s w =
     (case step c s w of
        None \<Rightarrow> None
      | Some (result, s, w) \<Rightarrow>
          map_option (\<lambda>(trace, s, w). ((c, result) # trace, s, w)) (run_calls step cs s w))"

lemma run_calls_snoc:
  "run_calls step cs s w = Some (trace, s1, w1) \<Longrightarrow> step c s1 w1 = Some (result, s2, w2) \<Longrightarrow>
     run_calls step (cs @ [c]) s w = Some (trace @ [(c, result)], s2, w2)"
  by (induction cs arbitrary: s w trace) (auto split: option.splits)

fun init_failed :: "('f, 'cb) encoder_call \<times> video_codec_status \<times> 'h option \<Rightarrow> bool" where
  "init_failed (InitEncode codec, status, h) = (status = StatusError)"
| "init_failed _ = False"

text \<open>
  \<^verbatim>\<open>encode\<close> up to the native encoder that is ready; \<open>skips_empty\<close> when the backend answers a
  request for no frame at once, \<open>ready_encode\<close> what it does with the encoder.
\<close>

definition hw_encode ::
    "(('enc, 'cb, 'z) hw_encoder_scheme \<Rightarrow> 'w \<Rightarrow>
        ('e codec_error + unit) \<times> ('enc, 'cb, 'z) hw_encoder_scheme \<times> 'w) \<Rightarrow>
     (('enc, 'cb, 'z) hw_encoder_scheme \<Rightarrow> 'w \<Rightarrow>
        ('e codec_error + unit) \<times> ('enc, 'cb, 'z) hw_encoder_scheme \<times> 'w) \<Rightarrow> bool \<Rightarrow>
     ('i raw_frame \<Rightarrow> video_frame_type option \<Rightarrow> ('enc, 'cb, 'z) hw_encoder_scheme \<Rightarrow> 'w \<Rightarrow>
        ((video_codec_status \<times> 'h option) \<times> ('enc, 'cb, 'z) hw_encoder_scheme \<times> 'w) option) \<Rightarrow>
     'i raw_frame \<Rightarrow> video_frame_type list option \<Rightarrow> ('enc, 'cb, 'z) hw_encoder_scheme \<Rightarrow> 'w \<Rightarrow>
     ((video_codec_status \<times> 'h option) \<times> ('enc, 'cb, 'z) hw_encoder_scheme \<times> 'w) option" where
  "hw_encode rebuild reconfigure skips_empty ready_encode frame frame_types s w =
     (let frame_width = u32_of_size (rf_width frame); frame_height = u32_of_size (rf_height frame);
          wanted = requested_frame_type frame_types in
      if he_callback s = None then Some ((StatusUninitialized, None), s, w)
      else if frame_width = 0 \<or> frame_height = 0 then Some ((StatusErrParameter, None), s, w)
      else if skips_empty \<and> wanted = Some FrameEmpty then Some ((StatusNoOutput, None), s, w)
      else case ready_encoder rebuild reconfigure (note_size frame_width frame_height s) w of
        (Inl _, s, w) \<Rightarrow> Some ((StatusError, None), s, w)
      | (Inr _, s, w) \<Rightarrow> ready_encode frame wanted s w)"

text \<open>A backend as a step: its \<^verbatim>\<open>rebuild_encoder\<close>, \<^verbatim>\<open>release\<close> and \<^verbatim>\<open>encode\<close> with what all share.\<close>

definition hw_step ::
    "(('enc, 'cb, 'z) hw_encoder_scheme \<Rightarrow> 'w \<Rightarrow>
        ('e codec_error + unit) \<times> ('enc, 'cb, 'z) hw_encoder_scheme \<times> 'w) \<Rightarrow>
     (('enc, 'cb, 'z) hw_encoder_scheme \<Rightarrow> 'w \<Rightarrow>
        video_codec_status \<times> ('enc, 'cb, 'z) hw_encoder_scheme \<times> 'w) \<Rightarrow>
     ('f \<Rightarrow> video_frame_type list option \<Rightarrow> ('enc, 'cb, 'z) hw_encoder_scheme \<Rightarrow> 'w \<Rightarrow>
        ((video_codec_status \<times> 'h option) \<times> ('enc, 'cb, 'z) hw_encoder_scheme \<times> 'w) option) \<Rightarrow>
     ('f, 'cb) encoder_call \<Rightarrow> ('enc, 'cb, 'z) hw_encoder_scheme \<Rightarrow> 'w \<Rightarrow>
     ((video_codec_status \<times> 'h option) \<times> ('enc, 'cb, 'z) hw_encoder_scheme \<times> 'w) option" where
  "hw_step rebuild release encode call s w =
     (case call of
        InitEncode codec \<Rightarrow> (case hw_init_encode rebuild codec s w of (st, s, w) \<Rightarrow> Some ((st, None), s, w))
      | EncodeFrame frame frame_types \<Rightarrow> encode frame frame_types s w
      | RegisterCallback callback \<Rightarrow>
          (case hw_register_callback callback s of (st, s) \<Rightarrow> Some ((st, None), s, w))
      | ReleaseEncoder \<Rightarrow> (case release s w of (st, s, w) \<Rightarrow> Some ((st, None), s, w))
      | SetRates parameters \<Rightarrow> Some ((StatusOk, None), hw_set_rates parameters s, w))"

subsection \<open>The contract\<close>

text \<open>
  A backend serves the calls when it has an invariant for what is asked for, a value \<open>'r\<close> that every
  call moves on by \<open>advance\<close>, which every call keeps unless it \<open>failed\<close>, and under which a frame is only
  handed to a native encoder as expected. \<open>laws\<close> is what is known of the native library.
\<close>

locale controlled_encoder =
  fixes laws :: bool
    and step :: "'c \<Rightarrow> 's \<Rightarrow> 'w \<Rightarrow> ((video_codec_status \<times> 'h option) \<times> 's \<times> 'w) option"
    and initial :: 's
    and start :: 'r
    and advance :: "'c \<times> video_codec_status \<times> 'h option \<Rightarrow> 'r \<Rightarrow> 'r"
    and failed :: "'c \<times> video_codec_status \<times> 'h option \<Rightarrow> bool"
    and inv :: "'r \<Rightarrow> 's \<Rightarrow> bool"
    and expected :: "'r \<Rightarrow> 'c \<Rightarrow> 'h \<Rightarrow> bool"
  assumes fresh: "inv start initial"
    and keeps: "laws \<Longrightarrow> inv r s \<Longrightarrow> step c s w = Some ((status, handed), s', w') \<Longrightarrow>
      \<not> failed (c, status, handed) \<Longrightarrow> inv (advance (c, status, handed) r) s'"
    and hands: "laws \<Longrightarrow> inv r s \<Longrightarrow> step c s w = Some ((status, Some h), s', w') \<Longrightarrow> expected r c h"
begin

lemma run_expected:
  "laws \<Longrightarrow> inv r s \<Longrightarrow> run_calls step calls s w = Some (trace, s', w') \<Longrightarrow>
     (\<forall>x \<in> set trace. \<not> failed x) \<Longrightarrow> trace = before @ (c, status, Some h) # after \<Longrightarrow>
     expected (fold advance before r) c h"
proof (induction calls arbitrary: r s w trace before)
  case (Cons c1 calls)
  from Cons.prems(3) obtain result s1 w1 trace1 where
    step: "step c1 s w = Some (result, s1, w1)" and
    rest: "run_calls step calls s1 w1 = Some (trace1, s', w')" and trace: "trace = (c1, result) # trace1"
    by (auto split: option.splits prod.splits)
  obtain st h1 where result: "result = (st, h1)" by (cases result)
  show ?case
  proof (cases before)
    case Nil
    with trace Cons.prems(5) result step hands [OF Cons.prems(1,2)] show ?thesis by auto
  next
    case (Cons x before1)
    with trace Cons.prems(4,5) result have x: "x = (c1, st, h1)" "\<not> failed (c1, st, h1)"
      and trace1: "trace1 = before1 @ (c, status, Some h) # after" "\<forall>x \<in> set trace1. \<not> failed x" by auto
    from keeps [OF Cons.prems(1,2) step [unfolded result] x(2)] have "inv (advance x r) s1"
      unfolding x(1) .
    from Cons.IH [OF Cons.prems(1) this rest trace1(2,1)] Cons show ?thesis by simp
  qed
qed simp

end

subsection \<open>Encoders that are up to date\<close>

text \<open>
  Unless a rebuild is due, the native encoder has the size of the state, and unless a reconfiguration is
  due it has the rates \<open>r\<close> too. \<open>settings\<close> reads the settings of a native encoder and \<open>config\<close> are those
  for a size and rates; \<open>m\<close> are the fields the backend adds.
\<close>

definition hw_current ::
    "('enc \<Rightarrow> 'set) \<Rightarrow> (u32 \<Rightarrow> u32 \<Rightarrow> u32 \<Rightarrow> u32 \<Rightarrow> 'set) \<Rightarrow> video_codec_type \<Rightarrow> 'z \<Rightarrow>
       u32 \<times> u32 \<Rightarrow> ('enc, 'cb, 'z) hw_encoder_scheme \<Rightarrow> bool" where
  "hw_current settings config T m r s \<longleftrightarrow>
     he_codec_type s = T \<and> hw_encoder.more s = m \<and> (he_framerate s, he_target_bitrate_bps s) = r \<and>
     (\<forall>e. he_encoder s = Some e \<longrightarrow> \<not> he_rebuild_needed s \<longrightarrow>
       (\<exists>fps bps. settings e = config (he_width s) (he_height s) fps bps \<and>
         (\<not> he_reconfigure_needed s \<longrightarrow> (fps, bps) = r)))"

lemma hw_current_new: "hw_current settings config T m (30, 500000) (hw_encoder.extend (hw_encoder_new T) m)"
  by (simp add: hw_current_def hw_encoder_new_def hw_encoder.extend_def)

lemma hw_current_note_size:
  "hw_current settings config T m r s \<Longrightarrow> hw_current settings config T m r (note_size fw fh s)"
  by (auto simp: hw_current_def note_size_def Let_def)

lemma note_size_fields:
  "he_width (note_size fw fh s) = fw" "he_height (note_size fw fh s) = fh"
  "he_callback (note_size fw fh s) = he_callback s"
  "he_encoder (note_size fw fh s) = he_encoder s"
  "he_encoder (note_size fw fh s) \<noteq> None \<or> he_rebuild_needed (note_size fw fh s)"
  by (auto simp: note_size_def Let_def)

lemma hw_current_register:
  "hw_current settings config T m r s \<Longrightarrow> hw_current settings config T m r (snd (hw_register_callback cb s))"
  by (simp add: hw_current_def hw_register_callback_def)

lemma hw_current_release:
  "hw_current settings config T m r s \<Longrightarrow> hw_release free s w = (st, s', w') \<Longrightarrow>
     hw_current settings config T m r s'"
  by (auto simp: hw_current_def hw_release_def)

lemma hw_current_set_rates:
  "hw_current settings config T m r s \<Longrightarrow>
     hw_current settings config T m (call_rates T (SetRates p) r) (hw_set_rates p s)"
  unfolding hw_current_def hw_set_rates_def by simp blast

lemma hw_current_encoder:
  "hw_current settings config T m r s \<Longrightarrow> he_encoder s = Some e \<Longrightarrow> settings e' = settings e \<Longrightarrow>
     hw_current settings config T m r (s\<lparr>he_encoder := Some e'\<rparr>)"
  by (simp add: hw_current_def)

text \<open>What a backend provides: the building and the reconfiguration of its native encoder.\<close>

locale hw_backend =
  fixes laws :: bool
    and rebuild :: "('enc, 'cb, 'z) hw_encoder_scheme \<Rightarrow> 'w \<Rightarrow>
      ('e codec_error + unit) \<times> ('enc, 'cb, 'z) hw_encoder_scheme \<times> 'w"
    and reconfigure :: "('enc, 'cb, 'z) hw_encoder_scheme \<Rightarrow> 'w \<Rightarrow>
      ('e codec_error + unit) \<times> ('enc, 'cb, 'z) hw_encoder_scheme \<times> 'w"
    and settings :: "'enc \<Rightarrow> 'set"
    and config :: "u32 \<Rightarrow> u32 \<Rightarrow> u32 \<Rightarrow> u32 \<Rightarrow> 'set"
    and T :: video_codec_type
    and m :: 'z
  assumes rebuilt: "laws \<Longrightarrow> he_codec_type s = T \<Longrightarrow> hw_encoder.more s = m \<Longrightarrow>
      rebuild s w = (Inr u, s', w') \<Longrightarrow>
      \<exists>e. s' = s\<lparr>he_encoder := Some e, he_rebuild_needed := False, he_reconfigure_needed := False\<rparr> \<and>
        settings e = config (he_width s) (he_height s) (he_framerate s) (he_target_bitrate_bps s)"
    and not_rebuilt: "rebuild s w = (Inl err, s', w') \<Longrightarrow> s' = s"
    and reconfigured: "laws \<Longrightarrow> he_encoder s = Some e \<Longrightarrow> settings e = config wd ht fps bps \<Longrightarrow>
      reconfigure s w = (Inr u, s', w') \<Longrightarrow>
      \<exists>e'. s' = s\<lparr>he_encoder := Some e', he_reconfigure_needed := False\<rparr> \<and>
        settings e' = config wd ht (he_framerate s) (he_target_bitrate_bps s)"
    and not_reconfigured: "reconfigure s w = (Inl err, s', w') \<Longrightarrow> \<exists>e'. s' = s\<lparr>he_encoder := e'\<rparr>"
begin

lemma init_current:
  assumes "laws" and "hw_current settings config T m r s"
    and "hw_init_encode rebuild codec s w = (st, s', w')" and "st \<noteq> StatusError"
  shows "hw_current settings config T m (call_rates T (InitEncode codec) r) s'"
proof (cases "vc_codec_type codec = T")
  case True
  with assms have "rebuild (take_settings codec s) w = (Inr (), s', w')"
    by (auto simp: hw_init_encode_def hw_current_def split: prod.splits sum.splits)
  with rebuilt [OF assms(1) _ _ this] assms(2) True show ?thesis
    by (auto simp: hw_current_def take_settings_def)
qed (use assms in \<open>auto simp: hw_init_encode_def hw_current_def\<close>)

lemma ready_current:
  assumes "laws" and current: "hw_current settings config T m r s"
    and some: "he_encoder s \<noteq> None \<or> he_rebuild_needed s"
    and ready: "ready_encoder rebuild reconfigure s w = (res, s', w')"
  shows "hw_current settings config T m r s' \<and>
    (res = Inr u \<longrightarrow> (\<exists>e. he_encoder s' = Some e \<and>
      settings e = config (he_width s) (he_height s) (fst r) (snd r)))"
proof -
  have again: "hw_current settings config T m r t' \<and>
      (res' = Inr u \<longrightarrow> (\<exists>e. he_encoder t' = Some e \<and>
        settings e = config (he_width t) (he_height t) (fst r) (snd r)))"
    if "hw_current settings config T m r t" "he_rebuild_needed t" "rebuild t v = (res', t', v')"
    for t v t' res' v'
  proof (cases res')
    case (Inl err)
    from not_rebuilt [OF that(3) [unfolded Inl]] that(1) Inl show ?thesis by simp
  next
    case (Inr u')
    with rebuilt [OF assms(1), of t v u' t' v'] that show ?thesis by (auto simp: hw_current_def)
  qed
  consider "he_rebuild_needed s" | "\<not> he_rebuild_needed s" "he_reconfigure_needed s"
    | "\<not> he_rebuild_needed s" "\<not> he_reconfigure_needed s" by blast
  then show ?thesis
  proof cases
    case 1
    with again [OF current] ready show ?thesis by (auto simp: ready_encoder_def)
  next
    case 2
    with some current obtain e fps bps where e: "he_encoder s = Some e"
      "settings e = config (he_width s) (he_height s) fps bps" by (auto simp: hw_current_def)
    obtain res1 s1 w1 where re: "reconfigure s w = (res1, s1, w1)" by (metis prod_cases3)
    show ?thesis
    proof (cases res1)
      case (Inl err)
      from not_reconfigured [OF re [unfolded Inl]] obtain e' where s1: "s1 = s\<lparr>he_encoder := e'\<rparr>" by blast
      have "hw_current settings config T m r (s1\<lparr>he_rebuild_needed := True\<rparr>)"
        using current by (simp add: hw_current_def s1)
      from again [OF this] ready 2 re Inl s1 show ?thesis by (auto simp: ready_encoder_def)
    next
      case (Inr u')
      from reconfigured [OF assms(1) e re [unfolded Inr]] ready 2 re Inr current show ?thesis
        by (auto simp: ready_encoder_def hw_current_def)
    qed
  next
    case 3
    with some current ready show ?thesis by (auto simp: ready_encoder_def hw_current_def)
  qed
qed

lemma step_keeps:
  assumes "laws" and current: "hw_current settings config T m r s"
    and step: "hw_step rebuild release encode c s w = Some ((st, handed), s', w')"
    and "\<not> init_failed (c, st, handed)"
    and encode: "\<And>f types. encode f types s w = Some ((st, handed), s', w') \<Longrightarrow>
      hw_current settings config T m r s'"
    and release: "release s w = (st, s', w') \<Longrightarrow> hw_current settings config T m r s'"
  shows "hw_current settings config T m (call_rates T c r) s'"
proof (cases c)
  case (InitEncode codec)
  with step assms(4) have "hw_init_encode rebuild codec s w = (st, s', w')" "st \<noteq> StatusError"
    by (auto simp: hw_step_def split: prod.splits)
  from init_current [OF assms(1) current this] InitEncode show ?thesis by simp
next
  case (RegisterCallback cb)
  with step current hw_current_register [of settings config T m r s cb] show ?thesis
    by (auto simp: hw_step_def split: prod.splits)
next
  case (SetRates p)
  with step current show ?thesis
    by (auto simp: hw_step_def simp del: call_rates.simps intro: hw_current_set_rates)
qed (use step encode release in \<open>auto simp: hw_step_def split: prod.splits\<close>)

lemma step_hands:
  "hw_step rebuild release encode c s w = Some ((st, Some h), s', w') \<Longrightarrow>
     \<exists>f types. c = EncodeFrame f types \<and> encode f types s w = Some ((st, Some h), s', w')"
  by (cases c) (auto simp: hw_step_def split: prod.splits)

end

text \<open>
  With what it does with an encoder that is ready and with its \<^verbatim>\<open>release\<close>, a backend fulfils the
  contract.
\<close>

locale hw_codec = hw_backend laws rebuild reconfigure settings config T m
  for laws :: bool
    and rebuild reconfigure :: "('enc, 'cb, 'z) hw_encoder_scheme \<Rightarrow> 'w \<Rightarrow>
      ('e codec_error + unit) \<times> ('enc, 'cb, 'z) hw_encoder_scheme \<times> 'w"
    and settings :: "'enc \<Rightarrow> 'set" and config T m +
  fixes release :: "('enc, 'cb, 'z) hw_encoder_scheme \<Rightarrow> 'w \<Rightarrow>
      video_codec_status \<times> ('enc, 'cb, 'z) hw_encoder_scheme \<times> 'w"
    and skips_empty :: bool
    and ready_encode :: "'i raw_frame \<Rightarrow> video_frame_type option \<Rightarrow> ('enc, 'cb, 'z) hw_encoder_scheme \<Rightarrow> 'w \<Rightarrow>
      ((video_codec_status \<times> 'h option) \<times> ('enc, 'cb, 'z) hw_encoder_scheme \<times> 'w) option"
    and expected :: "u32 \<times> u32 \<Rightarrow> 'i raw_frame \<Rightarrow> video_frame_type list option \<Rightarrow> 'h \<Rightarrow> bool"
  assumes ready_hands: "laws \<Longrightarrow> hw_current settings config T m r s \<Longrightarrow> he_encoder s = Some e \<Longrightarrow>
      settings e = config (u32_of_size (rf_width f)) (u32_of_size (rf_height f)) (fst r) (snd r) \<Longrightarrow>
      ready_encode f (requested_frame_type types) s w = Some ((st, handed), s', w') \<Longrightarrow>
      hw_current settings config T m r s' \<and> (\<forall>h. handed = Some h \<longrightarrow> expected r f types h)"
    and release_keeps: "hw_current settings config T m r s \<Longrightarrow> release s w = (st, s', w') \<Longrightarrow>
      hw_current settings config T m r s'"
begin

lemma encode_hands:
  assumes "laws" and current: "hw_current settings config T m r s"
    and run: "hw_encode rebuild reconfigure skips_empty ready_encode f types s w = Some ((st, handed), s', w')"
  shows "hw_current settings config T m r s' \<and> (\<forall>h. handed = Some h \<longrightarrow> expected r f types h)"
proof -
  let ?w = "u32_of_size (rf_width f)" and ?h = "u32_of_size (rf_height f)"
  obtain res s1 w1 where ready: "ready_encoder rebuild reconfigure (note_size ?w ?h s) w = (res, s1, w1)"
    by (metis prod_cases3)
  from ready_current [OF assms(1) hw_current_note_size [OF current] note_size_fields(5) this]
  have ok: "hw_current settings config T m r s1"
    "\<And>u. res = Inr u \<Longrightarrow> \<exists>e. he_encoder s1 = Some e \<and> settings e = config ?w ?h (fst r) (snd r)"
    by (auto simp: note_size_fields)
  show ?thesis
  proof (cases "he_callback s = None \<or> ?w = 0 \<or> ?h = 0 \<or>
      skips_empty \<and> requested_frame_type types = Some FrameEmpty \<or> (\<exists>err. res = Inl err)")
    case True
    with current run ready ok(1) show ?thesis by (auto simp: hw_encode_def Let_def split: if_splits)
  next
    case False
    then obtain u where u: "res = Inr u" by (cases res) auto
    with ok(2) obtain e where e: "he_encoder s1 = Some e" "settings e = config ?w ?h (fst r) (snd r)" by blast
    from False run ready u have "ready_encode f (requested_frame_type types) s1 w1 = Some ((st, handed), s', w')"
      by (auto simp: hw_encode_def Let_def)
    from ready_hands [OF assms(1) ok(1) e this] show ?thesis .
  qed
qed

end

sublocale hw_codec \<subseteq> served: controlled_encoder laws
    "hw_step rebuild release (hw_encode rebuild reconfigure skips_empty ready_encode)"
    "hw_encoder.extend (hw_encoder_new T) m" "(30, 500000)" "call_rates T \<circ> fst" init_failed
    "hw_current settings config T m"
    "\<lambda>r c h. \<exists>f types. c = EncodeFrame f types \<and> expected r f types h"
proof
  show "hw_current settings config T m (30, 500000) (hw_encoder.extend (hw_encoder_new T) m)"
    by (rule hw_current_new)
next
  show "hw_current settings config T m ((call_rates T \<circ> fst) (c, st, handed) r) s'"
    if "laws" "hw_current settings config T m r s"
      "hw_step rebuild release (hw_encode rebuild reconfigure skips_empty ready_encode) c s w =
        Some ((st, handed), s', w')" "\<not> init_failed (c, st, handed)" for r c s w st handed s' w'
    unfolding comp_def fst_conv
    using step_keeps [OF that] encode_hands [OF that(1,2)] release_keeps [OF that(2)] by blast
next
  show "\<exists>f types. c = EncodeFrame f types \<and> expected r f types h"
    if "laws" "hw_current settings config T m r s"
      "hw_step rebuild release (hw_encode rebuild reconfigure skips_empty ready_encode) c s w =
        Some ((st, Some h), s', w')" for r c s w st h s' w'
    using step_hands [OF that(3)] encode_hands [OF that(1,2)] by blast
qed

lemma hw_encoder_extend_unit: "hw_encoder.extend (hw_encoder_new T) () = hw_encoder_new T"
  by (simp add: hw_encoder.extend_def hw_encoder_new_def)

subsection \<open>Calls for the examples\<close>

definition example_hd :: "video_codec_type \<Rightarrow> int \<Rightarrow> int \<Rightarrow> encoder_settings" where
  "example_hd codec_type width height =
     \<lparr>vc_codec_type = codec_type, vc_width = width, vc_height = height, vc_number_of_simulcast_streams = 0,
      vc_simulcast_streams = [], vc_max_framerate = 30, vc_start_bitrate_kbps = 800\<rparr>"

definition example_raw :: "int \<Rightarrow> int \<Rightarrow> unit raw_frame" where
  "example_raw width height =
     \<lparr>rf_width = width, rf_height = height, rf_rtp_timestamp = 90, rf_timestamp_us = 1000,
      rf_i420 = Some ()\<rparr>"

definition example_calls :: "(unit raw_frame, unit) encoder_call list" where
  "example_calls =
     [RegisterCallback (Some ()), InitEncode (example_hd H264 4 2),
      SetRates \<lparr>rc_framerate_fps = Finite (59 / 2), rc_bitrate_sum_bps = 300000,
                rc_target_bitrate_sum_bps = 250000\<rparr>]"

lemma example_rates:
  "f64_as_u32 (f64_max (Finite (59 / 2)) (Finite 1)) = 29" "saturating_mul_u32 800 1000 = 800000"
proof -
  have "\<lfloor>(59 / 2 :: rat)\<rfloor> = 29" by (simp add: floor_eq_iff)
  then show "f64_as_u32 (f64_max (Finite (59 / 2)) (Finite 1)) = 29" by simp
qed (simp add: saturating_mul_u32_def)

lemma example_requested: "requested_rates H264 example_calls = (29, 300000)"
  by (simp add: requested_rates_def example_calls_def example_hd_def example_rates
      del: f64_max.simps f64_as_u32.simps)

end
