(* ===== verification/Vpl.thy ===== *)
theory Vpl
  imports Hw_Codec
begin

text \<open>
  \<^verbatim>\<open>src/video_codecs/vpl.rs\<close>: the encoder, the decoder and the capability of Intel VPL. The
  crate \<^verbatim>\<open>shiguredo_vpl\<close> and the conversions of \<^verbatim>\<open>libwebrtc\<close> are the operations of
  \<open>vpl_lib\<close>; sizes of the coded picture are \<^verbatim>\<open>usize\<close>, 64 bits wide.
\<close>

subsection \<open>Codecs and rates\<close>

datatype vpl_codec_config = VplH264 | VplHevc | VplVp9 "bool" | VplAv1

datatype vpl_decoder_codec = VplDecodeH264 | VplDecodeHevc | VplDecodeVp9 | VplDecodeAv1

datatype rate_control_mode = Cbr | Vbr

text \<open>The profile is left open, but for VP9: profile 0, with \<^verbatim>\<open>write_ivf_headers\<close>.\<close>

definition vpl_encoder_codec_config :: "video_codec_type \<Rightarrow> vpl_codec_config option" where
  "vpl_encoder_codec_config codec_type =
     (case codec_type of
        H264 \<Rightarrow> Some VplH264
      | H265 \<Rightarrow> Some VplHevc
      | Vp9 \<Rightarrow> Some (VplVp9 False)
      | Av1 \<Rightarrow> Some VplAv1
      | _ \<Rightarrow> None)"

definition vpl_decoder_codec :: "video_codec_type \<Rightarrow> vpl_decoder_codec option" where
  "vpl_decoder_codec codec_type =
     (case codec_type of
        H264 \<Rightarrow> Some VplDecodeH264
      | H265 \<Rightarrow> Some VplDecodeHevc
      | Vp9 \<Rightarrow> Some VplDecodeVp9
      | Av1 \<Rightarrow> Some VplDecodeAv1
      | _ \<Rightarrow> None)"

definition vpl_force_frame_type ::
    "frame_type_bits \<Rightarrow> video_codec_type \<Rightarrow> video_frame_type option \<Rightarrow> u16" where
  "vpl_force_frame_type F codec_type requested =
     (if requested = Some FrameKey then
        (if codec_type = Vp9 then ft_i F else ft_idr F OR ft_i F OR ft_ref F)
      else ft_unknown F)"

definition frame_type_from_vpl :: "picture_type \<Rightarrow> video_frame_type" where
  "frame_type_from_vpl picture_type =
     (if picture_type = PicIdr \<or> picture_type = PicI then FrameKey else FrameDelta)"

definition target_kbps_u16 :: "u32 \<Rightarrow> u16" where
  "target_kbps_u16 target_bitrate_bps =
     (let kbps = target_kbps_from_bps target_bitrate_bps
      in if unat kbps < 65536 then ucast kbps else 65535)"

definition vpl_rate_control_mode :: "video_codec_type \<Rightarrow> rate_control_mode" where
  "vpl_rate_control_mode codec_type = (if codec_type = Vp9 then Vbr else Cbr)"

subsection \<open>The encoder\<close>

record 'a vpl_encoder_config =
  ve_adapter :: 'a
  ve_codec :: vpl_codec_config
  ve_width :: u32
  ve_height :: u32
  ve_framerate_num :: u32
  ve_framerate_den :: u32
  ve_rate_control_mode :: rate_control_mode
  ve_target_kbps :: "u16 option"

record vpl_reconfigure_params =
  vr_target_kbps :: "u16 option"
  vr_framerate_num :: "u32 option"
  vr_framerate_den :: "u32 option"

record 'a vpl_decoder_config =
  vd_adapter :: 'a
  vd_codec :: vpl_decoder_codec

record ('i, 'a, 'enc, 'dec, 'w, 'e) vpl_lib =
  vl_frame_type :: frame_type_bits
  vl_encoder_new :: "'a vpl_encoder_config \<Rightarrow> 'w \<Rightarrow> ('e + 'enc) \<times> 'w"
  vl_reconfigure :: "vpl_reconfigure_params \<Rightarrow> 'enc \<Rightarrow> 'w \<Rightarrow> ('e + unit) \<times> 'enc \<times> 'w"
  vl_coded_size :: "'enc \<Rightarrow> u64 \<times> u64"
  vl_nv12_frame_size :: "u64 \<Rightarrow> u64 \<Rightarrow> u64 option"
  vl_encode :: "bytes \<Rightarrow> callback_value \<Rightarrow> u16 \<Rightarrow> 'enc \<Rightarrow> 'w \<Rightarrow> ('e + unit) \<times> 'enc \<times> 'w"
  vl_drop_encoder :: "'enc \<Rightarrow> 'w \<Rightarrow> 'w"
  vl_i420_to_nv12 :: "'i \<Rightarrow> bytes \<Rightarrow> int \<Rightarrow> bytes \<Rightarrow> int \<Rightarrow> int \<Rightarrow> int \<Rightarrow> (bytes \<times> bytes) option"
  vl_decoder_new :: "'a vpl_decoder_config \<Rightarrow> 'w \<Rightarrow> ('e + 'dec) \<times> 'w"
  vl_decode :: "bytes \<Rightarrow> decode_value \<Rightarrow> 'dec \<Rightarrow> 'w \<Rightarrow> ('e + unit) \<times> 'dec \<times> 'w"
  vl_drop_decoder :: "'dec \<Rightarrow> 'w \<Rightarrow> 'w"
  vl_nv12_copy :: "bytes \<Rightarrow> int \<Rightarrow> bytes \<Rightarrow> int \<Rightarrow> int \<Rightarrow> int \<Rightarrow> bytes option"

record ('enc, 'cb, 'a) vpl_encoder = "('enc, 'cb) hw_encoder" +
  he_adapter :: 'a

definition vpl_encoder_new :: "'a \<Rightarrow> video_codec_type \<Rightarrow> ('enc, 'cb, 'a) vpl_encoder" where
  "vpl_encoder_new adapter codec_type =
     hw_encoder.extend (hw_encoder_new codec_type) \<lparr>he_adapter = adapter\<rparr>"

definition vpl_encoder_config ::
    "'a \<Rightarrow> video_codec_type \<Rightarrow> vpl_codec_config \<Rightarrow> u32 \<Rightarrow> u32 \<Rightarrow> u32 \<Rightarrow> u32 \<Rightarrow> 'a vpl_encoder_config" where
  "vpl_encoder_config adapter codec_type codec_config width height framerate target_bitrate_bps =
     \<lparr>ve_adapter = adapter, ve_codec = codec_config, ve_width = width, ve_height = height,
      ve_framerate_num = max framerate 1, ve_framerate_den = 1,
      ve_rate_control_mode = vpl_rate_control_mode codec_type,
      ve_target_kbps = Some (target_kbps_u16 target_bitrate_bps)\<rparr>"

definition vpl_rebuild_encoder ::
    "('i, 'a, 'enc, 'dec, 'w, 'e) vpl_lib \<Rightarrow> ('enc, 'cb, 'a) vpl_encoder \<Rightarrow> 'w \<Rightarrow>
       ('e codec_error + unit) \<times> ('enc, 'cb, 'a) vpl_encoder \<times> 'w" where
  "vpl_rebuild_encoder V s w =
     (if he_width s = 0 \<or> he_height s = 0 then
        (Inl (CodecMessage ''VPL encoder requires non-zero width and height''), s, w)
      else case vpl_encoder_codec_config (he_codec_type s) of
        None \<Rightarrow> (Inl (CodecMessage ''VPL encoder codec type is not supported''), s, w)
      | Some codec_config \<Rightarrow>
          (case vl_encoder_new V
              (vpl_encoder_config (he_adapter s) (he_codec_type s) codec_config (he_width s) (he_height s)
                (he_framerate s) (he_target_bitrate_bps s)) w of
             (Inl err, w) \<Rightarrow> (Inl (CodecFailed err), s, w)
           | (Inr enc, w) \<Rightarrow>
               (Inr (), s\<lparr>he_encoder := Some enc, he_rebuild_needed := False, he_reconfigure_needed := False\<rparr>,
                drop_encoder (vl_drop_encoder V) s w)))"

definition vpl_reconfigure_encoder ::
    "('i, 'a, 'enc, 'dec, 'w, 'e) vpl_lib \<Rightarrow> ('enc, 'cb, 'a) vpl_encoder \<Rightarrow> 'w \<Rightarrow>
       ('e codec_error + unit) \<times> ('enc, 'cb, 'a) vpl_encoder \<times> 'w" where
  "vpl_reconfigure_encoder V s w =
     (case he_encoder s of
        None \<Rightarrow> (Inl (CodecMessage ''VPL encoder instance is not initialized''), s, w)
      | Some enc \<Rightarrow>
          (case vl_reconfigure V
              \<lparr>vr_target_kbps = Some (target_kbps_u16 (he_target_bitrate_bps s)),
               vr_framerate_num = Some (max (he_framerate s) 1), vr_framerate_den = Some 1\<rparr> enc w of
             (Inl err, enc, w) \<Rightarrow> (Inl (CodecFailed err), s\<lparr>he_encoder := Some enc\<rparr>, w)
           | (Inr _, enc, w) \<Rightarrow>
               (Inr (), s\<lparr>he_encoder := Some enc, he_reconfigure_needed := False\<rparr>, w)))"

text \<open>
  The buffer the frame is converted into: its size and that of its first plane, and the stride. The
  slice operation \<^verbatim>\<open>split_at_mut\<close> panics (\<open>None\<close>) when the plane does not fit.
\<close>

definition vpl_layout ::
    "('i, 'a, 'enc, 'dec, 'w, 'e) vpl_lib \<Rightarrow> 'enc \<Rightarrow> (u64 \<times> u64 \<times> int) option" where
  "vpl_layout V enc =
     (let (coded_width, coded_height) = vl_coded_size V enc in
      if unat coded_width * unat coded_height < 2 ^ 64 then
        do { coded_nv12_size \<leftarrow> vl_nv12_frame_size V coded_width coded_height;
             dst_stride_y \<leftarrow> try_i32 (uint coded_width);
             Some (coded_nv12_size, coded_width * coded_height, dst_stride_y) }
      else None)"

definition vpl_nv12 ::
    "('i, 'a, 'enc, 'dec, 'w, 'e) vpl_lib \<Rightarrow> 'enc \<Rightarrow> 'i \<Rightarrow> int \<Rightarrow> int \<Rightarrow> bytes option option" where
  "vpl_nv12 V enc i420 width height =
     (case vpl_layout V enc of
        None \<Rightarrow> Some None
      | Some (coded_nv12_size, y_plane_size, dst_stride) \<Rightarrow>
          if unat coded_nv12_size < unat y_plane_size then None
          else Some (map_option (\<lambda>(dst_y, dst_uv). dst_y @ dst_uv)
            (vl_i420_to_nv12 V i420 (replicate (unat y_plane_size) 0) dst_stride
              (replicate (unat coded_nv12_size - unat y_plane_size) 0) dst_stride width height)))"

text \<open>What is handed to the native encoder: the encoder, the picture, the value and the frame type.\<close>

type_synonym 'enc vpl_input = "'enc \<times> bytes \<times> callback_value \<times> u16"

definition vpl_encode_ready ::
    "('i, 'a, 'enc, 'dec, 'w, 'e) vpl_lib \<Rightarrow> 'i raw_frame \<Rightarrow> video_frame_type option \<Rightarrow>
       ('enc, 'cb, 'a) vpl_encoder \<Rightarrow> 'w \<Rightarrow>
       ((video_codec_status \<times> 'enc vpl_input option) \<times> ('enc, 'cb, 'a) vpl_encoder \<times> 'w) option" where
  "vpl_encode_ready V frame wanted s w =
     (let v = value_of_frame frame in
      case (rf_i420 frame, try_i32 (uint (cv_frame_width v)), try_i32 (uint (cv_frame_height v)), he_encoder s) of
        (Some i420, Some width, Some height, Some enc) \<Rightarrow>
          (case vpl_nv12 V enc i420 width height of
             None \<Rightarrow> None
           | Some None \<Rightarrow> Some ((StatusError, None), s, w)
           | Some (Some nv12) \<Rightarrow>
               let force_frame_type = vpl_force_frame_type (vl_frame_type V) (he_codec_type s) wanted;
                   (result, enc', w) = vl_encode V nv12 v force_frame_type enc w
               in Some ((if result = Inr () then StatusOk else StatusError,
                         Some (enc, nv12, v, force_frame_type)), s\<lparr>he_encoder := Some enc'\<rparr>, w))
      | _ \<Rightarrow> Some ((StatusError, None), s, w))"

definition vpl_encode ::
    "('i, 'a, 'enc, 'dec, 'w, 'e) vpl_lib \<Rightarrow> 'i raw_frame \<Rightarrow> video_frame_type list option \<Rightarrow>
       ('enc, 'cb, 'a) vpl_encoder \<Rightarrow> 'w \<Rightarrow>
       ((video_codec_status \<times> 'enc vpl_input option) \<times> ('enc, 'cb, 'a) vpl_encoder \<times> 'w) option" where
  "vpl_encode V =
     hw_encode (vpl_rebuild_encoder V) (vpl_reconfigure_encoder V) False (vpl_encode_ready V)"

text \<open>The encoder as a step of the calls of WebRTC.\<close>

definition vpl_step ::
    "('i, 'a, 'enc, 'dec, 'w, 'e) vpl_lib \<Rightarrow> ('i raw_frame, 'cb) encoder_call \<Rightarrow>
       ('enc, 'cb, 'a) vpl_encoder \<Rightarrow> 'w \<Rightarrow>
       ((video_codec_status \<times> 'enc vpl_input option) \<times> ('enc, 'cb, 'a) vpl_encoder \<times> 'w) option" where
  "vpl_step V = hw_step (vpl_rebuild_encoder V) (hw_release (vl_drop_encoder V)) (vpl_encode V)"

subsection \<open>What the encoder delivers\<close>

record vp9_specific_info =
  vp9_end_of_picture :: bool
  vp9_num_spatial_layers :: nat
  vp9_temporal_idx :: int
  vp9_first_frame_in_picture :: bool
  vp9_spatial_layer_resolution_present :: bool
  vp9_ss_data_available :: bool
  vp9_temporal_up_switch :: bool
  vp9_inter_pic_predicted :: bool
  vp9_flexible_mode :: bool
  vp9_inter_layer_predicted :: bool

record vpl_specific_info = codec_specific_info +
  csi_vp9 :: "vp9_specific_info option"

text \<open>
  The image and the codec information for the callback that is registered; \<open>no_temporal_idx\<close> is the
  constant of \<^verbatim>\<open>libwebrtc\<close>. What the callback returns is only logged.
\<close>

definition handle_vpl_encode_callback ::
    "int \<Rightarrow> 'cb option \<Rightarrow> 'e + encoded_output \<Rightarrow> video_codec_type \<Rightarrow>
       ('cb \<times> encoded_image \<times> vpl_specific_info) option" where
  "handle_vpl_encode_callback no_temporal_idx callback result codec_type =
     (case result of
        Inl err \<Rightarrow> None
      | Inr encoded \<Rightarrow>
          (let frame_type = frame_type_from_vpl (eo_picture_type encoded);
               vp9 = (if codec_type = Vp9 then Some
                  \<lparr>vp9_end_of_picture = True, vp9_num_spatial_layers = 1,
                   vp9_temporal_idx = no_temporal_idx, vp9_first_frame_in_picture = True,
                   vp9_spatial_layer_resolution_present = False, vp9_ss_data_available = False,
                   vp9_temporal_up_switch = True, vp9_inter_pic_predicted = (frame_type \<noteq> FrameKey),
                   vp9_flexible_mode = False, vp9_inter_layer_predicted = False\<rparr>
                else None)
           in map_option (\<lambda>callback. (callback, image_of_output frame_type encoded,
                codec_specific_info.extend (h264_info codec_type (eo_picture_type encoded)) \<lparr>csi_vp9 = vp9\<rparr>))
              callback))"

subsection \<open>The decoder\<close>

record ('dec, 'cb, 'a) vpl_decoder = "('dec, 'cb) hw_decoder" +
  hd_adapter :: 'a

definition vpl_decoder_new :: "'a \<Rightarrow> video_codec_type \<Rightarrow> ('dec, 'cb, 'a) vpl_decoder" where
  "vpl_decoder_new adapter codec_type =
     hw_decoder.extend (hw_decoder_new codec_type) \<lparr>hd_adapter = adapter\<rparr>"

definition vpl_rebuild_decoder ::
    "('i, 'a, 'enc, 'dec, 'w, 'e) vpl_lib \<Rightarrow> ('dec, 'cb, 'a) vpl_decoder \<Rightarrow> 'w \<Rightarrow>
       ('e codec_error + unit) \<times> ('dec, 'cb, 'a) vpl_decoder \<times> 'w" where
  "vpl_rebuild_decoder V s w =
     (case vpl_decoder_codec (hd_codec_type s) of
        None \<Rightarrow> (Inl (CodecMessage ''VPL decoder codec type is not supported''), s, w)
      | Some codec \<Rightarrow>
          (case vl_decoder_new V \<lparr>vd_adapter = hd_adapter s, vd_codec = codec\<rparr> w of
             (Inl err, w) \<Rightarrow> (Inl (CodecFailed err), s, w)
           | (Inr d, w) \<Rightarrow>
               (Inr (), s\<lparr>hd_decoder := Some d\<rparr>, drop_decoder (vl_drop_decoder V) s w)))"

definition vpl_configure ::
    "('i, 'a, 'enc, 'dec, 'w, 'e) vpl_lib \<Rightarrow> video_codec_type \<Rightarrow> ('dec, 'cb, 'a) vpl_decoder \<Rightarrow> 'w \<Rightarrow>
       bool \<times> ('dec, 'cb, 'a) vpl_decoder \<times> 'w" where
  "vpl_configure V = hw_configure (vpl_rebuild_decoder V)"

text \<open>\<open>None\<close> is the panic of \<^verbatim>\<open>expect("decoder should exist")\<close>.\<close>

definition vpl_decode ::
    "('i, 'a, 'enc, 'dec, 'w, 'e) vpl_lib \<Rightarrow> input_image \<Rightarrow> int \<Rightarrow> ('dec, 'cb, 'a) vpl_decoder \<Rightarrow> 'w \<Rightarrow>
       (video_codec_status \<times> ('dec, 'cb, 'a) vpl_decoder \<times> 'w) option" where
  "vpl_decode V input render_time_ms s w =
     (if hd_callback s = None then Some (StatusUninitialized, s, w)
      else case ig_data input of
        None \<Rightarrow> Some (StatusErrParameter, s, w)
      | Some data \<Rightarrow>
          (case ensure_decoder (vpl_rebuild_decoder V) s w of
             (Inl _, s, w) \<Rightarrow> Some (StatusError, s, w)
           | (Inr _, s, w) \<Rightarrow>
               (case hd_decoder s of
                  None \<Rightarrow> None
                | Some d \<Rightarrow>
                    let (result, d, w) = vl_decode V data
                          \<lparr>dv_rtp_timestamp = ig_rtp_timestamp input, dv_render_time_ms = render_time_ms\<rparr> d w
                    in Some (if result = Inr () then StatusOk else StatusError,
                         s\<lparr>hd_decoder := Some d\<rparr>, w))))"

definition handle_vpl_decode_callback ::
    "('i, 'a, 'enc, 'dec, 'w, 'e) vpl_lib \<Rightarrow> 'cb option \<Rightarrow> 'e + decoded_output \<Rightarrow>
       ('cb \<times> decoded_frame) option" where
  "handle_vpl_decode_callback V = nv12_output (vl_nv12_copy V)"

subsection \<open>The capability\<close>

datatype vpl_codec_type = VplTypeH264 | VplTypeHevc | VplTypeVp9 | VplTypeAv1

fun vpl_webrtc_type :: "vpl_codec_type \<Rightarrow> video_codec_type" where
  "vpl_webrtc_type VplTypeH264 = H264"
| "vpl_webrtc_type VplTypeHevc = H265"
| "vpl_webrtc_type VplTypeVp9 = Vp9"
| "vpl_webrtc_type VplTypeAv1 = Av1"

definition vpl_collect_supported_formats ::
    "'e + vpl_codec_type codec_support list \<Rightarrow> 'e codec_error + sdp_format list \<times> sdp_format list" where
  "vpl_collect_supported_formats codecs =
     bindE (map_err CodecFailed codecs) (\<lambda>infos. Inr (formats_of_support (Some \<circ> vpl_webrtc_type) infos))"

definition vpl_new_with_formats ::
    "webrtc \<Rightarrow> (sdp_format list \<Rightarrow> (sdp_format \<Rightarrow> ('enc, 'cb, 'a) vpl_encoder option) \<Rightarrow>
         sdp_format \<Rightarrow> ('enc, 'cb, 'a) vpl_encoder option) \<Rightarrow> 'a \<Rightarrow> sdp_format list \<Rightarrow> sdp_format list \<Rightarrow>
       (('enc, 'cb, 'a) vpl_encoder, ('dec, 'db, 'a) vpl_decoder) video_capability" where
  "vpl_new_with_formats W simulcast adapter encoder_formats decoder_formats =
     backend_capability W simulcast \<lparr>vi_name = ''vpl'', vi_description = ''Intel VPL''\<rparr>
       (\<lambda>direction. case direction of Encoder \<Rightarrow> encoder_formats | Decoder \<Rightarrow> decoder_formats)
       (\<lambda>format. map_option (vpl_encoder_new adapter) (codec_type_from_format W format))
       (\<lambda>format. map_option (vpl_decoder_new adapter) (codec_type_from_format W format))"

text \<open>\<open>adapters\<close> and \<open>codecs\<close> are \<^verbatim>\<open>list_adapters\<close> and \<^verbatim>\<open>supported_codecs\<close> of the crate.\<close>

definition vpl_capability_new ::
    "webrtc \<Rightarrow> (sdp_format list \<Rightarrow> (sdp_format \<Rightarrow> ('enc, 'cb, 'a) vpl_encoder option) \<Rightarrow>
         sdp_format \<Rightarrow> ('enc, 'cb, 'a) vpl_encoder option) \<Rightarrow> 'e + 'a list \<Rightarrow>
       ('a \<Rightarrow> 'e + vpl_codec_type codec_support list) \<Rightarrow>
       'e codec_error + (('enc, 'cb, 'a) vpl_encoder, ('dec, 'db, 'a) vpl_decoder) video_capability" where
  "vpl_capability_new W simulcast adapters codecs =
     bindE (map_err CodecFailed adapters) (\<lambda>adapters.
     case adapters of
       [] \<Rightarrow> Inl (CodecMessage ''VPL: no hardware adapter found'')
     | adapter # _ \<Rightarrow>
         bindE (vpl_collect_supported_formats (codecs adapter)) (\<lambda>(encoder_formats, decoder_formats).
         if encoder_formats = [] \<and> decoder_formats = [] then
           Inl (CodecMessage ''VPL does not support any encoder or decoder codec'')
         else Inr (vpl_new_with_formats W simulcast adapter encoder_formats decoder_formats)))"

subsection \<open>The encoder encodes as it was asked to\<close>

text \<open>
  What is known of the native encoder: it has the settings it was built with, a reconfiguration replaces
  the ones it names, and encoding keeps them. \<open>settings\<close> reads them.
\<close>

definition vpl_reconfigured ::
    "vpl_reconfigure_params \<Rightarrow> 'a vpl_encoder_config \<Rightarrow> 'a vpl_encoder_config" where
  "vpl_reconfigured p c =
     c\<lparr>ve_target_kbps := (case vr_target_kbps p of None \<Rightarrow> ve_target_kbps c | k \<Rightarrow> k),
       ve_framerate_num := (case vr_framerate_num p of None \<Rightarrow> ve_framerate_num c | Some n \<Rightarrow> n),
       ve_framerate_den := (case vr_framerate_den p of None \<Rightarrow> ve_framerate_den c | Some n \<Rightarrow> n)\<rparr>"

definition vpl_laws ::
    "('i, 'a, 'enc, 'dec, 'w, 'e) vpl_lib \<Rightarrow> ('enc \<Rightarrow> 'a vpl_encoder_config) \<Rightarrow> bool" where
  "vpl_laws V settings \<longleftrightarrow>
     (\<forall>config w e w'. vl_encoder_new V config w = (Inr e, w') \<longrightarrow> settings e = config) \<and>
     (\<forall>p e w e' w'. vl_reconfigure V p e w = (Inr (), e', w') \<longrightarrow>
       settings e' = vpl_reconfigured p (settings e)) \<and>
     (\<forall>nv12 v t e w r e' w'. vl_encode V nv12 v t e w = (r, e', w') \<longrightarrow> settings e' = settings e)"

lemma vpl_lawsD:
  "vpl_laws V settings \<Longrightarrow> vl_encoder_new V config w = (Inr e, w') \<Longrightarrow> settings e = config"
  "vpl_laws V settings \<Longrightarrow> vl_reconfigure V p e w = (Inr (), e', w') \<Longrightarrow>
     settings e' = vpl_reconfigured p (settings e)"
  "vpl_laws V settings \<Longrightarrow> vl_encode V nv12 v t e w = (r, e', w') \<Longrightarrow> settings e' = settings e"
  unfolding vpl_laws_def by blast+

definition vpl_config_for ::
    "'a \<Rightarrow> video_codec_type \<Rightarrow> u32 \<Rightarrow> u32 \<Rightarrow> u32 \<Rightarrow> u32 \<Rightarrow> 'a vpl_encoder_config" where
  "vpl_config_for adapter T = vpl_encoder_config adapter T (the (vpl_encoder_codec_config T))"

interpretation vpl_backend: hw_backend "vpl_laws V settings"
    "vpl_rebuild_encoder V :: ('enc, 'cb, 'a) vpl_encoder \<Rightarrow> _" "vpl_reconfigure_encoder V" settings
    "vpl_config_for adapter T" T "\<lparr>he_adapter = adapter\<rparr>"
  for V :: "('i, 'a, 'enc, 'dec, 'w, 'e) vpl_lib" and settings adapter T
proof
  fix s :: "('enc, 'cb, 'a) vpl_encoder" and w u s' w'
  assume "vpl_laws V settings" "he_codec_type s = T" "hw_encoder.more s = \<lparr>he_adapter = adapter\<rparr>"
    "vpl_rebuild_encoder V s w = (Inr u, s', w')"
  then show "\<exists>e. s' = s\<lparr>he_encoder := Some e, he_rebuild_needed := False, he_reconfigure_needed := False\<rparr> \<and>
      settings e = vpl_config_for adapter T (he_width s) (he_height s) (he_framerate s)
        (he_target_bitrate_bps s)"
    by (cases s) (auto simp: vpl_rebuild_encoder_def vpl_config_for_def dest: vpl_lawsD(1)
        split: if_splits option.splits prod.splits sum.splits)
next
  show "vpl_rebuild_encoder V s w = (Inl err, s', w') \<Longrightarrow> s' = s" for s :: "('enc, 'cb, 'a) vpl_encoder" and w err s' w'
    by (auto simp: vpl_rebuild_encoder_def split: if_splits option.splits prod.splits sum.splits)
next
  show "\<exists>e'. s' = s\<lparr>he_encoder := Some e', he_reconfigure_needed := False\<rparr> \<and>
      settings e' = vpl_config_for adapter T wd ht (he_framerate s) (he_target_bitrate_bps s)"
    if "vpl_laws V settings" "he_encoder s = Some e" "settings e = vpl_config_for adapter T wd ht fps bps"
      "vpl_reconfigure_encoder V s w = (Inr u, s', w')"
    for s :: "('enc, 'cb, 'a) vpl_encoder" and e wd ht fps bps w u s' w'
    using that
    by (auto simp: vpl_reconfigure_encoder_def vpl_config_for_def vpl_encoder_config_def
        vpl_reconfigured_def dest!: vpl_lawsD(2) split: prod.splits sum.splits)
next
  show "vpl_reconfigure_encoder V s w = (Inl err, s', w') \<Longrightarrow> \<exists>e'. s' = s\<lparr>he_encoder := e'\<rparr>"
    for s :: "('enc, 'cb, 'a) vpl_encoder" and w err s' w'
    by (auto simp: vpl_reconfigure_encoder_def split: option.splits prod.splits sum.splits)
      (metis hw_encoder.surjective hw_encoder.update_convs(1))
qed

text \<open>A frame is encoded with its size, the rates asked for last, its own times and the frame type asked for.\<close>

definition vpl_expected ::
    "('i, 'a, 'enc, 'dec, 'w, 'e) vpl_lib \<Rightarrow> ('enc \<Rightarrow> 'a vpl_encoder_config) \<Rightarrow> 'a \<Rightarrow> video_codec_type \<Rightarrow>
       u32 \<times> u32 \<Rightarrow> 'i raw_frame \<Rightarrow> video_frame_type list option \<Rightarrow> 'enc vpl_input \<Rightarrow> bool" where
  "vpl_expected V settings adapter T r frame frame_types h \<longleftrightarrow>
     (case h of (enc, nv12, v, force_frame_type) \<Rightarrow>
        settings enc = vpl_config_for adapter T (u32_of_size (rf_width frame)) (u32_of_size (rf_height frame))
          (fst r) (snd r) \<and>
        v = value_of_frame frame \<and>
        force_frame_type = vpl_force_frame_type (vl_frame_type V) T (requested_frame_type frame_types))"

interpretation vpl: hw_codec "vpl_laws V settings"
    "vpl_rebuild_encoder V :: ('enc, 'cb, 'a) vpl_encoder \<Rightarrow> _" "vpl_reconfigure_encoder V" settings
    "vpl_config_for adapter T" T "\<lparr>he_adapter = adapter\<rparr>" "hw_release (vl_drop_encoder V)" False
    "vpl_encode_ready V" "vpl_expected V settings adapter T"
  for V :: "('i, 'a, 'enc, 'dec, 'w, 'e) vpl_lib" and settings adapter T
proof
  fix r frame types w st handed w'
  fix s s' :: "('enc, 'cb, 'a) vpl_encoder" and e
  let ?current = "hw_current settings (vpl_config_for adapter T) T \<lparr>he_adapter = adapter\<rparr> r"
  assume laws: "vpl_laws V settings" and current: "?current s" and e: "he_encoder s = Some e"
    "settings e = vpl_config_for adapter T (u32_of_size (rf_width frame)) (u32_of_size (rf_height frame))
      (fst r) (snd r)"
    and run: "vpl_encode_ready V frame (requested_frame_type types) s w = Some ((st, handed), s', w')"
  show "?current s' \<and> (\<forall>h. handed = Some h \<longrightarrow> vpl_expected V settings adapter T r frame types h)"
  proof (cases handed)
    case None
    with run current show ?thesis
      by (auto simp: vpl_encode_ready_def Let_def split: option.splits prod.splits)
  next
    case (Some h)
    let ?t = "vpl_force_frame_type (vl_frame_type V) T (requested_frame_type types)"
    from Some run e(1) current obtain nv12 r' e' where h: "h = (e, nv12, value_of_frame frame, ?t)"
      and s': "s' = s\<lparr>he_encoder := Some e'\<rparr>"
      and enc: "vl_encode V nv12 (value_of_frame frame) ?t e w = (r', e', w')"
      by (auto simp: vpl_encode_ready_def hw_current_def Let_def split: option.splits prod.splits)
    with Some e(2) hw_current_encoder [OF current e(1) vpl_lawsD(3) [OF laws enc]] show ?thesis
      by (simp add: vpl_expected_def)
  qed
qed (rule hw_current_release)

text \<open>
  Fact. VPL encodes as it was asked to: after any calls, unless an \<^verbatim>\<open>init_encode\<close> failed, every
  frame is handed to a native encoder that was built for the size of the frame and has the frame rate
  and bit rate asked for last, with the times and the size of the frame, and forced to be a key frame
  exactly when one was asked for.
\<close>

theorem vpl_encodes_as_requested:
  assumes "vpl_laws V settings"
    and "run_calls (vpl_step V) calls (vpl_encoder_new adapter T) w = Some (trace, s, w')"
    and "\<forall>x \<in> set trace. \<not> init_failed x"
    and "trace = before @ (c, status, Some h) # after"
  shows "\<exists>frame types. c = EncodeFrame frame types \<and>
    vpl_expected V settings adapter T (requested_rates T (map fst before)) frame types h"
  unfolding requested_rates_def fold_map
  by (rule vpl.served.run_expected [OF assms(1) vpl.served.fresh
        assms(2) [unfolded vpl_step_def vpl_encode_def vpl_encoder_new_def] assms(3,4)])

lemma vpl_step_returns:
  assumes "\<And>width height n. vl_nv12_frame_size V width height = Some n \<Longrightarrow>
    unat width * unat height \<le> unat n"
  shows "\<exists>res. vpl_step V c s w = Some res"
proof -
  have "vpl_nv12 V enc i420 width height \<noteq> None" for enc i420 width height
  proof -
    obtain cw ch where size: "vl_coded_size V enc = (cw, ch)" by (cases "vl_coded_size V enc")
    have "unat (cw * ch) = unat cw * unat ch" if "unat cw * unat ch < 2 ^ 64"
      using that by (simp add: unat_word_ariths)
    with assms [of cw ch] show ?thesis
      by (auto simp: vpl_nv12_def vpl_layout_def size bind_eq_Some_conv split: option.splits if_splits
          dest!: leD)
  qed
  then have "vpl_encode_ready V frame types s w \<noteq> None" for frame types s w
    by (auto simp: vpl_encode_ready_def Let_def split: option.splits prod.splits) (metis option.distinct(1))
  then show ?thesis
    by (auto simp: vpl_step_def hw_step_def vpl_encode_def hw_encode_def Let_def split: encoder_call.split prod.splits sum.splits)
qed

text \<open>
  Fact. The encoder never panics: for a frame size of NV12 that holds at least the luma plane,
  any calls from any state return.
\<close>

theorem vpl_calls_return:
  assumes "\<And>width height n. vl_nv12_frame_size V width height = Some n \<Longrightarrow>
    unat width * unat height \<le> unat n"
  shows "\<exists>res. run_calls (vpl_step V) calls s w = Some res"
proof (induction calls arbitrary: s w)
  case (Cons c calls)
  from vpl_step_returns [OF assms] obtain result s1 w1 where "vpl_step V c s w = Some (result, s1, w1)"
    by (metis prod_cases3)
  with Cons.IH [of s1 w1] show ?case by auto
qed simp

subsection \<open>An example\<close>

text \<open>
  A native encoder that is its settings, in a world that counts down the encoders that can still be
  built.
\<close>

definition example_vpl :: "(unit, nat, nat vpl_encoder_config, unit, nat, unit) vpl_lib" where
  "example_vpl =
     \<lparr>vl_frame_type = \<lparr>ft_unknown = 0, ft_i = 1, ft_ref = 64, ft_idr = 128\<rparr>,
      vl_encoder_new = (\<lambda>config n. if n = 0 then (Inl (), n) else (Inr config, n - 1)),
      vl_reconfigure = (\<lambda>p enc n. (Inr (), vpl_reconfigured p enc, n)),
      vl_coded_size = (\<lambda>enc. (ucast (ve_width enc), ucast (ve_height enc))),
      vl_nv12_frame_size = (\<lambda>width height.
        let n = unat width * unat height
        in if n < 2 ^ 62 then Some (of_nat (n + 2 * (n div 4))) else None),
      vl_encode = (\<lambda>nv12 v t enc n. (Inr (), enc, n)), vl_drop_encoder = (\<lambda>enc n. n),
      vl_i420_to_nv12 = (\<lambda>i420 y sy uv suv width height. Some (y, uv)),
      vl_decoder_new = (\<lambda>config n. (Inr (), n)), vl_decode = (\<lambda>data v d n. (Inr (), d, n)),
      vl_drop_decoder = (\<lambda>d n. n), vl_nv12_copy = (\<lambda>y sy uv suv width height. Some (y @ uv))\<rparr>"

lemma example_vpl_laws: "vpl_laws example_vpl id"
  by (auto simp: vpl_laws_def example_vpl_def split: if_splits)

definition example_handed :: "nat vpl_encoder_config vpl_input" where
  "example_handed =
     (vpl_config_for 7 H264 4 2 29 300000, replicate 12 0,
      \<lparr>cv_rtp_timestamp = 90, cv_frame_width = 4, cv_frame_height = 2\<rparr>, 193)"

definition example_ready :: "(nat vpl_encoder_config, unit, nat) vpl_encoder" where
  "example_ready =
     \<lparr>he_encoder = Some (vpl_config_for 7 H264 4 2 30 800000), he_callback = Some (),
      he_codec_type = H264, he_width = 4, he_height = 2, he_framerate = 29,
      he_target_bitrate_bps = 300000, he_rebuild_needed = False, he_reconfigure_needed = True,
      he_adapter = 7\<rparr>"

lemma example_vpl_starts:
  "run_calls (vpl_step example_vpl) example_calls (vpl_encoder_new 7 H264) 1 =
     Some (map (\<lambda>c. (c, StatusOk, None)) example_calls, example_ready, 0)"
  by (simp add: example_calls_def vpl_step_def hw_step_def hw_register_callback_def vpl_encoder_new_def
      hw_encoder_new_def hw_encoder.extend_def hw_init_encode_def example_hd_def take_settings_def
      vpl_rebuild_encoder_def u32_of_size_def vpl_encoder_codec_config_def vpl_config_for_def
      hw_set_rates_def example_ready_def example_rates drop_encoder_def example_vpl_def
      del: f64_max.simps f64_as_u32.simps)

lemma example_vpl_encodes:
  "\<exists>s. vpl_step example_vpl (EncodeFrame (example_raw 4 2) (Some [FrameKey])) example_ready 0 =
     Some ((StatusOk, Some example_handed), s, 0)"
  by (simp add: vpl_step_def hw_step_def vpl_encode_def hw_encode_def value_of_frame_def example_raw_def u32_of_size_def
      note_size_def ready_encoder_def vpl_reconfigure_encoder_def example_ready_def
      vpl_encode_ready_def try_i32_def I32_MAX_def vpl_nv12_def vpl_layout_def
      vpl_force_frame_type_def requested_frame_type_def vpl_reconfigured_def vpl_config_for_def
      vpl_encoder_config_def example_handed_def example_vpl_def)
    (simp flip: replicate_add)

theorem vpl_encodes_as_requested_witness:
  "requested_rates H264 example_calls = (29, 300000) \<and>
    vpl_expected example_vpl id 7 H264 (29, 300000) (example_raw 4 2) (Some [FrameKey]) example_handed"
proof -
  let ?call = "EncodeFrame (example_raw 4 2) (Some [FrameKey])"
  obtain s where "run_calls (vpl_step example_vpl) (example_calls @ [?call]) (vpl_encoder_new 7 H264) 1 =
      Some (map (\<lambda>c. (c, StatusOk, None)) example_calls @ [(?call, StatusOk, Some example_handed)], s, 0)"
    using run_calls_snoc [OF example_vpl_starts] example_vpl_encodes by blast
  from vpl_encodes_as_requested [OF example_vpl_laws this _ refl] example_requested show ?thesis
    by (auto simp: example_calls_def comp_def)
qed

theorem vpl_calls_return_witness:
  "\<exists>res. run_calls (vpl_step example_vpl) example_calls (vpl_encoder_new 7 H264) 1 = Some res"
proof (rule vpl_calls_return)
  fix width height n
  assume "vl_nv12_frame_size example_vpl width height = Some n"
  then obtain k where "n = of_nat (k + 2 * (k div 4))" "k < 2 ^ 62" "k = unat width * unat height"
    by (auto simp: example_vpl_def Let_def split: if_splits)
  moreover have "unat (of_nat (k + 2 * (k div 4)) :: u64) = k + 2 * (k div 4)"
    using \<open>k < 2 ^ 62\<close> by (simp add: unsigned_of_nat take_bit_nat_eq_self del: of_nat_add of_nat_mult)
  ultimately show "unat width * unat height \<le> unat n" by simp
qed

text \<open>
  Why a failed \<^verbatim>\<open>init_encode\<close> is left out: it takes the new size but keeps the old native encoder
  without a rebuild being due, so a frame of the new size is handed to an encoder of the old size.
\<close>

definition example_restart :: "(unit raw_frame, unit) encoder_call list" where
  "example_restart =
     [RegisterCallback (Some ()), InitEncode (example_hd H264 4 2), InitEncode (example_hd H264 4 4)]"

lemma example_vpl_restarts:
  "run_calls (vpl_step example_vpl) example_restart (vpl_encoder_new 7 H264) 1 =
     Some (zip example_restart [(StatusOk, None), (StatusOk, None), (StatusError, None)],
       example_ready\<lparr>he_height := 4, he_framerate := 30, he_target_bitrate_bps := 800000,
         he_reconfigure_needed := False\<rparr>, 0)"
  by (simp add: example_restart_def vpl_step_def hw_step_def hw_register_callback_def vpl_encoder_new_def
      hw_encoder_new_def hw_encoder.extend_def hw_init_encode_def example_hd_def take_settings_def
      vpl_rebuild_encoder_def u32_of_size_def vpl_encoder_codec_config_def vpl_config_for_def
      example_ready_def example_rates drop_encoder_def example_vpl_def)

lemma vpl_failed_init_is_stale:
  "\<exists>trace enc v s w. run_calls (vpl_step example_vpl) (example_restart @ [EncodeFrame (example_raw 4 4) None])
      (vpl_encoder_new 7 H264) 1 = Some (trace, s, w) \<and>
    last trace = (EncodeFrame (example_raw 4 4) None, StatusOk, Some (enc, replicate 12 0, v, 0)) \<and>
    ve_height enc = 2 \<and> cv_frame_height v = 4"
proof -
  have "\<exists>s. vpl_step example_vpl (EncodeFrame (example_raw 4 4) None)
      (example_ready\<lparr>he_height := 4, he_framerate := 30, he_target_bitrate_bps := 800000,
         he_reconfigure_needed := False\<rparr>) 0 =
    Some ((StatusOk, Some (vpl_config_for 7 H264 4 2 30 800000, replicate 12 0,
      \<lparr>cv_rtp_timestamp = 90, cv_frame_width = 4, cv_frame_height = 4\<rparr>, 0)), s, 0)"
    by (simp add: vpl_step_def hw_step_def vpl_encode_def hw_encode_def value_of_frame_def example_raw_def u32_of_size_def
        note_size_def ready_encoder_def example_ready_def vpl_encode_ready_def try_i32_def I32_MAX_def
        vpl_nv12_def vpl_layout_def vpl_force_frame_type_def requested_frame_type_def
        vpl_config_for_def vpl_encoder_config_def example_vpl_def)
      (simp flip: replicate_add)
  from run_calls_snoc [OF example_vpl_restarts] this show ?thesis
    by (force simp: vpl_config_for_def vpl_encoder_config_def)
qed

end
