(* ===== verification/Amf.thy ===== *)
theory Amf
  imports Hw_Codec
begin

text \<open>
  \<^verbatim>\<open>src/video_codecs/amf.rs\<close>: the encoder, the decoder and the capability of AMD AMF, over the
  crate \<^verbatim>\<open>shiguredo_amf\<close>, which is the record \<open>amf_lib\<close>. A surface of the native encoder is
  \<open>'s\<close> and a buffer of the native decoder \<open>'b\<close>. \<^verbatim>\<open>usize\<close> is 64 bits wide and an
  \<^verbatim>\<open>i32\<close> is an integer; a negative pitch widens as a two's complement number.
\<close>

subsection \<open>Codecs and rates\<close>

datatype amf_codec_config = AmfH264 | AmfHevc | AmfAv1

datatype amf_decoder_codec = AmfDecodeH264 | AmfDecodeHevc | AmfDecodeAv1

definition amf_encoder_codec_config :: "video_codec_type \<Rightarrow> amf_codec_config option" where
  "amf_encoder_codec_config codec_type =
     (case codec_type of
        H264 \<Rightarrow> Some AmfH264
      | H265 \<Rightarrow> Some AmfHevc
      | Av1 \<Rightarrow> Some AmfAv1
      | _ \<Rightarrow> None)"

definition amf_decoder_codec :: "video_codec_type \<Rightarrow> amf_decoder_codec option" where
  "amf_decoder_codec codec_type =
     (case codec_type of
        H264 \<Rightarrow> Some AmfDecodeH264
      | H265 \<Rightarrow> Some AmfDecodeHevc
      | Av1 \<Rightarrow> Some AmfDecodeAv1
      | _ \<Rightarrow> None)"

definition amf_force_frame_type :: "frame_type_bits \<Rightarrow> video_frame_type option \<Rightarrow> u16" where
  "amf_force_frame_type F wanted =
     (if wanted = Some FrameKey then ft_idr F OR ft_i F OR ft_ref F else ft_unknown F)"

definition frame_type_from_amf :: "picture_type \<Rightarrow> video_frame_type" where
  "frame_type_from_amf picture_type = (if picture_type = PicIdr then FrameKey else FrameDelta)"

record amf_reconfigure_params =
  ar_framerate_num :: "u32 option"
  ar_framerate_den :: "u32 option"
  ar_target_kbps :: "u32 option"

definition amf_reconfigure_params_for :: "u32 \<Rightarrow> u32 \<Rightarrow> amf_reconfigure_params" where
  "amf_reconfigure_params_for target_bitrate_bps framerate =
     \<lparr>ar_framerate_num = Some (max framerate 1), ar_framerate_den = Some 1,
      ar_target_kbps = Some (target_kbps_from_bps target_bitrate_bps)\<rparr>"

subsection \<open>The encoder\<close>

record amf_encoder_config =
  ae_codec :: amf_codec_config
  ae_width :: u32
  ae_height :: u32
  ae_framerate_num :: u32
  ae_framerate_den :: u32
  ae_target_kbps :: "u32 option"

text \<open>A plane of a surface: its size, its pitch and, for a decoded surface, its bytes.\<close>

record amf_plane =
  ap_width :: int
  ap_height :: int
  ap_hpitch :: int
  ap_bytes :: bytes

record ('i, 's, 'b, 'enc, 'dec, 'w, 'e) amf_lib =
  al_frame_type :: frame_type_bits
  al_encoder_new :: "amf_encoder_config \<Rightarrow> 'w \<Rightarrow> ('e + 'enc) \<times> 'w"
  al_reconfigure :: "amf_reconfigure_params \<Rightarrow> 'enc \<Rightarrow> 'w \<Rightarrow> ('e + unit) \<times> 'enc \<times> 'w"
  al_alloc_surface :: "'enc \<Rightarrow> 'w \<Rightarrow> ('e + 's) \<times> 'w"
  al_plane :: "'s \<Rightarrow> nat \<Rightarrow> 'e + amf_plane"
  al_i420_to_nv12 :: "'i \<Rightarrow> 's \<Rightarrow> u64 \<Rightarrow> int \<Rightarrow> u64 \<Rightarrow> int \<Rightarrow> int \<Rightarrow> int \<Rightarrow> 's option"
  al_encode :: "'s \<Rightarrow> u16 \<Rightarrow> callback_value \<Rightarrow> 'enc \<Rightarrow> 'w \<Rightarrow> ('e + unit) \<times> 'enc \<times> 'w"
  al_drop_encoder :: "'enc \<Rightarrow> 'w \<Rightarrow> 'w"
  al_decoder_new :: "amf_decoder_codec \<Rightarrow> 'w \<Rightarrow> ('e + 'dec) \<times> 'w"
  al_alloc_buffer :: "nat \<Rightarrow> 'dec \<Rightarrow> 'w \<Rightarrow> ('e + 'b) \<times> 'w"
  al_buffer_size :: "'b \<Rightarrow> u64"
  al_buffer_fill :: "bytes \<Rightarrow> 'b \<Rightarrow> 'b"
  al_decode :: "'b \<Rightarrow> decode_value \<Rightarrow> 'dec \<Rightarrow> 'w \<Rightarrow> ('e + unit) \<times> 'dec \<times> 'w"
  al_drop_decoder :: "'dec \<Rightarrow> 'w \<Rightarrow> 'w"
  al_nv12_copy :: "bytes \<Rightarrow> int \<Rightarrow> bytes \<Rightarrow> int \<Rightarrow> int \<Rightarrow> int \<Rightarrow> bytes option"

type_synonym ('enc, 'cb) amf_encoder = "('enc, 'cb) hw_encoder"

definition amf_encoder_config_for ::
    "amf_codec_config \<Rightarrow> u32 \<Rightarrow> u32 \<Rightarrow> u32 \<Rightarrow> u32 \<Rightarrow> amf_encoder_config" where
  "amf_encoder_config_for codec_config width height framerate target_bitrate_bps =
     \<lparr>ae_codec = codec_config, ae_width = width, ae_height = height,
      ae_framerate_num = max framerate 1, ae_framerate_den = 1,
      ae_target_kbps = Some (target_kbps_from_bps target_bitrate_bps)\<rparr>"

definition amf_rebuild_encoder ::
    "('i, 's, 'b, 'enc, 'dec, 'w, 'e) amf_lib \<Rightarrow> ('enc, 'cb) amf_encoder \<Rightarrow> 'w \<Rightarrow>
       ('e codec_error + unit) \<times> ('enc, 'cb) amf_encoder \<times> 'w" where
  "amf_rebuild_encoder A s w =
     (if he_width s = 0 \<or> he_height s = 0 then
        (Inl (CodecMessage ''AMF encoder requires non-zero width and height''), s, w)
      else case amf_encoder_codec_config (he_codec_type s) of
        None \<Rightarrow> (Inl (CodecMessage ''AMF encoder codec type is not supported''), s, w)
      | Some codec_config \<Rightarrow>
          (case al_encoder_new A
              (amf_encoder_config_for codec_config (he_width s) (he_height s) (he_framerate s)
                (he_target_bitrate_bps s)) w of
             (Inl err, w) \<Rightarrow> (Inl (CodecFailed err), s, w)
           | (Inr enc, w) \<Rightarrow>
               (Inr (), s\<lparr>he_encoder := Some enc, he_rebuild_needed := False, he_reconfigure_needed := False\<rparr>,
                drop_encoder (al_drop_encoder A) s w)))"

definition amf_reconfigure_encoder ::
    "('i, 's, 'b, 'enc, 'dec, 'w, 'e) amf_lib \<Rightarrow> ('enc, 'cb) amf_encoder \<Rightarrow> 'w \<Rightarrow>
       ('e codec_error + unit) \<times> ('enc, 'cb) amf_encoder \<times> 'w" where
  "amf_reconfigure_encoder A s w =
     (case he_encoder s of
        None \<Rightarrow> (Inl (CodecMessage ''AMF encoder instance is not initialized''), s, w)
      | Some enc \<Rightarrow>
          (case al_reconfigure A
              (amf_reconfigure_params_for (he_target_bitrate_bps s) (he_framerate s)) enc w of
             (Inl err, enc, w) \<Rightarrow> (Inl (CodecFailed err), s\<lparr>he_encoder := Some enc\<rparr>, w)
           | (Inr _, enc, w) \<Rightarrow>
               (Inr (), s\<lparr>he_encoder := Some enc, he_reconfigure_needed := False\<rparr>, w)))"

text \<open>\<^verbatim>\<open>(pitch as usize).checked_mul(rows)\<close> for an \<^verbatim>\<open>i32\<close> pitch.\<close>

definition plane_size :: "int \<Rightarrow> u64 \<Rightarrow> u64 option" where
  "plane_size pitch rows =
     (let p = (word_of_int pitch :: u64)
      in if unat p * unat rows < 2 ^ 64 then Some (p * rows) else None)"

text \<open>\<^verbatim>\<open>(height as usize).div_ceil(2)\<close>\<close>

definition chroma_rows :: "u64 \<Rightarrow> u64" where
  "chroma_rows height = (if height mod 2 > 0 then height div 2 + 1 else height div 2)"

text \<open>
  A surface with the picture: the planes of a new surface must have the height of the frame, and the
  sizes of the destination slices are those of the planes.
\<close>

definition amf_fill_surface ::
    "('i, 's, 'b, 'enc, 'dec, 'w, 'e) amf_lib \<Rightarrow> 'i \<Rightarrow> callback_value \<Rightarrow> int \<Rightarrow> int \<Rightarrow> 's \<Rightarrow>
       video_codec_status + 's" where
  "amf_fill_surface A i420 v width height surface =
     (case (al_plane A surface 0, al_plane A surface 1) of
        (Inr plane_y, Inr plane_uv) \<Rightarrow>
          (let surface_height = ap_height plane_y in
           if surface_height < 0 \<or> word_of_int surface_height \<noteq> cv_frame_height v then Inl StatusError
           else let rows = (word_of_int surface_height :: u64) in
             (case (plane_size (ap_hpitch plane_y) rows, plane_size (ap_hpitch plane_uv) (chroma_rows rows)) of
                (Some y_size, Some uv_size) \<Rightarrow>
                  ok_or StatusError (al_i420_to_nv12 A i420 surface y_size (ap_hpitch plane_y) uv_size
                    (ap_hpitch plane_uv) width height)
              | _ \<Rightarrow> Inl StatusErrParameter))
      | _ \<Rightarrow> Inl StatusError)"

type_synonym ('enc, 's) amf_input = "'enc \<times> 's \<times> u16 \<times> callback_value"

definition amf_encode_ready ::
    "('i, 's, 'b, 'enc, 'dec, 'w, 'e) amf_lib \<Rightarrow> 'i raw_frame \<Rightarrow> video_frame_type option \<Rightarrow>
       ('enc, 'cb) amf_encoder \<Rightarrow> 'w \<Rightarrow>
       (video_codec_status \<times> ('enc, 's) amf_input option) \<times> ('enc, 'cb) amf_encoder \<times> 'w" where
  "amf_encode_ready A frame wanted s w =
     (let v = value_of_frame frame in
      case (rf_i420 frame, try_i32 (uint (cv_frame_width v)), try_i32 (uint (cv_frame_height v)), he_encoder s) of
        (Some i420, Some width, Some height, Some enc) \<Rightarrow>
          (case al_alloc_surface A enc w of
             (Inl _, w) \<Rightarrow> ((StatusError, None), s, w)
           | (Inr surface, w) \<Rightarrow>
               (case amf_fill_surface A i420 v width height surface of
                  Inl status \<Rightarrow> ((status, None), s, w)
                | Inr surface \<Rightarrow>
                    let options = amf_force_frame_type (al_frame_type A) wanted;
                        (result, enc', w) = al_encode A surface options v enc w
                    in ((if result = Inr () then StatusOk else StatusError, Some (enc, surface, options, v)),
                        s\<lparr>he_encoder := Some enc'\<rparr>, w)))
      | _ \<Rightarrow> ((StatusError, None), s, w))"

definition amf_encode ::
    "('i, 's, 'b, 'enc, 'dec, 'w, 'e) amf_lib \<Rightarrow> 'i raw_frame \<Rightarrow> video_frame_type list option \<Rightarrow>
       ('enc, 'cb) amf_encoder \<Rightarrow> 'w \<Rightarrow>
       ((video_codec_status \<times> ('enc, 's) amf_input option) \<times> ('enc, 'cb) amf_encoder \<times> 'w) option" where
  "amf_encode A =
     hw_encode (amf_rebuild_encoder A) (amf_reconfigure_encoder A) True
       (\<lambda>frame wanted s w. Some (amf_encode_ready A frame wanted s w))"

definition amf_release ::
    "('i, 's, 'b, 'enc, 'dec, 'w, 'e) amf_lib \<Rightarrow> ('enc, 'cb) amf_encoder \<Rightarrow> 'w \<Rightarrow>
       video_codec_status \<times> ('enc, 'cb) amf_encoder \<times> 'w" where
  "amf_release A s w =
     (case hw_release (al_drop_encoder A) s w of (st, s, w) \<Rightarrow>
        (st, s\<lparr>he_rebuild_needed := False, he_reconfigure_needed := False\<rparr>, w))"

definition amf_step ::
    "('i, 's, 'b, 'enc, 'dec, 'w, 'e) amf_lib \<Rightarrow> ('i raw_frame, 'cb) encoder_call \<Rightarrow>
       ('enc, 'cb) amf_encoder \<Rightarrow> 'w \<Rightarrow>
       ((video_codec_status \<times> ('enc, 's) amf_input option) \<times> ('enc, 'cb) amf_encoder \<times> 'w) option" where
  "amf_step A = hw_step (amf_rebuild_encoder A) (amf_release A) (amf_encode A)"

definition handle_amf_encode_callback ::
    "'cb option \<Rightarrow> 'e + encoded_output \<Rightarrow> video_codec_type \<Rightarrow>
       ('cb \<times> encoded_image \<times> codec_specific_info) option" where
  "handle_amf_encode_callback callback result codec_type =
     (case result of
        Inl err \<Rightarrow> None
      | Inr encoded \<Rightarrow> map_option (\<lambda>callback.
          (callback, image_of_output (frame_type_from_amf (eo_picture_type encoded)) encoded,
           h264_info codec_type (eo_picture_type encoded))) callback)"

subsection \<open>The decoder\<close>

type_synonym ('dec, 'cb) amf_decoder = "('dec, 'cb) hw_decoder"

definition amf_rebuild_decoder ::
    "('i, 's, 'b, 'enc, 'dec, 'w, 'e) amf_lib \<Rightarrow> ('dec, 'cb) amf_decoder \<Rightarrow> 'w \<Rightarrow>
       ('e codec_error + unit) \<times> ('dec, 'cb) amf_decoder \<times> 'w" where
  "amf_rebuild_decoder A s w =
     (case amf_decoder_codec (hd_codec_type s) of
        None \<Rightarrow> (Inl (CodecMessage ''AMF decoder codec type is not supported''), s, w)
      | Some codec \<Rightarrow>
          (case al_decoder_new A codec w of
             (Inl err, w) \<Rightarrow> (Inl (CodecFailed err), s, w)
           | (Inr d, w) \<Rightarrow>
               (Inr (), s\<lparr>hd_decoder := Some d\<rparr>, drop_decoder (al_drop_decoder A) s w)))"

definition amf_configure ::
    "('i, 's, 'b, 'enc, 'dec, 'w, 'e) amf_lib \<Rightarrow> video_codec_type \<Rightarrow> ('dec, 'cb) amf_decoder \<Rightarrow> 'w \<Rightarrow>
       bool \<times> ('dec, 'cb) amf_decoder \<times> 'w" where
  "amf_configure A = hw_configure (amf_rebuild_decoder A)"

text \<open>The data is copied into a buffer of the decoder that must be large enough.\<close>

definition amf_decode_data ::
    "('i, 's, 'b, 'enc, 'dec, 'w, 'e) amf_lib \<Rightarrow> bytes \<Rightarrow> decode_value \<Rightarrow> ('dec, 'cb) amf_decoder \<Rightarrow> 'w \<Rightarrow>
       video_codec_status \<times> ('dec, 'cb) amf_decoder \<times> 'w" where
  "amf_decode_data A data v s w =
     (case hd_decoder s of
        None \<Rightarrow> (StatusError, s, w)
      | Some d \<Rightarrow>
          (case al_alloc_buffer A (length data) d w of
             (Inl _, w) \<Rightarrow> (StatusError, s, w)
           | (Inr buffer, w) \<Rightarrow>
               if unat (al_buffer_size A buffer) < length data then (StatusError, s, w)
               else let (result, d, w) = al_decode A (al_buffer_fill A data buffer) v d w
                 in (if result = Inr () then StatusOk else StatusError, s\<lparr>hd_decoder := Some d\<rparr>, w)))"

definition amf_decode ::
    "('i, 's, 'b, 'enc, 'dec, 'w, 'e) amf_lib \<Rightarrow> input_image \<Rightarrow> int \<Rightarrow> ('dec, 'cb) amf_decoder \<Rightarrow> 'w \<Rightarrow>
       video_codec_status \<times> ('dec, 'cb) amf_decoder \<times> 'w" where
  "amf_decode A input render_time_ms s w =
     (if hd_callback s = None then (StatusUninitialized, s, w)
      else case ig_data input of
        None \<Rightarrow> (StatusErrParameter, s, w)
      | Some data \<Rightarrow>
          (case ensure_decoder (amf_rebuild_decoder A) s w of
             (Inl _, s, w) \<Rightarrow> (StatusError, s, w)
           | (Inr _, s, w) \<Rightarrow> amf_decode_data A data
               \<lparr>dv_rtp_timestamp = ig_rtp_timestamp input, dv_render_time_ms = render_time_ms\<rparr> s w))"

text \<open>
  A decoded surface: the slices of its planes have the sizes that are computed, \<open>ap_bytes\<close> being what
  the memory of a plane begins with.
\<close>

definition handle_amf_decode_callback ::
    "('i, 's, 'b, 'enc, 'dec, 'w, 'e) amf_lib \<Rightarrow> 'cb option \<Rightarrow> 'e + 's \<times> decode_value \<Rightarrow>
       ('cb \<times> decoded_frame) option" where
  "handle_amf_decode_callback A callback result =
     do { (surface, v) \<leftarrow> ok_opt result;
          plane_y \<leftarrow> ok_opt (al_plane A surface 0);
          plane_uv \<leftarrow> ok_opt (al_plane A surface 1);
          let height = (word_of_int (ap_height plane_y) :: u64);
          y_size \<leftarrow> plane_size (ap_hpitch plane_y) height;
          uv_size \<leftarrow> plane_size (ap_hpitch plane_uv) (chroma_rows height);
          decoded \<leftarrow> decoded_nv12 (al_nv12_copy A)
            (take (unat y_size) (ap_bytes plane_y)) (ap_hpitch plane_y)
            (take (unat uv_size) (ap_bytes plane_uv)) (ap_hpitch plane_uv)
            (ap_width plane_y) (ap_height plane_y) v;
          callback \<leftarrow> callback;
          Some (callback, decoded) }"

subsection \<open>The capability\<close>

datatype amf_codec_type = AmfTypeH264 | AmfTypeHevc | AmfTypeAv1

fun amf_webrtc_type :: "amf_codec_type \<Rightarrow> video_codec_type" where
  "amf_webrtc_type AmfTypeH264 = H264"
| "amf_webrtc_type AmfTypeHevc = H265"
| "amf_webrtc_type AmfTypeAv1 = Av1"

definition amf_collect_supported_formats ::
    "amf_codec_type codec_support list \<Rightarrow> sdp_format list \<times> sdp_format list" where
  "amf_collect_supported_formats infos = formats_of_support (Some \<circ> amf_webrtc_type) infos"

text \<open>The encoder of AV1 is behind an adapter that crops frames to its alignment of 64 by 16.\<close>

datatype ('enc, 'cb) amf_built_encoder =
    AmfPlain "('enc, 'cb) amf_encoder"
  | AmfAligned "('enc, 'cb) amf_encoder alignment_adapter"

definition amf_build_encoder :: "video_codec_type \<Rightarrow> ('enc, 'cb) amf_built_encoder" where
  "amf_build_encoder codec_type =
     (let encoder = hw_encoder_new codec_type
      in if codec_type = Av1 then AmfAligned (adapter_new encoder Av1 64 16) else AmfPlain encoder)"

definition amf_new_with_formats ::
    "webrtc \<Rightarrow> (sdp_format list \<Rightarrow> (sdp_format \<Rightarrow> ('enc, 'cb) amf_built_encoder option) \<Rightarrow>
         sdp_format \<Rightarrow> ('enc, 'cb) amf_built_encoder option) \<Rightarrow> sdp_format list \<Rightarrow> sdp_format list \<Rightarrow>
       (('enc, 'cb) amf_built_encoder, ('dec, 'db) amf_decoder) video_capability" where
  "amf_new_with_formats W simulcast encoder_formats decoder_formats =
     backend_capability W simulcast \<lparr>vi_name = ''amf'', vi_description = ''AMD AMF''\<rparr>
       (\<lambda>direction. case direction of Encoder \<Rightarrow> encoder_formats | Decoder \<Rightarrow> decoder_formats)
       (\<lambda>format. map_option amf_build_encoder (codec_type_from_format W format))
       (\<lambda>format. map_option hw_decoder_new (codec_type_from_format W format))"

definition amf_capability_new ::
    "webrtc \<Rightarrow> (sdp_format list \<Rightarrow> (sdp_format \<Rightarrow> ('enc, 'cb) amf_built_encoder option) \<Rightarrow>
         sdp_format \<Rightarrow> ('enc, 'cb) amf_built_encoder option) \<Rightarrow> amf_codec_type codec_support list \<Rightarrow>
       'e codec_error + (('enc, 'cb) amf_built_encoder, ('dec, 'db) amf_decoder) video_capability" where
  "amf_capability_new W simulcast codecs =
     (let (encoder_formats, decoder_formats) = amf_collect_supported_formats codecs
      in if encoder_formats = [] \<and> decoder_formats = [] then
           Inl (CodecMessage ''AMF does not support any encoder or decoder codec'')
         else Inr (amf_new_with_formats W simulcast encoder_formats decoder_formats))"

subsection \<open>The encoder encodes as it was asked to\<close>

definition amf_reconfigured :: "amf_reconfigure_params \<Rightarrow> amf_encoder_config \<Rightarrow> amf_encoder_config" where
  "amf_reconfigured p c =
     c\<lparr>ae_target_kbps := (case ar_target_kbps p of None \<Rightarrow> ae_target_kbps c | k \<Rightarrow> k),
       ae_framerate_num := (case ar_framerate_num p of None \<Rightarrow> ae_framerate_num c | Some n \<Rightarrow> n),
       ae_framerate_den := (case ar_framerate_den p of None \<Rightarrow> ae_framerate_den c | Some n \<Rightarrow> n)\<rparr>"

definition amf_laws ::
    "('i, 's, 'b, 'enc, 'dec, 'w, 'e) amf_lib \<Rightarrow> ('enc \<Rightarrow> amf_encoder_config) \<Rightarrow> bool" where
  "amf_laws A settings \<longleftrightarrow>
     (\<forall>config w e w'. al_encoder_new A config w = (Inr e, w') \<longrightarrow> settings e = config) \<and>
     (\<forall>p e w e' w'. al_reconfigure A p e w = (Inr (), e', w') \<longrightarrow>
       settings e' = amf_reconfigured p (settings e)) \<and>
     (\<forall>x t v e w r e' w'. al_encode A x t v e w = (r, e', w') \<longrightarrow> settings e' = settings e)"

lemma amf_lawsD:
  "amf_laws A settings \<Longrightarrow> al_encoder_new A config w = (Inr e, w') \<Longrightarrow> settings e = config"
  "amf_laws A settings \<Longrightarrow> al_reconfigure A p e w = (Inr (), e', w') \<Longrightarrow>
     settings e' = amf_reconfigured p (settings e)"
  "amf_laws A settings \<Longrightarrow> al_encode A x t v e w = (r, e', w') \<Longrightarrow> settings e' = settings e"
  unfolding amf_laws_def by blast+

definition amf_config_for :: "video_codec_type \<Rightarrow> u32 \<Rightarrow> u32 \<Rightarrow> u32 \<Rightarrow> u32 \<Rightarrow> amf_encoder_config" where
  "amf_config_for T = amf_encoder_config_for (the (amf_encoder_codec_config T))"

interpretation amf_backend: hw_backend "amf_laws A settings"
    "amf_rebuild_encoder A :: ('enc, 'cb) amf_encoder \<Rightarrow> _" "amf_reconfigure_encoder A" settings
    "amf_config_for T" T "()"
  for A :: "('i, 's, 'b, 'enc, 'dec, 'w, 'e) amf_lib" and settings T
proof
  fix s :: "('enc, 'cb) amf_encoder" and w u s' w'
  assume "amf_laws A settings" "he_codec_type s = T" "amf_rebuild_encoder A s w = (Inr u, s', w')"
  then show "\<exists>e. s' = s\<lparr>he_encoder := Some e, he_rebuild_needed := False, he_reconfigure_needed := False\<rparr> \<and>
      settings e = amf_config_for T (he_width s) (he_height s) (he_framerate s) (he_target_bitrate_bps s)"
    by (cases s) (auto simp: amf_rebuild_encoder_def amf_config_for_def dest: amf_lawsD(1)
        split: if_splits option.splits prod.splits sum.splits)
next
  show "amf_rebuild_encoder A s w = (Inl err, s', w') \<Longrightarrow> s' = s" for s :: "('enc, 'cb) amf_encoder" and w err s' w'
    by (auto simp: amf_rebuild_encoder_def split: if_splits option.splits prod.splits sum.splits)
next
  show "\<exists>e'. s' = s\<lparr>he_encoder := Some e', he_reconfigure_needed := False\<rparr> \<and>
      settings e' = amf_config_for T wd ht (he_framerate s) (he_target_bitrate_bps s)"
    if "amf_laws A settings" "he_encoder s = Some e" "settings e = amf_config_for T wd ht fps bps"
      "amf_reconfigure_encoder A s w = (Inr u, s', w')"
    for s :: "('enc, 'cb) amf_encoder" and e wd ht fps bps w u s' w'
    using that
    by (auto simp: amf_reconfigure_encoder_def amf_config_for_def amf_encoder_config_for_def
        amf_reconfigured_def amf_reconfigure_params_for_def dest!: amf_lawsD(2)
        split: prod.splits sum.splits)
next
  show "amf_reconfigure_encoder A s w = (Inl err, s', w') \<Longrightarrow> \<exists>e'. s' = s\<lparr>he_encoder := e'\<rparr>"
    for s :: "('enc, 'cb) amf_encoder" and w err s' w'
    by (auto simp: amf_reconfigure_encoder_def split: option.splits prod.splits sum.splits)
      (metis hw_encoder.surjective hw_encoder.update_convs(1))
qed

text \<open>A frame is encoded with its size, the rates asked for last, its own times and the frame type asked for.\<close>

definition amf_expected ::
    "('i, 's, 'b, 'enc, 'dec, 'w, 'e) amf_lib \<Rightarrow> ('enc \<Rightarrow> amf_encoder_config) \<Rightarrow> video_codec_type \<Rightarrow>
       u32 \<times> u32 \<Rightarrow> 'i raw_frame \<Rightarrow> video_frame_type list option \<Rightarrow> ('enc, 's) amf_input \<Rightarrow> bool" where
  "amf_expected A settings T r frame frame_types h \<longleftrightarrow>
     (case h of (enc, surface, options, v) \<Rightarrow>
        settings enc = amf_config_for T (u32_of_size (rf_width frame)) (u32_of_size (rf_height frame))
          (fst r) (snd r) \<and>
        v = value_of_frame frame \<and>
        options = amf_force_frame_type (al_frame_type A) (requested_frame_type frame_types))"

interpretation amf: hw_codec "amf_laws A settings"
    "amf_rebuild_encoder A :: ('enc, 'cb) amf_encoder \<Rightarrow> _" "amf_reconfigure_encoder A" settings
    "amf_config_for T" T "()" "amf_release A" True
    "\<lambda>frame wanted s w. Some (amf_encode_ready A frame wanted s w)" "amf_expected A settings T"
  for A :: "('i, 's, 'b, 'enc, 'dec, 'w, 'e) amf_lib" and settings T
proof
  fix r frame types w st handed w'
  fix s s' :: "('enc, 'cb) amf_encoder" and e
  let ?current = "hw_current settings (amf_config_for T) T () r"
  assume laws: "amf_laws A settings" and current: "?current s" and e: "he_encoder s = Some e"
    "settings e = amf_config_for T (u32_of_size (rf_width frame)) (u32_of_size (rf_height frame))
      (fst r) (snd r)"
    and run: "Some (amf_encode_ready A frame (requested_frame_type types) s w) = Some ((st, handed), s', w')"
  show "?current s' \<and> (\<forall>h. handed = Some h \<longrightarrow> amf_expected A settings T r frame types h)"
  proof (cases handed)
    case None
    with run current show ?thesis
      by (auto simp: amf_encode_ready_def Let_def split: option.splits prod.splits sum.splits)
  next
    case (Some h)
    let ?t = "amf_force_frame_type (al_frame_type A) (requested_frame_type types)"
    from Some run e(1) obtain surface w1 r' e' where h: "h = (e, surface, ?t, value_of_frame frame)"
      and s': "s' = s\<lparr>he_encoder := Some e'\<rparr>"
      and enc: "al_encode A surface ?t (value_of_frame frame) e w1 = (r', e', w')"
      by (auto simp: amf_encode_ready_def Let_def split: option.splits prod.splits sum.splits)
    with Some e(2) hw_current_encoder [OF current e(1) amf_lawsD(3) [OF laws enc]] show ?thesis
      by (simp add: amf_expected_def)
  qed
qed (auto simp: amf_release_def hw_release_def hw_current_def)

text \<open>
  Fact. AMF encodes as it was asked to: after any calls, unless an \<^verbatim>\<open>init_encode\<close> failed, every
  frame is handed to a native encoder that was built for the size of the frame and has the frame rate
  and bit rate asked for last, with the times and the size of the frame, and forced to be a key frame
  exactly when one was asked for.
\<close>

theorem amf_encodes_as_requested:
  assumes "amf_laws A settings"
    and "run_calls (amf_step A) calls (hw_encoder_new T) w = Some (trace, s, w')"
    and "\<forall>x \<in> set trace. \<not> init_failed x"
    and "trace = before @ (c, status, Some h) # after"
  shows "\<exists>frame types. c = EncodeFrame frame types \<and>
    amf_expected A settings T (requested_rates T (map fst before)) frame types h"
proof -
  have "run_calls (hw_step (amf_rebuild_encoder A) (amf_release A) (hw_encode (amf_rebuild_encoder A)
      (amf_reconfigure_encoder A) True (\<lambda>frame wanted s w. Some (amf_encode_ready A frame wanted s w))))
    calls (hw_encoder.extend (hw_encoder_new T) ()) w = Some (trace, s, w')"
    using assms(2) by (simp add: amf_step_def amf_encode_def hw_encoder_extend_unit)
  from amf.served.run_expected [OF assms(1) amf.served.fresh this assms(3,4)] show ?thesis
    by (simp add: requested_rates_def fold_map)
qed

subsection \<open>An example\<close>

definition example_amf :: "(unit, nat, nat, amf_encoder_config, unit, unit, unit) amf_lib" where
  "example_amf =
     \<lparr>al_frame_type = \<lparr>ft_unknown = 0, ft_i = 1, ft_ref = 64, ft_idr = 128\<rparr>,
      al_encoder_new = (\<lambda>config w. (Inr config, w)),
      al_reconfigure = (\<lambda>p enc w. (Inr (), amf_reconfigured p enc, w)),
      al_alloc_surface = (\<lambda>enc w. (Inr (unat (ae_height enc)), w)),
      al_plane = (\<lambda>height i. Inr \<lparr>ap_width = 4, ap_height = int height, ap_hpitch = 64, ap_bytes = []\<rparr>),
      al_i420_to_nv12 = (\<lambda>i420 x ny sy nuv suv width height. Some x),
      al_encode = (\<lambda>x t v enc w. (Inr (), enc, w)), al_drop_encoder = (\<lambda>enc w. w),
      al_decoder_new = (\<lambda>codec w. (Inr (), w)), al_alloc_buffer = (\<lambda>n d w. (Inr n, w)),
      al_buffer_size = of_nat, al_buffer_fill = (\<lambda>data b. b), al_decode = (\<lambda>b v d w. (Inr (), d, w)),
      al_drop_decoder = (\<lambda>d w. w), al_nv12_copy = (\<lambda>y sy uv suv width height. Some (y @ uv))\<rparr>"

lemma example_amf_laws: "amf_laws example_amf id"
  by (auto simp: amf_laws_def example_amf_def)

definition example_amf_ready :: "(amf_encoder_config, unit) amf_encoder" where
  "example_amf_ready =
     \<lparr>he_encoder = Some (amf_config_for H264 4 2 30 800000), he_callback = Some (),
      he_codec_type = H264, he_width = 4, he_height = 2, he_framerate = 29,
      he_target_bitrate_bps = 300000, he_rebuild_needed = False, he_reconfigure_needed = True\<rparr>"

definition example_amf_handed :: "(amf_encoder_config, nat) amf_input" where
  "example_amf_handed =
     (amf_config_for H264 4 2 29 300000, 2, 193,
      \<lparr>cv_rtp_timestamp = 90, cv_frame_width = 4, cv_frame_height = 2\<rparr>)"

lemma example_amf_starts:
  "run_calls (amf_step example_amf) example_calls (hw_encoder_new H264) () =
     Some (map (\<lambda>c. (c, StatusOk, None)) example_calls, example_amf_ready, ())"
  by (simp add: example_calls_def amf_step_def hw_step_def hw_register_callback_def
      hw_encoder_new_def hw_init_encode_def example_hd_def take_settings_def
      amf_rebuild_encoder_def u32_of_size_def amf_encoder_codec_config_def amf_config_for_def
      hw_set_rates_def example_amf_ready_def example_rates drop_encoder_def example_amf_def
      del: f64_max.simps f64_as_u32.simps)

lemma example_amf_encodes:
  "\<exists>s. amf_step example_amf (EncodeFrame (example_raw 4 2) (Some [FrameKey])) example_amf_ready () =
     Some ((StatusOk, Some example_amf_handed), s, ())"
  by (simp add: amf_step_def hw_step_def amf_encode_def hw_encode_def value_of_frame_def example_raw_def u32_of_size_def
      note_size_def ready_encoder_def amf_reconfigure_encoder_def example_amf_ready_def
      amf_encode_ready_def try_i32_def I32_MAX_def amf_fill_surface_def plane_size_def chroma_rows_def
      amf_force_frame_type_def requested_frame_type_def amf_reconfigured_def amf_config_for_def
      amf_reconfigure_params_for_def amf_encoder_config_for_def example_amf_handed_def example_amf_def)

theorem amf_encodes_as_requested_witness:
  "amf_expected example_amf id H264 (29, 300000) (example_raw 4 2) (Some [FrameKey]) example_amf_handed"
proof -
  let ?call = "EncodeFrame (example_raw 4 2) (Some [FrameKey])"
  obtain s where "run_calls (amf_step example_amf) (example_calls @ [?call]) (hw_encoder_new H264) () =
      Some (map (\<lambda>c. (c, StatusOk, None)) example_calls @ [(?call, StatusOk, Some example_amf_handed)], s, ())"
    using run_calls_snoc [OF example_amf_starts] example_amf_encodes by blast
  from amf_encodes_as_requested [OF example_amf_laws this _ refl] example_requested show ?thesis
    by (auto simp: example_calls_def comp_def)
qed

end
