(* ===== verification/Nvcodec.thy ===== *)
theory Nvcodec
  imports Hw_Codec
begin

text \<open>
  \<^verbatim>\<open>src/video_codecs/nvcodec.rs\<close>: the encoder, the decoder and the capability of NVIDIA
  NVENC/NVDEC, over the crate \<^verbatim>\<open>shiguredo_nvcodec\<close>, which is the record \<open>nv_lib\<close>.
\<close>

subsection \<open>Codecs and rates\<close>

datatype nv_codec_config = NvH264 | NvHevc | NvAv1

datatype nv_decoder_codec = NvDecodeH264 | NvDecodeHevc | NvDecodeAv1 | NvDecodeVp8 | NvDecodeVp9

text \<open>Profile and IDR period are left open.\<close>

definition nv_encoder_codec_config :: "video_codec_type \<Rightarrow> nv_codec_config option" where
  "nv_encoder_codec_config codec_type =
     (case codec_type of
        H264 \<Rightarrow> Some NvH264
      | H265 \<Rightarrow> Some NvHevc
      | Av1 \<Rightarrow> Some NvAv1
      | _ \<Rightarrow> None)"

definition nv_decoder_codec :: "video_codec_type \<Rightarrow> nv_decoder_codec option" where
  "nv_decoder_codec codec_type =
     (case codec_type of
        H264 \<Rightarrow> Some NvDecodeH264
      | H265 \<Rightarrow> Some NvDecodeHevc
      | Av1 \<Rightarrow> Some NvDecodeAv1
      | Vp8 \<Rightarrow> Some NvDecodeVp8
      | Vp9 \<Rightarrow> Some NvDecodeVp9
      | _ \<Rightarrow> None)"

definition frame_type_from_nvcodec :: "picture_type \<Rightarrow> video_frame_type" where
  "frame_type_from_nvcodec picture_type =
     (if picture_type = PicIdr \<or> picture_type = PicI then FrameKey else FrameDelta)"

record nv_reconfigure_params =
  nr_framerate_num :: "u32 option"
  nr_framerate_den :: "u32 option"
  nr_average_bitrate :: "u32 option"

definition nv_reconfigure_params_for :: "u32 \<Rightarrow> u32 \<Rightarrow> nv_reconfigure_params" where
  "nv_reconfigure_params_for target_bitrate_bps framerate =
     \<lparr>nr_framerate_num = Some (max framerate 1), nr_framerate_den = Some 1,
      nr_average_bitrate = Some (max target_bitrate_bps 1)\<rparr>"

subsection \<open>The encoder\<close>

text \<open>
  The settings that vary; preset P4, low latency, constant bit rate, no GOP length, a frame interval of
  1 and NV12 are fixed.
\<close>

record nv_encoder_config =
  ne_codec :: nv_codec_config
  ne_width :: u32
  ne_height :: u32
  ne_max_encode_width :: "u32 option"
  ne_max_encode_height :: "u32 option"
  ne_framerate_num :: u32
  ne_framerate_den :: u32
  ne_average_bitrate :: "u32 option"
  ne_device_id :: int

record nv_encode_options =
  no_force_intra :: bool
  no_force_idr :: bool
  no_output_spspps :: bool

record nv_decoder_config =
  nd_codec :: nv_decoder_codec
  nd_device_id :: int
  nd_max_num_decode_surfaces :: nat
  nd_max_display_delay :: nat

record ('i, 'enc, 'dec, 'w, 'e) nv_lib =
  nl_encoder_new :: "nv_encoder_config \<Rightarrow> 'w \<Rightarrow> ('e + 'enc) \<times> 'w"
  nl_reconfigure :: "nv_reconfigure_params \<Rightarrow> 'enc \<Rightarrow> 'w \<Rightarrow> ('e + unit) \<times> 'enc \<times> 'w"
  nl_encode :: "bytes \<Rightarrow> nv_encode_options \<Rightarrow> callback_value \<Rightarrow> 'enc \<Rightarrow> 'w \<Rightarrow> ('e + unit) \<times> 'enc \<times> 'w"
  nl_drop_encoder :: "'enc \<Rightarrow> 'w \<Rightarrow> 'w"
  nl_i420_to_nv12 :: "'i \<Rightarrow> int \<Rightarrow> int \<Rightarrow> bytes option"
  nl_decoder_new :: "nv_decoder_config \<Rightarrow> 'w \<Rightarrow> ('e + 'dec) \<times> 'w"
  nl_decode :: "bytes \<Rightarrow> decode_value \<Rightarrow> 'dec \<Rightarrow> 'w \<Rightarrow> ('e + unit) \<times> 'dec \<times> 'w"
  nl_drop_decoder :: "'dec \<Rightarrow> 'w \<Rightarrow> 'w"
  nl_nv12_copy :: "bytes \<Rightarrow> int \<Rightarrow> bytes \<Rightarrow> int \<Rightarrow> int \<Rightarrow> int \<Rightarrow> bytes option"

record ('enc, 'cb) nv_encoder = "('enc, 'cb) hw_encoder" +
  he_device_id :: int

definition nv_encoder_new :: "int \<Rightarrow> video_codec_type \<Rightarrow> ('enc, 'cb) nv_encoder" where
  "nv_encoder_new device_id codec_type =
     hw_encoder.extend (hw_encoder_new codec_type) \<lparr>he_device_id = device_id\<rparr>"

definition nv_encoder_config_for ::
    "int \<Rightarrow> nv_codec_config \<Rightarrow> u32 \<Rightarrow> u32 \<Rightarrow> u32 \<Rightarrow> u32 \<Rightarrow> nv_encoder_config" where
  "nv_encoder_config_for device_id codec_config width height framerate target_bitrate_bps =
     \<lparr>ne_codec = codec_config, ne_width = width, ne_height = height, ne_max_encode_width = Some width,
      ne_max_encode_height = Some height, ne_framerate_num = max framerate 1, ne_framerate_den = 1,
      ne_average_bitrate = Some (max target_bitrate_bps 1), ne_device_id = device_id\<rparr>"

definition nv_rebuild_encoder ::
    "('i, 'enc, 'dec, 'w, 'e) nv_lib \<Rightarrow> ('enc, 'cb) nv_encoder \<Rightarrow> 'w \<Rightarrow>
       ('e codec_error + unit) \<times> ('enc, 'cb) nv_encoder \<times> 'w" where
  "nv_rebuild_encoder N s w =
     (if he_width s = 0 \<or> he_height s = 0 then
        (Inl (CodecMessage ''encoder width and height must be set before building encoder''), s, w)
      else case nv_encoder_codec_config (he_codec_type s) of
        None \<Rightarrow> (Inl (CodecMessage ''unsupported codec type for encoder config''), s, w)
      | Some codec_config \<Rightarrow>
          (case nl_encoder_new N
              (nv_encoder_config_for (he_device_id s) codec_config (he_width s) (he_height s)
                (he_framerate s) (he_target_bitrate_bps s)) w of
             (Inl err, w) \<Rightarrow> (Inl (CodecFailed err), s, w)
           | (Inr enc, w) \<Rightarrow>
               (Inr (), s\<lparr>he_encoder := Some enc, he_rebuild_needed := False, he_reconfigure_needed := False\<rparr>,
                drop_encoder (nl_drop_encoder N) s w)))"

definition nv_reconfigure_encoder ::
    "('i, 'enc, 'dec, 'w, 'e) nv_lib \<Rightarrow> ('enc, 'cb) nv_encoder \<Rightarrow> 'w \<Rightarrow>
       ('e codec_error + unit) \<times> ('enc, 'cb) nv_encoder \<times> 'w" where
  "nv_reconfigure_encoder N s w =
     (case he_encoder s of
        None \<Rightarrow> (Inl (CodecMessage ''encoder must be initialized before reconfigure''), s, w)
      | Some enc \<Rightarrow>
          (case nl_reconfigure N
              (nv_reconfigure_params_for (he_target_bitrate_bps s) (he_framerate s)) enc w of
             (Inl err, enc, w) \<Rightarrow> (Inl (CodecFailed err), s\<lparr>he_encoder := Some enc\<rparr>, w)
           | (Inr _, enc, w) \<Rightarrow>
               (Inr (), s\<lparr>he_encoder := Some enc, he_reconfigure_needed := False\<rparr>, w)))"

type_synonym 'enc nv_input = "'enc \<times> bytes \<times> nv_encode_options \<times> callback_value"

text \<open>\<open>None\<close> is the panic of \<^verbatim>\<open>expect("encoder should exist")\<close>.\<close>

definition nv_encode_ready ::
    "('i, 'enc, 'dec, 'w, 'e) nv_lib \<Rightarrow> 'i raw_frame \<Rightarrow> video_frame_type option \<Rightarrow>
       ('enc, 'cb) nv_encoder \<Rightarrow> 'w \<Rightarrow>
       ((video_codec_status \<times> 'enc nv_input option) \<times> ('enc, 'cb) nv_encoder \<times> 'w) option" where
  "nv_encode_ready N frame wanted s w =
     (let v = value_of_frame frame in
      case do { i420 \<leftarrow> rf_i420 frame; width \<leftarrow> try_i32 (uint (cv_frame_width v));
                height \<leftarrow> try_i32 (uint (cv_frame_height v)); nl_i420_to_nv12 N i420 width height } of
        None \<Rightarrow> Some ((StatusError, None), s, w)
      | Some nv12 \<Rightarrow>
          (case he_encoder s of
             None \<Rightarrow> None
           | Some enc \<Rightarrow>
               let force_key_frame = (wanted = Some FrameKey);
                   options = \<lparr>no_force_intra = False, no_force_idr = force_key_frame,
                              no_output_spspps = force_key_frame\<rparr>;
                   (result, enc', w) = nl_encode N nv12 options v enc w
               in Some ((if result = Inr () then StatusOk else StatusError, Some (enc, nv12, options, v)),
                    s\<lparr>he_encoder := Some enc'\<rparr>, w)))"

definition nv_encode ::
    "('i, 'enc, 'dec, 'w, 'e) nv_lib \<Rightarrow> 'i raw_frame \<Rightarrow> video_frame_type list option \<Rightarrow>
       ('enc, 'cb) nv_encoder \<Rightarrow> 'w \<Rightarrow>
       ((video_codec_status \<times> 'enc nv_input option) \<times> ('enc, 'cb) nv_encoder \<times> 'w) option" where
  "nv_encode N = hw_encode (nv_rebuild_encoder N) (nv_reconfigure_encoder N) True (nv_encode_ready N)"

definition nv_step ::
    "('i, 'enc, 'dec, 'w, 'e) nv_lib \<Rightarrow> ('i raw_frame, 'cb) encoder_call \<Rightarrow>
       ('enc, 'cb) nv_encoder \<Rightarrow> 'w \<Rightarrow>
       ((video_codec_status \<times> 'enc nv_input option) \<times> ('enc, 'cb) nv_encoder \<times> 'w) option" where
  "nv_step N = hw_step (nv_rebuild_encoder N) (hw_release (nl_drop_encoder N)) (nv_encode N)"

definition handle_nvcodec_encode_callback ::
    "'cb option \<Rightarrow> 'e + encoded_output \<Rightarrow> video_codec_type \<Rightarrow>
       ('cb \<times> encoded_image \<times> codec_specific_info) option" where
  "handle_nvcodec_encode_callback callback result codec_type =
     (case result of
        Inl err \<Rightarrow> None
      | Inr encoded \<Rightarrow> map_option (\<lambda>callback.
          (callback, image_of_output (frame_type_from_nvcodec (eo_picture_type encoded)) encoded,
           h264_info codec_type (eo_picture_type encoded))) callback)"

subsection \<open>The decoder\<close>

record ('dec, 'cb) nv_decoder = "('dec, 'cb) hw_decoder" +
  hd_device_id :: int

definition nv_decoder_new :: "int \<Rightarrow> video_codec_type \<Rightarrow> ('dec, 'cb) nv_decoder" where
  "nv_decoder_new device_id codec_type =
     hw_decoder.extend (hw_decoder_new codec_type) \<lparr>hd_device_id = device_id\<rparr>"

definition nv_decoder_config_for :: "('dec, 'cb) nv_decoder \<Rightarrow> nv_decoder_config option" where
  "nv_decoder_config_for s =
     map_option (\<lambda>codec. \<lparr>nd_codec = codec, nd_device_id = hd_device_id s,
       nd_max_num_decode_surfaces = 20, nd_max_display_delay = 0\<rparr>) (nv_decoder_codec (hd_codec_type s))"

definition nv_rebuild_decoder ::
    "('i, 'enc, 'dec, 'w, 'e) nv_lib \<Rightarrow> ('dec, 'cb) nv_decoder \<Rightarrow> 'w \<Rightarrow>
       ('e codec_error + unit) \<times> ('dec, 'cb) nv_decoder \<times> 'w" where
  "nv_rebuild_decoder N s w =
     (case nv_decoder_config_for s of
        None \<Rightarrow> (Inl (CodecMessage ''decoder config is not available''), s, w)
      | Some config \<Rightarrow>
          (case nl_decoder_new N config w of
             (Inl err, w) \<Rightarrow> (Inl (CodecFailed err), s, w)
           | (Inr d, w) \<Rightarrow>
               (Inr (), s\<lparr>hd_decoder := Some d\<rparr>, drop_decoder (nl_drop_decoder N) s w)))"

definition nv_configure ::
    "('i, 'enc, 'dec, 'w, 'e) nv_lib \<Rightarrow> video_codec_type \<Rightarrow> ('dec, 'cb) nv_decoder \<Rightarrow> 'w \<Rightarrow>
       bool \<times> ('dec, 'cb) nv_decoder \<times> 'w" where
  "nv_configure N = hw_configure (nv_rebuild_decoder N)"

text \<open>\<open>None\<close> is the panic of \<^verbatim>\<open>expect("decoder should exist")\<close>.\<close>

definition nv_decode ::
    "('i, 'enc, 'dec, 'w, 'e) nv_lib \<Rightarrow> input_image \<Rightarrow> int \<Rightarrow> ('dec, 'cb) nv_decoder \<Rightarrow> 'w \<Rightarrow>
       (video_codec_status \<times> ('dec, 'cb) nv_decoder \<times> 'w) option" where
  "nv_decode N input render_time_ms s w =
     (if hd_callback s = None then Some (StatusUninitialized, s, w)
      else case ig_data input of
        None \<Rightarrow> Some (StatusErrParameter, s, w)
      | Some data \<Rightarrow>
          (case ensure_decoder (nv_rebuild_decoder N) s w of
             (Inl _, s, w) \<Rightarrow> Some (StatusError, s, w)
           | (Inr _, s, w) \<Rightarrow>
               (case hd_decoder s of
                  None \<Rightarrow> None
                | Some d \<Rightarrow>
                    let (result, d, w) = nl_decode N data
                          \<lparr>dv_rtp_timestamp = ig_rtp_timestamp input, dv_render_time_ms = render_time_ms\<rparr> d w
                    in Some (if result = Inr () then StatusOk else StatusError,
                         s\<lparr>hd_decoder := Some d\<rparr>, w))))"

definition handle_nvcodec_decode_callback ::
    "('i, 'enc, 'dec, 'w, 'e) nv_lib \<Rightarrow> 'cb option \<Rightarrow> 'e + decoded_output \<Rightarrow>
       ('cb \<times> decoded_frame) option" where
  "handle_nvcodec_decode_callback N = nv12_output (nl_nv12_copy N)"

subsection \<open>The capability\<close>

datatype nv_codec_type = NvTypeH264 | NvTypeHevc | NvTypeAv1 | NvTypeVp8 | NvTypeVp9 | NvTypeJpeg

text \<open>JPEG has no counterpart and is skipped.\<close>

fun nv_webrtc_type :: "nv_codec_type \<Rightarrow> video_codec_type option" where
  "nv_webrtc_type NvTypeH264 = Some H264"
| "nv_webrtc_type NvTypeHevc = Some H265"
| "nv_webrtc_type NvTypeAv1 = Some Av1"
| "nv_webrtc_type NvTypeVp8 = Some Vp8"
| "nv_webrtc_type NvTypeVp9 = Some Vp9"
| "nv_webrtc_type NvTypeJpeg = None"

definition nv_collect_supported_formats ::
    "'e + nv_codec_type codec_support list \<Rightarrow> 'e codec_error + sdp_format list \<times> sdp_format list" where
  "nv_collect_supported_formats codecs =
     bindE (map_err CodecFailed codecs) (\<lambda>infos. Inr (formats_of_support nv_webrtc_type infos))"

definition nv_new_with_formats ::
    "webrtc \<Rightarrow> (sdp_format list \<Rightarrow> (sdp_format \<Rightarrow> ('enc, 'cb) nv_encoder option) \<Rightarrow>
         sdp_format \<Rightarrow> ('enc, 'cb) nv_encoder option) \<Rightarrow> sdp_format list \<Rightarrow> sdp_format list \<Rightarrow> int \<Rightarrow>
       (('enc, 'cb) nv_encoder, ('dec, 'db) nv_decoder) video_capability" where
  "nv_new_with_formats W simulcast encoder_formats decoder_formats device_id =
     backend_capability W simulcast \<lparr>vi_name = ''nvcodec'', vi_description = ''NVIDIA NVENC/NVDEC''\<rparr>
       (\<lambda>direction. case direction of Encoder \<Rightarrow> encoder_formats | Decoder \<Rightarrow> decoder_formats)
       (\<lambda>format. map_option (nv_encoder_new device_id) (codec_type_from_format W format))
       (\<lambda>format. map_option (nv_decoder_new device_id) (codec_type_from_format W format))"

definition nv_new_with_device_id ::
    "webrtc \<Rightarrow> (sdp_format list \<Rightarrow> (sdp_format \<Rightarrow> ('enc, 'cb) nv_encoder option) \<Rightarrow>
         sdp_format \<Rightarrow> ('enc, 'cb) nv_encoder option) \<Rightarrow> (int \<Rightarrow> 'e + nv_codec_type codec_support list) \<Rightarrow> int \<Rightarrow>
       'e codec_error + (('enc, 'cb) nv_encoder, ('dec, 'db) nv_decoder) video_capability" where
  "nv_new_with_device_id W simulcast codecs device_id =
     bindE (nv_collect_supported_formats (codecs device_id)) (\<lambda>(encoder_formats, decoder_formats).
     if encoder_formats = [] \<and> decoder_formats = [] then Inl (CodecMessage ''No supported codecs'')
     else Inr (nv_new_with_formats W simulcast encoder_formats decoder_formats device_id))"

definition nv_capability_new ::
    "webrtc \<Rightarrow> (sdp_format list \<Rightarrow> (sdp_format \<Rightarrow> ('enc, 'cb) nv_encoder option) \<Rightarrow>
         sdp_format \<Rightarrow> ('enc, 'cb) nv_encoder option) \<Rightarrow> (int \<Rightarrow> 'e + nv_codec_type codec_support list) \<Rightarrow>
       'e codec_error + (('enc, 'cb) nv_encoder, ('dec, 'db) nv_decoder) video_capability" where
  "nv_capability_new W simulcast codecs = nv_new_with_device_id W simulcast codecs 0"

subsection \<open>The encoder encodes as it was asked to\<close>

definition nv_reconfigured :: "nv_reconfigure_params \<Rightarrow> nv_encoder_config \<Rightarrow> nv_encoder_config" where
  "nv_reconfigured p c =
     c\<lparr>ne_average_bitrate := (case nr_average_bitrate p of None \<Rightarrow> ne_average_bitrate c | k \<Rightarrow> k),
       ne_framerate_num := (case nr_framerate_num p of None \<Rightarrow> ne_framerate_num c | Some n \<Rightarrow> n),
       ne_framerate_den := (case nr_framerate_den p of None \<Rightarrow> ne_framerate_den c | Some n \<Rightarrow> n)\<rparr>"

definition nv_laws :: "('i, 'enc, 'dec, 'w, 'e) nv_lib \<Rightarrow> ('enc \<Rightarrow> nv_encoder_config) \<Rightarrow> bool" where
  "nv_laws N settings \<longleftrightarrow>
     (\<forall>config w e w'. nl_encoder_new N config w = (Inr e, w') \<longrightarrow> settings e = config) \<and>
     (\<forall>p e w e' w'. nl_reconfigure N p e w = (Inr (), e', w') \<longrightarrow>
       settings e' = nv_reconfigured p (settings e)) \<and>
     (\<forall>x t v e w r e' w'. nl_encode N x t v e w = (r, e', w') \<longrightarrow> settings e' = settings e)"

lemma nv_lawsD:
  "nv_laws N settings \<Longrightarrow> nl_encoder_new N config w = (Inr e, w') \<Longrightarrow> settings e = config"
  "nv_laws N settings \<Longrightarrow> nl_reconfigure N p e w = (Inr (), e', w') \<Longrightarrow>
     settings e' = nv_reconfigured p (settings e)"
  "nv_laws N settings \<Longrightarrow> nl_encode N x t v e w = (r, e', w') \<Longrightarrow> settings e' = settings e"
  unfolding nv_laws_def by blast+

definition nv_config_for :: "int \<Rightarrow> video_codec_type \<Rightarrow> u32 \<Rightarrow> u32 \<Rightarrow> u32 \<Rightarrow> u32 \<Rightarrow> nv_encoder_config" where
  "nv_config_for device_id T = nv_encoder_config_for device_id (the (nv_encoder_codec_config T))"

interpretation nv_backend: hw_backend "nv_laws N settings"
    "nv_rebuild_encoder N :: ('enc, 'cb) nv_encoder \<Rightarrow> _" "nv_reconfigure_encoder N" settings
    "nv_config_for device_id T" T "\<lparr>he_device_id = device_id\<rparr>"
  for N :: "('i, 'enc, 'dec, 'w, 'e) nv_lib" and settings device_id T
proof
  fix s :: "('enc, 'cb) nv_encoder" and w u s' w'
  assume "nv_laws N settings" "he_codec_type s = T" "hw_encoder.more s = \<lparr>he_device_id = device_id\<rparr>"
    "nv_rebuild_encoder N s w = (Inr u, s', w')"
  then show "\<exists>e. s' = s\<lparr>he_encoder := Some e, he_rebuild_needed := False, he_reconfigure_needed := False\<rparr> \<and>
      settings e = nv_config_for device_id T (he_width s) (he_height s) (he_framerate s)
        (he_target_bitrate_bps s)"
    by (cases s) (auto simp: nv_rebuild_encoder_def nv_config_for_def dest: nv_lawsD(1)
        split: if_splits option.splits prod.splits sum.splits)
next
  show "nv_rebuild_encoder N s w = (Inl err, s', w') \<Longrightarrow> s' = s" for s :: "('enc, 'cb) nv_encoder" and w err s' w'
    by (auto simp: nv_rebuild_encoder_def split: if_splits option.splits prod.splits sum.splits)
next
  show "\<exists>e'. s' = s\<lparr>he_encoder := Some e', he_reconfigure_needed := False\<rparr> \<and>
      settings e' = nv_config_for device_id T wd ht (he_framerate s) (he_target_bitrate_bps s)"
    if "nv_laws N settings" "he_encoder s = Some e" "settings e = nv_config_for device_id T wd ht fps bps"
      "nv_reconfigure_encoder N s w = (Inr u, s', w')"
    for s :: "('enc, 'cb) nv_encoder" and e wd ht fps bps w u s' w'
    using that
    by (auto simp: nv_reconfigure_encoder_def nv_config_for_def nv_encoder_config_for_def
        nv_reconfigured_def nv_reconfigure_params_for_def dest!: nv_lawsD(2)
        split: prod.splits sum.splits)
next
  show "nv_reconfigure_encoder N s w = (Inl err, s', w') \<Longrightarrow> \<exists>e'. s' = s\<lparr>he_encoder := e'\<rparr>"
    for s :: "('enc, 'cb) nv_encoder" and w err s' w'
    by (auto simp: nv_reconfigure_encoder_def split: option.splits prod.splits sum.splits)
      (metis hw_encoder.surjective hw_encoder.update_convs(1))
qed

text \<open>A frame is encoded with its size, the rates asked for last, its own times and the frame type asked for.\<close>

definition nv_expected ::
    "('enc \<Rightarrow> nv_encoder_config) \<Rightarrow> int \<Rightarrow> video_codec_type \<Rightarrow> u32 \<times> u32 \<Rightarrow> 'i raw_frame \<Rightarrow>
       video_frame_type list option \<Rightarrow> 'enc nv_input \<Rightarrow> bool" where
  "nv_expected settings device_id T r frame frame_types h \<longleftrightarrow>
     (case h of (enc, nv12, options, v) \<Rightarrow>
        settings enc = nv_config_for device_id T (u32_of_size (rf_width frame)) (u32_of_size (rf_height frame))
          (fst r) (snd r) \<and>
        v = value_of_frame frame \<and> \<not> no_force_intra options \<and>
        (no_force_idr options \<longleftrightarrow> requested_frame_type frame_types = Some FrameKey) \<and>
        (no_output_spspps options \<longleftrightarrow> requested_frame_type frame_types = Some FrameKey))"

interpretation nv: hw_codec "nv_laws N settings"
    "nv_rebuild_encoder N :: ('enc, 'cb) nv_encoder \<Rightarrow> _" "nv_reconfigure_encoder N" settings
    "nv_config_for device_id T" T "\<lparr>he_device_id = device_id\<rparr>" "hw_release (nl_drop_encoder N)" True
    "nv_encode_ready N" "nv_expected settings device_id T"
  for N :: "('i, 'enc, 'dec, 'w, 'e) nv_lib" and settings device_id T
proof
  fix r frame types w st handed w'
  fix s s' :: "('enc, 'cb) nv_encoder" and e
  let ?current = "hw_current settings (nv_config_for device_id T) T \<lparr>he_device_id = device_id\<rparr> r"
  assume laws: "nv_laws N settings" and current: "?current s" and e: "he_encoder s = Some e"
    "settings e = nv_config_for device_id T (u32_of_size (rf_width frame)) (u32_of_size (rf_height frame))
      (fst r) (snd r)"
    and run: "nv_encode_ready N frame (requested_frame_type types) s w = Some ((st, handed), s', w')"
  show "?current s' \<and> (\<forall>h. handed = Some h \<longrightarrow> nv_expected settings device_id T r frame types h)"
  proof (cases handed)
    case None
    with run current show ?thesis
      by (auto simp: nv_encode_ready_def Let_def split: option.splits prod.splits)
  next
    case (Some h)
    let ?t = "\<lparr>no_force_intra = False, no_force_idr = (requested_frame_type types = Some FrameKey),
      no_output_spspps = (requested_frame_type types = Some FrameKey)\<rparr>"
    from Some run e(1) obtain nv12 r' e' where h: "h = (e, nv12, ?t, value_of_frame frame)"
      and s': "s' = s\<lparr>he_encoder := Some e'\<rparr>"
      and enc: "nl_encode N nv12 ?t (value_of_frame frame) e w = (r', e', w')"
      by (auto simp: nv_encode_ready_def Let_def split: option.splits prod.splits)
    with Some e(2) hw_current_encoder [OF current e(1) nv_lawsD(3) [OF laws enc]] show ?thesis
      by (simp add: nv_expected_def)
  qed
qed (rule hw_current_release)

text \<open>
  Fact. NVENC encodes as it was asked to: after any calls, unless an \<^verbatim>\<open>init_encode\<close> failed, every
  frame is handed to a native encoder that was built for the size of the frame and has the frame rate
  and bit rate asked for last, with the times and the size of the frame, and is an IDR frame with its
  parameter sets exactly when a key frame was asked for.
\<close>

theorem nvcodec_encodes_as_requested:
  assumes "nv_laws N settings"
    and "run_calls (nv_step N) calls (nv_encoder_new device_id T) w = Some (trace, s, w')"
    and "\<forall>x \<in> set trace. \<not> init_failed x"
    and "trace = before @ (c, status, Some h) # after"
  shows "\<exists>frame types. c = EncodeFrame frame types \<and>
    nv_expected settings device_id T (requested_rates T (map fst before)) frame types h"
  unfolding requested_rates_def fold_map
  by (rule nv.served.run_expected [OF assms(1) nv.served.fresh
        assms(2) [unfolded nv_step_def nv_encode_def nv_encoder_new_def] assms(3,4)])

lemma nv_ready_some:
  "ready_encoder (nv_rebuild_encoder N) (nv_reconfigure_encoder N) (note_size fw fh s) w = (Inr u, s', w') \<Longrightarrow>
     he_encoder s' \<noteq> None"
  using note_size_fields(5) [of fw fh s]
  by (auto simp: ready_encoder_def nv_rebuild_encoder_def nv_reconfigure_encoder_def
      split: if_splits option.splits prod.splits sum.splits)

text \<open>Fact. The \<^verbatim>\<open>expect\<close> calls are never reached without an encoder or a decoder: no call panics.\<close>

theorem nvcodec_never_panics:
  "run_calls (nv_step N) calls s w \<noteq> None \<and> nv_decode N input render_time_ms d w \<noteq> None"
proof
  have encode: "nv_encode N frame types s w \<noteq> None" for frame types s w
  proof -
    let ?s = "note_size (u32_of_size (rf_width frame)) (u32_of_size (rf_height frame)) s"
    obtain res s1 w1 where ready:
      "ready_encoder (nv_rebuild_encoder N) (nv_reconfigure_encoder N) ?s w = (res, s1, w1)"
      by (metis prod_cases3)
    with nv_ready_some [of N _ _ s w] have "res = Inr u \<Longrightarrow> he_encoder s1 \<noteq> None" for u by blast
    with ready show ?thesis
      by (cases res) (auto simp: nv_encode_def hw_encode_def nv_encode_ready_def Let_def
          split: option.splits prod.splits)
  qed
  have "nv_step N c s w \<noteq> None" for c s w
    using encode by (auto simp: nv_step_def hw_step_def split: encoder_call.split prod.splits)
  then show "run_calls (nv_step N) calls s w \<noteq> None"
    by (induction calls arbitrary: s w) (fastforce split: option.splits)+
  show "nv_decode N input render_time_ms d w \<noteq> None"
    by (auto simp: nv_decode_def ensure_decoder_def nv_rebuild_decoder_def nv_decoder_config_for_def Let_def
        split: option.splits prod.splits sum.splits if_splits)
qed

subsection \<open>An example\<close>

definition example_nv :: "(unit, nv_encoder_config, unit, unit, unit) nv_lib" where
  "example_nv =
     \<lparr>nl_encoder_new = (\<lambda>config w. (Inr config, w)),
      nl_reconfigure = (\<lambda>p enc w. (Inr (), nv_reconfigured p enc, w)),
      nl_encode = (\<lambda>x t v enc w. (Inr (), enc, w)), nl_drop_encoder = (\<lambda>enc w. w),
      nl_i420_to_nv12 = (\<lambda>i420 width height. Some [1]), nl_decoder_new = (\<lambda>config w. (Inr (), w)),
      nl_decode = (\<lambda>b v d w. (Inr (), d, w)), nl_drop_decoder = (\<lambda>d w. w),
      nl_nv12_copy = (\<lambda>y sy uv suv width height. Some (y @ uv))\<rparr>"

lemma example_nv_laws: "nv_laws example_nv id"
  by (auto simp: nv_laws_def example_nv_def)

definition example_nv_ready :: "(nv_encoder_config, unit) nv_encoder" where
  "example_nv_ready =
     \<lparr>he_encoder = Some (nv_config_for 0 H264 4 2 30 800000), he_callback = Some (),
      he_codec_type = H264, he_width = 4, he_height = 2, he_framerate = 29,
      he_target_bitrate_bps = 300000, he_rebuild_needed = False, he_reconfigure_needed = True,
      he_device_id = 0\<rparr>"

definition example_nv_handed :: "nv_encoder_config nv_input" where
  "example_nv_handed =
     (nv_config_for 0 H264 4 2 29 300000, [1],
      \<lparr>no_force_intra = False, no_force_idr = True, no_output_spspps = True\<rparr>,
      \<lparr>cv_rtp_timestamp = 90, cv_frame_width = 4, cv_frame_height = 2\<rparr>)"

lemma example_nv_starts:
  "run_calls (nv_step example_nv) example_calls (nv_encoder_new 0 H264) () =
     Some (map (\<lambda>c. (c, StatusOk, None)) example_calls, example_nv_ready, ())"
  by (simp add: example_calls_def nv_step_def hw_step_def hw_register_callback_def nv_encoder_new_def
      hw_encoder_new_def hw_encoder.extend_def hw_init_encode_def example_hd_def take_settings_def
      nv_rebuild_encoder_def u32_of_size_def nv_encoder_codec_config_def nv_config_for_def
      hw_set_rates_def example_nv_ready_def example_rates drop_encoder_def example_nv_def
      del: f64_max.simps f64_as_u32.simps)

lemma example_nv_encodes:
  "\<exists>s. nv_step example_nv (EncodeFrame (example_raw 4 2) (Some [FrameKey])) example_nv_ready () =
     Some ((StatusOk, Some example_nv_handed), s, ())"
  by (simp add: nv_step_def hw_step_def nv_encode_def hw_encode_def value_of_frame_def example_raw_def
      u32_of_size_def note_size_def ready_encoder_def nv_reconfigure_encoder_def example_nv_ready_def
      nv_encode_ready_def try_i32_def I32_MAX_def requested_frame_type_def nv_reconfigured_def
      nv_config_for_def nv_reconfigure_params_for_def nv_encoder_config_for_def example_nv_handed_def
      example_nv_def)

theorem nvcodec_encodes_as_requested_witness:
  "nv_expected id 0 H264 (29, 300000) (example_raw 4 2) (Some [FrameKey]) example_nv_handed"
proof -
  let ?call = "EncodeFrame (example_raw 4 2) (Some [FrameKey])"
  obtain s where "run_calls (nv_step example_nv) (example_calls @ [?call]) (nv_encoder_new 0 H264) () =
      Some (map (\<lambda>c. (c, StatusOk, None)) example_calls @ [(?call, StatusOk, Some example_nv_handed)], s, ())"
    using run_calls_snoc [OF example_nv_starts] example_nv_encodes by blast
  from nvcodec_encodes_as_requested [OF example_nv_laws this _ refl] example_requested show ?thesis
    by (auto simp: example_calls_def comp_def)
qed

end
