(* ===== verification/Openh264.thy ===== *)
theory Openh264
  imports Hw_Codec
begin

text \<open>
  \<^verbatim>\<open>src/video_codecs/openh264.rs\<close>: the encoder and decoder on the OpenH264 library, which is the
  parameter \<open>openh264_lib\<close>, and its capability. The encoder pauses while the bit rate is zero and starts
  again with a key frame. The theorem says that it follows the automaton of what was asked for, \<open>mode\<close>
  with the rates.
\<close>

subsection \<open>Annex B\<close>

definition has_annexb_start_code :: "bytes \<Rightarrow> bool" where
  "has_annexb_start_code data \<longleftrightarrow>
     (4 \<le> length data \<and> data ! 0 = 0 \<and> data ! 1 = 0 \<and> data ! 2 = 0 \<and> data ! 3 = 1) \<or>
     (3 \<le> length data \<and> data ! 0 = 0 \<and> data ! 1 = 0 \<and> data ! 2 = 1)"

definition append_annexb_nalu :: "bytes \<Rightarrow> bytes \<Rightarrow> bytes" where
  "append_annexb_nalu out data =
     (if data = [] then out
      else if has_annexb_start_code data then out @ data
      else out @ [0, 0, 0, 1] @ data)"

datatype openh264_frame_type = OhIdr | OhI | OhP

definition frame_type_from_openh264 :: "openh264_frame_type \<Rightarrow> video_frame_type" where
  "frame_type_from_openh264 frame_type = (case frame_type of OhIdr \<Rightarrow> FrameKey | _ \<Rightarrow> FrameDelta)"

record openh264_output =
  oo_sps_list :: "bytes list"
  oo_pps_list :: "bytes list"
  oo_data :: bytes
  oo_frame_type :: openh264_frame_type

text \<open>The data of an output: its parameter sets, then its picture.\<close>

definition annexb_of_output :: "openh264_output \<Rightarrow> bytes" where
  "annexb_of_output encoded =
     (let annexb = fold (\<lambda>sps out. append_annexb_nalu out sps) (oo_sps_list encoded) [];
          annexb = fold (\<lambda>pps out. append_annexb_nalu out pps) (oo_pps_list encoded) annexb
      in if oo_data encoded = [] then annexb
         else if has_annexb_start_code (oo_data encoded) then annexb @ oo_data encoded
         else append_annexb_nalu annexb (oo_data encoded))"

lemma append_annexb_nalu_start:
  "has_annexb_start_code out \<or> out = [] \<Longrightarrow>
     has_annexb_start_code (append_annexb_nalu out data) \<or> append_annexb_nalu out data = []"
  by (auto simp: append_annexb_nalu_def has_annexb_start_code_def nth_append)

lemma append_annexb_nalu_empty: "append_annexb_nalu out data = [] \<longleftrightarrow> out = [] \<and> data = []"
  by (auto simp: append_annexb_nalu_def)

lemma fold_annexb_start:
  "has_annexb_start_code out \<or> out = [] \<Longrightarrow>
     has_annexb_start_code (fold (\<lambda>nalu out. append_annexb_nalu out nalu) nalus out) \<or>
     fold (\<lambda>nalu out. append_annexb_nalu out nalu) nalus out = []"
  by (induction nalus arbitrary: out) (simp_all add: append_annexb_nalu_start)

lemma fold_annexb_empty:
  "fold (\<lambda>nalu out. append_annexb_nalu out nalu) nalus out = [] \<longleftrightarrow>
     out = [] \<and> (\<forall>nalu \<in> set nalus. nalu = [])"
  by (induction nalus arbitrary: out) (auto simp: append_annexb_nalu_empty)

text \<open>Fact. The data of an output begins with a start code, unless the library gave no byte at all.\<close>

lemma annexb_of_output_start:
  "has_annexb_start_code (annexb_of_output encoded) \<or>
     annexb_of_output encoded = [] \<and> oo_data encoded = [] \<and>
     (\<forall>nalu \<in> set (oo_sps_list encoded) \<union> set (oo_pps_list encoded). nalu = [])"
proof -
  define sps where "sps = fold (\<lambda>nalu out. append_annexb_nalu out nalu) (oo_sps_list encoded) []"
  define pps where "pps = fold (\<lambda>nalu out. append_annexb_nalu out nalu) (oo_pps_list encoded) sps"
  have out: "annexb_of_output encoded = append_annexb_nalu pps (oo_data encoded)"
    by (simp add: annexb_of_output_def sps_def pps_def Let_def append_annexb_nalu_def)
  have "has_annexb_start_code pps \<or> pps = []"
    unfolding pps_def by (intro fold_annexb_start) (simp add: sps_def fold_annexb_start)
  then have "has_annexb_start_code (annexb_of_output encoded) \<or> annexb_of_output encoded = []"
    unfolding out by (rule append_annexb_nalu_start)
  moreover have "annexb_of_output encoded = [] \<longleftrightarrow> oo_data encoded = [] \<and>
      (\<forall>nalu \<in> set (oo_sps_list encoded) \<union> set (oo_pps_list encoded). nalu = [])"
    unfolding out append_annexb_nalu_empty by (auto simp: pps_def sps_def fold_annexb_empty)
  ultimately show ?thesis by blast
qed

subsection \<open>The encoder\<close>

datatype openh264_rate_control = OhBitrate

datatype openh264_slice_mode = OhFixedCount u64

record openh264_config =
  oc_width :: u64
  oc_height :: u64
  oc_target_bitrate :: u64
  oc_fps_numerator :: u64
  oc_fps_denominator :: u64
  oc_rate_control_mode :: "openh264_rate_control option"
  oc_slice_mode :: "openh264_slice_mode option"

text \<open>
  \<open>ol_normalize\<close> is the copy of the picture into an \<^verbatim>\<open>I420Buffer\<close> of the given size. An operation
  of the native encoder that fails may leave it changed.
\<close>

record ('i, 'n, 'enc, 'dec, 'o, 'w, 'e) openh264_lib =
  ol_encoder_new :: "openh264_config \<Rightarrow> 'w \<Rightarrow> ('e + 'enc) \<times> 'w"
  ol_set_bitrate :: "u64 \<Rightarrow> 'enc \<Rightarrow> 'w \<Rightarrow> ('e + unit) \<times> 'enc \<times> 'w"
  ol_set_frame_rate :: "u64 \<Rightarrow> u64 \<Rightarrow> 'enc \<Rightarrow> 'w \<Rightarrow> ('e + unit) \<times> 'enc \<times> 'w"
  ol_normalize :: "'i \<Rightarrow> int \<Rightarrow> int \<Rightarrow> 'n option"
  ol_encode :: "'n \<Rightarrow> bool \<Rightarrow> 'enc \<Rightarrow> 'w \<Rightarrow> ('e + openh264_output option) \<times> 'enc \<times> 'w"
  ol_drop_encoder :: "'enc \<Rightarrow> 'w \<Rightarrow> 'w"
  ol_decoder_new :: "'w \<Rightarrow> ('e + 'dec) \<times> 'w"
  ol_decode :: "bytes \<Rightarrow> 'dec \<Rightarrow> 'w \<Rightarrow> ('e + 'o option) \<times> 'dec \<times> 'w"
  ol_decoded_size :: "'o \<Rightarrow> u64 \<times> u64"
  ol_decoded_strides :: "'o \<Rightarrow> u64 \<times> u64 \<times> u64"
  ol_i420_copy :: "'o \<Rightarrow> int \<times> int \<times> int \<Rightarrow> int \<Rightarrow> int \<Rightarrow> bytes option"
  ol_drop_decoder :: "'dec \<Rightarrow> 'w \<Rightarrow> 'w"

record ('enc, 'cb) openh264_encoder =
  oe_callback :: "'cb option"
  oe_encoder :: "'enc option"
  oe_width :: u32
  oe_height :: u32
  oe_framerate :: u32
  oe_target_bitrate_bps :: u32
  oe_max_spatial_bitrate_bps :: u32
  oe_reconfigure_needed :: bool
  oe_paused :: bool
  oe_force_idr_on_resume :: bool

definition openh264_encoder_new :: "('enc, 'cb) openh264_encoder" where
  "openh264_encoder_new =
     \<lparr>oe_callback = None, oe_encoder = None, oe_width = 0, oe_height = 0, oe_framerate = 30,
      oe_target_bitrate_bps = 500000, oe_max_spatial_bitrate_bps = 500000 * 2,
      oe_reconfigure_needed = False, oe_paused = False, oe_force_idr_on_resume = False\<rparr>"

definition normalize_i420_for_encoder ::
    "('i, 'n, 'enc, 'dec, 'o, 'w, 'e) openh264_lib \<Rightarrow> 'i \<Rightarrow> u32 \<Rightarrow> u32 \<Rightarrow> 'n option" where
  "normalize_i420_for_encoder L i420 width height =
     do { width_i32 \<leftarrow> try_i32 (uint width);
          height_i32 \<leftarrow> try_i32 (uint height);
          ol_normalize L i420 width_i32 height_i32 }"

text \<open>A \<^verbatim>\<open>u32\<close> always fits a \<^verbatim>\<open>usize\<close> of 64 bits.\<close>

definition openh264_config_for :: "u32 \<Rightarrow> u32 \<Rightarrow> u32 \<Rightarrow> u32 \<Rightarrow> openh264_config" where
  "openh264_config_for width height framerate target_bitrate_bps =
     \<lparr>oc_width = ucast width, oc_height = ucast height,
      oc_target_bitrate = ucast (max target_bitrate_bps 1), oc_fps_numerator = ucast (max framerate 1),
      oc_fps_denominator = 1, oc_rate_control_mode = Some OhBitrate,
      oc_slice_mode = Some (OhFixedCount 1)\<rparr>"

definition build_encoder_config :: "('enc, 'cb) openh264_encoder \<Rightarrow> openh264_config option" where
  "build_encoder_config s =
     (if oe_width s = 0 \<or> oe_height s = 0 then None
      else Some (openh264_config_for (oe_width s) (oe_height s) (oe_framerate s) (oe_target_bitrate_bps s)))"

definition openh264_rebuild_encoder ::
    "('i, 'n, 'enc, 'dec, 'o, 'w, 'e) openh264_lib \<Rightarrow> ('enc, 'cb) openh264_encoder \<Rightarrow> 'w \<Rightarrow>
       ('e codec_error + unit) \<times> ('enc, 'cb) openh264_encoder \<times> 'w" where
  "openh264_rebuild_encoder L s w =
     (case build_encoder_config s of
        None \<Rightarrow> (Inl (CodecMessage ''width and height must be non-zero''), s, w)
      | Some config \<Rightarrow>
          (case ol_encoder_new L config w of
             (Inl err, w) \<Rightarrow> (Inl (CodecFailed err), s, w)
           | (Inr enc, w) \<Rightarrow>
               (Inr (),
                s\<lparr>oe_encoder := Some enc,
                  oe_max_spatial_bitrate_bps := saturating_mul_u32 (oe_target_bitrate_bps s) 2,
                  oe_reconfigure_needed := False\<rparr>,
                case oe_encoder s of None \<Rightarrow> w | Some old \<Rightarrow> ol_drop_encoder L old w)))"

definition openh264_init_encode ::
    "('i, 'n, 'enc, 'dec, 'o, 'w, 'e) openh264_lib \<Rightarrow> encoder_settings \<Rightarrow> ('enc, 'cb) openh264_encoder \<Rightarrow> 'w \<Rightarrow>
       video_codec_status \<times> ('enc, 'cb) openh264_encoder \<times> 'w" where
  "openh264_init_encode L codec s w =
     (if vc_codec_type codec \<noteq> H264 then (StatusErrParameter, s, w)
      else case openh264_rebuild_encoder L
          (s\<lparr>oe_width := u32_of_size (vc_width codec), oe_height := u32_of_size (vc_height codec),
             oe_framerate := max (vc_max_framerate codec) 1,
             oe_target_bitrate_bps := saturating_mul_u32 (vc_start_bitrate_kbps codec) 1000,
             oe_paused := False, oe_force_idr_on_resume := False\<rparr>) w of
        (Inl _, s, w) \<Rightarrow> (StatusError, s, w)
      | (Inr _, s, w) \<Rightarrow> (StatusOk, s, w))"

text \<open>
  What \<^verbatim>\<open>encode\<close> hands to the native encoder, with whether the library gave an output, and what it
  hands to the callback.
\<close>

record ('enc, 'n, 'cb) openh264_input =
  oi_encoder :: 'enc
  oi_planes :: 'n
  oi_force_idr :: bool
  oi_output :: bool
  oi_delivered :: "('cb \<times> encoded_image \<times> codec_specific_info) option"

definition openh264_deliver ::
    "'i raw_frame \<Rightarrow> 'cb \<Rightarrow> openh264_output \<Rightarrow> ('cb \<times> encoded_image \<times> codec_specific_info) option" where
  "openh264_deliver frame callback encoded =
     (let annexb = annexb_of_output encoded in
      if annexb = [] then None
      else Some (callback,
        \<lparr>ei_encoded_data = annexb, ei_rtp_timestamp = rf_rtp_timestamp frame,
         ei_encoded_width = u32_of_size (rf_width frame), ei_encoded_height = u32_of_size (rf_height frame),
         ei_frame_type = frame_type_from_openh264 (oo_frame_type encoded)\<rparr>,
        \<lparr>csi_codec_type = H264, csi_h264_non_interleaved = True,
         csi_h264_idr_frame = Some (oo_frame_type encoded = OhIdr)\<rparr>))"

text \<open>
  \<^verbatim>\<open>encode\<close> once the native encoder is up to date; \<open>None\<close> is the panic of
  \<^verbatim>\<open>expect("encoder should exist")\<close>.
\<close>

definition openh264_encode_ready ::
    "('i, 'n, 'enc, 'dec, 'o, 'w, 'e) openh264_lib \<Rightarrow> 'i raw_frame \<Rightarrow> video_frame_type option \<Rightarrow> 'cb \<Rightarrow>
       ('enc, 'cb) openh264_encoder \<Rightarrow> 'w \<Rightarrow>
       ((video_codec_status \<times> ('enc, 'n, 'cb) openh264_input option) \<times> ('enc, 'cb) openh264_encoder \<times> 'w) option" where
  "openh264_encode_ready L frame wanted callback s w =
     (case Option.bind (rf_i420 frame) (\<lambda>i420. normalize_i420_for_encoder L i420
         (u32_of_size (rf_width frame)) (u32_of_size (rf_height frame))) of
        None \<Rightarrow> Some ((StatusError, None), s, w)
      | Some planes \<Rightarrow>
          (case oe_encoder s of
             None \<Rightarrow> None
           | Some enc \<Rightarrow> Some (
               let force_idr_from_resume = oe_force_idr_on_resume s;
                   force_idr = (force_idr_from_resume \<or> wanted = Some FrameKey);
                   (result, enc', w) = ol_encode L planes force_idr enc w;
                   s = s\<lparr>oe_encoder := Some enc'\<rparr>;
                   input = (\<lambda>output delivered.
                     \<lparr>oi_encoder = enc, oi_planes = planes, oi_force_idr = force_idr, oi_output = output,
                      oi_delivered = delivered\<rparr>)
               in (case result of
                    Inl _ \<Rightarrow> ((StatusError, Some (input False None)), s\<lparr>oe_reconfigure_needed := True\<rparr>, w)
                  | Inr None \<Rightarrow> ((StatusNoOutput, Some (input False None)), s, w)
                  | Inr (Some encoded) \<Rightarrow>
                      let s = (if force_idr_from_resume then s\<lparr>oe_force_idr_on_resume := False\<rparr> else s);
                          delivered = openh264_deliver frame callback encoded
                      in ((if delivered = None then StatusNoOutput else StatusOk,
                           Some (input True delivered)), s, w)))))"

definition openh264_note_size ::
    "u32 \<Rightarrow> u32 \<Rightarrow> ('enc, 'cb) openh264_encoder \<Rightarrow> ('enc, 'cb) openh264_encoder" where
  "openh264_note_size frame_width frame_height s =
     (if oe_width s \<noteq> frame_width \<or> oe_height s \<noteq> frame_height
      then s\<lparr>oe_width := frame_width, oe_height := frame_height, oe_reconfigure_needed := True\<rparr>
      else s)"

definition openh264_encode ::
    "('i, 'n, 'enc, 'dec, 'o, 'w, 'e) openh264_lib \<Rightarrow> 'i raw_frame \<Rightarrow> video_frame_type list option \<Rightarrow>
       ('enc, 'cb) openh264_encoder \<Rightarrow> 'w \<Rightarrow>
       ((video_codec_status \<times> ('enc, 'n, 'cb) openh264_input option) \<times> ('enc, 'cb) openh264_encoder \<times> 'w) option" where
  "openh264_encode L frame frame_types s w =
     (let frame_width = u32_of_size (rf_width frame); frame_height = u32_of_size (rf_height frame);
          wanted = requested_frame_type frame_types in
      case oe_callback s of
        None \<Rightarrow> Some ((StatusUninitialized, None), s, w)
      | Some callback \<Rightarrow>
          if oe_paused s then Some ((StatusNoOutput, None), s, w)
          else if frame_width = 0 \<or> frame_height = 0 then Some ((StatusErrParameter, None), s, w)
          else if wanted = Some FrameEmpty then Some ((StatusNoOutput, None), s, w)
          else let s = openh264_note_size frame_width frame_height s
            in if oe_reconfigure_needed s \<or> oe_encoder s = None then
                 (case openh264_rebuild_encoder L s w of
                    (Inl _, s, w) \<Rightarrow> Some ((StatusError, None), s, w)
                  | (Inr _, s, w) \<Rightarrow> openh264_encode_ready L frame wanted callback s w)
               else openh264_encode_ready L frame wanted callback s w)"

definition openh264_release ::
    "('i, 'n, 'enc, 'dec, 'o, 'w, 'e) openh264_lib \<Rightarrow> ('enc, 'cb) openh264_encoder \<Rightarrow> 'w \<Rightarrow>
       video_codec_status \<times> ('enc, 'cb) openh264_encoder \<times> 'w" where
  "openh264_release L s w =
     (StatusOk,
      s\<lparr>oe_encoder := None, oe_callback := None, oe_paused := False, oe_force_idr_on_resume := False\<rparr>,
      case oe_encoder s of None \<Rightarrow> w | Some old \<Rightarrow> ol_drop_encoder L old w)"

definition update_pause_state ::
    "u32 \<Rightarrow> u32 \<Rightarrow> ('enc, 'cb) openh264_encoder \<Rightarrow> u32 option \<times> ('enc, 'cb) openh264_encoder" where
  "update_pause_state bitrate_sum_bps target_bitrate_sum_bps s =
     (let bitrate = max bitrate_sum_bps target_bitrate_sum_bps in
      if bitrate = 0 then (None, s\<lparr>oe_paused := True\<rparr>)
      else (Some (max bitrate 1),
        if oe_paused s then s\<lparr>oe_paused := False, oe_force_idr_on_resume := True\<rparr> else s))"

definition openh264_set_rates ::
    "('i, 'n, 'enc, 'dec, 'o, 'w, 'e) openh264_lib \<Rightarrow> rate_control \<Rightarrow> ('enc, 'cb) openh264_encoder \<Rightarrow> 'w \<Rightarrow>
       ('enc, 'cb) openh264_encoder \<times> 'w" where
  "openh264_set_rates L parameters s w =
     (case update_pause_state (rc_bitrate_sum_bps parameters) (rc_target_bitrate_sum_bps parameters)
         (s\<lparr>oe_framerate := f64_as_u32 (f64_max (rc_framerate_fps parameters) (Finite 1))\<rparr>) of
        (None, s) \<Rightarrow> (s, w)
      | (Some bitrate, s) \<Rightarrow>
          let s = s\<lparr>oe_target_bitrate_bps := bitrate\<rparr> in
          (case oe_encoder s of
             None \<Rightarrow> (s\<lparr>oe_reconfigure_needed := True\<rparr>, w)
           | Some enc \<Rightarrow>
               if oe_max_spatial_bitrate_bps s \<le> oe_target_bitrate_bps s
               then (s\<lparr>oe_reconfigure_needed := True\<rparr>, w)
               else let (r1, enc, w) = ol_set_bitrate L (ucast (oe_target_bitrate_bps s)) enc w;
                        (r2, enc, w) = ol_set_frame_rate L (ucast (max (oe_framerate s) 1)) 1 enc w;
                        s = s\<lparr>oe_encoder := Some enc\<rparr>
                 in (if isl r1 \<or> isl r2 then s\<lparr>oe_reconfigure_needed := True\<rparr> else s, w)))"

definition openh264_encoder_info :: "string \<times> bool" where
  "openh264_encoder_info = (''OpenH264'', False)"

definition openh264_step ::
    "('i, 'n, 'enc, 'dec, 'o, 'w, 'e) openh264_lib \<Rightarrow> ('i raw_frame, 'cb) encoder_call \<Rightarrow>
       ('enc, 'cb) openh264_encoder \<Rightarrow> 'w \<Rightarrow>
       ((video_codec_status \<times> ('enc, 'n, 'cb) openh264_input option) \<times> ('enc, 'cb) openh264_encoder \<times> 'w) option" where
  "openh264_step L call s w =
     (case call of
        InitEncode codec \<Rightarrow> (case openh264_init_encode L codec s w of (st, s, w) \<Rightarrow> Some ((st, None), s, w))
      | EncodeFrame frame frame_types \<Rightarrow> openh264_encode L frame frame_types s w
      | RegisterCallback callback \<Rightarrow> Some ((StatusOk, None), s\<lparr>oe_callback := callback\<rparr>, w)
      | ReleaseEncoder \<Rightarrow> (case openh264_release L s w of (st, s, w) \<Rightarrow> Some ((st, None), s, w))
      | SetRates parameters \<Rightarrow> (case openh264_set_rates L parameters s w of (s, w) \<Rightarrow> Some ((StatusOk, None), s, w)))"


subsection \<open>The decoder\<close>

record ('dec, 'cb) openh264_decoder =
  od_callback :: "'cb option"
  od_decoder :: "'dec option"

definition openh264_decoder_new :: "('dec, 'cb) openh264_decoder" where
  "openh264_decoder_new = \<lparr>od_callback = None, od_decoder = None\<rparr>"

text \<open>\<^verbatim>\<open>self.decoder = Decoder::new(..).ok()\<close>: a decoder that is replaced is dropped.\<close>

definition openh264_assign_decoder ::
    "('i, 'n, 'enc, 'dec, 'o, 'w, 'e) openh264_lib \<Rightarrow> ('dec, 'cb) openh264_decoder \<Rightarrow> 'w \<Rightarrow>
       bool \<times> ('dec, 'cb) openh264_decoder \<times> 'w" where
  "openh264_assign_decoder L s w =
     (let (result, w) = ol_decoder_new L w;
          w = (case od_decoder s of None \<Rightarrow> w | Some old \<Rightarrow> ol_drop_decoder L old w)
      in (ok_opt result \<noteq> None, s\<lparr>od_decoder := ok_opt result\<rparr>, w))"

definition openh264_ensure_decoder ::
    "('i, 'n, 'enc, 'dec, 'o, 'w, 'e) openh264_lib \<Rightarrow> ('dec, 'cb) openh264_decoder \<Rightarrow> 'w \<Rightarrow>
       bool \<times> ('dec, 'cb) openh264_decoder \<times> 'w" where
  "openh264_ensure_decoder L s w =
     (if od_decoder s = None then openh264_assign_decoder L s w else (True, s, w))"

definition openh264_configure ::
    "('i, 'n, 'enc, 'dec, 'o, 'w, 'e) openh264_lib \<Rightarrow> video_codec_type \<Rightarrow> ('dec, 'cb) openh264_decoder \<Rightarrow> 'w \<Rightarrow>
       bool \<times> ('dec, 'cb) openh264_decoder \<times> 'w" where
  "openh264_configure L codec_type s w =
     (if codec_type \<noteq> H264 then (False, s, w) else openh264_assign_decoder L s w)"

text \<open>The copy of a decoded picture into an \<^verbatim>\<open>I420Buffer\<close> with its own strides.\<close>

definition openh264_picture ::
    "('i, 'n, 'enc, 'dec, 'o, 'w, 'e) openh264_lib \<Rightarrow> 'o \<Rightarrow> decode_value \<Rightarrow> decoded_frame option" where
  "openh264_picture L decoded v =
     (case (ol_decoded_size L decoded, ol_decoded_strides L decoded) of
        ((decoded_width, decoded_height), (y_stride, u_stride, v_stride)) \<Rightarrow>
          do { width \<leftarrow> try_i32 (uint decoded_width);
               height \<leftarrow> try_i32 (uint decoded_height);
               src_stride_y \<leftarrow> try_i32 (uint y_stride);
               src_stride_u \<leftarrow> try_i32 (uint u_stride);
               src_stride_v \<leftarrow> try_i32 (uint v_stride);
               pixels \<leftarrow> ol_i420_copy L decoded (src_stride_y, src_stride_u, src_stride_v) width height;
               Some \<lparr>df_width = width, df_height = height, df_pixels = pixels,
                     df_timestamp_us = saturating_mul_i64 (dv_render_time_ms v) 1000,
                     df_rtp_timestamp = dv_rtp_timestamp v\<rparr> })"

definition openh264_decode ::
    "('i, 'n, 'enc, 'dec, 'o, 'w, 'e) openh264_lib \<Rightarrow> input_image \<Rightarrow> int \<Rightarrow> ('dec, 'cb) openh264_decoder \<Rightarrow> 'w \<Rightarrow>
       (video_codec_status \<times> ('cb \<times> decoded_frame) option) \<times> ('dec, 'cb) openh264_decoder \<times> 'w" where
  "openh264_decode L input render_time_ms s w =
     (case openh264_ensure_decoder L s w of (ready, s, w) \<Rightarrow>
        (case (od_decoder s, od_callback s, ig_data input) of
           (None, _, _) \<Rightarrow> ((StatusError, None), s, w)
         | (_, None, _) \<Rightarrow> ((StatusUninitialized, None), s, w)
         | (_, _, None) \<Rightarrow> ((StatusErrParameter, None), s, w)
         | (Some d, Some callback, Some data) \<Rightarrow>
             let (result, d, w) = ol_decode L data d w; s = s\<lparr>od_decoder := Some d\<rparr>
             in (case result of
                   Inl _ \<Rightarrow> ((StatusError, None), s, w)
                 | Inr None \<Rightarrow> ((StatusNoOutput, None), s, w)
                 | Inr (Some decoded) \<Rightarrow>
                     (case openh264_picture L decoded
                         \<lparr>dv_rtp_timestamp = ig_rtp_timestamp input, dv_render_time_ms = render_time_ms\<rparr> of
                        None \<Rightarrow> ((StatusError, None), s, w)
                      | Some frame \<Rightarrow> ((StatusOk, Some (callback, frame)), s, w)))))"

definition openh264_register_decoded ::
    "'cb option \<Rightarrow> ('dec, 'cb) openh264_decoder \<Rightarrow> video_codec_status \<times> ('dec, 'cb) openh264_decoder" where
  "openh264_register_decoded callback s = (StatusOk, s\<lparr>od_callback := callback\<rparr>)"

definition openh264_release_decoder ::
    "('i, 'n, 'enc, 'dec, 'o, 'w, 'e) openh264_lib \<Rightarrow> ('dec, 'cb) openh264_decoder \<Rightarrow> 'w \<Rightarrow>
       video_codec_status \<times> ('dec, 'cb) openh264_decoder \<times> 'w" where
  "openh264_release_decoder L s w =
     (StatusOk, s\<lparr>od_decoder := None, od_callback := None\<rparr>,
      case od_decoder s of None \<Rightarrow> w | Some old \<Rightarrow> ol_drop_decoder L old w)"

text \<open>
  The test of \<^verbatim>\<open>ensure_decoder\<close> is the test for a decoder: \<^verbatim>\<open>expect("decoder should exist")\<close>
  is not reached without one.
\<close>

lemma openh264_ensure_decoder_ready:
  "openh264_ensure_decoder L s w = (ready, s', w') \<Longrightarrow> ready \<longleftrightarrow> od_decoder s' \<noteq> None"
  by (auto simp: openh264_ensure_decoder_def openh264_assign_decoder_def split: if_splits prod.splits)

subsection \<open>The capability\<close>

definition openh264_supported_formats :: "sdp_format list" where
  "openh264_supported_formats =
     [sdp_set ''packetization-mode'' ''1'' (sdp_set ''level-asymmetry-allowed'' ''1''
        ((sdp_new ''H264'')\<lparr>sdp_scalability_modes := [''L1T1'']\<rparr>))]"

text \<open>\<open>loaded\<close> is the library that was loaded, as whether it encodes and decodes.\<close>

definition openh264_capability_new ::
    "webrtc \<Rightarrow> (sdp_format list \<Rightarrow> (sdp_format \<Rightarrow> ('enc, 'cb) openh264_encoder option) \<Rightarrow>
         sdp_format \<Rightarrow> ('enc, 'cb) openh264_encoder option) \<Rightarrow> 'e + bool \<times> bool \<Rightarrow>
       'e codec_error + (('enc, 'cb) openh264_encoder, ('dec, 'db) openh264_decoder) video_capability" where
  "openh264_capability_new W simulcast loaded =
     bindE (map_err CodecFailed loaded) (\<lambda>(encoding, decoding).
     if \<not> encoding \<or> \<not> decoding then
       Inl (CodecMessage ''OpenH264 does not support both encoder and decoder'')
     else Inr (backend_capability W simulcast \<lparr>vi_name = ''openh264'', vi_description = ''OpenH264''\<rparr>
       (\<lambda>_. openh264_supported_formats)
       (\<lambda>format. Option.bind (codec_type_from_format W format) (\<lambda>codec_type.
          if codec_type \<noteq> H264 then None else Some openh264_encoder_new))
       (\<lambda>format. Option.bind (codec_type_from_format W format) (\<lambda>codec_type.
          if codec_type \<noteq> H264 then None else Some openh264_decoder_new))))"

lemma openh264_formats: "openh264_supported_formats = supported_formats_for_codec H264"
  by (simp add: openh264_supported_formats_def supported_formats_for_codec_def)

subsection \<open>The encoder follows what was asked for\<close>






















lemma openh264_ready_returns:
  "oe_encoder s \<noteq> None \<Longrightarrow> openh264_encode_ready L frame wanted callback s w \<noteq> None"
  unfolding openh264_encode_ready_def by (auto simp del: not_None_eq split: option.split)

lemma openh264_rebuilt_encoder:
  "openh264_rebuild_encoder L s w = (Inr u, s', w') \<Longrightarrow> oe_encoder s' \<noteq> None"
  by (auto simp: openh264_rebuild_encoder_def split: option.splits prod.splits sum.splits)

text \<open>
  Fact. The encoder never panics: any calls from any state return.
\<close>

theorem openh264_never_panics: "\<exists>res. run_calls (openh264_step L) calls s w = Some res"
proof (induction calls arbitrary: s w)
  case (Cons c calls)
  have "openh264_encode L frame types s w \<noteq> None" for frame types
    by (auto simp: openh264_encode_def Let_def simp del: not_None_eq
        intro!: openh264_ready_returns dest: openh264_rebuilt_encoder
        split: option.split prod.split sum.split)
  then have "openh264_step L c s w \<noteq> None"
    by (auto simp: openh264_step_def split: encoder_call.split prod.splits)
  then obtain result s1 w1 where "openh264_step L c s w = Some (result, s1, w1)" by auto
  with Cons.IH [of s1 w1] show ?case by auto
qed simp

subsection \<open>An example\<close>












end
