(* ===== verification/Libcamera.thy ===== *)
theory Libcamera
  imports Version Url
begin

text \<open>
  \<^verbatim>\<open>src/libcamera.rs\<close>, all but the capture loop: the builder and the capturer with its thread, the
  native frame buffers, the layout of frame buffers in memory, the copies of captured planes and the
  controls. A \<^verbatim>\<open>usize\<close> of a slice is a natural number. The camera crate, \<^verbatim>\<open>mmap\<close>, \<^verbatim>\<open>dup\<close>
  and the copying functions of \<^verbatim>\<open>libwebrtc\<close> are parameters; texts are those of ASCII.
\<close>

datatype 'e libcamera_error =
    LibcameraMessage string
  | LibcameraFailed 'e
  | UnknownLibcameraControl string

definition dec_int :: "int \<Rightarrow> string" where
  "dec_int n = (if n < 0 then CHR ''-'' # dec (nat (- n)) else dec (nat n))"

subsection \<open>The builder\<close>

definition DEFAULT_CAMERA_INDEX :: u32 where "DEFAULT_CAMERA_INDEX = 0"

definition DEFAULT_WIDTH :: int where "DEFAULT_WIDTH = 640"

definition DEFAULT_HEIGHT :: int where "DEFAULT_HEIGHT = 480"

record capturer_builder =
  lb_camera_index :: u32
  lb_width :: int
  lb_height :: int
  lb_native_frame_output :: bool
  lb_controls :: "(string \<times> string) list"

definition capturer_builder_default :: capturer_builder where
  "capturer_builder_default =
     \<lparr>lb_camera_index = DEFAULT_CAMERA_INDEX, lb_width = DEFAULT_WIDTH, lb_height = DEFAULT_HEIGHT,
      lb_native_frame_output = False, lb_controls = []\<rparr>"

definition lb_set_camera_index :: "u32 \<Rightarrow> capturer_builder \<Rightarrow> capturer_builder" where
  "lb_set_camera_index camera_index b = b\<lparr>lb_camera_index := camera_index\<rparr>"

definition lb_set_width :: "int \<Rightarrow> capturer_builder \<Rightarrow> capturer_builder" where
  "lb_set_width width b = b\<lparr>lb_width := width\<rparr>"

definition lb_set_height :: "int \<Rightarrow> capturer_builder \<Rightarrow> capturer_builder" where
  "lb_set_height height b = b\<lparr>lb_height := height\<rparr>"

definition lb_set_native_frame_output :: "bool \<Rightarrow> capturer_builder \<Rightarrow> capturer_builder" where
  "lb_set_native_frame_output native_frame_output b = b\<lparr>lb_native_frame_output := native_frame_output\<rparr>"

definition lb_add_control :: "string \<Rightarrow> string \<Rightarrow> capturer_builder \<Rightarrow> capturer_builder" where
  "lb_add_control key value b = b\<lparr>lb_controls := lb_controls b @ [(key, value)]\<rparr>"

definition lb_add_controls :: "(string \<times> string) list \<Rightarrow> capturer_builder \<Rightarrow> capturer_builder" where
  "lb_add_controls controls b = b\<lparr>lb_controls := lb_controls b @ controls\<rparr>"

text \<open>\<open>'h\<close> is the handle of the thread.\<close>

record 'h video_capturer =
  lv_camera_index :: u32
  lv_width :: int
  lv_height :: int
  lv_native_frame_output :: bool
  lv_controls :: "(string \<times> string) list"
  lv_stop :: bool
  lv_thread :: "'h option"

definition lb_build :: "capturer_builder \<Rightarrow> 'e libcamera_error + 'h video_capturer" where
  "lb_build b =
     (if lb_width b \<le> 0 \<or> lb_height b \<le> 0 then
        Inl (LibcameraMessage (''width and height must be greater than 0: '' @ dec_int (lb_width b) @ ''x'' @
          dec_int (lb_height b)))
      else Inr \<lparr>lv_camera_index = lb_camera_index b, lv_width = lb_width b, lv_height = lb_height b,
        lv_native_frame_output = lb_native_frame_output b, lv_controls = lb_controls b, lv_stop = False,
        lv_thread = None\<rparr>)"

text \<open>
  \<open>spawn\<close> starts the thread with the settings of the capturer, \<open>join\<close> waits for it: it sees that the
  flag is set.
\<close>

definition capturer_start ::
    "('h video_capturer \<Rightarrow> 'w \<Rightarrow> ('e + 'h) \<times> 'w) \<Rightarrow> 'h video_capturer \<Rightarrow> 'w \<Rightarrow>
       ('e libcamera_error + unit) \<times> 'h video_capturer \<times> 'w" where
  "capturer_start spawn s w =
     (if lv_thread s \<noteq> None then (Inr (), s, w)
      else let s = s\<lparr>lv_stop := False\<rparr> in
        (case spawn s w of
           (Inl err, w) \<Rightarrow> (Inl (LibcameraFailed err), s, w)
         | (Inr handle, w) \<Rightarrow> (Inr (), s\<lparr>lv_thread := Some handle\<rparr>, w)))"

definition capturer_stop :: "('h \<Rightarrow> 'w \<Rightarrow> 'w) \<Rightarrow> 'h video_capturer \<Rightarrow> 'w \<Rightarrow> 'h video_capturer \<times> 'w" where
  "capturer_stop join s w =
     (s\<lparr>lv_stop := True, lv_thread := None\<rparr>,
      case lv_thread s of None \<Rightarrow> w | Some handle \<Rightarrow> join handle w)"

definition capturer_drop :: "('h \<Rightarrow> 'w \<Rightarrow> 'w) \<Rightarrow> 'h video_capturer \<Rightarrow> 'w \<Rightarrow> 'w" where
  "capturer_drop join s w = snd (capturer_stop join s w)"

subsection \<open>Native frame buffers\<close>

datatype frame_pixel_format = FormatI420 | FormatNV12

text \<open>
  \<open>nf_cookie\<close> is that of the token that is shared by all frames made of one capture; when the last of
  them is dropped it is sent back.
\<close>

record native_frame =
  nf_raw_width :: int
  nf_raw_height :: int
  nf_scaled_width :: int
  nf_scaled_height :: int
  nf_fd :: int
  nf_size :: u64
  nf_stride :: int
  nf_frame_pixel_format :: frame_pixel_format
  nf_cookie :: u64

definition nf_is_i420 :: "native_frame \<Rightarrow> bool" where
  "nf_is_i420 f \<longleftrightarrow> nf_frame_pixel_format f = FormatI420"

definition nf_is_nv12 :: "native_frame \<Rightarrow> bool" where
  "nf_is_nv12 f \<longleftrightarrow> nf_frame_pixel_format f = FormatNV12"

definition nf_width :: "native_frame \<Rightarrow> int" where "nf_width f = nf_scaled_width f"

definition nf_height :: "native_frame \<Rightarrow> int" where "nf_height f = nf_scaled_height f"

definition nf_to_i420 :: "native_frame \<Rightarrow> 'i option" where "nf_to_i420 f = None"

definition nf_crop_and_scale ::
    "int \<Rightarrow> int \<Rightarrow> int \<Rightarrow> int \<Rightarrow> int \<Rightarrow> int \<Rightarrow> native_frame \<Rightarrow> native_frame option" where
  "nf_crop_and_scale offset_x offset_y crop_width crop_height scaled_width scaled_height f =
     Some (f\<lparr>nf_scaled_width := scaled_width, nf_scaled_height := scaled_height\<rparr>)"

subsection \<open>The layout of a frame buffer\<close>

record frame_buffer_plane =
  fp_fd :: int
  fp_offset :: u32
  fp_length :: u32

record frame_buffer_layout =
  fl_planes :: "frame_buffer_plane list"
  fl_shared_fd :: int
  fl_mapped_len :: u64

text \<open>A frame buffer of the crate is the number of its planes and how they are read.\<close>

definition plane_end :: "frame_buffer_plane \<Rightarrow> u64" where
  "plane_end plane = ucast (fp_offset plane) + ucast (fp_length plane)"

definition collect_frame_buffer_layout ::
    "nat \<Rightarrow> (nat \<Rightarrow> frame_buffer_plane option) \<Rightarrow> 'e libcamera_error + frame_buffer_layout" where
  "collect_frame_buffer_layout planes_count plane =
     (if planes_count = 0 then Inl (LibcameraMessage ''frame buffer has no planes'')
      else bindE (mapE (\<lambda>index. ok_or
          (LibcameraMessage (''failed to get plane '' @ dec index @ '' from frame buffer'')) (plane index))
        [0..<planes_count]) (\<lambda>planes.
      case map fp_fd planes of
        [] \<Rightarrow> Inl (LibcameraMessage ''frame buffer has no planes'')
      | first_fd # fds \<Rightarrow>
          if \<not> (\<forall>fd \<in> set fds. fd = first_fd) then
            Inl (LibcameraMessage ''all frame planes must share the same fd'')
          else Inr \<lparr>fl_planes = planes, fl_shared_fd = first_fd,
            fl_mapped_len = fold max (map plane_end planes) 0\<rparr>))"

text \<open>A plane of a mapped buffer: \<open>mp_mapping\<close> is the memory, all of it.\<close>

record mapped_plane =
  mp_mapping :: bytes
  mp_data_offset :: nat
  mp_data_len :: nat

definition mp_as_slice :: "mapped_plane \<Rightarrow> bytes" where
  "mp_as_slice p = take (mp_data_len p) (drop (mp_data_offset p) (mp_mapping p))"

definition build_mapped_frame_buffer_planes ::
    "(int \<Rightarrow> u64 \<Rightarrow> 'e + bytes) \<Rightarrow> frame_buffer_layout \<Rightarrow> 'e libcamera_error + mapped_plane list" where
  "build_mapped_frame_buffer_planes mmap layout =
     bindE (map_err LibcameraFailed (mmap (fl_shared_fd layout) (fl_mapped_len layout))) (\<lambda>mapping.
     Inr (map (\<lambda>plane. \<lparr>mp_mapping = mapping, mp_data_offset = unat (fp_offset plane),
        mp_data_len = unat (fp_length plane)\<rparr>) (fl_planes layout)))"

record native_frame_info =
  ni_fd :: int
  ni_size :: u64

definition build_native_frame_info ::
    "(int \<Rightarrow> 'e + int) \<Rightarrow> frame_buffer_layout \<Rightarrow> 'e libcamera_error + native_frame_info" where
  "build_native_frame_info dup_fd layout =
     bindE (map_err LibcameraFailed (dup_fd (fl_shared_fd layout))) (\<lambda>fd.
     Inr \<lparr>ni_fd = fd, ni_size = fl_mapped_len layout\<rparr>)"

lemma unat_plane_end: "unat (plane_end p) = unat (fp_offset p) + unat (fp_length p)"
proof -
  have "unat (fp_offset p) + unat (fp_length p) < 2 ^ 64"
    using u32_bound [of "fp_offset p"] u32_bound [of "fp_length p"] by simp
  then show ?thesis by (simp add: plane_end_def unat_word_ariths)
qed

lemma fold_max_ge: "a \<le> fold max (xs :: 'a :: linorder list) a"
  by (induction xs arbitrary: a) (auto intro: order_trans [OF max.cobounded2])

lemma fold_max_member: "x \<in> set xs \<Longrightarrow> x \<le> fold max (xs :: 'a :: linorder list) a"
proof (induction xs arbitrary: a)
  case (Cons y xs)
  show ?case
  proof (cases "x = y")
    case True
    with fold_max_ge [of "max y a" xs] show ?thesis by (simp add: max.bounded_iff)
  qed (use Cons in simp)
qed simp

lemma collect_layoutE:
  assumes "collect_frame_buffer_layout n plane = (Inr layout :: 'e libcamera_error + _)"
  obtains planes fd fds where "length planes = n" "map fp_fd planes = fd # fds" "\<forall>f \<in> set fds. f = fd"
    "layout = \<lparr>fl_planes = planes, fl_shared_fd = fd, fl_mapped_len = fold max (map plane_end planes) 0\<rparr>"
proof -
  from assms obtain planes where planes: "list_all2 (\<lambda>index p. plane index = Some p) [0..<n] planes"
    and rest: "(case map fp_fd planes of
        [] \<Rightarrow> Inl (LibcameraMessage ''frame buffer has no planes'')
      | first_fd # fds \<Rightarrow>
          if \<not> (\<forall>fd \<in> set fds. fd = first_fd) then
            Inl (LibcameraMessage ''all frame planes must share the same fd'')
          else Inr \<lparr>fl_planes = planes, fl_shared_fd = first_fd,
            fl_mapped_len = fold max (map plane_end planes) 0\<rparr>) = (Inr layout :: 'e libcamera_error + _)"
    by (auto simp: collect_frame_buffer_layout_def bindE_eq_Inr mapE_Inr ok_or_eq
        simp del: list.map split: if_split_asm)
  from rest obtain fd fds where "map fp_fd planes = fd # fds"
    by (cases "map fp_fd planes") (simp_all del: list.map map_is_Nil_conv map_eq_Cons_conv)
  with rest that [of planes fd fds] list_all2_lengthD [OF planes] show thesis
    by (simp split: if_split_asm)
qed

lemma collect_layout_planes:
  assumes "collect_frame_buffer_layout n plane = Inr layout" and p: "p \<in> set (fl_planes layout)"
  shows "unat (fp_offset p) + unat (fp_length p) \<le> unat (fl_mapped_len layout) \<and>
    fp_fd p = fl_shared_fd layout"
  using assms(1)
proof (rule collect_layoutE)
  fix planes fd fds
  assume fds: "map fp_fd planes = fd # fds" "\<forall>f \<in> set fds. f = fd"
    and layout: "layout = \<lparr>fl_planes = planes, fl_shared_fd = fd, fl_mapped_len = fold max (map plane_end planes) 0\<rparr>"
  have "plane_end p \<le> fl_mapped_len layout"
    using p by (auto simp: layout intro!: fold_max_member)
  moreover have "fp_fd p \<in> set (map fp_fd planes)" using p by (simp add: layout)
  ultimately show ?thesis using fds by (auto simp: word_le_nat_alt unat_plane_end layout)
qed

text \<open>
  Fact. The planes of a mapped frame buffer lie inside of the memory that is mapped: as many bytes as
  their length are read, none behind the mapping, for the planes that the buffer has.
\<close>

theorem mapped_planes_inside:
  assumes "collect_frame_buffer_layout n plane = Inr layout"
    and "build_mapped_frame_buffer_planes mmap layout = (Inr planes :: 'e libcamera_error + _)"
    and "\<And>fd len memory. mmap fd len = Inr memory \<Longrightarrow> length memory = unat len"
  shows "length planes = n \<and>
    (\<forall>p \<in> set planes. mp_data_offset p + mp_data_len p \<le> length (mp_mapping p) \<and>
      length (mp_as_slice p) = mp_data_len p)"
proof -
  have n: "length (fl_planes layout) = n" using assms(1) by (rule collect_layoutE) simp
  from assms(2) obtain memory where memory: "mmap (fl_shared_fd layout) (fl_mapped_len layout) = Inr memory"
    and planes: "planes = map (\<lambda>plane. \<lparr>mp_mapping = memory, mp_data_offset = unat (fp_offset plane),
        mp_data_len = unat (fp_length plane)\<rparr>) (fl_planes layout)"
    by (auto simp: build_mapped_frame_buffer_planes_def bindE_eq_Inr map_err_eq)
  have "unat (fp_offset p) + unat (fp_length p) \<le> length memory" if "p \<in> set (fl_planes layout)" for p
    using collect_layout_planes [OF assms(1) that] assms(3) [OF memory] by simp
  then have "min (length memory - unat (fp_offset p)) (unat (fp_length p)) = unat (fp_length p)"
    "unat (fp_offset p) + unat (fp_length p) \<le> length memory" if "p \<in> set (fl_planes layout)" for p
    using that(1) by fastforce+
  with n show ?thesis by (simp add: planes mp_as_slice_def)
qed

theorem mapped_planes_inside_witness:
  "\<exists>planes. build_mapped_frame_buffer_planes (\<lambda>fd len. Inr (replicate (unat len) 0))
      \<lparr>fl_planes = [\<lparr>fp_fd = 3, fp_offset = 0, fp_length = 8\<rparr>, \<lparr>fp_fd = 3, fp_offset = 8, fp_length = 4\<rparr>],
       fl_shared_fd = 3, fl_mapped_len = 12\<rparr> = (Inr planes :: unit libcamera_error + _) \<and> length planes = 2"
proof -
  let ?plane = "\<lambda>i. Some (if i = (0 :: nat) then \<lparr>fp_fd = 3, fp_offset = 0, fp_length = 8\<rparr>
    else \<lparr>fp_fd = 3, fp_offset = 8, fp_length = 4\<rparr>)"
  let ?layout = "\<lparr>fl_planes = [\<lparr>fp_fd = 3, fp_offset = 0, fp_length = 8\<rparr>,
    \<lparr>fp_fd = 3, fp_offset = 8, fp_length = 4\<rparr>], fl_shared_fd = 3, fl_mapped_len = 12\<rparr>"
  let ?mmap = "\<lambda>fd len. Inr (replicate (unat len) 0) :: unit + bytes"
  have layout: "collect_frame_buffer_layout 2 ?plane = (Inr ?layout :: unit libcamera_error + _)"
    by (simp add: collect_frame_buffer_layout_def upt_rec plane_end_def)
  obtain planes where "build_mapped_frame_buffer_planes ?mmap ?layout = (Inr planes :: unit libcamera_error + _)"
    by (simp add: build_mapped_frame_buffer_planes_def)
  with mapped_planes_inside [OF layout this] show ?thesis by auto
qed


subsection \<open>Copies of captured planes\<close>

definition plane_stride_from_len :: "nat \<Rightarrow> nat \<Rightarrow> int option" where
  "plane_stride_from_len plane_len rows =
     (if rows = 0 \<or> plane_len = 0 \<or> plane_len mod rows \<noteq> 0 then None
      else let stride = int (plane_len div rows)
        in if stride \<le> 2147483647 then Some stride else None)"

definition div_ceil2 :: "nat \<Rightarrow> nat" where
  "div_ceil2 n = (if n mod 2 > 0 then n div 2 + 1 else n div 2)"

definition plane_stride ::
    "string \<Rightarrow> bytes \<Rightarrow> nat \<Rightarrow> 'e libcamera_error + int" where
  "plane_stride name plane rows =
     ok_or (LibcameraMessage (''invalid '' @ name @ '' stride: bytes='' @ dec (length plane) @ '' rows='' @ dec rows))
       (plane_stride_from_len (length plane) rows)"

text \<open>The copying functions get the planes with their strides, and the size.\<close>

definition copy_i420_planes_to_buffer ::
    "(bytes \<times> int \<Rightarrow> bytes \<times> int \<Rightarrow> bytes \<times> int \<Rightarrow> int \<Rightarrow> int \<Rightarrow> 'b option) \<Rightarrow> bytes list \<Rightarrow> int \<Rightarrow> int \<Rightarrow>
       'e libcamera_error + 'b" where
  "copy_i420_planes_to_buffer i420_copy planes width height =
     (if width \<le> 0 \<or> height \<le> 0 \<or> length planes < 3 then
        Inl (LibcameraMessage (''invalid i420 frame metadata: width='' @ dec_int width @ '' height='' @
          dec_int height @ '' planes='' @ dec (length planes)))
      else let height_rows = nat height; chroma_rows = div_ceil2 (nat height);
             src_y = planes ! 0; src_u = planes ! 1; src_v = planes ! 2 in
        bindE (plane_stride ''i420 y'' src_y height_rows) (\<lambda>src_stride_y.
        bindE (plane_stride ''i420 u'' src_u chroma_rows) (\<lambda>src_stride_u.
        bindE (plane_stride ''i420 v'' src_v chroma_rows) (\<lambda>src_stride_v.
        ok_or (LibcameraMessage ''failed to copy i420 frame'')
          (i420_copy (src_y, src_stride_y) (src_u, src_stride_u) (src_v, src_stride_v) width height)))))"

definition copy_nv12_planes_to_buffer ::
    "(bytes \<times> int \<Rightarrow> bytes \<times> int \<Rightarrow> int \<Rightarrow> int \<Rightarrow> 'b option) \<Rightarrow> bytes list \<Rightarrow> int \<Rightarrow> int \<Rightarrow>
       'e libcamera_error + 'b" where
  "copy_nv12_planes_to_buffer nv12_copy planes width height =
     (if width \<le> 0 \<or> height \<le> 0 \<or> length planes < 2 then
        Inl (LibcameraMessage (''invalid nv12 frame metadata: width='' @ dec_int width @ '' height='' @
          dec_int height @ '' planes='' @ dec (length planes)))
      else let height_rows = nat height; chroma_rows = div_ceil2 (nat height);
             src_y = planes ! 0; src_uv = planes ! 1 in
        bindE (plane_stride ''nv12 y'' src_y height_rows) (\<lambda>src_stride_y.
        bindE (plane_stride ''nv12 uv'' src_uv chroma_rows) (\<lambda>src_stride_uv.
        ok_or (LibcameraMessage ''failed to copy nv12 frame'')
          (nv12_copy (src_y, src_stride_y) (src_uv, src_stride_uv) width height))))"

lemma plane_stride_from_len_Some:
  "plane_stride_from_len n rows = Some stride \<longleftrightarrow>
     rows > 0 \<and> stride > 0 \<and> stride \<le> 2147483647 \<and> nat stride * rows = n"
proof
  assume some: "plane_stride_from_len n rows = Some stride"
  then have "rows > 0" "n > 0" "n mod rows = 0" "stride = int (n div rows)" "stride \<le> 2147483647"
    by (auto simp: plane_stride_from_len_def Let_def split: if_splits)
  moreover from this have "n div rows > 0"
    by (metis div_greater_zero_iff mod_less neq0_conv not_le)
  ultimately show "rows > 0 \<and> stride > 0 \<and> stride \<le> 2147483647 \<and> nat stride * rows = n"
    by (auto simp: dvd_imp_mod_0 mod_0_imp_dvd)
next
  assume "rows > 0 \<and> stride > 0 \<and> stride \<le> 2147483647 \<and> nat stride * rows = n"
  then show "plane_stride_from_len n rows = Some stride"
    by (auto simp: plane_stride_from_len_def Let_def)
qed

lemma plane_stride_Inr:
  "plane_stride name plane rows = Inr stride \<longleftrightarrow>
     rows > 0 \<and> stride > 0 \<and> stride \<le> 2147483647 \<and> nat stride * rows = length plane"
  by (simp add: plane_stride_def ok_or_eq plane_stride_from_len_Some)

text \<open>
  Fact. A captured I420 frame is only copied with strides that fit its planes: the rows of a plane, of
  half the height for the chroma planes, are exactly its bytes, so no row that is read ends behind it.
\<close>

theorem i420_copy_in_bounds:
  assumes "copy_i420_planes_to_buffer (\<lambda>y u v width height. Some (y, u, v, width, height)) planes width height =
      (Inr ((y, stride_y), (u, stride_u), (v, stride_v), w, h) :: 'e libcamera_error + _)"
  shows "take 3 planes = [y, u, v] \<and> w = width \<and> h = height \<and> 0 < width \<and> 0 < height \<and>
    nat stride_y * nat height = length y \<and>
    nat stride_u * ((nat height + 1) div 2) = length u \<and> nat stride_v * ((nat height + 1) div 2) = length v"
proof -
  have half: "div_ceil2 n = (n + 1) div 2" for n unfolding div_ceil2_def by presburger
  from assms have len: "3 \<le> length planes" "0 < width" "0 < height"
    by (auto simp: copy_i420_planes_to_buffer_def split: if_splits)
  then obtain a b c rest where "planes = a # b # c # rest"
    by (auto simp: numeral_3_eq_3 Suc_le_length_iff)
  with assms len show ?thesis
    by (auto simp: copy_i420_planes_to_buffer_def bindE_eq_Inr plane_stride_Inr half Let_def)
qed

theorem i420_copy_in_bounds_witness:
  "take 3 [[1, 2, 3, 4], [5], [6]] = [[1, 2, 3, 4], [5], [6 :: u8]] \<and>
    nat 2 * nat 2 = length [1, 2, 3, 4 :: u8]"
proof -
  have "copy_i420_planes_to_buffer (\<lambda>y u v width height. Some (y, u, v, width, height))
      [[1, 2, 3, 4], [5], [6]] 2 2 =
    (Inr (([1, 2, 3, 4], 2), ([5], 1), ([6], 1), 2, 2) :: unit libcamera_error + _)"
    by (simp add: copy_i420_planes_to_buffer_def plane_stride_def plane_stride_from_len_def div_ceil2_def)
  from i420_copy_in_bounds [OF this] show ?thesis by simp
qed


subsection \<open>Controls\<close>

text \<open>
  A control of the crate, and its values. \<open>lc_control\<close> and \<open>lc_constant\<close> are the constants of the crate by
  name; \<open>lc_parse_f32\<close> reads a decimal number into an \<^verbatim>\<open>f32\<close>, which is not modelled.
\<close>

datatype control_type = CtBool | CtInt32 | CtInt64 | CtFloat | CtRectangle | CtOther

datatype control_direction = DirIn | DirOut | DirInOut

record control_id =
  ci_name :: string
  ci_type :: control_type
  ci_direction :: control_direction

record rectangle =
  re_x :: int
  re_y :: int
  re_width :: nat
  re_height :: nat

datatype 'f control_value =
    CvBool bool
  | CvI32 int
  | CvI64 int
  | CvF32 'f
  | CvI32Array "int list"
  | CvI64Array "int list"
  | CvF32Array "'f list"
  | CvRect rectangle
  | CvRectArray "rectangle list"

record 'f parsed_control =
  pc_id :: control_id
  pc_value :: "'f control_value"

record 'f camera_crate =
  lc_control :: "string \<Rightarrow> control_id"
  lc_constant :: "string \<Rightarrow> int"
  lc_parse_f32 :: "string \<Rightarrow> 'f option"

definition CONTROL_IDS :: "string list" where
  "CONTROL_IDS = [
     ''core::AE_ENABLE'', ''core::AE_STATE'', ''core::AE_METERING_MODE'', ''core::AE_CONSTRAINT_MODE'',
     ''core::AE_EXPOSURE_MODE'', ''core::EXPOSURE_VALUE'', ''core::EXPOSURE_TIME'',
     ''core::EXPOSURE_TIME_MODE'', ''core::ANALOGUE_GAIN'', ''core::ANALOGUE_GAIN_MODE'',
     ''core::AE_FLICKER_MODE'', ''core::AE_FLICKER_PERIOD'', ''core::AE_FLICKER_DETECTED'',
     ''core::BRIGHTNESS'', ''core::CONTRAST'', ''core::LUX'', ''core::AWB_ENABLE'', ''core::AWB_MODE'',
     ''core::AWB_LOCKED'', ''core::COLOUR_GAINS'', ''core::COLOUR_TEMPERATURE'', ''core::SATURATION'',
     ''core::SENSOR_BLACK_LEVELS'', ''core::SHARPNESS'', ''core::FOCUS_FOM'',
     ''core::COLOUR_CORRECTION_MATRIX'', ''core::SCALER_CROP'', ''core::DIGITAL_GAIN'',
     ''core::FRAME_DURATION'', ''core::FRAME_DURATION_LIMITS'', ''core::SENSOR_TEMPERATURE'',
     ''core::SENSOR_TIMESTAMP'', ''core::AF_MODE'', ''core::AF_RANGE'', ''core::AF_SPEED'',
     ''core::AF_METERING'', ''core::AF_WINDOWS'', ''core::AF_TRIGGER'', ''core::AF_PAUSE'',
     ''core::LENS_POSITION'', ''core::AF_STATE'', ''core::AF_PAUSE_STATE'', ''core::HDR_MODE'',
     ''core::HDR_CHANNEL'', ''core::GAMMA'', ''core::DEBUG_METADATA_ENABLE'',
     ''core::FRAME_WALL_CLOCK'', ''core::WDR_MODE'', ''core::WDR_STRENGTH'',
     ''core::WDR_MAX_BRIGHT_PIXELS'', ''core::LENS_DEWARP_ENABLE'',
     ''core::LENS_SHADING_CORRECTION_ENABLE'', ''draft::AE_PRECAPTURE_TRIGGER'',
     ''draft::NOISE_REDUCTION_MODE'', ''draft::COLOR_CORRECTION_ABERRATION_MODE'', ''draft::AWB_STATE'',
     ''draft::SENSOR_ROLLING_SHUTTER_SKEW'', ''draft::LENS_SHADING_MAP_MODE'',
     ''draft::PIPELINE_DEPTH'', ''draft::MAX_LATENCY'', ''draft::TEST_PATTERN_MODE'',
     ''draft::FACE_DETECT_MODE'', ''draft::FACE_DETECT_FACE_RECTANGLES'',
     ''draft::FACE_DETECT_FACE_SCORES'', ''draft::FACE_DETECT_FACE_LANDMARKS'',
     ''draft::FACE_DETECT_FACE_IDS'', ''rpi::STATS_OUTPUT_ENABLE'', ''rpi::BCM2835_STATS_OUTPUT'',
     ''rpi::SCALER_CROPS'', ''rpi::PISP_STATS_OUTPUT'', ''rpi::SYNC_MODE'', ''rpi::SYNC_READY'',
     ''rpi::SYNC_TIMER'', ''rpi::SYNC_FRAMES'', ''rpi::CNN_OUTPUT_TENSOR'',
     ''rpi::CNN_OUTPUT_TENSOR_INFO'', ''rpi::CNN_ENABLE_INPUT_TENSOR'', ''rpi::CNN_INPUT_TENSOR'',
     ''rpi::CNN_INPUT_TENSOR_INFO'', ''rpi::CNN_KPI_INFO'']"

definition all_control_ids :: "'f camera_crate \<Rightarrow> control_id list" where
  "all_control_ids C = map (lc_control C) CONTROL_IDS"

definition find_control_id :: "'f camera_crate \<Rightarrow> string \<Rightarrow> control_id option" where
  "find_control_id C name = find (\<lambda>ident. ci_name ident = name) (all_control_ids C)"

text \<open>\<^verbatim>\<open>str::parse\<close> of a signed number whose largest value is \<open>m\<close>.\<close>

definition parse_int :: "nat \<Rightarrow> string \<Rightarrow> int option" where
  "parse_int m s =
     (case s of
        [] \<Rightarrow> None
      | c # cs \<Rightarrow>
          if c = CHR ''-'' then (if cs = [] then None else map_option (\<lambda>n. - int n) (parse_digits (m + 1) 0 cs))
          else map_option int (parse_uint m s))"

abbreviation parse_i32 :: "string \<Rightarrow> int option" where
  "parse_i32 \<equiv> parse_int 2147483647"

abbreviation parse_i64 :: "string \<Rightarrow> int option" where
  "parse_i64 \<equiv> parse_int 9223372036854775807"

definition ENUM_VALUES :: "(string \<times> (string \<times> string) list) list" where
  "ENUM_VALUES =
     [(''AfMode'',
       [(''Manual'', ''core::af_mode::MANUAL''), (''Auto'', ''core::af_mode::AUTO''),
        (''Continuous'', ''core::af_mode::CONTINUOUS'')]),
      (''AfRange'',
       [(''Normal'', ''core::af_range::NORMAL''), (''Macro'', ''core::af_range::MACRO''),
        (''Full'', ''core::af_range::FULL'')]),
      (''AfSpeed'',
       [(''Normal'', ''core::af_speed::NORMAL''), (''Fast'', ''core::af_speed::FAST'')]),
      (''AfTrigger'',
       [(''Start'', ''core::af_trigger::START''), (''Cancel'', ''core::af_trigger::CANCEL'')]),
      (''AeMeteringMode'',
       [(''CentreWeighted'', ''core::ae_metering_mode::CENTRE_WEIGHTED''),
        (''Spot'', ''core::ae_metering_mode::SPOT''), (''Matrix'', ''core::ae_metering_mode::MATRIX''),
        (''Custom'', ''core::ae_metering_mode::CUSTOM'')]),
      (''AeConstraintMode'',
       [(''Normal'', ''core::ae_constraint_mode::NORMAL''),
        (''Highlight'', ''core::ae_constraint_mode::HIGHLIGHT''),
        (''Shadows'', ''core::ae_constraint_mode::SHADOWS''),
        (''Custom'', ''core::ae_constraint_mode::CUSTOM'')]),
      (''AeExposureMode'',
       [(''Normal'', ''core::ae_exposure_mode::NORMAL''),
        (''Short'', ''core::ae_exposure_mode::SHORT''), (''Long'', ''core::ae_exposure_mode::LONG''),
        (''Custom'', ''core::ae_exposure_mode::CUSTOM'')]),
      (''ExposureTimeMode'',
       [(''Auto'', ''core::exposure_time_mode::AUTO''),
        (''Manual'', ''core::exposure_time_mode::MANUAL'')]),
      (''AnalogueGainMode'',
       [(''Auto'', ''core::analogue_gain_mode::AUTO''),
        (''Manual'', ''core::analogue_gain_mode::MANUAL'')]),
      (''AwbMode'',
       [(''Auto'', ''core::awb_mode::AUTO''), (''Incandescent'', ''core::awb_mode::INCANDESCENT''),
        (''Tungsten'', ''core::awb_mode::TUNGSTEN''),
        (''Fluorescent'', ''core::awb_mode::FLUORESCENT''), (''Indoor'', ''core::awb_mode::INDOOR''),
        (''Daylight'', ''core::awb_mode::DAYLIGHT''), (''Cloudy'', ''core::awb_mode::CLOUDY''),
        (''Custom'', ''core::awb_mode::CUSTOM'')]),
      (''HdrMode'',
       [(''Off'', ''core::hdr_mode::OFF''),
        (''MultiExposureUnmerged'', ''core::hdr_mode::MULTI_EXPOSURE_UNMERGED''),
        (''MultiExposure'', ''core::hdr_mode::MULTI_EXPOSURE''),
        (''SingleExposure'', ''core::hdr_mode::SINGLE_EXPOSURE''),
        (''Night'', ''core::hdr_mode::NIGHT'')]),
      (''WdrMode'',
       [(''Off'', ''core::wdr_mode::OFF''), (''Linear'', ''core::wdr_mode::LINEAR''),
        (''Power'', ''core::wdr_mode::POWER''), (''Exponential'', ''core::wdr_mode::EXPONENTIAL''),
        (''HistogramEqualization'', ''core::wdr_mode::HISTOGRAM_EQUALIZATION'')]),
      (''NoiseReductionMode'',
       [(''Off'', ''draft::noise_reduction_mode::OFF''),
        (''Fast'', ''draft::noise_reduction_mode::FAST''),
        (''HighQuality'', ''draft::noise_reduction_mode::HIGH_QUALITY''),
        (''Minimal'', ''draft::noise_reduction_mode::MINIMAL''),
        (''ZSL'', ''draft::noise_reduction_mode::ZSL'')])]"

definition resolve_enum_value :: "'f camera_crate \<Rightarrow> string \<Rightarrow> string \<Rightarrow> int option" where
  "resolve_enum_value C control_name value_str =
     (case parse_i32 value_str of
        Some v \<Rightarrow> Some v
      | None \<Rightarrow>
          do { values \<leftarrow> map_of ENUM_VALUES control_name;
               constant \<leftarrow> map_of values value_str;
               Some (lc_constant C constant) })"

definition parse_rectangle :: "string \<Rightarrow> rectangle option" where
  "parse_rectangle value =
     (let parts = map (trim_by is_space) (split_on (CHR '','') value) in
      if length parts \<noteq> 4 then None
      else do { x \<leftarrow> parse_i32 (parts ! 0);
                y \<leftarrow> parse_i32 (parts ! 1);
                width \<leftarrow> parse_uint 4294967295 (parts ! 2);
                height \<leftarrow> parse_uint 4294967295 (parts ! 3);
                Some \<lparr>re_x = x, re_y = y, re_width = width, re_height = height\<rparr> })"

text \<open>\<^verbatim>\<open>collect\<close> of parsed parts into an option.\<close>

definition parse_parts :: "(string \<Rightarrow> 'a option) \<Rightarrow> char \<Rightarrow> string \<Rightarrow> 'a list option" where
  "parse_parts parse c value =
     those (map (parse \<circ> trim_by is_space) (split_on c value))"

definition parse_control_value :: "'f camera_crate \<Rightarrow> control_id \<Rightarrow> string \<Rightarrow> 'f control_value option" where
  "parse_control_value C ident value =
     (case ci_type ident of
        CtBool \<Rightarrow>
          (let lower = map ascii_lower value in
           if lower = ''0'' \<or> lower = ''false'' then Some (CvBool False)
           else if lower = ''1'' \<or> lower = ''true'' then Some (CvBool True)
           else None)
      | CtInt32 \<Rightarrow>
          (case resolve_enum_value C (ci_name ident) value of
             Some enum_value \<Rightarrow> Some (CvI32 enum_value)
           | None \<Rightarrow>
               if CHR '','' \<in> set value then map_option CvI32Array (parse_parts parse_i32 (CHR '','') value)
               else map_option CvI32 (parse_i32 value))
      | CtInt64 \<Rightarrow>
          if CHR '','' \<in> set value then map_option CvI64Array (parse_parts parse_i64 (CHR '','') value)
          else map_option CvI64 (parse_i64 value)
      | CtFloat \<Rightarrow>
          if CHR '','' \<in> set value then map_option CvF32Array (parse_parts (lc_parse_f32 C) (CHR '','') value)
          else map_option CvF32 (lc_parse_f32 C value)
      | CtRectangle \<Rightarrow>
          if CHR '';'' \<in> set value then map_option CvRectArray (parse_parts parse_rectangle (CHR '';'') value)
          else map_option CvRect (parse_rectangle value)
      | CtOther \<Rightarrow> None)"

fun parse_controls ::
    "'f camera_crate \<Rightarrow> (string \<times> string) list \<Rightarrow> 'e libcamera_error + 'f parsed_control list" where
  "parse_controls C [] = Inr []"
| "parse_controls C ((key, raw_value) # controls) =
     (case find_control_id C key of
        None \<Rightarrow> Inl (UnknownLibcameraControl key)
      | Some ident \<Rightarrow>
          if ci_direction ident = DirOut then parse_controls C controls
          else (case parse_control_value C ident raw_value of
             None \<Rightarrow> parse_controls C controls
           | Some v \<Rightarrow>
               bindE (parse_controls C controls) (\<lambda>parsed. Inr (\<lparr>pc_id = ident, pc_value = v\<rparr> # parsed))))"

text \<open>The control list of a request: for each control that was set its value, the last one last.\<close>

definition apply_controls ::
    "'f parsed_control list \<Rightarrow> (control_id \<times> 'f control_value) list \<Rightarrow> (control_id \<times> 'f control_value) list" where
  "apply_controls controls control_list =
     fold (\<lambda>control control_list. control_list @ [(pc_id control, pc_value control)]) controls control_list"

lemma apply_controls_append:
  "apply_controls controls control_list = control_list @ map (\<lambda>c. (pc_id c, pc_value c)) controls"
  by (induction controls arbitrary: control_list) (simp_all add: apply_controls_def)

text \<open>
  Fact. The controls are read unless a name is unknown, and the error names the first such. What is set
  on every request are the values that can be read of the controls that can be written, in the order
  they were given.
\<close>

theorem parse_controls_spec:
  "parse_controls C controls =
     (case find (\<lambda>(key, _). find_control_id C key = None) controls of
        Some (key, _) \<Rightarrow> Inl (UnknownLibcameraControl key)
      | None \<Rightarrow> Inr (List.map_filter (\<lambda>(key, raw_value).
          do { ident \<leftarrow> find_control_id C key;
               v \<leftarrow> if ci_direction ident = DirOut then None else parse_control_value C ident raw_value;
               Some \<lparr>pc_id = ident, pc_value = v\<rparr> }) controls))"
  by (induction controls) (auto simp: List.map_filter_simps split: option.splits bind_splits if_splits)

end
