(* ===== verification/V4l2.thy ===== *)
theory V4l2
  imports Hw_Codec Libcamera
begin

text \<open>
  \<^verbatim>\<open>src/video_codecs/v4l2.rs\<close>: the encoder and decoder on the memory-to-memory devices of V4L2, as it
  is built with the feature \<^verbatim>\<open>libcamera\<close>. The encoder has two inputs: pictures in memory, and native
  frames of the camera, which a converter scales before the encoder gets them in its callback. Both are
  rebuilt when the input changes. The devices are the parameter \<open>v4l2_lib\<close>; the shared state with its
  lock is part of the state, as each of its critical sections is one step.
\<close>

subsection \<open>Pictures\<close>

definition div_ceil2_u32 :: "u32 \<Rightarrow> u32" where
  "div_ceil2_u32 n = (if n mod 2 > 0 then n div 2 + 1 else n div 2)"

definition checked_mul_u32 :: "u32 \<Rightarrow> u32 \<Rightarrow> u32 option" where
  "checked_mul_u32 a b = (if unat a * unat b < 4294967296 then Some (a * b) else None)"

text \<open>A decoded picture: the planes are cut out of the data; \<open>i420_copy\<close> gets them with their strides.\<close>

type_synonym 'b i420_copy = "bytes \<times> int \<Rightarrow> bytes \<times> int \<Rightarrow> bytes \<times> int \<Rightarrow> int \<Rightarrow> int \<Rightarrow> 'b option"

definition build_i420_frame ::
    "'b i420_copy \<Rightarrow> bytes \<Rightarrow> u32 \<Rightarrow> u32 \<Rightarrow> u32 \<Rightarrow> int \<Rightarrow> u32 \<Rightarrow> ('b \<times> int \<times> u32) option" where
  "build_i420_frame i420_copy data width height stride timestamp_us rtp_timestamp =
     do { let chroma_stride = div_ceil2_u32 stride;
          let chroma_height = div_ceil2_u32 height;
          y <- checked_mul_u32 stride height;
          uv <- checked_mul_u32 chroma_stride chroma_height;
          let y_size = unat y;
          let uv_size = unat uv;
          let total_size = y_size + uv_size * 2;
          if length data < total_size then None
          else do {
            let src_y = take y_size data;
            let src_u = take uv_size (drop y_size data);
            let src_v = take uv_size (drop (y_size + uv_size) data);
            src_stride_y <- try_i32 (uint stride);
            src_stride_uv <- try_i32 (uint chroma_stride);
            width_i32 <- try_i32 (uint width);
            height_i32 <- try_i32 (uint height);
            pixels <- i420_copy (src_y, src_stride_y) (src_u, src_stride_uv) (src_v, src_stride_uv)
              width_i32 height_i32;
            Some (pixels, timestamp_us, rtp_timestamp) } }"

text \<open>
  Fact. A decoded picture is only built from planes that lie one after another in the data and have the
  bytes their strides and heights say.
\<close>

theorem build_i420_frame_planes:
  assumes "build_i420_frame (\<lambda>y u v width height. Some (y, u, v)) data width height stride t rtp =
    Some (((y, stride_y), (u, stride_u), (v, stride_v)), t', rtp')"
  shows "\<exists>rest. data = y @ u @ v @ rest \<and> t' = t \<and> rtp' = rtp \<and>
    length y = nat stride_y * unat height \<and>
    length u = nat stride_u * ((unat height + 1) div 2) \<and> length v = nat stride_v * ((unat height + 1) div 2)"
proof -
  have half: "unat (div_ceil2_u32 n) = (unat n + 1) div 2" for n
  proof -
    have "unat n div 2 + 1 < 2 ^ 32" using u32_bound [of n] by simp
    moreover have "unat (n div 2 + 1) = unat n div 2 + 1" if "unat n div 2 + 1 < 2 ^ 32"
      using that by (simp add: unat_word_ariths unat_div_distrib)
    moreover have "n mod 2 > 0 \<longleftrightarrow> unat n mod 2 > 0"
      by (simp add: word_less_nat_alt unat_mod_distrib)
    ultimately show ?thesis
      unfolding div_ceil2_u32_def by (simp add: unat_div_distrib) presburger
  qed
  have mul: "unat a * unat b = unat p" if "checked_mul_u32 a b = Some p" for a b p
    using that by (auto simp: checked_mul_u32_def unat_word_ariths split: if_splits)
  have stride: "nat i = unat n" if "try_i32 (uint n) = Some i" for n :: u32 and i
    using that by (auto simp: try_i32_def split: if_splits)
  from assms obtain py puv where p: "checked_mul_u32 stride height = Some py"
      "checked_mul_u32 (div_ceil2_u32 stride) (div_ceil2_u32 height) = Some puv"
      "unat py + unat puv * 2 \<le> length data"
    and planes: "y = take (unat py) data" "u = take (unat puv) (drop (unat py) data)"
      "v = take (unat puv) (drop (unat py + unat puv) data)"
    and strides: "try_i32 (uint stride) = Some stride_y" "try_i32 (uint (div_ceil2_u32 stride)) = Some stride_u"
      "stride_v = stride_u" and t: "t' = t" "rtp' = rtp"
    by (auto simp: build_i420_frame_def Let_def bind_eq_Some_conv split: if_splits)
  have "data = y @ u @ v @ drop (unat py + 2 * unat puv) data"
    by (simp add: planes flip: append_assoc take_add) (simp add: mult_2 flip: take_add add.assoc)
  moreover have "length y = unat py" "length u = unat puv" "length v = unat puv"
    using p(3) by (simp_all add: planes)
  ultimately show ?thesis
    using mul [OF p(1)] mul [OF p(2)] half [of height] stride [OF strides(1)] stride [OF strides(2)] strides(3) t
    by (intro exI [of _ "drop (unat py + 2 * unat puv) data"]) simp
qed

theorem build_i420_frame_planes_witness:
  "\<exists>rest. replicate 13 7 = replicate 8 7 @ replicate 2 7 @ replicate 2 (7 :: u8) @ rest"
proof -
  have "build_i420_frame (\<lambda>y u v width height. Some (y, u, v)) (replicate 13 7) 3 2 4 0 90 =
      Some (((replicate 8 7, 4), (replicate 2 7, 2), (replicate 2 7, 2)), 0, 90)"
    by (simp add: build_i420_frame_def div_ceil2_u32_def checked_mul_u32_def try_i32_def I32_MAX_def)
  from build_i420_frame_planes [OF this] show ?thesis by auto
qed


subsection \<open>The encoder\<close>

datatype 'e v4l2_error = NoAvailableBuffer | V4l2Failed 'e

datatype native_pixel_format = NativeI420 | NativeNV12

datatype v4l2_pixel_format = PixelYuv420 | PixelNv12

datatype v4l2_memory = MemoryDmaBuf

datatype encoder_input_mode = MmapI420 | NativeDmabuf

definition native_pixel_format_of :: "native_frame \<Rightarrow> native_pixel_format option" where
  "native_pixel_format_of frame =
     (if nf_is_i420 frame then Some NativeI420 else if nf_is_nv12 frame then Some NativeNV12 else None)"

definition to_v4l2_pixel_format :: "native_pixel_format \<Rightarrow> v4l2_pixel_format" where
  "to_v4l2_pixel_format f = (case f of NativeI420 \<Rightarrow> PixelYuv420 | NativeNV12 \<Rightarrow> PixelNv12)"

definition try_u32 :: "int \<Rightarrow> u32 option" where
  "try_u32 v = (if 0 \<le> v \<and> v < 4294967296 then Some (word_of_int v) else None)"

record native_input_config =
  nc_raw_width :: u32
  nc_raw_height :: u32
  nc_scaled_width :: u32
  nc_scaled_height :: u32
  nc_pixel_format :: native_pixel_format

definition native_input_config_of :: "native_frame \<Rightarrow> native_input_config option" where
  "native_input_config_of frame =
     do { raw_width <- try_u32 (nf_raw_width frame);
          raw_height <- try_u32 (nf_raw_height frame);
          scaled_width <- try_u32 (nf_scaled_width frame);
          scaled_height <- try_u32 (nf_scaled_height frame);
          if raw_width = 0 \<or> raw_height = 0 \<or> scaled_width = 0 \<or> scaled_height = 0 then None
          else do {
            pixel_format <- native_pixel_format_of frame;
            Some \<lparr>nc_raw_width = raw_width, nc_raw_height = raw_height, nc_scaled_width = scaled_width,
                  nc_scaled_height = scaled_height, nc_pixel_format = pixel_format\<rparr> } }"

text \<open>\<open>None\<close> is the default of the crate.\<close>

record v4l2_encoder_config =
  wc_width :: u32
  wc_height :: u32
  wc_bitrate_bps :: u32
  wc_device_path :: string
  wc_input_memory :: "v4l2_memory option"
  wc_pixel_format :: "v4l2_pixel_format option"

record v4l2_converter_config =
  cc_input_width :: u32
  cc_input_height :: u32
  cc_output_width :: u32
  cc_output_height :: u32
  cc_input_memory :: v4l2_memory
  cc_output_memory :: v4l2_memory
  cc_input_pixel_format :: v4l2_pixel_format
  cc_output_pixel_format :: v4l2_pixel_format

definition mmap_encoder_config :: "string \<Rightarrow> u32 \<Rightarrow> u32 \<Rightarrow> u32 \<Rightarrow> v4l2_encoder_config" where
  "mmap_encoder_config device_path width height target_bitrate_bps =
     \<lparr>wc_width = width, wc_height = height, wc_bitrate_bps = max target_bitrate_bps 1,
      wc_device_path = device_path, wc_input_memory = None, wc_pixel_format = None\<rparr>"

definition native_encoder_config :: "string \<Rightarrow> native_input_config \<Rightarrow> u32 \<Rightarrow> v4l2_encoder_config" where
  "native_encoder_config device_path native_config target_bitrate_bps =
     \<lparr>wc_width = nc_scaled_width native_config, wc_height = nc_scaled_height native_config,
      wc_bitrate_bps = max target_bitrate_bps 1, wc_device_path = device_path,
      wc_input_memory = Some MemoryDmaBuf,
      wc_pixel_format = Some (to_v4l2_pixel_format (nc_pixel_format native_config))\<rparr>"

definition native_converter_config :: "native_input_config \<Rightarrow> v4l2_converter_config" where
  "native_converter_config native_config =
     (let pixel_format = to_v4l2_pixel_format (nc_pixel_format native_config) in
      \<lparr>cc_input_width = nc_raw_width native_config, cc_input_height = nc_raw_height native_config,
       cc_output_width = nc_scaled_width native_config, cc_output_height = nc_scaled_height native_config,
       cc_input_memory = MemoryDmaBuf, cc_output_memory = MemoryDmaBuf,
       cc_input_pixel_format = pixel_format, cc_output_pixel_format = pixel_format\<rparr>)"

text \<open>What goes with a frame through the converter and the encoder, and a frame the converter is done with.\<close>

record dma_buf =
  db_fd :: int
  db_bytesused :: u32
  db_length :: u32

record converter_value =
  cw_value :: callback_value
  cw_force_keyframe :: bool
  cw_native_frame :: native_frame

record converted_frame =
  cf_dmabuf_fd :: "int option"
  cf_bytesused :: u32
  cf_length :: u32
  cf_timestamp_us :: int

record v4l2_value =
  vv_value :: callback_value
  vv_converted_frame :: "converted_frame option"

record resolution =
  rs_width :: u32
  rs_height :: u32
  rs_stride :: u32

text \<open>
  The devices. \<open>wl_encode_mmap\<close> is given the function that fills its buffer, which says \<open>None\<close> when it
  panics. A converter that is dropped delivers its last frames to the encoder that there is.
\<close>

record ('i, 'p, 'enc, 'conv, 'dec, 'w, 'e) v4l2_lib =
  wl_yuv420_size :: "resolution \<Rightarrow> u64"
  wl_i420_copy_into :: "'i \<Rightarrow> nat \<times> int \<Rightarrow> nat \<times> int \<Rightarrow> nat \<times> int \<Rightarrow> 'p option"
  wl_encoder_new :: "v4l2_encoder_config \<Rightarrow> 'w \<Rightarrow> ('e v4l2_error + 'enc) \<times> 'w"
  wl_encode_mmap :: "(nat \<Rightarrow> resolution \<Rightarrow> ('p \<times> u64) option option) \<Rightarrow> int \<Rightarrow> bool \<Rightarrow> v4l2_value \<Rightarrow> 'enc \<Rightarrow> 'w \<Rightarrow>
    ('e v4l2_error + unit) \<times> 'enc \<times> 'w"
  wl_encode_dmabuf :: "dma_buf \<Rightarrow> int \<Rightarrow> bool \<Rightarrow> v4l2_value \<Rightarrow> 'enc \<Rightarrow> 'w \<Rightarrow> ('e v4l2_error + unit) \<times> 'enc \<times> 'w"
  wl_set_bitrate :: "u32 \<Rightarrow> 'enc \<Rightarrow> 'w \<Rightarrow> ('e v4l2_error + unit) \<times> 'enc \<times> 'w"
  wl_drop_encoder :: "'enc \<Rightarrow> 'w \<Rightarrow> 'w"
  wl_converter_new :: "v4l2_converter_config \<Rightarrow> 'w \<Rightarrow> ('e v4l2_error + 'conv) \<times> 'w"
  wl_convert :: "dma_buf \<Rightarrow> int \<Rightarrow> converter_value \<Rightarrow> 'conv \<Rightarrow> 'w \<Rightarrow> ('e v4l2_error + unit) \<times> 'conv \<times> 'w"
  wl_drop_converter :: "'conv \<Rightarrow> 'enc option \<Rightarrow> 'w \<Rightarrow> 'enc option \<times> 'w"
  wl_decoder_new :: "string \<Rightarrow> 'w \<Rightarrow> ('e v4l2_error + 'dec) \<times> 'w"
  wl_decode :: "(nat \<Rightarrow> bytes option) \<Rightarrow> int \<Rightarrow> u32 \<Rightarrow> 'dec \<Rightarrow> 'w \<Rightarrow> ('e v4l2_error + unit) \<times> 'dec \<times> 'w"
  wl_resolution :: "'dec \<Rightarrow> resolution option"
  wl_drop_decoder :: "'dec \<Rightarrow> 'w \<Rightarrow> 'w"

record ('enc, 'conv, 'cb) v4l2_encoder =
  vs_encoder :: "'enc option"
  vs_callback :: "'cb option"
  vs_device_path :: string
  vs_width :: u32
  vs_height :: u32
  vs_target_bitrate_bps :: u32
  vs_input_mode :: encoder_input_mode
  vs_rebuild_needed :: bool
  vs_converter :: "'conv option"
  vs_native_input_config :: "native_input_config option"

definition v4l2_encoder_new :: "string \<Rightarrow> ('enc, 'conv, 'cb) v4l2_encoder" where
  "v4l2_encoder_new device_path =
     \<lparr>vs_encoder = None, vs_callback = None, vs_device_path = device_path, vs_width = 0, vs_height = 0,
      vs_target_bitrate_bps = 500000, vs_input_mode = MmapI420, vs_rebuild_needed = False,
      vs_converter = None, vs_native_input_config = None\<rparr>"

definition drop_v4l2_encoder ::
    "('i, 'p, 'enc, 'conv, 'dec, 'w, 'e) v4l2_lib \<Rightarrow> 'enc option \<Rightarrow> 'w \<Rightarrow> 'w" where
  "drop_v4l2_encoder L enc w = (case enc of None \<Rightarrow> w | Some e \<Rightarrow> wl_drop_encoder L e w)"

definition drop_v4l2_converter ::
    "('i, 'p, 'enc, 'conv, 'dec, 'w, 'e) v4l2_lib \<Rightarrow> 'conv option \<Rightarrow> 'enc option \<Rightarrow> 'w \<Rightarrow> 'enc option \<times> 'w" where
  "drop_v4l2_converter L conv enc w = (case conv of None \<Rightarrow> (enc, w) | Some c \<Rightarrow> wl_drop_converter L c enc w)"

text \<open>The old encoder and the old converter are dropped, in this order, while there is no encoder.\<close>

definition drop_pipeline ::
    "('i, 'p, 'enc, 'conv, 'dec, 'w, 'e) v4l2_lib \<Rightarrow> ('enc, 'conv, 'cb) v4l2_encoder \<Rightarrow> 'w \<Rightarrow> 'w" where
  "drop_pipeline L s w =
     snd (drop_v4l2_converter L (vs_converter s) None (drop_v4l2_encoder L (vs_encoder s) w))"

definition rebuild_mmap_encoder ::
    "('i, 'p, 'enc, 'conv, 'dec, 'w, 'e) v4l2_lib \<Rightarrow> ('enc, 'conv, 'cb) v4l2_encoder \<Rightarrow> 'w \<Rightarrow>
       ('e v4l2_error codec_error + unit) \<times> ('enc, 'conv, 'cb) v4l2_encoder \<times> 'w" where
  "rebuild_mmap_encoder L s w =
     (if vs_width s = 0 \<or> vs_height s = 0 then
        (Inl (CodecMessage ''V4L2 encoder requires non-zero width and height''), s, w)
      else case wl_encoder_new L
          (mmap_encoder_config (vs_device_path s) (vs_width s) (vs_height s) (vs_target_bitrate_bps s)) w of
        (Inl err, w) \<Rightarrow> (Inl (CodecFailed err), s, w)
      | (Inr new_encoder, w) \<Rightarrow>
          (Inr (),
           s\<lparr>vs_encoder := Some new_encoder, vs_converter := None, vs_native_input_config := None,
             vs_input_mode := MmapI420, vs_rebuild_needed := False\<rparr>, drop_pipeline L s w))"

definition rebuild_native_pipeline ::
    "('i, 'p, 'enc, 'conv, 'dec, 'w, 'e) v4l2_lib \<Rightarrow> ('enc, 'conv, 'cb) v4l2_encoder \<Rightarrow> 'w \<Rightarrow>
       ('e v4l2_error codec_error + unit) \<times> ('enc, 'conv, 'cb) v4l2_encoder \<times> 'w" where
  "rebuild_native_pipeline L s w =
     (case vs_native_input_config s of
        None \<Rightarrow> (Inl (CodecMessage ''V4L2 native pipeline requires native input config''), s, w)
      | Some native_config \<Rightarrow>
          (case wl_encoder_new L
              (native_encoder_config (vs_device_path s) native_config (vs_target_bitrate_bps s)) w of
             (Inl err, w) \<Rightarrow> (Inl (CodecFailed err), s, w)
           | (Inr new_encoder, w) \<Rightarrow>
               (case wl_converter_new L (native_converter_config native_config) w of
                  (Inl err, w) \<Rightarrow> (Inl (CodecFailed err), s, wl_drop_encoder L new_encoder w)
                | (Inr new_converter, w) \<Rightarrow>
                    (Inr (),
                     s\<lparr>vs_encoder := Some new_encoder, vs_converter := Some new_converter,
                       vs_width := nc_scaled_width native_config, vs_height := nc_scaled_height native_config,
                       vs_input_mode := NativeDmabuf, vs_rebuild_needed := False\<rparr>, drop_pipeline L s w))))"

definition v4l2_init_encode ::
    "('i, 'p, 'enc, 'conv, 'dec, 'w, 'e) v4l2_lib \<Rightarrow> encoder_settings \<Rightarrow> ('enc, 'conv, 'cb) v4l2_encoder \<Rightarrow> 'w \<Rightarrow>
       video_codec_status \<times> ('enc, 'conv, 'cb) v4l2_encoder \<times> 'w" where
  "v4l2_init_encode L codec s w =
     (if vc_codec_type codec \<noteq> H264 then (StatusErrParameter, s, w)
      else let (enc, w) = drop_v4l2_converter L (vs_converter s) (vs_encoder s) w in
        (case rebuild_mmap_encoder L
            (s\<lparr>vs_encoder := enc, vs_width := u32_of_size (vc_width codec), vs_height := u32_of_size (vc_height codec),
               vs_target_bitrate_bps := saturating_mul_u32 (vc_start_bitrate_kbps codec) 1000,
               vs_input_mode := MmapI420, vs_native_input_config := None, vs_converter := None,
               vs_rebuild_needed := True\<rparr>) w of
           (Inl _, s, w) \<Rightarrow> (StatusError, s, w)
         | (Inr _, s, w) \<Rightarrow> (StatusOk, s, w)))"

text \<open>What the native encoder or the converter is handed, with the encoder behind the converter.\<close>

datatype ('enc, 'conv) v4l2_handed =
    HandedFrame 'enc int bool v4l2_value
  | HandedNative 'conv "'enc option" dma_buf int converter_value
  | HandedConverted 'enc dma_buf int bool v4l2_value

record 'i v4l2_frame = "'i raw_frame" +
  vf_native :: "native_frame option"

definition v4l2_status :: "'e v4l2_error + unit \<Rightarrow> video_codec_status" where
  "v4l2_status result =
     (case result of Inr _ \<Rightarrow> StatusOk | Inl NoAvailableBuffer \<Rightarrow> StatusNoOutput | Inl (V4l2Failed _) \<Rightarrow> StatusError)"

text \<open>The function that fills a buffer of the device; splitting a slice that is too short panics.\<close>

definition v4l2_fill ::
    "('i, 'p, 'enc, 'conv, 'dec, 'w, 'e) v4l2_lib \<Rightarrow> 'i \<Rightarrow> nat \<Rightarrow> resolution \<Rightarrow> ('p \<times> u64) option option" where
  "v4l2_fill L i420 buf_len resolution =
     (let chroma_stride = div_ceil2_u32 (rs_stride resolution);
          chroma_height = div_ceil2_u32 (rs_height resolution);
          yuv_size = wl_yuv420_size L resolution;
          y_size = unat (rs_stride resolution) * unat (rs_height resolution);
          uv_size = unat chroma_stride * unat chroma_height
      in if buf_len < unat yuv_size then Some None
         else case (try_i32 (uint (rs_stride resolution)), try_i32 (uint chroma_stride)) of
           (Some dst_stride_y, Some dst_stride_uv) \<Rightarrow>
             if buf_len < y_size + uv_size then None
             else Some (map_option (\<lambda>pixels. (pixels, yuv_size))
               (wl_i420_copy_into L i420 (y_size, dst_stride_y) (uv_size, dst_stride_uv)
                 (buf_len - y_size - uv_size, dst_stride_uv)))
         | _ \<Rightarrow> Some None)"

text \<open>Before a frame is converted or encoded: the pipeline for it is built unless it is there.\<close>

definition ready_native ::
    "('i, 'p, 'enc, 'conv, 'dec, 'w, 'e) v4l2_lib \<Rightarrow> native_input_config \<Rightarrow> ('enc, 'conv, 'cb) v4l2_encoder \<Rightarrow> 'w \<Rightarrow>
       ('e v4l2_error codec_error + unit) \<times> ('enc, 'conv, 'cb) v4l2_encoder \<times> 'w" where
  "ready_native L native_config s w =
     (let s = (if vs_input_mode s \<noteq> NativeDmabuf \<or> vs_native_input_config s \<noteq> Some native_config
            then s\<lparr>vs_native_input_config := Some native_config, vs_rebuild_needed := True\<rparr> else s);
          s = (if vs_encoder s = None \<or> vs_converter s = None then s\<lparr>vs_rebuild_needed := True\<rparr> else s)
      in if vs_rebuild_needed s then rebuild_native_pipeline L s w else (Inr (), s, w))"

definition ready_mmap ::
    "('i, 'p, 'enc, 'conv, 'dec, 'w, 'e) v4l2_lib \<Rightarrow> u32 \<Rightarrow> u32 \<Rightarrow> ('enc, 'conv, 'cb) v4l2_encoder \<Rightarrow> 'w \<Rightarrow>
       ('e v4l2_error codec_error + unit) \<times> ('enc, 'conv, 'cb) v4l2_encoder \<times> 'w" where
  "ready_mmap L frame_width frame_height s w =
     (let s = (if vs_input_mode s \<noteq> MmapI420 then s\<lparr>vs_rebuild_needed := True\<rparr> else s);
          s = (if frame_width \<noteq> vs_width s \<or> frame_height \<noteq> vs_height s
            then s\<lparr>vs_width := frame_width, vs_height := frame_height, vs_rebuild_needed := True\<rparr> else s);
          s = (if vs_encoder s = None then s\<lparr>vs_rebuild_needed := True\<rparr> else s)
      in if vs_rebuild_needed s then rebuild_mmap_encoder L s w else (Inr (), s, w))"

definition v4l2_encode_native ::
    "('i, 'p, 'enc, 'conv, 'dec, 'w, 'e) v4l2_lib \<Rightarrow> 'i v4l2_frame \<Rightarrow> bool \<Rightarrow> native_frame \<Rightarrow>
       ('enc, 'conv, 'cb) v4l2_encoder \<Rightarrow> 'w \<Rightarrow>
       (video_codec_status \<times> ('enc, 'conv) v4l2_handed option) \<times> ('enc, 'conv, 'cb) v4l2_encoder \<times> 'w" where
  "v4l2_encode_native L frame force_keyframe native s w =
     (case native_input_config_of native of
        None \<Rightarrow> ((StatusErrParameter, None), s, w)
      | Some native_config \<Rightarrow>
          if 4294967296 \<le> unat (nf_size native) then ((StatusErrParameter, None), s, w)
          else let bytesused = (ucast (nf_size native) :: u32) in
            (case ready_native L native_config s w of
               (Inl _, s, w) \<Rightarrow> ((StatusError, None), s, w)
             | (Inr _, s, w) \<Rightarrow>
                 (case vs_converter s of
                    None \<Rightarrow> ((StatusError, None), s, w)
                  | Some converter \<Rightarrow>
                      let v = \<lparr>cw_value = value_of_frame frame, cw_force_keyframe = force_keyframe,
                               cw_native_frame = native\<rparr>;
                          buf = \<lparr>db_fd = nf_fd native, db_bytesused = bytesused, db_length = bytesused\<rparr>;
                          (result, converter', w) = wl_convert L buf (rf_timestamp_us frame) v converter w
                      in ((v4l2_status result,
                           Some (HandedNative converter (vs_encoder s) buf (rf_timestamp_us frame) v)),
                          s\<lparr>vs_converter := Some converter'\<rparr>, w))))"

definition v4l2_encode_mmap ::
    "('i, 'p, 'enc, 'conv, 'dec, 'w, 'e) v4l2_lib \<Rightarrow> 'i v4l2_frame \<Rightarrow> bool \<Rightarrow> ('enc, 'conv, 'cb) v4l2_encoder \<Rightarrow> 'w \<Rightarrow>
       (video_codec_status \<times> ('enc, 'conv) v4l2_handed option) \<times> ('enc, 'conv, 'cb) v4l2_encoder \<times> 'w" where
  "v4l2_encode_mmap L frame force_keyframe s w =
     (case ready_mmap L (u32_of_size (rf_width frame)) (u32_of_size (rf_height frame)) s w of
        (Inl _, s, w) \<Rightarrow> ((StatusError, None), s, w)
      | (Inr _, s, w) \<Rightarrow>
          (case (rf_i420 frame, vs_encoder s) of
             (Some i420, Some enc) \<Rightarrow>
               let v = \<lparr>vv_value = value_of_frame frame, vv_converted_frame = None\<rparr>;
                   (result, enc', w) =
                     wl_encode_mmap L (v4l2_fill L i420) (rf_timestamp_us frame) force_keyframe v enc w
               in ((v4l2_status result, Some (HandedFrame enc (rf_timestamp_us frame) force_keyframe v)),
                   s\<lparr>vs_encoder := Some enc'\<rparr>, w)
           | _ \<Rightarrow> ((StatusError, None), s, w)))"

definition v4l2_encode ::
    "('i, 'p, 'enc, 'conv, 'dec, 'w, 'e) v4l2_lib \<Rightarrow> 'i v4l2_frame \<Rightarrow> video_frame_type list option \<Rightarrow>
       ('enc, 'conv, 'cb) v4l2_encoder \<Rightarrow> 'w \<Rightarrow>
       (video_codec_status \<times> ('enc, 'conv) v4l2_handed option) \<times> ('enc, 'conv, 'cb) v4l2_encoder \<times> 'w" where
  "v4l2_encode L frame frame_types s w =
     (if vs_callback s = None then ((StatusUninitialized, None), s, w)
      else if u32_of_size (rf_width frame) = 0 \<or> u32_of_size (rf_height frame) = 0 then
        ((StatusErrParameter, None), s, w)
      else let force_keyframe = (requested_frame_type frame_types = Some FrameKey) in
        (case vf_native frame of
           Some native \<Rightarrow> v4l2_encode_native L frame force_keyframe native s w
         | None \<Rightarrow> v4l2_encode_mmap L frame force_keyframe s w))"

text \<open>The callback of the converter: the encoder that there is gets the converted frame.\<close>

definition handle_v4l2_convert_callback ::
    "('i, 'p, 'enc, 'conv, 'dec, 'w, 'e) v4l2_lib \<Rightarrow> 'e v4l2_error + converted_frame \<times> converter_value \<Rightarrow>
       ('enc, 'conv, 'cb) v4l2_encoder \<Rightarrow> 'w \<Rightarrow>
       ('enc, 'conv) v4l2_handed option \<times> ('enc, 'conv, 'cb) v4l2_encoder \<times> 'w" where
  "handle_v4l2_convert_callback L result s w =
     (case result of
        Inl _ \<Rightarrow> (None, s, w)
      | Inr (converted, v) \<Rightarrow>
          (case (cf_dmabuf_fd converted, vs_encoder s) of
             (Some fd, Some enc) \<Rightarrow>
               let callback_value = \<lparr>vv_value = cw_value v, vv_converted_frame = Some converted\<rparr>;
                   buf = \<lparr>db_fd = fd, db_bytesused = cf_bytesused converted, db_length = cf_length converted\<rparr>;
                   (_, enc', w) = wl_encode_dmabuf L buf (cf_timestamp_us converted) (cw_force_keyframe v)
                     callback_value enc w
               in (Some (HandedConverted enc buf (cf_timestamp_us converted) (cw_force_keyframe v) callback_value),
                   s\<lparr>vs_encoder := Some enc'\<rparr>, w)
           | _ \<Rightarrow> (None, s, w)))"

definition v4l2_release ::
    "('i, 'p, 'enc, 'conv, 'dec, 'w, 'e) v4l2_lib \<Rightarrow> ('enc, 'conv, 'cb) v4l2_encoder \<Rightarrow> 'w \<Rightarrow>
       video_codec_status \<times> ('enc, 'conv, 'cb) v4l2_encoder \<times> 'w" where
  "v4l2_release L s w =
     (let (enc, w) = drop_v4l2_converter L (vs_converter s) (vs_encoder s) w in
      (StatusOk,
       s\<lparr>vs_encoder := None, vs_callback := None, vs_converter := None, vs_native_input_config := None,
         vs_rebuild_needed := False, vs_input_mode := MmapI420\<rparr>, drop_v4l2_encoder L enc w))"

definition v4l2_set_rates ::
    "('i, 'p, 'enc, 'conv, 'dec, 'w, 'e) v4l2_lib \<Rightarrow> rate_control \<Rightarrow> ('enc, 'conv, 'cb) v4l2_encoder \<Rightarrow> 'w \<Rightarrow>
       ('enc, 'conv, 'cb) v4l2_encoder \<times> 'w" where
  "v4l2_set_rates L parameters s w =
     (let bitrate_bps = max (max (rc_bitrate_sum_bps parameters) (rc_target_bitrate_sum_bps parameters)) 1;
          s = s\<lparr>vs_target_bitrate_bps := bitrate_bps\<rparr>
      in case vs_encoder s of
           None \<Rightarrow> (s\<lparr>vs_rebuild_needed := True\<rparr>, w)
         | Some enc \<Rightarrow>
             let (result, enc, w) = wl_set_bitrate L bitrate_bps enc w; s = s\<lparr>vs_encoder := Some enc\<rparr>
             in (if isl result then s\<lparr>vs_rebuild_needed := True\<rparr> else s, w))"

text \<open>The calls of WebRTC, between which the converter is done with frames.\<close>

datatype ('i, 'cb, 'e) v4l2_call =
    V4l2Call "('i v4l2_frame, 'cb) encoder_call"
  | V4l2Converted "'e v4l2_error + converted_frame \<times> converter_value"

definition v4l2_step ::
    "('i, 'p, 'enc, 'conv, 'dec, 'w, 'e) v4l2_lib \<Rightarrow> ('i, 'cb, 'e) v4l2_call \<Rightarrow> ('enc, 'conv, 'cb) v4l2_encoder \<Rightarrow> 'w \<Rightarrow>
       (video_codec_status \<times> ('enc, 'conv) v4l2_handed option) \<times> ('enc, 'conv, 'cb) v4l2_encoder \<times> 'w" where
  "v4l2_step L call s w =
     (case call of
        V4l2Converted result \<Rightarrow>
          (case handle_v4l2_convert_callback L result s w of (h, s, w) \<Rightarrow> ((StatusOk, h), s, w))
      | V4l2Call (InitEncode codec) \<Rightarrow> (case v4l2_init_encode L codec s w of (st, s, w) \<Rightarrow> ((st, None), s, w))
      | V4l2Call (EncodeFrame frame frame_types) \<Rightarrow> v4l2_encode L frame frame_types s w
      | V4l2Call (RegisterCallback callback) \<Rightarrow> ((StatusOk, None), s\<lparr>vs_callback := callback\<rparr>, w)
      | V4l2Call ReleaseEncoder \<Rightarrow> (case v4l2_release L s w of (st, s, w) \<Rightarrow> ((st, None), s, w))
      | V4l2Call (SetRates parameters) \<Rightarrow>
          (case v4l2_set_rates L parameters s w of (s, w) \<Rightarrow> ((StatusOk, None), s, w)))"

text \<open>What the encoder gives the callback that is registered.\<close>

record v4l2_encoded =
  wo_data :: "bytes option"
  wo_keyframe :: bool
  wo_user_data :: v4l2_value

definition handle_v4l2_encode_callback ::
    "'cb option \<Rightarrow> 'e v4l2_error + v4l2_encoded \<Rightarrow> ('cb \<times> encoded_image \<times> codec_specific_info) option" where
  "handle_v4l2_encode_callback callback result =
     do { encoded \<leftarrow> ok_opt result;
          encoded_data \<leftarrow> wo_data encoded;
          callback \<leftarrow> callback;
          let v = vv_value (wo_user_data encoded);
          Some (callback,
            \<lparr>ei_encoded_data = encoded_data, ei_rtp_timestamp = cv_rtp_timestamp v,
             ei_encoded_width = cv_frame_width v, ei_encoded_height = cv_frame_height v,
             ei_frame_type = (if wo_keyframe encoded then FrameKey else FrameDelta)\<rparr>,
            \<lparr>csi_codec_type = H264, csi_h264_non_interleaved = True,
             csi_h264_idr_frame = Some (wo_keyframe encoded)\<rparr>) }"


subsection \<open>The encoder follows what was asked for\<close>

text \<open>
  What is known of the devices: they have the settings they were opened with, \<open>settings\<close> and
  \<open>csettings\<close>, a change of the bit rate replaces it, and frames keep them.
\<close>

definition v4l2_laws ::
    "('i, 'p, 'enc, 'conv, 'dec, 'w, 'e) v4l2_lib \<Rightarrow> ('enc \<Rightarrow> v4l2_encoder_config) \<Rightarrow>
       ('conv \<Rightarrow> v4l2_converter_config) \<Rightarrow> bool" where
  "v4l2_laws L settings csettings \<longleftrightarrow>
     (\<forall>config w e w'. wl_encoder_new L config w = (Inr e, w') \<longrightarrow> settings e = config) \<and>
     (\<forall>fill t force v e w r e' w'. wl_encode_mmap L fill t force v e w = (r, e', w') \<longrightarrow> settings e' = settings e) \<and>
     (\<forall>buf t force v e w r e' w'. wl_encode_dmabuf L buf t force v e w = (r, e', w') \<longrightarrow> settings e' = settings e) \<and>
     (\<forall>b e w e' w'. wl_set_bitrate L b e w = (Inr (), e', w') \<longrightarrow> settings e' = (settings e)\<lparr>wc_bitrate_bps := b\<rparr>) \<and>
     (\<forall>config w c w'. wl_converter_new L config w = (Inr c, w') \<longrightarrow> csettings c = config) \<and>
     (\<forall>buf t v c w r c' w'. wl_convert L buf t v c w = (r, c', w') \<longrightarrow> csettings c' = csettings c)"

lemma v4l2_lawsD:
  assumes "v4l2_laws L settings csettings"
  shows "wl_encoder_new L config w = (Inr e, w') \<Longrightarrow> settings e = config"
    "wl_encode_mmap L fill t force v e w = (r, e', w') \<Longrightarrow> settings e' = settings e"
    "wl_encode_dmabuf L buf t force v e w = (r, e', w') \<Longrightarrow> settings e' = settings e"
    "wl_set_bitrate L b e w = (Inr (), e', w') \<Longrightarrow> settings e' = (settings e)\<lparr>wc_bitrate_bps := b\<rparr>"
    "wl_converter_new L cconfig w = (Inr c, w') \<Longrightarrow> csettings c = cconfig"
    "wl_convert L buf t cv c w = (r, c', w') \<Longrightarrow> csettings c' = csettings c"
  using assms unfolding v4l2_laws_def by metis+

text \<open>Unless a rebuild is due, the devices have the settings of the input and of the bit rate \<open>r\<close>.\<close>

definition v4l2_current ::
    "('enc \<Rightarrow> v4l2_encoder_config) \<Rightarrow> ('conv \<Rightarrow> v4l2_converter_config) \<Rightarrow> string \<Rightarrow> u32 \<Rightarrow>
       ('enc, 'conv, 'cb) v4l2_encoder \<Rightarrow> bool" where
  "v4l2_current settings csettings path r s \<longleftrightarrow>
     vs_device_path s = path \<and> vs_target_bitrate_bps s = r \<and>
     (\<forall>e. \<not> vs_rebuild_needed s \<longrightarrow> vs_encoder s = Some e \<longrightarrow>
       (case vs_input_mode s of
          MmapI420 \<Rightarrow> settings e = mmap_encoder_config path (vs_width s) (vs_height s) r
        | NativeDmabuf \<Rightarrow>
            (\<exists>nc. vs_native_input_config s = Some nc \<and> settings e = native_encoder_config path nc r \<and>
              (\<forall>c. vs_converter s = Some c \<longrightarrow> csettings c = native_converter_config nc))))"

lemma v4l2_current_due:
  "vs_rebuild_needed s \<Longrightarrow>
     v4l2_current settings csettings path r s \<longleftrightarrow> vs_device_path s = path \<and> vs_target_bitrate_bps s = r"
  by (auto simp: v4l2_current_def)

lemma rebuild_mmap_ok:
  assumes "v4l2_laws L settings csettings" and "rebuild_mmap_encoder L s w = (Inr u, s', w')"
  shows "\<exists>e. s' = s\<lparr>vs_encoder := Some e, vs_converter := None, vs_native_input_config := None,
      vs_input_mode := MmapI420, vs_rebuild_needed := False\<rparr> \<and>
    settings e = mmap_encoder_config (vs_device_path s) (vs_width s) (vs_height s) (vs_target_bitrate_bps s)"
  using assms(2)
  by (auto simp: rebuild_mmap_encoder_def dest: v4l2_lawsD(1) [OF assms(1)] split: if_splits prod.splits sum.splits)

lemma rebuild_mmap_error: "rebuild_mmap_encoder L s w = (Inl err, s', w') \<Longrightarrow> s' = s"
  by (auto simp: rebuild_mmap_encoder_def split: if_splits prod.splits sum.splits)

lemma rebuild_native_ok:
  assumes "v4l2_laws L settings csettings" and "rebuild_native_pipeline L s w = (Inr u, s', w')"
    and "vs_native_input_config s = Some nc"
  shows "\<exists>e c. s' = s\<lparr>vs_encoder := Some e, vs_converter := Some c, vs_width := nc_scaled_width nc,
      vs_height := nc_scaled_height nc, vs_input_mode := NativeDmabuf, vs_rebuild_needed := False\<rparr> \<and>
    settings e = native_encoder_config (vs_device_path s) nc (vs_target_bitrate_bps s) \<and>
    csettings c = native_converter_config nc"
  using assms(2,3)
  by (auto simp: rebuild_native_pipeline_def dest: v4l2_lawsD(1,5) [OF assms(1)] split: prod.splits sum.splits)

lemma rebuild_native_error: "rebuild_native_pipeline L s w = (Inl err, s', w') \<Longrightarrow> s' = s"
  by (auto simp: rebuild_native_pipeline_def split: option.splits prod.splits sum.splits)

text \<open>
  What is expected: a picture goes to an encoder for its size, a native frame to a converter for its
  sizes and format in front of an encoder for the scaled size, both with the bit rate asked for last;
  a converted frame goes on with the times and the frame type of the frame it was made of.
\<close>

definition v4l2_expected ::
    "('enc \<Rightarrow> v4l2_encoder_config) \<Rightarrow> ('conv \<Rightarrow> v4l2_converter_config) \<Rightarrow> string \<Rightarrow> u32 \<Rightarrow> ('i, 'cb, 'e) v4l2_call \<Rightarrow>
       ('enc, 'conv) v4l2_handed \<Rightarrow> bool" where
  "v4l2_expected settings csettings path r call h \<longleftrightarrow>
     (case (call, h) of
        (V4l2Call (EncodeFrame frame frame_types), HandedFrame enc t force v) \<Rightarrow>
          vf_native frame = None \<and>
          settings enc = mmap_encoder_config path (u32_of_size (rf_width frame)) (u32_of_size (rf_height frame)) r \<and>
          t = rf_timestamp_us frame \<and> force = (requested_frame_type frame_types = Some FrameKey) \<and>
          vv_value v = value_of_frame frame
      | (V4l2Call (EncodeFrame frame frame_types), HandedNative conv enc buf t v) \<Rightarrow>
          (\<exists>native nc e. vf_native frame = Some native \<and> native_input_config_of native = Some nc \<and> enc = Some e \<and>
            csettings conv = native_converter_config nc \<and> settings e = native_encoder_config path nc r \<and>
            db_fd buf = nf_fd native \<and> unat (db_bytesused buf) = unat (nf_size native) \<and>
            t = rf_timestamp_us frame \<and> cw_value v = value_of_frame frame \<and>
            cw_force_keyframe v = (requested_frame_type frame_types = Some FrameKey) \<and> cw_native_frame v = native)
      | (V4l2Converted (Inr (converted, cv)), HandedConverted enc buf t force v) \<Rightarrow>
          cf_dmabuf_fd converted = Some (db_fd buf) \<and> t = cf_timestamp_us converted \<and>
          force = cw_force_keyframe cv \<and> vv_value v = cw_value cv \<and> vv_converted_frame v = Some converted
      | _ \<Rightarrow> False)"

lemma ready_native_current:
  assumes laws: "v4l2_laws L settings csettings" and current: "v4l2_current settings csettings path r s"
    and ready: "ready_native L nc s w = (built, s', w')"
  shows "v4l2_current settings csettings path r s' \<and>
    (built = Inr u \<longrightarrow> vs_native_input_config s' = Some nc \<and> vs_input_mode s' = NativeDmabuf \<and>
      (\<exists>e c. vs_encoder s' = Some e \<and> vs_converter s' = Some c \<and> settings e = native_encoder_config path nc r \<and>
        csettings c = native_converter_config nc))"
proof -
  define t1 where "t1 = (if vs_input_mode s \<noteq> NativeDmabuf \<or> vs_native_input_config s \<noteq> Some nc
    then s\<lparr>vs_native_input_config := Some nc, vs_rebuild_needed := True\<rparr> else s)"
  define t where "t = (if vs_encoder t1 = None \<or> vs_converter t1 = None then t1\<lparr>vs_rebuild_needed := True\<rparr> else t1)"
  have t: "vs_device_path t = path" "vs_target_bitrate_bps t = r" "vs_native_input_config t = Some nc"
    using current by (auto simp: t_def t1_def v4l2_current_def)
  have ready: "(if vs_rebuild_needed t then rebuild_native_pipeline L t w else (Inr (), t, w)) = (built, s', w')"
    using ready by (simp only: ready_native_def Let_def t1_def [symmetric] t_def [symmetric])
  show ?thesis
  proof (cases "vs_rebuild_needed t")
    case True
    show ?thesis
    proof (cases built)
      case (Inl err)
      with ready True rebuild_native_error [of L t w err s' w'] t show ?thesis
        by (auto simp: v4l2_current_due)
    next
      case (Inr u')
      with ready True rebuild_native_ok [OF laws _ t(3), of w u' s' w'] t show ?thesis
        by (auto simp: v4l2_current_def)
    qed
  next
    case False
    then have same: "t = s" "vs_input_mode s = NativeDmabuf" "vs_native_input_config s = Some nc"
      "vs_encoder s \<noteq> None" "vs_converter s \<noteq> None"
      by (auto simp: t_def t1_def split: if_splits)
    with False ready current show ?thesis by (auto simp: v4l2_current_def)
  qed
qed

lemma ready_mmap_current:
  assumes laws: "v4l2_laws L settings csettings" and current: "v4l2_current settings csettings path r s"
    and ready: "ready_mmap L width height s w = (built, s', w')"
  shows "v4l2_current settings csettings path r s' \<and>
    (built = Inr u \<longrightarrow> vs_width s' = width \<and> vs_height s' = height \<and> vs_input_mode s' = MmapI420 \<and>
      (\<exists>e. vs_encoder s' = Some e \<and> settings e = mmap_encoder_config path width height r))"
proof -
  define t1 where "t1 = (if vs_input_mode s \<noteq> MmapI420 then s\<lparr>vs_rebuild_needed := True\<rparr> else s)"
  define t2 where "t2 = (if width \<noteq> vs_width t1 \<or> height \<noteq> vs_height t1
    then t1\<lparr>vs_width := width, vs_height := height, vs_rebuild_needed := True\<rparr> else t1)"
  define t where "t = (if vs_encoder t2 = None then t2\<lparr>vs_rebuild_needed := True\<rparr> else t2)"
  have t: "vs_device_path t = path" "vs_target_bitrate_bps t = r" "vs_width t = width" "vs_height t = height"
    using current by (auto simp: t_def t2_def t1_def v4l2_current_def)
  have ready: "(if vs_rebuild_needed t then rebuild_mmap_encoder L t w else (Inr (), t, w)) = (built, s', w')"
    using ready by (simp only: ready_mmap_def Let_def t1_def [symmetric] t2_def [symmetric] t_def [symmetric])
  show ?thesis
  proof (cases "vs_rebuild_needed t")
    case True
    show ?thesis
    proof (cases built)
      case (Inl err)
      with ready True rebuild_mmap_error [of L t w err s' w'] t show ?thesis
        by (auto simp: v4l2_current_due)
    next
      case (Inr u')
      with ready True rebuild_mmap_ok [OF laws, of t w u' s' w'] t show ?thesis
        by (auto simp: v4l2_current_def)
    qed
  next
    case False
    then have same: "t = s" "vs_input_mode s = MmapI420" "vs_encoder s \<noteq> None"
      by (auto simp: t_def t2_def t1_def split: if_splits)
    with False ready current t show ?thesis by (auto simp: v4l2_current_def)
  qed
qed

lemma v4l2_encode_native_hands:
  assumes laws: "v4l2_laws L settings csettings" and current: "v4l2_current settings csettings path r s"
    and native: "vf_native frame = Some native"
    and run: "v4l2_encode_native L frame (requested_frame_type types = Some FrameKey) native s w = ((st, handed), s', w')"
  shows "v4l2_current settings csettings path r s' \<and>
    (\<forall>h. handed = Some h \<longrightarrow> v4l2_expected settings csettings path r (V4l2Call (EncodeFrame frame types)) h)"
proof (cases "native_input_config_of native = None \<or> 4294967296 \<le> unat (nf_size native)")
  case True
  with run current show ?thesis by (auto simp: v4l2_encode_native_def split: option.splits)
next
  case False
  then obtain nc where nc: "native_input_config_of native = Some nc" and size: "unat (nf_size native) < 4294967296"
    by (auto simp: not_le)
  obtain built s1 w1 where ready: "ready_native L nc s w = (built, s1, w1)" by (metis prod_cases3)
  note ready = ready ready_native_current [OF laws current ready]
  show ?thesis
  proof (cases built)
    case (Inl err)
    with run nc size ready show ?thesis by (auto simp: v4l2_encode_native_def)
  next
    case (Inr u)
    with ready(2) obtain e c where s1: "vs_encoder s1 = Some e" "vs_converter s1 = Some c"
      "settings e = native_encoder_config path nc r" "csettings c = native_converter_config nc"
      "v4l2_current settings csettings path r s1" "vs_input_mode s1 = NativeDmabuf"
      "vs_native_input_config s1 = Some nc" by auto
    let ?v = "\<lparr>cw_value = value_of_frame frame, cw_force_keyframe = (requested_frame_type types = Some FrameKey),
      cw_native_frame = native\<rparr>"
    let ?buf = "\<lparr>db_fd = nf_fd native, db_bytesused = ucast (nf_size native), db_length = ucast (nf_size native)\<rparr>"
    obtain res c' w2 where conv: "wl_convert L ?buf (rf_timestamp_us frame) ?v c w1 = (res, c', w2)"
      by (metis prod_cases3)
    from run nc size ready(1) Inr s1(2) conv
    have "s' = s1\<lparr>vs_converter := Some c'\<rparr>"
      "handed = Some (HandedNative c (vs_encoder s1) ?buf (rf_timestamp_us frame) ?v)"
      by (auto simp: v4l2_encode_native_def Let_def)
    with s1 native nc size v4l2_lawsD(6) [OF laws conv] show ?thesis
      by (auto simp: v4l2_current_def v4l2_expected_def unat_ucast_u64_u32)
  qed
qed

lemma v4l2_encode_mmap_hands:
  assumes laws: "v4l2_laws L settings csettings" and current: "v4l2_current settings csettings path r s"
    and native: "vf_native frame = None"
    and run: "v4l2_encode_mmap L frame (requested_frame_type types = Some FrameKey) s w = ((st, handed), s', w')"
  shows "v4l2_current settings csettings path r s' \<and>
    (\<forall>h. handed = Some h \<longrightarrow> v4l2_expected settings csettings path r (V4l2Call (EncodeFrame frame types)) h)"
proof -
  let ?w = "u32_of_size (rf_width frame)" and ?h = "u32_of_size (rf_height frame)"
  obtain built s1 w1 where ready: "ready_mmap L ?w ?h s w = (built, s1, w1)" by (metis prod_cases3)
  note ready = ready ready_mmap_current [OF laws current ready]
  show ?thesis
  proof (cases built)
    case (Inl err)
    with run ready show ?thesis by (auto simp: v4l2_encode_mmap_def)
  next
    case (Inr u)
    with ready(2) obtain e where s1: "vs_encoder s1 = Some e" "settings e = mmap_encoder_config path ?w ?h r"
      "v4l2_current settings csettings path r s1" "vs_input_mode s1 = MmapI420" "vs_width s1 = ?w" "vs_height s1 = ?h"
      by auto
    show ?thesis
    proof (cases "rf_i420 frame")
      case None
      with run ready(1) Inr s1 show ?thesis by (auto simp: v4l2_encode_mmap_def)
    next
      case (Some i420)
      let ?v = "\<lparr>vv_value = value_of_frame frame, vv_converted_frame = None\<rparr>"
      obtain res e' w2 where enc: "wl_encode_mmap L (v4l2_fill L i420) (rf_timestamp_us frame)
          (requested_frame_type types = Some FrameKey) ?v e w1 = (res, e', w2)"
        by (metis prod_cases3)
      from run ready(1) Inr s1(1) Some enc
      have "s' = s1\<lparr>vs_encoder := Some e'\<rparr>"
        "handed = Some (HandedFrame e (rf_timestamp_us frame) (requested_frame_type types = Some FrameKey) ?v)"
        by (auto simp: v4l2_encode_mmap_def Let_def)
      with s1 native v4l2_lawsD(2) [OF laws enc] show ?thesis
        by (auto simp: v4l2_current_def v4l2_expected_def)
    qed
  qed
qed

lemma v4l2_convert_callback_hands:
  assumes laws: "v4l2_laws L settings csettings" and current: "v4l2_current settings csettings path r s"
    and run: "handle_v4l2_convert_callback L result s w = (handed, s', w')"
  shows "v4l2_current settings csettings path r s' \<and>
    (\<forall>h. handed = Some h \<longrightarrow> v4l2_expected settings csettings path r (V4l2Converted result) h)"
proof (cases "handed")
  case None
  with run current show ?thesis
    by (auto simp: handle_v4l2_convert_callback_def Let_def split: sum.splits prod.splits option.splits)
next
  case (Some h)
  then obtain converted v fd e where res: "result = Inr (converted, v)" "cf_dmabuf_fd converted = Some fd"
    "vs_encoder s = Some e"
    using run by (auto simp: handle_v4l2_convert_callback_def Let_def split: sum.splits prod.splits option.splits)
  let ?v = "\<lparr>vv_value = cw_value v, vv_converted_frame = Some converted\<rparr>"
  let ?buf = "\<lparr>db_fd = fd, db_bytesused = cf_bytesused converted, db_length = cf_length converted\<rparr>"
  obtain r' e' w2 where enc: "wl_encode_dmabuf L ?buf (cf_timestamp_us converted) (cw_force_keyframe v) ?v e w = (r', e', w2)"
    by (metis prod_cases3)
  from run res enc have "s' = s\<lparr>vs_encoder := Some e'\<rparr>"
    "handed = Some (HandedConverted e ?buf (cf_timestamp_us converted) (cw_force_keyframe v) ?v)"
    by (auto simp: handle_v4l2_convert_callback_def)
  with res current v4l2_lawsD(3) [OF laws enc] show ?thesis
    by (auto simp: v4l2_current_def v4l2_expected_def split: encoder_input_mode.splits)
qed


text \<open>The bit rate that was asked for last.\<close>

fun v4l2_bitrate :: "('i, 'cb, 'e) v4l2_call \<Rightarrow> u32 \<Rightarrow> u32" where
  "v4l2_bitrate (V4l2Call (InitEncode codec)) r =
     (if vc_codec_type codec \<noteq> H264 then r else saturating_mul_u32 (vc_start_bitrate_kbps codec) 1000)"
| "v4l2_bitrate (V4l2Call (SetRates p)) r = max (max (rc_bitrate_sum_bps p) (rc_target_bitrate_sum_bps p)) 1"
| "v4l2_bitrate _ r = r"

lemma v4l2_init_current:
  assumes laws: "v4l2_laws L settings csettings" and current: "v4l2_current settings csettings path r s"
    and init: "v4l2_init_encode L codec s w = (st, s', w')"
  shows "v4l2_current settings csettings path (v4l2_bitrate (V4l2Call (InitEncode codec)) r) s'"
proof (cases "vc_codec_type codec = H264")
  case True
  obtain enc w1 where enc: "drop_v4l2_converter L (vs_converter s) (vs_encoder s) w = (enc, w1)"
    by (cases "drop_v4l2_converter L (vs_converter s) (vs_encoder s) w")
  let ?t = "s\<lparr>vs_encoder := enc, vs_width := u32_of_size (vc_width codec), vs_height := u32_of_size (vc_height codec),
    vs_target_bitrate_bps := saturating_mul_u32 (vc_start_bitrate_kbps codec) 1000, vs_input_mode := MmapI420,
    vs_native_input_config := None, vs_converter := None, vs_rebuild_needed := True\<rparr>"
  obtain built s1 w2 where built: "rebuild_mmap_encoder L ?t w1 = (built, s1, w2)" by (metis prod_cases3)
  have s': "s' = s1" using init True enc built by (simp add: v4l2_init_encode_def split: sum.splits)
  show ?thesis
  proof (cases built)
    case (Inl err)
    with rebuild_mmap_error [OF built [unfolded Inl]] s' current True show ?thesis
      by (simp add: v4l2_current_def)
  next
    case (Inr u)
    with rebuild_mmap_ok [OF laws built [unfolded Inr]] s' current True show ?thesis
      by (auto simp: v4l2_current_def)
  qed
qed (use current init in \<open>auto simp: v4l2_init_encode_def\<close>)

lemma mmap_config_bitrate:
  "1 \<le> b \<Longrightarrow> (mmap_encoder_config path width height r)\<lparr>wc_bitrate_bps := b\<rparr> = mmap_encoder_config path width height b"
  "1 \<le> b \<Longrightarrow> (native_encoder_config path nc r)\<lparr>wc_bitrate_bps := b\<rparr> = native_encoder_config path nc b"
  by (simp_all add: mmap_encoder_config_def native_encoder_config_def max_absorb1)

lemma v4l2_set_rates_current:
  assumes laws: "v4l2_laws L settings csettings" and current: "v4l2_current settings csettings path r s"
    and set: "v4l2_set_rates L p s w = (s', w')"
  shows "v4l2_current settings csettings path (v4l2_bitrate (V4l2Call (SetRates p)) r) s'"
proof -
  define b where "b = max (max (rc_bitrate_sum_bps p) (rc_target_bitrate_sum_bps p)) (1 :: u32)"
  then have one: "1 \<le> b" by simp
  show ?thesis
  proof (cases "vs_encoder s")
    case None
    with set current show ?thesis by (auto simp: v4l2_set_rates_def v4l2_current_due v4l2_current_def Let_def)
  next
    case (Some e)
    obtain res e' w1 where enc: "wl_set_bitrate L b e w = (res, e', w1)" by (metis prod_cases3)
    have s': "s' = (if isl res then s\<lparr>vs_target_bitrate_bps := b, vs_encoder := Some e', vs_rebuild_needed := True\<rparr>
        else s\<lparr>vs_target_bitrate_bps := b, vs_encoder := Some e'\<rparr>)"
      using set Some enc by (auto simp: v4l2_set_rates_def Let_def b_def)
    show ?thesis
    proof (cases "isl res")
      case True
      with s' current show ?thesis by (simp add: v4l2_current_def b_def)
    next
      case False
      then have "res = Inr ()" by (cases res) simp_all
      from v4l2_lawsD(4) [OF laws enc [unfolded this]] False s' current Some show ?thesis
        by (auto simp: v4l2_current_def mmap_config_bitrate [OF one] simp flip: b_def split: encoder_input_mode.splits)
    qed
  qed
qed

lemma v4l2_step_hands:
  assumes laws: "v4l2_laws L settings csettings" and current: "v4l2_current settings csettings path r s"
    and step: "v4l2_step L c s w = ((st, handed), s', w')"
  shows "v4l2_current settings csettings path (v4l2_bitrate c r) s' \<and>
    (\<forall>h. handed = Some h \<longrightarrow> v4l2_expected settings csettings path r c h)"
proof (cases c)
  case (V4l2Converted result)
  with step v4l2_convert_callback_hands [OF laws current, of result w handed s' w'] show ?thesis
    by (auto simp: v4l2_step_def split: prod.splits)
next
  case (V4l2Call call)
  show ?thesis
  proof (cases call)
    case (InitEncode codec)
    with V4l2Call step v4l2_init_current [OF laws current, of codec w st s' w'] show ?thesis
      by (auto simp: v4l2_step_def simp del: v4l2_bitrate.simps split: prod.splits)
  next
    case (EncodeFrame frame types)
    from step V4l2Call EncodeFrame have run: "v4l2_encode L frame types s w = ((st, handed), s', w')"
      by (simp add: v4l2_step_def)
    show ?thesis
    proof (cases "vs_callback s = None \<or> u32_of_size (rf_width frame) = 0 \<or> u32_of_size (rf_height frame) = 0")
      case True
      with run current V4l2Call EncodeFrame show ?thesis by (auto simp: v4l2_encode_def split: if_splits)
    next
      case False
      with run have "(case vf_native frame of
          Some native \<Rightarrow> v4l2_encode_native L frame (requested_frame_type types = Some FrameKey) native s w
        | None \<Rightarrow> v4l2_encode_mmap L frame (requested_frame_type types = Some FrameKey) s w) = ((st, handed), s', w')"
        by (auto simp: v4l2_encode_def Let_def)
      with v4l2_encode_native_hands [OF laws current] v4l2_encode_mmap_hands [OF laws current] V4l2Call EncodeFrame
      show ?thesis by (cases "vf_native frame") simp_all
    qed
  next
    case (RegisterCallback callback)
    with V4l2Call step current show ?thesis by (auto simp: v4l2_step_def v4l2_current_def split: encoder_input_mode.splits)
  next
    case ReleaseEncoder
    with V4l2Call step current show ?thesis
      by (auto simp: v4l2_step_def v4l2_release_def v4l2_current_def split: prod.splits)
  next
    case (SetRates p)
    with V4l2Call step v4l2_set_rates_current [OF laws current, of p w s' w'] show ?thesis
      by (auto simp: v4l2_step_def simp del: v4l2_bitrate.simps split: prod.splits)
  qed
qed

interpretation v4l2: controlled_encoder "v4l2_laws L settings csettings"
    "\<lambda>c s w. Some (v4l2_step L (c :: ('i, 'cb, 'e) v4l2_call) s w)"
    "v4l2_encoder_new path" 500000 "v4l2_bitrate \<circ> fst" "\<lambda>_. False"
    "v4l2_current settings csettings path" "v4l2_expected settings csettings path"
  for L :: "('i, 'p, 'enc, 'conv, 'dec, 'w, 'e) v4l2_lib" and settings csettings path
proof
  show "v4l2_current settings csettings path 500000 (v4l2_encoder_new path)"
    by (simp add: v4l2_current_def v4l2_encoder_new_def)
qed (use v4l2_step_hands in \<open>fastforce+\<close>)

text \<open>
  Property C20. V4L2 encodes as it was asked to: whatever calls came and whatever failed before, a picture is
  handed to an encoder for its size, and a native frame to a converter for its sizes and format in front
  of an encoder for the scaled size; both encoders have the bit rate asked for last. What the converter
  is done with goes on with its own times and frame type.
\<close>

theorem v4l2_encodes_as_requested:
  assumes "v4l2_laws L settings csettings"
    and "run_calls (\<lambda>c s w. Some (v4l2_step L c s w)) calls (v4l2_encoder_new path) w = Some (trace, s, w')"
    and "trace = before @ (c, status, Some h) # after"
  shows "v4l2_expected settings csettings path (fold v4l2_bitrate (map fst before) 500000) c h"
  unfolding fold_map
  by (rule v4l2.run_expected [OF assms(1) v4l2.fresh assms(2) _ assms(3)]) simp

text \<open>The slices of a device buffer are cut without a panic when the crate's size covers the planes.\<close>

lemma v4l2_fill_returns:
  assumes "\<And>res. unat (rs_stride res) * unat (rs_height res) +
      unat (div_ceil2_u32 (rs_stride res)) * unat (div_ceil2_u32 (rs_height res)) \<le> unat (wl_yuv420_size L res)"
  shows "v4l2_fill L i420 buf_len res \<noteq> None"
  using assms [of res] by (auto simp: v4l2_fill_def Let_def split: option.split)

subsection \<open>The decoder\<close>

record ('dec, 'cb) v4l2_decoder =
  vd4_decoder :: "'dec option"
  vd4_callback :: "'cb option"
  vd4_resolution :: "resolution option"
  vd4_device_path :: string

definition v4l2_decoder_new :: "string \<Rightarrow> ('dec, 'cb) v4l2_decoder" where
  "v4l2_decoder_new device_path =
     \<lparr>vd4_decoder = None, vd4_callback = None, vd4_resolution = None, vd4_device_path = device_path\<rparr>"

definition handle_v4l2_decode_resolution_changed ::
    "resolution \<Rightarrow> ('dec, 'cb) v4l2_decoder \<Rightarrow> ('dec, 'cb) v4l2_decoder" where
  "handle_v4l2_decode_resolution_changed resolution s = s\<lparr>vd4_resolution := Some resolution\<rparr>"

record v4l2_decoded =
  vo_data :: "bytes option"
  vo_timestamp_us :: int
  vo_rtp_timestamp :: u32

definition handle_v4l2_decode_frame ::
    "'b i420_copy \<Rightarrow> 'e v4l2_error + v4l2_decoded \<Rightarrow> ('dec, 'cb) v4l2_decoder \<Rightarrow> ('cb \<times> 'b \<times> int \<times> u32) option" where
  "handle_v4l2_decode_frame i420_copy result s =
     do { frame \<leftarrow> ok_opt result;
          resolution \<leftarrow> vd4_resolution s;
          frame_data \<leftarrow> vo_data frame;
          decoded_frame \<leftarrow> build_i420_frame i420_copy frame_data (rs_width resolution) (rs_height resolution)
            (rs_stride resolution) (vo_timestamp_us frame) (vo_rtp_timestamp frame);
          callback \<leftarrow> vd4_callback s;
          Some (callback, decoded_frame) }"

definition v4l2_rebuild_decoder ::
    "('i, 'p, 'enc, 'conv, 'dec, 'w, 'e) v4l2_lib \<Rightarrow> ('dec, 'cb) v4l2_decoder \<Rightarrow> 'w \<Rightarrow>
       ('e v4l2_error + unit) \<times> ('dec, 'cb) v4l2_decoder \<times> 'w" where
  "v4l2_rebuild_decoder L s w =
     (case wl_decoder_new L (vd4_device_path s) w of
        (Inl err, w) \<Rightarrow> (Inl err, s, w)
      | (Inr d, w) \<Rightarrow>
          (Inr (), s\<lparr>vd4_decoder := Some d, vd4_resolution := None\<rparr>,
           case vd4_decoder s of None \<Rightarrow> w | Some old \<Rightarrow> wl_drop_decoder L old w))"

definition v4l2_ensure_decoder ::
    "('i, 'p, 'enc, 'conv, 'dec, 'w, 'e) v4l2_lib \<Rightarrow> ('dec, 'cb) v4l2_decoder \<Rightarrow> 'w \<Rightarrow>
       ('e v4l2_error + unit) \<times> ('dec, 'cb) v4l2_decoder \<times> 'w" where
  "v4l2_ensure_decoder L s w = (if vd4_decoder s = None then v4l2_rebuild_decoder L s w else (Inr (), s, w))"

definition v4l2_configure ::
    "('i, 'p, 'enc, 'conv, 'dec, 'w, 'e) v4l2_lib \<Rightarrow> video_codec_type \<Rightarrow> ('dec, 'cb) v4l2_decoder \<Rightarrow> 'w \<Rightarrow>
       bool \<times> ('dec, 'cb) v4l2_decoder \<times> 'w" where
  "v4l2_configure L codec_type s w =
     (if codec_type \<noteq> H264 then (False, s, w)
      else case v4l2_rebuild_decoder L s w of (r, s, w) \<Rightarrow> (\<not> isl r, s, w))"

text \<open>\<open>None\<close> is the panic of \<^verbatim>\<open>expect("decoder should exist")\<close>.\<close>

definition v4l2_decode ::
    "('i, 'p, 'enc, 'conv, 'dec, 'w, 'e) v4l2_lib \<Rightarrow> input_image \<Rightarrow> int \<Rightarrow> ('dec, 'cb) v4l2_decoder \<Rightarrow> 'w \<Rightarrow>
       (video_codec_status \<times> ('dec, 'cb) v4l2_decoder \<times> 'w) option" where
  "v4l2_decode L input render_time_ms s w =
     (if vd4_callback s = None then Some (StatusUninitialized, s, w)
      else case v4l2_ensure_decoder L s w of
        (Inl _, s, w) \<Rightarrow> Some (StatusError, s, w)
      | (Inr _, s, w) \<Rightarrow>
          (case ig_data input of
             None \<Rightarrow> Some (StatusErrParameter, s, w)
           | Some encoded_bytes \<Rightarrow>
               (case vd4_decoder s of
                  None \<Rightarrow> None
                | Some d \<Rightarrow>
                    let fill = (\<lambda>buf_len. if buf_len < length encoded_bytes then None else Some encoded_bytes);
                        (result, d, w) = wl_decode L fill (saturating_mul_i64 render_time_ms 1000)
                          (ig_rtp_timestamp input) d w;
                        s = s\<lparr>vd4_decoder := Some d\<rparr>;
                        s = (case (result, wl_resolution L d) of
                           (Inr _, Some resolution) \<Rightarrow> s\<lparr>vd4_resolution := Some resolution\<rparr> | _ \<Rightarrow> s)
                    in Some (v4l2_status result, s, w))))"

definition v4l2_register_decoded ::
    "'cb option \<Rightarrow> ('dec, 'cb) v4l2_decoder \<Rightarrow> video_codec_status \<times> ('dec, 'cb) v4l2_decoder" where
  "v4l2_register_decoded callback s = (StatusOk, s\<lparr>vd4_callback := callback\<rparr>)"

definition v4l2_release_decoder ::
    "('i, 'p, 'enc, 'conv, 'dec, 'w, 'e) v4l2_lib \<Rightarrow> ('dec, 'cb) v4l2_decoder \<Rightarrow> 'w \<Rightarrow>
       video_codec_status \<times> ('dec, 'cb) v4l2_decoder \<times> 'w" where
  "v4l2_release_decoder L s w =
     (StatusOk, s\<lparr>vd4_callback := None, vd4_resolution := None, vd4_decoder := None\<rparr>,
      case vd4_decoder s of None \<Rightarrow> w | Some old \<Rightarrow> wl_drop_decoder L old w)"

lemma v4l2_decode_returns: "v4l2_decode L input t s w \<noteq> None"
proof -
  have "vd4_decoder s1 \<noteq> None" if "v4l2_ensure_decoder L s w = (Inr u, s1, w1)" for u s1 w1
    using that by (auto simp: v4l2_ensure_decoder_def v4l2_rebuild_decoder_def split: if_splits prod.splits sum.splits)
  then show ?thesis
    by (auto simp: v4l2_decode_def Let_def split: option.splits prod.splits sum.splits)
qed

subsection \<open>The capability\<close>

text \<open>\<open>opens\<close> says whether a device can be opened for reading and writing, with the text of the error.\<close>

definition probe_device_path :: "(string \<Rightarrow> string + unit) \<Rightarrow> string \<Rightarrow> 'e codec_error + unit" where
  "probe_device_path opens device_path =
     map_err (\<lambda>err. CodecMessage (''failed to open V4L2 device '' @ device_path @ '': '' @ err)) (opens device_path)"

definition v4l2_new_with_device_paths ::
    "webrtc \<Rightarrow> (sdp_format list \<Rightarrow> (sdp_format \<Rightarrow> ('enc, 'conv, 'cb) v4l2_encoder option) \<Rightarrow>
         sdp_format \<Rightarrow> ('enc, 'conv, 'cb) v4l2_encoder option) \<Rightarrow> (string \<Rightarrow> string + unit) \<Rightarrow> string \<Rightarrow> string \<Rightarrow> bool \<Rightarrow>
       'e codec_error + (('enc, 'conv, 'cb) v4l2_encoder, ('dec, 'db) v4l2_decoder) video_capability" where
  "v4l2_new_with_device_paths W simulcast opens encoder_device_path decoder_device_path probe_device =
     bindE (if probe_device then bindE (probe_device_path opens encoder_device_path)
         (\<lambda>_. probe_device_path opens decoder_device_path) else Inr ()) (\<lambda>_.
     Inr (backend_capability W simulcast \<lparr>vi_name = ''v4l2'', vi_description = ''V4L2 M2M''\<rparr>
       (\<lambda>_. supported_formats_for_codec H264)
       (\<lambda>format. Option.bind (codec_type_from_format W format) (\<lambda>codec_type.
          if codec_type \<noteq> H264 then None else Some (v4l2_encoder_new encoder_device_path)))
       (\<lambda>format. Some (v4l2_decoder_new decoder_device_path))))"

definition v4l2_capability_new ::
    "webrtc \<Rightarrow> (sdp_format list \<Rightarrow> (sdp_format \<Rightarrow> ('enc, 'conv, 'cb) v4l2_encoder option) \<Rightarrow>
         sdp_format \<Rightarrow> ('enc, 'conv, 'cb) v4l2_encoder option) \<Rightarrow> (string \<Rightarrow> string + unit) \<Rightarrow>
       'e codec_error + (('enc, 'conv, 'cb) v4l2_encoder, ('dec, 'db) v4l2_decoder) video_capability" where
  "v4l2_capability_new W simulcast opens =
     v4l2_new_with_device_paths W simulcast opens ''/dev/video11'' ''/dev/video10'' True"

subsection \<open>An example\<close>

text \<open>Devices that are their settings, in a world that says which encoders can be opened.\<close>

definition example_v4l2 ::
    "(unit, unit, v4l2_encoder_config, v4l2_converter_config, unit, bool list, unit) v4l2_lib" where
  "example_v4l2 =
     \<lparr>wl_yuv420_size = (\<lambda>_. 12), wl_i420_copy_into = (\<lambda>_ _ _ _. Some ()),
      wl_encoder_new = (\<lambda>config n. (if n = [] \<or> \<not> hd n then Inl (V4l2Failed ()) else Inr config, tl n)),
      wl_encode_mmap = (\<lambda>fill t force v e n. (Inr (), e, n)),
      wl_encode_dmabuf = (\<lambda>buf t force v e n. (Inr (), e, n)),
      wl_set_bitrate = (\<lambda>b e n. (Inr (), e\<lparr>wc_bitrate_bps := b\<rparr>, n)), wl_drop_encoder = (\<lambda>e n. n),
      wl_converter_new = (\<lambda>config n. (Inr config, n)), wl_convert = (\<lambda>buf t v c n. (Inr (), c, n)),
      wl_drop_converter = (\<lambda>c e n. (e, n)), wl_decoder_new = (\<lambda>path n. (Inr (), n)),
      wl_decode = (\<lambda>fill t rtp d n. (Inr (), d, n)), wl_resolution = (\<lambda>_. None), wl_drop_decoder = (\<lambda>d n. n)\<rparr>"

lemma example_v4l2_laws: "v4l2_laws example_v4l2 (\<lambda>e. e) (\<lambda>c. c)"
  by (auto simp: v4l2_laws_def example_v4l2_def split: if_splits)

definition example_native :: native_frame where
  "example_native =
     \<lparr>nf_raw_width = 8, nf_raw_height = 4, nf_scaled_width = 4, nf_scaled_height = 2, nf_fd = 5, nf_size = 48,
      nf_stride = 8, nf_frame_pixel_format = FormatNV12, nf_cookie = 0\<rparr>"

definition example_v4l2_frame :: "native_frame option \<Rightarrow> unit v4l2_frame" where
  "example_v4l2_frame native = raw_frame.extend (example_raw 4 2) \<lparr>vf_native = native\<rparr>"

text \<open>The second \<^verbatim>\<open>init_encode\<close> fails, so the frame needs a rebuild.\<close>

definition example_v4l2_calls :: "(unit, unit, unit) v4l2_call list" where
  "example_v4l2_calls =
     [V4l2Call (RegisterCallback (Some ())), V4l2Call (InitEncode (example_hd H264 4 2)),
      V4l2Call (InitEncode (example_hd H264 8 8)),
      V4l2Call (SetRates \<lparr>rc_framerate_fps = Finite 30, rc_bitrate_sum_bps = 300000, rc_target_bitrate_sum_bps = 0\<rparr>)]"

definition example_v4l2_state :: "(v4l2_encoder_config, v4l2_converter_config, unit) v4l2_encoder" where
  "example_v4l2_state =
     \<lparr>vs_encoder = Some (mmap_encoder_config ''/dev/video11'' 4 2 300000), vs_callback = Some (),
      vs_device_path = ''/dev/video11'', vs_width = 8, vs_height = 8, vs_target_bitrate_bps = 300000,
      vs_input_mode = MmapI420, vs_rebuild_needed = True, vs_converter = None, vs_native_input_config = None\<rparr>"

lemma example_v4l2_starts:
  "run_calls (\<lambda>c s w. Some (v4l2_step example_v4l2 c s w)) example_v4l2_calls (v4l2_encoder_new ''/dev/video11'')
       [True, False, True] =
     Some (zip example_v4l2_calls [(StatusOk, None), (StatusOk, None), (StatusError, None), (StatusOk, None)],
       example_v4l2_state, [True])"
  by (simp add: example_v4l2_calls_def v4l2_step_def v4l2_encoder_new_def v4l2_init_encode_def example_hd_def
      drop_v4l2_converter_def rebuild_mmap_encoder_def drop_pipeline_def drop_v4l2_encoder_def u32_of_size_def
      v4l2_set_rates_def example_v4l2_state_def mmap_encoder_config_def example_rates(2) example_v4l2_def Let_def)


definition example_v4l2_handed :: "(v4l2_encoder_config, v4l2_converter_config) v4l2_handed" where
  "example_v4l2_handed =
     HandedNative \<lparr>cc_input_width = 8, cc_input_height = 4, cc_output_width = 4, cc_output_height = 2,
         cc_input_memory = MemoryDmaBuf, cc_output_memory = MemoryDmaBuf, cc_input_pixel_format = PixelNv12,
         cc_output_pixel_format = PixelNv12\<rparr>
       (Some \<lparr>wc_width = 4, wc_height = 2, wc_bitrate_bps = 300000, wc_device_path = ''/dev/video11'',
         wc_input_memory = Some MemoryDmaBuf, wc_pixel_format = Some PixelNv12\<rparr>)
       \<lparr>db_fd = 5, db_bytesused = 48, db_length = 48\<rparr> 1000
       \<lparr>cw_value = \<lparr>cv_rtp_timestamp = 90, cv_frame_width = 4, cv_frame_height = 2\<rparr>,
        cw_force_keyframe = True, cw_native_frame = example_native\<rparr>"

lemma example_v4l2_encodes:
  "\<exists>s n. v4l2_step example_v4l2 (V4l2Call (EncodeFrame (example_v4l2_frame (Some example_native)) (Some [FrameKey])))
      example_v4l2_state [True] = ((StatusOk, Some example_v4l2_handed), s, n)"
  by (simp add: v4l2_step_def v4l2_encode_def example_v4l2_frame_def raw_frame.extend_def example_raw_def
      u32_of_size_def example_v4l2_state_def requested_frame_type_def v4l2_encode_native_def
      native_input_config_of_def example_native_def try_u32_def native_pixel_format_of_def nf_is_i420_def nf_is_nv12_def
      ready_native_def rebuild_native_pipeline_def example_v4l2_def native_encoder_config_def
      native_converter_config_def to_v4l2_pixel_format_def v4l2_status_def value_of_frame_def example_v4l2_handed_def
      Let_def)

theorem v4l2_encodes_as_requested_witness:
  "v4l2_expected (\<lambda>e. e) (\<lambda>c. c) ''/dev/video11'' 300000
     (V4l2Call (EncodeFrame (example_v4l2_frame (Some example_native)) (Some [FrameKey])) :: (unit, unit, unit) v4l2_call)
     example_v4l2_handed"
proof -
  let ?call = "V4l2Call (EncodeFrame (example_v4l2_frame (Some example_native)) (Some [FrameKey])) ::
    (unit, unit, unit) v4l2_call"
  obtain s n where "v4l2_step example_v4l2 ?call example_v4l2_state [True] =
      ((StatusOk, Some example_v4l2_handed), s, n)" using example_v4l2_encodes by blast
  then have "run_calls (\<lambda>c s w. Some (v4l2_step example_v4l2 c s w)) (example_v4l2_calls @ [?call])
      (v4l2_encoder_new ''/dev/video11'') [True, False, True] =
    Some (zip example_v4l2_calls [(StatusOk, None), (StatusOk, None), (StatusError, None), (StatusOk, None)] @
      [(?call, StatusOk, Some example_v4l2_handed)], s, n)"
    by (intro run_calls_snoc [OF example_v4l2_starts]) simp
  from v4l2_encodes_as_requested [OF example_v4l2_laws this refl] show ?thesis
    by (simp add: example_v4l2_calls_def)
qed

end
