(* ===== verification/Libcamera_Capture.thy ===== *)
theory Libcamera_Capture
  imports Libcamera "HOL-Library.Multiset"
begin

text \<open>
  The capture thread of \<^verbatim>\<open>src/libcamera.rs\<close>: \<^verbatim>\<open>run_libcamera_loop\<close> with its set up, and the
  loop as a state machine with the camera and the consumers of native frames. A capture request is with
  the camera, on its way to the loop, held by native frames, on its way back, or lost; the theorems say
  that it is always at exactly one of these places.
\<close>

subsection \<open>Setting the camera up\<close>

definition YU12_FOURCC :: u32 where "YU12_FOURCC = 0x32315559"

definition NV12_FOURCC :: u32 where "NV12_FOURCC = 0x3231564E"

datatype captured_frame_buffers =
    Mapped "mapped_plane list list"
  | Native "native_frame_info list"

text \<open>
  What the camera answers: the configuration for a pixel format, the buffers with their planes, and
  which calls fail.
\<close>

record stream_configuration =
  sc_width :: u32
  sc_height :: u32
  sc_fourcc :: u32
  sc_stride :: u32

record 'e camera_setup =
  cs_manager :: "'e + nat"
  cs_get_camera :: "nat \<Rightarrow> 'e + unit"
  cs_acquire :: "'e + unit"
  cs_generate_configuration :: "'e + unit"
  cs_at_0 :: "'e + unit"
  cs_validate :: "u32 \<Rightarrow> u32 \<Rightarrow> u32 \<Rightarrow> 'e + unit"
  cs_configure :: "'e + unit"
  cs_stream_configuration :: stream_configuration
  cs_has_stream :: bool
  cs_allocate :: "'e + nat"
  cs_get_buffer :: "nat \<Rightarrow> 'e + nat \<times> (nat \<Rightarrow> frame_buffer_plane option)"
  cs_mmap :: "int \<Rightarrow> u64 \<Rightarrow> 'e + bytes"
  cs_dup_fd :: "int \<Rightarrow> 'e + int"
  cs_create_request :: "nat \<Rightarrow> 'e + unit"
  cs_add_buffer :: "nat \<Rightarrow> 'e + unit"
  cs_start :: "'e + unit"
  cs_queue_request :: "nat \<Rightarrow> 'e + unit"

abbreviation nativeE :: "'e + 'a \<Rightarrow> 'e libcamera_error + 'a" where
  "nativeE \<equiv> map_err LibcameraFailed"

text \<open>The format: planar first, or else NV12.\<close>

definition validated_format :: "'e camera_setup \<Rightarrow> u32 \<Rightarrow> u32 \<Rightarrow> 'e libcamera_error + unit" where
  "validated_format R width height =
     (case cs_validate R width height YU12_FOURCC of
        Inr _ \<Rightarrow> Inr ()
      | Inl _ \<Rightarrow> bindE (nativeE (cs_at_0 R)) (\<lambda>_. nativeE (cs_validate R width height NV12_FOURCC)))"

definition frame_format_of :: "u32 \<Rightarrow> 'e libcamera_error + frame_pixel_format" where
  "frame_format_of fourcc =
     (if fourcc = YU12_FOURCC then Inr FormatI420
      else if fourcc = NV12_FOURCC then Inr FormatNV12
      else Inl (LibcameraMessage ''unsupported pixel format''))"

record 'f capture_setup =
  su_width :: int
  su_height :: int
  su_stride :: int
  su_format :: frame_pixel_format
  su_controls :: "'f parsed_control list"
  su_buffers :: captured_frame_buffers

text \<open>The buffer of one request, with the requests that are created for it.\<close>

definition setup_buffer ::
    "'e camera_setup \<Rightarrow> nat \<Rightarrow> captured_frame_buffers \<Rightarrow> 'e libcamera_error + captured_frame_buffers" where
  "setup_buffer R index buffers =
     bindE (nativeE (cs_get_buffer R index)) (\<lambda>(planes_count, plane).
     bindE (collect_frame_buffer_layout planes_count plane) (\<lambda>layout.
     bindE (case buffers of
         Mapped mapped \<Rightarrow> bindE (build_mapped_frame_buffer_planes (cs_mmap R) layout)
           (\<lambda>planes. Inr (Mapped (mapped @ [planes])))
       | Native infos \<Rightarrow> bindE (build_native_frame_info (cs_dup_fd R) layout)
           (\<lambda>info. Inr (Native (infos @ [info])))) (\<lambda>buffers.
     bindE (nativeE (cs_create_request R index)) (\<lambda>_.
     bindE (nativeE (cs_add_buffer R index)) (\<lambda>_. Inr buffers)))))"

fun setup_buffers ::
    "'e camera_setup \<Rightarrow> nat list \<Rightarrow> captured_frame_buffers \<Rightarrow> 'e libcamera_error + captured_frame_buffers" where
  "setup_buffers R [] buffers = Inr buffers"
| "setup_buffers R (index # indices) buffers =
     bindE (setup_buffer R index buffers) (setup_buffers R indices)"

text \<open>\<^verbatim>\<open>run_libcamera_loop_inner\<close> up to the start of the camera; the size of the stream is read as \<^verbatim>\<open>i32\<close>.\<close>

definition capture_setup_of ::
    "'f camera_crate \<Rightarrow> 'e camera_setup \<Rightarrow> int \<Rightarrow> int \<Rightarrow> bool \<Rightarrow> (string \<times> string) list \<Rightarrow>
       'e libcamera_error + nat \<times> 'f capture_setup" where
  "capture_setup_of C R width height native_frame_output controls =
     bindE (nativeE (cs_generate_configuration R)) (\<lambda>_.
     bindE (nativeE (cs_at_0 R)) (\<lambda>_.
     bindE (validated_format R (word_of_int width) (word_of_int height)) (\<lambda>_.
     bindE (nativeE (cs_configure R)) (\<lambda>_.
     bindE (frame_format_of (sc_fourcc (cs_stream_configuration R))) (\<lambda>frame_pixel_format.
     bindE (guardE (cs_has_stream R) (LibcameraMessage ''failed to get stream'')) (\<lambda>_.
     bindE (nativeE (cs_allocate R)) (\<lambda>buffer_count.
     bindE (parse_controls C controls) (\<lambda>parsed_controls.
     let stride = uint (sc_stride (cs_stream_configuration R)) in
     bindE (guardE (stride \<le> 2147483647) (LibcameraMessage (''stride is too large: '' @ dec_int stride))) (\<lambda>_.
     bindE (setup_buffers R [0..<buffer_count] (if native_frame_output then Native [] else Mapped [])) (\<lambda>buffers.
     Inr (buffer_count,
       \<lparr>su_width = sint (sc_width (cs_stream_configuration R)),
        su_height = sint (sc_height (cs_stream_configuration R)), su_stride = stride,
        su_format = frame_pixel_format, su_controls = parsed_controls, su_buffers = buffers\<rparr>)))))))))))"

definition buffer_number :: "captured_frame_buffers \<Rightarrow> nat" where
  "buffer_number buffers = (case buffers of Mapped m \<Rightarrow> length m | Native i \<Rightarrow> length i)"

lemma setup_buffers_number:
  "setup_buffers R indices buffers = Inr buffers' \<Longrightarrow>
     buffer_number buffers' = buffer_number buffers + length indices \<and>
     ((\<exists>m. buffers' = Mapped m) \<longleftrightarrow> (\<exists>m. buffers = Mapped m))"
proof (induction indices arbitrary: buffers)
  case (Cons index indices)
  then obtain b where b: "setup_buffer R index buffers = Inr b" "setup_buffers R indices b = Inr buffers'"
    by (auto simp: bindE_eq_Inr)
  have "buffer_number b = Suc (buffer_number buffers) \<and> ((\<exists>m. b = Mapped m) \<longleftrightarrow> (\<exists>m. buffers = Mapped m))"
    using b(1) by (cases buffers) (auto simp: setup_buffer_def bindE_eq_Inr buffer_number_def split: prod.splits)
  with Cons.IH [OF b(2)] show ?case by simp
qed simp

text \<open>There is a buffer for every request, mapped or native as it was asked for.\<close>

lemma capture_setup_buffers:
  "capture_setup_of C R width height native controls = Inr (n, S) \<Longrightarrow>
     buffer_number (su_buffers S) = n \<and> (native \<longleftrightarrow> (\<exists>infos. su_buffers S = Native infos))"
proof -
  assume "capture_setup_of C R width height native controls = Inr (n, S)"
  then obtain b where "setup_buffers R [0..<n] (if native then Native [] else Mapped []) = Inr b" "su_buffers S = b"
    by (auto simp: capture_setup_of_def bindE_eq_Inr Let_def)
  from setup_buffers_number [OF this(1)] this(2) show ?thesis
    by (cases b) (auto simp: buffer_number_def split: if_splits)
qed


subsection \<open>The loop\<close>

text \<open>A request that the camera is done with, and what the callback sends to the loop for it.\<close>

record completed_request =
  cr_cookie :: u64
  cr_complete :: bool
  cr_buffer :: "(bool \<times> u64) option"

definition on_request_completed :: "completed_request \<Rightarrow> (u64 \<times> int option) option" where
  "on_request_completed completed =
     (if \<not> cr_complete completed then None
      else case cr_buffer completed of
        None \<Rightarrow> None
      | Some (success, timestamp) \<Rightarrow>
          Some (cr_cookie completed, if success then Some (sint (timestamp div 1000)) else None))"

text \<open>The frames that the source gets, with the time they were translated to.\<close>

datatype 'b captured_frame =
    CopiedFrame 'b int
  | NativeFrame native_frame int

text \<open>
  Where the requests are: with the camera, sent to the loop, held by so many native frames, sent back by
  them, or lost; and the controls of each.
\<close>

record ('b, 'f) capture_state =
  st_queued :: "u64 list"
  st_completed :: "(u64 \<times> int option) list"
  st_refs :: "u64 \<Rightarrow> nat"
  st_returned :: "u64 list"
  st_lost :: "u64 list"
  st_controls :: "u64 \<Rightarrow> (control_id \<times> 'f control_value) list"
  st_frames :: "'b captured_frame list"

text \<open>
  What a round of the loop finds: the stop flag, which requests the camera takes, what
  \<^verbatim>\<open>adapt_frame\<close> says, the copy and the scaling of the picture, the translated time and how many
  references to a native frame are kept by those it is handed to.
\<close>

record 'b capture_env =
  ce_stop :: bool
  ce_disconnected :: bool
  ce_queues :: "u64 \<Rightarrow> bool"
  ce_adapt :: "bool \<times> int \<times> int"
  ce_i420_copy :: "bytes \<times> int \<Rightarrow> bytes \<times> int \<Rightarrow> bytes \<times> int \<Rightarrow> int \<Rightarrow> int \<Rightarrow> 'b option"
  ce_nv12_copy :: "bytes \<times> int \<Rightarrow> bytes \<times> int \<Rightarrow> int \<Rightarrow> int \<Rightarrow> 'b option"
  ce_scale :: "int \<Rightarrow> int \<Rightarrow> 'b \<Rightarrow> 'b option"
  ce_translate :: "int \<Rightarrow> int"
  ce_kept :: nat

definition requeue_request ::
    "(u64 \<Rightarrow> bool) \<Rightarrow> nat \<Rightarrow> 'f parsed_control list \<Rightarrow> u64 \<Rightarrow> ('b, 'f) capture_state \<Rightarrow> ('b, 'f) capture_state" where
  "requeue_request queues requests controls cookie st =
     (if requests \<le> unat cookie then st\<lparr>st_lost := st_lost st @ [cookie]\<rparr>
      else let st = st\<lparr>st_controls := (st_controls st)(cookie := apply_controls controls [])\<rparr> in
        if queues cookie then st\<lparr>st_queued := st_queued st @ [cookie]\<rparr>
        else st\<lparr>st_lost := st_lost st @ [cookie]\<rparr>)"

definition on_frame_buffer ::
    "'b capture_env \<Rightarrow> 'f capture_setup \<Rightarrow> int \<Rightarrow> int \<Rightarrow> int \<Rightarrow> 'b \<Rightarrow> ('b, 'f) capture_state \<Rightarrow> ('b, 'f) capture_state" where
  "on_frame_buffer E S adapted_width adapted_height timestamp_us frame_buffer st =
     (let frame_buffer = (if adapted_width \<noteq> su_width S \<or> adapted_height \<noteq> su_height S
            then ce_scale E adapted_width adapted_height frame_buffer else Some frame_buffer)
      in case frame_buffer of
           None \<Rightarrow> st
         | Some b \<Rightarrow> st\<lparr>st_frames := st_frames st @ [CopiedFrame b (ce_translate E timestamp_us)]\<rparr>)"

text \<open>A native frame that nobody keeps is dropped at once, and its token sent back.\<close>

definition on_native_frame_buffer ::
    "'b capture_env \<Rightarrow> 'f capture_setup \<Rightarrow> native_frame_info \<Rightarrow> int \<Rightarrow> int \<Rightarrow> int \<Rightarrow> u64 \<Rightarrow>
       ('b, 'f) capture_state \<Rightarrow> ('b, 'f) capture_state" where
  "on_native_frame_buffer E S info adapted_width adapted_height timestamp_us cookie st =
     (let frame =
        \<lparr>nf_raw_width = su_width S, nf_raw_height = su_height S, nf_scaled_width = adapted_width,
         nf_scaled_height = adapted_height, nf_fd = ni_fd info, nf_size = ni_size info,
         nf_stride = su_stride S, nf_frame_pixel_format = su_format S, nf_cookie = cookie\<rparr>;
          st = st\<lparr>st_frames := st_frames st @ [NativeFrame frame (ce_translate E timestamp_us)]\<rparr>
      in if ce_kept E = 0 then st\<lparr>st_returned := st_returned st @ [cookie]\<rparr>
         else st\<lparr>st_refs := (st_refs st)(cookie := ce_kept E)\<rparr>)"

definition copy_planes ::
    "'b capture_env \<Rightarrow> 'f capture_setup \<Rightarrow> mapped_plane list \<Rightarrow> unit libcamera_error + 'b" where
  "copy_planes E S planes =
     (case su_format S of
        FormatI420 \<Rightarrow> copy_i420_planes_to_buffer (ce_i420_copy E) (map mp_as_slice planes) (su_width S) (su_height S)
      | FormatNV12 \<Rightarrow> copy_nv12_planes_to_buffer (ce_nv12_copy E) (map mp_as_slice planes) (su_width S) (su_height S))"

text \<open>One message of the camera.\<close>

definition handle_completed ::
    "'b capture_env \<Rightarrow> 'f capture_setup \<Rightarrow> nat \<Rightarrow> u64 \<times> int option \<Rightarrow> ('b, 'f) capture_state \<Rightarrow> ('b, 'f) capture_state" where
  "handle_completed E S requests message st =
     (case message of (cookie, frame_info) \<Rightarrow>
        let requeue = requeue_request (ce_queues E) requests (su_controls S) cookie in
        (case (frame_info, ce_adapt E) of
           (None, _) \<Rightarrow> requeue st
         | (Some timestamp_us, (applied, adapted_width, adapted_height)) \<Rightarrow>
             if \<not> applied then requeue st
             else case su_buffers S of
               Native infos \<Rightarrow>
                 if length infos \<le> unat cookie then requeue st
                 else on_native_frame_buffer E S (infos ! unat cookie) adapted_width adapted_height
                   timestamp_us cookie st
             | Mapped buffers \<Rightarrow>
                 if length buffers \<le> unat cookie then requeue st
                 else (case copy_planes E S (buffers ! unat cookie) of
                   Inl _ \<Rightarrow> requeue st
                 | Inr buffer \<Rightarrow> requeue
                     (on_frame_buffer E S adapted_width adapted_height timestamp_us buffer st))))"

text \<open>
  A round: the loop ends, or the requests that native frames sent back are queued again and one message
  is handled. \<open>None\<close> is the end of the loop.
\<close>

definition drain_returned ::
    "'b capture_env \<Rightarrow> 'f capture_setup \<Rightarrow> nat \<Rightarrow> ('b, 'f) capture_state \<Rightarrow> ('b, 'f) capture_state" where
  "drain_returned E S requests st =
     fold (requeue_request (ce_queues E) requests (su_controls S)) (st_returned st) (st\<lparr>st_returned := []\<rparr>)"

definition capture_round ::
    "'b capture_env \<Rightarrow> 'f capture_setup \<Rightarrow> nat \<Rightarrow> ('b, 'f) capture_state \<Rightarrow> ('b, 'f) capture_state option" where
  "capture_round E S requests st =
     (if ce_stop E then None
      else let st = drain_returned E S requests st in
        (case st_completed st of
           [] \<Rightarrow> if ce_disconnected E then None else Some st
         | message # messages \<Rightarrow>
             Some (handle_completed E S requests message (st\<lparr>st_completed := messages\<rparr>))))"

text \<open>The start of \<^verbatim>\<open>run_capture_loop\<close>: every request is queued.\<close>

fun queue_all :: "(nat \<Rightarrow> 'e + unit) \<Rightarrow> nat list \<Rightarrow> u64 list \<Rightarrow> 'e libcamera_error + u64 list" where
  "queue_all queue [] queued = Inr queued"
| "queue_all queue (index # indices) queued =
     bindE (nativeE (queue index)) (\<lambda>_. queue_all queue indices (queued @ [of_nat index]))"

definition capture_started ::
    "'e camera_setup \<Rightarrow> nat \<Rightarrow> 'f parsed_control list \<Rightarrow> 'e libcamera_error + ('b, 'f) capture_state" where
  "capture_started R requests controls =
     bindE (queue_all (cs_queue_request R) [0..<requests] []) (\<lambda>queued.
     Inr \<lparr>st_queued = queued, st_completed = [], st_refs = (\<lambda>_. 0), st_returned = [], st_lost = [],
       st_controls = (\<lambda>cookie. if unat cookie < requests then apply_controls controls [] else []), st_frames = []\<rparr>)"

text \<open>
  What happens meanwhile: the camera is done with a request that is queued, and the frames that hold a
  request are shared (\<^verbatim>\<open>clone\<close>, \<^verbatim>\<open>crop_and_scale\<close>) and dropped; dropping the last sends
  the request back. \<open>None\<close> is an event that cannot happen.
\<close>

datatype 'b capture_event =
    RequestCompleted completed_request
  | FrameShared u64
  | FrameDropped u64
  | LoopRound "'b capture_env"

fun capture_step ::
    "'f capture_setup \<Rightarrow> nat \<Rightarrow> 'b capture_event \<Rightarrow> ('b, 'f) capture_state \<Rightarrow> ('b, 'f) capture_state option" where
  "capture_step S requests (RequestCompleted completed) st =
     (if cr_cookie completed \<notin> set (st_queued st) then None
      else let st = st\<lparr>st_queued := remove1 (cr_cookie completed) (st_queued st)\<rparr> in
        (case on_request_completed completed of
           None \<Rightarrow> Some (st\<lparr>st_lost := st_lost st @ [cr_cookie completed]\<rparr>)
         | Some message \<Rightarrow> Some (st\<lparr>st_completed := st_completed st @ [message]\<rparr>)))"
| "capture_step S requests (FrameShared cookie) st =
     (if st_refs st cookie = 0 then None
      else Some (st\<lparr>st_refs := (st_refs st)(cookie := st_refs st cookie + 1)\<rparr>))"
| "capture_step S requests (FrameDropped cookie) st =
     (if st_refs st cookie = 0 then None
      else let st = st\<lparr>st_refs := (st_refs st)(cookie := st_refs st cookie - 1)\<rparr> in
        Some (if st_refs st cookie = 0 then st\<lparr>st_returned := st_returned st @ [cookie]\<rparr> else st))"
| "capture_step S requests (LoopRound E) st = capture_round E S requests st"

fun run_capture ::
    "'f capture_setup \<Rightarrow> nat \<Rightarrow> 'b capture_event list \<Rightarrow> ('b, 'f) capture_state \<Rightarrow> ('b, 'f) capture_state option" where
  "run_capture S requests [] st = Some st"
| "run_capture S requests (event # events) st =
     Option.bind (capture_step S requests event st) (run_capture S requests events)"

text \<open>
  The calls of the camera around the loop: whoever acquired it releases it, and a camera that was
  started is stopped before its buffers are dropped. \<open>events\<close> are those until the loop ends.
\<close>

datatype camera_call = CameraAcquire | CameraStart | CameraStop | CameraRelease

definition run_libcamera_loop_inner ::
    "'f camera_crate \<Rightarrow> 'e camera_setup \<Rightarrow> int \<Rightarrow> int \<Rightarrow> bool \<Rightarrow> (string \<times> string) list \<Rightarrow>
       'b capture_event list \<Rightarrow> ('e libcamera_error + ('b, 'f) capture_state option) \<times> camera_call list" where
  "run_libcamera_loop_inner C R width height native_frame_output controls events =
     (case capture_setup_of C R width height native_frame_output controls of
        Inl err \<Rightarrow> (Inl err, [])
      | Inr (buffer_count, S) \<Rightarrow>
          (case cs_start R of
             Inl err \<Rightarrow> (Inl (LibcameraFailed err), [])
           | Inr _ \<Rightarrow>
               (bindE (capture_started R buffer_count (su_controls S)) (\<lambda>st. Inr (run_capture S buffer_count events st)),
                [CameraStart, CameraStop])))"

definition run_libcamera_loop ::
    "'f camera_crate \<Rightarrow> 'e camera_setup \<Rightarrow> u32 \<Rightarrow> int \<Rightarrow> int \<Rightarrow> bool \<Rightarrow> (string \<times> string) list \<Rightarrow>
       'b capture_event list \<Rightarrow> ('e libcamera_error + ('b, 'f) capture_state option) \<times> camera_call list" where
  "run_libcamera_loop C R camera_index width height native_frame_output controls events =
     (case cs_manager R of
        Inl err \<Rightarrow> (Inl (LibcameraFailed err), [])
      | Inr cameras_count \<Rightarrow>
          if cameras_count = 0 then (Inl (LibcameraMessage ''camera was not found''), [])
          else if (of_nat cameras_count :: u32) \<le> camera_index then
            (Inl (LibcameraMessage (''camera index is out of range: index='' @ dec (unat camera_index) @
               '' count='' @ dec cameras_count)), [])
          else (case bindE (cs_get_camera R (unat camera_index)) (\<lambda>_. cs_acquire R) of
             Inl err \<Rightarrow> (Inl (LibcameraFailed err), [])
           | Inr _ \<Rightarrow>
               (case run_libcamera_loop_inner C R width height native_frame_output controls events of
                  (result, calls) \<Rightarrow> (result, CameraAcquire # calls @ [CameraRelease]))))"


subsection \<open>Every request is at exactly one place\<close>

definition held :: "('b, 'f) capture_state \<Rightarrow> u64 set" where
  "held st = {cookie. 0 < st_refs st cookie}"

definition places :: "('b, 'f) capture_state \<Rightarrow> u64 multiset" where
  "places st = mset (st_queued st) + mset (map fst (st_completed st)) + mset_set (held st) +
     mset (st_returned st) + mset (st_lost st)"

definition conserved :: "nat \<Rightarrow> ('b, 'f) capture_state \<Rightarrow> bool" where
  "conserved n st \<longleftrightarrow> finite (held st) \<and> places st = mset (map of_nat [0..<n])"

lemma request_numbers_distinct: "n \<le> 2 ^ 64 \<Longrightarrow> distinct (map (of_nat :: nat \<Rightarrow> u64) [0..<n])"
  by (auto simp: distinct_map inj_on_def unsigned_of_nat take_bit_nat_eq_self
      dest!: arg_cong [where f = unat])

text \<open>Two of the places never have the same request.\<close>

lemma conserved_once:
  assumes "conserved n st" and "n \<le> 2 ^ 64"
  shows "count (places st) cookie \<le> 1"
proof -
  have "count (mset (map (of_nat :: nat \<Rightarrow> u64) [0..<n])) cookie \<le> 1"
    using distinct_count_atmost_1 [THEN iffD1, OF request_numbers_distinct [OF assms(2)]] by simp
  with assms(1) show ?thesis by (simp add: conserved_def)
qed

lemma conserved_held:
  assumes "conserved n st" and "n \<le> 2 ^ 64" and "0 < st_refs st cookie"
  shows "cookie \<notin> set (st_queued st) \<and> cookie \<notin> fst ` set (st_completed st) \<and>
    cookie \<notin> set (st_returned st) \<and> cookie \<notin> set (st_lost st) \<and> unat cookie < n"
proof -
  from assms have "cookie \<in># mset_set (held st)" by (simp add: held_def conserved_def)
  then have "0 < count (mset_set (held st)) cookie" by simp
  with conserved_once [OF assms(1,2), of cookie]
  have none: "count (mset (st_queued st)) cookie = 0" "count (mset (map fst (st_completed st))) cookie = 0"
    "count (mset (st_returned st)) cookie = 0" "count (mset (st_lost st)) cookie = 0"
    unfolding places_def by simp_all
  have "cookie \<in># places st" using \<open>cookie \<in># mset_set (held st)\<close> by (simp add: places_def)
  then have "cookie \<in> of_nat ` {0..<n}" using assms(1) by (simp add: conserved_def)
  then obtain i where "i < n" "cookie = of_nat i" by auto
  then have "unat cookie < n"
    using assms(2) by (simp add: unsigned_of_nat take_bit_nat_eq_self)
  with none show ?thesis by (auto simp: count_eq_zero_iff)
qed

lemma requeue_places:
  "places (requeue_request queues requests controls cookie st) = add_mset cookie (places st)"
  "st_refs (requeue_request queues requests controls cookie st) = st_refs st"
  by (simp_all add: requeue_request_def places_def held_def Let_def)

lemma drain_places: "places (drain_returned E S requests st) = places st"
  "st_refs (drain_returned E S requests st) = st_refs st"
  "st_completed (drain_returned E S requests st) = st_completed st"
proof -
  have fold: "places (fold (requeue_request q n controls) cookies s) = mset cookies + places s \<and>
      st_refs (fold (requeue_request q n controls) cookies s) = st_refs s \<and>
      st_completed (fold (requeue_request q n controls) cookies s) = st_completed s"
    for q n controls cookies and s :: "('a, 'g) capture_state"
    by (induction cookies arbitrary: s) (simp_all add: requeue_places, simp add: requeue_request_def Let_def)
  have taken: "places (st\<lparr>st_returned := []\<rparr>) + mset (st_returned st) = places st"
    by (simp add: places_def held_def)
  show "places (drain_returned E S requests st) = places st"
    "st_refs (drain_returned E S requests st) = st_refs st"
    "st_completed (drain_returned E S requests st) = st_completed st"
    using fold [of "ce_queues E" requests "su_controls S" "st_returned st" "st\<lparr>st_returned := []\<rparr>"] taken
    by (simp_all add: drain_returned_def add.commute)
qed

lemma on_frame_buffer_places:
  "places (on_frame_buffer E S aw ah ts b st) = places st"
  "st_refs (on_frame_buffer E S aw ah ts b st) = st_refs st"
  by (simp_all add: on_frame_buffer_def places_def held_def Let_def split: option.split)

lemma on_native_places:
  assumes "finite (held st)" and "st_refs st cookie = 0"
  shows "places (on_native_frame_buffer E S info aw ah ts cookie st) = add_mset cookie (places st) \<and>
    finite (held (on_native_frame_buffer E S info aw ah ts cookie st))"
proof -
  have "held (st\<lparr>st_frames := frames, st_refs := (st_refs st)(cookie := k)\<rparr>) = insert cookie (held st)"
    if "k \<noteq> 0" for k frames
    using that by (auto simp: held_def)
  with assms show ?thesis
    by (simp add: on_native_frame_buffer_def places_def Let_def) (simp add: held_def)
qed

lemma handle_completed_places:
  assumes "finite (held st)" and "st_refs st cookie = 0"
  shows "places (handle_completed E S n (cookie, info) st) = add_mset cookie (places st) \<and>
    finite (held (handle_completed E S n (cookie, info) st))"
proof -
  have fin: "finite (held s)" if "st_refs s = st_refs st" for s :: "('b, 'f) capture_state"
    using assms(1) that by (simp add: held_def)
  show ?thesis
    using on_native_places [OF assms]
    by (auto simp: handle_completed_def Let_def requeue_places on_frame_buffer_places intro!: fin
        split: option.split prod.split captured_frame_buffers.split sum.split)
qed

lemma capture_round_conserved:
  assumes "conserved n st" and "n \<le> 2 ^ 64" and "capture_round E S n st = Some st'"
  shows "conserved n st'"
proof -
  let ?d = "drain_returned E S n st"
  have d: "conserved n ?d" using assms(1) by (simp add: conserved_def drain_places held_def)
  show ?thesis
  proof (cases "st_completed ?d")
    case Nil
    with assms(3) d show ?thesis by (auto simp: capture_round_def Let_def split: if_splits)
  next
    case (Cons message messages)
    obtain cookie info where message: "message = (cookie, info)" by (cases message)
    let ?s = "?d\<lparr>st_completed := messages\<rparr>"
    have st': "st' = handle_completed E S n (cookie, info) ?s"
      using assms(3) Cons message by (auto simp: capture_round_def Let_def split: if_splits)
    have "st_refs ?d cookie = 0"
      using conserved_held [OF d assms(2), of cookie] Cons message by force
    then have "st_refs ?s cookie = 0" "finite (held ?s)"
      using d by (simp_all add: conserved_def held_def)
    from handle_completed_places [OF this(2,1), of E S n info]
    have "places st' = add_mset cookie (places ?s)" "finite (held st')" by (simp_all add: st')
    moreover have "places ?d = add_mset cookie (places ?s)" by (simp add: places_def held_def Cons message)
    ultimately show ?thesis using d by (simp add: conserved_def)
  qed
qed

lemma capture_step_conserved:
  assumes "conserved n st" and "n \<le> 2 ^ 64" and "capture_step S n event st = Some st'"
  shows "conserved n st'"
proof (cases event)
  case (RequestCompleted completed)
  with assms have c: "cr_cookie completed \<in> set (st_queued st)" by (auto split: if_splits)
  have "fst message = cr_cookie completed" if "on_request_completed completed = Some message" for message
    using that by (auto simp: on_request_completed_def split: if_splits option.splits)
  moreover have "mset (st_queued st) = add_mset (cr_cookie completed) (mset (remove1 (cr_cookie completed) (st_queued st)))"
    using c by simp
  ultimately have "places st' = places st" "held st' = held st"
    using assms(3) RequestCompleted c
    by (auto simp: places_def held_def Let_def simp del: mset_remove1 split: option.splits)
  with assms(1) show ?thesis by (simp add: conserved_def)
next
  case (FrameShared cookie)
  with assms have "held st' = held st" "places st' = places st"
    by (auto simp: held_def places_def split: if_splits)
  with assms(1) show ?thesis by (simp add: conserved_def)
next
  case (FrameDropped cookie)
  show ?thesis
  proof (cases "st_refs st cookie = 1")
    case True
    with FrameDropped assms(3) have st': "st' = st\<lparr>st_refs := (st_refs st)(cookie := 0),
        st_returned := st_returned st @ [cookie]\<rparr>" by simp
    have held: "held st' = held st - {cookie}" "cookie \<in> held st"
      using True by (auto simp: held_def st')
    moreover have "finite (held st)" using assms(1) by (simp add: conserved_def)
    ultimately have "mset_set (held st) = add_mset cookie (mset_set (held st'))"
      by (simp add: mset_set.remove)
    then have "places st' = places st" by (simp add: places_def st')
    with held assms(1) show ?thesis by (simp add: conserved_def)
  next
    case False
    with FrameDropped assms(3) have "held st' = held st" "places st' = places st"
      by (auto simp: held_def places_def Let_def split: if_splits)
    with assms(1) show ?thesis by (simp add: conserved_def)
  qed
next
  case (LoopRound E)
  with assms capture_round_conserved show ?thesis by simp
qed

lemma run_capture_conserved:
  "n \<le> 2 ^ 64 \<Longrightarrow> conserved n st \<Longrightarrow> run_capture S n events st = Some st' \<Longrightarrow> conserved n st'"
proof (induction events arbitrary: st)
  case (Cons event events)
  then obtain s where "capture_step S n event st = Some s" "run_capture S n events s = Some st'"
    by (auto simp: bind_eq_Some_conv)
  with Cons capture_step_conserved show ?case by blast
qed simp

lemma capture_started_conserved: "capture_started R n controls = Inr st \<Longrightarrow> conserved n st"
proof -
  have queued: "queue_all queue indices queued = Inr queued' \<Longrightarrow> queued' = queued @ map of_nat indices"
    for queue :: "nat \<Rightarrow> 'a + unit" and indices queued queued'
    by (induction indices arbitrary: queued) (simp, fastforce simp: bindE_eq_Inr)
  assume "capture_started R n controls = Inr st"
  then show ?thesis
    by (auto simp: capture_started_def bindE_eq_Inr conserved_def places_def held_def dest: queued)
qed


text \<open>
  Property C18. Memory that is in use is not captured into: while a native frame of a request is alive, the
  camera does not have the request, no message of the loop brings it there and its buffer exists.
\<close>

theorem native_frames_keep_buffers:
  assumes "capture_started R n controls = Inr st0" and "n \<le> 2 ^ 64"
    and "run_capture S n events st0 = Some st" and "0 < st_refs st cookie"
  shows "cookie \<notin> set (st_queued st) \<and> cookie \<notin> fst ` set (st_completed st) \<and>
    cookie \<notin> set (st_returned st) \<and> cookie \<notin> set (st_lost st) \<and> unat cookie < n"
  by (rule conserved_held [OF run_capture_conserved [OF assms(2) capture_started_conserved [OF assms(1)]
        assms(3)] assms(2,4)])

text \<open>
  Nothing is lost by an event when the camera is done with its requests in the regular way and takes
  every request again.
\<close>

fun loses_none :: "'b capture_event \<Rightarrow> bool" where
  "loses_none (RequestCompleted completed) = (on_request_completed completed \<noteq> None)"
| "loses_none (LoopRound E) = (\<forall>cookie. ce_queues E cookie)"
| "loses_none _ = True"

lemma requeue_lost:
  "(\<And>c. queues c) \<Longrightarrow> unat cookie < n \<Longrightarrow> st_lost (requeue_request queues n controls cookie st) = st_lost st"
  by (simp add: requeue_request_def Let_def)

lemma drain_lost:
  assumes "\<And>c. ce_queues E c" and "\<forall>cookie \<in> set (st_returned st). unat cookie < n"
  shows "st_lost (drain_returned E S n st) = st_lost st"
proof -
  have "\<forall>cookie \<in> set cookies. unat cookie < n \<Longrightarrow>
      st_lost (fold (requeue_request (ce_queues E) n (su_controls S)) cookies s) = st_lost s" for cookies and s :: "('a, 'b) capture_state"
    by (induction cookies arbitrary: s) (simp_all add: requeue_lost [OF assms(1)])
  from this [OF assms(2)] show ?thesis by (simp add: drain_returned_def)
qed

lemma handle_completed_lost:
  assumes "\<And>c. ce_queues E c" and "unat cookie < n"
  shows "st_lost (handle_completed E S n (cookie, info) st) = st_lost st"
  using assms
  by (auto simp: handle_completed_def Let_def requeue_lost on_frame_buffer_def on_native_frame_buffer_def
      split: option.split prod.split captured_frame_buffers.split sum.split)

lemma conserved_places_lt:
  assumes "conserved n st" and "n \<le> 2 ^ 64" and "cookie \<in># places st"
  shows "unat cookie < n"
proof -
  from assms obtain i where "i < n" "cookie = of_nat i" by (auto simp: conserved_def)
  with assms(2) show ?thesis by (simp add: unsigned_of_nat take_bit_nat_eq_self)
qed

lemma capture_step_lost:
  assumes "conserved n st" and "n \<le> 2 ^ 64" and "loses_none event"
    and "capture_step S n event st = Some st'"
  shows "st_lost st' = st_lost st"
proof (cases event)
  case (LoopRound E)
  then have q: "\<And>c. ce_queues E c" using assms(3) by simp
  have "unat cookie < n" if "cookie \<in> set (st_returned st) \<or> cookie \<in> fst ` set (st_completed st)" for cookie
    by (rule conserved_places_lt [OF assms(1,2)]) (use that in \<open>auto simp: places_def\<close>)
  then have lt: "\<forall>cookie \<in> set (st_returned st). unat cookie < n"
    "\<And>cookie info messages. st_completed st = (cookie, info) # messages \<Longrightarrow> unat cookie < n" by auto
  from LoopRound assms(4) show ?thesis
    by (auto simp: capture_round_def Let_def drain_places drain_lost [OF q lt(1)] handle_completed_lost [OF q lt(2)]
        split: if_splits list.splits)
qed (use assms in \<open>auto simp: Let_def split: if_splits option.splits\<close>)

lemma run_capture_lost:
  "n \<le> 2 ^ 64 \<Longrightarrow> conserved n st \<Longrightarrow> (\<forall>event \<in> set events. loses_none event) \<Longrightarrow>
     run_capture S n events st = Some st' \<Longrightarrow> st_lost st' = st_lost st"
proof (induction events arbitrary: st)
  case (Cons event events)
  then obtain s where s: "capture_step S n event st = Some s" "run_capture S n events s = Some st'"
    by (auto simp: bind_eq_Some_conv)
  with Cons capture_step_conserved [OF Cons.prems(2,1) s(1)] capture_step_lost [OF Cons.prems(2,1) _ s(1)]
  show ?case by simp
qed simp

text \<open>
  Property C19. No capture buffer is lost: while the camera is done with its requests in the regular way and
  takes requests again, each of them is with the camera, on its way to the loop, held by native frames
  or on its way back, and only at one of these places.
\<close>

theorem capture_loses_no_buffer:
  assumes "capture_started R n controls = Inr st0" and "n \<le> 2 ^ 64"
    and "run_capture S n events st0 = Some st" and "\<forall>event \<in> set events. loses_none event"
  shows "mset (st_queued st) + mset (map fst (st_completed st)) + mset_set {cookie. 0 < st_refs st cookie} +
      mset (st_returned st) = mset (map of_nat [0..<n])"
proof -
  have c: "conserved n st0" by (rule capture_started_conserved [OF assms(1)])
  have "st_lost st0 = []" using assms(1) by (auto simp: capture_started_def bindE_eq_Inr)
  with run_capture_lost [OF assms(2) c assms(4,3)] have "st_lost st = []" by simp
  with run_capture_conserved [OF assms(2) c assms(3)] show ?thesis
    by (simp add: conserved_def places_def held_def)
qed

text \<open>Fact. Whatever happens, a camera that was acquired is released last and one that was started is stopped before.\<close>

lemma camera_calls_balanced:
  "snd (run_libcamera_loop C R camera_index width height native_frame_output controls events) \<in>
     {[], [CameraAcquire, CameraRelease], [CameraAcquire, CameraStart, CameraStop, CameraRelease]}"
  by (simp add: run_libcamera_loop_def run_libcamera_loop_inner_def split: sum.split prod.split)

subsection \<open>An example\<close>

text \<open>Two buffers; the frame of the first request is kept by its consumer, that of the second is not.\<close>

definition example_capture :: "unit capture_setup" where
  "example_capture =
     \<lparr>su_width = 4, su_height = 2, su_stride = 4, su_format = FormatI420, su_controls = [],
      su_buffers = Native [\<lparr>ni_fd = 7, ni_size = 12\<rparr>, \<lparr>ni_fd = 8, ni_size = 12\<rparr>]\<rparr>"

definition example_env :: "nat \<Rightarrow> unit capture_env" where
  "example_env kept =
     \<lparr>ce_stop = False, ce_disconnected = False, ce_queues = (\<lambda>_. True), ce_adapt = (True, 2, 1),
      ce_i420_copy = (\<lambda>y u v width height. Some ()), ce_nv12_copy = (\<lambda>y uv width height. Some ()),
      ce_scale = (\<lambda>width height b. Some b), ce_translate = (\<lambda>t. t), ce_kept = kept\<rparr>"

definition example_done :: "u64 \<Rightarrow> completed_request" where
  "example_done cookie = \<lparr>cr_cookie = cookie, cr_complete = True, cr_buffer = Some (True, 33000)\<rparr>"

definition example_events :: "unit capture_event list" where
  "example_events =
     [RequestCompleted (example_done 0), RequestCompleted (example_done 1), LoopRound (example_env 1),
      FrameShared 0, FrameDropped 0, LoopRound (example_env 0)]"

definition example_setup :: "unit camera_setup" where
  "example_setup =
     \<lparr>cs_manager = Inr 1, cs_get_camera = (\<lambda>_. Inr ()), cs_acquire = Inr (), cs_generate_configuration = Inr (),
      cs_at_0 = Inr (), cs_validate = (\<lambda>_ _ _. Inr ()), cs_configure = Inr (),
      cs_stream_configuration = \<lparr>sc_width = 4, sc_height = 2, sc_fourcc = YU12_FOURCC, sc_stride = 4\<rparr>,
      cs_has_stream = True, cs_allocate = Inr 2, cs_get_buffer = (\<lambda>_. Inr (0, \<lambda>_. None)),
      cs_mmap = (\<lambda>_ _. Inr []), cs_dup_fd = Inr, cs_create_request = (\<lambda>_. Inr ()), cs_add_buffer = (\<lambda>_. Inr ()),
      cs_start = Inr (), cs_queue_request = (\<lambda>_. Inr ())\<rparr>"

definition example_start :: "(unit, unit) capture_state" where
  "example_start =
     \<lparr>st_queued = [0, 1], st_completed = [], st_refs = (\<lambda>_. 0), st_returned = [], st_lost = [],
      st_controls = (\<lambda>_. []), st_frames = []\<rparr>"

lemma example_capture_starts: "capture_started example_setup 2 [] = Inr example_start"
  by (simp add: capture_started_def example_setup_def example_start_def apply_controls_append upt_rec fun_eq_iff)

lemma example_capture_runs:
  "\<exists>frames. run_capture example_capture 2 example_events example_start =
     Some \<lparr>st_queued = [], st_completed = [], st_refs = (\<lambda>_. 0)(0 := 1), st_returned = [1], st_lost = [],
       st_controls = (\<lambda>_. []), st_frames = frames\<rparr>"
  by (simp add: example_events_def example_done_def example_start_def on_request_completed_def
      capture_round_def drain_returned_def handle_completed_def on_native_frame_buffer_def example_env_def
      example_capture_def)

theorem native_frames_keep_buffers_witness:
  "\<exists>st. run_capture example_capture 2 example_events example_start = Some st \<and> 0 < st_refs st 0 \<and>
     0 \<notin> set (st_queued st)"
proof -
  obtain st where st: "run_capture example_capture 2 example_events example_start = Some st" "0 < st_refs st 0"
    using example_capture_runs by fastforce
  from native_frames_keep_buffers [OF example_capture_starts _ this] st show ?thesis by auto
qed

theorem capture_loses_no_buffer_witness:
  "\<exists>st. run_capture example_capture 2 example_events example_start = Some st \<and>
     mset (st_queued st) + mset (map fst (st_completed st)) + mset_set {cookie. 0 < st_refs st cookie} +
      mset (st_returned st) = {#0, 1#}"
proof -
  obtain st where st: "run_capture example_capture 2 example_events example_start = Some st"
    using example_capture_runs by fastforce
  have "\<forall>event \<in> set example_events. loses_none event"
    by (simp add: example_events_def on_request_completed_def example_done_def example_env_def)
  from capture_loses_no_buffer [OF example_capture_starts _ st this] st show ?thesis
    by (auto simp: upt_rec)
qed

end
