(* ===== verification/Spec2Isabelle.thy ===== *)
theory Spec2Isabelle
  imports Mp4_Encoder Audio_Codec Version Conn_Timeouts Conn_Handle Conn_Builder Context Vpl Amf Nvcodec
    Openh264 V4l2 Libcamera_Capture
begin

text \<open>
  A model of the Sora Rust SDK: the client library of the WebRTC SFU Sora (the crate under
  \<^verbatim>\<open>src/\<close>), which connects to a signaling server, negotiates a WebRTC session, carries
  signaling, RPC and user messages, and provides video codecs and capturers to WebRTC.

  \<^bigskip>
  \<^bold>\<open>The program.\<close> An application builds a \<^verbatim>\<open>SoraConnectionContext\<close> (codec capabilities and preferences,
  threads, audio device), configures a \<^verbatim>\<open>SoraConnectionBuilder\<close>, and gets a \<^verbatim>\<open>SoraConnection\<close>, whose
  \<^verbatim>\<open>run\<close> is one long task, and a \<^verbatim>\<open>SoraConnectionHandle\<close>, which sends commands to it. \<^verbatim>\<open>run\<close> connects a
  WebSocket to one of the signaling servers, perhaps through a proxy and TLS, sends the connect message, answers
  the offer, and then loops over a select: bytes of the stream, timers, events of the peer connection and of its
  data channels, and commands of the handles. Signaling may move to data channels, the server may redirect, and
  the loop ends with a reason. WebRTC calls back into the crate for codecs: factories that pick one of the
  capabilities (built in, MP4 pass-through, VPL, AMF, NVENC, OpenH264, V4L2) by the preference, and capturers (MP4,
  libcamera) that push frames.

  \<^bigskip>
  \<^bold>\<open>What is a parameter.\<close> Code that is not in the repository is a record of operations that the definitions take
  as an argument: the WebRTC crate (\<open>webrtc\<close>, \<open>audio_webrtc\<close>, \<open>pc_lib\<close>, \<open>channel_lib\<close>, \<open>context_lib\<close>), JSON
  (\<open>nojson\<close>), sockets, TLS, WebSocket, HTTP and the clock (\<open>io_lib\<close>, \<open>connect_lib\<close> and others collected
  in \<open>conn_lib\<close>), the MP4 demuxer and the OBU and SPS parsers, the vendor codecs, the camera, and the inflater. Its
  state is the type \<open>'w\<close>. What a theorem relies on is a named hypothesis (\<open>json_faithful\<close>, \<open>members_found\<close>,
  \<open>winds_down\<close>, \<open>drains\<close> and the like), and its witness gives an instance. No definition of a foreign
  function is made up.

  \<^bigskip>
  \<^bold>\<open>Conventions.\<close> A \<^verbatim>\<open>Result\<close> is a sum with the error on the left. Integers of fixed width are words; a \<^verbatim>\<open>usize\<close>
  is a natural number, or a 64 bit word where it is computed with. An \<^verbatim>\<open>f64\<close> is its bit pattern where it is
  passed on and a number with infinities and NaN where it is compared. Texts are lists of characters of 8 bits.
  Functions of the connection are statements (\<open>Exec\<close>): state passing with an error that ends the function, and
  \<open>None\<close> for a panic or for code that does not return; so totality theorems exclude both. Callbacks to the
  event handler, answers to handles and background tasks are recorded in the state. A \<^verbatim>\<open>timeout\<close> is the
  function \<open>await\<close> on what arrives and when. Loops that depend on the outside are \<open>partial_function\<close>s, so that
  not ending is \<open>None\<close>; there is no fuel.

  \<^bigskip>
  \<^bold>\<open>The connection\<close> (\<^verbatim>\<open>src/connection.rs\<close>).
  \<^item> \<open>Conn_Builder\<close>: the builder with each of its setters, \<^verbatim>\<open>SoraConnection::new\<close>, the observer of the peer
    connection, the certificate verifier for TURN, and the settings that \<^verbatim>\<open>run\<close> passes on. What was configured
    last is what the connect message says.
  \<^item> \<open>Url\<close>, \<open>Transport\<close>: signaling targets, proxies, TLS settings, the tunnel through a proxy with what it read
    ahead, the race over the URLs, and the stream with the timers of the WebSocket. No byte of a proxy is
    taken for one of the TLS peer; \<^verbatim>\<open>wss\<close> is always encrypted.
  \<^item> \<open>Signaling\<close>, \<open>Types\<close>, \<open>Json\<close> (\<^verbatim>\<open>src/signaling_types.rs\<close>, \<^verbatim>\<open>src/types.rs\<close>): the messages, read and written.
    Every JSON object that stands for a message of the server is read as that message.
  \<^item> \<open>Negotiation\<close>: \<^verbatim>\<open>handle_offer\<close> and what it calls; an answer was applied before it is given away, tracks
    are added once, and it always returns.
  \<^item> \<open>Media_Path\<close>, \<open>Data_Channels\<close>, \<open>Rpc\<close> (\<^verbatim>\<open>src/rpc.rs\<close>), \<open>Zlib\<close> (\<^verbatim>\<open>src/zlib.rs\<close>): the grace timers of a lost
    media path, the data channels, the reading of JSON-RPC responses, and decompression within a limit.
  \<^item> \<open>Conn_State\<close>: the state of a connection (\<open>conn\<close>, the local variables of \<^verbatim>\<open>run\<close> with the fields of
    \<^verbatim>\<open>SoraConnection\<close>), events and commands. \<open>Close_Handshake\<close>, \<open>Channel_Messages\<close>, \<open>Conn_Events\<close> and
    \<open>Conn_Websocket\<close>: one definition per branch of the select and per event, command and message; \<open>loop_round\<close>
    is one round of the loop. \<open>Connection\<close>: \<open>run_start\<close>, the step relation \<open>conn_step\<close> of the loop together with the
    tasks around it, the reachable states \<open>running\<close>, and \<open>finish\<close>. Which ready branch is taken, and when a timer
    fires, is open.
  \<^item> \<open>Conn_Invariants\<close>: the locales of an invariant of the loop; one proof that a predicate is kept by the
    basic statements gives that the loop keeps it. \<open>Conn_Properties\<close>, \<open>Conn_Calls\<close> and \<open>Conn_Timeouts\<close> interpret
    them: open and close callbacks match, the first reason is returned, each call of a handle is answered
    at most once and in its kind, and no request waits for ever. Aborting a timer takes
    effect at once.
  \<^item> \<open>Conn_Handle\<close>: the calls of a handle, on top of \<open>Conn_Calls\<close>.

  \<^bigskip>
  \<^bold>\<open>Codecs.\<close>
  \<^item> \<open>Sdp\<close>, \<open>Video_Capability\<close>, \<open>Video_Preference\<close>, \<open>Video_Codec\<close> and \<open>Audio_Capability\<close>, \<open>Audio_Preference\<close>,
    \<open>Audio_Codec\<close> (the files of these names): capabilities as records of methods, preferences with merging
    and validation, the factories and the alignment adapter. \<open>Codec_Preference\<close> is the locale of what the
    two kinds of preference share. \<open>Context\<close> (\<^verbatim>\<open>src/connection_context.rs\<close>) puts them together; its defaults are valid.
  \<^item> \<open>Mp4_Types\<close>, \<open>Mp4_Sample\<close>, \<open>Mp4_Reader\<close>, \<open>Mp4_Encoder\<close>, \<open>H264\<close>, \<open>Av1\<close> (\<^verbatim>\<open>src/video_codecs\<close>): opening an MP4
    file with every rejection, reading samples, pacing them, and the encoder that passes them through. What
    arrives at the callback can be decoded: the samples of the file, in order, from a key frame, without a gap.
  \<^item> \<open>Hw_Codec\<close> with \<open>Vpl\<close>, \<open>Amf\<close> and \<open>Nvcodec\<close>; \<open>Openh264\<close>; \<open>V4l2\<close>: encoders, decoders and capabilities. The locale
    \<open>controlled_encoder\<close> is their contract: whatever calls came and whatever failed, a frame is encoded
    with the size it has and the rates asked for last.
  \<^item> \<open>Libcamera\<close>, \<open>Libcamera_Capture\<close> (\<^verbatim>\<open>src/libcamera.rs\<close>): the capturer, its frame buffers and copies, the controls,
    and the capture loop; a buffer is never captured into while a frame still uses it.

  \<^bigskip>
  \<^bold>\<open>Shared.\<close> \<open>Prelude\<close> (results, words, decimal texts, maps), \<open>Exec\<close> (statements and their triples), \<open>Sora_Error\<close>
  (\<^verbatim>\<open>src/error.rs\<close>), \<open>Version\<close> (\<^verbatim>\<open>src/version.rs\<close>).

  \<^bigskip>
  \<^bold>\<open>Bounds.\<close> The limits are those of the code, written out where they matter: 5 s for an SDP operation and for
  statistics, the timeouts of the builder, 100 ms for a sleep of the pacing wait, the size limits of messages and
  tunnels. Termination of a loop that reads from outside is stated with a progress law of the outside
  (\<open>winds_down\<close>, a demuxer that consumes its file).

  \<^bigskip>
  \<^bold>\<open>Not modelled.\<close> The text syntax of JSON, HTTP and SDP (the crates'), log output, the destruction order of objects
  of libwebrtc, memory safety of the \<^verbatim>\<open>unsafe\<close> blocks beyond the bounds of the copies, and the
  programs under \<^verbatim>\<open>examples\<close>, \<^verbatim>\<open>e2e-tests\<close> and \<^verbatim>\<open>pbt\<close>.
\<close>

end
